(* ===== verification/Prelude.thy ===== *)
theory Prelude
  imports Main "HOL-Library.Char_ord" "HOL-Library.List_Lexorder" "HOL-Library.Product_Lexorder"
begin

text \<open>
  Shared vocabulary of the development: Go's time values, durations and strings, the
  white-space trimming of the standard library, the list operations that an SQL statement
  of the repositories denotes (selection, update, ordered and bounded reads), and the
  contract that every state machine of the development is an instance of.

  \<^item> A \<open>time.Time\<close> is the number of nanoseconds since Go's zero time (1 January of year 1,
    UTC), so that \<open>IsZero\<close> is equality with 0 and \<open>UnixMilli\<close> subtracts the distance to
    the Unix epoch. A \<open>time.Duration\<close> is its number of nanoseconds.
  \<^item> A Go string is its list of bytes; the library order on \<open>char list\<close> is the byte order
    that SQLite's default collation uses.
\<close>

section \<open>Collections of facts\<close>

named_theorems handler_defs \<open>definitions of the handlers of a state machine\<close>
named_theorems frame \<open>what an operation leaves unchanged\<close>
named_theorems preserves \<open>an operation keeps its component's invariant\<close>

section \<open>Time\<close>

type_synonym gotime = int
type_synonym duration = int

definition isZero :: "gotime \<Rightarrow> bool" where
  "isZero t = (t = 0)"

definition unixEpoch :: gotime where
  "unixEpoch = 62135596800 * 1000000000"

definition unixMilliOf :: "gotime \<Rightarrow> int" where
  "unixMilliOf t = (t - unixEpoch) div 1000000"

definition timeOfUnixMilli :: "int \<Rightarrow> gotime" where
  "timeOfUnixMilli ms = unixEpoch + ms * 1000000"

lemma unixMilliOf_timeOfUnixMilli [simp]: "unixMilliOf (timeOfUnixMilli ms) = ms"
  by (simp add: unixMilliOf_def timeOfUnixMilli_def)

lemma unixMilliOf_mono: "s \<le> t \<Longrightarrow> unixMilliOf s \<le> unixMilliOf t"
  by (simp add: unixMilliOf_def zdiv_mono1)

section \<open>White space\<close>

text \<open>
  \<open>strings.TrimSpace\<close> removes leading and trailing code points with the Unicode white-space
  property. On the bytes of a UTF-8 string these are the six ASCII blanks and the encodings
  of U+0085, U+00A0, U+1680, U+2000 to U+200A, U+2028, U+2029, U+202F, U+205F and U+3000.
\<close>

definition byte :: "nat \<Rightarrow> char" where
  "byte n = char_of n"

definition asciiBlank :: "char \<Rightarrow> bool" where
  "asciiBlank c = (let n = (of_char c :: nat) in n = 32 \<or> (9 \<le> n \<and> n \<le> 13))"

definition wideBlanks :: "string list" where
  "wideBlanks =
     [[byte 194, byte 133], [byte 194, byte 160], [byte 225, byte 154, byte 128]] @
     map (\<lambda>k. [byte 226, byte 128, byte k]) ([128..<139] @ [168, 169, 175]) @
     [[byte 226, byte 129, byte 159], [byte 227, byte 128, byte 128]]"

fun stripPrefix :: "string \<Rightarrow> string \<Rightarrow> string option" where
  "stripPrefix [] s = Some s"
| "stripPrefix (p # ps) [] = None"
| "stripPrefix (p # ps) (c # cs) = (if p = c then stripPrefix ps cs else None)"

fun stripFirst :: "string list \<Rightarrow> string \<Rightarrow> string option" where
  "stripFirst [] s = None"
| "stripFirst (p # ps) s = (case stripPrefix p s of Some r \<Rightarrow> Some r | None \<Rightarrow> stripFirst ps s)"

definition stripBlank :: "string list \<Rightarrow> string \<Rightarrow> string option" where
  "stripBlank wide s =
     (case s of [] \<Rightarrow> None
      | c # cs \<Rightarrow> if asciiBlank c then Some cs else stripFirst wide s)"

lemma stripPrefix_length: "stripPrefix p s = Some r \<Longrightarrow> length s = length p + length r"
  by (induction p s rule: stripPrefix.induct) (auto split: if_splits)

lemma stripFirst_length:
  "stripFirst ps s = Some r \<Longrightarrow> \<exists>p \<in> set ps. length s = length p + length r"
  by (induction ps) (auto split: option.splits dest: stripPrefix_length)

function trimLeftBlank :: "string list \<Rightarrow> string \<Rightarrow> string" where
  "trimLeftBlank wide s =
     (case stripBlank wide s of None \<Rightarrow> s
      | Some r \<Rightarrow> if length r < length s then trimLeftBlank wide r else s)"
  by pat_completeness auto
termination
  by (relation "measure (\<lambda>(w, s). length s)") auto

declare trimLeftBlank.simps [simp del]

definition trimSpace :: "string \<Rightarrow> string" where
  "trimSpace s = rev (trimLeftBlank (map rev wideBlanks) (rev (trimLeftBlank wideBlanks s)))"

abbreviation blank :: "string \<Rightarrow> bool" where
  "blank s \<equiv> trimSpace s = ''''"

text \<open>A string of visible ASCII characters is its own trimming.\<close>

definition plainChar :: "char \<Rightarrow> bool" where
  "plainChar c = (let n = (of_char c :: nat) in 33 \<le> n \<and> n < 128)"

lemma stripPrefix_high:
  "128 \<le> (of_char p :: nat) \<Longrightarrow> plainChar c \<Longrightarrow> stripPrefix (p # ps) (c # s) = None"
  by (auto simp: plainChar_def Let_def)

lemma wideBlanks_high:
  "w \<in> set wideBlanks \<Longrightarrow> w \<noteq> [] \<and> (\<forall>c \<in> set w. 128 \<le> (of_char c :: nat))"
  by (auto simp: wideBlanks_def byte_def)

lemma stripFirst_plain:
  "(\<And>w. w \<in> set ws \<Longrightarrow> w \<noteq> [] \<and> (\<forall>c \<in> set w. 128 \<le> (of_char c :: nat))) \<Longrightarrow>
   plainChar c \<Longrightarrow> stripFirst ws (c # s) = None"
proof (induction ws)
  case (Cons w ws)
  then obtain p ps where "w = p # ps" and "128 \<le> (of_char p :: nat)"
    by (cases w) force+
  then have "stripFirst (w # ws) (c # s) = stripFirst ws (c # s)"
    using stripPrefix_high [of p c ps s] Cons.prems(2) by (simp del: stripPrefix.simps)
  also have "\<dots> = None"
    by (rule Cons.IH) (use Cons.prems in auto)
  finally show ?case .
qed simp

lemma trimLeftBlank_plain:
  "(\<And>w. w \<in> set ws \<Longrightarrow> w \<noteq> [] \<and> (\<forall>c \<in> set w. 128 \<le> (of_char c :: nat))) \<Longrightarrow>
   (\<forall>c \<in> set s. plainChar c) \<Longrightarrow> trimLeftBlank ws s = s"
  by (cases s; subst trimLeftBlank.simps)
    (auto simp: stripBlank_def stripFirst_plain asciiBlank_def plainChar_def Let_def)

lemma trimSpace_plain: "(\<forall>c \<in> set s. plainChar c) \<Longrightarrow> trimSpace s = s"
proof -
  assume plain: "\<forall>c \<in> set s. plainChar c"
  have "trimLeftBlank wideBlanks s = s"
    using wideBlanks_high plain by (intro trimLeftBlank_plain) auto
  moreover have "trimLeftBlank (map rev wideBlanks) (rev s) = rev s"
    using wideBlanks_high plain by (intro trimLeftBlank_plain) auto
  ultimately show "trimSpace s = s" by (simp add: trimSpace_def)
qed

text \<open>SQLite's \<open>trim(x)\<close> removes the space character only.\<close>

definition sqlTrim :: "string \<Rightarrow> string" where
  "sqlTrim s = rev (dropWhile (\<lambda>c. c = CHR '' '') (rev (dropWhile (\<lambda>c. c = CHR '' '') s)))"

lemma trimLeftBlank_Cons_space [simp]:
  "trimLeftBlank wide (CHR '' '' # s) = trimLeftBlank wide s"
  by (subst trimLeftBlank.simps) (simp add: stripBlank_def asciiBlank_def)

lemma trimLeftBlank_Nil [simp]: "trimLeftBlank wide [] = []"
  by (subst trimLeftBlank.simps) (simp add: stripBlank_def)

lemma trimLeftBlank_spaces: "\<forall>c \<in> set s. c = CHR '' '' \<Longrightarrow> trimLeftBlank wide s = []"
  by (induction s) auto

lemma trimSpace_Nil [simp]: "trimSpace [] = []"
  by (simp add: trimSpace_def)

lemma dropWhile_all_iff: "(\<forall>c \<in> set (dropWhile P s). P c) \<longleftrightarrow> (\<forall>c \<in> set s. P c)"
  by (induction s) auto

lemma sqlTrim_eq_Nil: "sqlTrim s = [] \<longleftrightarrow> (\<forall>c \<in> set s. c = CHR '' '')"
  by (simp add: sqlTrim_def dropWhile_all_iff [where P = "\<lambda>c. c = CHR '' ''"])

lemma nonblank_sqlTrim [intro]: "\<not> blank s \<Longrightarrow> sqlTrim s \<noteq> []"
proof (rule ccontr)
  assume "\<not> blank s" and "\<not> sqlTrim s \<noteq> []"
  then have "\<forall>c \<in> set s. c = CHR '' ''" by (simp only: sqlTrim_eq_Nil not_not)
  then have "trimLeftBlank wideBlanks s = []" by (rule trimLeftBlank_spaces)
  then have "blank s" by (simp only: trimSpace_def rev.simps trimLeftBlank_Nil)
  with \<open>\<not> blank s\<close> show False by contradiction
qed

text \<open>Trimming twice is trimming once.\<close>

lemma stripPrefix_append: "stripPrefix p s = Some r \<Longrightarrow> stripPrefix p (s @ t) = Some (r @ t)"
  by (induction p s rule: stripPrefix.induct) (auto split: if_splits)

lemma stripPrefix_Some: "stripPrefix p s = Some r \<longleftrightarrow> s = p @ r"
  by (induction p s rule: stripPrefix.induct) auto

lemma stripFirst_None: "stripFirst ps s = None \<longleftrightarrow> (\<forall>p \<in> set ps. stripPrefix p s = None)"
  by (induction ps) (auto split: option.splits)

lemma stripBlank_prefix: "stripBlank wide (s @ t) = None \<Longrightarrow> stripBlank wide s = None"
proof (cases s)
  case (Cons c cs)
  moreover assume "stripBlank wide (s @ t) = None"
  ultimately have "\<not> asciiBlank c" and "\<forall>p \<in> set wide. stripPrefix p (s @ t) = None"
    by (auto simp: stripBlank_def stripFirst_None split: if_splits)
  then have "\<forall>p \<in> set wide. stripPrefix p s = None"
    by (metis not_Some_eq stripPrefix_append)
  with Cons \<open>\<not> asciiBlank c\<close> show ?thesis by (simp add: stripBlank_def stripFirst_None)
qed (simp add: stripBlank_def)

lemma stripBlank_length:
  "[] \<notin> set wide \<Longrightarrow> stripBlank wide s = Some r \<Longrightarrow> length r < length s"
  by (auto simp: stripBlank_def split: list.splits if_splits dest!: stripFirst_length)

lemma trimLeftBlank_done: "stripBlank wide s = None \<Longrightarrow> trimLeftBlank wide s = s"
  by (subst trimLeftBlank.simps) simp

lemma stripBlank_trimLeftBlank:
  "[] \<notin> set wide \<Longrightarrow> stripBlank wide (trimLeftBlank wide s) = None"
proof (induction "length s" arbitrary: s rule: less_induct)
  case less
  show ?case
  proof (cases "stripBlank wide s")
    case (Some r)
    with less.prems have "length r < length s" by (rule stripBlank_length)
    with Some less.hyps [of r] less.prems show ?thesis by (simp add: trimLeftBlank.simps [of wide s])
  qed (simp add: trimLeftBlank_done)
qed

lemma stripBlank_suffix: "stripBlank wide s = Some r \<Longrightarrow> \<exists>w. s = w @ r"
proof -
  have *: "stripFirst ps s = Some r \<Longrightarrow> \<exists>w. s = w @ r" for ps
    by (induction ps) (auto simp: stripPrefix_Some split: option.splits)
  assume "stripBlank wide s = Some r"
  then show ?thesis
    using * by (cases s) (auto simp: stripBlank_def split: if_splits intro: exI [of _ "[hd s]"])
qed

lemma trimLeftBlank_suffix: "\<exists>w. s = w @ trimLeftBlank wide s"
proof (induction "length s" arbitrary: s rule: less_induct)
  case less
  show ?case
  proof (cases "stripBlank wide s")
    case (Some r)
    then obtain w where "s = w @ r" using stripBlank_suffix by blast
    show ?thesis
    proof (cases "length r < length s")
      case True
      obtain w' where "r = w' @ trimLeftBlank wide r" using less [OF True] by (rule exE)
      moreover have "trimLeftBlank wide s = trimLeftBlank wide r"
        using Some True by (simp add: trimLeftBlank.simps [of wide s])
      ultimately have "s = (w @ w') @ trimLeftBlank wide s" using \<open>s = w @ r\<close> by simp
      then show ?thesis by (rule exI)
    next
      case False
      with Some have "trimLeftBlank wide s = s" by (simp add: trimLeftBlank.simps [of wide s])
      then show ?thesis by simp
    qed
  qed (simp add: trimLeftBlank_done)
qed

lemma wideBlanks_nonempty: "[] \<notin> set wideBlanks" "[] \<notin> set (map rev wideBlanks)"
  using wideBlanks_high by force+

text \<open>The two ends of a trimmed text.\<close>

lemma trimSpace_ends:
  "stripBlank wideBlanks (trimSpace s) = None \<and> stripBlank (map rev wideBlanks) (rev (trimSpace s)) = None"
proof -
  define u where "u = trimLeftBlank wideBlanks s"
  define v where "v = trimLeftBlank (map rev wideBlanks) (rev u)"
  have trimmed: "trimSpace s = rev v" by (simp add: trimSpace_def u_def v_def)
  obtain w where "rev u = w @ v" using trimLeftBlank_suffix v_def by blast
  then have "u = rev v @ rev w" by (metis rev_append rev_rev_ident)
  moreover have "stripBlank wideBlanks u = None"
    unfolding u_def by (rule stripBlank_trimLeftBlank [OF wideBlanks_nonempty(1)])
  ultimately have "stripBlank wideBlanks (rev v) = None"
    using stripBlank_prefix by metis
  moreover have "stripBlank (map rev wideBlanks) v = None"
    unfolding v_def by (intro stripBlank_trimLeftBlank wideBlanks_nonempty)
  ultimately show ?thesis by (simp add: trimmed)
qed

lemma trimSpace_done:
  "stripBlank wideBlanks s = None \<Longrightarrow> stripBlank (map rev wideBlanks) (rev s) = None \<Longrightarrow> trimSpace s = s"
  by (simp add: trimSpace_def trimLeftBlank_done)

lemma trimSpace_trimSpace [simp]: "trimSpace (trimSpace s) = trimSpace s"
  using trimSpace_ends by (blast intro: trimSpace_done)

section \<open>SQL statements over lists of rows\<close>

text \<open>
  A table is the list of its rows. \<open>sqlUpdate P f\<close> is \<open>UPDATE .. SET f WHERE P\<close>,
  \<open>sqlCount P\<close> the \<open>RowsAffected\<close> of that statement, \<open>sqlFind P\<close> a single-row query
  (\<open>None\<close> for \<open>sql.ErrNoRows\<close>), \<open>sqlExists P\<close> a \<open>SELECT EXISTS\<close> and
  \<open>sqlTop key n\<close> an \<open>ORDER BY key LIMIT n\<close>.
\<close>

definition sqlUpdate :: "('r \<Rightarrow> bool) \<Rightarrow> ('r \<Rightarrow> 'r) \<Rightarrow> 'r list \<Rightarrow> 'r list" where
  "sqlUpdate P f rows = map (\<lambda>r. if P r then f r else r) rows"

definition sqlCount :: "('r \<Rightarrow> bool) \<Rightarrow> 'r list \<Rightarrow> nat" where
  "sqlCount P rows = length (filter P rows)"

definition sqlFind :: "('r \<Rightarrow> bool) \<Rightarrow> 'r list \<Rightarrow> 'r option" where
  "sqlFind P rows = find P rows"

definition sqlExists :: "('r \<Rightarrow> bool) \<Rightarrow> 'r list \<Rightarrow> bool" where
  "sqlExists P rows = list_ex P rows"

definition sqlTop :: "('r \<Rightarrow> 'k::linorder) \<Rightarrow> nat \<Rightarrow> 'r list \<Rightarrow> 'r list" where
  "sqlTop key n rows = take n (sort_key key rows)"

lemma sqlUpdate_Nil [simp]: "sqlUpdate P f [] = []"
  by (simp add: sqlUpdate_def)

lemma sqlUpdate_Cons [simp]:
  "sqlUpdate P f (r # rs) = (if P r then f r else r) # sqlUpdate P f rs"
  by (simp add: sqlUpdate_def)

lemma length_sqlUpdate [simp]: "length (sqlUpdate P f rows) = length rows"
  by (simp add: sqlUpdate_def)

lemma set_sqlUpdate: "set (sqlUpdate P f rows) = (\<lambda>r. if P r then f r else r) ` set rows"
  by (simp add: sqlUpdate_def)

lemma map_sqlUpdate [simp]: "(\<And>r. k (f r) = k r) \<Longrightarrow> map k (sqlUpdate P f rows) = map k rows"
  by (simp add: sqlUpdate_def)

lemma sqlUpdate_none: "\<not> sqlExists P rows \<Longrightarrow> sqlUpdate P f rows = rows"
  by (induction rows) (auto simp: sqlExists_def)

lemma sqlExists_iff: "sqlExists P rows \<longleftrightarrow> (\<exists>r \<in> set rows. P r)"
  by (simp add: sqlExists_def list_ex_iff)

lemma sqlCount_0: "sqlCount P rows = 0 \<longleftrightarrow> \<not> sqlExists P rows"
  by (simp add: sqlCount_def sqlExists_iff filter_empty_conv)

lemma sqlFind_Some: "sqlFind P rows = Some r \<Longrightarrow> r \<in> set rows \<and> P r"
  by (auto simp: sqlFind_def find_Some_iff)

lemma sqlFind_None: "sqlFind P rows = None \<longleftrightarrow> \<not> sqlExists P rows"
  by (auto simp: sqlFind_def find_None_iff sqlExists_iff)

lemma sqlFind_snoc: "\<not> sqlExists P xs \<Longrightarrow> P x \<Longrightarrow> sqlFind P (xs @ [x]) = Some x"
  by (induction xs) (auto simp: sqlFind_def sqlExists_def)

lemma sqlFind_sqlUpdate:
  assumes "sqlFind P rows = Some r" and "\<And>x. P (f x) = P x"
  shows "sqlFind P (sqlUpdate Q f rows) = Some (if Q r then f r else r)"
  using assms by (induction rows) (auto simp: sqlFind_def split: if_split_asm)

lemma set_sqlTop: "set (sqlTop key n rows) \<subseteq> set rows"
  using set_take_subset [of n "sort_key key rows"] by (simp add: sqlTop_def)

lemma length_sqlTop: "length (sqlTop key n rows) \<le> n"
  by (simp add: sqlTop_def)

lemma sorted_sqlTop: "sorted (map key (sqlTop key n rows))"
  by (simp add: sqlTop_def take_map [symmetric])

text \<open>The rows that an ordered bounded read leaves out are not below any row it returns.\<close>

lemma sqlTop_least:
  assumes "r \<in> set (sqlTop key n rows)" and "r' \<in> set rows"
    and "r' \<notin> set (sqlTop key n rows)"
  shows "key r \<le> key r'"
proof -
  let ?s = "sort_key key rows"
  from assms(2,3) have "r' \<in> set (drop n ?s)"
    by (metis append_take_drop_id set_append set_sort sqlTop_def Un_iff)
  moreover have "sorted (map key (take n ?s @ drop n ?s))"
    by simp
  ultimately show ?thesis
    using assms(1) by (auto simp: sqlTop_def sorted_append simp del: append_take_drop_id)
qed

lemma distinct_sqlTop:
  assumes "distinct (map k rows)"
  shows "distinct (map k (sqlTop key n (filter P rows)))"
proof -
  have "set (sqlTop key n (filter P rows)) \<subseteq> set rows"
    using set_sqlTop [of key n "filter P rows"] by auto
  with assms have "inj_on k (set (sqlTop key n (filter P rows)))"
    by (auto simp: distinct_map intro: inj_on_subset)
  moreover have "distinct (sqlTop key n (filter P rows))"
    using assms by (simp add: sqlTop_def distinct_map)
  ultimately show ?thesis by (simp add: distinct_map)
qed

text \<open>Updating the one row that carries a key.\<close>

lemma sqlCount_key:
  "distinct (map key rows) \<Longrightarrow> sqlCount (\<lambda>r. key r = k \<and> P r) rows \<le> 1"
proof (induction rows)
  case (Cons r rows)
  then show ?case
  proof (cases "key r = k")
    case True
    with Cons.prems have "\<forall>x \<in> set rows. key x \<noteq> k"
      by (metis distinct.simps(2) image_eqI list.set_map list.simps(9))
    then have "filter (\<lambda>r. key r = k \<and> P r) rows = []"
      by (auto simp: filter_empty_conv)
    then show ?thesis by (simp add: sqlCount_def)
  qed (simp add: sqlCount_def)
qed (simp add: sqlCount_def)

lemma distinct_key_inj:
  "distinct (map key rows) \<Longrightarrow> r \<in> set rows \<Longrightarrow> r' \<in> set rows \<Longrightarrow> key r = key r' \<Longrightarrow> r = r'"
  by (auto simp: distinct_map dest: inj_onD)

text \<open>Tables with keys: a row is appended, or rows are updated that keep what is asked of them.\<close>

lemma sqlExists_snoc: "sqlExists P (rows @ [r]) \<longleftrightarrow> sqlExists P rows \<or> P r"
  by (auto simp: sqlExists_def)

lemma sqlExists_sqlUpdate: "(\<And>r. P (f r) = P r) \<Longrightarrow> sqlExists P (sqlUpdate Q f rows) = sqlExists P rows"
  by (auto simp: sqlExists_iff set_sqlUpdate)

lemma distinct_snoc_key:
  "distinct (map k (rows @ [r])) \<longleftrightarrow> distinct (map k rows) \<and> \<not> sqlExists (\<lambda>x. k x = k r) rows"
  by (auto simp: sqlExists_iff image_iff)

lemma ball_sqlUpdate:
  "(\<forall>r \<in> set (sqlUpdate P f rows). Q r) \<longleftrightarrow> (\<forall>r \<in> set rows. Q (if P r then f r else r))"
  by (simp only: sqlUpdate_def list.set_map ball_simps)

lemma sqlUpdate_cong:
  "(\<And>r. r \<in> set rows \<Longrightarrow> P r \<Longrightarrow> f r = g r) \<Longrightarrow> sqlUpdate P f rows = sqlUpdate P g rows"
  by (simp add: sqlUpdate_def)

lemma distinct_map_filter_key: "distinct (map k rows) \<Longrightarrow> distinct (map k (filter P rows))"
  by (simp add: distinct_map inj_on_def)

text \<open>The row found by a key is the only one with it.\<close>

lemma sqlFind_unique:
  "distinct (map k rows) \<Longrightarrow> sqlFind (\<lambda>r. k r = v) rows = Some x \<Longrightarrow> r \<in> set rows \<Longrightarrow> k r = v \<Longrightarrow> r = x"
  by (auto dest!: sqlFind_Some intro: distinct_key_inj)

lemma sqlFind_key:
  "distinct (map k rows) \<Longrightarrow> x \<in> set rows \<Longrightarrow> k x = v \<Longrightarrow> sqlFind (\<lambda>r. k r = v) rows = Some x"
  by (cases "sqlFind (\<lambda>r. k r = v) rows") (auto simp: sqlFind_None sqlExists_iff dest: sqlFind_unique)

section \<open>State machines\<close>

text \<open>
  The contract of a component with a state: its starting states satisfy the invariant and
  every step keeps it. Every state machine of the development is an interpretation, and
  takes the lifting to reachable states from here.
\<close>

locale machine =
  fixes init :: "'s \<Rightarrow> bool" and step :: "'s \<Rightarrow> 's \<Rightarrow> bool" and inv :: "'s \<Rightarrow> bool"
  assumes inv_init: "init s \<Longrightarrow> inv s"
    and inv_step: "inv s \<Longrightarrow> step s t \<Longrightarrow> inv t"
begin

lemma steps_inv: "step\<^sup>*\<^sup>* s t \<Longrightarrow> inv s \<Longrightarrow> inv t"
  by (induction rule: rtranclp_induct) (auto intro: inv_step)

lemma reachable_inv: "init s \<Longrightarrow> step\<^sup>*\<^sup>* s t \<Longrightarrow> inv t"
  by (blast intro: steps_inv inv_init)

lemma reachable_safe: "(\<And>t. inv t \<Longrightarrow> P t) \<Longrightarrow> init s \<Longrightarrow> step\<^sup>*\<^sup>* s t \<Longrightarrow> P t"
  by (blast intro: reachable_inv)

end


lemma sqlFind_update_other:
  "(\<And>r. P r \<Longrightarrow> \<not> Q r) \<Longrightarrow> (\<And>r. Q r \<Longrightarrow> \<not> P (f r)) \<Longrightarrow>
   sqlFind P (sqlUpdate Q f rows) = sqlFind P rows"
  by (induction rows) (auto simp: sqlFind_def)

lemma sqlFind_snoc_other: "\<not> P r \<Longrightarrow> sqlFind P (rows @ [r]) = sqlFind P rows"
  by (induction rows) (auto simp: sqlFind_def)

lemma sqlFind_sqlUpdate_map:
  "(\<And>x. P (f x) = P x) \<Longrightarrow>
   sqlFind P (sqlUpdate Q f rows) = map_option (\<lambda>r. if Q r then f r else r) (sqlFind P rows)"
  by (induction rows) (auto simp: sqlFind_def)

end
