(* ===== verification/Bridge_Types.thy ===== *)
theory Bridge_Types
  imports Prelude
begin

text \<open>
  The vocabulary of package \<open>bridge\<close>: the connection states and the retry policy of
  \<open>internal/bridge/state.go\<close>, the failure classes, operation errors and capability sets of
  \<open>internal/bridge/types.go\<close>, and the requests of \<open>internal/bridge/contracts.go\<close> that the
  supervisor, the registry and the message service exchange.

  Go's error values are a datatype with the shapes that \<open>errors.As\<close> distinguishes: a plain
  error, an \<open>OpError\<close> held by value or by pointer (the pointer may be nil), an error wrapped
  by \<open>fmt.Errorf\<close> and the tree of \<open>errors.Join\<close>. An \<open>OpError\<close> has no \<open>Unwrap\<close> method, so
  the search never enters its cause.
\<close>

section \<open>States and policy\<close>

type_synonym generation = nat
type_synonym platform = string

datatype bridge_state =
    StateUnconfigured | StateUnpaired | StateStopped | StatePairing | StateConnecting
  | StateOnline | StateDegraded | StateBackoff | StateRepairingCredentials | StateBlocked
  | StateStopping

record policy =
  ConnectTimeout :: duration
  ProbeEvery :: duration
  ProbeTimeout :: duration
  LivenessTimeout :: duration
  MinBackoff :: duration
  MaxBackoff :: duration
  MaxSameFingerprint :: int

section \<open>Failures\<close>

datatype failure_class =
    FailureUnset
  | FailureTransient | FailureRateLimited | FailureCredentialsExpired | FailureUnpaired
  | FailureReauthRequired | FailureUpgradeRequired | FailureMisconfigured
  | FailureUnsupported
  | FailureOther string

datatype dispatch_certainty =
    DispatchUnset | DispatchNotCalled | DispatchUncertain | DispatchOther string

datatype go_error =
    PlainError string
  | OpErrorVal op_error
  | OpErrorPtr "op_error option"
  | WrapError string go_error
  | JoinError "go_error list"
and op_error =
  OpError (opClass: failure_class) (opOperation: string) (opRetryAt: gotime)
    (opFingerprint: string) (opDispatch: dispatch_certainty) (opCause: "go_error option")

definition zeroOpError :: op_error where
  "zeroOpError = OpError FailureUnset '''' 0 '''' DispatchUnset None"

fun findOpPtr :: "go_error \<Rightarrow> op_error option option"
  and findOpPtrs :: "go_error list \<Rightarrow> op_error option option" where
  "findOpPtr (PlainError m) = None"
| "findOpPtr (OpErrorVal e) = None"
| "findOpPtr (OpErrorPtr p) = Some p"
| "findOpPtr (WrapError m e) = findOpPtr e"
| "findOpPtr (JoinError es) = findOpPtrs es"
| "findOpPtrs [] = None"
| "findOpPtrs (e # es) = (case findOpPtr e of None \<Rightarrow> findOpPtrs es | Some p \<Rightarrow> Some p)"

fun findOpVal :: "go_error \<Rightarrow> op_error option"
  and findOpVals :: "go_error list \<Rightarrow> op_error option" where
  "findOpVal (PlainError m) = None"
| "findOpVal (OpErrorVal e) = Some e"
| "findOpVal (OpErrorPtr p) = None"
| "findOpVal (WrapError m e) = findOpVal e"
| "findOpVal (JoinError es) = findOpVals es"
| "findOpVals [] = None"
| "findOpVals (e # es) = (case findOpVal e of None \<Rightarrow> findOpVals es | Some v \<Rightarrow> Some v)"

text \<open>
  The search both \<open>classifyFailure\<close> and \<open>asOpError\<close> make: a non-nil pointer first, then
  a value.
\<close>

definition errorsAsOp :: "go_error \<Rightarrow> op_error option" where
  "errorsAsOp e =
     (case findOpPtr e of Some (Some p) \<Rightarrow> Some p | _ \<Rightarrow> findOpVal e)"

section \<open>Capabilities\<close>

datatype capability =
    CapabilityStartConversation | CapabilityTextSend | CapabilityMediaSend
  | CapabilityReactions | CapabilityReadReceipts | CapabilityMediaDownload
  | CapabilityOther string

record capability_set =
  StartConversation :: bool
  TextSend :: bool
  MediaSend :: bool
  Reactions :: bool
  ReadReceipts :: bool
  PairQR :: bool
  PairPhone :: bool
  MediaDownload :: bool

definition noCapabilities :: capability_set where
  "noCapabilities = \<lparr>StartConversation = False, TextSend = False, MediaSend = False,
     Reactions = False, ReadReceipts = False, PairQR = False, PairPhone = False,
     MediaDownload = False\<rparr>"

section \<open>Snapshots and requests\<close>

record snapshot =
  snapAccountID :: string
  snapPlatform :: platform
  snapState :: bridge_state
  snapGeneration :: generation
  snapLastEventAt :: gotime
  snapLastProbeOKAt :: gotime
  snapLivenessDeadline :: gotime
  snapRetryAt :: gotime
  snapErrorClass :: failure_class
  snapErrorFingerprint :: string

definition newSnapshot :: "string \<Rightarrow> platform \<Rightarrow> bridge_state \<Rightarrow> snapshot" where
  "newSnapshot account plat st = \<lparr>snapAccountID = account, snapPlatform = plat,
     snapState = st, snapGeneration = 0, snapLastEventAt = 0, snapLastProbeOKAt = 0,
     snapLivenessDeadline = 0, snapRetryAt = 0, snapErrorClass = FailureUnset,
     snapErrorFingerprint = ''''\<rparr>"

record start_request =
  reqAccountID :: string
  reqDeviceID :: string
  reqRemoteAccountID :: string
  reqGeneration :: generation

datatype pair_method = PairByQR | PairByPhoneCode | PairByOther string

record pair_request =
  pairAccountID :: string
  pairMethod :: pair_method
  pairPhone :: string

record pair_event =
  pevKind :: string
  pevPayload :: string
  pevExpiresAt :: gotime
  pevMessage :: string

record pair_result =
  prRemoteAccountID :: string
  prRemoteDeviceID :: string

record message_ref =
  refRemoteID :: string
  refAuthorID :: string
  refSentAt :: gotime
  refText :: string

end
