(* ===== verification/Registry.thy ===== *)
theory Registry
  imports Bridge_Types
begin

text \<open>
  \<open>internal/bridge/registry.go\<close>: the index of registered adapters by account, what it reports
  of their capabilities and the dispatch leases it hands out.

  An adapter is its handle, its identity and the set of optional interfaces it implements (a
  type assertion is the flag of that interface). A narrow view of an adapter is the handle
  it forwards to. The registry is a map from account IDs; its mutex has no counterpart
  because every operation reads or writes the map once.
\<close>

section \<open>Adapters, entries and leases\<close>

datatype registry_error =
    ErrAdapterRequired
  | RegInvalidAccountID string
  | RegInvalidPlatform string
  | ErrAccountAlreadyExists string
  | ErrAccountNotRegistered string
  | ErrCapabilityNotExposed string capability
  | ErrCapabilityNotWired string capability
  | ErrCapabilityUnsupported string capability
  | ErrUnknownCapability capability
  | ErrAcquireContextNil
  | ErrAcquireContext go_error

type_synonym handle = nat

record adapter =
  adHandle :: handle
  adAccountID :: string
  adPlatform :: platform
  adConversation :: bool
  adText :: bool
  adMedia :: bool
  adReaction :: bool
  adReadReceipt :: bool
  adDownload :: bool
  adPairer :: bool
  adDeclared :: "capability_set option"

record registry_entry =
  enSnapshot :: snapshot
  enCaps :: capability_set
  enLifecycle :: handle
  enConversation :: "handle option"
  enText :: "handle option"
  enMedia :: "handle option"
  enReaction :: "handle option"
  enReadReceipt :: "handle option"
  enDownload :: "handle option"
  enPairer :: "handle option"

type_synonym registry = "string \<rightharpoonup> registry_entry"

record dispatch_lease =
  leaseAccountID :: string
  leasePlatform :: platform
  leaseGeneration :: generation
  leaseText :: "handle option"
  leaseMedia :: "handle option"
  leaseReaction :: "handle option"
  leaseReadReceipt :: "handle option"
  leaseDownload :: "handle option"
  leaseClosed :: bool

section \<open>Operations\<close>

definition newRegistry :: registry where
  "newRegistry = Map.empty"

definition mergeCapabilitySets :: "capability_set \<Rightarrow> capability_set \<Rightarrow> capability_set" where
  "mergeCapabilitySets a b = \<lparr>
     StartConversation = StartConversation a \<or> StartConversation b,
     TextSend = TextSend a \<or> TextSend b,
     MediaSend = MediaSend a \<or> MediaSend b,
     Reactions = Reactions a \<or> Reactions b,
     ReadReceipts = ReadReceipts a \<or> ReadReceipts b,
     PairQR = PairQR a \<or> PairQR b,
     PairPhone = PairPhone a \<or> PairPhone b,
     MediaDownload = MediaDownload a \<or> MediaDownload b\<rparr>"

definition implemented :: "adapter \<Rightarrow> bool \<Rightarrow> handle option" where
  "implemented a b = (if b then Some (adHandle a) else None)"

definition discoverRegistryEntry :: "adapter \<Rightarrow> registry_entry" where
  "discoverRegistryEntry a =
     (let found = \<lparr>StartConversation = adConversation a, TextSend = adText a,
                   MediaSend = adMedia a, Reactions = adReaction a,
                   ReadReceipts = adReadReceipt a, PairQR = False, PairPhone = False,
                   MediaDownload = adDownload a\<rparr>;
          caps = (case adDeclared a of None \<Rightarrow> found
                  | Some declared \<Rightarrow> mergeCapabilitySets found declared)
      in \<lparr>enSnapshot = newSnapshot '''' '''' StateUnconfigured, enCaps = caps,
          enLifecycle = adHandle a,
          enConversation = implemented a (adConversation a),
          enText = implemented a (adText a), enMedia = implemented a (adMedia a),
          enReaction = implemented a (adReaction a),
          enReadReceipt = implemented a (adReadReceipt a),
          enDownload = implemented a (adDownload a), enPairer = implemented a (adPairer a)\<rparr>)"

text \<open>\<open>None\<close> is a nil adapter (or an interface holding a nil pointer).\<close>

definition register :: "adapter option \<Rightarrow> registry \<Rightarrow> registry_error + registry" where
  "register adapter r =
     (case adapter of None \<Rightarrow> Inl ErrAdapterRequired
      | Some a \<Rightarrow>
          let rawAccountID = adAccountID a;
              accountID = trimSpace rawAccountID;
              rawPlatform = adPlatform a;
              plat = trimSpace rawPlatform
          in if accountID = '''' then Inl (RegInvalidAccountID rawAccountID)
             else if accountID \<noteq> rawAccountID then Inl (RegInvalidAccountID rawAccountID)
             else if plat = '''' then Inl (RegInvalidPlatform rawPlatform)
             else if plat \<noteq> rawPlatform then Inl (RegInvalidPlatform rawPlatform)
             else if r accountID \<noteq> None then Inl (ErrAccountAlreadyExists accountID)
             else Inr (r(accountID \<mapsto> (discoverRegistryEntry a)
                     \<lparr>enSnapshot := newSnapshot accountID plat StateStopped\<rparr>)))"

definition registrySnapshot :: "string \<Rightarrow> registry \<Rightarrow> snapshot option" where
  "registrySnapshot accountID r = map_option enSnapshot (r accountID)"

definition capabilities :: "string \<Rightarrow> registry \<Rightarrow> capability_set" where
  "capabilities accountID r =
     (case r accountID of None \<Rightarrow> noCapabilities | Some e \<Rightarrow> enCaps e)"

fun capabilityReported :: "capability_set \<Rightarrow> capability \<Rightarrow> bool" where
  "capabilityReported caps CapabilityStartConversation = StartConversation caps"
| "capabilityReported caps CapabilityTextSend = TextSend caps"
| "capabilityReported caps CapabilityMediaSend = MediaSend caps"
| "capabilityReported caps CapabilityReactions = Reactions caps"
| "capabilityReported caps CapabilityReadReceipts = ReadReceipts caps"
| "capabilityReported caps CapabilityMediaDownload = MediaDownload caps"
| "capabilityReported caps (CapabilityOther c) = False"

text \<open>\<open>(available, known)\<close>.\<close>

fun hasDispatchCapability :: "registry_entry \<Rightarrow> capability \<Rightarrow> bool \<times> bool" where
  "hasDispatchCapability e CapabilityStartConversation = (False, True)"
| "hasDispatchCapability e CapabilityTextSend = (enText e \<noteq> None, True)"
| "hasDispatchCapability e CapabilityMediaSend = (enMedia e \<noteq> None, True)"
| "hasDispatchCapability e CapabilityReactions = (enReaction e \<noteq> None, True)"
| "hasDispatchCapability e CapabilityReadReceipts = (enReadReceipt e \<noteq> None, True)"
| "hasDispatchCapability e CapabilityMediaDownload = (enDownload e \<noteq> None, True)"
| "hasDispatchCapability e (CapabilityOther c) = (False, False)"

definition narrow :: "handle option \<Rightarrow> handle option" where
  "narrow target = (case target of None \<Rightarrow> None | Some t \<Rightarrow> Some t)"

text \<open>\<open>ctx\<close> is \<open>None\<close> for a nil context and \<open>Some (ctx.Err())\<close> otherwise.\<close>

definition acquire ::
  "go_error option option \<Rightarrow> string \<Rightarrow> capability \<Rightarrow> registry \<Rightarrow> registry_error + dispatch_lease"
where
  "acquire ctx accountID cap r =
     (case ctx of None \<Rightarrow> Inl ErrAcquireContextNil
      | Some (Some err) \<Rightarrow> Inl (ErrAcquireContext err)
      | Some None \<Rightarrow>
          (case r accountID of None \<Rightarrow> Inl (ErrAccountNotRegistered accountID)
           | Some e \<Rightarrow>
               if cap = CapabilityStartConversation \<and> capabilityReported (enCaps e) cap then
                 Inl (ErrCapabilityNotExposed accountID cap)
               else if \<not> snd (hasDispatchCapability e cap) then Inl (ErrUnknownCapability cap)
               else if \<not> fst (hasDispatchCapability e cap) then
                 (if capabilityReported (enCaps e) cap then Inl (ErrCapabilityNotWired accountID cap)
                  else Inl (ErrCapabilityUnsupported accountID cap))
               else Inr \<lparr>leaseAccountID = snapAccountID (enSnapshot e),
                 leasePlatform = snapPlatform (enSnapshot e),
                 leaseGeneration = snapGeneration (enSnapshot e),
                 leaseText = narrow (enText e), leaseMedia = narrow (enMedia e),
                 leaseReaction = narrow (enReaction e),
                 leaseReadReceipt = narrow (enReadReceipt e),
                 leaseDownload = narrow (enDownload e), leaseClosed = False\<rparr>))"

text \<open>\<open>DispatchLease.Close\<close>: the number of calls of the release function, and the lease.\<close>

definition closeLease :: "dispatch_lease option \<Rightarrow> nat \<times> dispatch_lease option" where
  "closeLease lease =
     (case lease of None \<Rightarrow> (0, None)
      | Some l \<Rightarrow> if leaseClosed l then (0, Some l) else (1, Some (l\<lparr>leaseClosed := True\<rparr>)))"

section \<open>Facts\<close>

lemma narrow_id [simp]: "narrow h = h"
  by (simp add: narrow_def split: option.split)

text \<open>The view of a lease that a capability stands for.\<close>

fun leaseView :: "capability \<Rightarrow> dispatch_lease \<Rightarrow> handle option" where
  "leaseView CapabilityTextSend l = leaseText l"
| "leaseView CapabilityMediaSend l = leaseMedia l"
| "leaseView CapabilityReactions l = leaseReaction l"
| "leaseView CapabilityReadReceipts l = leaseReadReceipt l"
| "leaseView CapabilityMediaDownload l = leaseDownload l"
| "leaseView _ l = None"

fun implementedBy :: "adapter \<Rightarrow> capability \<Rightarrow> bool" where
  "implementedBy a CapabilityTextSend = adText a"
| "implementedBy a CapabilityMediaSend = adMedia a"
| "implementedBy a CapabilityReactions = adReaction a"
| "implementedBy a CapabilityReadReceipts = adReadReceipt a"
| "implementedBy a CapabilityMediaDownload = adDownload a"
| "implementedBy a _ = False"

text \<open>Every entry is stored under its own, trimmed and non-blank, account ID.\<close>

definition wellKeyed :: "registry \<Rightarrow> bool" where
  "wellKeyed r \<longleftrightarrow> (\<forall>k e. r k = Some e \<longrightarrow>
     snapAccountID (enSnapshot e) = k \<and> k \<noteq> '''' \<and> trimSpace k = k \<and>
     snapGeneration (enSnapshot e) = 0)"

lemma wellKeyed_new [simp]: "wellKeyed newRegistry"
  by (simp add: wellKeyed_def newRegistry_def)

lemma register_Inr:
  assumes "register a r = Inr r'"
  obtains ad where "a = Some ad" and "trimSpace (adAccountID ad) = adAccountID ad"
    and "adAccountID ad \<noteq> ''''" and "r (adAccountID ad) = None"
    and "r' = r(adAccountID ad \<mapsto> (discoverRegistryEntry ad)
           \<lparr>enSnapshot := newSnapshot (adAccountID ad) (adPlatform ad) StateStopped\<rparr>)"
  using assms by (auto simp: register_def Let_def split: option.splits if_splits)

lemma register_wellKeyed: "wellKeyed r \<Longrightarrow> register a r = Inr r' \<Longrightarrow> wellKeyed r'"
  by (elim register_Inr) (auto simp: wellKeyed_def newSnapshot_def)

lemma acquire_Inr:
  assumes "acquire ctx k c r = Inr l"
  obtains e where "r k = Some e" and "ctx = Some None" and "fst (hasDispatchCapability e c)"
    and "leaseAccountID l = snapAccountID (enSnapshot e)"
    and "leaseGeneration l = snapGeneration (enSnapshot e)"
    and "leaseText l = enText e" and "leaseMedia l = enMedia e"
    and "leaseReaction l = enReaction e" and "leaseReadReceipt l = enReadReceipt e"
    and "leaseDownload l = enDownload e" and "\<not> leaseClosed l"
  using assms by (auto simp: acquire_def split: option.splits if_splits)

lemma acquire_view:
  assumes "acquire ctx k c r = Inr l"
  shows "leaseView c l \<noteq> None"
  using assms by (elim acquire_Inr) (cases c; simp)

section \<open>The lease contract\<close>

text \<open>
  What the message dispatcher relies on: a lease that \<open>Acquire\<close> hands out is for the account
  that was asked for and exposes the capability that was asked for.
\<close>

locale lease_source =
  fixes acq :: "go_error option option \<Rightarrow> string \<Rightarrow> capability \<Rightarrow> 'r \<Rightarrow> registry_error + dispatch_lease"
    and ok :: "'r \<Rightarrow> bool"
  assumes leased_account: "ok r \<Longrightarrow> acq ctx k c r = Inr l \<Longrightarrow> leaseAccountID l = k"
    and leased_view: "ok r \<Longrightarrow> acq ctx k c r = Inr l \<Longrightarrow> leaseView c l \<noteq> None"
begin

lemma text_lease: "ok r \<Longrightarrow> acq ctx k CapabilityTextSend r = Inr l \<Longrightarrow> leaseText l \<noteq> None"
  using leased_view [of r ctx k CapabilityTextSend l] by simp

lemma media_lease: "ok r \<Longrightarrow> acq ctx k CapabilityMediaSend r = Inr l \<Longrightarrow> leaseMedia l \<noteq> None"
  using leased_view [of r ctx k CapabilityMediaSend l] by simp

lemma no_conversation_lease: "ok r \<Longrightarrow> acq ctx k CapabilityStartConversation r \<noteq> Inr l"
  using leased_view [of r ctx k CapabilityStartConversation l] by auto

end

interpretation reg: lease_source acquire wellKeyed
proof
  fix r ctx k c l
  assume "wellKeyed r" and "acquire ctx k c r = Inr l"
  then show "leaseAccountID l = k" by (elim acquire_Inr) (simp add: wellKeyed_def)
next
  fix r ctx k c l
  assume "acquire ctx k c r = Inr l"
  then show "leaseView c l \<noteq> None" by (rule acquire_view)
qed

text \<open>Registries that registrations build.\<close>

inductive registered :: "registry \<Rightarrow> bool" where
  new: "registered newRegistry"
| register: "registered r \<Longrightarrow> register a r = Inr r' \<Longrightarrow> registered r'"

lemma registered_wellKeyed: "registered r \<Longrightarrow> wellKeyed r"
  by (induction rule: registered.induct) (auto intro: register_wellKeyed)

section \<open>Properties\<close>

definition demoAdapter :: adapter where
  "demoAdapter = \<lparr>adHandle = 3, adAccountID = ''a1'', adPlatform = ''slack'',
     adConversation = False, adText = True, adMedia = False, adReaction = False,
     adReadReceipt = False, adDownload = False, adPairer = False,
     adDeclared = Some (noCapabilities\<lparr>MediaSend := True\<rparr>)\<rparr>"

lemma demoAdapter_names:
  "trimSpace ''a1'' = ''a1''" "trimSpace ''slack'' = ''slack''"
  by (simp_all add: trimSpace_plain plainChar_def)

lemma demoAdapter_registered:
  "register (Some demoAdapter) newRegistry = Inr (newRegistry(''a1'' \<mapsto>
     (discoverRegistryEntry demoAdapter)\<lparr>enSnapshot := newSnapshot ''a1'' ''slack'' StateStopped\<rparr>))"
  by (simp add: register_def demoAdapter_def demoAdapter_names newRegistry_def Let_def)

text \<open>
  A dispatch lease is handed out exactly for a capability whose interface the registered
  adapter implements; capabilities that are only declared are reported but never leased. The
  lease is for the account asked for and forwards to that adapter.
\<close>

theorem acquire_requires_interface:
  assumes "registered r" and "register (Some a) r = Inr r'"
  shows "(\<exists>l. acquire (Some None) (adAccountID a) c r' = Inr l \<and>
        leaseAccountID l = adAccountID a \<and> leaseView c l = Some (adHandle a))
      \<longleftrightarrow> implementedBy a c"
proof -
  obtain e where e: "r' (adAccountID a) = Some e" "enText e = implemented a (adText a)"
    "enMedia e = implemented a (adMedia a)" "enReaction e = implemented a (adReaction a)"
    "enReadReceipt e = implemented a (adReadReceipt a)"
    "enDownload e = implemented a (adDownload a)" "snapAccountID (enSnapshot e) = adAccountID a"
    using assms(2) by (elim register_Inr) (simp add: discoverRegistryEntry_def newSnapshot_def Let_def)
  show ?thesis
    by (cases c) (auto simp: acquire_def e implemented_def split: if_splits)
qed

lemma acquire_requires_interface_witness:
  "(\<exists>l. acquire (Some None) ''a1'' CapabilityTextSend (newRegistry(''a1'' \<mapsto>
     (discoverRegistryEntry demoAdapter)\<lparr>enSnapshot := newSnapshot ''a1'' ''slack'' StateStopped\<rparr>)) = Inr l)"
  using acquire_requires_interface [OF registered.new demoAdapter_registered, of CapabilityTextSend]
  by (auto simp: demoAdapter_def)

text \<open>
  In a registry built by registrations, a lease always exposes the capability it was
  acquired for, under the account it was acquired for, in generation zero; and no lease is
  ever handed out for starting a conversation.
\<close>

theorem lease_exposes_capability:
  assumes "registered r" and "acquire ctx k c r = Inr l"
  shows "leaseAccountID l = k \<and> leaseView c l \<noteq> None \<and> leaseGeneration l = 0 \<and>
    c \<noteq> CapabilityStartConversation"
proof -
  note ok = registered_wellKeyed [OF assms(1)]
  have "leaseGeneration l = 0"
    using assms(2) ok by (elim acquire_Inr) (simp add: wellKeyed_def)
  with reg.leased_account [OF ok assms(2)] reg.leased_view [OF ok assms(2)]
    reg.no_conversation_lease [OF ok] assms(2)
  show ?thesis by blast
qed

lemma lease_exposes_capability_witness:
  "\<exists>r l. acquire (Some None) ''a1'' CapabilityTextSend r = Inr l \<and> leaseText l \<noteq> None"
proof -
  let ?r = "newRegistry(''a1'' \<mapsto>
     (discoverRegistryEntry demoAdapter)\<lparr>enSnapshot := newSnapshot ''a1'' ''slack'' StateStopped\<rparr>)"
  obtain l where l: "acquire (Some None) ''a1'' CapabilityTextSend ?r = Inr l"
    by (simp add: acquire_def discoverRegistryEntry_def demoAdapter_def implemented_def Let_def)
  from lease_exposes_capability [OF registered.register [OF registered.new demoAdapter_registered] l] l
  show ?thesis by auto
qed

end
