(* ===== verification/Supervisor.thy ===== *)
theory Supervisor
  imports Bridge_Types
begin

text \<open>
  \<open>internal/bridge/supervisor.go\<close>: the single run loop that owns one account's connection
  lifecycle, retry, credential repair and pairing.

  The state of \<open>supervisorLoop\<close>, with the parts of \<open>Supervisor\<close> that the loop shares
  (the published snapshot, the generation fence, the activity queue), is the record \<open>loop\<close>.
  A channel is the handle of what will be delivered on it (the generation or epoch of the
  worker that sends on it), with \<open>None\<close> or \<open>False\<close> for a nil channel; a cancel function
  is a flag; calls into collaborators (a worker started, a context cancelled, a run stopped,
  a reply delivered) are appended to \<open>lEffects\<close>. A handler runs at one logical instant
  \<open>now\<close>, and the random source is the function \<open>draw\<close> (\<open>None\<close> when it panics).
\<close>

section \<open>State\<close>

datatype sup_error =
    ErrLifecycleRequired | ErrClockRequired | ErrRandomRequired | ErrInvalidPolicy string
  | ErrInvalidInitialState bridge_state | ErrInvalidAccountID string | ErrInvalidPlatform string
  | ErrSupervisorStopped | ErrSupervisorBusy | ErrSupervisorBlocked | ErrStaleGeneration
  | ErrAccountMismatch | ErrPairerUnavailable | ErrPairingInProgress | ErrPairingNotAllowed
  | ErrPairingRateLimited gotime | ErrFingerprintUnchanged | ErrNilContext | ErrContextDone
  | ErrUnknownCommand | ErrFailure op_error | ErrDownstream go_error

datatype timer_purpose =
    timerNone | timerConnectDeadline | timerLivenessCheck | timerBackoff | timerProbeDeadline
  | timerPairExpiry

datatype activity_kind = activityEvent | activityBeat

record generation_activity =
  actGeneration :: generation
  actKind :: activity_kind
  actAt :: gotime

type_synonym run_handle = nat
type_synonym reply_handle = nat

record start_result =
  srGeneration :: generation
  srRun :: "run_handle option"
  srErr :: "go_error option"

record probe_result =
  pbGeneration :: generation
  pbAliveAt :: gotime
  pbErr :: "go_error option"

record repair_result =
  rrEpoch :: nat
  rrErr :: "go_error option"

record pairing_result =
  paEpoch :: nat
  paResult :: pair_result
  paErr :: "go_error option"

record pairing_event =
  peEpoch :: nat
  peEvent :: pair_event

record pairing_sink =
  psEpoch :: nat
  psActive :: bool
  psDownstream :: bool

record fence =
  fenceGeneration :: generation
  fenceActive :: bool

datatype effect =
    StartWorker start_request
  | ProbeWorker generation run_handle
  | RepairWorker nat op_error
  | PairWorker nat pair_request
  | RunStop run_handle
  | CancelRun | CancelProbe | CancelRepair | CancelPair | CancelRoot
  | TimerNew timer_purpose duration
  | TimerStop
  | Reply reply_handle "sup_error option"

record loop =
  lAccountID :: string
  lPlatform :: platform
  lPolicy :: policy
  lHasSink :: bool
  lHasRepairer :: bool
  lHasPairer :: bool
  lClosing :: bool
  lPublished :: snapshot
  lGate :: fence
  lActivity :: "generation_activity list"
  lSnapshot :: snapshot
  lTimer :: "duration option"
  lTimerPurpose :: timer_purpose
  lTimerDeadline :: gotime
  lStartRequest :: start_request
  lStartResults :: "generation option"
  lStartTimedOut :: bool
  lPendingStartReply :: "reply_handle option"
  lRun :: "run_handle option"
  lRunContext :: bool
  lRunCancel :: bool
  lReady :: bool
  lDone :: bool
  lConnectDeadline :: gotime
  lLivenessBaseline :: gotime
  lTransientAttempt :: int
  lSameFingerprint :: string
  lSameFailureCount :: int
  lLastFailure :: op_error
  lRepairFailed :: bool
  lProbeResults :: "generation option"
  lProbeCancel :: bool
  lProbeStarted :: gotime
  lProbeTimedOut :: bool
  lProbeFailure :: "op_error option"
  lRepairEpoch :: nat
  lRepairResults :: "nat option"
  lRepairCancel :: bool
  lPairEpoch :: nat
  lPairActive :: bool
  lPairExpired :: bool
  lPairExpiresAt :: gotime
  lPairResults :: "nat option"
  lPairEvents :: "pairing_event list option"
  lPairCancel :: bool
  lPairBoundSink :: "pairing_sink option"
  lEffects :: "effect list"

record env =
  now :: gotime
  draw :: "int \<Rightarrow> int option"

abbreviation state :: "loop \<Rightarrow> bridge_state" where
  "state l \<equiv> snapState (lSnapshot l)"

abbreviation gen :: "loop \<Rightarrow> generation" where
  "gen l \<equiv> snapGeneration (lSnapshot l)"

abbreviation onSnapshot :: "(snapshot \<Rightarrow> snapshot) \<Rightarrow> loop \<Rightarrow> loop" where
  "onSnapshot f l \<equiv> l\<lparr>lSnapshot := f (lSnapshot l)\<rparr>"

definition emit :: "effect \<Rightarrow> loop \<Rightarrow> loop" where
  "emit e l = l\<lparr>lEffects := lEffects l @ [e]\<rparr>"

definition publish :: "loop \<Rightarrow> loop" where
  "publish l = l\<lparr>lPublished := lSnapshot l\<rparr>"

section \<open>Pure decisions\<close>

definition validatePolicy :: "policy \<Rightarrow> sup_error option" where
  "validatePolicy p =
     (if ConnectTimeout p \<le> 0 then Some (ErrInvalidPolicy ''ConnectTimeout'')
      else if ProbeEvery p \<le> 0 then Some (ErrInvalidPolicy ''ProbeEvery'')
      else if ProbeTimeout p \<le> 0 then Some (ErrInvalidPolicy ''ProbeTimeout'')
      else if LivenessTimeout p \<le> 0 then Some (ErrInvalidPolicy ''LivenessTimeout'')
      else if MinBackoff p \<le> 0 then Some (ErrInvalidPolicy ''MinBackoff'')
      else if MaxBackoff p < MinBackoff p then Some (ErrInvalidPolicy ''MaxBackoff'')
      else if MaxSameFingerprint p \<le> 0 then Some (ErrInvalidPolicy ''MaxSameFingerprint'')
      else None)"

text \<open>The loop of \<open>backoffCap\<close>; \<open>n\<close> is the number of rounds left (\<open>attempt - i\<close>).\<close>

fun backoffLoop :: "duration \<Rightarrow> duration \<Rightarrow> nat \<Rightarrow> duration" where
  "backoffLoop cap maximum 0 = (if cap > maximum then maximum else cap)"
| "backoffLoop cap maximum (Suc n) =
     (if cap < maximum
      then if cap > maximum div 2 then maximum else backoffLoop (cap * 2) maximum n
      else if cap > maximum then maximum else cap)"

definition backoffCap :: "duration \<Rightarrow> duration \<Rightarrow> int \<Rightarrow> duration" where
  "backoffCap minimum maximum attempt = backoffLoop minimum maximum (nat (attempt - 1))"

definition classifyFailure :: "go_error \<Rightarrow> string \<Rightarrow> string \<Rightarrow> op_error" where
  "classifyFailure err operation fallbackFingerprint =
     (let failure = (case errorsAsOp err of Some e \<Rightarrow> e | None \<Rightarrow> zeroOpError) in
      OpError
        (if opClass failure = FailureUnset then FailureTransient else opClass failure)
        (if opOperation failure = '''' then operation else opOperation failure)
        (opRetryAt failure)
        (if opFingerprint failure = '''' then fallbackFingerprint else opFingerprint failure)
        (opDispatch failure)
        (if opCause failure = None then Some err else opCause failure))"

definition clampActivityTime :: "gotime \<Rightarrow> gotime \<Rightarrow> gotime" where
  "clampActivityTime at nw = (if isZero at \<or> nw < at then nw else at)"

definition connectTimeoutFailure :: op_error where
  "connectTimeoutFailure = OpError FailureTransient ''connect'' 0 ''connect_timeout''
     DispatchUnset (Some (PlainError ''connection readiness deadline exceeded''))"

definition drawJitter :: "env \<Rightarrow> duration \<Rightarrow> duration option" where
  "drawJitter E cap =
     (if cap \<le> 0 then None
      else case draw E cap of None \<Rightarrow> None
           | Some v \<Rightarrow> if v < 0 \<or> cap \<le> v then None else Some v)"

section \<open>Timers, fence and generation context\<close>

definition clearTimer :: "loop \<Rightarrow> loop" where
  "clearTimer l =
     (let l1 = (if lTimer l \<noteq> None then emit TimerStop l else l) in
      l1\<lparr>lTimer := None, lTimerPurpose := timerNone, lTimerDeadline := 0\<rparr>)"

definition replaceTimer :: "env \<Rightarrow> timer_purpose \<Rightarrow> gotime \<Rightarrow> loop \<Rightarrow> loop" where
  "replaceTimer E purpose deadline l =
     (let l1 = clearTimer l;
          d = deadline - now E;
          delay = (if d < 0 then 0 else d);
          l2 = emit (TimerNew purpose delay) l1 in
      l2\<lparr>lTimer := Some delay, lTimerPurpose := purpose, lTimerDeadline := deadline\<rparr>)"

definition fenceActivate :: "generation \<Rightarrow> fence \<Rightarrow> fence" where
  "fenceActivate g f = f\<lparr>fenceGeneration := g, fenceActive := True\<rparr>"

definition fenceDeactivate :: "generation \<Rightarrow> fence \<Rightarrow> fence" where
  "fenceDeactivate g f = (if fenceGeneration f = g then f\<lparr>fenceActive := False\<rparr> else f)"

definition fenceAccepts :: "generation \<Rightarrow> fence \<Rightarrow> bool" where
  "fenceAccepts g f = (fenceActive f \<and> fenceGeneration f = g)"

definition clearGenerationContext :: "loop \<Rightarrow> loop" where
  "clearGenerationContext l =
     (let l1 = (if lRunCancel l then (emit CancelRun l)\<lparr>lRunCancel := False\<rparr> else l) in
      l1\<lparr>lGate := fenceDeactivate (gen l) (lGate l1), lReady := False, lDone := False,
         lRunContext := False\<rparr>)"

definition retireCurrentPreservingProbe :: "loop \<Rightarrow> loop" where
  "retireCurrentPreservingProbe l =
     (let l1 = clearGenerationContext l in
      case lRun l1 of None \<Rightarrow> l1
      | Some r \<Rightarrow> emit (RunStop r) (l1\<lparr>lRun := None\<rparr>))"

definition retireCurrent :: "loop \<Rightarrow> loop" where
  "retireCurrent l =
     (let l1 = (if lProbeCancel l then (emit CancelProbe l)\<lparr>lProbeCancel := False\<rparr> else l) in
      retireCurrentPreservingProbe
        (l1\<lparr>lProbeResults := None, lProbeFailure := None, lProbeTimedOut := False\<rparr>))"

definition installRun :: "run_handle \<Rightarrow> loop \<Rightarrow> loop" where
  "installRun r l = l\<lparr>lRun := Some r, lReady := True, lDone := True\<rparr>"

definition resolvePendingStart :: "sup_error option \<Rightarrow> loop \<Rightarrow> loop" where
  "resolvePendingStart err l =
     (case lPendingStartReply l of None \<Rightarrow> l
      | Some c \<Rightarrow> (emit (Reply c err) l)\<lparr>lPendingStartReply := None\<rparr>)"

section \<open>Failure history\<close>

definition resetFailureHistory :: "loop \<Rightarrow> loop" where
  "resetFailureHistory l = onSnapshot
     (\<lambda>s. s\<lparr>snapRetryAt := 0, snapErrorClass := FailureUnset, snapErrorFingerprint := ''''\<rparr>)
     (l\<lparr>lTransientAttempt := 0, lSameFingerprint := '''', lSameFailureCount := 0,
        lRepairFailed := False, lLastFailure := zeroOpError\<rparr>)"

definition recordFingerprint :: "failure_class \<Rightarrow> string \<Rightarrow> loop \<Rightarrow> bool \<times> loop" where
  "recordFingerprint c fp l =
     (if c = FailureTransient then (False, l)
      else if fp = '''' then (False, l\<lparr>lSameFingerprint := '''', lSameFailureCount := 0\<rparr>)
      else
        let l1 = (if fp = lSameFingerprint l
                  then l\<lparr>lSameFailureCount := lSameFailureCount l + 1\<rparr>
                  else l\<lparr>lSameFingerprint := fp, lSameFailureCount := 1\<rparr>)
        in (lSameFailureCount l1 \<ge> MaxSameFingerprint (lPolicy l1), l1))"

section \<open>Starting a generation\<close>

definition startGeneration :: "env \<Rightarrow> loop \<Rightarrow> sup_error option \<times> loop" where
  "startGeneration E l =
     (if lClosing l then (Some ErrSupervisorStopped, l)
      else if lRun l \<noteq> None \<or> lStartResults l \<noteq> None then (Some ErrSupervisorBusy, l)
      else
        let g = gen l + 1;
            l1 = onSnapshot (\<lambda>s. s\<lparr>snapGeneration := g, snapState := StateConnecting,
                   snapLastEventAt := 0, snapLastProbeOKAt := 0, snapLivenessDeadline := 0,
                   snapRetryAt := 0, snapErrorClass := FailureUnset,
                   snapErrorFingerprint := ''''\<rparr>) l;
            l2 = l1\<lparr>lConnectDeadline := now E + ConnectTimeout (lPolicy l),
                    lLivenessBaseline := now E\<rparr>;
            l3 = publish (replaceTimer E timerConnectDeadline (lConnectDeadline l2) l2);
            req = (lStartRequest l3)\<lparr>reqAccountID := lAccountID l, reqGeneration := g\<rparr>;
            l4 = l3\<lparr>lStartRequest := req, lRunContext := True, lRunCancel := True,
                    lGate := fenceActivate g (lGate l3),
                    lStartResults := Some g, lStartTimedOut := False\<rparr>
        in (None, emit (StartWorker req) l4))"

text \<open>
  The worker of a generation: the lifecycle's outcome, and what it sends on the result
  channel. A run that is returned after its context was cancelled is stopped by the worker.
\<close>

datatype 'a outcome = Returned 'a | Panicked string

definition callLifecycleStart ::
  "(run_handle option \<times> go_error option) outcome \<Rightarrow> run_handle option \<times> go_error option" where
  "callLifecycleStart oc =
     (case oc of Returned r \<Rightarrow> r
      | Panicked m \<Rightarrow> (None, Some (WrapError ''lifecycle start panic'' (PlainError m))))"

definition callRunStop :: "go_error option outcome \<Rightarrow> go_error option" where
  "callRunStop oc =
     (case oc of Returned e \<Rightarrow> e
      | Panicked m \<Rightarrow> Some (WrapError ''run stop panic'' (PlainError m)))"

definition startWorkerResult ::
  "generation \<Rightarrow> (run_handle option \<times> go_error option) outcome \<Rightarrow> go_error option
     \<Rightarrow> go_error option outcome \<Rightarrow> start_result \<times> effect list" where
  "startWorkerResult g oc ctxErr stopOutcome =
     (let (r, err) = callLifecycleStart oc in
      case (ctxErr, r) of
        (Some ce, Some h) \<Rightarrow>
          let stopErr = callRunStop stopOutcome;
              err1 = (case err of None \<Rightarrow> ce | Some e \<Rightarrow> e);
              err2 = (case stopErr of None \<Rightarrow> err1 | Some se \<Rightarrow> JoinError [err1, se])
          in (\<lparr>srGeneration = g, srRun = None, srErr = Some err2\<rparr>, [RunStop h])
      | _ \<Rightarrow> (\<lparr>srGeneration = g, srRun = r, srErr = err\<rparr>, []))"

datatype reply = Replied "sup_error option" | Deferred

definition startAndDeferReply :: "env \<Rightarrow> reply_handle \<Rightarrow> loop \<Rightarrow> reply \<times> loop" where
  "startAndDeferReply E c l =
     (case startGeneration E l of
        (Some e, l1) \<Rightarrow> (Replied (Some e), l1)
      | (None, l1) \<Rightarrow> (Deferred, l1\<lparr>lPendingStartReply := Some c\<rparr>))"

section \<open>Credential repair and failure routing\<close>

definition beginCredentialRepair :: "op_error \<Rightarrow> loop \<Rightarrow> loop" where
  "beginCredentialRepair failure l =
     (let l1 = publish (onSnapshot (\<lambda>s. s\<lparr>snapState := StateRepairingCredentials,
                  snapRetryAt := 0, snapErrorClass := opClass failure,
                  snapErrorFingerprint := opFingerprint failure\<rparr>)
                ((clearTimer l)\<lparr>lLastFailure := failure, lRepairFailed := False\<rparr>)) in
      if \<not> lHasRepairer l1 then
        publish (onSnapshot (\<lambda>s. s\<lparr>snapState := StateBlocked\<rparr>) (l1\<lparr>lRepairFailed := True\<rparr>))
      else
        let e = lRepairEpoch l1 + 1 in
        emit (RepairWorker e failure)
          (l1\<lparr>lRepairEpoch := e, lRepairCancel := True, lRepairResults := Some e\<rparr>))"

definition knownClass :: "failure_class \<Rightarrow> bool" where
  "knownClass c = (c \<in> {FailureTransient, FailureRateLimited, FailureCredentialsExpired,
     FailureUnpaired, FailureReauthRequired, FailureUpgradeRequired, FailureMisconfigured,
     FailureUnsupported})"

definition withClass :: "failure_class \<Rightarrow> op_error \<Rightarrow> op_error" where
  "withClass c e = OpError c (opOperation e) (opRetryAt e) (opFingerprint e) (opDispatch e)
     (opCause e)"

definition setError :: "op_error \<Rightarrow> loop \<Rightarrow> loop" where
  "setError failure l = onSnapshot (\<lambda>s. s\<lparr>snapErrorClass := opClass failure,
     snapErrorFingerprint := opFingerprint failure\<rparr>) (l\<lparr>lLastFailure := failure\<rparr>)"

definition enterState :: "bridge_state \<Rightarrow> loop \<Rightarrow> loop" where
  "enterState st l = onSnapshot (\<lambda>s. s\<lparr>snapState := st\<rparr>) l"

definition routeByClass :: "env \<Rightarrow> op_error \<Rightarrow> loop \<Rightarrow> loop" where
  "routeByClass E failure l =
     (case opClass failure of
        FailureTransient \<Rightarrow>
          (let l1 = l\<lparr>lTransientAttempt := lTransientAttempt l + 1\<rparr>;
               cap = backoffCap (MinBackoff (lPolicy l1)) (MaxBackoff (lPolicy l1))
                       (lTransientAttempt l1)
           in case drawJitter E cap of
                None \<Rightarrow> publish (onSnapshot (\<lambda>s. s\<lparr>snapState := StateBlocked,
                          snapErrorClass := FailureMisconfigured,
                          snapErrorFingerprint := ''invalid_jitter_source''\<rparr>) l1)
              | Some delay \<Rightarrow>
                  let l2 = onSnapshot (\<lambda>s. s\<lparr>snapState := StateBackoff,
                             snapRetryAt := now E + delay\<rparr>) l1
                  in publish (replaceTimer E timerBackoff (now E + delay) l2))
      | FailureRateLimited \<Rightarrow>
          (let l1 = onSnapshot (\<lambda>s. s\<lparr>snapState := StateBackoff,
                      snapRetryAt := opRetryAt failure\<rparr>) l;
               deadline = (if opRetryAt failure < now E then now E else opRetryAt failure)
           in publish (replaceTimer E timerBackoff deadline l1))
      | FailureCredentialsExpired \<Rightarrow> beginCredentialRepair failure l
      | FailureReauthRequired \<Rightarrow> publish (enterState StateBlocked l)
      | FailureUpgradeRequired \<Rightarrow> publish (enterState StateBlocked l)
      | FailureMisconfigured \<Rightarrow> publish (enterState StateBlocked l)
      | FailureUnsupported \<Rightarrow> publish (enterState StateBlocked l)
      | _ \<Rightarrow> l)"

definition routeFailure :: "env \<Rightarrow> op_error \<Rightarrow> loop \<Rightarrow> loop" where
  "routeFailure E failure0 l =
     (let failure = (if knownClass (opClass failure0) then failure0
                     else withClass FailureTransient failure0);
          l1 = onSnapshot (\<lambda>s. s\<lparr>snapRetryAt := 0, snapLivenessDeadline := 0\<rparr>)
                 (setError failure l)
      in if opClass failure = FailureUnpaired then
           publish (enterState StateUnpaired (setError failure (resetFailureHistory l1)))
         else
           case recordFingerprint (opClass failure) (opFingerprint failure) l1 of
             (True, l2) \<Rightarrow> publish (enterState StateBlocked l2)
           | (False, l2) \<Rightarrow> routeByClass E failure l2)"

section \<open>Connection handlers\<close>

definition refreshLivenessDeadline :: "loop \<Rightarrow> loop" where
  "refreshLivenessDeadline l =
     (let b0 = lLivenessBaseline l;
          b1 = (if b0 < snapLastEventAt (lSnapshot l) then snapLastEventAt (lSnapshot l) else b0);
          b2 = (if b1 < snapLastProbeOKAt (lSnapshot l) then snapLastProbeOKAt (lSnapshot l)
                else b1)
      in onSnapshot (\<lambda>s. s\<lparr>snapLivenessDeadline := b2 + LivenessTimeout (lPolicy l)\<rparr>) l)"

definition scheduleLivenessCheck :: "env \<Rightarrow> loop \<Rightarrow> loop" where
  "scheduleLivenessCheck E l =
     (if state l \<noteq> StateOnline then l
      else
        let n0 = now E + ProbeEvery (lPolicy l);
            n1 = (if snapLivenessDeadline (lSnapshot l) < n0
                  then snapLivenessDeadline (lSnapshot l) else n0)
        in replaceTimer E timerLivenessCheck n1 l)"

definition handleConnectTimeout :: "env \<Rightarrow> loop \<Rightarrow> loop" where
  "handleConnectTimeout E l =
     (if state l \<noteq> StateConnecting then l
      else
        let l1 = clearTimer l in
        if lStartResults l1 \<noteq> None then
          (let l2 = l1\<lparr>lStartTimedOut := True\<rparr>;
               l3 = (if lRunCancel l2 then emit CancelRun l2 else l2)
           in l3\<lparr>lGate := fenceDeactivate (gen l3) (lGate l3)\<rparr>)
        else if lRun l1 = None then l1
        else routeFailure E connectTimeoutFailure (retireCurrent l1))"

definition handleRunDone :: "env \<Rightarrow> go_error option \<Rightarrow> loop \<Rightarrow> loop" where
  "handleRunDone E err l =
     (if lRun l = None then l\<lparr>lDone := False\<rparr>
      else if state l = StateConnecting \<and> \<not> now E < lConnectDeadline l then
        handleConnectTimeout E l
      else
        let l1 = retireCurrent (clearTimer (l\<lparr>lDone := False\<rparr>));
            e = (case err of Some e \<Rightarrow> e
                 | None \<Rightarrow> PlainError ''connection generation completed unexpectedly'')
        in routeFailure E (classifyFailure e ''run'' ''run_completed'') l1)"

text \<open>
  \<open>polled\<close> is what the non-blocking read of the done channel returns: \<open>None\<close> for its
  default branch, \<open>Some err\<close> for a received result (\<open>None\<close> inside when it was closed).
\<close>

definition handleReady :: "env \<Rightarrow> go_error option option \<Rightarrow> loop \<Rightarrow> loop" where
  "handleReady E polled l =
     (if lRun l = None \<or> state l \<noteq> StateConnecting then l\<lparr>lReady := False\<rparr>
      else case (if lDone l then polled else None) of
        Some err \<Rightarrow> handleRunDone E err l
      | None \<Rightarrow>
          if \<not> now E < lConnectDeadline l then handleConnectTimeout E l
          else
            let l1 = (clearTimer (l\<lparr>lReady := False\<rparr>))\<lparr>lLivenessBaseline := now E\<rparr>;
                l2 = onSnapshot (\<lambda>s. s\<lparr>snapState := StateOnline, snapRetryAt := 0,
                       snapErrorClass := FailureUnset, snapErrorFingerprint := ''''\<rparr>) l1
            in publish (scheduleLivenessCheck E (refreshLivenessDeadline l2)))"

definition stopReturned :: "run_handle option \<Rightarrow> loop \<Rightarrow> loop" where
  "stopReturned r l = (case r of None \<Rightarrow> l | Some h \<Rightarrow> emit (RunStop h) l)"

definition nilRunFailure :: op_error where
  "nilRunFailure = OpError FailureMisconfigured ''start'' 0 ''lifecycle_nil_run'' DispatchUnset
     (Some (PlainError ''lifecycle returned a nil run''))"

definition handleStartResult :: "env \<Rightarrow> start_result \<Rightarrow> loop \<Rightarrow> loop" where
  "handleStartResult E r l =
     (if lStartResults l = None \<or> srGeneration r \<noteq> gen l then stopReturned (srRun r) l
      else
        let timedOut = lStartTimedOut l;
            l1 = l\<lparr>lStartResults := None, lStartTimedOut := False\<rparr>
        in
        if timedOut then
          (let failure = connectTimeoutFailure;
               l2 = clearGenerationContext (stopReturned (srRun r) l1)
           in resolvePendingStart (Some (ErrFailure failure)) (routeFailure E failure l2))
        else case srErr r of
          Some err \<Rightarrow>
            (let l2 = (case srRun r of None \<Rightarrow> l1 | Some h \<Rightarrow> installRun h l1);
                 l3 = retireCurrent (clearTimer l2);
                 failure = classifyFailure err ''start'' ''start_failed''
             in resolvePendingStart (Some (ErrFailure failure)) (routeFailure E failure l3))
        | None \<Rightarrow>
            (case srRun r of
               None \<Rightarrow>
                 (let l2 = clearGenerationContext (clearTimer l1);
                      failure = nilRunFailure
                  in resolvePendingStart (Some (ErrFailure failure)) (routeFailure E failure l2))
             | Some h \<Rightarrow>
                 (let l2 = installRun h l1 in
                  if \<not> now E < lConnectDeadline l2 then
                    resolvePendingStart (Some (ErrFailure connectTimeoutFailure))
                      (handleConnectTimeout E l2)
                  else resolvePendingStart None l2)))"

definition handleActivity :: "env \<Rightarrow> generation_activity \<Rightarrow> loop \<Rightarrow> loop" where
  "handleActivity E a l =
     (if actGeneration a \<noteq> gen l \<or> lRun l = None then l
      else
        let at = clampActivityTime (actAt a) (now E);
            l1 = (case actKind a of
                activityEvent \<Rightarrow>
                  if snapLastEventAt (lSnapshot l) < at
                  then onSnapshot (\<lambda>s. s\<lparr>snapLastEventAt := at\<rparr>) l else l
              | activityBeat \<Rightarrow>
                  if snapLastProbeOKAt (lSnapshot l) < at
                  then onSnapshot (\<lambda>s. s\<lparr>snapLastProbeOKAt := at\<rparr>) l else l);
            l2 = resetFailureHistory l1;
            l3 = (if state l2 = StateOnline
                  then scheduleLivenessCheck E (refreshLivenessDeadline l2) else l2)
        in publish l3)"

definition beginProbe :: "env \<Rightarrow> loop \<Rightarrow> loop" where
  "beginProbe E l =
     (case lRun l of
        None \<Rightarrow> l
      | Some h \<Rightarrow>
          if state l \<noteq> StateOnline \<or> lProbeResults l \<noteq> None then l
          else
            let l1 = onSnapshot (\<lambda>s. s\<lparr>snapState := StateDegraded\<rparr>) (clearTimer l);
                l2 = l1\<lparr>lProbeStarted := now E, lProbeTimedOut := False, lProbeCancel := True,
                        lProbeResults := Some (gen l1)\<rparr>;
                l3 = emit (ProbeWorker (gen l2) h) l2
            in publish (replaceTimer E timerProbeDeadline
                 (lProbeStarted l3 + ProbeTimeout (lPolicy l3)) l3))"

definition probeTimeoutFailure :: op_error where
  "probeTimeoutFailure = OpError FailureTransient ''probe'' 0 ''probe_timeout'' DispatchUnset
     (Some (PlainError ''liveness probe deadline exceeded''))"

definition takeProbeResult :: "loop \<Rightarrow> loop" where
  "takeProbeResult l =
     (let l0 = l\<lparr>lProbeResults := None\<rparr>;
          l1 = (if lProbeCancel l0 then (emit CancelProbe l0)\<lparr>lProbeCancel := False\<rparr> else l0)
      in clearTimer (l1\<lparr>lProbeTimedOut := False\<rparr>))"

definition handleProbeResult :: "env \<Rightarrow> probe_result \<Rightarrow> loop \<Rightarrow> loop" where
  "handleProbeResult E r l =
     (if lProbeResults l = None \<or> pbGeneration r \<noteq> gen l then l
      else
        let timedOut = lProbeTimedOut l;
            l2 = takeProbeResult l
        in
        if timedOut then routeFailure E probeTimeoutFailure (retireCurrent l2)
        else case pbErr r of
          Some err \<Rightarrow>
            routeFailure E (classifyFailure err ''probe'' ''probe_failed'') (retireCurrent l2)
        | None \<Rightarrow>
            if lRun l2 = None \<or> state l2 \<noteq> StateDegraded then l2
            else
              let a0 = clampActivityTime (pbAliveAt r) (now E);
                  aliveAt = (if a0 < lProbeStarted l2 then lProbeStarted l2 else a0);
                  l3 = (if snapLastProbeOKAt (lSnapshot l2) < aliveAt
                        then onSnapshot (\<lambda>s. s\<lparr>snapLastProbeOKAt := aliveAt\<rparr>) l2 else l2);
                  l4 = onSnapshot (\<lambda>s. s\<lparr>snapState := StateOnline\<rparr>) (resetFailureHistory l3)
              in scheduleLivenessCheck E (publish (refreshLivenessDeadline l4)))"

definition takeRepairResult :: "loop \<Rightarrow> loop" where
  "takeRepairResult l =
     (let l0 = l\<lparr>lRepairResults := None\<rparr> in
      if lRepairCancel l0 then (emit CancelRepair l0)\<lparr>lRepairCancel := False\<rparr> else l0)"

definition handleRepairResult :: "env \<Rightarrow> repair_result \<Rightarrow> loop \<Rightarrow> loop" where
  "handleRepairResult E r l =
     (if lRepairResults l = None \<or> rrEpoch r \<noteq> lRepairEpoch l then l
      else
        let l1 = takeRepairResult l in
        if state l1 \<noteq> StateRepairingCredentials then l1
        else case rrErr r of
          Some err \<Rightarrow> publish (enterState StateBlocked (l1\<lparr>lRepairFailed := True\<rparr>))
        | None \<Rightarrow> snd (startGeneration E (l1\<lparr>lRepairFailed := False\<rparr>)))"

section \<open>Pairing handlers\<close>

definition closeSink :: "pairing_sink \<Rightarrow> pairing_sink" where
  "closeSink s = s\<lparr>psActive := False\<rparr>"

definition beginPairing ::
  "env \<Rightarrow> pair_request \<Rightarrow> bool \<Rightarrow> loop \<Rightarrow> sup_error option \<times> loop" where
  "beginPairing E request hasSink l =
     (if \<not> lHasPairer l then (Some ErrPairerUnavailable, l)
      else if lPairActive l then (Some ErrPairingInProgress, l)
      else if state l \<noteq> StateUnpaired then (Some ErrPairingNotAllowed, l)
      else if \<not> isZero (snapRetryAt (lSnapshot l)) \<and> now E < snapRetryAt (lSnapshot l) then
        (Some (ErrPairingRateLimited (snapRetryAt (lSnapshot l))), l)
      else
        let l1 = publish (onSnapshot (\<lambda>s. s\<lparr>snapState := StatePairing, snapRetryAt := 0,
                   snapErrorClass := FailureUnset, snapErrorFingerprint := ''''\<rparr>)
                   (clearTimer l));
            e = lPairEpoch l1 + 1;
            l2 = l1\<lparr>lPairEpoch := e, lPairActive := True, lPairExpired := False,
                    lPairExpiresAt := 0, lPairCancel := True, lPairResults := Some e,
                    lPairEvents := Some [],
                    lPairBoundSink :=
                      Some \<lparr>psEpoch = e, psActive = True, psDownstream = hasSink\<rparr>\<rparr>
        in (None, emit (PairWorker e request) l2))"

text \<open>
  The two places that end an attempt early (\<open>expirePairing\<close> and the \<open>blocked\<close> event) close
  the bound sink and cancel the worker without waiting for it.
\<close>

definition abandonPairing :: "loop \<Rightarrow> loop" where
  "abandonPairing l =
     (let l1 = (clearTimer l)\<lparr>lPairExpired := True,
                  lPairBoundSink := map_option closeSink (lPairBoundSink l)\<rparr>
      in if lPairCancel l1 then emit CancelPair l1 else l1)"

definition expirePairing :: "loop \<Rightarrow> loop" where
  "expirePairing l =
     (if \<not> lPairActive l \<or> state l \<noteq> StatePairing then l
      else publish (onSnapshot (\<lambda>s. s\<lparr>snapState := StateUnpaired, snapRetryAt := 0,
             snapErrorClass := FailureUnset, snapErrorFingerprint := ''''\<rparr>)
             (abandonPairing l)))"

definition handlePairEvent :: "env \<Rightarrow> pairing_event \<Rightarrow> loop \<Rightarrow> loop" where
  "handlePairEvent E pe l =
     (if \<not> lPairActive l \<or> peEpoch pe \<noteq> lPairEpoch l \<or> state l \<noteq> StatePairing then l
      else
        let ev = peEvent pe in
        if pevKind ev = ''blocked'' then
          publish (onSnapshot (\<lambda>s. s\<lparr>snapState := StateUnpaired,
              snapRetryAt := pevExpiresAt ev, snapErrorClass := FailureRateLimited,
              snapErrorFingerprint := trimSpace (pevMessage ev)\<rparr>)
            ((abandonPairing l)\<lparr>lPairExpiresAt := 0\<rparr>))
        else if (pevKind ev = ''qr'' \<or> pevKind ev = ''code'') \<and> \<not> isZero (pevExpiresAt ev) then
          (let l1 = l\<lparr>lPairExpiresAt := pevExpiresAt ev\<rparr> in
           if \<not> now E < lPairExpiresAt l1 then expirePairing l1
           else replaceTimer E timerPairExpiry (lPairExpiresAt l1) l1)
        else l)"

definition pairFailed :: "op_error \<Rightarrow> loop \<Rightarrow> loop" where
  "pairFailed failure l =
     (let l1 = onSnapshot (\<lambda>s. s\<lparr>snapRetryAt := 0\<rparr>) (setError failure l) in
      publish
        (if opClass failure = FailureRateLimited then
           onSnapshot (\<lambda>s. s\<lparr>snapState := StateUnpaired, snapRetryAt := opRetryAt failure\<rparr>) l1
         else if opClass failure \<in> {FailureReauthRequired, FailureUpgradeRequired,
                   FailureMisconfigured, FailureUnsupported} then
           enterState StateBlocked l1
         else enterState StateUnpaired l1))"

definition takePairResult :: "loop \<Rightarrow> loop" where
  "takePairResult l0 =
     (let l1 = l0\<lparr>lPairActive := False, lPairResults := None, lPairEvents := None,
                 lPairBoundSink := None\<rparr>;
          l2 = (if lPairCancel l1 then (emit CancelPair l1)\<lparr>lPairCancel := False\<rparr> else l1)
      in clearTimer l2)"

definition handlePairResult :: "env \<Rightarrow> pairing_result \<Rightarrow> loop \<Rightarrow> loop" where
  "handlePairResult E r l =
     (if \<not> lPairActive l \<or> paEpoch r \<noteq> lPairEpoch l then l
      else
        let l0 = (if \<not> isZero (lPairExpiresAt l) \<and> \<not> now E < lPairExpiresAt l
                  then expirePairing l else l);
            l3 = takePairResult l0
        in
        if lPairExpired l3 then
          (if state l3 = StatePairing then publish (enterState StateUnpaired l3) else l3)
        else case paErr r of
          None \<Rightarrow>
            publish (onSnapshot (\<lambda>s. s\<lparr>snapState := StateStopped, snapRetryAt := 0,
                snapErrorClass := FailureUnset, snapErrorFingerprint := ''''\<rparr>)
              (l3\<lparr>lStartRequest := (lStartRequest l3)
                    \<lparr>reqRemoteAccountID := prRemoteAccountID (paResult r),
                     reqDeviceID := prRemoteDeviceID (paResult r)\<rparr>\<rparr>))
        | Some err \<Rightarrow> pairFailed (classifyFailure err ''pair'' ''pair_failed'') l3)"

section \<open>Deadlines\<close>

definition enforceDueDeadline :: "env \<Rightarrow> loop \<Rightarrow> bool \<times> loop" where
  "enforceDueDeadline E l =
     (if lTimerPurpose l = timerNone \<or> isZero (lTimerDeadline l) \<or> now E < lTimerDeadline l
      then (False, l)
      else
        let l1 = clearTimer l in
        (True,
         (case lTimerPurpose l of
            timerConnectDeadline \<Rightarrow> handleConnectTimeout E l1
          | timerLivenessCheck \<Rightarrow>
              if state l1 \<noteq> StateOnline then l1
              else if \<not> now E < snapLivenessDeadline (lSnapshot l1) then beginProbe E l1
              else scheduleLivenessCheck E l1
          | timerBackoff \<Rightarrow>
              if state l1 = StateBackoff \<and> \<not> lClosing l1 then snd (startGeneration E l1) else l1
          | timerProbeDeadline \<Rightarrow>
              if lProbeResults l1 \<noteq> None \<and> state l1 = StateDegraded then
                (let l2 = l1\<lparr>lProbeTimedOut := True\<rparr> in
                 if lProbeCancel l2 then emit CancelProbe l2 else l2)
              else l1
          | timerPairExpiry \<Rightarrow>
              if lPairActive l1 \<and> \<not> isZero (lPairExpiresAt l1) \<and> \<not> now E < lPairExpiresAt l1
              then expirePairing l1 else l1
          | timerNone \<Rightarrow> l1)))"

section \<open>Events\<close>

text \<open>
  What the \<open>select\<close> of the run loop receives, other than commands. An event is enabled when
  its channel is not nil and a value of that channel's sender is what arrives; \<open>take\<close> is the
  receive itself, for the two buffered queues.
\<close>

datatype event =
    EvActivity
  | EvReady "go_error option option"
  | EvDone "go_error option"
  | EvStart start_result
  | EvProbe probe_result
  | EvRepair repair_result
  | EvPairEvent
  | EvPairResult pairing_result

fun enabled :: "event \<Rightarrow> loop \<Rightarrow> bool" where
  "enabled EvActivity l = (lActivity l \<noteq> [])"
| "enabled (EvReady polled) l = lReady l"
| "enabled (EvDone err) l = lDone l"
| "enabled (EvStart r) l = (lStartResults l = Some (srGeneration r))"
| "enabled (EvProbe r) l = (lProbeResults l = Some (pbGeneration r))"
| "enabled (EvRepair r) l = (lRepairResults l = Some (rrEpoch r))"
| "enabled EvPairEvent l = (case lPairEvents l of Some (e # es) \<Rightarrow> True | _ \<Rightarrow> False)"
| "enabled (EvPairResult r) l = (lPairResults l = Some (paEpoch r))"

fun handleEvent :: "env \<Rightarrow> event \<Rightarrow> loop \<Rightarrow> loop" where
  "handleEvent E EvActivity l =
     (case lActivity l of [] \<Rightarrow> l | a # as \<Rightarrow> handleActivity E a (l\<lparr>lActivity := as\<rparr>))"
| "handleEvent E (EvReady polled) l = handleReady E polled l"
| "handleEvent E (EvDone err) l = handleRunDone E err l"
| "handleEvent E (EvStart r) l = handleStartResult E r l"
| "handleEvent E (EvProbe r) l = handleProbeResult E r l"
| "handleEvent E (EvRepair r) l = handleRepairResult E r l"
| "handleEvent E EvPairEvent l =
     (case lPairEvents l of
        Some (e # es) \<Rightarrow> handlePairEvent E e (l\<lparr>lPairEvents := Some es\<rparr>)
      | _ \<Rightarrow> l)"
| "handleEvent E (EvPairResult r) l = handlePairResult E r l"

text \<open>
  \<open>drainReadyWork\<close>: \<open>ready\<close> lists, in the order the \<open>select\<close> picks them, the values that
  were already waiting; one whose channel has become nil meanwhile is never received. Each
  round of the loop costs one unit of \<open>fuel\<close>, and \<open>None\<close> is a loop that has not returned.
\<close>

fun drainReadyWork :: "nat \<Rightarrow> env \<Rightarrow> event list \<Rightarrow> loop \<Rightarrow> loop option" where
  "drainReadyWork 0 E ready l = None"
| "drainReadyWork (Suc fuel) E ready l =
     (case enforceDueDeadline E l of
        (True, l1) \<Rightarrow> drainReadyWork fuel E ready l1
      | (False, l1) \<Rightarrow>
          (case ready of
             [] \<Rightarrow> Some l1
           | ev # evs \<Rightarrow>
               drainReadyWork fuel E evs (if enabled ev l1 then handleEvent E ev l1 else l1)))"

definition drainFuel :: "event list \<Rightarrow> nat" where
  "drainFuel ready = 4 * length ready + 4"

section \<open>Commands\<close>

datatype command =
    commandStart start_request
  | commandRetryBlocked
  | commandInputsChanged string
  | commandBeginPairing pair_request bool
  | commandSync "event list"
  | commandUnknown

text \<open>How \<open>commandRetryBlocked\<close> and an effective \<open>commandInputsChanged\<close> leave the blocked state.\<close>

definition exitBlocked :: "env \<Rightarrow> reply_handle \<Rightarrow> loop \<Rightarrow> reply \<times> loop" where
  "exitBlocked E c l =
     (let failure = lLastFailure l;
          l1 = resetFailureHistory l
      in if opClass failure = FailureCredentialsExpired then
           (Replied None, beginCredentialRepair failure l1)
         else if opOperation failure = ''pair'' then
           (Replied None, publish (enterState StateUnpaired l1))
         else startAndDeferReply E c l1)"

definition busyStates :: "bridge_state list" where
  "busyStates = [StatePairing, StateRepairingCredentials, StateConnecting, StateOnline,
     StateDegraded, StateBackoff, StateStopping]"

text \<open>\<open>None\<close> is a command that does not return (a \<open>Sync\<close> whose drain never ends).\<close>

definition handleCommand ::
  "env \<Rightarrow> reply_handle \<Rightarrow> command \<Rightarrow> loop \<Rightarrow> (reply \<times> loop) option" where
  "handleCommand E c cmd l =
     (case cmd of
        commandStart req \<Rightarrow> Some
          (if lPairActive l \<or> state l \<in> set busyStates then (Replied (Some ErrSupervisorBusy), l)
           else if state l = StateUnpaired then (Replied (Some ErrPairingNotAllowed), l)
           else if state l = StateBlocked then (Replied (Some ErrSupervisorBlocked), l)
           else startAndDeferReply E c ((resetFailureHistory l)\<lparr>lStartRequest := req\<rparr>))
      | commandRetryBlocked \<Rightarrow> Some
          (if state l \<noteq> StateBlocked then (Replied (Some ErrSupervisorBlocked), l)
           else exitBlocked E c l)
      | commandInputsChanged fingerprint \<Rightarrow> Some
          (if state l \<noteq> StateBlocked then (Replied (Some ErrSupervisorBlocked), l)
           else if fingerprint = '''' \<or> fingerprint = snapErrorFingerprint (lSnapshot l) then
             (Replied (Some ErrFingerprintUnchanged), l)
           else exitBlocked E c l)
      | commandBeginPairing req hasSink \<Rightarrow> Some
          (let (e, l1) = beginPairing E req hasSink l in (Replied e, l1))
      | commandSync ready \<Rightarrow>
          map_option (\<lambda>l1. (Replied None, l1)) (drainReadyWork (drainFuel ready) E ready l)
      | commandUnknown \<Rightarrow> Some (Replied (Some ErrUnknownCommand), l))"

definition deliver :: "reply_handle \<Rightarrow> reply \<times> loop \<Rightarrow> loop" where
  "deliver c rl =
     (case rl of (Replied e, l) \<Rightarrow> emit (Reply c e) l | (Deferred, l) \<Rightarrow> l)"

section \<open>Shutdown\<close>

text \<open>
  \<open>stopOutcome\<close> is what \<open>Run.Stop\<close> of the current run returns. Waiting for the workers has
  no effect on the loop's own state.
\<close>

definition shutdown :: "go_error option outcome \<Rightarrow> loop \<Rightarrow> go_error option \<times> loop" where
  "shutdown stopOutcome l =
     (let l1 = publish (onSnapshot (\<lambda>s. s\<lparr>snapState := StateStopping,
                 snapLivenessDeadline := 0, snapRetryAt := 0\<rparr>) (clearTimer l));
          l2 = (if lProbeCancel l1 then (emit CancelProbe l1)\<lparr>lProbeCancel := False\<rparr> else l1);
          l3 = (if lRepairCancel l2 then (emit CancelRepair l2)\<lparr>lRepairCancel := False\<rparr> else l2);
          l4 = (if lPairCancel l3 then (emit CancelPair l3)\<lparr>lPairCancel := False\<rparr> else l3);
          l5 = emit CancelRoot (l4\<lparr>lPairBoundSink := None\<rparr>);
          runStopErr = (if lRun l5 = None then None else callRunStop stopOutcome);
          l6 = resolvePendingStart (Some ErrSupervisorStopped) (retireCurrent l5);
          l7 = l6\<lparr>lProbeResults := None, lRepairResults := None, lPairResults := None,
                  lPairEvents := None, lPairActive := False\<rparr>
      in (runStopErr, publish (onSnapshot (\<lambda>s. s\<lparr>snapState := StateStopped,
            snapLivenessDeadline := 0, snapRetryAt := 0\<rparr>) l7)))"

section \<open>The sinks of a generation\<close>

definition enqueueActivity :: "generation_activity \<Rightarrow> loop \<Rightarrow> loop" where
  "enqueueActivity a l =
     (if length (lActivity l) < 256 then l\<lparr>lActivity := lActivity l @ [a]\<rparr> else l)"

text \<open>
  \<open>ctx\<close> tells whether the caller passed a context, \<open>downstream\<close> what the configured sink
  returns. Sink \<open>g\<close> is the one handed to the adapter of generation \<open>g\<close>.
\<close>

definition sinkForward ::
  "generation \<Rightarrow> bool \<Rightarrow> go_error option \<Rightarrow> activity_kind \<Rightarrow> gotime \<Rightarrow> loop
     \<Rightarrow> sup_error option \<times> loop" where
  "sinkForward g ctx downstream kind at l =
     (if \<not> ctx then (Some ErrNilContext, l)
      else if \<not> fenceActive (lGate l) \<or> fenceGeneration (lGate l) \<noteq> g then
        (Some ErrStaleGeneration, l)
      else case (if lHasSink l then downstream else None) of
        Some e \<Rightarrow> (Some (ErrDownstream e), l)
      | None \<Rightarrow>
          (None, enqueueActivity \<lparr>actGeneration = g, actKind = kind, actAt = at\<rparr> l))"

definition sinkAppendIngress ::
  "env \<Rightarrow> generation \<Rightarrow> bool \<Rightarrow> go_error option \<Rightarrow> string \<Rightarrow> generation \<Rightarrow> loop
     \<Rightarrow> sup_error option \<times> loop" where
  "sinkAppendIngress E g ctx downstream recAccount recGeneration l =
     (if recAccount \<noteq> lAccountID l \<or> recGeneration \<noteq> g then (Some ErrStaleGeneration, l)
      else sinkForward g ctx downstream activityEvent (now E) l)"

definition sinkEmitEphemeral ::
  "env \<Rightarrow> generation \<Rightarrow> bool \<Rightarrow> go_error option \<Rightarrow> string \<Rightarrow> generation \<Rightarrow> loop
     \<Rightarrow> sup_error option \<times> loop" where
  "sinkEmitEphemeral E g ctx downstream evAccount evGeneration l =
     (if evAccount \<noteq> lAccountID l \<or> evGeneration \<noteq> g then (Some ErrStaleGeneration, l)
      else sinkForward g ctx downstream activityEvent (now E) l)"

definition sinkBeat :: "generation \<Rightarrow> generation \<Rightarrow> gotime \<Rightarrow> loop \<Rightarrow> loop" where
  "sinkBeat g generation aliveAt l =
     (if generation \<noteq> g then l
      else if \<not> fenceAccepts g (lGate l) then l
      else enqueueActivity
        \<lparr>actGeneration = g, actKind = activityBeat, actAt = aliveAt\<rparr> l)"

text \<open>The pairing sink: a closed one refuses, a full queue of 32 events refuses.\<close>

definition emitPairEvent ::
  "bool \<Rightarrow> go_error option \<Rightarrow> pair_event \<Rightarrow> pairing_sink \<Rightarrow> pairing_event list
     \<Rightarrow> sup_error option \<times> pairing_event list" where
  "emitPairEvent ctx downstream ev s q =
     (if \<not> ctx then (Some ErrNilContext, q)
      else if \<not> psActive s then (Some ErrPairingNotAllowed, q)
      else case (if psDownstream s then downstream else None) of
        Some e \<Rightarrow> (Some (ErrDownstream e), q)
      | None \<Rightarrow>
          if length q < 32 then (None, q @ [\<lparr>peEpoch = psEpoch s, peEvent = ev\<rparr>])
          else (Some ErrSupervisorBusy, q))"

section \<open>The supervisor's interface\<close>

datatype sup_option =
    WithConnectionSink bool | WithCredentialRepairer bool | WithPairer bool
  | WithInitialState bridge_state | NilOption

record sup_options =
  optSink :: bool
  optRepairer :: bool
  optPairer :: bool
  optInitialState :: bridge_state

fun applyOption :: "sup_option \<Rightarrow> sup_options \<Rightarrow> sup_error + sup_options" where
  "applyOption (WithConnectionSink b) c = Inr (c\<lparr>optSink := b\<rparr>)"
| "applyOption (WithCredentialRepairer b) c = Inr (c\<lparr>optRepairer := b\<rparr>)"
| "applyOption (WithPairer b) c = Inr (c\<lparr>optPairer := b\<rparr>)"
| "applyOption (WithInitialState st) c =
     (if st \<noteq> StateStopped \<and> st \<noteq> StateUnpaired then Inl (ErrInvalidInitialState st)
      else Inr (c\<lparr>optInitialState := st\<rparr>))"
| "applyOption NilOption c = Inr c"

fun applyOptions :: "sup_option list \<Rightarrow> sup_options \<Rightarrow> sup_error + sup_options" where
  "applyOptions [] c = Inr c"
| "applyOptions (opt # opts) c =
     (case applyOption opt c of Inl e \<Rightarrow> Inl e | Inr c1 \<Rightarrow> applyOptions opts c1)"

definition emptyRequest :: start_request where
  "emptyRequest = \<lparr>reqAccountID = '''', reqDeviceID = '''', reqRemoteAccountID = '''',
     reqGeneration = 0\<rparr>"

definition initialLoop :: "string \<Rightarrow> platform \<Rightarrow> policy \<Rightarrow> sup_options \<Rightarrow> loop" where
  "initialLoop account plat p c = \<lparr>lAccountID = account, lPlatform = plat, lPolicy = p,
     lHasSink = optSink c, lHasRepairer = optRepairer c, lHasPairer = optPairer c,
     lClosing = False, lPublished = newSnapshot account plat (optInitialState c),
     lGate = \<lparr>fenceGeneration = 0, fenceActive = False\<rparr>, lActivity = [],
     lSnapshot = newSnapshot account plat (optInitialState c),
     lTimer = None, lTimerPurpose = timerNone, lTimerDeadline = 0,
     lStartRequest = emptyRequest, lStartResults = None, lStartTimedOut = False,
     lPendingStartReply = None, lRun = None, lRunContext = False, lRunCancel = False,
     lReady = False, lDone = False, lConnectDeadline = 0, lLivenessBaseline = 0,
     lTransientAttempt = 0, lSameFingerprint = '''', lSameFailureCount = 0,
     lLastFailure = zeroOpError, lRepairFailed = False, lProbeResults = None,
     lProbeCancel = False, lProbeStarted = 0, lProbeTimedOut = False, lProbeFailure = None,
     lRepairEpoch = 0, lRepairResults = None, lRepairCancel = False, lPairEpoch = 0,
     lPairActive = False, lPairExpired = False, lPairExpiresAt = 0, lPairResults = None,
     lPairEvents = None, lPairCancel = False, lPairBoundSink = None, lEffects = []\<rparr>"

text \<open>The three flags say whether the lifecycle, the clock and the random source are nil.\<close>

definition newSupervisor ::
  "string \<Rightarrow> platform \<Rightarrow> bool \<Rightarrow> policy \<Rightarrow> bool \<Rightarrow> bool \<Rightarrow> sup_option list
     \<Rightarrow> sup_error + loop" where
  "newSupervisor account plat nilLifecycle p nilClock nilRandom options =
     (if blank account \<or> trimSpace account \<noteq> account then Inl (ErrInvalidAccountID account)
      else if blank plat \<or> trimSpace plat \<noteq> plat then Inl (ErrInvalidPlatform plat)
      else if nilLifecycle then Inl ErrLifecycleRequired
      else if nilClock then Inl ErrClockRequired
      else if nilRandom then Inl ErrRandomRequired
      else case validatePolicy p of
        Some e \<Rightarrow> Inl e
      | None \<Rightarrow>
          (case applyOptions options \<lparr>optSink = False, optRepairer = False, optPairer = False,
                  optInitialState = StateStopped\<rparr> of
             Inl e \<Rightarrow> Inl e
           | Inr c \<Rightarrow>
               if optInitialState c \<noteq> StateStopped \<and> optInitialState c \<noteq> StateUnpaired
               then Inl (ErrInvalidInitialState (optInitialState c))
               else Inr (initialLoop account plat p c)))"

text \<open>
  What the exported methods do before the command reaches the loop. \<open>ctx\<close> and \<open>cancelled\<close>
  describe the caller's context; the command is what is sent, \<open>Inl\<close> an early return.
\<close>

definition sendCommand ::
  "bool \<Rightarrow> bool \<Rightarrow> loop \<Rightarrow> command \<Rightarrow> sup_error + command" where
  "sendCommand ctx cancelled l cmd =
     (if \<not> ctx then Inl ErrNilContext
      else if cancelled then Inl ErrContextDone
      else if lClosing l then Inl ErrSupervisorStopped
      else Inr cmd)"

definition supStart :: "bool \<Rightarrow> bool \<Rightarrow> start_request \<Rightarrow> loop \<Rightarrow> sup_error + command" where
  "supStart ctx cancelled req l =
     (if reqAccountID req \<noteq> '''' \<and> reqAccountID req \<noteq> lAccountID l then Inl ErrAccountMismatch
      else sendCommand ctx cancelled l
             (commandStart (req\<lparr>reqAccountID := lAccountID l, reqGeneration := 0\<rparr>)))"

definition supInputsChanged :: "bool \<Rightarrow> bool \<Rightarrow> string \<Rightarrow> loop \<Rightarrow> sup_error + command" where
  "supInputsChanged ctx cancelled fp l =
     sendCommand ctx cancelled l (commandInputsChanged (trimSpace fp))"

definition supBeginPairing ::
  "bool \<Rightarrow> bool \<Rightarrow> pair_request \<Rightarrow> bool \<Rightarrow> loop \<Rightarrow> sup_error + command" where
  "supBeginPairing ctx cancelled req hasSink l =
     (if pairAccountID req \<noteq> '''' \<and> pairAccountID req \<noteq> lAccountID l then Inl ErrAccountMismatch
      else sendCommand ctx cancelled l
             (commandBeginPairing (req\<lparr>pairAccountID := lAccountID l\<rparr>) hasSink))"

definition requestStop :: "loop \<Rightarrow> loop" where
  "requestStop l = l\<lparr>lClosing := True\<rparr>"

section \<open>The run loop as a step relation\<close>

text \<open>
  One iteration of \<open>run\<close>, and the concurrent callers it interleaves with: a due deadline is
  served before anything is received, then one enabled event or one command. An adapter's
  sink callback and a pairing worker's event run between iterations, as does \<open>Stop\<close>; a
  command that is received once \<open>closing\<close> is set is refused.
  \<open>terminated\<close> is a loop that has returned; it makes no further step.
\<close>

inductive loopStep :: "loop \<times> bool \<Rightarrow> loop \<times> bool \<Rightarrow> bool" where
  stop: "loopStep (l, False) (requestStop l, False)"
| shut: "lClosing l \<Longrightarrow> loopStep (l, False) (snd (shutdown oc l), True)"
| due: "\<not> lClosing l \<Longrightarrow> enforceDueDeadline E l = (True, l1) \<Longrightarrow>
    loopStep (l, False) (l1, False)"
| event: "\<not> lClosing l \<Longrightarrow> enforceDueDeadline E l = (False, l1) \<Longrightarrow> enabled ev l1 \<Longrightarrow>
    loopStep (l, False) (handleEvent E ev l1, False)"
| command: "\<not> lClosing l \<Longrightarrow> enforceDueDeadline E l = (False, l1) \<Longrightarrow>
    handleCommand E c cmd l1 = Some rl \<Longrightarrow> loopStep (l, False) (deliver c rl, False)"
| refused: "lClosing l \<Longrightarrow>
    loopStep (l, False) (deliver c (Replied (Some ErrSupervisorStopped), l), False)"
| ingress: "sinkForward g ctx downstream kind at l = (e, l1) \<Longrightarrow>
    loopStep (l, False) (l1, False)"
| beat: "loopStep (l, False) (sinkBeat g g' at l, False)"
| pairEvent: "lPairBoundSink l = Some s \<Longrightarrow> lPairEvents l = Some q \<Longrightarrow>
    emitPairEvent ctx downstream ev s q = (e, q1) \<Longrightarrow>
    loopStep (l, False) (l\<lparr>lPairEvents := Some q1\<rparr>, False)"

inductive_cases terminated_step: "loopStep (l, True) t"

end
