(* ===== verification/Supervisor_Frame.thy ===== *)
theory Supervisor_Frame
  imports Supervisor
begin

text \<open>
  What no handler of the run loop ever does: change the account, the policy or the
  collaborators, lower the generation, take back an effect, drop a run without stopping it,
  or drop the caller of a deferred \<open>Start\<close> without answering it. \<open>continues l t\<close> collects
  these for a move from \<open>l\<close> to \<open>t\<close>.
\<close>

definition continues :: "loop \<Rightarrow> loop \<Rightarrow> bool" where
  "continues l t \<longleftrightarrow>
     lClosing t = lClosing l \<and> lPolicy t = lPolicy l \<and> lAccountID t = lAccountID l \<and>
     lPlatform t = lPlatform l \<and> lHasSink t = lHasSink l \<and> lHasRepairer t = lHasRepairer l \<and>
     lHasPairer t = lHasPairer l \<and> gen l \<le> gen t \<and>
     (\<exists>es. lEffects t = lEffects l @ es \<and>
        (\<forall>h. lRun l = Some h \<longrightarrow> lRun t = Some h \<or> RunStop h \<in> set es) \<and>
        (\<forall>c. lPendingStartReply l = Some c \<longrightarrow>
           lPendingStartReply t = Some c \<or> (\<exists>e. Reply c e \<in> set es)))"

lemma continues_refl [simp]: "continues l l"
  by (simp add: continues_def)

lemma continues_trans: "continues l t \<Longrightarrow> continues t u \<Longrightarrow> continues l u"
  unfolding continues_def by (elim conjE exE) (simp, blast)

lemma continuesD:
  assumes "continues l t"
  shows "lClosing t = lClosing l" and "lPolicy t = lPolicy l" and "lAccountID t = lAccountID l"
    and "gen l \<le> gen t" and "lHasSink t = lHasSink l"
  using assms by (simp_all add: continues_def)

section \<open>Updates of a single field\<close>

lemma continues_frame [simp]:
  "continues l (x\<lparr>lPublished := y0\<rparr>) = continues l x"
  "continues l (x\<lparr>lGate := y1\<rparr>) = continues l x"
  "continues l (x\<lparr>lActivity := y2\<rparr>) = continues l x"
  "continues l (x\<lparr>lTimer := y3\<rparr>) = continues l x"
  "continues l (x\<lparr>lTimerPurpose := y4\<rparr>) = continues l x"
  "continues l (x\<lparr>lTimerDeadline := y5\<rparr>) = continues l x"
  "continues l (x\<lparr>lStartRequest := y6\<rparr>) = continues l x"
  "continues l (x\<lparr>lStartResults := y7\<rparr>) = continues l x"
  "continues l (x\<lparr>lStartTimedOut := y8\<rparr>) = continues l x"
  "continues l (x\<lparr>lRunContext := y9\<rparr>) = continues l x"
  "continues l (x\<lparr>lRunCancel := y10\<rparr>) = continues l x"
  "continues l (x\<lparr>lReady := y11\<rparr>) = continues l x"
  "continues l (x\<lparr>lDone := y12\<rparr>) = continues l x"
  "continues l (x\<lparr>lConnectDeadline := y13\<rparr>) = continues l x"
  "continues l (x\<lparr>lLivenessBaseline := y14\<rparr>) = continues l x"
  "continues l (x\<lparr>lTransientAttempt := y15\<rparr>) = continues l x"
  "continues l (x\<lparr>lSameFingerprint := y16\<rparr>) = continues l x"
  "continues l (x\<lparr>lSameFailureCount := y17\<rparr>) = continues l x"
  "continues l (x\<lparr>lLastFailure := y18\<rparr>) = continues l x"
  "continues l (x\<lparr>lRepairFailed := y19\<rparr>) = continues l x"
  "continues l (x\<lparr>lProbeResults := y20\<rparr>) = continues l x"
  "continues l (x\<lparr>lProbeCancel := y21\<rparr>) = continues l x"
  "continues l (x\<lparr>lProbeStarted := y22\<rparr>) = continues l x"
  "continues l (x\<lparr>lProbeTimedOut := y23\<rparr>) = continues l x"
  "continues l (x\<lparr>lProbeFailure := y24\<rparr>) = continues l x"
  "continues l (x\<lparr>lRepairEpoch := y25\<rparr>) = continues l x"
  "continues l (x\<lparr>lRepairResults := y26\<rparr>) = continues l x"
  "continues l (x\<lparr>lRepairCancel := y27\<rparr>) = continues l x"
  "continues l (x\<lparr>lPairEpoch := y28\<rparr>) = continues l x"
  "continues l (x\<lparr>lPairActive := y29\<rparr>) = continues l x"
  "continues l (x\<lparr>lPairExpired := y30\<rparr>) = continues l x"
  "continues l (x\<lparr>lPairExpiresAt := y31\<rparr>) = continues l x"
  "continues l (x\<lparr>lPairResults := y32\<rparr>) = continues l x"
  "continues l (x\<lparr>lPairEvents := y33\<rparr>) = continues l x"
  "continues l (x\<lparr>lPairCancel := y34\<rparr>) = continues l x"
  "continues l (x\<lparr>lPairBoundSink := y35\<rparr>) = continues l x"
  by (simp_all add: continues_def)

lemma continues_snapshot [simp]:
  "continues l x \<Longrightarrow> gen x \<le> snapGeneration s \<Longrightarrow> continues l (x\<lparr>lSnapshot := s\<rparr>)"
  by (auto simp: continues_def)

lemma continues_emit [simp]: "continues l x \<Longrightarrow> continues l (emit e x)"
  unfolding continues_def emit_def by (elim conjE exE) auto

lemma continues_publish [simp]: "continues l (publish x) = continues l x"
  by (simp add: publish_def)

lemma continues_stopRun [simp]:
  "continues l x \<Longrightarrow> lRun x = Some h \<Longrightarrow> continues l (emit (RunStop h) (x\<lparr>lRun := None\<rparr>))"
  unfolding continues_def emit_def by (elim conjE exE) auto

lemma continues_installRun [simp]:
  "continues l x \<Longrightarrow> lRun x = None \<Longrightarrow> continues l (installRun h x)"
  unfolding continues_def installRun_def by (elim conjE exE) auto

lemma continues_resolve [simp]: "continues l x \<Longrightarrow> continues l (resolvePendingStart e x)"
  unfolding continues_def emit_def resolvePendingStart_def
  by (cases "lPendingStartReply x"; elim conjE exE) auto

lemma continues_pending:
  "continues l x \<Longrightarrow> lPendingStartReply x = None \<Longrightarrow>
   continues l (x\<lparr>lPendingStartReply := Some c\<rparr>)"
  unfolding continues_def by (elim conjE exE) auto

section \<open>The handlers\<close>

lemma continues_simple [simp]:
  assumes "continues l x"
  shows "continues l (clearTimer x)" and "continues l (replaceTimer E p d x)"
    and "continues l (clearGenerationContext x)" and "continues l (resetFailureHistory x)"
    and "continues l (setError f x)" and "continues l (enterState st x)"
    and "continues l (snd (recordFingerprint c fp x))"
    and "continues l (stopReturned r x)"
    and "continues l (refreshLivenessDeadline x)" and "continues l (takeProbeResult x)"
    and "continues l (takeRepairResult x)" and "continues l (takePairResult x)"
    and "continues l (abandonPairing x)" and "continues l (pairFailed f x)"
  using assms by (simp_all add: clearTimer_def replaceTimer_def clearGenerationContext_def
      resetFailureHistory_def setError_def enterState_def recordFingerprint_def stopReturned_def
      refreshLivenessDeadline_def takeProbeResult_def takeRepairResult_def takePairResult_def
      abandonPairing_def pairFailed_def Let_def emit_def [symmetric] split: option.split)

lemma continues_retirePreserving [simp]:
  "continues l x \<Longrightarrow> continues l (retireCurrentPreservingProbe x)"
  by (simp add: retireCurrentPreservingProbe_def Let_def split: option.split)

lemma continues_retire [simp]: "continues l x \<Longrightarrow> continues l (retireCurrent x)"
  by (simp add: retireCurrent_def Let_def)

lemma continues_startGeneration [simp]:
  "continues l x \<Longrightarrow> continues l (snd (startGeneration E x))"
  by (simp add: startGeneration_def Let_def)

lemma startGeneration_pending [simp]:
  "lPendingStartReply (snd (startGeneration E x)) = lPendingStartReply x"
  by (simp add: startGeneration_def Let_def emit_def publish_def replaceTimer_def clearTimer_def)

lemma continues_startAndDefer:
  assumes "continues l x" and "lPendingStartReply x = None"
  shows "continues l (snd (startAndDeferReply E c x))"
proof -
  obtain e y where s: "startGeneration E x = (e, y)" by fastforce
  have "continues l y" and "lPendingStartReply y = None"
    using assms continues_startGeneration [of l x E] startGeneration_pending [of E x]
    by (simp_all add: s)
  then show ?thesis
    by (cases e) (simp_all add: startAndDeferReply_def s continues_pending)
qed

lemma continues_repair [simp]: "continues l x \<Longrightarrow> continues l (beginCredentialRepair f x)"
  by (simp add: beginCredentialRepair_def Let_def)

lemma continues_routeByClass [simp]: "continues l x \<Longrightarrow> continues l (routeByClass E f x)"
  by (simp add: routeByClass_def Let_def split: failure_class.split option.split)

lemma continues_route [simp]: "continues l x \<Longrightarrow> continues l (routeFailure E f x)"
  by (simp add: routeFailure_def Let_def case_prod_beta bool.case_eq_if)

lemma continues_schedule [simp]:
  "continues l x \<Longrightarrow> continues l (scheduleLivenessCheck E x)"
  by (simp add: scheduleLivenessCheck_def Let_def)

lemma continues_connectTimeout [simp]:
  "continues l x \<Longrightarrow> continues l (handleConnectTimeout E x)"
  by (simp add: handleConnectTimeout_def Let_def)

lemma continues_runDone [simp]: "continues l x \<Longrightarrow> continues l (handleRunDone E e x)"
  by (simp add: handleRunDone_def Let_def)

lemma continues_ready [simp]: "continues l x \<Longrightarrow> continues l (handleReady E polled x)"
  by (simp add: handleReady_def Let_def split: option.split)

text \<open>Only the start result installs a run, and then there must be none to overwrite.\<close>

lemma continues_startResult:
  assumes "continues l x" and "lStartResults x = None \<or> lRun x = None"
  shows "continues l (handleStartResult E r x)"
proof (cases "lStartResults x = None \<or> srGeneration r \<noteq> gen x")
  case True
  with assms(1) show ?thesis by (auto simp: handleStartResult_def)
next
  case False
  with assms(2) have "lRun x = None" by auto
  with False assms(1) show ?thesis
    by (simp add: handleStartResult_def Let_def split: option.split)
qed

lemma continues_activity [simp]: "continues l x \<Longrightarrow> continues l (handleActivity E a x)"
  by (simp add: handleActivity_def Let_def split: activity_kind.split)

lemma continues_beginProbe [simp]: "continues l x \<Longrightarrow> continues l (beginProbe E x)"
  by (simp add: beginProbe_def Let_def split: option.split)

lemma continues_probeResult [simp]: "continues l x \<Longrightarrow> continues l (handleProbeResult E r x)"
  by (simp add: handleProbeResult_def Let_def split: option.split)

lemma continues_repairResult [simp]: "continues l x \<Longrightarrow> continues l (handleRepairResult E r x)"
  by (simp add: handleRepairResult_def Let_def split: option.split)

lemma continues_expire [simp]: "continues l x \<Longrightarrow> continues l (expirePairing x)"
  by (simp add: expirePairing_def)

lemma continues_beginPairing [simp]:
  "continues l x \<Longrightarrow> continues l (snd (beginPairing E req b x))"
  by (simp add: beginPairing_def Let_def)

lemma continues_pairEvent [simp]: "continues l x \<Longrightarrow> continues l (handlePairEvent E pe x)"
  by (simp add: handlePairEvent_def Let_def)

lemma continues_pairResult [simp]: "continues l x \<Longrightarrow> continues l (handlePairResult E r x)"
  by (simp add: handlePairResult_def Let_def split: option.split)

lemma continues_due [simp]: "continues l x \<Longrightarrow> continues l (snd (enforceDueDeadline E x))"
  by (simp add: enforceDueDeadline_def Let_def split: timer_purpose.split)

lemma continues_event:
  assumes "continues l x" and "lStartResults x = None \<or> lRun x = None"
  shows "continues l (handleEvent E ev x)"
  using assms by (cases ev) (auto simp: continues_startResult split: list.split option.split)

lemma continues_deliver [simp]: "continues l (snd rl) \<Longrightarrow> continues l (deliver c rl)"
  by (auto simp: deliver_def split: prod.split reply.split)

lemma continues_exitBlocked:
  "continues l x \<Longrightarrow> lPendingStartReply x = None \<Longrightarrow> continues l (snd (exitBlocked E c x))"
  by (simp add: exitBlocked_def Let_def continues_startAndDefer resetFailureHistory_def)

lemma continues_enqueue [simp]: "continues l x \<Longrightarrow> continues l (enqueueActivity a x)"
  by (simp add: enqueueActivity_def)

lemma continues_sink [simp]:
  "continues l x \<Longrightarrow> continues l (snd (sinkForward g ctx d k at x))"
  "continues l x \<Longrightarrow> continues l (sinkBeat g g' at x)"
  by (simp_all add: sinkForward_def sinkBeat_def split: option.split)

end
