(* ===== verification/Supervisor_Safety.thy ===== *)
theory Supervisor_Safety
  imports Supervisor_Frame
begin

text \<open>
  The invariant of the run loop: what each published state means for the connection, the
  workers in flight, the fence and the armed timer; that every handler of
  \<open>internal/bridge/supervisor.go\<close> keeps it, and hence that every reachable state has it.
\<close>

section \<open>The invariant\<close>

text \<open>
  What the loop holds in each state. \<open>idle\<close>: no connection, no start in flight, the fence
  closed. \<open>live\<close>: a connection is installed and the fence admits its generation.
\<close>

definition idle :: "loop \<Rightarrow> bool" where
  "idle l \<longleftrightarrow> lRun l = None \<and> lStartResults l = None \<and> \<not> fenceActive (lGate l) \<and>
     \<not> lStartTimedOut l \<and> lProbeResults l = None"

definition live :: "loop \<Rightarrow> bool" where
  "live l \<longleftrightarrow> lRun l \<noteq> None \<and> lStartResults l = None \<and> fenceActive (lGate l) \<and>
     \<not> lStartTimedOut l \<and> lRepairResults l = None \<and> \<not> lPairActive l"

definition starting :: "loop \<Rightarrow> bool" where
  "starting l \<longleftrightarrow> lRun l = None \<and> lStartResults l = Some (gen l) \<and> lRepairResults l = None \<and>
     \<not> lPairActive l \<and>
     (if lStartTimedOut l then \<not> fenceActive (lGate l) \<and> lTimerPurpose l = timerNone
      else fenceActive (lGate l) \<and> lTimerPurpose l = timerConnectDeadline)"

definition coreInv :: "loop \<Rightarrow> bool" where
  "coreInv l \<longleftrightarrow>
     (fenceActive (lGate l) \<longrightarrow> fenceGeneration (lGate l) = gen l) \<and>
     lPairResults l = (if lPairActive l then Some (lPairEpoch l) else None) \<and>
     (case state l of
        StateConnecting \<Rightarrow> lProbeResults l = None \<and>
          (starting l \<or> live l \<and> lTimerPurpose l = timerConnectDeadline)
      | StateOnline \<Rightarrow>
          live l \<and> lProbeResults l = None \<and> lTimerPurpose l = timerLivenessCheck
      | StateDegraded \<Rightarrow>
          live l \<and> lProbeResults l = Some (gen l) \<and>
          (if lProbeTimedOut l then lTimerPurpose l = timerNone
           else lTimerPurpose l = timerProbeDeadline)
      | StateBackoff \<Rightarrow>
          idle l \<and> lRepairResults l = None \<and> \<not> lPairActive l \<and> lTimerPurpose l = timerBackoff
      | StateRepairingCredentials \<Rightarrow>
          idle l \<and> lRepairResults l = Some (lRepairEpoch l) \<and> \<not> lPairActive l \<and>
          lTimerPurpose l = timerNone
      | StatePairing \<Rightarrow>
          idle l \<and> lRepairResults l = None \<and> lPairActive l \<and> \<not> lPairExpired l \<and>
          lTimerPurpose l \<in> {timerNone, timerPairExpiry}
      | StateUnpaired \<Rightarrow>
          idle l \<and> lRepairResults l = None \<and> (lPairActive l \<longrightarrow> lPairExpired l) \<and>
          lTimerPurpose l = timerNone
      | StateStopping \<Rightarrow> False
      | _ \<Rightarrow>
          idle l \<and> lRepairResults l = None \<and> \<not> lPairActive l \<and> lTimerPurpose l = timerNone)"

definition torn :: "loop \<Rightarrow> bool" where
  "torn l \<longleftrightarrow> idle l \<and> lRepairResults l = None \<and> \<not> lPairActive l \<and> lPairResults l = None \<and>
     lTimerPurpose l = timerNone"

lemmas primitive_defs = emit_def publish_def clearTimer_def replaceTimer_def
  enterState_def setError_def fenceActivate_def fenceDeactivate_def fenceAccepts_def
  resetFailureHistory_def recordFingerprint_def installRun_def stopReturned_def Let_def

lemmas inv_defs = coreInv_def idle_def live_def starting_def

section \<open>Failure routing\<close>

lemma beginCredentialRepair_inv: "torn l \<Longrightarrow> coreInv (beginCredentialRepair f l)"
  by (simp add: torn_def beginCredentialRepair_def inv_defs primitive_defs)

lemma torn_resetFailureHistory: "torn l \<Longrightarrow> torn (resetFailureHistory l)"
  by (simp add: torn_def idle_def primitive_defs)

lemma torn_recordFingerprint: "torn l \<Longrightarrow> torn (snd (recordFingerprint c fp l))"
  by (simp add: torn_def idle_def primitive_defs)

lemma torn_setError: "torn l \<Longrightarrow> torn (setError f l)"
  by (simp add: torn_def idle_def primitive_defs)

lemma torn_idle:
  assumes "torn l"
    and "st \<in> {StateUnconfigured, StateUnpaired, StateStopped, StateBlocked}"
  shows "coreInv (publish (enterState st l))"
  using assms by (auto simp: torn_def inv_defs primitive_defs)

lemma withClass_class [simp]: "opClass (withClass c e) = c"
  by (simp add: withClass_def)

lemma routeByClass_inv:
  assumes "torn l" and "knownClass (opClass f)" and "opClass f \<noteq> FailureUnpaired"
  shows "coreInv (routeByClass E f l)"
proof (cases "opClass f")
  case FailureTransient
  then show ?thesis using assms(1)
    by (simp add: routeByClass_def torn_def inv_defs primitive_defs split: option.split)
next
  case FailureRateLimited
  then show ?thesis using assms(1)
    by (simp add: routeByClass_def torn_def inv_defs primitive_defs)
next
  case FailureCredentialsExpired
  then show ?thesis using assms(1) by (simp add: routeByClass_def beginCredentialRepair_inv)
qed (use assms in \<open>auto simp: routeByClass_def knownClass_def intro: torn_idle\<close>)

lemma routeFailure_inv:
  assumes "torn l"
  shows "coreInv (routeFailure E f l)"
proof -
  define g where "g = (if knownClass (opClass f) then f else withClass FailureTransient f)"
  define l1 where "l1 = onSnapshot (\<lambda>s. s\<lparr>snapRetryAt := 0, snapLivenessDeadline := 0\<rparr>)
                 (setError g l)"
  have known: "knownClass (opClass g)" by (simp add: g_def knownClass_def)
  have t1: "torn l1" using assms by (simp add: l1_def torn_def idle_def primitive_defs)
  have r: "routeFailure E f l =
    (if opClass g = FailureUnpaired then
       publish (enterState StateUnpaired (setError g (resetFailureHistory l1)))
     else case recordFingerprint (opClass g) (opFingerprint g) l1 of
             (True, l2) \<Rightarrow> publish (enterState StateBlocked l2)
           | (False, l2) \<Rightarrow> routeByClass E g l2)"
    by (simp only: routeFailure_def Let_def g_def l1_def)
  show ?thesis
  proof (cases "opClass g = FailureUnpaired")
    case True
    then show ?thesis
      by (simp add: r torn_idle torn_setError torn_resetFailureHistory t1)
  next
    case False
    have "torn (snd (recordFingerprint (opClass g) (opFingerprint g) l1))"
      by (rule torn_recordFingerprint [OF t1])
    with False known show ?thesis
      by (auto simp: r torn_idle routeByClass_inv split: prod.split bool.split)
  qed
qed

section \<open>Every handler keeps the invariant\<close>


text \<open>The fields the invariant does not read.\<close>

lemma coreInv_frame [simp]:
  "coreInv (l\<lparr>lDone := x0\<rparr>) = coreInv l"
  "coreInv (l\<lparr>lReady := x1\<rparr>) = coreInv l"
  "coreInv (l\<lparr>lPublished := x2\<rparr>) = coreInv l"
  "coreInv (l\<lparr>lEffects := x3\<rparr>) = coreInv l"
  "coreInv (l\<lparr>lActivity := x4\<rparr>) = coreInv l"
  "coreInv (l\<lparr>lPendingStartReply := x5\<rparr>) = coreInv l"
  "coreInv (l\<lparr>lStartRequest := x6\<rparr>) = coreInv l"
  "coreInv (l\<lparr>lLastFailure := x7\<rparr>) = coreInv l"
  "coreInv (l\<lparr>lRepairFailed := x8\<rparr>) = coreInv l"
  "coreInv (l\<lparr>lRepairCancel := x9\<rparr>) = coreInv l"
  "coreInv (l\<lparr>lPairBoundSink := x10\<rparr>) = coreInv l"
  "coreInv (l\<lparr>lPairEvents := x11\<rparr>) = coreInv l"
  "coreInv (l\<lparr>lPairCancel := x12\<rparr>) = coreInv l"
  "coreInv (l\<lparr>lPairExpiresAt := x13\<rparr>) = coreInv l"
  "coreInv (l\<lparr>lConnectDeadline := x14\<rparr>) = coreInv l"
  "coreInv (l\<lparr>lLivenessBaseline := x15\<rparr>) = coreInv l"
  "coreInv (l\<lparr>lClosing := x16\<rparr>) = coreInv l"
  "coreInv (l\<lparr>lProbeCancel := x17\<rparr>) = coreInv l"
  by (cases "state l"; simp add: inv_defs)+

lemma coreInv_snapshot_frame [simp]:
  "coreInv (l\<lparr>lSnapshot := lSnapshot l\<lparr>snapLastEventAt := t\<rparr>\<rparr>) = coreInv l"
  "coreInv (l\<lparr>lSnapshot := lSnapshot l\<lparr>snapLastProbeOKAt := t\<rparr>\<rparr>) = coreInv l"
  "coreInv (l\<lparr>lSnapshot := lSnapshot l\<lparr>snapLivenessDeadline := t\<rparr>\<rparr>) = coreInv l"
  "coreInv (resetFailureHistory l) = coreInv l"
  by (cases "state l"; simp add: inv_defs resetFailureHistory_def)+

lemma coreInv_emit [simp]: "coreInv (emit e l) = coreInv l"
  by (simp add: emit_def)

lemma coreInv_publish [simp]: "coreInv (publish l) = coreInv l"
  by (simp add: publish_def)

lemma coreInv_refresh [simp]: "coreInv (refreshLivenessDeadline l) = coreInv l"
  by (simp add: refreshLivenessDeadline_def Let_def)

lemma clearTimer_idem [simp]: "clearTimer (clearTimer l) = clearTimer l"
  by (simp add: primitive_defs)

lemma clearTimer_simps [simp]:
  "lSnapshot (clearTimer l) = lSnapshot l" "lRun (clearTimer l) = lRun l"
  "lStartResults (clearTimer l) = lStartResults l" "lGate (clearTimer l) = lGate l"
  "lTimerPurpose (clearTimer l) = timerNone" "lRepairResults (clearTimer l) = lRepairResults l"
  "lPairActive (clearTimer l) = lPairActive l" "lPairResults (clearTimer l) = lPairResults l"
  "lStartTimedOut (clearTimer l) = lStartTimedOut l" "lClosing (clearTimer l) = lClosing l"
  "lPolicy (clearTimer l) = lPolicy l" "lConnectDeadline (clearTimer l) = lConnectDeadline l"
  "lProbeResults (clearTimer l) = lProbeResults l"
  "lPairExpired (clearTimer l) = lPairExpired l" "lPairEpoch (clearTimer l) = lPairEpoch l"
  "lPairBoundSink (clearTimer l) = lPairBoundSink l" "lPairCancel (clearTimer l) = lPairCancel l"
  "lPairExpiresAt (clearTimer l) = lPairExpiresAt l" "lProbeCancel (clearTimer l) = lProbeCancel l"
  by (simp_all add: primitive_defs)

lemma torn_retire:
  "(fenceActive (lGate l) \<longrightarrow> fenceGeneration (lGate l) = gen l) \<Longrightarrow>
   lStartResults l = None \<Longrightarrow> lRepairResults l = None \<Longrightarrow> \<not> lPairActive l \<Longrightarrow>
   lPairResults l = None \<Longrightarrow> \<not> lStartTimedOut l \<Longrightarrow> lTimerPurpose l = timerNone \<Longrightarrow>
   torn (retireCurrent l)"
  by (auto simp: torn_def idle_def retireCurrent_def retireCurrentPreservingProbe_def
      clearGenerationContext_def primitive_defs split: option.split)

lemma torn_clear:
  "(fenceActive (lGate l) \<longrightarrow> fenceGeneration (lGate l) = gen l) \<Longrightarrow> lRun l = None \<Longrightarrow>
   lStartResults l = None \<Longrightarrow> lRepairResults l = None \<Longrightarrow> \<not> lPairActive l \<Longrightarrow>
   lPairResults l = None \<Longrightarrow> \<not> lStartTimedOut l \<Longrightarrow> lTimerPurpose l = timerNone \<Longrightarrow>
   lProbeResults l = None \<Longrightarrow> torn (clearGenerationContext l)"
  by (auto simp: torn_def idle_def clearGenerationContext_def primitive_defs)

lemma coreInv_fence: "coreInv l \<Longrightarrow> fenceActive (lGate l) \<Longrightarrow> fenceGeneration (lGate l) = gen l"
  by (simp add: coreInv_def)

lemma coreInv_run:
  assumes "coreInv l" and "lRun l \<noteq> None"
  shows "live l" and "state l \<in> {StateConnecting, StateOnline, StateDegraded}"
  using assms by (cases "state l"; simp add: inv_defs)+

lemma coreInv_connecting:
  "coreInv l \<Longrightarrow> state l = StateConnecting \<Longrightarrow> lRun l = None \<Longrightarrow> starting l"
  by (simp add: coreInv_def live_def)

lemma live_pairResults: "coreInv l \<Longrightarrow> live l \<Longrightarrow> lPairResults l = None"
  by (simp add: coreInv_def live_def)

lemma torn_retire_run:
  assumes "coreInv l" and "lRun l \<noteq> None"
  shows "torn (retireCurrent (clearTimer l))"
  using coreInv_run(1) [OF assms] live_pairResults [OF assms(1)] coreInv_fence [OF assms(1)]
  by (intro torn_retire) (simp_all add: live_def)

lemma handleConnectTimeout_inv:
  assumes inv: "coreInv l"
  shows "coreInv (handleConnectTimeout E l)"
proof (cases "state l = StateConnecting")
  case True
  show ?thesis
  proof (cases "lRun l")
    case None
    with inv True have "starting l" by (simp add: coreInv_connecting)
    with inv True show ?thesis
      by (auto simp: handleConnectTimeout_def inv_defs primitive_defs split: if_splits)
  next
    case (Some h)
    with inv have "live l" by (auto dest: coreInv_run)
    with Some True inv show ?thesis
      by (simp add: handleConnectTimeout_def Let_def live_def routeFailure_inv torn_retire_run)
  qed
qed (simp add: handleConnectTimeout_def inv)

lemma handleRunDone_inv:
  assumes "coreInv l"
  shows "coreInv (handleRunDone E err l)"
proof -
  have done_off: "coreInv (l\<lparr>lDone := False\<rparr>)" using assms by simp
  show ?thesis
  proof (cases "lRun l")
    case None
    with done_off show ?thesis by (simp add: handleRunDone_def)
  next
    case (Some h)
    then have "torn (retireCurrent (clearTimer (l\<lparr>lDone := False\<rparr>)))"
      using torn_retire_run [OF done_off] by simp
    with Some show ?thesis
      by (simp add: handleRunDone_def Let_def routeFailure_inv handleConnectTimeout_inv assms)
  qed
qed

lemma goOnline_inv:
  assumes "coreInv l" and "live l" and "state l = StateConnecting"
  shows "coreInv (publish (scheduleLivenessCheck E (refreshLivenessDeadline
     (onSnapshot (\<lambda>s. s\<lparr>snapState := StateOnline, snapRetryAt := 0,
        snapErrorClass := FailureUnset, snapErrorFingerprint := ''''\<rparr>)
       ((clearTimer (l\<lparr>lReady := False\<rparr>))\<lparr>lLivenessBaseline := now E\<rparr>)))))"
  using assms
  by (simp add: inv_defs scheduleLivenessCheck_def refreshLivenessDeadline_def primitive_defs)

lemma handleReady_inv:
  assumes "coreInv l"
  shows "coreInv (handleReady E polled l)"
proof (cases "lRun l = None \<or> state l \<noteq> StateConnecting")
  case True
  then have "handleReady E polled l = l\<lparr>lReady := False\<rparr>" by (simp add: handleReady_def)
  with assms show ?thesis by simp
next
  case False
  with assms have "live l" by (auto dest: coreInv_run)
  with False show ?thesis
    using goOnline_inv [OF assms, of E]
    by (simp add: handleReady_def Let_def handleRunDone_inv handleConnectTimeout_inv assms
        split: option.split)
qed

lemma coreInv_stopReturned [simp]: "coreInv (stopReturned r l) = coreInv l"
  by (simp add: stopReturned_def split: option.split)

lemma coreInv_resolve [simp]: "coreInv (resolvePendingStart e l) = coreInv l"
  by (simp add: resolvePendingStart_def split: option.split)

lemma stopReturned_simps [simp]:
  "lSnapshot (stopReturned r l) = lSnapshot l" "lRun (stopReturned r l) = lRun l"
  "lStartResults (stopReturned r l) = lStartResults l" "lGate (stopReturned r l) = lGate l"
  "lTimerPurpose (stopReturned r l) = lTimerPurpose l"
  "lRepairResults (stopReturned r l) = lRepairResults l"
  "lPairActive (stopReturned r l) = lPairActive l"
  "lPairResults (stopReturned r l) = lPairResults l"
  "lStartTimedOut (stopReturned r l) = lStartTimedOut l"
  "lProbeResults (stopReturned r l) = lProbeResults l"
  by (simp_all add: stopReturned_def emit_def split: option.split)

text \<open>A start in flight: the facts its result handler needs.\<close>

lemma coreInv_starting:
  assumes "coreInv l" and "lStartResults l \<noteq> None"
  shows "starting l" and "state l = StateConnecting" and "lPairResults l = None"
    and "lProbeResults l = None"
  using assms by (cases "state l"; simp add: coreInv_def idle_def live_def starting_def)+

lemma installed_inv:
  assumes "coreInv l" and "lStartResults l \<noteq> None" and "\<not> lStartTimedOut l"
  shows "coreInv (installRun h (l\<lparr>lStartResults := None, lStartTimedOut := False\<rparr>))"
  using coreInv_starting [OF assms(1,2)] assms
  by (simp add: inv_defs installRun_def)

lemma started_torn:
  assumes "coreInv l" and "lStartResults l \<noteq> None"
  shows "torn (retireCurrent (clearTimer (l\<lparr>lStartResults := None, lStartTimedOut := False\<rparr>)))"
    and "torn (retireCurrent (clearTimer
            (installRun h (l\<lparr>lStartResults := None, lStartTimedOut := False\<rparr>))))"
    and "torn (clearGenerationContext (clearTimer
            (l\<lparr>lStartResults := None, lStartTimedOut := False\<rparr>)))"
    and "lStartTimedOut l \<Longrightarrow> torn (clearGenerationContext (stopReturned r
            (l\<lparr>lStartResults := None, lStartTimedOut := False\<rparr>)))"
  using coreInv_starting [OF assms] coreInv_fence [OF assms(1)]
  by (auto intro!: torn_retire torn_clear simp: starting_def installRun_def)

lemma handleStartResult_inv:
  assumes inv: "coreInv l"
  shows "coreInv (handleStartResult E r l)"
proof (cases "lStartResults l = None \<or> srGeneration r \<noteq> gen l")
  case True
  with inv show ?thesis by (auto simp: handleStartResult_def)
next
  case False
  then have st: "lStartResults l \<noteq> None" by simp
  note torn = started_torn [OF inv st]
  show ?thesis
  proof (cases "lStartTimedOut l")
    case True
    with False torn(4) inv show ?thesis
      by (auto simp: handleStartResult_def Let_def routeFailure_inv)
  next
    case timely: False
    note good = installed_inv [OF inv st timely]
    show ?thesis
    proof (cases "srErr r")
      case None
      with False timely torn(3) good inv show ?thesis
        by (auto simp: handleStartResult_def Let_def routeFailure_inv handleConnectTimeout_inv
            split: option.split)
    next
      case (Some err)
      with False timely torn(1,2) inv show ?thesis
        by (auto simp: handleStartResult_def Let_def routeFailure_inv split: option.split)
    qed
  qed
qed

lemma scheduleLivenessCheck_inv:
  assumes "coreInv l"
  shows "coreInv (scheduleLivenessCheck E l)"
  using assms
  by (cases "state l = StateOnline")
    (simp_all add: scheduleLivenessCheck_def inv_defs primitive_defs)

lemma handleActivity_inv:
  assumes "coreInv l"
  shows "coreInv (handleActivity E a l)"
  using assms
  by (simp add: handleActivity_def Let_def scheduleLivenessCheck_inv split: activity_kind.split)

lemma beginProbe_inv:
  assumes "live l" and "lPairResults l = None" and "lProbeResults l = None"
    and "state l = StateOnline" and "fenceGeneration (lGate l) = gen l"
  shows "coreInv (beginProbe E l)"
  using assms
  by (auto simp: beginProbe_def inv_defs primitive_defs split: option.split)

lemma coreInv_degraded:
  assumes "coreInv l" and "lProbeResults l \<noteq> None"
  shows "live l" and "state l = StateDegraded" and "lPairResults l = None"
  using assms by (cases "state l"; simp add: inv_defs)+

lemma backOnline_inv:
  assumes "live l" and "lPairResults l = None" and "lProbeResults l = None"
    and "fenceGeneration (lGate l) = gen l"
  shows "coreInv (scheduleLivenessCheck E (publish (refreshLivenessDeadline
     (onSnapshot (\<lambda>s. s\<lparr>snapState := StateOnline\<rparr>) (resetFailureHistory l)))))"
  using assms
  by (simp add: scheduleLivenessCheck_def refreshLivenessDeadline_def inv_defs primitive_defs)

lemma takeProbeResult_simps [simp]:
  "lSnapshot (takeProbeResult l) = lSnapshot l" "lRun (takeProbeResult l) = lRun l"
  "lGate (takeProbeResult l) = lGate l" "lPairResults (takeProbeResult l) = lPairResults l"
  "lStartResults (takeProbeResult l) = lStartResults l" "lPairActive (takeProbeResult l) = lPairActive l"
  "lStartTimedOut (takeProbeResult l) = lStartTimedOut l"
  "lRepairResults (takeProbeResult l) = lRepairResults l" "lTimerPurpose (takeProbeResult l) = timerNone"
  "lProbeResults (takeProbeResult l) = None"
  by (simp_all add: takeProbeResult_def Let_def emit_def)

lemma handleProbeResult_inv:
  assumes inv: "coreInv l"
  shows "coreInv (handleProbeResult E r l)"
proof (cases "lProbeResults l = None \<or> pbGeneration r \<noteq> gen l")
  case True
  with inv show ?thesis by (auto simp: handleProbeResult_def)
next
  case False
  then have some: "lProbeResults l \<noteq> None" by simp
  note deg = coreInv_degraded [OF inv some]
  have fence: "fenceGeneration (lGate l) = gen l"
    using deg(1) inv by (auto simp: live_def dest: coreInv_fence)
  have torn: "torn (retireCurrent (takeProbeResult l))"
    using deg fence by (intro torn_retire) (simp_all add: live_def)
  have lv: "live (takeProbeResult l)" using deg(1) by (simp add: live_def)
  have lv': "live ((takeProbeResult l)\<lparr>lSnapshot := s\<rparr>)" for s using lv by (simp add: live_def)
  show ?thesis
    using deg fence torn lv lv' False
    by (auto simp: handleProbeResult_def Let_def routeFailure_inv backOnline_inv live_def [of l]
        split: option.split)
qed

lemma startGeneration_inv:
  assumes "idle l" and "lRepairResults l = None" and "\<not> lPairActive l"
    and "lPairResults l = None" and "\<not> lClosing l"
  shows "coreInv (snd (startGeneration E l))" and "fst (startGeneration E l) = None"
  using assms by (simp_all add: startGeneration_def inv_defs primitive_defs)

lemma coreInv_repairing:
  assumes "coreInv l" and "lRepairResults l \<noteq> None"
  shows "idle l" and "state l = StateRepairingCredentials" and "lPairResults l = None"
    and "\<not> lPairActive l" and "lTimerPurpose l = timerNone"
  using assms by (cases "state l"; simp add: inv_defs)+

lemma handleRepairResult_inv:
  assumes inv: "coreInv l" and "\<not> lClosing l"
  shows "coreInv (handleRepairResult E r l)"
proof (cases "lRepairResults l = None \<or> rrEpoch r \<noteq> lRepairEpoch l")
  case True
  with inv show ?thesis by (auto simp: handleRepairResult_def)
next
  case False
  then have some: "lRepairResults l \<noteq> None" by simp
  note rep = coreInv_repairing [OF inv some]
  have torn: "torn (takeRepairResult l)" and open_: "\<not> lClosing (takeRepairResult l)"
    and st: "state (takeRepairResult l) = StateRepairingCredentials"
    using rep assms(2) by (auto simp: torn_def idle_def takeRepairResult_def Let_def emit_def)
  have "torn ((takeRepairResult l)\<lparr>lRepairFailed := b\<rparr>)" for b
    using torn by (simp add: torn_def idle_def)
  then show ?thesis
    using st open_ torn_idle [of "(takeRepairResult l)\<lparr>lRepairFailed := True\<rparr>" StateBlocked]
      startGeneration_inv(1) [of "(takeRepairResult l)\<lparr>lRepairFailed := False\<rparr>" E] False
    by (auto simp: handleRepairResult_def Let_def torn_def split: option.split)
qed

section \<open>Pairing keeps the invariant\<close>

lemma coreInv_pairing:
  assumes "coreInv l" and "lPairActive l"
  shows "idle l" and "lRepairResults l = None" and "lPairResults l = Some (lPairEpoch l)"
    and "state l = StatePairing \<and> \<not> lPairExpired l \<or> state l = StateUnpaired \<and> lPairExpired l"
  using assms by (cases "state l"; simp add: inv_defs)+

lemma beginPairing_inv:
  assumes "coreInv l"
  shows "coreInv (snd (beginPairing E req hasSink l))"
proof (cases "state l = StateUnpaired \<and> \<not> lPairActive l")
  case True
  with assms show ?thesis
    by (simp add: beginPairing_def inv_defs primitive_defs)
next
  case False
  with assms show ?thesis by (auto simp: beginPairing_def)
qed

text \<open>The state in which an attempt is given up: expired, its timer gone.\<close>

lemma unpairedExpired_inv:
  assumes "idle l" and "lRepairResults l = None" and "lPairResults l = Some (lPairEpoch l)"
    and "lPairActive l" and "lPairExpired l" and "lTimerPurpose l = timerNone"
    and "state l = StateUnpaired"
  shows "coreInv l"
  using assms by (simp add: coreInv_def idle_def)

lemma abandonPairing_simps [simp]:
  "lSnapshot (abandonPairing l) = lSnapshot l" "lPairActive (abandonPairing l) = lPairActive l"
  "lRepairResults (abandonPairing l) = lRepairResults l"
  "lPairResults (abandonPairing l) = lPairResults l" "lPairEpoch (abandonPairing l) = lPairEpoch l"
  "lPairExpired (abandonPairing l)" "lTimerPurpose (abandonPairing l) = timerNone"
  "lRun (abandonPairing l) = lRun l" "lStartResults (abandonPairing l) = lStartResults l"
  "lGate (abandonPairing l) = lGate l" "lStartTimedOut (abandonPairing l) = lStartTimedOut l"
  "lProbeResults (abandonPairing l) = lProbeResults l"
  by (simp_all add: abandonPairing_def Let_def emit_def)

lemma abandonPairing_inv:
  assumes "coreInv l" and "lPairActive l" and "snapState s = StateUnpaired"
  shows "coreInv ((abandonPairing l)\<lparr>lSnapshot := s\<rparr>)"
  using coreInv_pairing(1,2,3) [OF assms(1,2)] assms(2,3)
  by (intro unpairedExpired_inv) (simp_all add: idle_def)

lemma expirePairing_inv: "coreInv l \<Longrightarrow> coreInv (expirePairing l)"
  by (simp add: expirePairing_def abandonPairing_inv)

lemma expirePairing_clearTimer: "expirePairing (clearTimer l) =
    (if lPairActive l \<and> state l = StatePairing then expirePairing l else clearTimer l)"
  by (simp add: expirePairing_def abandonPairing_def)

lemma handlePairEvent_inv:
  assumes inv: "coreInv l"
  shows "coreInv (handlePairEvent E pe l)"
proof (cases "lPairActive l \<and> peEpoch pe = lPairEpoch l \<and> state l = StatePairing")
  case False
  with inv show ?thesis by (auto simp: handlePairEvent_def)
next
  case True
  have arm: "coreInv (replaceTimer E timerPairExpiry t (l\<lparr>lPairExpiresAt := t\<rparr>))" for t
    using inv True by (simp add: inv_defs primitive_defs)
  have drop: "coreInv (onSnapshot (\<lambda>s. s\<lparr>snapState := StateUnpaired,
      snapRetryAt := t, snapErrorClass := c, snapErrorFingerprint := fp\<rparr>)
     ((abandonPairing l)\<lparr>lPairExpiresAt := 0\<rparr>))" for t c fp
    using coreInv_pairing(1,2,3) [OF inv] True
    by (intro unpairedExpired_inv) (simp_all add: idle_def)
  show ?thesis
    using True inv arm drop expirePairing_inv [of "l\<lparr>lPairExpiresAt := t\<rparr>" for t]
    by (simp add: handlePairEvent_def Let_def)
qed

lemma takePairResult_simps [simp]:
  "lSnapshot (takePairResult l) = lSnapshot l" "lPairExpired (takePairResult l) = lPairExpired l"
  "lStartRequest (takePairResult l) = lStartRequest l"
  by (simp_all add: takePairResult_def Let_def emit_def primitive_defs)

lemma takePairResult_torn:
  assumes "coreInv l" and "lPairActive l"
  shows "torn (takePairResult l)"
  using coreInv_pairing(1,2) [OF assms]
  by (simp add: torn_def idle_def takePairResult_def primitive_defs)

lemma pairFailed_inv: "torn l \<Longrightarrow> coreInv (pairFailed f l)"
  by (simp add: pairFailed_def torn_def inv_defs primitive_defs)

lemma expirePairing_active [simp]: "lPairActive (expirePairing l) = lPairActive l"
  by (simp add: expirePairing_def publish_def)

lemma torn_unpaired:
  assumes "torn l" and "state l = StateUnpaired"
  shows "coreInv l"
  using assms by (simp add: torn_def coreInv_def idle_def)

lemma torn_stopped:
  "torn l \<Longrightarrow> snapState s = StateStopped \<Longrightarrow>
   coreInv (l\<lparr>lStartRequest := req, lSnapshot := s\<rparr>)"
  by (simp add: torn_def coreInv_def idle_def)

lemma handlePairResult_inv:
  assumes inv: "coreInv l"
  shows "coreInv (handlePairResult E r l)"
proof (cases "lPairActive l \<and> paEpoch r = lPairEpoch l")
  case False
  with inv show ?thesis by (auto simp: handlePairResult_def)
next
  case True
  define l0 where "l0 = (if \<not> isZero (lPairExpiresAt l) \<and> \<not> now E < lPairExpiresAt l
                  then expirePairing l else l)"
  have inv0: "coreInv l0" and act: "lPairActive l0"
    using inv True by (simp_all add: l0_def expirePairing_inv)
  note t = takePairResult_torn [OF inv0 act]
  have r: "handlePairResult E r l =
      (let l3 = takePairResult l0 in
        if lPairExpired l3 then
          (if state l3 = StatePairing then publish (enterState StateUnpaired l3) else l3)
        else case paErr r of
          None \<Rightarrow>
            publish (onSnapshot (\<lambda>s. s\<lparr>snapState := StateStopped, snapRetryAt := 0,
                snapErrorClass := FailureUnset, snapErrorFingerprint := ''''\<rparr>)
              (l3\<lparr>lStartRequest := (lStartRequest l3)
                    \<lparr>reqRemoteAccountID := prRemoteAccountID (paResult r),
                     reqDeviceID := prRemoteDeviceID (paResult r)\<rparr>\<rparr>))
        | Some err \<Rightarrow> pairFailed (classifyFailure err ''pair'' ''pair_failed'') l3)"
    using True by (simp add: handlePairResult_def l0_def Let_def)
  show ?thesis
  proof (cases "lPairExpired l0")
    case True
    with coreInv_pairing(4) [OF inv0 act] have "state l0 = StateUnpaired" by simp
    with True t show ?thesis by (simp add: r torn_unpaired)
  next
    case False
    with t show ?thesis
      by (simp add: r Let_def pairFailed_inv torn_stopped split: option.split)
  qed
qed

section \<open>Deadlines, events and commands\<close>


lemma replaceTimer_clearTimer [simp]:
  "replaceTimer E p d (clearTimer l) = replaceTimer E p d l"
  by (simp add: replaceTimer_def)

lemma handleConnectTimeout_clearTimer:
  "state l = StateConnecting \<Longrightarrow> handleConnectTimeout E (clearTimer l) = handleConnectTimeout E l"
  by (simp add: handleConnectTimeout_def)

lemma scheduleLivenessCheck_clearTimer:
  "state l = StateOnline \<Longrightarrow>
   scheduleLivenessCheck E (clearTimer l) = scheduleLivenessCheck E l"
  by (simp add: scheduleLivenessCheck_def Let_def)

text \<open>An armed timer tells the state.\<close>

lemma coreInv_purpose:
  assumes "coreInv l"
  shows "lTimerPurpose l = timerConnectDeadline \<Longrightarrow> state l = StateConnecting"
    and "lTimerPurpose l = timerLivenessCheck \<Longrightarrow>
      state l = StateOnline \<and> live l \<and> lProbeResults l = None"
    and "lTimerPurpose l = timerBackoff \<Longrightarrow> state l = StateBackoff \<and> idle l \<and>
      lRepairResults l = None \<and> \<not> lPairActive l \<and> lPairResults l = None"
    and "lTimerPurpose l = timerProbeDeadline \<Longrightarrow>
      state l = StateDegraded \<and> lProbeResults l \<noteq> None"
    and "lTimerPurpose l = timerPairExpiry \<Longrightarrow> state l = StatePairing \<and> lPairActive l"
  using assms by (cases "state l"; auto simp: inv_defs split: if_splits)+

lemma probeExpired_inv:
  assumes "coreInv l" and "state l = StateDegraded"
  shows "coreInv ((clearTimer l)\<lparr>lProbeTimedOut := True\<rparr>)"
  using assms by (simp add: inv_defs)

lemma pairTimerDropped_inv:
  assumes "coreInv l" and "state l = StatePairing"
  shows "coreInv (clearTimer l)"
  using assms by (simp add: inv_defs)

lemma beginProbe_clearTimer:
  assumes "coreInv l" and "state l = StateOnline" and "live l" and "lProbeResults l = None"
  shows "coreInv (beginProbe E (clearTimer l))"
  using assms(2-4) coreInv_fence [OF assms(1)] live_pairResults [OF assms(1,3)]
  by (intro beginProbe_inv) (simp_all add: live_def)

lemma restart_inv:
  assumes "coreInv l" and "state l = StateBackoff" and "\<not> lClosing l"
  shows "coreInv (snd (startGeneration E (clearTimer l)))"
  using assms by (intro startGeneration_inv) (simp_all add: coreInv_def idle_def)

lemma enforceDueDeadline_inv:
  assumes inv: "coreInv l" and "\<not> lClosing l"
  shows "coreInv (snd (enforceDueDeadline E l))"
proof (cases "lTimerPurpose l")
  case timerConnectDeadline
  with coreInv_purpose(1) [OF inv] inv show ?thesis
    by (simp add: enforceDueDeadline_def Let_def handleConnectTimeout_clearTimer handleConnectTimeout_inv)
next
  case timerLivenessCheck
  with coreInv_purpose(2) [OF inv] inv show ?thesis
    by (simp add: enforceDueDeadline_def Let_def scheduleLivenessCheck_clearTimer scheduleLivenessCheck_inv
        beginProbe_clearTimer)
next
  case timerBackoff
  with coreInv_purpose(3) [OF inv] assms show ?thesis
    by (simp add: enforceDueDeadline_def Let_def restart_inv)
next
  case timerProbeDeadline
  with coreInv_purpose(4) [OF inv] inv show ?thesis
    by (simp add: enforceDueDeadline_def Let_def probeExpired_inv)
next
  case timerPairExpiry
  with coreInv_purpose(5) [OF inv] inv show ?thesis
    by (simp add: enforceDueDeadline_def Let_def expirePairing_clearTimer expirePairing_inv
        pairTimerDropped_inv)
qed (simp add: enforceDueDeadline_def inv)

lemma handleEvent_inv:
  assumes "coreInv l" and "\<not> lClosing l"
  shows "coreInv (handleEvent E ev l)"
  using assms
  by (cases ev) (simp_all add: handleActivity_inv handleReady_inv handleRunDone_inv
      handleStartResult_inv handleProbeResult_inv handleRepairResult_inv handlePairEvent_inv
      handlePairResult_inv split: list.split option.split)


end
