(* ===== verification/Supervisor_Reach.thy ===== *)
theory Supervisor_Reach
  imports Supervisor_Safety
begin

text \<open>
  The run loop as a machine: the invariant of \<open>Supervisor_Safety\<close>, the agreement of the
  published snapshot with the loop's own and the bookkeeping of the deferred reply hold in
  every state that \<open>loopStep\<close> reaches from a new supervisor.
\<close>

section \<open>The published snapshot and the deferred reply\<close>

text \<open>
  Between two iterations the published snapshot is the loop's own, and a deferred reply waits
  for a start that is in flight.
\<close>

definition published :: "loop \<Rightarrow> bool" where
  "published l \<longleftrightarrow> lPublished l = lSnapshot l"

definition pending :: "loop \<Rightarrow> reply_handle option \<times> generation option" where
  "pending l = (lPendingStartReply l, lStartResults l)"

definition settled :: "loop \<Rightarrow> bool" where
  "settled l \<longleftrightarrow> published l \<and> (lPendingStartReply l = None \<or> lStartResults l \<noteq> None)"

lemma published_publish [simp]: "published (publish l)"
  by (simp add: published_def publish_def)

lemma published_frame [simp]:
  "published (emit e l) = published l" "published (clearTimer l) = published l"
  "published (replaceTimer E p d l) = published l"
  "published (stopReturned r l) = published l" "published (installRun h l) = published l"
  "published (resolvePendingStart er l) = published l"
  "published (takeRepairResult l) = published l" "published (takeProbeResult l) = published l"
  "published (takePairResult l) = published l" "published (scheduleLivenessCheck E l) = published l"
  by (simp_all add: published_def primitive_defs resolvePendingStart_def takeRepairResult_def
      takeProbeResult_def takePairResult_def scheduleLivenessCheck_def split: option.split)

lemma published_fields [simp]:
  "published (l\<lparr>lStartTimedOut := a\<rparr>) = published l" "published (l\<lparr>lGate := b\<rparr>) = published l"
  "published (l\<lparr>lStartResults := c\<rparr>) = published l" "published (l\<lparr>lReady := a\<rparr>) = published l"
  "published (l\<lparr>lDone := a\<rparr>) = published l" "published (l\<lparr>lRepairFailed := a\<rparr>) = published l"
  "published (l\<lparr>lProbeTimedOut := a\<rparr>) = published l" "published (l\<lparr>lActivity := d\<rparr>) = published l"
  "published (l\<lparr>lPairEvents := f\<rparr>) = published l" "published (l\<lparr>lPairExpiresAt := g\<rparr>) = published l"
  "published (l\<lparr>lPendingStartReply := h\<rparr>) = published l"
  "published (l\<lparr>lClosing := a\<rparr>) = published l"
  by (simp_all add: published_def)

lemma pending_fields [simp]:
  "pending (emit e l) = pending l" "pending (l\<lparr>lSnapshot := s\<rparr>) = pending l"
  "pending (publish l) = pending l"
  "pending (clearTimer l) = pending l" "pending (replaceTimer E p d l) = pending l"
  "pending (stopReturned r l) = pending l" "pending (installRun h l) = pending l"
  "pending (takeRepairResult l) = pending l" "pending (takeProbeResult l) = pending l"
  "pending (takePairResult l) = pending l" "pending (scheduleLivenessCheck E l) = pending l"
  "pending (refreshLivenessDeadline l) = pending l" "pending (resetFailureHistory l) = pending l"
  "pending (setError f l) = pending l" "pending (enterState st l) = pending l"
  "pending (clearGenerationContext l) = pending l" "pending (abandonPairing l) = pending l"
  "pending (snd (recordFingerprint c fp l)) = pending l"
  by (simp_all add: pending_def primitive_defs takeRepairResult_def clearGenerationContext_def
      takeProbeResult_def takePairResult_def scheduleLivenessCheck_def refreshLivenessDeadline_def
      abandonPairing_def split: option.split)

lemma pending_updates [simp]:
  "pending (l\<lparr>lStartTimedOut := a\<rparr>) = pending l" "pending (l\<lparr>lGate := b\<rparr>) = pending l"
  "pending (l\<lparr>lReady := a\<rparr>) = pending l" "pending (l\<lparr>lDone := a\<rparr>) = pending l"
  "pending (l\<lparr>lRepairFailed := a\<rparr>) = pending l" "pending (l\<lparr>lProbeTimedOut := a\<rparr>) = pending l"
  "pending (l\<lparr>lActivity := d\<rparr>) = pending l" "pending (l\<lparr>lPairEvents := f\<rparr>) = pending l"
  "pending (l\<lparr>lPairExpiresAt := g\<rparr>) = pending l" "pending (l\<lparr>lLivenessBaseline := g\<rparr>) = pending l"
  "pending (l\<lparr>lTransientAttempt := k\<rparr>) = pending l" "pending (l\<lparr>lClosing := a\<rparr>) = pending l"
  "pending (l\<lparr>lLastFailure := k1\<rparr>) = pending l" "pending (l\<lparr>lRepairCancel := a\<rparr>) = pending l"
  "pending (l\<lparr>lRepairResults := k2\<rparr>) = pending l" "pending (l\<lparr>lRepairEpoch := k3\<rparr>) = pending l"
  "pending (l\<lparr>lStartRequest := k4\<rparr>) = pending l" "pending (l\<lparr>lRun := k5\<rparr>) = pending l"
  "pending (l\<lparr>lProbeCancel := a\<rparr>) = pending l" "pending (l\<lparr>lProbeFailure := k6\<rparr>) = pending l"
  "pending (l\<lparr>lProbeStarted := g\<rparr>) = pending l" "pending (l\<lparr>lProbeResults := k7\<rparr>) = pending l"
  by (simp_all add: pending_def)

lemma settled_pending:
  "settled l \<longleftrightarrow> published l \<and> (fst (pending l) = None \<or> snd (pending l) \<noteq> None)"
  by (simp add: settled_def pending_def)

lemma pending_retire [simp]:
  "pending (retireCurrentPreservingProbe l) = pending l" "pending (retireCurrent l) = pending l"
  by (simp_all add: retireCurrentPreservingProbe_def retireCurrent_def Let_def split: option.split)

lemma repair_settled [simp]:
  "published (beginCredentialRepair f l)" "pending (beginCredentialRepair f l) = pending l"
  by (simp_all add: beginCredentialRepair_def Let_def)
    (simp add: published_def primitive_defs)

lemma routeByClass_settled [simp]:
  "knownClass (opClass f) \<Longrightarrow> opClass f \<noteq> FailureUnpaired \<Longrightarrow> published (routeByClass E f l)"
  "pending (routeByClass E f l) = pending l"
  by (cases "opClass f"; simp add: routeByClass_def knownClass_def Let_def split: option.split)+

lemma routeFailure_settled [simp]:
  "published (routeFailure E f l)" "pending (routeFailure E f l) = pending l"
  by (simp_all add: routeFailure_def Let_def case_prod_beta bool.case_eq_if)
    (auto simp: knownClass_def)

lemma startGeneration_opens:
  assumes "\<not> lClosing l" and "lRun l = None" and "lStartResults l = None"
  shows "fst (startGeneration E l) = None" and "published (snd (startGeneration E l))"
    and "lStartResults (snd (startGeneration E l)) \<noteq> None"
  using assms by (simp_all add: startGeneration_def published_def primitive_defs)

lemma startGeneration_refused:
  "lClosing l \<or> lRun l \<noteq> None \<or> lStartResults l \<noteq> None \<Longrightarrow> snd (startGeneration E l) = l"
  by (auto simp: startGeneration_def)

lemma startGeneration_settled: "settled l \<Longrightarrow> settled (snd (startGeneration E l))"
  by (cases "lClosing l \<or> lRun l \<noteq> None \<or> lStartResults l \<noteq> None")
    (simp add: startGeneration_refused, simp add: settled_def startGeneration_opens)

lemma connectTimeout_settled [simp]:
  "published l \<Longrightarrow> published (handleConnectTimeout E l)"
  "pending (handleConnectTimeout E l) = pending l"
  by (simp_all add: handleConnectTimeout_def Let_def)

lemma runDone_settled [simp]:
  "published l \<Longrightarrow> published (handleRunDone E err l)"
  "pending (handleRunDone E err l) = pending l"
  by (simp_all add: handleRunDone_def Let_def)

lemma ready_settled [simp]:
  "published l \<Longrightarrow> published (handleReady E polled l)"
  "pending (handleReady E polled l) = pending l"
  by (simp_all add: handleReady_def Let_def split: option.split)

lemma startResult_settled:
  assumes "settled l"
  shows "settled (handleStartResult E r l)"
proof (cases "lStartResults l = None \<or> srGeneration r \<noteq> gen l")
  case True
  with assms show ?thesis by (auto simp: handleStartResult_def settled_pending)
next
  case False
  have answered: "lPendingStartReply (resolvePendingStart er x) = None" for er x
    by (simp add: resolvePendingStart_def split: option.split)
  from False have "lStartResults l \<noteq> None" and "srGeneration r = gen l" by auto
  with assms show ?thesis
    by (auto simp: handleStartResult_def settled_def answered Let_def split: option.split)
qed

lemma activity_settled [simp]:
  "published l \<Longrightarrow> published (handleActivity E a l)"
  "pending (handleActivity E a l) = pending l"
  by (simp_all add: handleActivity_def Let_def split: activity_kind.split)

lemma beginProbe_settled [simp]:
  "published l \<Longrightarrow> published (beginProbe E l)" "pending (beginProbe E l) = pending l"
  by (simp_all add: beginProbe_def Let_def split: option.split)

lemma probeResult_settled [simp]:
  "published l \<Longrightarrow> published (handleProbeResult E r l)"
  "pending (handleProbeResult E r l) = pending l"
  by (simp_all add: handleProbeResult_def Let_def split: option.split)

lemma repairResult_settled:
  assumes "settled l"
  shows "settled (handleRepairResult E r l)"
proof -
  have "settled ((takeRepairResult l)\<lparr>lRepairFailed := False\<rparr>)"
    using assms by (simp add: settled_pending)
  from startGeneration_settled [OF this, of E] assms show ?thesis
    by (simp add: handleRepairResult_def Let_def settled_pending split: option.split)
qed

lemma abandon_published [simp]: "lPublished (abandonPairing l) = lPublished l"
  by (simp add: abandonPairing_def primitive_defs)

lemma pairing_settled [simp]:
  "published l \<Longrightarrow> published (snd (beginPairing E req b l))"
  "pending (snd (beginPairing E req b l)) = pending l"
  "published l \<Longrightarrow> published (expirePairing l)" "pending (expirePairing l) = pending l"
  "published l \<Longrightarrow> published (handlePairEvent E pe l)"
  "pending (handlePairEvent E pe l) = pending l"
  "published (pairFailed f l)" "pending (pairFailed f l) = pending l"
  by (simp_all add: beginPairing_def expirePairing_def handlePairEvent_def pairFailed_def Let_def)
    (auto simp: pending_def published_def primitive_defs abandonPairing_def)

lemma pairResult_settled [simp]:
  "published l \<Longrightarrow> published (handlePairResult E r l)"
  "pending (handlePairResult E r l) = pending l"
  by (simp_all add: handlePairResult_def Let_def split: option.split)

lemma due_settled:
  assumes "settled l"
  shows "settled (snd (enforceDueDeadline E l))"
proof -
  have "settled (clearTimer l)" using assms by (simp add: settled_pending)
  from startGeneration_settled [OF this, of E] assms show ?thesis
    by (simp add: enforceDueDeadline_def Let_def settled_pending split: timer_purpose.split)
qed

lemma event_settled:
  assumes "settled l"
  shows "settled (handleEvent E ev l)"
proof (cases ev)
  case (EvStart r)
  then show ?thesis using assms by (simp add: startResult_settled)
next
  case (EvRepair r)
  then show ?thesis using assms by (simp add: repairResult_settled)
qed (use assms in \<open>auto simp: settled_pending split: list.split option.split\<close>)

lemma startAndDefer_settled:
  assumes "\<not> lClosing l" and "lRun l = None" and "lStartResults l = None"
  shows "settled (snd (startAndDeferReply E c l))"
proof -
  obtain t where t: "startGeneration E l = (None, t)"
    using startGeneration_opens(1) [OF assms, of E] by (metis prod.collapse)
  show ?thesis
    using startGeneration_opens(2,3) [OF assms, of E]
    by (simp add: startAndDeferReply_def settled_def t)
qed

lemma exitBlocked_settled:
  assumes "settled l" and "\<not> lClosing l" and "lRun l = None" and "lStartResults l = None"
  shows "settled (snd (exitBlocked E c l))"
proof -
  have p: "fst (pending l) = None" using assms by (simp add: settled_def pending_def)
  have "settled (snd (startAndDeferReply E c (resetFailureHistory l)))"
    using assms by (intro startAndDefer_settled) (simp_all add: resetFailureHistory_def)
  then show ?thesis using p
    by (simp add: exitBlocked_def Let_def) (simp add: settled_pending)
qed

section \<open>The reachable states\<close>

lemma idleState_torn:
  assumes "coreInv l" and "state l \<in> {StateUnconfigured, StateStopped, StateBlocked}"
  shows "torn l"
  using assms by (auto simp: coreInv_def torn_def idle_def)

lemma startAndDeferReply_inv:
  assumes "torn l" and "\<not> lClosing l"
  shows "coreInv (snd (startAndDeferReply E c l))"
proof -
  have "coreInv (snd (startGeneration E l))"
    using assms by (intro startGeneration_inv) (simp_all add: torn_def)
  then show ?thesis
    by (auto simp: startAndDeferReply_def split: prod.split option.split)
qed

lemma exitBlocked_inv:
  assumes "coreInv l" and "state l = StateBlocked" and "\<not> lClosing l"
  shows "coreInv (snd (exitBlocked E c l))"
proof -
  have t: "torn (resetFailureHistory l)" and c: "\<not> lClosing (resetFailureHistory l)"
    using idleState_torn [OF assms(1)] assms(2,3) torn_resetFailureHistory
    by (simp_all add: resetFailureHistory_def)
  show ?thesis
    using torn_idle [OF t, of StateUnpaired] startAndDeferReply_inv [OF t c]
      beginCredentialRepair_inv [OF t]
    by (simp add: exitBlocked_def Let_def)
qed

text \<open>The whole invariant of an iteration, and that a move also continues the state.\<close>

definition supInv :: "loop \<Rightarrow> bool" where
  "supInv l \<longleftrightarrow> coreInv l \<and> settled l"

lemma supInv_start: "coreInv l \<Longrightarrow> lStartResults l = None \<or> lRun l = None"
  by (cases "state l"; auto simp: inv_defs)

lemma due_keeps [preserves]:
  assumes "supInv l" and "\<not> lClosing l" and "enforceDueDeadline E l = (b, t)"
  shows "supInv t" and "continues l t" and "\<not> lClosing t"
proof -
  show "supInv t"
    using enforceDueDeadline_inv [of l E] due_settled [of l E] assms by (simp add: supInv_def)
  show "continues l t" using continues_due [of l l E] assms(3) by simp
  then show "\<not> lClosing t" using assms(2) by (simp add: continues_def)
qed

lemma event_keeps [preserves]:
  assumes "supInv l" and "\<not> lClosing l"
  shows "supInv (handleEvent E ev l)" and "continues l (handleEvent E ev l)"
    and "\<not> lClosing (handleEvent E ev l)"
proof -
  show "supInv (handleEvent E ev l)"
    using assms by (simp add: supInv_def handleEvent_inv event_settled)
  show "continues l (handleEvent E ev l)"
    using assms(1) by (intro continues_event) (simp_all add: supInv_def supInv_start)
  then show "\<not> lClosing (handleEvent E ev l)" using assms(2) by (simp add: continues_def)
qed

lemma drain_keeps [preserves]:
  "drainReadyWork n E ready l = Some t \<Longrightarrow> supInv l \<Longrightarrow> \<not> lClosing l \<Longrightarrow>
   supInv t \<and> continues l t"
proof (induction n E ready l rule: drainReadyWork.induct)
  case (2 fuel E ready l)
  obtain due l1 where d: "enforceDueDeadline E l = (due, l1)" by fastforce
  note k = due_keeps [OF 2(4,5) d]
  show ?case
  proof (cases due)
    case True
    with 2(1) [OF d [symmetric]] 2(3) k show ?thesis
      by (auto simp: d intro: continues_trans)
  next
    case False
    show ?thesis
    proof (cases ready)
      case Nil
      with False 2(3) k show ?thesis by (simp add: d)
    next
      case (Cons ev evs)
      define l2 where "l2 = (if enabled ev l1 then handleEvent E ev l1 else l1)"
      have k2: "supInv l2" "continues l1 l2" "\<not> lClosing l2"
        using event_keeps [OF k(1,3)] k by (simp_all add: l2_def)
      have "drainReadyWork fuel E evs l2 = Some t"
        using 2(3) False Cons by (simp add: d l2_def)
      moreover have "drainReadyWork fuel E evs l2 = Some t \<Longrightarrow> supInv t \<and> continues l2 t"
        using 2(2) [OF d [symmetric]] False Cons k2(1,3) unfolding l2_def by blast
      ultimately show ?thesis
        using continues_trans [OF k(2) k2(2)] by (blast intro: continues_trans)
    qed
  qed
qed simp


lemma handleCommand_keeps [preserves]:
  assumes inv: "supInv l" and "\<not> lClosing l" and run: "handleCommand E c cmd l = Some rl"
  shows "supInv (snd rl)" and "continues l (snd rl)"
proof -
  have torn: "torn l" if "state l \<in> {StateUnconfigured, StateStopped, StateBlocked}"
    using idleState_torn that inv by (simp add: supInv_def)
  have nopend: "lPendingStartReply l = None" if "torn l"
    using that inv by (auto simp: supInv_def settled_def torn_def idle_def)
  have exit: "supInv (snd (exitBlocked E c l)) \<and> continues l (snd (exitBlocked E c l))"
    if "state l = StateBlocked"
    using that torn nopend assms exitBlocked_inv exitBlocked_settled continues_exitBlocked
    by (simp add: supInv_def torn_def idle_def)
  have start: "supInv (snd (startAndDeferReply E c ((resetFailureHistory l)\<lparr>lStartRequest := req\<rparr>)))
      \<and> continues l (snd (startAndDeferReply E c ((resetFailureHistory l)\<lparr>lStartRequest := req\<rparr>)))"
    if "torn l" for req
  proof -
    let ?m = "(resetFailureHistory l)\<lparr>lStartRequest := req\<rparr>"
    have "torn ?m" and "\<not> lClosing ?m" and "lPendingStartReply ?m = None"
      using that nopend [OF that] assms(2)
      by (simp_all add: resetFailureHistory_def torn_def idle_def)
    moreover have "continues l ?m" by simp
    ultimately show ?thesis
      by (simp add: supInv_def startAndDeferReply_inv startAndDefer_settled continues_startAndDefer
          torn_def idle_def)
  qed
  have idleStates: "state l \<in> {StateUnconfigured, StateStopped, StateBlocked}"
    if "state l \<notin> set busyStates" and "state l \<noteq> StateUnpaired"
    using that by (cases "state l") (auto simp: busyStates_def)
  have "supInv (snd rl) \<and> continues l (snd rl)"
  proof (cases cmd)
    case (commandStart req)
    with inv run start torn idleStates show ?thesis
      by (auto simp: handleCommand_def split: if_splits)
  next
    case (commandBeginPairing req b)
    then have "rl = (Replied (fst (beginPairing E req b l)), snd (beginPairing E req b l))"
      using run by (simp add: handleCommand_def case_prod_beta)
    with inv show ?thesis
      by (simp add: supInv_def beginPairing_inv settled_pending)
  next
    case (commandSync ready)
    with run obtain t where "drainReadyWork (drainFuel ready) E ready l = Some t"
      and "rl = (Replied None, t)"
      by (auto simp: handleCommand_def)
    with drain_keeps inv assms(2) show ?thesis by simp
  qed (use inv run exit in \<open>auto simp: handleCommand_def split: if_splits\<close>)
  then show "supInv (snd rl)" and "continues l (snd rl)" by simp_all
qed

lemma supInv_deliver [simp]: "supInv (deliver c rl) = supInv (snd rl)"
  by (auto simp: deliver_def supInv_def settled_pending split: prod.split reply.split)

lemma supInv_closing [simp]: "supInv (l\<lparr>lClosing := b\<rparr>) = supInv l"
  by (simp add: supInv_def settled_pending)

lemma supInv_queues [simp]:
  "supInv (l\<lparr>lActivity := q\<rparr>) = supInv l" "supInv (l\<lparr>lPairEvents := r\<rparr>) = supInv l"
  by (simp_all add: supInv_def settled_pending)

lemma sinkForward_keeps:
  "supInv l \<Longrightarrow> supInv (snd (sinkForward g ctx d k at l))"
  "supInv l \<Longrightarrow> supInv (sinkBeat g g' at l)"
  by (simp_all add: sinkForward_def sinkBeat_def enqueueActivity_def split: option.split)

text \<open>What a loop that has returned leaves behind.\<close>

definition halted :: "loop \<Rightarrow> bool" where
  "halted l \<longleftrightarrow> state l = StateStopped \<and> published l \<and> lRun l = None \<and>
     \<not> fenceActive (lGate l) \<and> lPendingStartReply l = None \<and> lTimer l = None \<and>
     \<not> lRunCancel l \<and> \<not> lProbeCancel l \<and> \<not> lRepairCancel l \<and> \<not> lPairCancel l \<and>
     lPairBoundSink l = None \<and> \<not> lPairActive l \<and> lClosing l"

lemma resolve_fields [simp]:
  "lSnapshot (resolvePendingStart e l) = lSnapshot l" "lRun (resolvePendingStart e l) = lRun l"
  "lGate (resolvePendingStart e l) = lGate l" "lTimer (resolvePendingStart e l) = lTimer l"
  "lRunCancel (resolvePendingStart e l) = lRunCancel l"
  "lProbeCancel (resolvePendingStart e l) = lProbeCancel l"
  "lRepairCancel (resolvePendingStart e l) = lRepairCancel l"
  "lPairCancel (resolvePendingStart e l) = lPairCancel l"
  "lPairBoundSink (resolvePendingStart e l) = lPairBoundSink l"
  "lClosing (resolvePendingStart e l) = lClosing l"
  "lPendingStartReply (resolvePendingStart e l) = None"
  by (simp_all add: resolvePendingStart_def emit_def split: option.split)

lemma retireCurrent_fields:
  assumes "fenceActive (lGate l) \<Longrightarrow> fenceGeneration (lGate l) = gen l"
  shows "lRun (retireCurrent l) = None" and "\<not> fenceActive (lGate (retireCurrent l))"
    and "\<not> lRunCancel (retireCurrent l)" and "\<not> lProbeCancel (retireCurrent l)"
    and "lTimer (retireCurrent l) = lTimer l" and "lPairBoundSink (retireCurrent l) = lPairBoundSink l"
    and "lClosing (retireCurrent l) = lClosing l" and "lPairCancel (retireCurrent l) = lPairCancel l"
    and "lRepairCancel (retireCurrent l) = lRepairCancel l"
  using assms
  by (auto simp: retireCurrent_def retireCurrentPreservingProbe_def clearGenerationContext_def
      primitive_defs split: option.split)

lemma shutdown_tail:
  assumes "fenceActive (lGate m) \<Longrightarrow> fenceGeneration (lGate m) = gen m"
    and "lTimer m = None" and "\<not> lRepairCancel m" and "\<not> lPairCancel m"
    and "lPairBoundSink m = None" and "lClosing m"
  shows "halted (publish (onSnapshot (\<lambda>s. s\<lparr>snapState := StateStopped,
            snapLivenessDeadline := 0, snapRetryAt := 0\<rparr>)
           ((resolvePendingStart e (retireCurrent m))\<lparr>lProbeResults := None,
              lRepairResults := None, lPairResults := None, lPairEvents := None,
              lPairActive := False\<rparr>)))"
  using assms retireCurrent_fields [of m]
  by (simp add: halted_def published_def publish_def)

lemma shutdown_halts:
  assumes "coreInv l" and "lClosing l"
  shows "halted (snd (shutdown oc l))"
  unfolding shutdown_def Let_def snd_conv
  using coreInv_fence [OF assms(1)] assms(2)
  by (intro shutdown_tail; cases "lProbeCancel l"; cases "lRepairCancel l"; cases "lPairCancel l";
      cases "lTimer l"; simp add: publish_def emit_def clearTimer_def Let_def)

lemma shutdown_continues:
  "continues l (snd (shutdown oc l))"
  by (simp add: shutdown_def Let_def)

section \<open>The machine\<close>

definition supInit :: "loop \<times> bool \<Rightarrow> bool" where
  "supInit s \<longleftrightarrow> \<not> snd s \<and> (\<exists>account plat p nilR nilC nilL opts.
     newSupervisor account plat nilL p nilC nilR opts = Inr (fst s))"

definition machineInv :: "loop \<times> bool \<Rightarrow> bool" where
  "machineInv s \<longleftrightarrow> validatePolicy (lPolicy (fst s)) = None \<and>
     (if snd s then halted (fst s) else supInv (fst s))"

lemma newSupervisor_Inr:
  assumes "newSupervisor account plat nilL p nilC nilR opts = Inr l"
  obtains c where "l = initialLoop account plat p c" and "validatePolicy p = None"
    and "optInitialState c \<in> {StateStopped, StateUnpaired}"
    and "trimSpace account = account" and "account \<noteq> ''''"
  using assms
  by (auto simp: newSupervisor_def split: if_splits option.splits sum.splits)

lemma initialLoop_inv:
  "optInitialState c \<in> {StateStopped, StateUnpaired} \<Longrightarrow> supInv (initialLoop a plat p c)"
  by (auto simp: supInv_def settled_def published_def initialLoop_def inv_defs newSnapshot_def)

lemma continues_requestStop:
  "continues l t \<Longrightarrow> continues (requestStop l) (requestStop t)"
  by (simp add: continues_def requestStop_def)

lemma requestStop_idem [simp]: "requestStop (requestStop l) = requestStop l"
  by (simp add: requestStop_def)

text \<open>Every step: the invariant is kept, and the state continues but for the stop flag.\<close>

lemma loopStep_continues:
  assumes "loopStep s t" and "machineInv s"
  shows "continues (requestStop (fst s)) (requestStop (fst t))"
  using assms
proof (cases rule: loopStep.cases)
  case (due l E l1)
  with assms(2) due_keeps(2) [of l E True l1] show ?thesis
    by (simp add: machineInv_def continues_requestStop)
next
  case (event l E l1 ev)
  with assms(2) have "supInv l" by (simp add: machineInv_def)
  note k = due_keeps [OF this event(3,4)]
  from event_keeps(2) [OF k(1,3)] k(2) event show ?thesis
    by (auto intro!: continues_requestStop intro: continues_trans)
next
  case (command l E l1 c cmd rl)
  with assms(2) have "supInv l" by (simp add: machineInv_def)
  note k = due_keeps [OF this command(3,4)]
  from handleCommand_keeps(2) [OF k(1,3) command(5)] k(2) command show ?thesis
    by (auto intro!: continues_requestStop intro: continues_trans)
next
  case (ingress g ctx d k at l e l1)
  have "continues l (snd (sinkForward g ctx d k at l))" by simp
  with ingress show ?thesis by (simp add: continues_requestStop)
qed (auto intro!: continues_requestStop shutdown_continues)

lemma loopStep_inv:
  assumes "loopStep s t" and "machineInv s"
  shows "machineInv t"
proof -
  have "lPolicy (fst t) = lPolicy (fst s)"
    using continuesD(2) [OF loopStep_continues [OF assms]] by (simp add: requestStop_def)
  with assms(2) have pol: "validatePolicy (lPolicy (fst t)) = None"
    by (simp add: machineInv_def)
  from assms(1) show ?thesis
  proof (cases rule: loopStep.cases)
    case (stop l)
    with assms(2) show ?thesis by (simp add: machineInv_def requestStop_def)
  next
    case (shut l oc)
    with assms(2) pol shutdown_halts [of l oc] show ?thesis
      by (simp add: machineInv_def supInv_def)
  next
    case (due l E l1)
    with assms(2) pol due_keeps(1) [of l E True l1] show ?thesis by (simp add: machineInv_def)
  next
    case (event l E l1 ev)
    with assms(2) have "supInv l" by (simp add: machineInv_def)
    note k = due_keeps [OF this event(3,4)]
    from event_keeps(1) [OF k(1,3)] event pol show ?thesis by (simp add: machineInv_def)
  next
    case (command l E l1 c cmd rl)
    with assms(2) have "supInv l" by (simp add: machineInv_def)
    note k = due_keeps [OF this command(3,4)]
    from handleCommand_keeps(1) [OF k(1,3) command(5)] command pol show ?thesis
      by (simp add: machineInv_def)
  next
    case (ingress g ctx d k at l e l1)
    with assms(2) pol sinkForward_keeps(1) [of l g ctx d k at] show ?thesis
      by (simp add: machineInv_def)
  qed (use assms(2) pol in \<open>simp_all add: machineInv_def sinkForward_keeps\<close>)
qed

interpretation sup: machine supInit loopStep machineInv
proof
  fix s :: "loop \<times> bool"
  assume "supInit s"
  then show "machineInv s"
    by (auto simp: supInit_def machineInv_def initialLoop_inv elim!: newSupervisor_Inr)
      (simp_all add: initialLoop_def)
next
  fix s t :: "loop \<times> bool"
  assume "machineInv s" and "loopStep s t"
  then show "machineInv t" by (rule loopStep_inv [rotated])
qed

end
