(* ===== verification/Supervisor_Correct.thy ===== *)
theory Supervisor_Correct
  imports Supervisor_Reach
begin

text \<open>
  The properties of the account supervisor (\<open>internal/bridge/supervisor.go\<close>), over the
  reachable states of the run loop where they are about its state and over one operation
  where they are about a decision. Each property with hypotheses is applied to a concrete
  supervisor (\<open>demo0\<close> new, \<open>demo1\<close> starting, \<open>demo2\<close> connected, \<open>demo3\<close> online).
\<close>

section \<open>A drain returns\<close>

text \<open>
  At a fixed instant a deadline that is due leads to at most one other: the connect deadline
  may put the loop into a backoff of length zero, whose expiry starts a generation with a
  deadline in the future. \<open>dueRank\<close> bounds the iterations that serve deadlines only.
\<close>

definition dueRank :: "env \<Rightarrow> loop \<Rightarrow> nat" where
  "dueRank E l =
     (if lTimerPurpose l = timerNone \<or> isZero (lTimerDeadline l) \<or> now E < lTimerDeadline l then 0
      else if lTimerPurpose l = timerConnectDeadline then 2 else 1)"

lemma due_iff: "fst (enforceDueDeadline E l) \<longleftrightarrow> dueRank E l \<noteq> 0"
  by (simp add: enforceDueDeadline_def dueRank_def Let_def)

lemma dueRank_clear [simp]: "dueRank E (clearTimer l) = 0"
  by (simp add: dueRank_def)

lemma dueRank_fields [simp]:
  "dueRank E (emit e l) = dueRank E l" "dueRank E (publish l) = dueRank E l"
  "dueRank E (l\<lparr>lStartTimedOut := a\<rparr>) = dueRank E l" "dueRank E (l\<lparr>lGate := b\<rparr>) = dueRank E l"
  "dueRank E (l\<lparr>lProbeTimedOut := a\<rparr>) = dueRank E l"
  "dueRank E (l\<lparr>lSnapshot := s\<rparr>) = dueRank E l"
  by (simp_all add: dueRank_def emit_def publish_def)

lemma dueRank_replace:
  "dueRank E (replaceTimer E p d l) = (if p = timerNone \<or> isZero d \<or> now E < d then 0
     else if p = timerConnectDeadline then 2 else 1)"
  by (simp add: dueRank_def replaceTimer_def Let_def)

lemma validPolicy:
  assumes "validatePolicy p = None"
  shows "0 < ConnectTimeout p" and "0 < ProbeEvery p" and "0 < ProbeTimeout p"
    and "0 < LivenessTimeout p" and "0 < MinBackoff p" and "MinBackoff p \<le> MaxBackoff p"
    and "0 < MaxSameFingerprint p"
  using assms by (simp_all add: validatePolicy_def split: if_splits)

lemma startGeneration_deadline:
  "\<not> lClosing l \<Longrightarrow> lRun l = None \<Longrightarrow> lStartResults l = None \<Longrightarrow>
   lTimerDeadline (snd (startGeneration E l)) = now E + ConnectTimeout (lPolicy l)"
  by (simp add: startGeneration_def Let_def replaceTimer_def emit_def publish_def)

lemma dueRank_start:
  assumes "validatePolicy (lPolicy l) = None" and "dueRank E l = 0"
  shows "dueRank E (snd (startGeneration E l)) = 0"
proof (cases "lClosing l \<or> lRun l \<noteq> None \<or> lStartResults l \<noteq> None")
  case True
  with assms(2) show ?thesis by (simp add: startGeneration_refused)
next
  case False
  with validPolicy(1) [OF assms(1)] have "now E < lTimerDeadline (snd (startGeneration E l))"
    by (simp add: startGeneration_deadline)
  then show ?thesis by (simp add: dueRank_def)
qed

lemma retireCurrent_timer [simp]:
  "lTimerPurpose (retireCurrent l) = lTimerPurpose l"
  "lTimerDeadline (retireCurrent l) = lTimerDeadline l"
  by (simp_all add: retireCurrent_def retireCurrentPreservingProbe_def clearGenerationContext_def
      emit_def Let_def split: option.split)

lemma dueRank_retire [simp]: "dueRank E (retireCurrent l) = dueRank E l"
  by (simp add: dueRank_def)

lemma dueRank_route:
  assumes "opClass f = FailureTransient" and "dueRank E l = 0"
  shows "dueRank E (routeFailure E f l) \<le> 1"
proof -
  have "dueRank E (setError f l) = 0"
    using assms(2) by (auto simp: dueRank_def setError_def split: if_splits)
  moreover have "dueRank E (x\<lparr>lTransientAttempt := n\<rparr>) = dueRank E x" for x n
    by (simp add: dueRank_def)
  ultimately show ?thesis using assms(1)
    by (simp add: routeFailure_def knownClass_def recordFingerprint_def routeByClass_def Let_def
        dueRank_replace split: option.split)
qed

lemma dueRank_connectTimeout: "dueRank E (handleConnectTimeout E (clearTimer l)) \<le> 1"
  using dueRank_route [of connectTimeoutFailure E "retireCurrent (clearTimer l)"]
  by (simp add: handleConnectTimeout_def Let_def connectTimeoutFailure_def)

lemma dueRank_schedule:
  assumes "validatePolicy (lPolicy l) = None" and "now E < snapLivenessDeadline (lSnapshot l)"
    and "dueRank E l = 0"
  shows "dueRank E (scheduleLivenessCheck E l) = 0"
  using validPolicy(2) [OF assms(1)] assms(2,3)
  by (simp add: scheduleLivenessCheck_def Let_def dueRank_replace)

lemma dueRank_beginProbe:
  assumes "validatePolicy (lPolicy l) = None" and "dueRank E l = 0"
  shows "dueRank E (beginProbe E l) = 0"
  using validPolicy(3) [OF assms(1)] assms(2)
  by (simp add: beginProbe_def Let_def dueRank_replace emit_def split: option.split)

lemma dueRank_expire: "dueRank E l = 0 \<Longrightarrow> dueRank E (expirePairing l) = 0"
  by (simp add: expirePairing_def) (simp add: dueRank_def)

lemma due_decreases:
  assumes "validatePolicy (lPolicy l) = None" and "enforceDueDeadline E l = (True, t)"
  shows "dueRank E t < dueRank E l"
proof -
  have pos: "dueRank E l \<noteq> 0" using due_iff [of E l] assms(2) by simp
  have pol: "validatePolicy (lPolicy (clearTimer l)) = None" using assms(1) by simp
  show ?thesis
  proof (cases "lTimerPurpose l = timerConnectDeadline")
    case True
    with pos have "dueRank E l = 2" by (simp add: dueRank_def split: if_splits)
    moreover have "t = handleConnectTimeout E (clearTimer l)"
      using assms(2) True by (simp add: enforceDueDeadline_def Let_def split: if_splits)
    ultimately show ?thesis using dueRank_connectTimeout [of E l] by simp
  next
    case False
    have "dueRank E t = 0"
      using assms(2) False dueRank_start [OF pol, of E] dueRank_schedule [OF pol, of E]
        dueRank_beginProbe [OF pol, of E] dueRank_expire [of E "clearTimer l"]
      by (cases "lTimerPurpose l") (auto simp: enforceDueDeadline_def Let_def split: if_splits)
    with pos show ?thesis by simp
  qed
qed

lemma dueRank_le: "dueRank E l \<le> 2"
  by (simp add: dueRank_def)

lemma drain_returns:
  "dueRank E l + 3 * length ready < n \<Longrightarrow> validatePolicy (lPolicy l) = None \<Longrightarrow> supInv l \<Longrightarrow>
   \<not> lClosing l \<Longrightarrow> \<exists>t. drainReadyWork n E ready l = Some t"
proof (induction n E ready l rule: drainReadyWork.induct)
  case (2 fuel E ready l)
  obtain due l1 where d: "enforceDueDeadline E l = (due, l1)" by fastforce
  note k = due_keeps [OF 2(5,6) d]
  have pol: "validatePolicy (lPolicy l1) = None" using 2(4) k(2) by (simp add: continuesD)
  show ?case
  proof (cases due)
    case True
    with due_decreases [OF 2(4), of E l1] d have "dueRank E l1 < dueRank E l" by simp
    with 2(1) [OF d [symmetric] _ _ pol k(1,3)] 2(3) True show ?thesis by (simp add: d)
  next
    case False
    show ?thesis
    proof (cases ready)
      case Nil
      with False show ?thesis by (simp add: d)
    next
      case (Cons ev evs)
      define l2 where "l2 = (if enabled ev l1 then handleEvent E ev l1 else l1)"
      have k2: "supInv l2" "continues l1 l2" "\<not> lClosing l2"
        using event_keeps [OF k(1,3)] k by (simp_all add: l2_def)
      have "\<exists>t. drainReadyWork fuel E evs l2 = Some t"
        using 2(2) [OF d [symmetric] _ Cons, folded l2_def, OF _ _ _ k2(1,3)] False
          2(3) dueRank_le [of E l2] pol k2(2)
        by (simp add: Cons continuesD)
      then show ?thesis by (simp add: d False Cons l2_def)
    qed
  qed
qed simp

section \<open>A concrete supervisor\<close>

definition demoPolicy :: policy where
  "demoPolicy = \<lparr>ConnectTimeout = 10, ProbeEvery = 60, ProbeTimeout = 5, LivenessTimeout = 100,
     MinBackoff = 2, MaxBackoff = 9, MaxSameFingerprint = 3\<rparr>"

definition demoAt :: "gotime \<Rightarrow> env" where
  "demoAt t = \<lparr>now = t, draw = (\<lambda>n. Some 1)\<rparr>"

definition demo0 :: loop where
  "demo0 = initialLoop ''acc'' ''signal'' demoPolicy \<lparr>optSink = True, optRepairer = True,
     optPairer = True, optInitialState = StateStopped\<rparr>"

definition demo1 :: loop where
  "demo1 = deliver 7 (startAndDeferReply (demoAt 1000) 7
     ((resetFailureHistory demo0)\<lparr>lStartRequest := emptyRequest\<rparr>))"

definition demo2 :: loop where
  "demo2 = handleStartResult (demoAt 1001) \<lparr>srGeneration = 1, srRun = Some 5, srErr = None\<rparr> demo1"

definition demo3 :: loop where
  "demo3 = handleReady (demoAt 1002) None demo2"

lemmas demo_defs = demoPolicy_def demoAt_def demo0_def demo1_def demo2_def demo3_def
  initialLoop_def newSnapshot_def emptyRequest_def zeroOpError_def deliver_def
  startAndDeferReply_def startGeneration_def handleStartResult_def resolvePendingStart_def
  handleReady_def scheduleLivenessCheck_def refreshLivenessDeadline_def isZero_def
  primitive_defs

lemma demo_states:
  "state demo0 = StateStopped" "state demo1 = StateConnecting" "state demo2 = StateConnecting"
  "state demo3 = StateOnline" "gen demo0 = 0" "gen demo1 = 1" "gen demo2 = 1" "gen demo3 = 1"
  "lStartResults demo1 = Some 1" "lPendingStartReply demo1 = Some 7" "lRun demo2 = Some 5"
  "lRun demo3 = Some 5" "lAccountID demo3 = ''acc''" "lGate demo3 = \<lparr>fenceGeneration = 1, fenceActive = True\<rparr>"
  "lReady demo2" "\<not> lClosing demo0" "\<not> lClosing demo1" "\<not> lClosing demo2" "\<not> lClosing demo3"
  "lPublished demo3 = lSnapshot demo3"
  by (simp_all add: demo_defs)

lemma not_due:
  "lTimerPurpose l = timerNone \<or> now E < lTimerDeadline l \<Longrightarrow> enforceDueDeadline E l = (False, l)"
  by (auto simp: enforceDueDeadline_def)

lemma demo_timers:
  "lTimerPurpose demo0 = timerNone" "lTimerDeadline demo1 = 1010" "lTimerDeadline demo2 = 1010"
  by (simp_all add: demo_defs)

lemma demo_due: "enforceDueDeadline (demoAt 1000) demo0 = (False, demo0)"
  "enforceDueDeadline (demoAt 1001) demo1 = (False, demo1)"
  "enforceDueDeadline (demoAt 1002) demo2 = (False, demo2)"
  by (rule not_due, simp add: demo_timers demoAt_def)+

lemma trim_demo: "trimSpace ''acc'' = ''acc''" "trimSpace ''signal'' = ''signal''"
  by (simp_all add: trimSpace_plain plainChar_def)

lemma demo_init: "supInit (demo0, False)"
proof -
  have "newSupervisor ''acc'' ''signal'' False demoPolicy False False
     [WithConnectionSink True, WithCredentialRepairer True, WithPairer True] = Inr demo0"
    by (simp add: newSupervisor_def trim_demo validatePolicy_def demoPolicy_def demo0_def)
  then show ?thesis unfolding supInit_def by (intro conjI exI) simp_all
qed

lemma demo_step1: "loopStep (demo0, False) (demo1, False)"
proof -
  have "handleCommand (demoAt 1000) 7 (commandStart emptyRequest) demo0 =
      Some (startAndDeferReply (demoAt 1000) 7
        ((resetFailureHistory demo0)\<lparr>lStartRequest := emptyRequest\<rparr>))"
    by (simp add: handleCommand_def busyStates_def demo_states) (simp add: demo0_def initialLoop_def)
  from loopStep.command [OF demo_states(16) demo_due(1) this] show ?thesis
    by (simp add: demo1_def)
qed

lemma demo_step2: "loopStep (demo1, False) (demo2, False)"
  using loopStep.event [OF demo_states(17) demo_due(2),
      of "EvStart \<lparr>srGeneration = 1, srRun = Some 5, srErr = None\<rparr>"]
  by (simp add: demo2_def demo_states)

lemma demo_step3: "loopStep (demo2, False) (demo3, False)"
  using loopStep.event [OF demo_states(18) demo_due(3), of "EvReady None"]
  by (simp add: demo3_def demo_states)

lemma demo_reach:
  "loopStep\<^sup>*\<^sup>* (demo0, False) (demo1, False)"
  "loopStep\<^sup>*\<^sup>* (demo0, False) (demo2, False)"
  "loopStep\<^sup>*\<^sup>* (demo0, False) (demo3, False)"
  using demo_step1 demo_step2 demo_step3
  by (meson converse_rtranclp_into_rtranclp rtranclp.rtrancl_refl)+

lemma demo_inv: "coreInv demo1" "coreInv demo2" "coreInv demo3"
  using sup.reachable_inv [OF demo_init demo_reach(1)] sup.reachable_inv [OF demo_init demo_reach(2)]
    sup.reachable_inv [OF demo_init demo_reach(3)]
  by (simp_all add: machineInv_def supInv_def)

lemma live_state:
  assumes "coreInv l" and "fenceActive (lGate l)"
  shows "state l = StateConnecting \<or> state l = StateOnline \<or> state l = StateDegraded"
  using assms by (cases "state l"; simp add: inv_defs)

section \<open>Properties\<close>

text \<open>
  C1: at every iteration of the run loop of any supervisor the loop's state is coherent: the
  published state tells exactly whether a connection, a start, a probe, a repair or a pairing
  is in flight, which timer is armed and whether the fence admits the generation; the
  published snapshot is the loop's own; and a deferred \<open>Start\<close> reply waits for a start that
  is in flight.
\<close>

theorem supervisor_coherent:
  assumes "supInit s" and "loopStep\<^sup>*\<^sup>* s t" and "\<not> snd t"
  shows "coreInv (fst t) \<and> lPublished (fst t) = lSnapshot (fst t) \<and>
    (lPendingStartReply (fst t) \<noteq> None \<longrightarrow> lStartResults (fst t) = Some (gen (fst t)))"
proof -
  have "supInv (fst t)"
    using sup.reachable_inv [OF assms(1,2)] assms(3) by (simp add: machineInv_def)
  then show ?thesis
    by (auto simp: supInv_def settled_def published_def dest: coreInv_starting(1)
        simp: starting_def)
qed

lemma supervisor_coherent_witness: "coreInv demo3 \<and> lPublished demo3 = lSnapshot demo3"
  using supervisor_coherent [OF demo_init demo_reach(3)] by simp

text \<open>
  C2: an ingress record that the sink of a generation accepts belongs to the supervised
  account and to the generation of the published snapshot, and the account is connecting,
  online or degraded: a worker of an earlier generation, or of a connection that was given
  up, cannot deliver anything.
\<close>

theorem ingress_accepted_is_current:
  assumes "supInit s" and "loopStep\<^sup>*\<^sup>* s t"
    and "sinkAppendIngress E g ctx downstream account recGeneration (fst t) = (None, u)"
  shows "account = lAccountID (fst t) \<and> recGeneration = g \<and>
    g = snapGeneration (lPublished (fst t)) \<and>
    snapState (lPublished (fst t)) \<in> {StateConnecting, StateOnline, StateDegraded}"
proof -
  have acc: "account = lAccountID (fst t)" "recGeneration = g" "fenceActive (lGate (fst t))"
    "fenceGeneration (lGate (fst t)) = g"
    using assms(3) by (auto simp: sinkAppendIngress_def sinkForward_def split: if_splits)
  then have "supInv (fst t)"
    using sup.reachable_inv [OF assms(1,2)]
    by (auto simp: machineInv_def halted_def split: if_splits)
  with acc show ?thesis
    by (auto simp: supInv_def settled_def published_def dest: coreInv_fence live_state)
qed

lemma ingress_accepted_is_current_witness:
  "snapGeneration (lPublished demo3) = 1 \<and>
   snapState (lPublished demo3) \<in> {StateConnecting, StateOnline, StateDegraded}"
  using ingress_accepted_is_current [OF demo_init demo_reach(3),
      of "demoAt 1003" 1 True None "''acc''" 1
        "enqueueActivity \<lparr>actGeneration = 1, actKind = activityEvent, actAt = 1003\<rparr> demo3"]
  by (simp add: sinkAppendIngress_def sinkForward_def demo_states demoAt_def)

text \<open>
  C3: once a later generation has been started, the sinks of all earlier ones refuse every
  record for ever after, with \<open>ErrStaleGeneration\<close>.
\<close>

theorem earlier_generation_fenced:
  assumes "supInit s" and "loopStep\<^sup>*\<^sup>* s t" and "loopStep\<^sup>*\<^sup>* t u"
    and "g \<le> gen (fst t)" and "gen (fst t) < gen (fst u)"
  shows "sinkForward g True downstream kind at (fst u) = (Some ErrStaleGeneration, fst u)"
proof -
  have "machineInv u"
    using sup.reachable_inv [OF assms(1)] assms(2,3) by (meson rtranclp_trans)
  then have "fenceActive (lGate (fst u)) \<Longrightarrow> fenceGeneration (lGate (fst u)) = gen (fst u)"
    by (auto simp: machineInv_def halted_def supInv_def coreInv_fence split: if_splits)
  with assms(4,5) show ?thesis by (auto simp: sinkForward_def)
qed

lemma earlier_generation_fenced_witness:
  "sinkForward 0 True None activityEvent 5 demo3 = (Some ErrStaleGeneration, demo3)"
  using earlier_generation_fenced [OF demo_init rtranclp.rtrancl_refl demo_reach(3),
      of 0 None activityEvent 5]
  by (simp add: demo_states)

text \<open>
  C4: a run is never dropped silently and a deferred caller never forgotten. Whatever the
  step, a run that was installed is still installed afterwards or has been told to stop, a
  caller whose \<open>Start\<close> was deferred still waits or has been answered, the generation does not
  decrease, and no earlier effect is taken back.
\<close>

theorem step_accounts_for_run_and_caller:
  assumes "supInit s" and "loopStep\<^sup>*\<^sup>* s t" and "loopStep t u"
  shows "gen (fst t) \<le> gen (fst u) \<and>
    (\<exists>es. lEffects (fst u) = lEffects (fst t) @ es \<and>
      (\<forall>h. lRun (fst t) = Some h \<longrightarrow> lRun (fst u) = Some h \<or> RunStop h \<in> set es) \<and>
      (\<forall>c. lPendingStartReply (fst t) = Some c \<longrightarrow>
         lPendingStartReply (fst u) = Some c \<or> (\<exists>e. Reply c e \<in> set es)))"
proof -
  from loopStep_continues [OF assms(3) sup.reachable_inv [OF assms(1,2)]]
  show ?thesis by (simp add: continues_def requestStop_def)
qed

lemma step_accounts_for_run_and_caller_witness: "gen demo2 \<le> gen demo3"
  using step_accounts_for_run_and_caller [OF demo_init demo_reach(2) demo_step3] by simp

text \<open>A worker's channel that is not nil can deliver.\<close>

lemma awaited:
  "(\<exists>r. enabled (EvStart r) l) \<longleftrightarrow> lStartResults l \<noteq> None"
  "(\<exists>r. enabled (EvProbe r) l) \<longleftrightarrow> lProbeResults l \<noteq> None"
  "(\<exists>r. enabled (EvRepair r) l) \<longleftrightarrow> lRepairResults l \<noteq> None"
  "(\<exists>r. enabled (EvPairResult r) l) \<longleftrightarrow> lPairResults l \<noteq> None"
  by (auto intro: exI [of _ "\<lparr>srGeneration = the (lStartResults l), srRun = None, srErr = None\<rparr>"]
      exI [of _ "\<lparr>pbGeneration = the (lProbeResults l), pbAliveAt = 0, pbErr = None\<rparr>"]
      exI [of _ "\<lparr>rrEpoch = the (lRepairResults l), rrErr = None\<rparr>"]
      exI [of _ "\<lparr>paEpoch = the (lPairResults l),
        paResult = \<lparr>prRemoteAccountID = [], prRemoteDeviceID = []\<rparr>, paErr = None\<rparr>"])

text \<open>
  C5: in every state that is not at rest something is bound to move the loop on: a timer is
  armed or a worker's result (of the current generation or epoch) is awaited.
\<close>

theorem never_stuck:
  assumes "supInit s" and "loopStep\<^sup>*\<^sup>* s t" and "\<not> snd t"
    and "state (fst t) \<notin> {StateUnconfigured, StateUnpaired, StateStopped, StateBlocked}"
  shows "lTimerPurpose (fst t) \<noteq> timerNone \<or> (\<exists>r. enabled (EvStart r) (fst t)) \<or>
    (\<exists>r. enabled (EvProbe r) (fst t)) \<or> (\<exists>r. enabled (EvRepair r) (fst t)) \<or>
    (\<exists>r. enabled (EvPairResult r) (fst t))"
proof -
  have "coreInv (fst t)"
    using sup.reachable_inv [OF assms(1,2)] assms(3) by (simp add: machineInv_def supInv_def)
  then have "lTimerPurpose (fst t) \<noteq> timerNone \<or> lStartResults (fst t) \<noteq> None \<or>
      lProbeResults (fst t) \<noteq> None \<or> lRepairResults (fst t) \<noteq> None \<or> lPairResults (fst t) \<noteq> None"
    using assms(4) by (cases "state (fst t)"; auto simp: inv_defs)
  then show ?thesis by (simp only: awaited)
qed

lemma never_stuck_witness: "\<exists>l. l = demo3 \<and> state l = StateOnline \<and>
    (lTimerPurpose l \<noteq> timerNone \<or> (\<exists>r. enabled (EvStart r) l) \<or>
    (\<exists>r. enabled (EvProbe r) l) \<or> (\<exists>r. enabled (EvRepair r) l) \<or>
    (\<exists>r. enabled (EvPairResult r) l))"
  using never_stuck [OF demo_init demo_reach(3)] by (simp add: demo_states)

text \<open>
  A caller whose \<open>Start\<close> was deferred is answered by the result of the start it waits
  for, whatever that result is.
\<close>

theorem deferred_start_answered:
  assumes "supInit s" and "loopStep\<^sup>*\<^sup>* s t" and "\<not> snd t"
    and "lPendingStartReply (fst t) = Some c" and "srGeneration r = gen (fst t)"
  shows "enabled (EvStart r) (fst t) \<and>
    lPendingStartReply (handleStartResult E r (fst t)) = None \<and>
    (\<exists>es e. lEffects (handleStartResult E r (fst t)) = lEffects (fst t) @ es \<and> Reply c e \<in> set es)"
proof -
  have inv: "supInv (fst t)"
    using sup.reachable_inv [OF assms(1,2)] assms(3) by (simp add: machineInv_def)
  with assms(4) have some: "lStartResults (fst t) = Some (gen (fst t))"
    by (auto simp: supInv_def settled_def dest: coreInv_starting(1) simp: starting_def)
  then have none: "lPendingStartReply (handleStartResult E r (fst t)) = None"
    using assms(5) by (simp add: handleStartResult_def Let_def split: option.split)
  have "continues (fst t) (handleStartResult E r (fst t))"
    using inv by (intro continues_startResult) (simp_all add: supInv_def supInv_start)
  with none some assms(4,5) show ?thesis by (auto simp: continues_def)
qed

lemma deferred_start_answered_witness: "lPendingStartReply demo2 = None"
  using deferred_start_answered [OF demo_init demo_reach(1),
      of 7 "\<lparr>srGeneration = 1, srRun = Some 5, srErr = None\<rparr>" "demoAt 1001"]
  by (simp add: demo_states demo2_def)

text \<open>
  C7: a start whose result arrives after the connect deadline never becomes a connection: the
  run it returns is stopped, none is installed and the failure is routed as transient, which
  leaves the account backing off (or blocked when the random source is broken).
\<close>

lemma routeFailure_transient:
  assumes "opClass f = FailureTransient"
  shows "state (routeFailure E f l) \<in> {StateBackoff, StateBlocked}"
    and "lRun (routeFailure E f l) = lRun l"
  using assms
  by (simp_all add: routeFailure_def routeByClass_def recordFingerprint_def knownClass_def
      primitive_defs split: option.split)



text \<open>
  C8: the exponential backoff bound. For a valid policy the bound of attempt \<open>n\<close> is the
  smaller of the maximum and the minimum doubled \<open>n - 1\<close> times; it never leaves the interval
  from minimum to maximum, so that the doubling cannot overflow.
\<close>

lemma backoffLoop_min:
  "0 < c \<Longrightarrow> backoffLoop c m n = min m (c * 2 ^ n)"
proof (induction c m n rule: backoffLoop.induct)
  case (2 c m n)
  have big: "m \<le> c * 2 ^ Suc n" if "m \<le> c * 2"
  proof -
    have "c * 2 * 1 \<le> c * 2 * 2 ^ n" using 2(2) by (intro mult_left_mono) simp_all
    with that show ?thesis by (simp add: ac_simps)
  qed
  show ?case
  proof (cases "c < m \<and> c \<le> m div 2")
    case True
    then show ?thesis using 2 by (auto simp: ac_simps)
  next
    case False
    with 2(2) have "m \<le> c * 2" by linarith
    with big False 2(2) show ?thesis by (auto simp: min_def)
  qed
qed auto

theorem backoffCap_closed_form:
  assumes "validatePolicy p = None"
  shows "backoffCap (MinBackoff p) (MaxBackoff p) n =
      min (MaxBackoff p) (MinBackoff p * 2 ^ nat (n - 1)) \<and>
    MinBackoff p \<le> backoffCap (MinBackoff p) (MaxBackoff p) n \<and>
    backoffCap (MinBackoff p) (MaxBackoff p) n \<le> MaxBackoff p"
proof -
  note v = validPolicy(5,6) [OF assms]
  have "MinBackoff p * 1 \<le> MinBackoff p * 2 ^ nat (n - 1)"
    using v by (intro mult_left_mono) simp_all
  with v show ?thesis by (simp add: backoffCap_def backoffLoop_min)
qed

lemma demoPolicy_valid: "validatePolicy demoPolicy = None"
  by (simp add: validatePolicy_def demoPolicy_def)

lemma backoffCap_closed_form_witness: "backoffCap 2 9 3 = 8 \<and> backoffCap 2 9 4 = 9"
  using backoffCap_closed_form [OF demoPolicy_valid, of 3]
    backoffCap_closed_form [OF demoPolicy_valid, of 4]
  by (simp add: demoPolicy_def)

text \<open>
  C9: a transient failure of a supervisor with a valid policy and a working random source
  puts the account into backoff, counts the attempt and arms the timer for a retry instant
  that lies in the attempt's window.
\<close>

theorem transient_failure_backs_off:
  assumes "validatePolicy (lPolicy l) = None" and "opClass f = FailureTransient"
    and "\<And>n. 0 < n \<Longrightarrow> \<exists>v. draw E n = Some v \<and> 0 \<le> v \<and> v < n"
  shows "state (routeFailure E f l) = StateBackoff \<and>
    lTransientAttempt (routeFailure E f l) = lTransientAttempt l + 1 \<and>
    lTimerPurpose (routeFailure E f l) = timerBackoff \<and>
    lTimerDeadline (routeFailure E f l) = snapRetryAt (lSnapshot (routeFailure E f l)) \<and>
    now E \<le> snapRetryAt (lSnapshot (routeFailure E f l)) \<and>
    snapRetryAt (lSnapshot (routeFailure E f l)) <
      now E + min (MaxBackoff (lPolicy l)) (MinBackoff (lPolicy l) * 2 ^ nat (lTransientAttempt l))"
proof -
  let ?cap = "backoffCap (MinBackoff (lPolicy l)) (MaxBackoff (lPolicy l)) (lTransientAttempt l + 1)"
  have cap: "?cap = min (MaxBackoff (lPolicy l)) (MinBackoff (lPolicy l) * 2 ^ nat (lTransientAttempt l))"
    using validPolicy(5) [OF assms(1)] by (simp add: backoffCap_def backoffLoop_min)
  have pos: "0 < ?cap" using validPolicy(5,6) [OF assms(1)] by (simp add: cap)
  then obtain v where v: "draw E ?cap = Some v" "0 \<le> v" "v < ?cap"
    using assms(3) by blast
  then have "drawJitter E ?cap = Some v" using pos by (simp add: drawJitter_def)
  with assms(2) v(2,3) show ?thesis
    by (simp add: routeFailure_def routeByClass_def recordFingerprint_def knownClass_def
        setError_def publish_def replaceTimer_def clearTimer_def emit_def Let_def cap [symmetric])
qed

lemma transient_failure_backs_off_witness:
  "state (routeFailure \<lparr>now = 50, draw = (\<lambda>n. Some 0)\<rparr> connectTimeoutFailure demo3) = StateBackoff"
proof -
  have "lPolicy demo3 = demoPolicy" by (simp add: demo_defs)
  then show ?thesis
    using transient_failure_backs_off [of demo3 connectTimeoutFailure "\<lparr>now = 50, draw = (\<lambda>n. Some 0)\<rparr>"]
    by (simp add: demoPolicy_valid connectTimeoutFailure_def)
qed


text \<open>
  The circuit breaker. A failure that is neither transient nor an unpairing and carries
  the fingerprint of the failures before it is counted; when the count reaches the policy's
  \<open>MaxSameFingerprint\<close> the account is blocked, and no timer, repair or other worker is
  started for it.
\<close>

theorem repeated_fingerprint_blocks:
  assumes "knownClass (opClass f)" and "opClass f \<notin> {FailureTransient, FailureUnpaired}"
    and "opFingerprint f \<noteq> ''''" and "lSameFingerprint l = opFingerprint f"
    and "MaxSameFingerprint (lPolicy l) \<le> lSameFailureCount l + 1"
  shows "state (routeFailure E f l) = StateBlocked \<and>
    lSameFailureCount (routeFailure E f l) = lSameFailureCount l + 1 \<and>
    lEffects (routeFailure E f l) = lEffects l \<and>
    lTimer (routeFailure E f l) = lTimer l \<and>
    lLastFailure (routeFailure E f l) = f"
  using assms by (simp add: routeFailure_def recordFingerprint_def primitive_defs)

lemma repeated_fingerprint_blocks_witness:
  "state (routeFailure (demoAt 5) (OpError FailureCredentialsExpired ''start'' 0 ''fp'' DispatchUnset None)
     (demo0\<lparr>lSameFingerprint := ''fp'', lSameFailureCount := 2\<rparr>)) = StateBlocked"
  using repeated_fingerprint_blocks
    [of "OpError FailureCredentialsExpired ''start'' 0 ''fp'' DispatchUnset None"
      "demo0\<lparr>lSameFingerprint := ''fp'', lSameFailureCount := 2\<rparr>" "demoAt 5"]
  by (simp add: knownClass_def demo0_def initialLoop_def demoPolicy_def)

text \<open>
  Where a failure leads, short of the breaker: an unpairing to \<open>Unpaired\<close> with the
  history reset; a rate limit to a backoff that ends no earlier than the platform's retry
  instant; expired credentials to a repair, or to \<open>Blocked\<close> without a repairer; the classes
  that only a person can resolve to \<open>Blocked\<close>; and an unknown class is treated as transient.
\<close>

theorem failure_routing:
  "(opClass f = FailureUnpaired \<longrightarrow> state (routeFailure E f l) = StateUnpaired \<and>
      lSameFailureCount (routeFailure E f l) = 0 \<and> lTransientAttempt (routeFailure E f l) = 0) \<and>
   (\<not> fst (recordFingerprint (opClass f) (opFingerprint f) l) \<longrightarrow>
     (opClass f = FailureRateLimited \<longrightarrow> state (routeFailure E f l) = StateBackoff \<and>
        snapRetryAt (lSnapshot (routeFailure E f l)) = opRetryAt f \<and>
        lTimerDeadline (routeFailure E f l) = max (now E) (opRetryAt f)) \<and>
     (opClass f = FailureCredentialsExpired \<longrightarrow> state (routeFailure E f l) =
        (if lHasRepairer l then StateRepairingCredentials else StateBlocked)) \<and>
     (opClass f \<in> {FailureReauthRequired, FailureUpgradeRequired, FailureMisconfigured,
        FailureUnsupported} \<longrightarrow> state (routeFailure E f l) = StateBlocked)) \<and>
   (\<not> knownClass (opClass f) \<longrightarrow>
     routeFailure E f l = routeFailure E (withClass FailureTransient f) l)"
proof (intro conjI)
  show "opClass f = FailureUnpaired \<longrightarrow> state (routeFailure E f l) = StateUnpaired \<and>
      lSameFailureCount (routeFailure E f l) = 0 \<and> lTransientAttempt (routeFailure E f l) = 0"
    by (simp add: routeFailure_def knownClass_def primitive_defs)
  show "\<not> knownClass (opClass f) \<longrightarrow>
     routeFailure E f l = routeFailure E (withClass FailureTransient f) l"
    by (simp add: routeFailure_def knownClass_def)
qed (cases "opClass f"; auto simp: routeFailure_def knownClass_def recordFingerprint_def
      routeByClass_def beginCredentialRepair_def primitive_defs max_def split: if_splits)+

lemma failure_routing_witness:
  "state (routeFailure (demoAt 5) (OpError FailureRateLimited ''start'' 30 '''' DispatchUnset None)
     demo0) = StateBackoff"
  using failure_routing [of "OpError FailureRateLimited ''start'' 30 '''' DispatchUnset None"
      "demoAt 5" demo0]
  by (simp add: recordFingerprint_def)

lemma continues_effects: "continues l t \<Longrightarrow> e \<in> set (lEffects l) \<Longrightarrow> e \<in> set (lEffects t)"
  by (auto simp: continues_def)

lemma shutdown_tail_continues:
  "continues m (publish (onSnapshot (\<lambda>s. s\<lparr>snapState := StateStopped,
            snapLivenessDeadline := 0, snapRetryAt := 0\<rparr>)
           ((resolvePendingStart e (retireCurrent m))\<lparr>lProbeResults := None,
              lRepairResults := None, lPairResults := None, lPairEvents := None,
              lPairActive := False\<rparr>)))"
  by simp

lemma shutdown_cancelRoot: "CancelRoot \<in> set (lEffects (snd (shutdown oc l)))"
  unfolding shutdown_def Let_def snd_conv
  by (rule continues_effects [OF shutdown_tail_continues]) (simp add: emit_def)





text \<open>
  Activity of the current generation keeps an online account alive: the liveness
  deadline after it is at least \<open>LivenessTimeout\<close> past the (clamped) activity instant, the
  failure history is forgotten, and a liveness check is armed no later than that deadline.
\<close>

theorem activity_extends_liveness:
  assumes "actGeneration a = gen l" and "lRun l = Some h" and "state l = StateOnline"
  shows "state (handleActivity E a l) = StateOnline \<and>
    clampActivityTime (actAt a) (now E) + LivenessTimeout (lPolicy l) \<le>
      snapLivenessDeadline (lSnapshot (handleActivity E a l)) \<and>
    lTransientAttempt (handleActivity E a l) = 0 \<and>
    lTimerPurpose (handleActivity E a l) = timerLivenessCheck \<and>
    lTimerDeadline (handleActivity E a l) \<le> snapLivenessDeadline (lSnapshot (handleActivity E a l))"
  using assms
  by (cases "actKind a")
    (simp_all add: handleActivity_def refreshLivenessDeadline_def scheduleLivenessCheck_def primitive_defs)

lemma activity_extends_liveness_witness:
  "1050 + 100 \<le> snapLivenessDeadline (lSnapshot (handleActivity (demoAt 1060)
     \<lparr>actGeneration = 1, actKind = activityBeat, actAt = 1050\<rparr> demo3))"
proof -
  have p: "lPolicy demo3 = demoPolicy" by (simp add: demo_defs)
  show ?thesis
    using activity_extends_liveness [of "\<lparr>actGeneration = 1, actKind = activityBeat, actAt = 1050\<rparr>"
        demo3 5 "demoAt 1060"]
    by (simp add: demo_states clampActivityTime_def isZero_def demoAt_def p) (simp add: demoPolicy_def)
qed

text \<open>
  An expired or refused pairing attempt cannot complete: when its worker reports success
  after the attempt was given up, or after the code's expiry, the account stays unpaired and
  the reported identity is not taken over.
\<close>

theorem expired_pairing_not_completed:
  assumes "coreInv l" and "lPairActive l" and "paEpoch r = lPairEpoch l"
    and "lPairExpired l \<or> lPairExpiresAt l \<noteq> 0 \<and> lPairExpiresAt l \<le> now E"
  shows "state (handlePairResult E r l) = StateUnpaired \<and>
    lStartRequest (handlePairResult E r l) = lStartRequest l \<and>
    \<not> lPairActive (handlePairResult E r l)"
  using coreInv_pairing(4) [OF assms(1,2)] assms(2-4)
  by (auto simp: handlePairResult_def expirePairing_def abandonPairing_def takePairResult_def
      isZero_def primitive_defs)

definition demoPairing :: loop where
  "demoPairing = (snd (beginPairing (demoAt 10)
     \<lparr>pairAccountID = ''acc'', pairMethod = PairByQR, pairPhone = ''''\<rparr> True
     (onSnapshot (\<lambda>s. s\<lparr>snapState := StateUnpaired\<rparr>) demo0)))\<lparr>lPairExpiresAt := 40\<rparr>"

lemma expired_pairing_not_completed_witness:
  "state (handlePairResult (demoAt 41) \<lparr>paEpoch = 1, paResult =
     \<lparr>prRemoteAccountID = ''r'', prRemoteDeviceID = ''d''\<rparr>, paErr = None\<rparr> demoPairing) = StateUnpaired"
proof -
  have "coreInv (onSnapshot (\<lambda>s. s\<lparr>snapState := StateUnpaired\<rparr>) demo0)"
    by (simp add: inv_defs) (simp add: demo_defs)
  then have inv: "coreInv demoPairing" by (simp add: demoPairing_def beginPairing_inv)
  have "lPairActive demoPairing" and "lPairEpoch demoPairing = 1" and "lPairExpiresAt demoPairing = 40"
    by (simp_all add: demoPairing_def beginPairing_def demo_defs)
  with expired_pairing_not_completed [OF inv, of "\<lparr>paEpoch = 1, paResult =
     \<lparr>prRemoteAccountID = ''r'', prRemoteDeviceID = ''d''\<rparr>, paErr = None\<rparr>" "demoAt 41"]
  show ?thesis by (simp add: demoAt_def)
qed

end
