(* ===== verification/Store.thy ===== *)
theory Store
  imports Prelude
begin

text \<open>
  The database of \<open>internal/storage/sqlite\<close>: one record per row type of the migrations
  0002 and 0004 to 0011, a store that holds the tables as lists of rows, the constraints the
  schema declares, and what SQLite does with the statements that the repositories share.

  \<^item> A nullable column is an option, an \<open>INTEGER\<close> an \<open>int\<close>, a Go string type that a caller may
    fill with anything a \<open>string\<close>; a column that only the repository writes is a datatype.
  \<^item> A statement that violates a constraint changes nothing and returns the kind of the
    violation. SQLite evaluates the \<open>CHECK\<close>s of a proposed row first, then the conflict
    target of an upsert, then the other uniqueness constraints, and the foreign keys last.
  \<^item> A repository operation returns an error (the list of the sentinels that its chain of
    \<open>%w\<close> verbs wraps, so that \<open>errors.Is\<close> is membership) or a value and the new store; after
    an error the store is the old one, because every multi-statement operation runs in a
    transaction that is rolled back.
  \<^item> Failures of the driver itself (I\<open>/\<close>O, a cancelled context) are not modelled here.
\<close>

section \<open>Errors\<close>

datatype sql_fault = CheckFault | UniqueFault | ForeignKeyFault

datatype sentinel =
    ErrNotFound | ErrNoRows | ErrConstraintViolation | ErrSqlite sql_fault
  | ErrInvalidInboxRecord | ErrOrphanInboxAccount
  | ErrInvalidMessage | ErrCrossAccountMessage | ErrOrphanMessage | ErrOrphanMessageInbox
  | ErrOrphanMessageConversation | ErrOrphanMessageIdentity | ErrInboxProjectionConflict
  | ErrIdempotencyConflict | ErrLeaseLost | ErrInvalidOutboxState
  | ErrInvalidConversationParticipant | ErrCrossAccountParticipant | ErrOrphanParticipantIdentity
  | ErrDetail string

type_synonym store_error = "sentinel list"

definition errorsIs :: "store_error \<Rightarrow> sentinel \<Rightarrow> bool" where
  "errorsIs e s = (s \<in> set e)"

text \<open>\<open>mapConstraintError\<close> on the error of a statement, and \<open>notFound\<close>.\<close>

definition mapConstraintError :: "sql_fault \<Rightarrow> store_error" where
  "mapConstraintError f = [ErrConstraintViolation, ErrSqlite f]"

definition notFound :: store_error where
  "notFound = [ErrNotFound]"

definition failWith :: "string \<Rightarrow> store_error + 'a" where
  "failWith detail = Inl [ErrDetail detail]"

definition thenDo :: "'e + 'a \<Rightarrow> ('a \<Rightarrow> 'e + 'b) \<Rightarrow> 'e + 'b" where
  "thenDo m f = (case m of Inl e \<Rightarrow> Inl e | Inr x \<Rightarrow> f x)"

lemma thenDo_simps [simp]: "thenDo (Inl e) f = Inl e" "thenDo (Inr x) f = f x"
  by (simp_all add: thenDo_def)

lemma thenDo_Inr: "thenDo m f = Inr y \<longleftrightarrow> (\<exists>x. m = Inr x \<and> f x = Inr y)"
  by (simp add: thenDo_def split: sum.split)

text \<open>How an operation can have succeeded: the inversion rules of its early returns.\<close>

lemma case_Inl_Inr: "(case x of Inl e \<Rightarrow> Inl (g e) | Inr y \<Rightarrow> f y) = Inr z \<longleftrightarrow>
    (\<exists>y. x = Inr y \<and> f y = Inr z)"
  by (simp split: sum.split)

lemma case_None_Inl: "(case x of None \<Rightarrow> Inl e | Some y \<Rightarrow> f y) = Inr z \<longleftrightarrow>
    (\<exists>y. x = Some y \<and> f y = Inr z)"
  by (simp split: option.split)

lemma case_Some_Inl: "(case x of None \<Rightarrow> a | Some y \<Rightarrow> Inl (g y)) = Inr z \<longleftrightarrow>
    x = None \<and> a = Inr z"
  by (simp split: option.split)

lemma if_Inl: "(if b then Inl e else x) = Inr z \<longleftrightarrow> \<not> b \<and> x = Inr z"
  by simp

lemma if_Inl': "(if b then x else Inl e) = Inr z \<longleftrightarrow> b \<and> x = Inr z"
  by simp

lemma case_Some_failWith: "(case x of None \<Rightarrow> a | Some y \<Rightarrow> failWith y) = Inr z \<longleftrightarrow>
    x = None \<and> a = Inr z"
  by (simp add: failWith_def split: option.split)

lemma if_failWith: "(if b then failWith e else x) = Inr z \<longleftrightarrow> \<not> b \<and> x = Inr z"
  by (simp add: failWith_def)

lemma if_failWith': "(if b then x else failWith e) = Inr z \<longleftrightarrow> b \<and> x = Inr z"
  by (simp add: failWith_def)

lemmas succeeded = thenDo_Inr if_failWith if_failWith' case_Inl_Inr case_None_Inl case_Some_Inl case_Some_failWith if_Inl if_Inl' failWith_def

text \<open>The \<open>nowMS\<close> of every repository: a clock before the Unix epoch is refused.\<close>

definition nowMS :: "gotime \<Rightarrow> store_error + int" where
  "nowMS t = (if unixMilliOf t \<le> 0 then failWith ''current Unix time is not positive''
              else Inr (unixMilliOf t))"

lemma nowMS_Inr: "nowMS t = Inr n \<longleftrightarrow> n = unixMilliOf t \<and> 0 < n"
  by (auto simp: nowMS_def failWith_def)

section \<open>Rows\<close>

record account =
  acAccountID :: string
  acBridgeKey :: string
  acRemoteAccountID :: "string option"
  acDisplayName :: string
  acMode :: string
  acEnabled :: bool
  acConfigJSON :: string
  acCreatedAtMS :: int
  acUpdatedAtMS :: int

record device =
  dvDeviceID :: string
  dvAccountID :: string
  dvRemoteDeviceID :: "string option"
  dvKind :: string
  dvDisplayName :: string
  dvState :: string
  dvIsCurrent :: bool
  dvLastSeenAtMS :: "int option"
  dvCreatedAtMS :: int
  dvUpdatedAtMS :: int

record identity =
  idIdentityID :: string
  idAccountID :: string
  idKind :: string
  idCanonicalValue :: string
  idRawValue :: string
  idDisplayName :: string
  idIsSelf :: bool
  idMetadataJSON :: string
  idCreatedAtMS :: int
  idUpdatedAtMS :: int

record conversation =
  cvConversationID :: string
  cvAccountID :: string
  cvRemoteConversationID :: string
  cvKind :: string
  cvTitle :: string
  cvRemoteRevision :: "string option"
  cvNotificationMode :: string
  cvIsFavorite :: bool
  cvArchivedAtMS :: "int option"
  cvLastMessageAtMS :: int
  cvMetadataJSON :: string
  cvCreatedAtMS :: int
  cvUpdatedAtMS :: int

record participant =
  cpAccountID :: string
  cpConversationID :: string
  cpIdentityID :: string
  cpRole :: string
  cpDisplayName :: string
  cpIsActive :: bool
  cpJoinedAtMS :: "int option"
  cpLeftAtMS :: "int option"

record inbox_record =
  inInboxID :: string
  inAccountID :: string
  inGeneration :: int
  inDedupeKey :: string
  inCodec :: string
  inCodecVersion :: int
  inReceivedAtMS :: int
  inPayload :: string
  inProcessedAtMS :: "int option"

record message =
  msMessageID :: string
  msConversationID :: string
  msAccountID :: string
  msRemoteMessageID :: string
  msSenderIdentityID :: "string option"
  msDirection :: string
  msBody :: string
  msReplyToRemoteID :: "string option"
  msState :: string
  msOccurredAtMS :: int
  msCreatedAtMS :: int
  msUpdatedAtMS :: int

record message_attachment =
  maMessageID :: string
  maOrdinal :: int
  maRemoteID :: string
  maRemoteRef :: string
  maFilename :: string
  maMIME :: string
  maSizeBytes :: "int option"
  maDownloaded :: bool
  maBlobHash :: "string option"
  maLastError :: "string option"
  maCreatedAtMS :: int
  maUpdatedAtMS :: int

datatype outbox_kind = OutboxKindText | OutboxKindMedia | OutboxKindReaction | OutboxKindRead
  | OutboxKindOther string

datatype outbox_state =
    OutboxQueued | OutboxDispatching | OutboxNotDispatched | OutboxUncertain
  | OutboxConfirmed | OutboxStoreFailed | OutboxRejected | OutboxCanceled

record outbox_item =
  obOutboxID :: string
  obAccountID :: string
  obConversationID :: string
  obKind :: outbox_kind
  obIdempotencyKey :: string
  obPayloadHash :: string
  obOperation :: string
  obState :: outbox_state
  obLocalMessageID :: "string option"
  obTransportRequestID :: string
  obSendAgainOfOutboxID :: "string option"
  obResultRemoteID :: "string option"
  obErrorClass :: "string option"
  obErrorCode :: "string option"
  obErrorDetail :: "string option"
  obAttemptCount :: int
  obLeaseOwner :: "string option"
  obLeaseToken :: "string option"
  obLeaseExpiresAtMS :: "int option"
  obTransportCalledAtMS :: "int option"
  obScheduledForMS :: int
  obNextAttemptAtMS :: "int option"
  obCreatedAtMS :: int
  obUpdatedAtMS :: int

record outbox_attachment =
  oaOutboxID :: string
  oaOrdinal :: int
  oaBlobHash :: string
  oaSizeBytes :: int
  oaMIME :: string
  oaFilename :: string
  oaCreatedAtMS :: int

record outbox_reaction =
  orOutboxID :: string
  orTargetMessageID :: string
  orEmoji :: string
  orAction :: string
  orCreatedAtMS :: int

record outbox_read_receipt =
  rrOutboxID :: string
  rrDeviceID :: string
  rrLastReadMessageID :: string
  rrReadAtMS :: int
  rrCreatedAtMS :: int

record read_cursor =
  rcAccountID :: string
  rcDeviceID :: string
  rcConversationID :: string
  rcLastReadMessageID :: "string option"
  rcLastReadAtMS :: int
  rcSourceUpdatedAtMS :: "int option"
  rcUpdatedAtMS :: int

text \<open>
  Rows that hang on a message: reactions, the fence of the last embedded snapshot, and extras
  (the JSON object of \<open>payload_json\<close> by its fields).
\<close>

record reaction =
  reMessageID :: string
  reReactorKey :: string
  reAccountID :: string
  reConversationID :: string
  reReactorIdentityID :: "string option"
  reReactorIsSelf :: bool
  reReactorLabel :: string
  reEmoji :: string
  reActive :: bool
  reOccurredAtMS :: int
  reSourceSeqMS :: int
  reCreatedAtMS :: int
  reUpdatedAtMS :: int

record snapshot_fence =
  sfMessageID :: string
  sfSourceSeqMS :: int
  sfUpdatedAtMS :: int

record message_payload =
  mpBlocks :: string
  mpTranscript :: string
  mpTranscriptModel :: string
  mpTranscribedAtMS :: int

record message_extra =
  exMessageID :: string
  exPayload :: message_payload
  exUpdatedAtMS :: int

record store =
  accounts :: "account list"
  devices :: "device list"
  identities :: "identity list"
  conversations :: "conversation list"
  participants :: "participant list"
  inbox :: "inbox_record list"
  messages :: "message list"
  messageAttachments :: "message_attachment list"
  outbox :: "outbox_item list"
  outboxAttachments :: "outbox_attachment list"
  outboxReactions :: "outbox_reaction list"
  outboxReadReceipts :: "outbox_read_receipt list"
  readCursors :: "read_cursor list"
  reactions :: "reaction list"
  reactionSnapshotFences :: "snapshot_fence list"
  messageExtras :: "message_extra list"

definition emptyStore :: store where
  "emptyStore = \<lparr>accounts = [], devices = [], identities = [], conversations = [],
     participants = [], inbox = [],
     messages = [], messageAttachments = [], outbox = [], outboxAttachments = [],
     outboxReactions = [], outboxReadReceipts = [], readCursors = [], reactions = [],
     reactionSnapshotFences = [], messageExtras = []\<rparr>"

section \<open>Row constraints\<close>

abbreviation nonblank :: "string \<Rightarrow> bool" where
  "nonblank s \<equiv> sqlTrim s \<noteq> ''''"

definition nullOr :: "('a \<Rightarrow> bool) \<Rightarrow> 'a option \<Rightarrow> bool" where
  "nullOr P v = (case v of None \<Rightarrow> True | Some x \<Rightarrow> P x)"

lemma nullOr_simps [simp]: "nullOr P None" "nullOr P (Some x) = P x"
  by (simp_all add: nullOr_def)

text \<open>Migration 0005.\<close>

fun knownKind :: "outbox_kind \<Rightarrow> bool" where
  "knownKind (OutboxKindOther k) = False"
| "knownKind _ = True"

definition outboxRowOK :: "outbox_item \<Rightarrow> bool" where
  "outboxRowOK r \<longleftrightarrow>
     nonblank (obOutboxID r) \<and> nonblank (obConversationID r) \<and>
     knownKind (obKind r) \<and>
     nonblank (obIdempotencyKey r) \<and> nonblank (obPayloadHash r) \<and> nonblank (obOperation r) \<and>
     nullOr nonblank (obLocalMessageID r) \<and> nonblank (obTransportRequestID r) \<and>
     nullOr nonblank (obResultRemoteID r) \<and> 0 \<le> obAttemptCount r \<and>
     nullOr nonblank (obLeaseOwner r) \<and> nullOr nonblank (obLeaseToken r) \<and>
     nullOr (\<lambda>t. 0 < t) (obLeaseExpiresAtMS r) \<and> nullOr (\<lambda>t. 0 < t) (obTransportCalledAtMS r) \<and>
     0 < obScheduledForMS r \<and> nullOr (\<lambda>t. 0 < t) (obNextAttemptAtMS r) \<and>
     0 < obCreatedAtMS r \<and> obCreatedAtMS r \<le> obUpdatedAtMS r \<and>
     (if obState r = OutboxDispatching
      then obLeaseOwner r \<noteq> None \<and> obLeaseToken r \<noteq> None \<and> obLeaseExpiresAtMS r \<noteq> None
      else obLeaseOwner r = None \<and> obLeaseToken r = None \<and> obLeaseExpiresAtMS r = None \<and>
           obTransportCalledAtMS r = None) \<and>
     (obState r = OutboxNotDispatched \<longrightarrow> obNextAttemptAtMS r \<noteq> None)"

definition MessageDirectionIncoming :: string where
  "MessageDirectionIncoming = ''incoming''"

definition MessageDirectionOutgoing :: string where
  "MessageDirectionOutgoing = ''outgoing''"

definition MessageStateActive :: string where
  "MessageStateActive = ''active''"

text \<open>Migration 0004.\<close>

definition messageRowOK :: "message \<Rightarrow> bool" where
  "messageRowOK m \<longleftrightarrow> nonblank (msMessageID m) \<and> nonblank (msRemoteMessageID m) \<and>
     msDirection m \<in> {MessageDirectionIncoming, MessageDirectionOutgoing} \<and>
     nullOr nonblank (msReplyToRemoteID m) \<and>
     msState m \<in> {MessageStateActive, ''edited'', ''deleted''} \<and>
     0 < msOccurredAtMS m \<and> 0 < msCreatedAtMS m \<and> msCreatedAtMS m \<le> msUpdatedAtMS m"

definition inboxRowOK :: "inbox_record \<Rightarrow> bool" where
  "inboxRowOK r \<longleftrightarrow> nonblank (inInboxID r) \<and> 0 \<le> inGeneration r \<and>
     (inDedupeKey r = '''' \<or> nonblank (inDedupeKey r)) \<and> nonblank (inCodec r) \<and>
     0 \<le> inCodecVersion r \<and> 0 < inReceivedAtMS r \<and>
     nullOr (\<lambda>t. inReceivedAtMS r \<le> t) (inProcessedAtMS r)"

text \<open>Migrations 0006 to 0008.\<close>

definition hexDigit :: "char \<Rightarrow> bool" where
  "hexDigit c = (c \<in> set ''0123456789abcdef'')"

definition blobHashOK :: "string \<Rightarrow> bool" where
  "blobHashOK h \<longleftrightarrow> length h = 64 \<and> list_all hexDigit h"

definition outboxAttachmentRowOK :: "outbox_attachment \<Rightarrow> bool" where
  "outboxAttachmentRowOK a \<longleftrightarrow> 0 \<le> oaOrdinal a \<and> blobHashOK (oaBlobHash a) \<and>
     0 < oaSizeBytes a \<and> nonblank (oaMIME a) \<and> 0 < oaCreatedAtMS a"

text \<open>SQLite's \<open>length\<close> counts characters: the bytes that do not continue a UTF-8 sequence.\<close>

definition sqlLength :: "string \<Rightarrow> nat" where
  "sqlLength s = length (filter (\<lambda>c. let n = (of_char c :: nat) in n < 128 \<or> 192 \<le> n) s)"

definition outboxReactionRowOK :: "outbox_reaction \<Rightarrow> bool" where
  "outboxReactionRowOK r \<longleftrightarrow> nonblank (orEmoji r) \<and> sqlLength (orEmoji r) \<le> 64 \<and>
     orAction r \<in> {''add'', ''remove'', ''switch''} \<and> 0 < orCreatedAtMS r"

definition outboxReadReceiptRowOK :: "outbox_read_receipt \<Rightarrow> bool" where
  "outboxReadReceiptRowOK r \<longleftrightarrow> 0 < rrReadAtMS r \<and> 0 < rrCreatedAtMS r"

definition readCursorRowOK :: "read_cursor \<Rightarrow> bool" where
  "readCursorRowOK c \<longleftrightarrow> 0 \<le> rcLastReadAtMS c \<and> nullOr (\<lambda>t. 0 \<le> t) (rcSourceUpdatedAtMS c) \<and>
     0 < rcUpdatedAtMS c \<and> (rcLastReadMessageID c \<noteq> None \<longrightarrow> 0 < rcLastReadAtMS c)"

definition messageAttachmentRowOK :: "message_attachment \<Rightarrow> bool" where
  "messageAttachmentRowOK a \<longleftrightarrow> 0 \<le> maOrdinal a \<and> nonblank (maMIME a) \<and>
     nullOr (\<lambda>n. 0 \<le> n) (maSizeBytes a) \<and> nullOr blobHashOK (maBlobHash a) \<and>
     0 < maCreatedAtMS a \<and> maCreatedAtMS a \<le> maUpdatedAtMS a \<and>
     (maDownloaded a \<longleftrightarrow> maBlobHash a \<noteq> None)"

section \<open>References between tables\<close>

definition hasAccount :: "string \<Rightarrow> store \<Rightarrow> bool" where
  "hasAccount a s = sqlExists (\<lambda>r. acAccountID r = a) (accounts s)"

definition hasConversation :: "string \<Rightarrow> string \<Rightarrow> store \<Rightarrow> bool" where
  "hasConversation a c s =
     sqlExists (\<lambda>r. cvAccountID r = a \<and> cvConversationID r = c) (conversations s)"

definition hasIdentity :: "string \<Rightarrow> string \<Rightarrow> store \<Rightarrow> bool" where
  "hasIdentity a i s = sqlExists (\<lambda>r. idAccountID r = a \<and> idIdentityID r = i) (identities s)"

definition hasDevice :: "string \<Rightarrow> store \<Rightarrow> bool" where
  "hasDevice d s = sqlExists (\<lambda>r. dvDeviceID r = d) (devices s)"

definition hasAccountDevice :: "string \<Rightarrow> string \<Rightarrow> store \<Rightarrow> bool" where
  "hasAccountDevice a d s =
     sqlExists (\<lambda>r. dvAccountID r = a \<and> dvDeviceID r = d) (devices s)"

definition hasMessage :: "string \<Rightarrow> store \<Rightarrow> bool" where
  "hasMessage m s = sqlExists (\<lambda>r. msMessageID r = m) (messages s)"

definition hasConversationMessage :: "string \<Rightarrow> string \<Rightarrow> store \<Rightarrow> bool" where
  "hasConversationMessage c m s =
     sqlExists (\<lambda>r. msConversationID r = c \<and> msMessageID r = m) (messages s)"

definition hasOutbox :: "string \<Rightarrow> store \<Rightarrow> bool" where
  "hasOutbox i s = sqlExists (\<lambda>r. obOutboxID r = i) (outbox s)"

abbreviation messageKey :: "message \<Rightarrow> string \<times> string \<times> string" where
  "messageKey m \<equiv> (msAccountID m, msConversationID m, msRemoteMessageID m)"

section \<open>Statements on messages\<close>

definition messageReferencesOK :: "message \<Rightarrow> store \<Rightarrow> bool" where
  "messageReferencesOK m s \<longleftrightarrow> hasConversation (msAccountID m) (msConversationID m) s \<and>
     nullOr (\<lambda>i. hasIdentity (msAccountID m) i s) (msSenderIdentityID m)"

text \<open>\<open>INSERT INTO messages\<close> without a conflict clause.\<close>

definition insertMessageRow :: "message \<Rightarrow> store \<Rightarrow> sql_fault + store" where
  "insertMessageRow m s =
     (if \<not> messageRowOK m then Inl CheckFault
      else if hasMessage (msMessageID m) s
           \<or> sqlExists (\<lambda>r. messageKey r = messageKey m) (messages s) then Inl UniqueFault
      else if \<not> messageReferencesOK m s then Inl ForeignKeyFault
      else Inr (s\<lparr>messages := messages s @ [m]\<rparr>))"

text \<open>
  \<open>DELETE FROM messages WHERE message_id = ?\<close>: reaction and read intents and read cursors
  hold on to their message; attachments, reactions, fences and extras go with it.
\<close>

definition deleteMessageRow :: "string \<Rightarrow> store \<Rightarrow> sql_fault + store" where
  "deleteMessageRow i s =
     (if hasMessage i s \<and>
         (sqlExists (\<lambda>r. orTargetMessageID r = i) (outboxReactions s)
          \<or> sqlExists (\<lambda>r. rrLastReadMessageID r = i) (outboxReadReceipts s)
          \<or> sqlExists (\<lambda>r. rcLastReadMessageID r = Some i) (readCursors s))
      then Inl ForeignKeyFault
      else Inr (s\<lparr>messages := filter (\<lambda>r. msMessageID r \<noteq> i) (messages s),
             messageAttachments := filter (\<lambda>r. maMessageID r \<noteq> i) (messageAttachments s),
             reactions := filter (\<lambda>r. reMessageID r \<noteq> i) (reactions s),
             reactionSnapshotFences := filter (\<lambda>r. sfMessageID r \<noteq> i) (reactionSnapshotFences s),
             messageExtras := filter (\<lambda>r. exMessageID r \<noteq> i) (messageExtras s)\<rparr>))"

text \<open>An \<open>UPDATE\<close> whose rows must satisfy \<open>ok\<close> afterwards.\<close>

definition updateChecked ::
  "('r \<Rightarrow> bool) \<Rightarrow> ('r \<Rightarrow> 'r) \<Rightarrow> ('r \<Rightarrow> bool) \<Rightarrow> 'r list \<Rightarrow> sql_fault + 'r list" where
  "updateChecked P f ok rows =
     (if list_all (\<lambda>r. P r \<longrightarrow> ok (f r)) rows then Inr (sqlUpdate P f rows) else Inl CheckFault)"

lemma updateChecked_Inr:
  "updateChecked P f ok rows = Inr rows' \<longleftrightarrow>
   (\<forall>r \<in> set rows. P r \<longrightarrow> ok (f r)) \<and> rows' = sqlUpdate P f rows"
  by (auto simp: updateChecked_def list_all_iff)

text \<open>
  \<open>upsertReadCursor\<close>: monotone in the read time. A cursor that is not older replaces the
  position; an older one changes nothing.
\<close>

definition upsertReadCursor :: "read_cursor \<Rightarrow> store \<Rightarrow> store_error + store" where
  "upsertReadCursor c s =
     (let new = c\<lparr>rcSourceUpdatedAtMS := None\<rparr>;
          same = (\<lambda>r. rcDeviceID r = rcDeviceID c \<and> rcConversationID r = rcConversationID c)
      in
      if \<not> readCursorRowOK new then Inl (mapConstraintError CheckFault)
      else case sqlFind same (readCursors s) of
        Some old \<Rightarrow>
          (let upd = (\<lambda>r. r\<lparr>rcLastReadMessageID := rcLastReadMessageID c,
                        rcLastReadAtMS := rcLastReadAtMS c, rcUpdatedAtMS := rcUpdatedAtMS c\<rparr>)
           in if rcLastReadAtMS c < rcLastReadAtMS old then Inr s
              else if \<not> nullOr (\<lambda>m. hasConversationMessage (rcConversationID c) m s)
                          (rcLastReadMessageID c)
                   then Inl (mapConstraintError ForeignKeyFault)
              else Inr (s\<lparr>readCursors := sqlUpdate same upd (readCursors s)\<rparr>))
      | None \<Rightarrow>
          if hasAccountDevice (rcAccountID c) (rcDeviceID c) s \<and>
             hasConversation (rcAccountID c) (rcConversationID c) s \<and>
             nullOr (\<lambda>m. hasConversationMessage (rcConversationID c) m s) (rcLastReadMessageID c)
          then Inr (s\<lparr>readCursors := readCursors s @ [new]\<rparr>)
          else Inl (mapConstraintError ForeignKeyFault))"

text \<open>\<open>GetReadCursor\<close>.\<close>

definition getReadCursor :: "string \<Rightarrow> string \<Rightarrow> store \<Rightarrow> store_error + read_cursor" where
  "getReadCursor deviceID conversationID s =
     (case sqlFind (\<lambda>r. rcDeviceID r = deviceID \<and> rcConversationID r = conversationID)
             (readCursors s) of
        None \<Rightarrow> Inl notFound | Some c \<Rightarrow> Inr c)"

end
