(* ===== verification/Messages.thy ===== *)
theory Messages
  imports Store
begin

text \<open>
  \<open>internal/storage/sqlite/messages.go\<close> and \<open>message_attachments.go\<close>: the durable inbox,
  the projection of its frames to normalized messages, the reads of a conversation's
  messages and the lifecycle of inbound attachments.

  Every operation is a function of the store; the readings of the repository's clock are
  arguments (\<open>clock i\<close> is the \<open>i\<close>-th reading where there are several).
\<close>

section \<open>Errors\<close>

definition invalidInboxConstraintError :: "sql_fault \<Rightarrow> store_error" where
  "invalidInboxConstraintError f =
     (if f = ForeignKeyFault
      then [ErrInvalidInboxRecord, ErrConstraintViolation, ErrOrphanInboxAccount, ErrSqlite f]
      else [ErrInvalidInboxRecord, ErrConstraintViolation, ErrSqlite f])"

definition invalidMessageConstraintError :: "sentinel list \<Rightarrow> sql_fault \<Rightarrow> store_error" where
  "invalidMessageConstraintError specific f =
     [ErrInvalidMessage, ErrConstraintViolation] @ specific @ [ErrSqlite f]"

definition invalidMessageError :: "sentinel list \<Rightarrow> store_error" where
  "invalidMessageError specific = [ErrInvalidMessage, ErrConstraintViolation] @ specific"

definition classifyMessageForeignKey :: "message \<Rightarrow> store \<Rightarrow> sentinel list" where
  "classifyMessageForeignKey m s =
     (case sqlFind (\<lambda>c. cvConversationID c = msConversationID m) (conversations s) of
        None \<Rightarrow> [ErrOrphanMessage, ErrOrphanMessageConversation]
      | Some c \<Rightarrow>
          if cvAccountID c \<noteq> msAccountID m then [ErrCrossAccountMessage]
          else case msSenderIdentityID m of
            None \<Rightarrow> []
          | Some i \<Rightarrow>
              (case sqlFind (\<lambda>r. idIdentityID r = i) (identities s) of
                 None \<Rightarrow> [ErrOrphanMessage, ErrOrphanMessageIdentity]
               | Some r \<Rightarrow>
                   if idAccountID r \<noteq> msAccountID m then [ErrCrossAccountMessage] else []))"

definition mapMessageWriteError :: "message \<Rightarrow> store \<Rightarrow> sql_fault \<Rightarrow> store_error" where
  "mapMessageWriteError m s f =
     invalidMessageConstraintError
       (if f = ForeignKeyFault then classifyMessageForeignKey m s else []) f"

section \<open>The inbox\<close>

definition appendInbox :: "gotime \<Rightarrow> inbox_record \<Rightarrow> store \<Rightarrow> store_error + (string \<times> store)" where
  "appendInbox t record s =
     thenDo (nowMS t) (\<lambda>receivedAt.
       let row = record\<lparr>inReceivedAtMS := receivedAt, inProcessedAtMS := None\<rparr>;
           same = (\<lambda>r. inAccountID r = inAccountID record \<and> inDedupeKey r = inDedupeKey record
                      \<and> inDedupeKey r \<noteq> '''')
       in
       if \<not> inboxRowOK row then Inl (invalidInboxConstraintError CheckFault)
       else case (if inDedupeKey record = '''' then None else sqlFind same (inbox s)) of
         Some existing \<Rightarrow> Inr (inInboxID existing, s)
       | None \<Rightarrow>
           if sqlExists (\<lambda>r. inInboxID r = inInboxID record) (inbox s) then
             Inl (invalidInboxConstraintError UniqueFault)
           else if \<not> hasAccount (inAccountID record) s then
             Inl (invalidInboxConstraintError ForeignKeyFault)
           else Inr (inInboxID record, s\<lparr>inbox := inbox s @ [row]\<rparr>))"

definition unprocessed :: "store \<Rightarrow> inbox_record list" where
  "unprocessed s = sort_key (\<lambda>r. (inReceivedAtMS r, inInboxID r))
     (filter (\<lambda>r. inProcessedAtMS r = None) (inbox s))"

definition markProcessedRows ::
  "string \<Rightarrow> string \<Rightarrow> int \<Rightarrow> store \<Rightarrow> sql_fault + (nat \<times> store)" where
  "markProcessedRows inboxID accountID processedAt s =
     (let pending = (\<lambda>r. inInboxID r = inboxID \<and> inAccountID r = accountID
                        \<and> inProcessedAtMS r = None)
      in case updateChecked pending (\<lambda>r. r\<lparr>inProcessedAtMS := Some processedAt\<rparr>) inboxRowOK
                (inbox s) of
           Inl f \<Rightarrow> Inl f | Inr rows \<Rightarrow> Inr (sqlCount pending (inbox s), s\<lparr>inbox := rows\<rparr>))"

definition markInboxProcessed ::
  "gotime \<Rightarrow> string \<Rightarrow> string \<Rightarrow> store \<Rightarrow> store_error + store" where
  "markInboxProcessed t inboxID accountID s =
     thenDo (nowMS t) (\<lambda>n.
       case markProcessedRows inboxID accountID n s of
         Inl f \<Rightarrow> Inl (ErrInvalidInboxRecord # mapConstraintError f)
       | Inr (affected, s') \<Rightarrow> Inr s')"

section \<open>Reading messages\<close>

definition getMessage :: "string \<Rightarrow> store \<Rightarrow> store_error + message" where
  "getMessage messageID s =
     (case sqlFind (\<lambda>m. msMessageID m = messageID) (messages s) of
        None \<Rightarrow> Inl notFound | Some m \<Rightarrow> Inr m)"

definition findByKey :: "string \<times> string \<times> string \<Rightarrow> store \<Rightarrow> message option" where
  "findByKey k s = sqlFind (\<lambda>m. messageKey m = k) (messages s)"

definition getMessageByRemote :: "string \<Rightarrow> string \<Rightarrow> string \<Rightarrow> store \<Rightarrow> store_error + message" where
  "getMessageByRemote accountID conversationID remoteMessageID s =
     (case findByKey (accountID, conversationID, remoteMessageID) s of
        None \<Rightarrow> Inl notFound | Some m \<Rightarrow> Inr m)"

abbreviation timeKey :: "message \<Rightarrow> int \<times> string" where
  "timeKey m \<equiv> (msOccurredAtMS m, msMessageID m)"

definition newestFirst :: "message list \<Rightarrow> message list" where
  "newestFirst ms = rev (sort_key timeKey ms)"

definition oldestFirst :: "message list \<Rightarrow> message list" where
  "oldestFirst ms = sort_key timeKey ms"

definition listMessagesByConversation ::
  "string \<Rightarrow> int \<Rightarrow> string \<Rightarrow> int \<Rightarrow> store \<Rightarrow> message list" where
  "listMessagesByConversation conversationID beforeMS beforeID limit s =
     (if limit \<le> 0 then []
      else
        let inConversation = (\<lambda>m. msConversationID m = conversationID);
            older = (\<lambda>m.
              if beforeMS > 0 then
                (if beforeID \<noteq> '''' then
                   msOccurredAtMS m < beforeMS \<or> msOccurredAtMS m = beforeMS \<and> msMessageID m < beforeID
                 else msOccurredAtMS m < beforeMS)
              else True)
        in take (nat limit)
             (newestFirst (filter (\<lambda>m. inConversation m \<and> older m) (messages s))))"

definition listMessagesByConversationAfter ::
  "string \<Rightarrow> int \<Rightarrow> string \<Rightarrow> int \<Rightarrow> store \<Rightarrow> message list" where
  "listMessagesByConversationAfter conversationID afterMS afterID limit s =
     (if limit \<le> 0 then []
      else
        let newer = (\<lambda>m.
              if afterID \<noteq> '''' then
                msOccurredAtMS m > afterMS \<or> msOccurredAtMS m = afterMS \<and> msMessageID m > afterID
              else msOccurredAtMS m > afterMS)
        in take (nat limit)
             (oldestFirst (filter (\<lambda>m. msConversationID m = conversationID \<and> newer m) (messages s))))"

definition neighbours :: "int \<Rightarrow> int" where
  "neighbours n = (let n0 = (if n < 0 then 0 else n) in if n0 = 0 then 40 else n0)"

definition listMessagesAroundMessage ::
  "string \<Rightarrow> string \<Rightarrow> int \<Rightarrow> int \<Rightarrow> store \<Rightarrow> store_error + message list" where
  "listMessagesAroundMessage conversationID messageID before after s =
     thenDo (getMessage messageID s) (\<lambda>anchor.
       if msConversationID anchor \<noteq> conversationID then Inl notFound
       else
         let inConversation = (\<lambda>m. msConversationID m = conversationID);
             older = take (nat (neighbours before)) (newestFirst
               (filter (\<lambda>m. inConversation m \<and> timeKey m < timeKey anchor) (messages s)));
             newer = take (nat (neighbours after)) (oldestFirst
               (filter (\<lambda>m. inConversation m \<and> timeKey m > timeKey anchor) (messages s)))
         in Inr (rev older @ [anchor] @ newer))"

text \<open>
  SQLite's \<open>LIKE\<close>: \<open>%\<close> matches any text, \<open>_\<close> one character (a byte and the continuation bytes
  that follow it), anything else itself up to the case of ASCII letters.
\<close>

definition asciiLower :: "char \<Rightarrow> char" where
  "asciiLower c = (let n = (of_char c :: nat) in if 65 \<le> n \<and> n \<le> 90 then char_of (n + 32) else c)"

definition continuationByte :: "char \<Rightarrow> bool" where
  "continuationByte c = (let n = (of_char c :: nat) in 128 \<le> n \<and> n < 192)"

fun suffixesOf :: "'a list \<Rightarrow> 'a list list" where
  "suffixesOf [] = [[]]"
| "suffixesOf (x # xs) = (x # xs) # suffixesOf xs"

fun sqlLike :: "string \<Rightarrow> string \<Rightarrow> bool" where
  "sqlLike [] s = (s = [])"
| "sqlLike (p # ps) s =
     (if p = CHR ''%'' then list_ex (sqlLike ps) (suffixesOf s)
      else case s of [] \<Rightarrow> False
        | c # cs \<Rightarrow>
            if p = CHR ''_'' then sqlLike ps (dropWhile continuationByte cs)
            else asciiLower p = asciiLower c \<and> sqlLike ps cs)"

record search_query =
  sqAccountID :: string
  sqConversationID :: string
  sqSenderCanonicalValue :: string
  sqSinceMS :: int
  sqUntilMS :: int
  sqLimit :: int

definition senderHasValue :: "string \<Rightarrow> message \<Rightarrow> store \<Rightarrow> bool" where
  "senderHasValue v m s =
     (case msSenderIdentityID m of None \<Rightarrow> False
      | Some i \<Rightarrow> sqlExists (\<lambda>r. idAccountID r = msAccountID m \<and> idIdentityID r = i
                                \<and> idCanonicalValue r = v) (identities s))"

definition searchMessages :: "string \<Rightarrow> search_query \<Rightarrow> store \<Rightarrow> message list" where
  "searchMessages query f s =
     (let limit = (if sqLimit f \<le> 0 then 20 else sqLimit f);
          swap = (sqSinceMS f > 0 \<and> sqUntilMS f > 0 \<and> sqUntilMS f < sqSinceMS f);
          since = (if swap then sqUntilMS f else sqSinceMS f);
          until = (if swap then sqSinceMS f else sqUntilMS f);
          keep = (\<lambda>m. sqlLike (''%'' @ query @ ''%'') (msBody m) \<and>
            (sqAccountID f \<noteq> '''' \<longrightarrow> msAccountID m = sqAccountID f) \<and>
            (sqConversationID f \<noteq> '''' \<longrightarrow> msConversationID m = sqConversationID f) \<and>
            (sqSenderCanonicalValue f \<noteq> '''' \<longrightarrow> senderHasValue (sqSenderCanonicalValue f) m s) \<and>
            (since > 0 \<longrightarrow> msOccurredAtMS m \<ge> since) \<and>
            (until > 0 \<longrightarrow> msOccurredAtMS m \<le> until))
      in take (nat limit) (newestFirst (filter keep (messages s))))"

definition listMessagesByConversations ::
  "string list \<Rightarrow> int \<Rightarrow> int \<Rightarrow> int \<Rightarrow> store \<Rightarrow> message list" where
  "listMessagesByConversations conversationIDs sinceMS untilMS limit s =
     (if conversationIDs = [] then []
      else if limit \<le> 0 then []
      else
        let swap = (sinceMS > 0 \<and> untilMS > 0 \<and> untilMS < sinceMS);
            since = (if swap then untilMS else sinceMS);
            until = (if swap then sinceMS else untilMS);
            keep = (\<lambda>m. msConversationID m \<in> set conversationIDs \<and>
              (since > 0 \<longrightarrow> msOccurredAtMS m \<ge> since) \<and>
              (until > 0 \<longrightarrow> msOccurredAtMS m \<le> until))
        in oldestFirst (take (nat limit) (newestFirst (filter keep (messages s)))))"

section \<open>Writing messages\<close>

definition sameProjectedMessage :: "message \<Rightarrow> message \<Rightarrow> bool" where
  "sameProjectedMessage existing candidate \<longleftrightarrow>
     msSenderIdentityID existing = msSenderIdentityID candidate \<and>
     msDirection existing = msDirection candidate \<and>
     msBody existing = msBody candidate \<and>
     msReplyToRemoteID existing = msReplyToRemoteID candidate \<and>
     msState existing = msState candidate \<and>
     msOccurredAtMS existing = msOccurredAtMS candidate"

text \<open>What the upsert writes to the row that already has the natural key.\<close>

definition overwriteMessage :: "message \<Rightarrow> int \<Rightarrow> message \<Rightarrow> message" where
  "overwriteMessage m n old = old\<lparr>msSenderIdentityID := msSenderIdentityID m,
     msDirection := msDirection m, msBody := msBody m, msReplyToRemoteID := msReplyToRemoteID m,
     msState := msState m, msOccurredAtMS := msOccurredAtMS m, msUpdatedAtMS := n\<rparr>"

definition upsertMessageRow :: "message \<Rightarrow> int \<Rightarrow> store \<Rightarrow> sql_fault + store" where
  "upsertMessageRow m n s =
     (let new = m\<lparr>msCreatedAtMS := n, msUpdatedAtMS := n\<rparr> in
      if \<not> messageRowOK new then Inl CheckFault
      else case findByKey (messageKey m) s of
        Some old \<Rightarrow>
          if sameProjectedMessage old m then Inr s
          else if \<not> messageRowOK (overwriteMessage m n old) then Inl CheckFault
          else if \<not> messageReferencesOK (overwriteMessage m n old) s then Inl ForeignKeyFault
          else Inr (s\<lparr>messages := sqlUpdate (\<lambda>r. messageKey r = messageKey m)
                      (overwriteMessage m n) (messages s)\<rparr>)
      | None \<Rightarrow> insertMessageRow new s)"

definition upsertMessage :: "message \<Rightarrow> int \<Rightarrow> store \<Rightarrow> store_error + store" where
  "upsertMessage m n s =
     (case upsertMessageRow m n s of
        Inl f \<Rightarrow> Inl (mapMessageWriteError m s f) | Inr s' \<Rightarrow> Inr s')"

section \<open>Inbound attachments\<close>

definition recordInboundAttachment ::
  "gotime \<Rightarrow> message_attachment \<Rightarrow> store \<Rightarrow> store_error + store" where
  "recordInboundAttachment t a s =
     (if blank (maMessageID a) then failWith ''message ID is empty''
      else if maOrdinal a < 0 then failWith ''ordinal is negative''
      else if (case maSizeBytes a of None \<Rightarrow> False | Some n \<Rightarrow> n < 0) then
        failWith ''size is negative''
      else
        let mime = (if blank (maMIME a) then ''application/octet-stream'' else maMIME a) in
        thenDo (nowMS t) (\<lambda>n.
          let new = a\<lparr>maMIME := mime, maDownloaded := False, maBlobHash := None,
                      maLastError := None, maCreatedAtMS := n, maUpdatedAtMS := n\<rparr>;
              same = (\<lambda>r. maMessageID r = maMessageID a \<and> maOrdinal r = maOrdinal a);
              refresh = (\<lambda>r. r\<lparr>maRemoteID := maRemoteID a, maRemoteRef := maRemoteRef a,
                  maFilename := maFilename a, maMIME := mime, maSizeBytes := maSizeBytes a,
                  maUpdatedAtMS := n\<rparr>)
          in
          if \<not> messageAttachmentRowOK new then Inl [ErrSqlite CheckFault]
          else case sqlFind same (messageAttachments s) of
            Some old \<Rightarrow>
              (case updateChecked (\<lambda>r. same r \<and> maBlobHash r = None) refresh messageAttachmentRowOK
                      (messageAttachments s) of
                 Inl f \<Rightarrow> Inl [ErrSqlite f]
               | Inr rows \<Rightarrow> Inr (s\<lparr>messageAttachments := rows\<rparr>))
          | None \<Rightarrow>
              if \<not> hasMessage (maMessageID a) s then Inl [ErrSqlite ForeignKeyFault]
              else Inr (s\<lparr>messageAttachments := messageAttachments s @ [new]\<rparr>)))"

definition getForDownload ::
  "string \<Rightarrow> int \<Rightarrow> store \<Rightarrow> store_error + (message_attachment \<times> string)" where
  "getForDownload messageID ordinal s =
     (case sqlFind (\<lambda>a. maMessageID a = messageID \<and> maOrdinal a = ordinal) (messageAttachments s) of
        None \<Rightarrow> Inl [ErrNoRows]
      | Some a \<Rightarrow>
          (case sqlFind (\<lambda>m. msMessageID m = maMessageID a) (messages s) of
             None \<Rightarrow> Inl [ErrNoRows] | Some m \<Rightarrow> Inr (a, msAccountID m)))"

definition markDownloaded ::
  "gotime \<Rightarrow> string \<Rightarrow> int \<Rightarrow> string \<Rightarrow> int \<Rightarrow> string \<Rightarrow> store \<Rightarrow> store_error + store" where
  "markDownloaded t messageID ordinal hash sizeBytes mime s =
     (if \<not> blobHashOK hash then failWith ''blob hash''
      else if sizeBytes < 0 then failWith ''size is negative''
      else if blank mime then failWith ''MIME type is empty''
      else thenDo (nowMS t) (\<lambda>n.
        case updateChecked
               (\<lambda>a. maMessageID a = messageID \<and> maOrdinal a = ordinal \<and> \<not> maDownloaded a)
               (\<lambda>a. a\<lparr>maDownloaded := True, maBlobHash := Some hash, maSizeBytes := Some sizeBytes,
                      maMIME := mime, maLastError := None, maUpdatedAtMS := n\<rparr>)
               messageAttachmentRowOK (messageAttachments s) of
          Inl f \<Rightarrow> Inl [ErrSqlite f] | Inr rows \<Rightarrow> Inr (s\<lparr>messageAttachments := rows\<rparr>)))"

definition markFailed ::
  "gotime \<Rightarrow> string \<Rightarrow> int \<Rightarrow> string \<Rightarrow> store \<Rightarrow> store_error + store" where
  "markFailed t messageID ordinal errText s =
     thenDo (nowMS t) (\<lambda>n.
       case updateChecked
              (\<lambda>a. maMessageID a = messageID \<and> maOrdinal a = ordinal \<and> \<not> maDownloaded a)
              (\<lambda>a. a\<lparr>maLastError := Some errText, maUpdatedAtMS := n\<rparr>)
              messageAttachmentRowOK (messageAttachments s) of
         Inl f \<Rightarrow> Inl [ErrSqlite f] | Inr rows \<Rightarrow> Inr (s\<lparr>messageAttachments := rows\<rparr>))"

section \<open>Projection and import\<close>

record message_projection =
  pjInboxID :: string
  pjMessage :: message
  pjAttachments :: "message_attachment list"

text \<open>The loop over the attachments; the \<open>i\<close>-th reads the clock after the first \<open>i\<close> readings.\<close>

fun recordAttachments ::
  "(nat \<Rightarrow> gotime) \<Rightarrow> nat \<Rightarrow> string \<Rightarrow> message_attachment list \<Rightarrow> store \<Rightarrow> store_error + store"
where
  "recordAttachments clock i parent [] s = Inr s"
| "recordAttachments clock i parent (a # as) s =
     thenDo (recordInboundAttachment (clock i) (a\<lparr>maMessageID := parent\<rparr>) s)
       (recordAttachments clock (Suc i) parent as)"

definition attachmentParent :: "message_projection \<Rightarrow> store \<Rightarrow> store_error + string" where
  "attachmentParent p s =
     (if pjAttachments p = [] then Inr (msMessageID (pjMessage p))
      else case findByKey (messageKey (pjMessage p)) s of
        None \<Rightarrow> Inl [ErrNoRows] | Some m \<Rightarrow> Inr (msMessageID m))"

definition importMessage ::
  "(nat \<Rightarrow> gotime) \<Rightarrow> message_projection \<Rightarrow> store \<Rightarrow> store_error + store" where
  "importMessage clock p s =
     thenDo (nowMS (clock 0)) (\<lambda>n.
     thenDo (upsertMessage (pjMessage p) n s) (\<lambda>s1.
     thenDo (attachmentParent p s1) (\<lambda>parent.
     recordAttachments clock 1 parent (pjAttachments p) s1)))"

definition projectMessage ::
  "(nat \<Rightarrow> gotime) \<Rightarrow> message_projection \<Rightarrow> store \<Rightarrow> store_error + store" where
  "projectMessage clock p s =
     (let m = pjMessage p in
      case sqlFind (\<lambda>r. inInboxID r = pjInboxID p) (inbox s) of
        None \<Rightarrow> Inl (invalidMessageError [ErrOrphanMessage, ErrOrphanMessageInbox])
      | Some frame \<Rightarrow>
          if inAccountID frame \<noteq> msAccountID m then
            Inl (invalidMessageError [ErrCrossAccountMessage])
          else case inProcessedAtMS frame of
            Some processedAt \<Rightarrow>
              thenDo (upsertMessage m processedAt s) (\<lambda>_.
                case findByKey (messageKey m) s of
                  None \<Rightarrow> Inl [ErrInvalidMessage, ErrInboxProjectionConflict]
                | Some existing \<Rightarrow>
                    if sameProjectedMessage existing m then Inr s
                    else Inl [ErrInvalidMessage, ErrInboxProjectionConflict])
          | None \<Rightarrow>
              thenDo (nowMS (clock 0)) (\<lambda>n.
              thenDo (upsertMessage m n s) (\<lambda>s1.
              thenDo (attachmentParent p s1) (\<lambda>parent.
              thenDo (recordAttachments clock 1 parent (pjAttachments p) s1) (\<lambda>s2.
                case markProcessedRows (pjInboxID p) (msAccountID m) n s2 of
                  Inl f \<Rightarrow> Inl (invalidMessageConstraintError [] f)
                | Inr (affected, s3) \<Rightarrow>
                    if affected \<noteq> 1 then failWith ''affected rows, want 1'' else Inr s3)))))"

end
