(* ===== verification/Messages_Correct.thy ===== *)
theory Messages_Correct
  imports Messages
begin

text \<open>
  The properties of the inbox, of the projection of its frames and of the pages of a
  conversation, over the operations of \<open>Messages\<close>.
\<close>

section \<open>The inbox\<close>

lemma appendInbox_Inr:
  assumes "appendInbox t record s = Inr (i, u)"
  obtains (existing) r where "u = s" and "r \<in> set (inbox s)" and "i = inInboxID r"
      and "inAccountID r = inAccountID record" and "inDedupeKey r = inDedupeKey record"
      and "inDedupeKey record \<noteq> ''''"
  | (inserted) row where "i = inInboxID record" and "u = s\<lparr>inbox := inbox s @ [row]\<rparr>"
      and "row = record\<lparr>inReceivedAtMS := unixMilliOf t, inProcessedAtMS := None\<rparr>"
      and "inDedupeKey record = '''' \<or> \<not> sqlExists (\<lambda>r. inAccountID r = inAccountID record
             \<and> inDedupeKey r = inDedupeKey record \<and> inDedupeKey r \<noteq> '''') (inbox s)"
  using assms
  by (auto simp: appendInbox_def thenDo_Inr nowMS_Inr Let_def sqlFind_None
      dest!: sqlFind_Some split: if_split_asm option.split_asm)

section \<open>Upserts\<close>

lemma insertMessageRow_Inr:
  "insertMessageRow m s = Inr t \<longleftrightarrow> messageRowOK m \<and> \<not> hasMessage (msMessageID m) s \<and>
   \<not> sqlExists (\<lambda>r. messageKey r = messageKey m) (messages s) \<and> messageReferencesOK m s \<and>
   t = s\<lparr>messages := messages s @ [m]\<rparr>"
  by (auto simp: insertMessageRow_def)

text \<open>After an upsert the row with the natural key carries the projected fields.\<close>

lemma upsertMessage_found:
  assumes "upsertMessage m n s = Inr t"
  obtains r where "findByKey (messageKey m) t = Some r" and "sameProjectedMessage r m"
    and "messageRowOK (m\<lparr>msCreatedAtMS := n, msUpdatedAtMS := n\<rparr>)"
proof -
  let ?new = "m\<lparr>msCreatedAtMS := n, msUpdatedAtMS := n\<rparr>"
  have row: "upsertMessageRow m n s = Inr t"
    using assms by (simp add: upsertMessage_def split: sum.split_asm)
  then have ok: "messageRowOK ?new" by (simp add: upsertMessageRow_def Let_def split: if_split_asm)
  show ?thesis
  proof (cases "findByKey (messageKey m) s")
    case None
    with row ok have t: "t = s\<lparr>messages := messages s @ [?new]\<rparr>"
      by (simp add: upsertMessageRow_def Let_def insertMessageRow_Inr)
    from None have "\<not> sqlExists (\<lambda>r. messageKey r = messageKey m) (messages s)"
      by (simp add: findByKey_def sqlFind_None)
    then have "findByKey (messageKey m) t = Some ?new"
      by (simp add: t findByKey_def sqlFind_snoc)
    then show ?thesis using ok by (intro that [of ?new]) (simp_all add: sameProjectedMessage_def)
  next
    case (Some old)
    show ?thesis
    proof (cases "sameProjectedMessage old m")
      case True
      with row ok Some have "t = s" by (simp add: upsertMessageRow_def Let_def)
      with Some True ok show ?thesis by (intro that) simp_all
    next
      case False
      with row ok Some have t: "t = s\<lparr>messages := sqlUpdate (\<lambda>r. messageKey r = messageKey m)
          (overwriteMessage m n) (messages s)\<rparr>"
        by (simp add: upsertMessageRow_def Let_def split: if_split_asm)
      have key: "messageKey (overwriteMessage m n x) = messageKey x" for x
        by (simp add: overwriteMessage_def)
      have "messageKey old = messageKey m" using Some by (auto simp: findByKey_def dest: sqlFind_Some)
      then have "findByKey (messageKey m) t = Some (overwriteMessage m n old)"
        using sqlFind_sqlUpdate [of "\<lambda>r. messageKey r = messageKey m" "messages s" old
            "overwriteMessage m n" "\<lambda>r. messageKey r = messageKey m"] Some key
        by (simp add: t findByKey_def)
      then show ?thesis
        using ok by (intro that [of "overwriteMessage m n old"])
          (simp_all add: sameProjectedMessage_def overwriteMessage_def)
    qed
  qed
qed

lemma upsertMessage_same:
  assumes "findByKey (messageKey m) s = Some r" and "sameProjectedMessage r m"
    and "messageRowOK (m\<lparr>msCreatedAtMS := n, msUpdatedAtMS := n\<rparr>)"
  shows "upsertMessage m n s = Inr s"
  using assms by (simp add: upsertMessage_def upsertMessageRow_def Let_def)

text \<open>What attachments and the processed mark leave alone.\<close>

lemma recordInboundAttachment_frame:
  "recordInboundAttachment t a s = Inr u \<Longrightarrow> messages u = messages s \<and> inbox u = inbox s"
  by (auto simp: recordInboundAttachment_def thenDo_Inr Let_def failWith_def
      split: if_split_asm option.split_asm sum.split_asm)

lemma recordAttachments_frame:
  "recordAttachments clock i parent as s = Inr u \<Longrightarrow> messages u = messages s \<and> inbox u = inbox s"
proof (induction as arbitrary: i s)
  case (Cons a as)
  then obtain x where "recordInboundAttachment (clock i) (a\<lparr>maMessageID := parent\<rparr>) s = Inr x"
    "recordAttachments clock (Suc i) parent as x = Inr u" by (auto simp: thenDo_Inr)
  with Cons.IH [OF this(2)] recordInboundAttachment_frame [OF this(1)] show ?case by simp
qed simp

lemma upsertMessage_frame: "upsertMessage m n s = Inr t \<Longrightarrow> inbox t = inbox s"
  by (auto simp: upsertMessage_def upsertMessageRow_def Let_def insertMessageRow_Inr
      split: sum.split_asm if_split_asm option.split_asm)

lemma markProcessedRows_Inr:
  "markProcessedRows i a n s = Inr (k, t) \<Longrightarrow> t = s\<lparr>inbox := sqlUpdate
     (\<lambda>r. inInboxID r = i \<and> inAccountID r = a \<and> inProcessedAtMS r = None)
     (\<lambda>r. r\<lparr>inProcessedAtMS := Some n\<rparr>) (inbox s)\<rparr>"
  by (auto simp: markProcessedRows_def Let_def updateChecked_Inr split: sum.split_asm)

lemma projected_again:
  assumes "sqlFind (\<lambda>r. inInboxID r = pjInboxID p) (inbox t) = Some frame"
    and "inAccountID frame = msAccountID (pjMessage p)" and "inProcessedAtMS frame = Some n"
    and "findByKey (messageKey (pjMessage p)) t = Some r" and "sameProjectedMessage r (pjMessage p)"
    and "messageRowOK ((pjMessage p)\<lparr>msCreatedAtMS := n, msUpdatedAtMS := n\<rparr>)"
  shows "projectMessage clock p t = Inr t"
  using assms upsertMessage_same [OF assms(4-6)] by (simp add: projectMessage_def Let_def)

section \<open>Pages of a sorted list\<close>

lemma filter_take_drop:
  fixes key :: "'a \<Rightarrow> 'k::linorder"
  assumes "sorted_wrt (\<lambda>x y. key y < key x) xs" and "0 < n" and "n \<le> length xs"
  shows "filter (\<lambda>x. key x < key (xs ! (n - 1))) xs = drop n xs"
  using assms
proof (induction xs arbitrary: n)
  case (Cons x xs)
  show ?case
  proof (cases "n = 1")
    case True
    with Cons.prems show ?thesis by (auto simp: filter_id_conv)
  next
    case False
    with Cons.prems obtain k where k: "n = Suc k" "0 < k" "k \<le> length xs" by (cases n) auto
    then have "xs ! (k - 1) \<in> set xs" by (intro nth_mem) simp
    with Cons.prems(1) have "key (xs ! (k - 1)) < key x" by simp
    with Cons.IH [of k] k Cons.prems(1) show ?thesis by (simp add: nth_Cons' not_less_iff_gr_or_eq)
  qed
qed simp

lemma newestFirst_sorted:
  assumes "distinct (map msMessageID rows)"
  shows "sorted_wrt (\<lambda>x y. timeKey y < timeKey x) (newestFirst rows)"
proof -
  have "distinct (map timeKey rows)"
    using assms by (auto simp: distinct_map inj_on_def)
  then have "distinct (map timeKey (sort_key timeKey rows))"
    by (simp add: distinct_map)
  then have "sorted_wrt (<) (map timeKey (sort_key timeKey rows))"
    by (simp add: strict_sorted_iff)
  then show ?thesis
    by (simp add: newestFirst_def sorted_wrt_rev sorted_wrt_map)
qed

lemma newestFirst_filter: "newestFirst (filter P rows) = filter P (newestFirst rows)"
  by (simp add: newestFirst_def filter_sort [symmetric] rev_filter)

lemma set_newestFirst [simp]: "set (newestFirst rows) = set rows"
  by (simp add: newestFirst_def)

section \<open>Properties\<close>

text \<open>
  C16: the inbox stores a remote event once. After a frame with a dedupe key was accepted, any
  frame of the same account with that key is answered with the inbox ID of the first and
  changes nothing, whatever its own inbox ID, payload and time.
\<close>

theorem append_deduplicates:
  assumes "appendInbox t record s = Inr (i, u)" and "inDedupeKey record \<noteq> ''''"
    and "\<forall>x \<in> set (inbox s). \<forall>y \<in> set (inbox s). inAccountID x = inAccountID y \<and>
           inDedupeKey x = inDedupeKey y \<and> inDedupeKey x \<noteq> '''' \<longrightarrow> x = y"
    and "inAccountID record' = inAccountID record" and "inDedupeKey record' = inDedupeKey record"
    and "appendInbox t' record' u = Inr (j, u')"
  shows "j = i \<and> u' = u"
proof -
  have first: "\<exists>r \<in> set (inbox u). inInboxID r = i \<and> inAccountID r = inAccountID record \<and>
      inDedupeKey r = inDedupeKey record \<and>
      (\<forall>x \<in> set (inbox u). inAccountID x = inAccountID record \<and>
         inDedupeKey x = inDedupeKey record \<longrightarrow> x = r)"
    using assms(1)
  proof (cases rule: appendInbox_Inr)
    case (existing r)
    with assms(3) show ?thesis by (intro bexI [of _ r]) auto
  next
    case (inserted row)
    then show ?thesis
      using assms(2) by (intro bexI [of _ row]) (auto simp: sqlExists_iff)
  qed
  from assms(6) show ?thesis
  proof (cases rule: appendInbox_Inr)
    case (existing r)
    with first assms(4,5) show ?thesis by auto
  next
    case (inserted row)
    with first assms(2,4,5) show ?thesis by (auto simp: sqlExists_iff)
  qed
qed

definition demoFrame :: inbox_record where
  "demoFrame = \<lparr>inInboxID = ''i1'', inAccountID = ''a'', inGeneration = 1, inDedupeKey = ''d'',
     inCodec = ''json'', inCodecVersion = 1, inReceivedAtMS = 0, inPayload = ''{}'',
     inProcessedAtMS = None\<rparr>"

definition demoInbox :: store where
  "demoInbox = emptyStore
     \<lparr>accounts := [\<lparr>acAccountID = ''a'', acBridgeKey = ''b'', acRemoteAccountID = None,
        acDisplayName = '''', acMode = ''live'', acEnabled = True, acConfigJSON = ''{}'',
        acCreatedAtMS = 1, acUpdatedAtMS = 1\<rparr>],
      conversations := [\<lparr>cvConversationID = ''c'', cvAccountID = ''a'',
        cvRemoteConversationID = ''rc'', cvKind = ''direct'', cvTitle = '''', cvRemoteRevision = None,
        cvNotificationMode = ''all'', cvIsFavorite = False, cvArchivedAtMS = None,
        cvLastMessageAtMS = 0, cvMetadataJSON = ''{}'', cvCreatedAtMS = 1, cvUpdatedAtMS = 1\<rparr>]\<rparr>"

definition demoReceived :: store where
  "demoReceived = demoInbox\<lparr>inbox := [demoFrame\<lparr>inReceivedAtMS := 1000\<rparr>]\<rparr>"

definition demoIncoming :: "string \<Rightarrow> int \<Rightarrow> message" where
  "demoIncoming i t = \<lparr>msMessageID = i, msConversationID = ''c'', msAccountID = ''a'',
     msRemoteMessageID = i, msSenderIdentityID = None, msDirection = MessageDirectionIncoming,
     msBody = ''hi'', msReplyToRemoteID = None, msState = MessageStateActive,
     msOccurredAtMS = t, msCreatedAtMS = t, msUpdatedAtMS = t\<rparr>"

lemma demo_time [simp]: "nowMS (timeOfUnixMilli 1000) = Inr 1000" "nowMS (timeOfUnixMilli 2000) = Inr 2000"
  by (simp_all add: nowMS_def)

lemma demo_append: "appendInbox (timeOfUnixMilli 1000) demoFrame demoInbox = Inr (''i1'', demoReceived)"
  "appendInbox (timeOfUnixMilli 2000) (demoFrame\<lparr>inInboxID := ''i2''\<rparr>) demoReceived
     = Inr (''i1'', demoReceived)"
proof -
  have "inboxRowOK (demoFrame\<lparr>inReceivedAtMS := 1000, inProcessedAtMS := None\<rparr>)"
    "inboxRowOK (demoFrame\<lparr>inInboxID := ''i2'', inReceivedAtMS := 2000, inProcessedAtMS := None\<rparr>)"
    by code_simp+
  then show "appendInbox (timeOfUnixMilli 1000) demoFrame demoInbox = Inr (''i1'', demoReceived)"
    "appendInbox (timeOfUnixMilli 2000) (demoFrame\<lparr>inInboxID := ''i2''\<rparr>) demoReceived
     = Inr (''i1'', demoReceived)"
    by (simp_all add: appendInbox_def demoFrame_def demoReceived_def demoInbox_def emptyStore_def
        sqlFind_def sqlExists_def hasAccount_def Let_def)
qed

lemma append_deduplicates_witness:
  "\<exists>j u. appendInbox (timeOfUnixMilli 2000) (demoFrame\<lparr>inInboxID := ''i2''\<rparr>) demoReceived = Inr (j, u) \<and>
     j = ''i1'' \<and> u = demoReceived"
  using append_deduplicates [OF demo_append(1) _ _ _ _ demo_append(2)] demo_append(2)
  by (simp add: demoFrame_def demoInbox_def emptyStore_def)

text \<open>
  C39: a projection may be replayed. Once \<open>ProjectMessage\<close> has succeeded for a frame, the same
  projection again succeeds at any time and leaves the whole store as it is: the message, its
  attachments and the frame's processed mark are written once.
\<close>

theorem projection_replay_is_noop:
  assumes "projectMessage clock p s = Inr t"
  shows "projectMessage clock' p t = Inr t"
proof -
  let ?m = "pjMessage p"
  from assms obtain frame where frame: "sqlFind (\<lambda>r. inInboxID r = pjInboxID p) (inbox s) = Some frame"
    and account: "inAccountID frame = msAccountID ?m"
    by (auto simp: projectMessage_def Let_def split: option.split_asm if_split_asm)
  show ?thesis
  proof (cases "inProcessedAtMS frame")
    case (Some n)
    with assms frame account have "t = s"
      by (auto simp: projectMessage_def Let_def thenDo_Inr split: option.split_asm if_split_asm)
    with assms frame account Some show ?thesis by (simp add: projectMessage_def Let_def)
  next
    case None
    with assms frame account obtain n s1 parent s2 k where
      up: "upsertMessage ?m n s = Inr s1"
      and att: "recordAttachments clock 1 parent (pjAttachments p) s1 = Inr s2"
      and mark: "markProcessedRows (pjInboxID p) (msAccountID ?m) n s2 = Inr (k, t)"
      by (auto simp: projectMessage_def Let_def succeeded split_paired_Ex nowMS_Inr)
    note t = markProcessedRows_Inr [OF mark]
    have same: "messages t = messages s1" "inbox s2 = inbox s"
      using recordAttachments_frame [OF att] upsertMessage_frame [OF up] by (simp_all add: t)
    obtain r where r: "findByKey (messageKey ?m) s1 = Some r" "sameProjectedMessage r ?m"
      "messageRowOK (?m\<lparr>msCreatedAtMS := n, msUpdatedAtMS := n\<rparr>)"
      by (rule upsertMessage_found [OF up])
    have "inInboxID frame = pjInboxID p" using frame by (auto dest: sqlFind_Some)
    then have "sqlFind (\<lambda>r. inInboxID r = pjInboxID p) (inbox t) = Some (frame\<lparr>inProcessedAtMS := Some n\<rparr>)"
      using sqlFind_sqlUpdate [OF frame, of "\<lambda>r. r\<lparr>inProcessedAtMS := Some n\<rparr>"
          "\<lambda>r. inInboxID r = pjInboxID p \<and> inAccountID r = msAccountID ?m \<and> inProcessedAtMS r = None"]
        account None by (simp add: t same(2))
    moreover have "findByKey (messageKey ?m) t = Some r" using r(1) by (simp add: findByKey_def same(1))
    ultimately show ?thesis
      using account r(2,3) projected_again [of p t "frame\<lparr>inProcessedAtMS := Some n\<rparr>" n r] by simp
  qed
qed

definition demoProjection :: message_projection where
  "demoProjection = \<lparr>pjInboxID = ''i1'', pjMessage = demoIncoming ''m1'' 900, pjAttachments = []\<rparr>"

definition demoProjected :: store where
  "demoProjected = demoReceived
     \<lparr>inbox := [demoFrame\<lparr>inReceivedAtMS := 1000, inProcessedAtMS := Some 2000\<rparr>],
      messages := [(demoIncoming ''m1'' 900)\<lparr>msCreatedAtMS := 2000, msUpdatedAtMS := 2000\<rparr>]\<rparr>"

lemma demo_projected:
  "projectMessage (\<lambda>i. timeOfUnixMilli 2000) demoProjection demoReceived = Inr demoProjected"
proof -
  have ok: "messageRowOK ((demoIncoming ''m1'' 900)\<lparr>msCreatedAtMS := 2000, msUpdatedAtMS := 2000\<rparr>)"
    "inboxRowOK (demoFrame\<lparr>inReceivedAtMS := 1000, inProcessedAtMS := Some 2000\<rparr>)"
    by code_simp+
  then show ?thesis
    by (simp add: projectMessage_def demoProjection_def demoReceived_def demoProjected_def demoInbox_def
        emptyStore_def demoFrame_def demoIncoming_def sqlFind_def sqlExists_def Let_def
        upsertMessage_def upsertMessageRow_def findByKey_def insertMessageRow_def hasMessage_def
        hasConversation_def messageReferencesOK_def attachmentParent_def markProcessedRows_def
        updateChecked_def sqlCount_def)
qed

lemma projection_replay_is_noop_witness:
  "projectMessage (\<lambda>i. timeOfUnixMilli 1000) demoProjection demoProjected = Inr demoProjected"
  using projection_replay_is_noop [OF demo_projected] .

text \<open>
  C40: reading a conversation page by page loses and repeats nothing. A page followed by the
  page that starts at the time and ID of its last message is the page of the summed size, from
  the same starting point, whatever the sizes.
\<close>

theorem pages_concatenate:
  assumes "distinct (map msMessageID (messages s))"
    and "page = listMessagesByConversation c beforeMS beforeID limit s" and "0 < limit" and "0 < rest"
    and "page \<noteq> []" and "0 < msOccurredAtMS (last page)" and "msMessageID (last page) \<noteq> ''''"
    and "int (length page) = limit"
  shows "page @ listMessagesByConversation c (msOccurredAtMS (last page)) (msMessageID (last page)) rest s
    = listMessagesByConversation c beforeMS beforeID (limit + rest) s"
proof -
  define P where "P = (\<lambda>m :: message. msConversationID m = c \<and> (if beforeMS > 0 then
                (if beforeID \<noteq> '''' then
                   msOccurredAtMS m < beforeMS \<or> msOccurredAtMS m = beforeMS \<and> msMessageID m < beforeID
                 else msOccurredAtMS m < beforeMS)
              else True))"
  let ?all = "newestFirst (filter P (messages s))"
  let ?n = "nat limit"
  let ?l = "last page"
  have list: "listMessagesByConversation c beforeMS beforeID k s = take (nat k) ?all" if "0 < k" for k
    using that by (simp add: listMessagesByConversation_def P_def)
  have page: "page = take ?n ?all" using assms(2,3) by (simp add: list)
  have n: "0 < ?n" "?n \<le> length ?all" using assms(3,8) by (auto simp: page)
  have l: "?l = ?all ! (?n - 1)"
    using assms(5) n by (simp add: page last_conv_nth min.absorb2)
  have sorted: "sorted_wrt (\<lambda>x y. timeKey y < timeKey x) ?all"
    by (rule newestFirst_sorted) (use assms(1) in \<open>simp add: distinct_map_filter\<close>)
  have "?l \<in> set page" using assms(5) by simp
  then have "?l \<in> set ?all" unfolding page by (rule in_set_takeD)
  then have "P ?l" by simp
  have below: "msConversationID m = c \<and> (msOccurredAtMS m < msOccurredAtMS ?l \<or>
        msOccurredAtMS m = msOccurredAtMS ?l \<and> msMessageID m < msMessageID ?l)
      \<longleftrightarrow> P m \<and> timeKey m < timeKey ?l" for m
    using \<open>P ?l\<close> by (auto simp: P_def split: if_splits)
  have "listMessagesByConversation c (msOccurredAtMS ?l) (msMessageID ?l) rest s
      = take (nat rest) (newestFirst (filter (\<lambda>m. P m \<and> timeKey m < timeKey ?l) (messages s)))"
    using assms(4,6,7) by (simp add: listMessagesByConversation_def below)
  also have "... = take (nat rest) (filter (\<lambda>m. timeKey m < timeKey ?l) ?all)"
    by (simp add: newestFirst_filter conj_commute)
  also have "... = take (nat rest) (drop ?n ?all)"
    unfolding l by (simp only: filter_take_drop [where key = timeKey, OF sorted n])
  finally show ?thesis
    using assms(3,4) by (simp add: list page take_add nat_add_distrib)
qed

definition demoMessages :: store where
  "demoMessages = demoInbox\<lparr>messages := [demoIncoming ''m1'' 1, demoIncoming ''m3'' 2, demoIncoming ''m2'' 2]\<rparr>"

lemma demo_page: "listMessagesByConversation ''c'' 0 '''' 2 demoMessages
    = [demoIncoming ''m3'' 2, demoIncoming ''m2'' 2]"
  by code_simp

lemma pages_concatenate_witness:
  "listMessagesByConversation ''c'' 0 '''' 2 demoMessages @
     listMessagesByConversation ''c'' 2 ''m2'' 2 demoMessages
   = listMessagesByConversation ''c'' 0 '''' 4 demoMessages"
  using pages_concatenate [of demoMessages "[demoIncoming ''m3'' 2, demoIncoming ''m2'' 2]" "''c''" 0 "''''" 2 2]
    demo_page
  by (simp add: demoIncoming_def demoMessages_def)

end
