(* ===== verification/Outbox.thy ===== *)
theory Outbox
  imports Messages
begin

text \<open>
  \<open>internal/storage/sqlite/outbox.go\<close>: durable outbound intents, the leases under which a
  dispatcher claims them, the marker of a transport call and the outcomes that end one.

  Every exported method is one function of the store (and of the clock readings and random
  tokens it consumes); its \<open>UPDATE .. WHERE\<close> is \<open>mutate\<close> with the row predicate and the
  assignments of the statement, and the row constraints of migration 0005 are those of
  \<open>Store\<close>.
\<close>

section \<open>Arguments and results\<close>

record new_outbox_item =
  niOutboxID :: string
  niAccountID :: string
  niConversationID :: string
  niKind :: outbox_kind
  niIdempotencyKey :: string
  niPayloadHash :: string
  niOperation :: string
  niLocalMessageID :: string
  niTransportRequestID :: string
  niSendAgainOfOutboxID :: string
  niScheduledFor :: gotime
  niScheduledForMS :: int

datatype enqueue_disposition = EnqueueInserted | EnqueueExisting

record enqueue_carriers =
  carAttachment :: "outbox_attachment option"
  carReaction :: "outbox_reaction option"
  carReadReceipt :: "outbox_read_receipt option"
  carReadCursor :: "read_cursor option"

definition noCarriers :: enqueue_carriers where
  "noCarriers = \<lparr>carAttachment = None, carReaction = None, carReadReceipt = None,
     carReadCursor = None\<rparr>"

record lease_request =
  lqOwner :: string
  lqNow :: gotime
  lqDuration :: duration
  lqLimit :: int

record confirmation =
  cfOutboxID :: string
  cfLeaseToken :: string
  cfResultRemoteID :: string
  cfTransportResultID :: string

record reconcile_request =
  rqAccountID :: string
  rqTransportRequestID :: string
  rqResultRemoteID :: string

datatype reconcile_outcome =
    ReconcileOutcomeReconciled | ReconcileOutcomeEnriched | ReconcileOutcomeNoop
  | ReconcileOutcomeNotFound

record recovered_leases =
  rlNotDispatched :: nat
  rlUncertain :: nat

section \<open>Validation\<close>

definition nullableOutboxText :: "string \<Rightarrow> string option" where
  "nullableOutboxText v = (if v = '''' then None else Some v)"

definition validateNewOutboxItem :: "new_outbox_item \<Rightarrow> string option" where
  "validateNewOutboxItem item =
     (if blank (niOutboxID item) then Some ''outbox ID is empty''
      else if blank (niAccountID item) then Some ''account ID is empty''
      else if blank (niConversationID item) then Some ''conversation ID is empty''
      else if blank (niIdempotencyKey item) then Some ''idempotency key is empty''
      else if blank (niPayloadHash item) then Some ''payload hash is empty''
      else if blank (niOperation item) then Some ''operation is empty''
      else if blank (niTransportRequestID item) then Some ''transport request ID is empty''
      else if niSendAgainOfOutboxID item \<noteq> '''' \<and> blank (niSendAgainOfOutboxID item) then
        Some ''send again predecessor outbox ID is empty''
      else if \<not> knownKind (niKind item) then Some ''kind is invalid''
      else if niScheduledForMS item < 0 then Some ''scheduled time is negative''
      else if \<not> isZero (niScheduledFor item) \<and> niScheduledForMS item \<noteq> 0 then
        Some ''ScheduledFor and ScheduledForMS are both set''
      else None)"

definition scheduledForMilliseconds :: "new_outbox_item \<Rightarrow> int \<Rightarrow> store_error + int" where
  "scheduledForMilliseconds item n =
     (let s0 = (if isZero (niScheduledFor item) then niScheduledForMS item
                else unixMilliOf (niScheduledFor item));
          s1 = (if s0 = 0 then n else s0)
      in if s1 \<le> 0 then failWith ''scheduled Unix time is not positive'' else Inr s1)"

definition validateOutboxAttachmentPair ::
  "new_outbox_item \<Rightarrow> enqueue_carriers \<Rightarrow> string option" where
  "validateOutboxAttachmentPair item c =
     (let kindFault =
        (case niKind item of
           OutboxKindMedia \<Rightarrow>
             if carAttachment c = None then Some ''media kind requires an attachment''
             else if carReaction c \<noteq> None \<or> carReadReceipt c \<noteq> None \<or> carReadCursor c \<noteq> None then
               Some ''media kind accepts only an attachment carrier''
             else None
         | OutboxKindReaction \<Rightarrow>
             if carReaction c = None then Some ''reaction kind requires a reaction carrier''
             else if carAttachment c \<noteq> None \<or> carReadReceipt c \<noteq> None \<or> carReadCursor c \<noteq> None then
               Some ''reaction kind accepts only a reaction carrier''
             else None
         | OutboxKindRead \<Rightarrow>
             if carReadReceipt c = None then Some ''read kind requires a read-receipt carrier''
             else if carReadCursor c = None then Some ''read kind requires a read cursor''
             else if carAttachment c \<noteq> None \<or> carReaction c \<noteq> None then
               Some ''read kind accepts only a read-receipt carrier''
             else None
         | _ \<Rightarrow>
             if carAttachment c \<noteq> None then Some ''kind does not accept an attachment''
             else if carReaction c \<noteq> None then Some ''kind does not accept a reaction carrier''
             else if carReadReceipt c \<noteq> None \<or> carReadCursor c \<noteq> None then
               Some ''kind does not accept a read-receipt carrier''
             else None)
      in case kindFault of Some e \<Rightarrow> Some e
         | None \<Rightarrow>
             (case carAttachment c of None \<Rightarrow> None
              | Some a \<Rightarrow>
                  if \<not> blobHashOK (oaBlobHash a) then Some ''blob hash''
                  else if oaSizeBytes a \<le> 0 then Some ''outbox attachment size must be positive''
                  else if blank (oaMIME a) then Some ''outbox attachment MIME type is empty''
                  else None))"

section \<open>Enqueue\<close>

text \<open>
  \<open>INSERT INTO outbox .. ON CONFLICT(account_id, idempotency_key) DO NOTHING\<close>, with the number
  of rows it affects.
\<close>

definition insertOutboxRow :: "outbox_item \<Rightarrow> store \<Rightarrow> sql_fault + (nat \<times> store)" where
  "insertOutboxRow r s =
     (if \<not> outboxRowOK r then Inl CheckFault
      else if sqlExists (\<lambda>x. obAccountID x = obAccountID r \<and> obIdempotencyKey x = obIdempotencyKey r)
                (outbox s) then Inr (0, s)
      else if hasOutbox (obOutboxID r) s
           \<or> sqlExists (\<lambda>x. obAccountID x = obAccountID r
                          \<and> obTransportRequestID x = obTransportRequestID r) (outbox s) then
        Inl UniqueFault
      else if \<not> hasAccount (obAccountID r) s
           \<or> \<not> nullOr (\<lambda>p. p = obOutboxID r \<or> hasOutbox p s) (obSendAgainOfOutboxID r) then
        Inl ForeignKeyFault
      else Inr (1, s\<lparr>outbox := outbox s @ [r]\<rparr>))"

definition queuedRow :: "new_outbox_item \<Rightarrow> int \<Rightarrow> int \<Rightarrow> outbox_item" where
  "queuedRow item scheduledForMS n = \<lparr>obOutboxID = niOutboxID item,
     obAccountID = niAccountID item, obConversationID = niConversationID item,
     obKind = niKind item, obIdempotencyKey = niIdempotencyKey item,
     obPayloadHash = niPayloadHash item, obOperation = niOperation item,
     obState = OutboxQueued, obLocalMessageID = nullableOutboxText (niLocalMessageID item),
     obTransportRequestID = niTransportRequestID item,
     obSendAgainOfOutboxID = nullableOutboxText (niSendAgainOfOutboxID item),
     obResultRemoteID = None, obErrorClass = None, obErrorCode = None, obErrorDetail = None,
     obAttemptCount = 0, obLeaseOwner = None, obLeaseToken = None, obLeaseExpiresAtMS = None,
     obTransportCalledAtMS = None, obScheduledForMS = scheduledForMS, obNextAttemptAtMS = None,
     obCreatedAtMS = n, obUpdatedAtMS = n\<rparr>"

definition sameSendAgainLink :: "string option \<Rightarrow> string \<Rightarrow> bool" where
  "sameSendAgainLink stored incoming =
     (case stored of None \<Rightarrow> incoming = '''' | Some p \<Rightarrow> p = incoming)"

definition isRequestBoundOrConfirmedRemoteID :: "string \<Rightarrow> outbox_item \<Rightarrow> bool" where
  "isRequestBoundOrConfirmedRemoteID remoteMessageID item =
     (if remoteMessageID = obTransportRequestID item then True
      else case obResultRemoteID item of None \<Rightarrow> False | Some r \<Rightarrow> remoteMessageID = r)"

definition validateExistingOutgoingPair :: "outbox_item \<Rightarrow> store \<Rightarrow> store_error + unit" where
  "validateExistingOutgoingPair item s =
     (case obLocalMessageID item of None \<Rightarrow> Inl [ErrInvalidMessage]
      | Some i \<Rightarrow>
          (case sqlFind (\<lambda>m. msMessageID m = i) (messages s) of
             None \<Rightarrow> Inl [ErrInvalidMessage]
           | Some m \<Rightarrow>
               if msAccountID m \<noteq> obAccountID item \<or> msConversationID m \<noteq> obConversationID item
                  \<or> msDirection m \<noteq> MessageDirectionOutgoing \<or> msState m \<noteq> MessageStateActive
                  \<or> \<not> isRequestBoundOrConfirmedRemoteID (msRemoteMessageID m) item
               then Inl [ErrInvalidMessage] else Inr ()))"

definition validateExistingCarrier :: "outbox_item \<Rightarrow> store \<Rightarrow> store_error + unit" where
  "validateExistingCarrier item s =
     (case obKind item of
        OutboxKindMedia \<Rightarrow>
          if sqlExists (\<lambda>a. oaOutboxID a = obOutboxID item \<and> oaOrdinal a = 0) (outboxAttachments s)
          then Inr () else failWith ''attachment is missing''
      | OutboxKindReaction \<Rightarrow>
          if sqlExists (\<lambda>r. orOutboxID r = obOutboxID item) (outboxReactions s)
          then Inr () else failWith ''reaction is missing''
      | OutboxKindRead \<Rightarrow>
          if sqlExists (\<lambda>r. rrOutboxID r = obOutboxID item) (outboxReadReceipts s)
          then Inr () else failWith ''receipt is missing''
      | _ \<Rightarrow> Inr ())"

definition insertOutgoingMessage ::
  "new_outbox_item \<Rightarrow> message \<Rightarrow> int \<Rightarrow> store \<Rightarrow> store_error + store" where
  "insertOutgoingMessage item m n s =
     (if msDirection m \<noteq> MessageDirectionOutgoing then Inl [ErrInvalidMessage]
      else if msState m \<noteq> MessageStateActive then Inl [ErrInvalidMessage]
      else if niLocalMessageID item = '''' \<or> msMessageID m \<noteq> niLocalMessageID item then
        Inl [ErrInvalidMessage]
      else if msAccountID m \<noteq> niAccountID item \<or> msConversationID m \<noteq> niConversationID item then
        Inl [ErrInvalidMessage]
      else case insertMessageRow (m\<lparr>msCreatedAtMS := n, msUpdatedAtMS := n\<rparr>) s of
        Inl f \<Rightarrow> Inl (mapMessageWriteError m s f) | Inr s' \<Rightarrow> Inr s')"

definition insertOutboxAttachment ::
  "string \<Rightarrow> outbox_attachment \<Rightarrow> int \<Rightarrow> store \<Rightarrow> store_error + store" where
  "insertOutboxAttachment i a n s =
     (let row = a\<lparr>oaOutboxID := i, oaOrdinal := 0, oaCreatedAtMS := n\<rparr> in
      if \<not> outboxAttachmentRowOK row then Inl (mapConstraintError CheckFault)
      else if sqlExists (\<lambda>x. oaOutboxID x = i \<and> oaOrdinal x = 0) (outboxAttachments s) then
        Inl (mapConstraintError UniqueFault)
      else if \<not> hasOutbox i s then Inl (mapConstraintError ForeignKeyFault)
      else Inr (s\<lparr>outboxAttachments := outboxAttachments s @ [row]\<rparr>))"

definition insertOutboxReaction ::
  "string \<Rightarrow> outbox_reaction \<Rightarrow> int \<Rightarrow> store \<Rightarrow> store_error + store" where
  "insertOutboxReaction i r n s =
     (let row = r\<lparr>orOutboxID := i, orCreatedAtMS := n\<rparr> in
      if \<not> outboxReactionRowOK row then Inl (mapConstraintError CheckFault)
      else if sqlExists (\<lambda>x. orOutboxID x = i) (outboxReactions s) then
        Inl (mapConstraintError UniqueFault)
      else if \<not> hasOutbox i s \<or> \<not> hasMessage (orTargetMessageID r) s then
        Inl (mapConstraintError ForeignKeyFault)
      else Inr (s\<lparr>outboxReactions := outboxReactions s @ [row]\<rparr>))"

definition insertOutboxReadReceipt ::
  "string \<Rightarrow> outbox_read_receipt \<Rightarrow> int \<Rightarrow> store \<Rightarrow> store_error + store" where
  "insertOutboxReadReceipt i r n s =
     (let row = r\<lparr>rrOutboxID := i, rrCreatedAtMS := n\<rparr> in
      if \<not> outboxReadReceiptRowOK row then Inl (mapConstraintError CheckFault)
      else if sqlExists (\<lambda>x. rrOutboxID x = i) (outboxReadReceipts s) then
        Inl (mapConstraintError UniqueFault)
      else if \<not> hasOutbox i s \<or> \<not> hasDevice (rrDeviceID r) s \<or> \<not> hasMessage (rrLastReadMessageID r) s
      then Inl (mapConstraintError ForeignKeyFault)
      else Inr (s\<lparr>outboxReadReceipts := outboxReadReceipts s @ [row]\<rparr>))"

definition whenSome :: "'b option \<Rightarrow> ('b \<Rightarrow> store \<Rightarrow> store_error + store) \<Rightarrow> store \<Rightarrow> store_error + store"
where
  "whenSome v f s = (case v of None \<Rightarrow> Inr s | Some x \<Rightarrow> f x s)"

text \<open>The two halves of \<open>enqueue\<close> after the insert: a new row's companions, an old row's checks.\<close>

definition enqueueInserted ::
  "new_outbox_item \<Rightarrow> message option \<Rightarrow> enqueue_carriers \<Rightarrow> int \<Rightarrow> store \<Rightarrow> store_error + store"
where
  "enqueueInserted item message c n s =
     thenDo (whenSome message (\<lambda>m. insertOutgoingMessage item m n) s) (\<lambda>s1.
     thenDo (whenSome (carAttachment c) (\<lambda>a. insertOutboxAttachment (niOutboxID item) a n) s1) (\<lambda>s2.
     thenDo (whenSome (carReaction c) (\<lambda>r. insertOutboxReaction (niOutboxID item) r n) s2) (\<lambda>s3.
     whenSome (carReadReceipt c) (\<lambda>r x.
       thenDo (insertOutboxReadReceipt (niOutboxID item) r n x)
         (whenSome (carReadCursor c) upsertReadCursor)) s3)))"

definition enqueueExisting ::
  "new_outbox_item \<Rightarrow> message option \<Rightarrow> outbox_item \<Rightarrow> store \<Rightarrow> store_error + unit" where
  "enqueueExisting item message row s =
     (if obOperation row \<noteq> niOperation item \<or> obConversationID row \<noteq> niConversationID item
         \<or> obPayloadHash row \<noteq> niPayloadHash item
         \<or> \<not> sameSendAgainLink (obSendAgainOfOutboxID row) (niSendAgainOfOutboxID item)
      then Inl [ErrIdempotencyConflict]
      else thenDo (if message = None then Inr () else validateExistingOutgoingPair row s) (\<lambda>_.
        validateExistingCarrier row s))"

definition enqueue ::
  "gotime \<Rightarrow> new_outbox_item \<Rightarrow> message option \<Rightarrow> enqueue_carriers \<Rightarrow> store
     \<Rightarrow> store_error + (outbox_item \<times> enqueue_disposition \<times> store)" where
  "enqueue t item message c s =
     (case validateNewOutboxItem item of Some e \<Rightarrow> failWith e
      | None \<Rightarrow>
        (case validateOutboxAttachmentPair item c of Some e \<Rightarrow> failWith e
         | None \<Rightarrow>
           thenDo (nowMS t) (\<lambda>n.
           thenDo (scheduledForMilliseconds item n) (\<lambda>scheduledForMS.
             case insertOutboxRow (queuedRow item scheduledForMS n) s of
               Inl f \<Rightarrow> Inl (mapConstraintError f)
             | Inr (affected, s1) \<Rightarrow>
                 if affected = 1 then
                   (case sqlFind (\<lambda>r. obOutboxID r = niOutboxID item) (outbox s1) of
                      None \<Rightarrow> Inl [ErrNoRows]
                    | Some row \<Rightarrow>
                        thenDo (enqueueInserted item message c n s1) (\<lambda>s2.
                          Inr (row, EnqueueInserted, s2)))
                 else
                   (case sqlFind (\<lambda>r. obAccountID r = niAccountID item
                                   \<and> obIdempotencyKey r = niIdempotencyKey item) (outbox s1) of
                      None \<Rightarrow> Inl [ErrNoRows]
                    | Some row \<Rightarrow>
                        thenDo (enqueueExisting item message row s1) (\<lambda>_.
                          Inr (row, EnqueueExisting, s1)))))))"

definition enqueueIntent where
  "enqueueIntent t item = enqueue t item None noCarriers"

definition enqueueOutgoingMessage where
  "enqueueOutgoingMessage t item m = enqueue t item (Some m) noCarriers"

definition enqueueOutgoingMediaMessage where
  "enqueueOutgoingMediaMessage t item m a =
     enqueue t item (Some m) (noCarriers\<lparr>carAttachment := Some a\<rparr>)"

definition enqueueReaction where
  "enqueueReaction t item r = enqueue t item None (noCarriers\<lparr>carReaction := Some r\<rparr>)"

definition enqueueReadReceipt where
  "enqueueReadReceipt t item r cursor =
     enqueue t item None (noCarriers\<lparr>carReadReceipt := Some r, carReadCursor := Some cursor\<rparr>)"

section \<open>Reads\<close>

definition getOutboxAttachment :: "string \<Rightarrow> store \<Rightarrow> store_error + outbox_attachment" where
  "getOutboxAttachment outboxID s =
     (if blank outboxID then failWith ''outbox ID is empty''
      else case sqlFind (\<lambda>a. oaOutboxID a = outboxID \<and> oaOrdinal a = 0) (outboxAttachments s) of
        None \<Rightarrow> Inl [ErrNoRows] | Some a \<Rightarrow> Inr a)"

definition getOutboxReaction :: "string \<Rightarrow> store \<Rightarrow> store_error + outbox_reaction" where
  "getOutboxReaction outboxID s =
     (if blank outboxID then failWith ''outbox ID is empty''
      else case sqlFind (\<lambda>r. orOutboxID r = outboxID) (outboxReactions s) of
        None \<Rightarrow> Inl [ErrNoRows] | Some r \<Rightarrow> Inr r)"

definition getOutboxReadReceipt :: "string \<Rightarrow> store \<Rightarrow> store_error + outbox_read_receipt" where
  "getOutboxReadReceipt outboxID s =
     (if blank outboxID then failWith ''outbox ID is empty''
      else case sqlFind (\<lambda>r. rrOutboxID r = outboxID) (outboxReadReceipts s) of
        None \<Rightarrow> Inl [ErrNoRows] | Some r \<Rightarrow> Inr r)"

definition findByID :: "string \<Rightarrow> store \<Rightarrow> store_error + outbox_item" where
  "findByID outboxID s =
     (case sqlFind (\<lambda>r. obOutboxID r = outboxID) (outbox s) of
        None \<Rightarrow> Inl notFound | Some r \<Rightarrow> Inr r)"

definition findByTransportRequestID :: "string \<Rightarrow> string \<Rightarrow> store \<Rightarrow> store_error + outbox_item" where
  "findByTransportRequestID accountID requestID s =
     (case sqlFind (\<lambda>r. obAccountID r = accountID \<and> obTransportRequestID r = requestID) (outbox s) of
        None \<Rightarrow> Inl notFound | Some r \<Rightarrow> Inr r)"

definition coalesceDue :: "outbox_item \<Rightarrow> int" where
  "coalesceDue r = (case obNextAttemptAtMS r of None \<Rightarrow> obScheduledForMS r | Some t \<Rightarrow> t)"

definition waitingState :: "outbox_state \<Rightarrow> bool" where
  "waitingState st = (st \<in> {OutboxQueued, OutboxNotDispatched})"

definition earliestDue :: "store \<Rightarrow> gotime option" where
  "earliestDue s =
     (case map coalesceDue (filter (\<lambda>r. waitingState (obState r)) (outbox s)) of
        [] \<Rightarrow> None | d # ds \<Rightarrow> Some (timeOfUnixMilli (foldl min d ds)))"

definition findStoreFailedDue :: "int \<Rightarrow> store \<Rightarrow> store_error + outbox_item list" where
  "findStoreFailedDue limit s =
     (if limit \<le> 0 then failWith ''limit must be positive''
      else Inr (sqlTop (\<lambda>r. (obUpdatedAtMS r, obOutboxID r)) (nat limit)
                  (filter (\<lambda>r. obState r = OutboxStoreFailed) (outbox s))))"

definition latestStateForLocalMessage :: "string \<Rightarrow> string \<Rightarrow> store \<Rightarrow> outbox_state option" where
  "latestStateForLocalMessage accountID localMessageID s =
     (case rev (sort_key (\<lambda>r. (obCreatedAtMS r, obOutboxID r))
              (filter (\<lambda>r. obAccountID r = accountID \<and> obLocalMessageID r = Some localMessageID)
                 (outbox s))) of
        [] \<Rightarrow> None | r # rs \<Rightarrow> Some (obState r))"

record pending_row =
  pnItem :: outbox_item
  pnBody :: "string option"
  pnMediaFile :: "string option"
  pnMediaMIME :: "string option"
  pnEmoji :: "string option"

definition pendingRow :: "store \<Rightarrow> outbox_item \<Rightarrow> pending_row" where
  "pendingRow s r =
     (let m = sqlFind (\<lambda>m. Some (msMessageID m) = obLocalMessageID r) (messages s);
          a = sqlFind (\<lambda>a. oaOutboxID a = obOutboxID r \<and> oaOrdinal a = 0) (outboxAttachments s);
          x = sqlFind (\<lambda>x. orOutboxID x = obOutboxID r) (outboxReactions s)
      in \<lparr>pnItem = r, pnBody = map_option msBody m, pnMediaFile = map_option oaFilename a,
          pnMediaMIME = map_option oaMIME a, pnEmoji = map_option orEmoji x\<rparr>)"

definition listPending :: "string \<Rightarrow> string \<Rightarrow> int \<Rightarrow> store \<Rightarrow> store_error + pending_row list" where
  "listPending accountID conversationID limit s =
     (if limit \<le> 0 then failWith ''limit must be positive''
      else Inr (map (pendingRow s)
        (sqlTop (\<lambda>r. (coalesceDue r, obCreatedAtMS r, obOutboxID r)) (nat limit)
           (filter (\<lambda>r. obState r \<in> {OutboxQueued, OutboxDispatching, OutboxNotDispatched,
                        OutboxUncertain, OutboxStoreFailed}
              \<and> (accountID \<noteq> '''' \<longrightarrow> obAccountID r = accountID)
              \<and> (conversationID \<noteq> '''' \<longrightarrow> obConversationID r = conversationID)) (outbox s)))))"

definition listConfirmedSince :: "int \<Rightarrow> int \<Rightarrow> store \<Rightarrow> store_error + pending_row list" where
  "listConfirmedSince sinceMS limit s =
     (if limit \<le> 0 then failWith ''limit must be positive''
      else Inr (map (pendingRow s)
        (sqlTop (\<lambda>r. (obUpdatedAtMS r, obOutboxID r)) (nat limit)
           (filter (\<lambda>r. obState r = OutboxConfirmed \<and> sinceMS < obUpdatedAtMS r) (outbox s)))))"

record carryable_intent =
  ciItem :: outbox_item
  ciRemoteConversationID :: string
  ciBody :: string
  ciReplyToRemoteID :: "string option"
  ciMessageOccurredAtMS :: int
  ciMessagePresent :: bool
  ciBlobHash :: string
  ciBlobSizeBytes :: int
  ciMIME :: string
  ciFilename :: string

definition orElse :: "'a \<Rightarrow> 'a option \<Rightarrow> 'a" where
  "orElse d v = (case v of None \<Rightarrow> d | Some x \<Rightarrow> x)"

definition conversationOf :: "outbox_item \<Rightarrow> store \<Rightarrow> conversation option" where
  "conversationOf r s = sqlFind (\<lambda>c. cvAccountID c = obAccountID r
     \<and> cvConversationID c = obConversationID r) (conversations s)"

definition carryableIntent :: "store \<Rightarrow> outbox_item \<Rightarrow> carryable_intent" where
  "carryableIntent s r =
     (let m = sqlFind (\<lambda>m. Some (msMessageID m) = obLocalMessageID r
                \<and> msAccountID m = obAccountID r \<and> msConversationID m = obConversationID r)
              (messages s);
          a = sqlFind (\<lambda>a. oaOutboxID a = obOutboxID r \<and> oaOrdinal a = 0) (outboxAttachments s)
      in \<lparr>ciItem = r,
          ciRemoteConversationID = orElse '''' (map_option cvRemoteConversationID (conversationOf r s)),
          ciBody = orElse '''' (map_option msBody m),
          ciReplyToRemoteID = (case m of None \<Rightarrow> None | Some x \<Rightarrow> msReplyToRemoteID x),
          ciMessageOccurredAtMS = orElse 0 (map_option msOccurredAtMS m),
          ciMessagePresent = (m \<noteq> None),
          ciBlobHash = orElse '''' (map_option oaBlobHash a),
          ciBlobSizeBytes = orElse 0 (map_option oaSizeBytes a),
          ciMIME = orElse '''' (map_option oaMIME a),
          ciFilename = orElse '''' (map_option oaFilename a)\<rparr>)"

definition listCarryable :: "store \<Rightarrow> carryable_intent list" where
  "listCarryable s = map (carryableIntent s)
     (sort_key (\<lambda>r. (obCreatedAtMS r, obOutboxID r))
        (filter (\<lambda>r. waitingState (obState r)) (outbox s)))"

record carry_review_intent =
  cwOutboxID :: string
  cwAccountID :: string
  cwConversationID :: string
  cwRemoteConversationID :: string
  cwKind :: outbox_kind
  cwState :: outbox_state
  cwIdempotencyKey :: string

definition listCarryReview :: "store \<Rightarrow> carry_review_intent list" where
  "listCarryReview s = map
     (\<lambda>r. \<lparr>cwOutboxID = obOutboxID r, cwAccountID = obAccountID r,
           cwConversationID = obConversationID r,
           cwRemoteConversationID =
             orElse '''' (map_option cvRemoteConversationID (conversationOf r s)),
           cwKind = obKind r, cwState = obState r, cwIdempotencyKey = obIdempotencyKey r\<rparr>)
     (sort_key (\<lambda>r. (obCreatedAtMS r, obOutboxID r))
        (filter (\<lambda>r. obState r \<in> {OutboxUncertain, OutboxDispatching, OutboxStoreFailed})
           (outbox s)))"

section \<open>Mutations of a row\<close>

definition mutateRows ::
  "(outbox_item \<Rightarrow> bool) \<Rightarrow> (outbox_item \<Rightarrow> outbox_item) \<Rightarrow> store \<Rightarrow> store_error + (nat \<times> store)"
where
  "mutateRows P f s =
     (case updateChecked P f outboxRowOK (outbox s) of
        Inl e \<Rightarrow> Inl [ErrSqlite e]
      | Inr rows \<Rightarrow> Inr (sqlCount P (outbox s), s\<lparr>outbox := rows\<rparr>))"

definition requireLeaseMutation :: "nat \<Rightarrow> string \<Rightarrow> store \<Rightarrow> store_error + unit" where
  "requireLeaseMutation affected outboxID s =
     (if affected = 1 then Inr ()
      else if affected \<noteq> 0 then failWith ''affected rows, want 1''
      else if \<not> hasOutbox outboxID s then Inl notFound else Inl [ErrLeaseLost])"

definition requireStateMutation :: "nat \<Rightarrow> string \<Rightarrow> store \<Rightarrow> store_error + unit" where
  "requireStateMutation affected outboxID s =
     (if affected = 1 then Inr ()
      else if affected \<noteq> 0 then failWith ''affected rows, want 1''
      else if \<not> hasOutbox outboxID s then Inl notFound else Inl [ErrInvalidOutboxState])"

text \<open>One \<open>UPDATE\<close> that must hit exactly the leased row.\<close>

definition mutateLeased ::
  "string \<Rightarrow> (outbox_item \<Rightarrow> bool) \<Rightarrow> (outbox_item \<Rightarrow> outbox_item) \<Rightarrow> store \<Rightarrow> store_error + store"
where
  "mutateLeased outboxID P f s =
     thenDo (mutateRows (\<lambda>r. obOutboxID r = outboxID \<and> P r) f s) (\<lambda>(affected, s1).
       thenDo (requireLeaseMutation affected outboxID s1) (\<lambda>_. Inr s1))"

definition mutateState ::
  "string \<Rightarrow> (outbox_item \<Rightarrow> bool) \<Rightarrow> (outbox_item \<Rightarrow> outbox_item) \<Rightarrow> store \<Rightarrow> store_error + store"
where
  "mutateState outboxID P f s =
     thenDo (mutateRows (\<lambda>r. obOutboxID r = outboxID \<and> P r) f s) (\<lambda>(affected, s1).
       thenDo (requireStateMutation affected outboxID s1) (\<lambda>_. Inr s1))"

definition holdsLease :: "string \<Rightarrow> outbox_item \<Rightarrow> bool" where
  "holdsLease leaseToken r \<longleftrightarrow> obState r = OutboxDispatching \<and> obLeaseToken r = Some leaseToken"

abbreviation called :: "outbox_item \<Rightarrow> bool" where
  "called r \<equiv> obTransportCalledAtMS r \<noteq> None"

definition clearLease :: "outbox_item \<Rightarrow> outbox_item" where
  "clearLease r = r\<lparr>obLeaseOwner := None, obLeaseToken := None, obLeaseExpiresAtMS := None,
     obTransportCalledAtMS := None\<rparr>"

definition setOutboxError :: "string option \<Rightarrow> string option \<Rightarrow> string option \<Rightarrow> outbox_item \<Rightarrow> outbox_item"
where
  "setOutboxError c d e r = r\<lparr>obErrorClass := c, obErrorCode := d, obErrorDetail := e\<rparr>"

section \<open>Leases\<close>

definition leaseable :: "int \<Rightarrow> outbox_item \<Rightarrow> bool" where
  "leaseable n r \<longleftrightarrow> obScheduledForMS r \<le> n \<and> waitingState (obState r) \<and>
     nullOr (\<lambda>t. t \<le> n) (obNextAttemptAtMS r) \<and> nullOr (\<lambda>t. t \<le> n) (obLeaseExpiresAtMS r)"

definition leaseRow :: "string \<Rightarrow> string \<Rightarrow> int \<Rightarrow> int \<Rightarrow> outbox_item \<Rightarrow> outbox_item" where
  "leaseRow owner token expiresAt n r =
     (setOutboxError None None None r)\<lparr>obState := OutboxDispatching, obLeaseOwner := Some owner,
        obLeaseToken := Some token, obLeaseExpiresAtMS := Some expiresAt,
        obTransportCalledAtMS := None, obNextAttemptAtMS := None, obUpdatedAtMS := n\<rparr>"

text \<open>
  The loop over the candidates. \<open>tokens\<close> is what \<open>newOutboxLeaseToken\<close> returns next; a list
  that runs out is a random source that fails.
\<close>

fun leaseEach ::
  "string \<Rightarrow> int \<Rightarrow> int \<Rightarrow> string list \<Rightarrow> string list \<Rightarrow> store
     \<Rightarrow> store_error + (outbox_item list \<times> store)" where
  "leaseEach owner expiresAt n [] tokens s = Inr ([], s)"
| "leaseEach owner expiresAt n (i # ids) [] s = failWith ''generate token''"
| "leaseEach owner expiresAt n (i # ids) (token # tokens) s =
     thenDo (mutateRows (\<lambda>r. obOutboxID r = i \<and> leaseable n r) (leaseRow owner token expiresAt n) s)
       (\<lambda>(affected, s1).
        if affected \<noteq> 1 then failWith ''affected rows, want 1''
        else case sqlFind (\<lambda>r. obOutboxID r = i) (outbox s1) of
          None \<Rightarrow> Inl [ErrNoRows]
        | Some item \<Rightarrow>
            thenDo (leaseEach owner expiresAt n ids tokens s1) (\<lambda>(items, s2). Inr (item # items, s2)))"

definition leaseDue ::
  "lease_request \<Rightarrow> string list \<Rightarrow> store \<Rightarrow> store_error + (outbox_item list \<times> store)" where
  "leaseDue req tokens s =
     (if blank (lqOwner req) then failWith ''owner is empty''
      else if lqLimit req \<le> 0 then failWith ''limit must be positive''
      else if lqDuration req \<le> 0 then failWith ''duration must be positive''
      else
        let n = unixMilliOf (lqNow req);
            expiresAt = unixMilliOf (lqNow req + lqDuration req)
        in if n \<le> 0 then failWith ''current Unix time is not positive''
           else if expiresAt \<le> n then failWith ''lease expiry must be after now''
           else
             let ids = map obOutboxID
               (sqlTop (\<lambda>r. (coalesceDue r, obCreatedAtMS r, obOutboxID r)) (nat (lqLimit req))
                  (filter (leaseable n) (outbox s)))
             in leaseEach (lqOwner req) expiresAt n ids tokens s)"

definition markTransportCalled ::
  "gotime \<Rightarrow> string \<Rightarrow> string \<Rightarrow> store \<Rightarrow> store_error + store" where
  "markTransportCalled t outboxID leaseToken s =
     (if blank outboxID then failWith ''outbox ID is empty''
      else if blank leaseToken then failWith ''lease token is empty''
      else thenDo (nowMS t) (\<lambda>n.
        mutateLeased outboxID
          (\<lambda>r. holdsLease leaseToken r \<and> (case obLeaseExpiresAtMS r of None \<Rightarrow> False | Some e \<Rightarrow> n < e)
               \<and> \<not> called r)
          (\<lambda>r. r\<lparr>obTransportCalledAtMS := Some n, obAttemptCount := obAttemptCount r + 1,
                 obUpdatedAtMS := n\<rparr>) s))"

definition markNotDispatchedAs ::
  "bool \<Rightarrow> gotime \<Rightarrow> string \<Rightarrow> string \<Rightarrow> string \<Rightarrow> string \<Rightarrow> string \<Rightarrow> gotime \<Rightarrow> store \<Rightarrow> store_error + store"
where
  "markNotDispatchedAs wasCalled t outboxID leaseToken c d e retryAt s =
     (if unixMilliOf retryAt \<le> 0 then failWith ''retry time is not positive''
      else thenDo (nowMS t) (\<lambda>n.
        mutateLeased outboxID (\<lambda>r. holdsLease leaseToken r \<and> called r = wasCalled)
          (\<lambda>r. clearLease (setOutboxError (nullableOutboxText c) (nullableOutboxText d)
                 (nullableOutboxText e) r)
               \<lparr>obState := OutboxNotDispatched, obNextAttemptAtMS := Some (unixMilliOf retryAt),
                obUpdatedAtMS := n\<rparr>) s))"

definition markNotDispatched where
  "markNotDispatched = markNotDispatchedAs False"

definition markCalledNotDispatched where
  "markCalledNotDispatched = markNotDispatchedAs True"

definition releaseUnavailable :: "gotime \<Rightarrow> string \<Rightarrow> string \<Rightarrow> store \<Rightarrow> store_error + store" where
  "releaseUnavailable t outboxID leaseToken s =
     thenDo (nowMS t) (\<lambda>n.
       mutateLeased outboxID (\<lambda>r. holdsLease leaseToken r \<and> \<not> called r)
         (\<lambda>r. (clearLease r)\<lparr>obState := OutboxQueued, obNextAttemptAtMS := None,
                obUpdatedAtMS := n\<rparr>) s)"

definition retryNotDispatched :: "gotime \<Rightarrow> string \<Rightarrow> store \<Rightarrow> store_error + store" where
  "retryNotDispatched t outboxID s =
     thenDo (nowMS t) (\<lambda>n.
       mutateState outboxID (\<lambda>r. obState r = OutboxNotDispatched)
         (\<lambda>r. r\<lparr>obNextAttemptAtMS := Some n, obUpdatedAtMS := n\<rparr>) s)"

definition cancelOutbox :: "gotime \<Rightarrow> string \<Rightarrow> store \<Rightarrow> store_error + store" where
  "cancelOutbox t outboxID s =
     thenDo (nowMS t) (\<lambda>n.
       mutateState outboxID (\<lambda>r. waitingState (obState r))
         (\<lambda>r. r\<lparr>obState := OutboxCanceled, obNextAttemptAtMS := None, obUpdatedAtMS := n\<rparr>) s)"

text \<open>The outcomes that end a lease: a state, the error columns and the result.\<close>

definition finishRow :: "outbox_state \<Rightarrow> int \<Rightarrow> outbox_item \<Rightarrow> outbox_item" where
  "finishRow st n r =
     (clearLease r)\<lparr>obState := st, obNextAttemptAtMS := None, obUpdatedAtMS := n\<rparr>"

definition markUncertain ::
  "gotime \<Rightarrow> string \<Rightarrow> string \<Rightarrow> string \<Rightarrow> string \<Rightarrow> string \<Rightarrow> store \<Rightarrow> store_error + store" where
  "markUncertain t outboxID leaseToken c d e s =
     thenDo (nowMS t) (\<lambda>n.
       mutateLeased outboxID (\<lambda>r. holdsLease leaseToken r \<and> called r)
         (\<lambda>r. finishRow OutboxUncertain n (setOutboxError (nullableOutboxText c)
                (nullableOutboxText d) (nullableOutboxText e) r)) s)"

definition rejectOutbox ::
  "gotime \<Rightarrow> string \<Rightarrow> string \<Rightarrow> string \<Rightarrow> string \<Rightarrow> string \<Rightarrow> store \<Rightarrow> store_error + store" where
  "rejectOutbox t outboxID leaseToken c d e s =
     thenDo (nowMS t) (\<lambda>n.
       mutateLeased outboxID (holdsLease leaseToken)
         (\<lambda>r. finishRow OutboxRejected n (setOutboxError (nullableOutboxText c)
                (nullableOutboxText d) (nullableOutboxText e) r)) s)"

definition confirmWithoutResult :: "gotime \<Rightarrow> string \<Rightarrow> string \<Rightarrow> store \<Rightarrow> store_error + store" where
  "confirmWithoutResult t outboxID leaseToken s =
     thenDo (nowMS t) (\<lambda>n.
       mutateLeased outboxID (\<lambda>r. holdsLease leaseToken r \<and> called r)
         (\<lambda>r. finishRow OutboxConfirmed n (setOutboxError None None None r)) s)"

definition markStoreFailed ::
  "gotime \<Rightarrow> string \<Rightarrow> string \<Rightarrow> string \<Rightarrow> string \<Rightarrow> store \<Rightarrow> store_error + store" where
  "markStoreFailed t outboxID leaseToken transportResultID detail s =
     (if blank transportResultID then failWith ''transport result ID is empty''
      else thenDo (nowMS t) (\<lambda>n.
        mutateLeased outboxID (\<lambda>r. holdsLease leaseToken r \<and> called r)
          (\<lambda>r. (finishRow OutboxStoreFailed n r)\<lparr>obResultRemoteID := Some transportResultID,
                 obErrorDetail := nullableOutboxText detail\<rparr>) s))"

section \<open>Confirmation and reconciliation\<close>

definition repointLocalMessage ::
  "gotime \<Rightarrow> string \<Rightarrow> string \<Rightarrow> string \<Rightarrow> string \<Rightarrow> string \<Rightarrow> store \<Rightarrow> store_error + store" where
  "repointLocalMessage t accountID conversationID localMessageID transportRequestID realID s =
     (if realID = transportRequestID then Inr s
      else thenDo (nowMS t) (\<lambda>n.
        let collision = findByKey (accountID, conversationID, realID) s in
        thenDo
          (case collision of None \<Rightarrow> Inr s
           | Some m \<Rightarrow>
               if msMessageID m = localMessageID then Inr s
               else case deleteMessageRow (msMessageID m) s of
                 Inl f \<Rightarrow> Inl (mapConstraintError f) | Inr s1 \<Rightarrow> Inr s1)
          (\<lambda>s1.
             let target = (\<lambda>m. msMessageID m = localMessageID);
                 repoint = (\<lambda>m. m\<lparr>msRemoteMessageID := realID, msUpdatedAtMS := n\<rparr>)
             in case updateChecked target repoint messageRowOK (messages s1) of
                  Inl f \<Rightarrow> Inl (mapConstraintError f)
                | Inr rows \<Rightarrow>
                    if distinct (map messageKey rows) then Inr (s1\<lparr>messages := rows\<rparr>)
                    else Inl (mapConstraintError UniqueFault))))"

definition confirm :: "gotime \<Rightarrow> gotime \<Rightarrow> confirmation \<Rightarrow> store \<Rightarrow> store_error + store" where
  "confirm t t' c s =
     (let result = (if cfResultRemoteID c = '''' then cfTransportResultID c else cfResultRemoteID c) in
      if blank result then failWith ''remote result ID is empty''
      else thenDo (nowMS t) (\<lambda>n.
        thenDo (mutateLeased (cfOutboxID c) (\<lambda>r. holdsLease (cfLeaseToken c) r \<and> called r)
          (\<lambda>r. (finishRow OutboxConfirmed n (setOutboxError None None None r))
                 \<lparr>obResultRemoteID := Some result\<rparr>) s) (\<lambda>s1.
        case sqlFind (\<lambda>r. obOutboxID r = cfOutboxID c) (outbox s1) of
          None \<Rightarrow> Inl [ErrNoRows]
        | Some row \<Rightarrow>
            (case obLocalMessageID row of None \<Rightarrow> Inr s1
             | Some localID \<Rightarrow> repointLocalMessage t' (obAccountID row) (obConversationID row)
                 localID (obTransportRequestID row) result s1))))"

text \<open>Whether the optimistic message still carries the request ID it was born with.\<close>

definition awaitsRemoteID :: "outbox_item \<Rightarrow> reconcile_request \<Rightarrow> store \<Rightarrow> bool" where
  "awaitsRemoteID row req s =
     (case obLocalMessageID row of None \<Rightarrow> False
      | Some i \<Rightarrow>
          (case sqlFind (\<lambda>m. msMessageID m = i) (messages s) of None \<Rightarrow> False
           | Some m \<Rightarrow> msRemoteMessageID m = rqTransportRequestID req
               \<and> rqResultRemoteID req \<noteq> rqTransportRequestID req))"

definition reconcileRepoint ::
  "gotime \<Rightarrow> outbox_item \<Rightarrow> reconcile_request \<Rightarrow> store \<Rightarrow> store_error + store" where
  "reconcileRepoint t' row req s =
     repointLocalMessage t' (rqAccountID req) (obConversationID row)
       (orElse '''' (obLocalMessageID row)) (rqTransportRequestID req) (rqResultRemoteID req) s"

definition reconcileConfirm ::
  "gotime \<Rightarrow> gotime \<Rightarrow> reconcile_request \<Rightarrow> store \<Rightarrow> store_error + (reconcile_outcome \<times> store)"
where
  "reconcileConfirm t t' req s =
     (if blank (rqAccountID req) then failWith ''account ID is empty''
      else if blank (rqTransportRequestID req) then failWith ''transport request ID is empty''
      else if blank (rqResultRemoteID req) then failWith ''remote result ID is empty''
      else
        case sqlFind (\<lambda>r. obAccountID r = rqAccountID req
                        \<and> obTransportRequestID r = rqTransportRequestID req) (outbox s) of
          None \<Rightarrow> Inr (ReconcileOutcomeNotFound, s)
        | Some row \<Rightarrow>
          (if obState row \<in> {OutboxUncertain, OutboxStoreFailed} then
             thenDo (nowMS t) (\<lambda>n.
             thenDo (mutateRows (\<lambda>r. obOutboxID r = obOutboxID row
                          \<and> obState r \<in> {OutboxUncertain, OutboxStoreFailed})
                  (\<lambda>r. (setOutboxError None None None r)\<lparr>obState := OutboxConfirmed,
                       obResultRemoteID := Some (rqResultRemoteID req), obNextAttemptAtMS := None,
                       obUpdatedAtMS := n\<rparr>) s) (\<lambda>(affected, s1).
             if affected \<noteq> 1 then failWith ''confirm affected rows, want 1''
             else thenDo (if awaitsRemoteID row req s then reconcileRepoint t' row req s1 else Inr s1)
               (\<lambda>s2. Inr (ReconcileOutcomeReconciled, s2))))
           else if obState row = OutboxConfirmed then
             (if obResultRemoteID row = Some (rqResultRemoteID req) then Inr (ReconcileOutcomeNoop, s)
              else if \<not> awaitsRemoteID row req s then Inr (ReconcileOutcomeNoop, s)
              else
                thenDo (nowMS t) (\<lambda>n.
                thenDo (mutateRows (\<lambda>r. obOutboxID r = obOutboxID row \<and> obState r = OutboxConfirmed
                            \<and> obResultRemoteID r = Some (obTransportRequestID r))
                     (\<lambda>r. (setOutboxError None None None r)
                          \<lparr>obResultRemoteID := Some (rqResultRemoteID req), obUpdatedAtMS := n\<rparr>) s)
                  (\<lambda>(affected, s1).
                if affected = 0 then Inr (ReconcileOutcomeNoop, s)
                else if affected \<noteq> 1 then failWith ''enrich affected rows, want 1''
                else thenDo (reconcileRepoint t' row req s1)
                  (\<lambda>s2. Inr (ReconcileOutcomeEnriched, s2)))))
           else Inr (ReconcileOutcomeNoop, s)))"

section \<open>Recovery\<close>

definition expired :: "int \<Rightarrow> outbox_item \<Rightarrow> bool" where
  "expired n r \<longleftrightarrow> obState r = OutboxDispatching \<and>
     (case obLeaseExpiresAtMS r of None \<Rightarrow> False | Some e \<Rightarrow> e \<le> n)"

definition recoverExpiredLeases ::
  "gotime \<Rightarrow> store \<Rightarrow> store_error + (recovered_leases \<times> store)" where
  "recoverExpiredLeases t s =
     (let n = unixMilliOf t in
      if n \<le> 0 then failWith ''current Unix time is not positive''
      else
        thenDo (mutateRows (\<lambda>r. expired n r \<and> \<not> called r)
          (\<lambda>r. (clearLease r)\<lparr>obState := OutboxNotDispatched, obNextAttemptAtMS := Some n,
                 obUpdatedAtMS := n\<rparr>) s) (\<lambda>(preCall, s1).
        thenDo (mutateRows (\<lambda>r. expired n r \<and> called r) (finishRow OutboxUncertain n) s1)
          (\<lambda>(postCall, s2). Inr (\<lparr>rlNotDispatched = preCall, rlUncertain = postCall\<rparr>, s2))))"


end
