(* ===== verification/Repositories.thy ===== *)
theory Repositories
  imports Store
begin

text \<open>
  The reads of \<open>internal/storage/sqlite/repositories.go\<close> that the message service makes: rows
  of the identity graph by primary key, by natural key and as ordered lists. A missing row is
  \<open>ErrNotFound\<close>.
\<close>

section \<open>Rows by primary key\<close>

definition getAccount :: "string \<Rightarrow> store \<Rightarrow> store_error + account" where
  "getAccount accountID s =
     (case sqlFind (\<lambda>r. acAccountID r = accountID) (accounts s) of
        None \<Rightarrow> Inl notFound | Some r \<Rightarrow> Inr r)"

definition getDevice :: "string \<Rightarrow> store \<Rightarrow> store_error + device" where
  "getDevice deviceID s =
     (case sqlFind (\<lambda>r. dvDeviceID r = deviceID) (devices s) of
        None \<Rightarrow> Inl notFound | Some r \<Rightarrow> Inr r)"

definition getIdentity :: "string \<Rightarrow> store \<Rightarrow> store_error + identity" where
  "getIdentity identityID s =
     (case sqlFind (\<lambda>r. idIdentityID r = identityID) (identities s) of
        None \<Rightarrow> Inl notFound | Some r \<Rightarrow> Inr r)"

definition getConversation :: "string \<Rightarrow> store \<Rightarrow> store_error + conversation" where
  "getConversation conversationID s =
     (case sqlFind (\<lambda>r. cvConversationID r = conversationID) (conversations s) of
        None \<Rightarrow> Inl notFound | Some r \<Rightarrow> Inr r)"

section \<open>Rows by natural key\<close>

definition getIdentityByCanonical ::
  "string \<Rightarrow> string \<Rightarrow> string \<Rightarrow> store \<Rightarrow> store_error + identity" where
  "getIdentityByCanonical accountID kind canonicalValue s =
     (case sqlFind (\<lambda>r. idAccountID r = accountID \<and> idKind r = kind
                     \<and> idCanonicalValue r = canonicalValue) (identities s) of
        None \<Rightarrow> Inl notFound | Some r \<Rightarrow> Inr r)"

definition getConversationByRemote ::
  "string \<Rightarrow> string \<Rightarrow> store \<Rightarrow> store_error + conversation" where
  "getConversationByRemote accountID remoteConversationID s =
     (case sqlFind (\<lambda>r. cvAccountID r = accountID
                     \<and> cvRemoteConversationID r = remoteConversationID) (conversations s) of
        None \<Rightarrow> Inl notFound | Some r \<Rightarrow> Inr r)"

section \<open>Lists\<close>

definition listAccounts :: "store \<Rightarrow> account list" where
  "listAccounts s = sort_key acAccountID (accounts s)"

definition listDevices :: "string \<Rightarrow> store \<Rightarrow> device list" where
  "listDevices accountID s =
     sort_key dvDeviceID (filter (\<lambda>r. dvAccountID r = accountID) (devices s))"

definition listIdentities :: "string \<Rightarrow> store \<Rightarrow> identity list" where
  "listIdentities accountID s =
     sort_key idIdentityID (filter (\<lambda>r. idAccountID r = accountID) (identities s))"

text \<open>Newest first, the smaller conversation ID first among equals.\<close>

abbreviation recencyKey :: "conversation \<Rightarrow> int \<times> string" where
  "recencyKey c \<equiv> (- cvLastMessageAtMS c, cvConversationID c)"

definition listConversationsByRecency :: "string \<Rightarrow> store \<Rightarrow> conversation list" where
  "listConversationsByRecency accountID s =
     sort_key recencyKey (filter (\<lambda>r. cvAccountID r = accountID) (conversations s))"

definition listConversationsByRecencyAllAccounts :: "int \<Rightarrow> store \<Rightarrow> conversation list" where
  "listConversationsByRecencyAllAccounts limit s =
     (if limit \<le> 0 then []
      else
        let all = concat (map (\<lambda>a. listConversationsByRecency (acAccountID a) s) (listAccounts s));
            sorted = sort_key recencyKey all
        in if int (length sorted) > limit then take (nat limit) sorted else sorted)"

section \<open>Facts\<close>

lemma getConversation_Inr:
  "getConversation i s = Inr c \<Longrightarrow> c \<in> set (conversations s) \<and> cvConversationID c = i"
  by (auto simp: getConversation_def dest: sqlFind_Some split: option.splits)

lemma getDevice_Inr: "getDevice i s = Inr d \<Longrightarrow> d \<in> set (devices s) \<and> dvDeviceID d = i"
  by (auto simp: getDevice_def dest: sqlFind_Some split: option.splits)

lemma getIdentity_Inr: "getIdentity i s = Inr d \<Longrightarrow> d \<in> set (identities s) \<and> idIdentityID d = i"
  by (auto simp: getIdentity_def dest: sqlFind_Some split: option.splits)

end
