(* ===== verification/Dispatch.thy ===== *)
theory Dispatch
  imports Outbox Registry Repositories
begin

text \<open>
  \<open>internal/messaging/dispatch.go\<close>: the dispatcher of the message service. It claims due
  intents, acquires the account's bridge, loads what the request needs, marks the intent as
  called, calls the transport once and records the outcome in the outbox.

  \<^item> What a dispatch meets is a \<open>world\<close>: the bridge registry, the clock, the state of its
    context, the failures of the database driver, the blob store and the transports. Readings
    are indexed by the \<open>site\<close> that takes them, so that nothing is assumed to stay the same
    between two of them. A transport is the interface of \<open>contracts.go\<close>: any function.
  \<^item> A failed store call (a refusal of the repository or a fault of the driver) leaves the
    store as it was.
  \<^item> A function that returns Go's \<open>error\<close> returns a list: empty for nil, several for
    \<open>errors.Join\<close>.
  \<^item> The service state records the calls of transports and counts the change broadcasts.
\<close>

section \<open>Requests and results of a transport\<close>

record send_result =
  snRemoteMessageID :: string
  snAcceptedAt :: gotime
  snEchoExpected :: bool

record text_request =
  txAccountID :: string
  txConversation :: string
  txBody :: string
  txReplyTo :: "message_ref option"
  txRequestID :: string

record media_request =
  mdAccountID :: string
  mdConversation :: string
  mdContent :: string
  mdSize :: int
  mdFilename :: string
  mdMIME :: string
  mdCaption :: string
  mdReplyTo :: "message_ref option"
  mdRequestID :: string

record reaction_request =
  rxAccountID :: string
  rxConversation :: string
  rxTarget :: message_ref
  rxEmoji :: string
  rxAction :: string
  rxRequestID :: string

record read_request =
  rdAccountID :: string
  rdConversation :: string
  rdMessages :: "message_ref list"
  rdReadAt :: gotime

datatype transport_request =
    SendTextRequest text_request
  | SendMediaRequest media_request
  | SendReactionRequest reaction_request
  | MarkReadRequest read_request

section \<open>The service and what it meets\<close>

datatype site =
    SiteLease | SiteLoop | SiteRecover | SiteAcquire | SiteReleased
  | SiteLoadMessage | SiteLoadConversation | SiteLoadCarrier | SiteLoadTarget | SiteLoadAuthor
  | SiteRetry | SiteMark | SiteRelease | SiteNotDispatched | SiteReject | SiteUncertain
  | SiteConfirm | SiteRepoint | SiteStoreFailed | SiteUntouched nat
  | SiteFindStoreFailed | SiteReconcile

datatype blob_open = BlobOpened string | BlobMissing | BlobUnreadable

record world =
  wBridges :: registry
  wClock :: "site \<Rightarrow> gotime"
  wCtx :: "site \<Rightarrow> go_error option"
  wFault :: "site \<Rightarrow> bool"
  wDetail :: "site \<Rightarrow> string"
  wBlob :: "string \<Rightarrow> blob_open"
  wTransport :: "handle \<Rightarrow> transport_request \<Rightarrow> send_result \<times> go_error option"

record transport_call =
  clOutboxID :: string
  clHandle :: handle
  clRequest :: transport_request
  clResult :: send_result
  clError :: "go_error option"

record service =
  svStore :: store
  svCalls :: "transport_call list"
  svChanges :: nat
  svWake :: bool
  svLeaseTime :: duration
  svRetryDelay :: duration
  svPollDelay :: duration
  svMaxPollDelay :: duration
  svMaxMediaBytes :: int
  svBatchLimit :: int

datatype dispatch_error =
    ContextDone go_error
  | ContextNil
  | LimitNotPositive
  | MissingLeaseToken string
  | DriverFailed
  | StoreRefused store_error

definition workerOwner :: string where
  "workerOwner = ''message-service''"

definition textOperation :: string where "textOperation = ''send_text''"
definition mediaOperation :: string where "mediaOperation = ''send_media''"
definition reactionOperation :: string where "reactionOperation = ''reaction''"
definition readOperation :: string where "readOperation = ''read_receipt''"

definition signalChange :: "service \<Rightarrow> service" where
  "signalChange v = v\<lparr>svChanges := svChanges v + 1\<rparr>"

definition signalWake :: "service \<Rightarrow> service" where
  "signalWake v = v\<lparr>svWake := True\<rparr>"

section \<open>Store calls of a dispatch\<close>

abbreviation tokenOf :: "outbox_item \<Rightarrow> string" where
  "tokenOf item \<equiv> orElse '''' (obLeaseToken item)"

definition storing ::
  "world \<Rightarrow> site \<Rightarrow> (store \<Rightarrow> store_error + store) \<Rightarrow> service \<Rightarrow> dispatch_error list \<times> service"
where
  "storing w at f v =
     (if wFault w at then ([DriverFailed], v)
      else case f (svStore v) of
        Inl e \<Rightarrow> ([StoreRefused e], v) | Inr s \<Rightarrow> ([], v\<lparr>svStore := s\<rparr>))"

text \<open>A store call whose success is broadcast.\<close>

definition commit ::
  "world \<Rightarrow> site \<Rightarrow> (store \<Rightarrow> store_error + store) \<Rightarrow> service \<Rightarrow> dispatch_error list \<times> service"
where
  "commit w at f v =
     (let (err, v1) = storing w at f v in if err = [] then ([], signalChange v1) else (err, v1))"

definition reading :: "world \<Rightarrow> site \<Rightarrow> store_error + 'a \<Rightarrow> store_error + 'a" where
  "reading w at m = (if wFault w at then failWith ''driver'' else m)"

definition releaseUnavailableItem ::
  "world \<Rightarrow> outbox_item \<Rightarrow> service \<Rightarrow> dispatch_error list \<times> service" where
  "releaseUnavailableItem w item v =
     (case obLeaseToken item of None \<Rightarrow> ([MissingLeaseToken (obOutboxID item)], v)
      | Some token \<Rightarrow>
          commit w SiteRelease
            (releaseUnavailable (wClock w SiteRelease) (obOutboxID item) token) v)"

definition markPreCallFailure ::
  "world \<Rightarrow> outbox_item \<Rightarrow> string \<Rightarrow> string \<Rightarrow> string \<Rightarrow> gotime \<Rightarrow> service
     \<Rightarrow> dispatch_error list \<times> service" where
  "markPreCallFailure w item c code cause retryAt v =
     (case obLeaseToken item of None \<Rightarrow> ([MissingLeaseToken (obOutboxID item)], v)
      | Some token \<Rightarrow>
          commit w SiteNotDispatched
            (markNotDispatched (wClock w SiteNotDispatched) (obOutboxID item) token c code cause
               retryAt) v)"

definition rejectPreCall ::
  "world \<Rightarrow> outbox_item \<Rightarrow> string \<Rightarrow> string \<Rightarrow> string \<Rightarrow> service \<Rightarrow> dispatch_error list \<times> service"
where
  "rejectPreCall w item c code cause v =
     (case obLeaseToken item of None \<Rightarrow> ([MissingLeaseToken (obOutboxID item)], v)
      | Some token \<Rightarrow>
          commit w SiteReject
            (rejectOutbox (wClock w SiteReject) (obOutboxID item) token c code cause) v)"

text \<open>The loop of \<open>releaseUntouched\<close>: the errors, and whether any lease was released.\<close>

fun releaseEach ::
  "world \<Rightarrow> nat \<Rightarrow> outbox_item list \<Rightarrow> service \<Rightarrow> dispatch_error list \<times> bool \<times> service" where
  "releaseEach w k [] v = ([], False, v)"
| "releaseEach w k (item # items) v =
     (let (err, v1) =
        (case obLeaseToken item of None \<Rightarrow> ([MissingLeaseToken (obOutboxID item)], v)
         | Some token \<Rightarrow>
             storing w (SiteUntouched k)
               (releaseUnavailable (wClock w (SiteUntouched k)) (obOutboxID item) token) v);
          (errs, released, v2) = releaseEach w (Suc k) items v1
      in (err @ errs, err = [] \<or> released, v2))"

definition releaseUntouched ::
  "world \<Rightarrow> outbox_item list \<Rightarrow> service \<Rightarrow> dispatch_error list \<times> service" where
  "releaseUntouched w items v =
     (let (errs, released, v1) = releaseEach w 0 items v
      in (errs, if released then signalChange v1 else v1))"

section \<open>Classifying a send error\<close>

fun classString :: "failure_class \<Rightarrow> string" where
  "classString FailureUnset = ''''"
| "classString FailureTransient = ''transient''"
| "classString FailureRateLimited = ''rate_limited''"
| "classString FailureCredentialsExpired = ''credentials_expired''"
| "classString FailureUnpaired = ''unpaired''"
| "classString FailureReauthRequired = ''reauth_required''"
| "classString FailureUpgradeRequired = ''upgrade_required''"
| "classString FailureMisconfigured = ''misconfigured''"
| "classString FailureUnsupported = ''unsupported''"
| "classString (FailureOther c) = c"

definition retryableFailure :: "failure_class \<Rightarrow> bool" where
  "retryableFailure c = (c \<in> {FailureTransient, FailureRateLimited, FailureCredentialsExpired})"

definition terminalFailure :: "failure_class \<Rightarrow> bool" where
  "terminalFailure c = (c \<in> {FailureUnpaired, FailureReauthRequired, FailureUpgradeRequired,
     FailureMisconfigured, FailureUnsupported})"

definition asOpError :: "go_error \<Rightarrow> op_error option" where
  "asOpError e = errorsAsOp e"

text \<open>
  \<open>errors.Is\<close> for the two sentinels of package \<open>context\<close>, which are named by their texts here;
  the search follows wrapped and joined errors.
\<close>

fun contextError :: "go_error \<Rightarrow> bool" where
  "contextError (PlainError m) = (m \<in> {''context canceled'', ''context deadline exceeded''})"
| "contextError (WrapError m e) = contextError e"
| "contextError (JoinError es) = list_ex contextError es"
| "contextError _ = False"

definition markSendUncertain ::
  "world \<Rightarrow> outbox_item \<Rightarrow> string \<Rightarrow> string \<Rightarrow> string \<Rightarrow> service \<Rightarrow> dispatch_error list \<times> service"
where
  "markSendUncertain w item c code cause v =
     commit w SiteUncertain
       (markUncertain (wClock w SiteUncertain) (obOutboxID item) (tokenOf item) c code cause) v"

definition recordSendError ::
  "world \<Rightarrow> outbox_item \<Rightarrow> go_error \<Rightarrow> string \<Rightarrow> service \<Rightarrow> dispatch_error list \<times> service" where
  "recordSendError w item sendErr defaultCode v =
     (let cause = wDetail w SiteUncertain;
          unclassified = (\<lambda>c code.
            markSendUncertain w item c (if contextError sendErr then ''timeout'' else code) cause v)
      in case asOpError sendErr of
        None \<Rightarrow> unclassified ''unknown'' defaultCode
      | Some e \<Rightarrow>
          let c = (if classString (opClass e) \<noteq> '''' then classString (opClass e) else ''unknown'');
              code = (if opOperation e \<noteq> '''' then opOperation e else defaultCode);
              retryAt = (if \<not> isZero (opRetryAt e) then opRetryAt e
                         else wClock w SiteRetry + svRetryDelay v)
          in if opDispatch e = DispatchUncertain then markSendUncertain w item c code cause v
             else if terminalFailure (opClass e) then
               commit w SiteReject
                 (rejectOutbox (wClock w SiteReject) (obOutboxID item) (tokenOf item) c code cause) v
             else if retryableFailure (opClass e) \<and> opDispatch e = DispatchNotCalled then
               commit w SiteNotDispatched
                 (markCalledNotDispatched (wClock w SiteNotDispatched) (obOutboxID item)
                    (tokenOf item) c code cause retryAt) v
             else unclassified c code)"

section \<open>Loading what a request needs\<close>

definition messageForLease :: "world \<Rightarrow> outbox_item \<Rightarrow> store \<Rightarrow> store_error + message" where
  "messageForLease w item s =
     (case obLocalMessageID item of None \<Rightarrow> failWith ''outbox item has no local message ID''
      | Some i \<Rightarrow>
          thenDo (reading w SiteLoadMessage (getMessage i s)) (\<lambda>m.
            if msAccountID m \<noteq> obAccountID item \<or> msConversationID m \<noteq> obConversationID item then
              failWith ''local message does not match outbox account/conversation''
            else Inr m))"

text \<open>The conversation, or the error code that its absence is recorded with.\<close>

definition conversationForLease ::
  "world \<Rightarrow> string \<Rightarrow> outbox_item \<Rightarrow> store \<Rightarrow> string + conversation" where
  "conversationForLease w crossCode item s =
     (case reading w SiteLoadConversation (getConversation (obConversationID item) s) of
        Inl e \<Rightarrow> Inl ''load_conversation''
      | Inr c \<Rightarrow> if cvAccountID c \<noteq> obAccountID item then Inl crossCode else Inr c)"

definition targetRefForLease ::
  "world \<Rightarrow> outbox_item \<Rightarrow> string \<Rightarrow> store \<Rightarrow> string + message_ref" where
  "targetRefForLease w item targetMessageID s =
     (case reading w SiteLoadTarget (getMessage targetMessageID s) of
        Inl e \<Rightarrow> Inl ''load_target''
      | Inr target \<Rightarrow>
          if msAccountID target \<noteq> obAccountID item \<or> msConversationID target \<noteq> obConversationID item
          then Inl ''load_target''
          else
            let ref = (\<lambda>author. \<lparr>refRemoteID = msRemoteMessageID target, refAuthorID = author,
                         refSentAt = timeOfUnixMilli (msOccurredAtMS target), refText = ''''\<rparr>)
            in case msSenderIdentityID target of
                 None \<Rightarrow> Inr (ref '''')
               | Some i \<Rightarrow>
                   (case reading w SiteLoadAuthor (getIdentity i s) of
                      Inl e \<Rightarrow> Inl ''load_target_author''
                    | Inr identity \<Rightarrow>
                        if idAccountID identity \<noteq> obAccountID item then Inl ''load_target_author''
                        else Inr (ref (idCanonicalValue identity))))"

definition remoteRef :: "string \<Rightarrow> message_ref" where
  "remoteRef r = \<lparr>refRemoteID = r, refAuthorID = '''', refSentAt = 0, refText = ''''\<rparr>"

section \<open>The call and its outcome\<close>

text \<open>A failure to load something: the intent waits for \<open>retryDelay\<close>, with the code.\<close>

definition loadFailed ::
  "world \<Rightarrow> outbox_item \<Rightarrow> string \<Rightarrow> service \<Rightarrow> dispatch_error list \<times> service" where
  "loadFailed w item code v =
     markPreCallFailure w item (classString FailureTransient) code (wDetail w SiteRetry)
       (wClock w SiteRetry + svRetryDelay v) v"

text \<open>
  No adapter for the capability. Where the account does not even declare it, the intents of
  the kinds that name an error code are rejected.
\<close>

definition unavailable ::
  "world \<Rightarrow> outbox_item \<Rightarrow> registry_error \<Rightarrow> (bool \<times> string) option \<Rightarrow> service
     \<Rightarrow> dispatch_error list \<times> service" where
  "unavailable w item err rejection v =
     (let isUnavailable = (case err of ErrCapabilityNotExposed a c \<Rightarrow> True
             | ErrCapabilityNotWired a c \<Rightarrow> True | ErrCapabilityUnsupported a c \<Rightarrow> True | _ \<Rightarrow> False);
          rejected = (case rejection of None \<Rightarrow> False | Some (declared, code) \<Rightarrow> isUnavailable \<and> \<not> declared)
      in if rejected then
           rejectPreCall w item (classString FailureUnsupported) (snd (the rejection))
             (wDetail w SiteAcquire) v
         else
           let (errs, v1) = releaseUnavailableItem w item v in
           if errs \<noteq> [] then (errs, v1)
           else (case wCtx w SiteReleased of None \<Rightarrow> [] | Some e \<Rightarrow> [ContextDone e], v1))"

text \<open>
  \<open>MarkTransportCalled\<close>, and the transport only after it has succeeded. A failure after the
  context ended releases the lease.
\<close>

definition callTransport ::
  "world \<Rightarrow> outbox_item \<Rightarrow> string \<Rightarrow> handle \<Rightarrow> transport_request
     \<Rightarrow> (send_result \<Rightarrow> go_error option \<Rightarrow> service \<Rightarrow> dispatch_error list \<times> service)
     \<Rightarrow> service \<Rightarrow> dispatch_error list \<times> service" where
  "callTransport w item token sender request outcome v =
     (let (err, v1) = commit w SiteMark
            (markTransportCalled (wClock w SiteMark) (obOutboxID item) token) v
      in if err \<noteq> [] then
           (case wCtx w SiteMark of None \<Rightarrow> (err, v1)
            | Some e \<Rightarrow>
                let (errs, v2) = releaseUnavailableItem w item v1 in (ContextDone e # errs, v2))
         else
           let (result, sendErr) = wTransport w sender request
           in outcome result sendErr
                (v1\<lparr>svCalls := svCalls v1 @ [\<lparr>clOutboxID = obOutboxID item, clHandle = sender,
                   clRequest = request, clResult = result, clError = sendErr\<rparr>]\<rparr>))"

text \<open>A result with a remote ID: confirm, or keep the result for a later repair.\<close>

definition confirmResult ::
  "world \<Rightarrow> outbox_item \<Rightarrow> string \<Rightarrow> send_result \<Rightarrow> service \<Rightarrow> dispatch_error list \<times> service" where
  "confirmResult w item token result v =
     (let (err, v1) = storing w SiteConfirm
            (confirm (wClock w SiteConfirm) (wClock w SiteRepoint)
               \<lparr>cfOutboxID = obOutboxID item, cfLeaseToken = token,
                cfResultRemoteID = snRemoteMessageID result, cfTransportResultID = ''''\<rparr>) v
      in if err = [] then ([], signalChange v1)
         else
           let (storeErr, v2) = storing w SiteStoreFailed
                 (markStoreFailed (wClock w SiteStoreFailed) (obOutboxID item) token
                    (snRemoteMessageID result) (wDetail w SiteConfirm)) v1
           in if storeErr = [] then ([], signalChange v2) else (err @ storeErr, v2))"

definition missingRemoteID ::
  "world \<Rightarrow> outbox_item \<Rightarrow> string \<Rightarrow> service \<Rightarrow> dispatch_error list \<times> service" where
  "missingRemoteID w item token v =
     commit w SiteUncertain
       (markUncertain (wClock w SiteUncertain) (obOutboxID item) token ''unknown''
          ''missing_remote_message_id''
          ''transport returned success without a remote message ID'') v"

definition acceptWithoutResult ::
  "world \<Rightarrow> outbox_item \<Rightarrow> string \<Rightarrow> service \<Rightarrow> dispatch_error list \<times> service" where
  "acceptWithoutResult w item token v =
     commit w SiteConfirm (confirmWithoutResult (wClock w SiteConfirm) (obOutboxID item) token) v"

section \<open>One leased intent\<close>

definition sendOutcome ::
  "world \<Rightarrow> outbox_item \<Rightarrow> string \<Rightarrow> string
     \<Rightarrow> send_result \<Rightarrow> go_error option \<Rightarrow> service \<Rightarrow> dispatch_error list \<times> service" where
  "sendOutcome w item token operation result sendErr v =
     (case sendErr of Some e \<Rightarrow> recordSendError w item e operation v
      | None \<Rightarrow>
          if blank (snRemoteMessageID result) then missingRemoteID w item token v
          else confirmResult w item token result v)"

definition dispatchTextLease ::
  "world \<Rightarrow> outbox_item \<Rightarrow> service \<Rightarrow> dispatch_error list \<times> service" where
  "dispatchTextLease w item v =
     (case obLeaseToken item of None \<Rightarrow> ([MissingLeaseToken (obOutboxID item)], v)
      | Some token \<Rightarrow>
      (case acquire (Some (wCtx w SiteAcquire)) (obAccountID item) CapabilityTextSend (wBridges w) of
         Inl e \<Rightarrow> unavailable w item e None v
       | Inr lease \<Rightarrow>
      (case leaseText lease of None \<Rightarrow> releaseUnavailableItem w item v
       | Some sender \<Rightarrow>
      (case messageForLease w item (svStore v) of Inl e \<Rightarrow> loadFailed w item ''load_message'' v
       | Inr message \<Rightarrow>
      (case conversationForLease w ''cross_account_conversation'' item (svStore v) of
         Inl code \<Rightarrow> loadFailed w item code v
       | Inr conversation \<Rightarrow>
           callTransport w item token sender
             (SendTextRequest \<lparr>txAccountID = obAccountID item,
                txConversation = cvRemoteConversationID conversation, txBody = msBody message,
                txReplyTo = map_option remoteRef (msReplyToRemoteID message),
                txRequestID = obTransportRequestID item\<rparr>)
             (sendOutcome w item token textOperation) v)))))"

definition dispatchMediaLease ::
  "world \<Rightarrow> outbox_item \<Rightarrow> service \<Rightarrow> dispatch_error list \<times> service" where
  "dispatchMediaLease w item v =
     (case obLeaseToken item of None \<Rightarrow> ([MissingLeaseToken (obOutboxID item)], v)
      | Some token \<Rightarrow>
      (case acquire (Some (wCtx w SiteAcquire)) (obAccountID item) CapabilityMediaSend (wBridges w) of
         Inl e \<Rightarrow> unavailable w item e
           (Some (MediaSend (capabilities (obAccountID item) (wBridges w)),
                  ''media_send_unsupported'')) v
       | Inr lease \<Rightarrow>
      (case leaseMedia lease of None \<Rightarrow> releaseUnavailableItem w item v
       | Some sender \<Rightarrow>
      (case messageForLease w item (svStore v) of Inl e \<Rightarrow> loadFailed w item ''load_message'' v
       | Inr message \<Rightarrow>
      (case conversationForLease w ''cross_account_conversation'' item (svStore v) of
         Inl code \<Rightarrow> loadFailed w item code v
       | Inr conversation \<Rightarrow>
      (case reading w SiteLoadCarrier (getOutboxAttachment (obOutboxID item) (svStore v)) of
         Inl e \<Rightarrow> loadFailed w item ''load_media'' v
       | Inr attachment \<Rightarrow>
      (case wBlob w (oaBlobHash attachment) of
         BlobMissing \<Rightarrow> rejectPreCall w item (classString FailureMisconfigured) ''blob_missing''
                          (wDetail w SiteLoadCarrier) v
       | BlobUnreadable \<Rightarrow> loadFailed w item ''open_blob'' v
       | BlobOpened content \<Rightarrow>
           callTransport w item token sender
             (SendMediaRequest \<lparr>mdAccountID = obAccountID item,
                mdConversation = cvRemoteConversationID conversation, mdContent = content,
                mdSize = oaSizeBytes attachment, mdFilename = oaFilename attachment,
                mdMIME = oaMIME attachment, mdCaption = msBody message,
                mdReplyTo = map_option remoteRef (msReplyToRemoteID message),
                mdRequestID = obTransportRequestID item\<rparr>)
             (sendOutcome w item token mediaOperation) v)))))))"

text \<open>A reaction may be accepted without a result.\<close>

definition reactionOutcome ::
  "world \<Rightarrow> outbox_item \<Rightarrow> string
     \<Rightarrow> send_result \<Rightarrow> go_error option \<Rightarrow> service \<Rightarrow> dispatch_error list \<times> service" where
  "reactionOutcome w item token result sendErr v =
     (case sendErr of Some e \<Rightarrow> recordSendError w item e reactionOperation v
      | None \<Rightarrow>
          if blank (snRemoteMessageID result) then acceptWithoutResult w item token v
          else confirmResult w item token result v)"

definition dispatchReactionLease ::
  "world \<Rightarrow> outbox_item \<Rightarrow> service \<Rightarrow> dispatch_error list \<times> service" where
  "dispatchReactionLease w item v =
     (case obLeaseToken item of None \<Rightarrow> ([MissingLeaseToken (obOutboxID item)], v)
      | Some token \<Rightarrow>
      (case acquire (Some (wCtx w SiteAcquire)) (obAccountID item) CapabilityReactions (wBridges w) of
         Inl e \<Rightarrow> unavailable w item e
           (Some (Reactions (capabilities (obAccountID item) (wBridges w)),
                  ''reactions_unsupported'')) v
       | Inr lease \<Rightarrow>
      (case leaseReaction lease of None \<Rightarrow> releaseUnavailableItem w item v
       | Some sender \<Rightarrow>
      (case reading w SiteLoadCarrier (getOutboxReaction (obOutboxID item) (svStore v)) of
         Inl e \<Rightarrow> loadFailed w item ''load_reaction'' v
       | Inr r \<Rightarrow>
      (case targetRefForLease w item (orTargetMessageID r) (svStore v) of
         Inl code \<Rightarrow> loadFailed w item code v
       | Inr target \<Rightarrow>
      (case conversationForLease w ''load_conversation'' item (svStore v) of
         Inl code \<Rightarrow> loadFailed w item code v
       | Inr conversation \<Rightarrow>
           callTransport w item token sender
             (SendReactionRequest \<lparr>rxAccountID = obAccountID item,
                rxConversation = cvRemoteConversationID conversation, rxTarget = target,
                rxEmoji = orEmoji r, rxAction = orAction r,
                rxRequestID = obTransportRequestID item\<rparr>)
             (reactionOutcome w item token) v))))))"

definition readOutcome ::
  "world \<Rightarrow> outbox_item \<Rightarrow> string
     \<Rightarrow> send_result \<Rightarrow> go_error option \<Rightarrow> service \<Rightarrow> dispatch_error list \<times> service" where
  "readOutcome w item token result sendErr v =
     (case sendErr of Some e \<Rightarrow> recordSendError w item e readOperation v
      | None \<Rightarrow> acceptWithoutResult w item token v)"

definition dispatchReadLease ::
  "world \<Rightarrow> outbox_item \<Rightarrow> service \<Rightarrow> dispatch_error list \<times> service" where
  "dispatchReadLease w item v =
     (case obLeaseToken item of None \<Rightarrow> ([MissingLeaseToken (obOutboxID item)], v)
      | Some token \<Rightarrow>
      (case acquire (Some (wCtx w SiteAcquire)) (obAccountID item) CapabilityReadReceipts (wBridges w) of
         Inl e \<Rightarrow> unavailable w item e
           (Some (ReadReceipts (capabilities (obAccountID item) (wBridges w)),
                  ''read_receipts_unsupported'')) v
       | Inr lease \<Rightarrow>
      (case leaseReadReceipt lease of None \<Rightarrow> releaseUnavailableItem w item v
       | Some sender \<Rightarrow>
      (case reading w SiteLoadCarrier (getOutboxReadReceipt (obOutboxID item) (svStore v)) of
         Inl e \<Rightarrow> loadFailed w item ''load_read_receipt'' v
       | Inr receipt \<Rightarrow>
      (case targetRefForLease w item (rrLastReadMessageID receipt) (svStore v) of
         Inl code \<Rightarrow> loadFailed w item code v
       | Inr target \<Rightarrow>
      (case conversationForLease w ''load_conversation'' item (svStore v) of
         Inl code \<Rightarrow> loadFailed w item code v
       | Inr conversation \<Rightarrow>
           callTransport w item token sender
             (MarkReadRequest \<lparr>rdAccountID = obAccountID item,
                rdConversation = cvRemoteConversationID conversation, rdMessages = [target],
                rdReadAt = timeOfUnixMilli (rrReadAtMS receipt)\<rparr>)
             (readOutcome w item token) v))))))"

section \<open>A dispatch pass\<close>

definition dispatchLeased ::
  "world \<Rightarrow> outbox_item \<Rightarrow> service \<Rightarrow> dispatch_error list \<times> service" where
  "dispatchLeased w item v =
     (case obKind item of
        OutboxKindText \<Rightarrow> dispatchTextLease w item v
      | OutboxKindMedia \<Rightarrow> dispatchMediaLease w item v
      | OutboxKindReaction \<Rightarrow> dispatchReactionLease w item v
      | OutboxKindRead \<Rightarrow> dispatchReadLease w item v
      | OutboxKindOther k \<Rightarrow> releaseUnavailableItem w item v)"

definition leaseLapsed :: "gotime \<Rightarrow> outbox_item \<Rightarrow> bool" where
  "leaseLapsed t item =
     (case obLeaseExpiresAtMS item of None \<Rightarrow> False | Some e \<Rightarrow> e \<le> unixMilliOf t)"

definition recoverLeases :: "world \<Rightarrow> service \<Rightarrow> dispatch_error list \<times> service" where
  "recoverLeases w v =
     (if wFault w SiteRecover then ([DriverFailed], v)
      else case recoverExpiredLeases (wClock w SiteRecover) (svStore v) of
        Inl e \<Rightarrow> ([StoreRefused e], v)
      | Inr (recovered, s) \<Rightarrow>
          let v1 = v\<lparr>svStore := s\<rparr> in
          ([], if rlNotDispatched recovered > 0 \<or> rlUncertain recovered > 0 then signalChange v1 else v1))"

text \<open>The loop over the leases; \<open>k\<close> counts those processed and selects the world of the next.\<close>

fun dispatchEach ::
  "(nat \<Rightarrow> world) \<Rightarrow> nat \<Rightarrow> outbox_item list \<Rightarrow> service \<Rightarrow> nat \<times> dispatch_error list \<times> service"
where
  "dispatchEach ws k [] v = (k, [], v)"
| "dispatchEach ws k (item # items) v =
     (case wCtx (ws k) SiteLoop of
        Some e \<Rightarrow>
          let (errs, v1) = releaseUntouched (ws k) (item # items) v in (k, ContextDone e # errs, v1)
      | None \<Rightarrow>
          if leaseLapsed (wClock (ws k) SiteLoop) item then
            (let (err, v1) = recoverLeases (ws k) v in (k, err, v1))
          else
            (let (err, v1) = dispatchLeased (ws k) item v in
             if err = [] then dispatchEach ws (Suc k) items v1
             else let (errs, v2) = releaseUntouched (ws k) items v1 in (k, err @ errs, v2)))"

text \<open>\<open>w\<close> is met by the lease transaction, \<open>ws k\<close> by the \<open>k\<close>-th intent; \<open>given\<close>: a non-nil context.\<close>

definition dispatchDue ::
  "bool \<Rightarrow> world \<Rightarrow> (nat \<Rightarrow> world) \<Rightarrow> string list \<Rightarrow> int \<Rightarrow> service
     \<Rightarrow> nat \<times> dispatch_error list \<times> service" where
  "dispatchDue given w ws tokens limit v =
     (if \<not> given then (0, [ContextNil], v)
      else if limit \<le> 0 then (0, [LimitNotPositive], v)
      else
        let failed = (\<lambda>err. (case wCtx w SiteLease of
                       Some e \<Rightarrow> (0, [ContextDone e], v) | None \<Rightarrow> (0, [err], v)))
        in if wFault w SiteLease then failed DriverFailed
           else case leaseDue \<lparr>lqOwner = workerOwner, lqNow = wClock w SiteLease,
                       lqDuration = svLeaseTime v, lqLimit = limit\<rparr> tokens (svStore v) of
             Inl e \<Rightarrow> failed (StoreRefused e)
           | Inr (leases, s) \<Rightarrow> dispatchEach ws 0 leases (v\<lparr>svStore := s\<rparr>))"

end
