(* ===== verification/Outbox_Safety.thy ===== *)
theory Outbox_Safety
  imports Outbox
begin

text \<open>
  The contract of the outbox table: which tables are well formed, the delivery machine over the
  phase of one intent, and the lemmas that every operation keeps the one and refines the other.
\<close>

section \<open>Well-formed outbox tables\<close>

abbreviation intentKey :: "outbox_item \<Rightarrow> string \<times> string" where
  "intentKey r \<equiv> (obAccountID r, obIdempotencyKey r)"

abbreviation requestKey :: "outbox_item \<Rightarrow> string \<times> string" where
  "requestKey r \<equiv> (obAccountID r, obTransportRequestID r)"

definition outboxOK :: "store \<Rightarrow> bool" where
  "outboxOK s \<longleftrightarrow> (\<forall>r \<in> set (outbox s). outboxRowOK r) \<and> distinct (map obOutboxID (outbox s)) \<and>
     distinct (map intentKey (outbox s)) \<and> distinct (map requestKey (outbox s))"

text \<open>The columns that no statement but the insert writes.\<close>

definition sameIntent :: "outbox_item \<Rightarrow> outbox_item \<Rightarrow> bool" where
  "sameIntent r r' \<longleftrightarrow> obOutboxID r' = obOutboxID r \<and> obAccountID r' = obAccountID r \<and>
     obConversationID r' = obConversationID r \<and> obKind r' = obKind r \<and>
     obIdempotencyKey r' = obIdempotencyKey r \<and> obPayloadHash r' = obPayloadHash r \<and>
     obOperation r' = obOperation r \<and> obLocalMessageID r' = obLocalMessageID r \<and>
     obTransportRequestID r' = obTransportRequestID r \<and>
     obSendAgainOfOutboxID r' = obSendAgainOfOutboxID r \<and>
     obScheduledForMS r' = obScheduledForMS r \<and> obCreatedAtMS r' = obCreatedAtMS r"

lemma sameIntent_refl [simp]: "sameIntent r r"
  by (simp add: sameIntent_def)

lemma sameIntent_trans: "sameIntent r r' \<Longrightarrow> sameIntent r' r'' \<Longrightarrow> sameIntent r r''"
  by (simp add: sameIntent_def)

lemma mutateRows_Inr:
  "mutateRows P f s = Inr (k, s') \<longleftrightarrow>
   (\<forall>r \<in> set (outbox s). P r \<longrightarrow> outboxRowOK (f r)) \<and> k = sqlCount P (outbox s) \<and>
   s' = s\<lparr>outbox := sqlUpdate P f (outbox s)\<rparr>"
  by (auto simp: mutateRows_def updateChecked_Inr split: sum.splits)
    (auto simp: updateChecked_def list_all_iff split: if_splits)

lemma mutateRows_OK:
  assumes "mutateRows P f s = Inr (k, s')" and "outboxOK s" and "\<And>r. sameIntent r (f r)"
  shows "outboxOK s'"
proof -
  have k: "obOutboxID (f r) = obOutboxID r" "intentKey (f r) = intentKey r"
    "requestKey (f r) = requestKey r" for r
    using assms(3) [of r] by (simp_all add: sameIntent_def)
  show ?thesis
    using assms(1,2) k by (auto simp: mutateRows_Inr outboxOK_def set_sqlUpdate)
qed

lemma mutateLeased_Inr:
  "mutateLeased i P f s = Inr s' \<longleftrightarrow>
   mutateRows (\<lambda>r. obOutboxID r = i \<and> P r) f s = Inr (1, s')"
  by (auto simp: mutateLeased_def thenDo_Inr requireLeaseMutation_def failWith_def notFound_def
      split: if_splits)

lemma mutateState_Inr:
  "mutateState i P f s = Inr s' \<longleftrightarrow>
   mutateRows (\<lambda>r. obOutboxID r = i \<and> P r) f s = Inr (1, s')"
  by (auto simp: mutateState_def thenDo_Inr requireStateMutation_def failWith_def notFound_def
      split: if_splits)

section \<open>The delivery state machine\<close>

text \<open>
  The contract of the outbox, over the phase of one intent. \<open>InFlight\<close> is the phase between
  the marker of the transport call and its outcome; \<open>Ambiguous\<close> is an outcome that may or
  may not have reached the remote side, or did and is not recorded locally.
\<close>

datatype phase = Waiting | Leased | InFlight | Ambiguous | Settled

definition phaseOf :: "outbox_item \<Rightarrow> phase" where
  "phaseOf r =
     (case obState r of
        OutboxQueued \<Rightarrow> Waiting | OutboxNotDispatched \<Rightarrow> Waiting
      | OutboxDispatching \<Rightarrow> if called r then InFlight else Leased
      | OutboxUncertain \<Rightarrow> Ambiguous | OutboxStoreFailed \<Rightarrow> Ambiguous
      | OutboxConfirmed \<Rightarrow> Settled | OutboxRejected \<Rightarrow> Settled | OutboxCanceled \<Rightarrow> Settled)"

datatype phase_event = Stay | Claim | Unclaim | Call | Disproved | Doubt | Settle

inductive phaseStep :: "phase \<Rightarrow> phase_event \<Rightarrow> phase \<Rightarrow> bool" where
  "phaseStep p Stay p"
| "phaseStep Waiting Claim Leased"
| "phaseStep Leased Unclaim Waiting"
| "phaseStep Leased Call InFlight"
| "phaseStep InFlight Disproved Waiting"
| "phaseStep InFlight Doubt Ambiguous"
| "phaseStep Waiting Settle Settled"
| "phaseStep Leased Settle Settled"
| "phaseStep InFlight Settle Settled"
| "phaseStep Ambiguous Settle Settled"

inductive_simps phaseStep_Waiting [simp]: "phaseStep Waiting e p"
inductive_simps phaseStep_Leased [simp]: "phaseStep Leased e p"
inductive_simps phaseStep_InFlight [simp]: "phaseStep InFlight e p"
inductive_simps phaseStep_Ambiguous [simp]: "phaseStep Ambiguous e p"
inductive_simps phaseStep_Settled [simp]: "phaseStep Settled e p"

text \<open>One statement's effect on one row: the identity stays, attempts count the calls.\<close>

definition rowMove :: "phase_event \<Rightarrow> outbox_item \<Rightarrow> outbox_item \<Rightarrow> bool" where
  "rowMove e r r' \<longleftrightarrow> sameIntent r r' \<and> phaseStep (phaseOf r) e (phaseOf r') \<and>
     obAttemptCount r' = obAttemptCount r + (if e = Call then 1 else 0)"

lemma rowMove_Stay [simp]: "rowMove Stay r r"
  by (simp add: rowMove_def phaseStep.intros)

text \<open>
  What an operation does to the whole table: rows move by events that \<open>A\<close> allows, none
  disappears, and new rows are waiting and untried.
\<close>

definition evolves :: "(phase_event \<Rightarrow> outbox_item \<Rightarrow> bool) \<Rightarrow> store \<Rightarrow> store \<Rightarrow> bool" where
  "evolves A s t \<longleftrightarrow> (\<exists>h new. outbox t = map h (outbox s) @ new \<and>
     (\<forall>r \<in> set (outbox s). \<exists>e. (e = Stay \<or> A e r) \<and> rowMove e r (h r)) \<and>
     (\<forall>r \<in> set new. phaseOf r = Waiting \<and> obAttemptCount r = 0))"

lemma evolves_same: "outbox t = outbox s \<Longrightarrow> evolves A s t"
  unfolding evolves_def
  by (rule exI [of _ id], rule exI [of _ "[]"]) (auto intro: exI [of _ Stay])

lemma evolves_refl [simp]: "evolves A s s"
  by (simp add: evolves_same)

lemma evolves_frame: "evolves A s t \<Longrightarrow> outbox u = outbox t \<Longrightarrow> evolves A s u"
  by (simp add: evolves_def)

lemma mutateRows_evolves:
  assumes "mutateRows P f s = Inr (k, t)"
    and "\<And>r. P r \<Longrightarrow> \<exists>e. (e = Stay \<or> A e r) \<and> rowMove e r (f r)"
  shows "evolves A s t"
proof -
  have "outbox t = map (\<lambda>r. if P r then f r else r) (outbox s) @ []"
    using assms(1) by (simp add: mutateRows_Inr sqlUpdate_def)
  moreover have "\<exists>e. (e = Stay \<or> A e r) \<and> rowMove e r (if P r then f r else r)" for r
    using assms(2) [of r] by (auto intro: exI [of _ Stay])
  ultimately show ?thesis
    unfolding evolves_def
    by (intro exI [of _ "\<lambda>r. if P r then f r else r"] exI [of _ "[]"]) simp
qed

section \<open>The operations\<close>

datatype outbox_op =
    OpEnqueue gotime new_outbox_item "message option" enqueue_carriers
  | OpLease lease_request "string list"
  | OpCalled gotime string string
  | OpNotDispatched bool gotime string string string string string gotime
  | OpRelease gotime string string
  | OpRetry gotime string
  | OpCancel gotime string
  | OpUncertain gotime string string string string string
  | OpReject gotime string string string string string
  | OpConfirmNoResult gotime string string
  | OpConfirm gotime gotime confirmation
  | OpStoreFailed gotime string string string string
  | OpReconcile gotime gotime reconcile_request
  | OpRecover gotime

fun runOp :: "outbox_op \<Rightarrow> store \<Rightarrow> store_error + store" where
  "runOp (OpEnqueue t item m c) s = thenDo (enqueue t item m c s) (\<lambda>(row, d, s'). Inr s')"
| "runOp (OpLease req tokens) s = thenDo (leaseDue req tokens s) (\<lambda>(items, s'). Inr s')"
| "runOp (OpCalled t i k) s = markTransportCalled t i k s"
| "runOp (OpNotDispatched b t i k c d e at) s = markNotDispatchedAs b t i k c d e at s"
| "runOp (OpRelease t i k) s = releaseUnavailable t i k s"
| "runOp (OpRetry t i) s = retryNotDispatched t i s"
| "runOp (OpCancel t i) s = cancelOutbox t i s"
| "runOp (OpUncertain t i k c d e) s = markUncertain t i k c d e s"
| "runOp (OpReject t i k c d e) s = rejectOutbox t i k c d e s"
| "runOp (OpConfirmNoResult t i k) s = confirmWithoutResult t i k s"
| "runOp (OpConfirm t t' c) s = confirm t t' c s"
| "runOp (OpStoreFailed t i k x d) s = markStoreFailed t i k x d s"
| "runOp (OpReconcile t t' req) s = thenDo (reconcileConfirm t t' req s) (\<lambda>(r, s'). Inr s')"
| "runOp (OpRecover t) s = thenDo (recoverExpiredLeases t s) (\<lambda>(r, s'). Inr s')"

text \<open>The phase events that an operation may cause at a row.\<close>

fun allowed :: "outbox_op \<Rightarrow> phase_event \<Rightarrow> outbox_item \<Rightarrow> bool" where
  "allowed (OpLease req tokens) e r = (e = Claim)"
| "allowed (OpCalled t i k) e r = (e = Call \<and> obOutboxID r = i)"
| "allowed (OpNotDispatched b t i k c d x at) e r =
     (e = (if b then Disproved else Unclaim) \<and> obOutboxID r = i)"
| "allowed (OpRelease t i k) e r = (e = Unclaim \<and> obOutboxID r = i)"
| "allowed (OpCancel t i) e r = (e = Settle \<and> obOutboxID r = i \<and> phaseOf r = Waiting)"
| "allowed (OpUncertain t i k c d x) e r = (e = Doubt \<and> obOutboxID r = i)"
| "allowed (OpReject t i k c d x) e r = (e = Settle \<and> obOutboxID r = i)"
| "allowed (OpConfirmNoResult t i k) e r = (e = Settle \<and> obOutboxID r = i)"
| "allowed (OpConfirm t t' c) e r = (e = Settle \<and> obOutboxID r = cfOutboxID c)"
| "allowed (OpStoreFailed t i k x d) e r = (e = Doubt \<and> obOutboxID r = i)"
| "allowed (OpReconcile t t' req) e r = (e = Settle \<and> requestKey r =
     (rqAccountID req, rqTransportRequestID req))"
| "allowed (OpRecover t) e r = (e = Unclaim \<or> e = Doubt)"
| "allowed _ e r = False"

lemmas row_defs = rowMove_def sameIntent_def phaseOf_def holdsLease_def clearLease_def
  setOutboxError_def finishRow_def leaseRow_def leaseable_def waitingState_def expired_def

text \<open>What the writes to the other tables leave alone.\<close>

lemma insertMessageRow_outbox [frame]: "insertMessageRow m s = Inr t \<Longrightarrow> outbox t = outbox s"
  by (auto simp: insertMessageRow_def split: if_splits)

lemma deleteMessageRow_outbox [frame]: "deleteMessageRow i s = Inr t \<Longrightarrow> outbox t = outbox s"
  by (auto simp: deleteMessageRow_def split: if_splits)

lemma upsertReadCursor_outbox [frame]: "upsertReadCursor c s = Inr t \<Longrightarrow> outbox t = outbox s"
  by (auto simp: upsertReadCursor_def Let_def split: if_splits option.splits)

lemma repoint_outbox [frame]:
  "repointLocalMessage t a c l q real s = Inr u \<Longrightarrow> outbox u = outbox s"
  by (auto simp: repointLocalMessage_def succeeded Let_def split: if_splits option.splits
      dest: deleteMessageRow_outbox)

lemma whenSome_outbox:
  "whenSome v f s = Inr t \<Longrightarrow> (\<And>x u w. f x u = Inr w \<Longrightarrow> outbox w = outbox u) \<Longrightarrow>
   outbox t = outbox s"
  by (auto simp: whenSome_def split: option.splits)

lemma enqueueInserted_outbox [frame]:
  assumes "enqueueInserted item m c n s = Inr t"
  shows "outbox t = outbox s"
proof -
  have 1: "insertOutgoingMessage item x n u = Inr w \<Longrightarrow> outbox w = outbox u" for x u w
    by (auto simp: insertOutgoingMessage_def split: if_splits sum.splits dest: insertMessageRow_outbox)
  have 2: "insertOutboxAttachment i x n u = Inr w \<Longrightarrow> outbox w = outbox u" for i x u w
    by (auto simp: insertOutboxAttachment_def Let_def split: if_splits)
  have 3: "insertOutboxReaction i x n u = Inr w \<Longrightarrow> outbox w = outbox u" for i x u w
    by (auto simp: insertOutboxReaction_def Let_def split: if_splits)
  have 4: "insertOutboxReadReceipt i x n u = Inr w \<Longrightarrow> outbox w = outbox u" for i x u w
    by (auto simp: insertOutboxReadReceipt_def Let_def split: if_splits)
  from assms show ?thesis
    by (auto simp: enqueueInserted_def thenDo_Inr whenSome_def split: option.split_asm
        dest!: 1 2 3 4 upsertReadCursor_outbox)
qed

lemma insertOutboxRow_Inr:
  "insertOutboxRow r s = Inr (k, t) \<longleftrightarrow> outboxRowOK r \<and>
   (if sqlExists (\<lambda>x. intentKey x = intentKey r) (outbox s) then k = 0 \<and> t = s
    else k = 1 \<and> t = s\<lparr>outbox := outbox s @ [r]\<rparr> \<and> \<not> hasOutbox (obOutboxID r) s \<and>
      \<not> sqlExists (\<lambda>x. requestKey x = requestKey r) (outbox s) \<and> hasAccount (obAccountID r) s \<and>
      nullOr (\<lambda>p. p = obOutboxID r \<or> hasOutbox p s) (obSendAgainOfOutboxID r))"
  by (auto simp: insertOutboxRow_def)

lemma insertOutboxRow_one:
  assumes "insertOutboxRow r s = Inr (1, t)"
  shows "t = s\<lparr>outbox := outbox s @ [r]\<rparr>" and "outboxRowOK r" and "\<not> hasOutbox (obOutboxID r) s"
    and "\<not> sqlExists (\<lambda>x. intentKey x = intentKey r) (outbox s)"
    and "\<not> sqlExists (\<lambda>x. requestKey x = requestKey r) (outbox s)"
  using assms unfolding insertOutboxRow_Inr by (simp_all split: if_split_asm)

lemma insertOutboxRow_other:
  assumes "insertOutboxRow r s = Inr (k, t)" and "k \<noteq> 1"
  shows "t = s"
  using assms unfolding insertOutboxRow_Inr by (simp split: if_split_asm)

text \<open>Enqueue in its two outcomes.\<close>

lemma enqueue_iff:
  "enqueue t item m c s = Inr z \<longleftrightarrow>
   validateNewOutboxItem item = None \<and> validateOutboxAttachmentPair item c = None \<and>
   (\<exists>n. nowMS t = Inr n \<and> (\<exists>sch. scheduledForMilliseconds item n = Inr sch \<and>
     (\<exists>k s1. insertOutboxRow (queuedRow item sch n) s = Inr (k, s1) \<and>
       (if k = 1 then
         (case sqlFind (\<lambda>r. obOutboxID r = niOutboxID item) (outbox s1) of None \<Rightarrow> Inl [ErrNoRows]
          | Some row \<Rightarrow> thenDo (enqueueInserted item m c n s1) (\<lambda>s2. Inr (row, EnqueueInserted, s2)))
        else
         (case sqlFind (\<lambda>r. obAccountID r = niAccountID item
                          \<and> obIdempotencyKey r = niIdempotencyKey item) (outbox s1) of
            None \<Rightarrow> Inl [ErrNoRows]
          | Some row \<Rightarrow> thenDo (enqueueExisting item m row s1) (\<lambda>_. Inr (row, EnqueueExisting, s1))))
       = Inr z)))"
  by (simp add: enqueue_def succeeded split_paired_Ex)

lemma queuedRow_simps [simp]:
  "obOutboxID (queuedRow item sch n) = niOutboxID item"
  "obAccountID (queuedRow item sch n) = niAccountID item"
  "obIdempotencyKey (queuedRow item sch n) = niIdempotencyKey item"
  "obTransportRequestID (queuedRow item sch n) = niTransportRequestID item"
  "obState (queuedRow item sch n) = OutboxQueued"
  "obAttemptCount (queuedRow item sch n) = 0"
  "phaseOf (queuedRow item sch n) = Waiting"
  by (simp_all add: queuedRow_def phaseOf_def)

lemma enqueue_Inr:
  assumes "enqueue t item m c s = Inr (row, d, s')"
  obtains (inserted) n sch s1 where "d = EnqueueInserted" and "row = queuedRow item sch n"
      and "n = unixMilliOf t" and "0 < n"
      and "insertOutboxRow row s = Inr (1, s1)" and "enqueueInserted item m c n s1 = Inr s'"
  | (existing) "d = EnqueueExisting" and "s' = s" and "row \<in> set (outbox s)"
      and "intentKey row = (niAccountID item, niIdempotencyKey item)"
      and "enqueueExisting item m row s = Inr ()"
proof -
  from assms obtain n sch k s1 where n: "nowMS t = Inr n"
    and ins: "insertOutboxRow (queuedRow item sch n) s = Inr (k, s1)"
    and rest: "(if k = 1 then
         (case sqlFind (\<lambda>r. obOutboxID r = niOutboxID item) (outbox s1) of None \<Rightarrow> Inl [ErrNoRows]
          | Some row \<Rightarrow> thenDo (enqueueInserted item m c n s1) (\<lambda>s2. Inr (row, EnqueueInserted, s2)))
       else
         (case sqlFind (\<lambda>r. obAccountID r = niAccountID item
                          \<and> obIdempotencyKey r = niIdempotencyKey item) (outbox s1) of
            None \<Rightarrow> Inl [ErrNoRows]
          | Some row \<Rightarrow> thenDo (enqueueExisting item m row s1) (\<lambda>_. Inr (row, EnqueueExisting, s1))))
       = Inr (row, d, s')"
    unfolding enqueue_iff by (elim conjE exE) rule
  show ?thesis
  proof (cases "k = 1")
    case True
    then have s1: "s1 = s\<lparr>outbox := outbox s @ [queuedRow item sch n]\<rparr>"
      and fresh: "\<not> hasOutbox (niOutboxID item) s"
      using insertOutboxRow_one(1,3) [of "queuedRow item sch n" s s1] ins by simp_all
    have "sqlFind (\<lambda>r. obOutboxID r = niOutboxID item) (outbox s1) = Some (queuedRow item sch n)"
      using fresh by (simp add: s1 hasOutbox_def sqlFind_snoc)
    with rest True ins n show ?thesis
      by (intro inserted [of sch n s1]) (auto simp: thenDo_Inr nowMS_Inr)
  next
    case False
    then have "s1 = s" using ins insertOutboxRow_other by blast
    with rest False show ?thesis
      by (intro existing) (auto simp: succeeded dest: sqlFind_Some)
  qed
qed

section \<open>Every operation refines the delivery machine\<close>

lemma evolves_enqueue:
  assumes "enqueue t item m c s = Inr (row, d, s')"
  shows "evolves A s s'"
  using assms
proof (cases rule: enqueue_Inr)
  case (inserted n sch s1)
  then have "outbox s' = outbox s @ [row]"
    using enqueueInserted_outbox [OF inserted(6)] insertOutboxRow_one(1) [OF inserted(5)] by simp
  with inserted(2) show ?thesis
    unfolding evolves_def
    by (intro exI [of _ id] exI [of _ "[row]"]) (auto intro: exI [of _ Stay])
qed simp

lemma evolves_trans_lease:
  assumes "evolves (\<lambda>e r. e = Claim) s t" and "evolves (\<lambda>e r. e = Claim) t u"
    and "length (outbox u) = length (outbox s)"
  shows "evolves (\<lambda>e r. e = Claim) s u"
proof -
  from assms(1,2) obtain h h' new new' where
    h: "outbox t = map h (outbox s) @ new" "outbox u = map h' (outbox t) @ new'"
    and m: "\<And>r. r \<in> set (outbox s) \<Longrightarrow> \<exists>e. (e = Stay \<or> e = Claim) \<and> rowMove e r (h r)"
    and m': "\<And>r. r \<in> set (outbox t) \<Longrightarrow> \<exists>e. (e = Stay \<or> e = Claim) \<and> rowMove e r (h' r)"
    unfolding evolves_def by blast
  with assms(3) have "new = []" "new' = []" by auto
  with h have u: "outbox u = map (h' \<circ> h) (outbox s) @ []" by simp
  have "\<exists>e. (e = Stay \<or> e = Claim) \<and> rowMove e r ((h' \<circ> h) r)" if "r \<in> set (outbox s)" for r
  proof -
    from m [OF that] obtain e where e: "e = Stay \<or> e = Claim" "rowMove e r (h r)" by blast
    from that h(1) \<open>new = []\<close> have "h r \<in> set (outbox t)" by simp
    from m' [OF this] obtain e' where e': "e' = Stay \<or> e' = Claim" "rowMove e' (h r) (h' (h r))"
      by blast
    have "rowMove (if e = Stay then e' else e) r (h' (h r))"
      using e e' by (auto simp: rowMove_def elim: sameIntent_trans phaseStep.cases)
    with e(1) e'(1) show ?thesis by auto
  qed
  with u show ?thesis unfolding evolves_def by (intro exI [of _ "h' \<circ> h"] exI [of _ "[]"]) simp
qed

lemma leaseRow_move: "leaseable n r \<Longrightarrow> rowMove Claim r (leaseRow owner token x n r)"
  by (auto simp: row_defs)

lemma leaseEach_Cons:
  "leaseEach owner x n (i # ids) (token # tokens) s = Inr (items, u) \<longleftrightarrow>
   (\<exists>s1 item rest. mutateRows (\<lambda>r. obOutboxID r = i \<and> leaseable n r)
        (leaseRow owner token x n) s = Inr (1, s1) \<and>
      sqlFind (\<lambda>r. obOutboxID r = i) (outbox s1) = Some item \<and>
      leaseEach owner x n ids tokens s1 = Inr (rest, u) \<and> items = item # rest)"
  by (auto simp: succeeded split_paired_Ex)

lemma leaseEach_evolves:
  "leaseEach owner x n ids tokens s = Inr (items, t) \<Longrightarrow>
   evolves (\<lambda>e r. e = Claim) s t \<and> length (outbox t) = length (outbox s)"
proof (induction owner x n ids tokens s arbitrary: items t rule: leaseEach.induct)
  case (3 owner x n i ids token tokens s)
  from 3(2) obtain s1 item rest where
    mut: "mutateRows (\<lambda>r. obOutboxID r = i \<and> leaseable n r) (leaseRow owner token x n) s = Inr (1, s1)"
    and rest: "leaseEach owner x n ids tokens s1 = Inr (rest, t)"
    and found: "sqlFind (\<lambda>r. obOutboxID r = i) (outbox s1) = Some item"
    unfolding leaseEach_Cons by blast
  have 1: "evolves (\<lambda>e r. e = Claim) s s1"
    by (rule mutateRows_evolves [OF mut]) (auto intro: leaseRow_move)
  have len: "length (outbox s1) = length (outbox s)"
    using mut by (simp add: mutateRows_Inr)
  have "evolves (\<lambda>e r. e = Claim) s1 t" and len1: "length (outbox t) = length (outbox s1)"
    using 3(1) [OF _ found rest] by auto
  with 1 len len1 show ?case by (blast intro: evolves_trans_lease dest: trans)
qed (auto simp: failWith_def)

lemma leaseDue_Inr:
  assumes "leaseDue req tokens s = Inr (items, t)"
  shows "leaseEach (lqOwner req) (unixMilliOf (lqNow req + lqDuration req)) (unixMilliOf (lqNow req))
      (map obOutboxID (sqlTop (\<lambda>r. (coalesceDue r, obCreatedAtMS r, obOutboxID r))
         (nat (lqLimit req)) (filter (leaseable (unixMilliOf (lqNow req))) (outbox s)))) tokens s
    = Inr (items, t)"
    and "0 < unixMilliOf (lqNow req)"
    and "unixMilliOf (lqNow req) < unixMilliOf (lqNow req + lqDuration req)"
    and "\<not> blank (lqOwner req)" and "0 < lqLimit req"
  using assms by (simp_all add: leaseDue_def succeeded Let_def)

lemma evolves_mutateLeased:
  assumes "mutateLeased i P f s = Inr t"
    and "\<And>r. obOutboxID r = i \<Longrightarrow> P r \<Longrightarrow> \<exists>e. (e = Stay \<or> A e r) \<and> rowMove e r (f r)"
  shows "evolves A s t"
  using assms by (auto simp: mutateLeased_Inr intro: mutateRows_evolves)

lemma evolves_mutateState:
  assumes "mutateState i P f s = Inr t"
    and "\<And>r. obOutboxID r = i \<Longrightarrow> P r \<Longrightarrow> \<exists>e. (e = Stay \<or> A e r) \<and> rowMove e r (f r)"
  shows "evolves A s t"
  using assms by (auto simp: mutateState_Inr intro: mutateRows_evolves)

lemma leased_phase: "holdsLease k r \<Longrightarrow> phaseOf r = (if called r then InFlight else Leased)"
  by (simp add: phaseOf_def holdsLease_def)

lemma leased_moves:
  "holdsLease k r \<Longrightarrow> \<not> called r \<Longrightarrow>
     rowMove Call r (r\<lparr>obTransportCalledAtMS := Some n, obAttemptCount := obAttemptCount r + 1,
       obUpdatedAtMS := n\<rparr>)"
  "holdsLease k r \<Longrightarrow> called r \<Longrightarrow> rowMove Disproved r
     (clearLease (setOutboxError c d e r)\<lparr>obState := OutboxNotDispatched,
        obNextAttemptAtMS := at, obUpdatedAtMS := n\<rparr>)"
  "holdsLease k r \<Longrightarrow> \<not> called r \<Longrightarrow> rowMove Unclaim r
     (clearLease (setOutboxError c d e r)\<lparr>obState := OutboxNotDispatched,
        obNextAttemptAtMS := at, obUpdatedAtMS := n\<rparr>)"
  "holdsLease k r \<Longrightarrow> \<not> called r \<Longrightarrow>
     rowMove Unclaim r ((clearLease r)\<lparr>obState := OutboxQueued, obNextAttemptAtMS := None,
       obUpdatedAtMS := n\<rparr>)"
  "holdsLease k r \<Longrightarrow> called r \<Longrightarrow> rowMove Doubt r (finishRow OutboxUncertain n (setOutboxError c d e r))"
  "holdsLease k r \<Longrightarrow> called r \<Longrightarrow>
     rowMove Doubt r ((finishRow OutboxStoreFailed n r)\<lparr>obResultRemoteID := x, obErrorDetail := e\<rparr>)"
  "holdsLease k r \<Longrightarrow> rowMove Settle r (finishRow OutboxRejected n (setOutboxError c d e r))"
  "holdsLease k r \<Longrightarrow> rowMove Settle r (finishRow OutboxConfirmed n (setOutboxError c d e r))"
  "holdsLease k r \<Longrightarrow> rowMove Settle r
     ((finishRow OutboxConfirmed n (setOutboxError c d e r))\<lparr>obResultRemoteID := x\<rparr>)"
  by (auto simp: row_defs)

lemma evolves_confirm:
  assumes "confirm t t' c s = Inr u"
  shows "evolves (allowed (OpConfirm t t' c)) s u"
proof -
  let ?result = "if cfResultRemoteID c = [] then cfTransportResultID c else cfResultRemoteID c"
  from assms obtain s1 where
    mut: "mutateLeased (cfOutboxID c) (\<lambda>r. holdsLease (cfLeaseToken c) r \<and> called r)
          (\<lambda>r. (finishRow OutboxConfirmed (unixMilliOf t) (setOutboxError None None None r))
                 \<lparr>obResultRemoteID := Some ?result\<rparr>) s = Inr s1"
    and out: "outbox u = outbox s1"
    by (auto simp: confirm_def Let_def succeeded nowMS_Inr split: option.split_asm
        dest: repoint_outbox)
  have "evolves (allowed (OpConfirm t t' c)) s s1"
    by (rule evolves_mutateLeased [OF mut])
      (use leased_moves(9) in \<open>auto intro!: exI [of _ Settle]\<close>)
  then show ?thesis using out by (rule evolves_frame)
qed

lemma reconcileRepoint_outbox [frame]:
  "reconcileRepoint t row req s = Inr u \<Longrightarrow> outbox u = outbox s"
  by (simp add: reconcileRepoint_def repoint_outbox)

text \<open>How a reconciliation can have gone.\<close>

lemma reconcile_Inr:
  assumes "reconcileConfirm t t' req s = Inr (d, u)"
  obtains (unchanged) "u = s" and "d \<in> {ReconcileOutcomeNotFound, ReconcileOutcomeNoop}"
  | (reconciled) row s1 where "d = ReconcileOutcomeReconciled" and "row \<in> set (outbox s)"
      and "requestKey row = (rqAccountID req, rqTransportRequestID req)"
      and "mutateRows (\<lambda>r. obOutboxID r = obOutboxID row
                          \<and> obState r \<in> {OutboxUncertain, OutboxStoreFailed})
                  (\<lambda>r. (setOutboxError None None None r)\<lparr>obState := OutboxConfirmed,
                       obResultRemoteID := Some (rqResultRemoteID req), obNextAttemptAtMS := None,
                       obUpdatedAtMS := unixMilliOf t\<rparr>) s = Inr (1, s1)"
      and "(if awaitsRemoteID row req s then reconcileRepoint t' row req s1 else Inr s1) = Inr u"
  | (enriched) row s1 where "d = ReconcileOutcomeEnriched" and "row \<in> set (outbox s)"
      and "requestKey row = (rqAccountID req, rqTransportRequestID req)"
      and "mutateRows (\<lambda>r. obOutboxID r = obOutboxID row \<and> obState r = OutboxConfirmed
                            \<and> obResultRemoteID r = Some (obTransportRequestID r))
                     (\<lambda>r. (setOutboxError None None None r)
                          \<lparr>obResultRemoteID := Some (rqResultRemoteID req),
                           obUpdatedAtMS := unixMilliOf t\<rparr>) s = Inr (1, s1)"
      and "reconcileRepoint t' row req s1 = Inr u" and "awaitsRemoteID row req s"
proof -
  from assms have look: "(case sqlFind (\<lambda>r. obAccountID r = rqAccountID req
                        \<and> obTransportRequestID r = rqTransportRequestID req) (outbox s) of
          None \<Rightarrow> d = ReconcileOutcomeNotFound \<and> u = s
        | Some row \<Rightarrow> True)"
    by (auto simp: reconcileConfirm_def succeeded split: option.split_asm option.split)
  show ?thesis
  proof (cases "sqlFind (\<lambda>r. obAccountID r = rqAccountID req
                        \<and> obTransportRequestID r = rqTransportRequestID req) (outbox s)")
    case None
    with look have "u = s" and "d = ReconcileOutcomeNotFound" by simp_all
    then show ?thesis by (simp add: unchanged)
  next
    case (Some row)
    then have row: "row \<in> set (outbox s)"
      "requestKey row = (rqAccountID req, rqTransportRequestID req)"
      by (auto dest: sqlFind_Some)
    consider (amb) "obState row \<in> {OutboxUncertain, OutboxStoreFailed}"
      | (conf) "obState row = OutboxConfirmed"
      | (other) "obState row \<notin> {OutboxUncertain, OutboxStoreFailed, OutboxConfirmed}" by blast
    then show ?thesis
    proof cases
      case amb
      with assms Some row show ?thesis
        by (auto simp: reconcileConfirm_def succeeded nowMS_Inr split_paired_Ex
            intro!: reconciled [OF _ row])
    next
      case conf
      show ?thesis
      proof (cases "obResultRemoteID row = Some (rqResultRemoteID req) \<or> \<not> awaitsRemoteID row req s")
        case True
        with assms Some conf show ?thesis
          by (intro unchanged) (auto simp: reconcileConfirm_def succeeded split: if_split_asm)
      next
        case False
        with assms Some conf obtain k s1 where
          mut: "mutateRows (\<lambda>r. obOutboxID r = obOutboxID row \<and> obState r = OutboxConfirmed
                            \<and> obResultRemoteID r = Some (obTransportRequestID r))
                     (\<lambda>r. (setOutboxError None None None r)
                          \<lparr>obResultRemoteID := Some (rqResultRemoteID req),
                           obUpdatedAtMS := unixMilliOf t\<rparr>) s = Inr (k, s1)"
          and rest: "(if k = 0 then Inr (ReconcileOutcomeNoop, s)
                else if k \<noteq> 1 then failWith ''enrich affected rows, want 1''
                else thenDo (reconcileRepoint t' row req s1)
                  (\<lambda>s2. Inr (ReconcileOutcomeEnriched, s2))) = Inr (d, u)"
          by (auto simp: reconcileConfirm_def succeeded nowMS_Inr split_paired_Ex)
        show ?thesis
        proof (cases "k = 0")
          case True
          with rest show ?thesis by (intro unchanged) simp_all
        next
          case nz: False
          with rest have "k = 1" by (simp add: succeeded)
          with rest mut False row show ?thesis
            by (intro enriched [of row s1]) (simp_all add: thenDo_Inr)
        qed
      qed
    next
      case other
      with assms Some show ?thesis
        by (intro unchanged) (auto simp: reconcileConfirm_def succeeded)
    qed
  qed
qed

lemma distinct_id:
  "outboxOK s \<Longrightarrow> r \<in> set (outbox s) \<Longrightarrow> r' \<in> set (outbox s) \<Longrightarrow> obOutboxID r = obOutboxID r' \<Longrightarrow> r = r'"
  by (auto simp: outboxOK_def dest: distinct_key_inj)

text \<open>A variant of \<open>mutateRows_evolves\<close> that may use that the row is in the table.\<close>

lemma mutateRows_evolves_in:
  assumes "mutateRows P f s = Inr (k, t)"
    and "\<And>r. r \<in> set (outbox s) \<Longrightarrow> P r \<Longrightarrow> \<exists>e. (e = Stay \<or> A e r) \<and> rowMove e r (f r)"
  shows "evolves A s t"
proof -
  have "outbox t = map (\<lambda>r. if P r then f r else r) (outbox s) @ []"
    using assms(1) by (simp add: mutateRows_Inr sqlUpdate_def)
  moreover have "\<exists>e. (e = Stay \<or> A e r) \<and> rowMove e r (if P r then f r else r)"
    if "r \<in> set (outbox s)" for r
    using assms(2) [OF that] by (auto intro: exI [of _ Stay])
  ultimately show ?thesis
    unfolding evolves_def
    by (intro exI [of _ "\<lambda>r. if P r then f r else r"] exI [of _ "[]"]) simp
qed

lemma evolves_reconcile:
  assumes "reconcileConfirm t t' req s = Inr (d, u)" and "outboxOK s"
  shows "evolves (allowed (OpReconcile t t' req)) s u"
  using assms(1)
proof (cases rule: reconcile_Inr)
  case unchanged
  then show ?thesis by simp
next
  case (reconciled row s1)
  have "evolves (allowed (OpReconcile t t' req)) s s1"
    by (rule mutateRows_evolves_in [OF reconciled(4)], rule exI [of _ Settle])
      (use reconciled(2,3) distinct_id [OF assms(2)] in \<open>auto simp: row_defs\<close>)
  moreover have "outbox u = outbox s1"
    using reconciled(5) by (auto split: if_splits dest: reconcileRepoint_outbox)
  ultimately show ?thesis by (rule evolves_frame)
next
  case (enriched row s1)
  have "evolves (allowed (OpReconcile t t' req)) s s1"
    by (rule mutateRows_evolves_in [OF enriched(4)], rule exI [of _ Stay])
      (auto simp: row_defs)
  then show ?thesis using reconcileRepoint_outbox [OF enriched(5)] by (rule evolves_frame)
qed

text \<open>Recovery is one pass over the table.\<close>

definition recoverRow :: "int \<Rightarrow> outbox_item \<Rightarrow> outbox_item" where
  "recoverRow n r =
     (if \<not> expired n r then r
      else if called r then finishRow OutboxUncertain n r
      else (clearLease r)\<lparr>obState := OutboxNotDispatched, obNextAttemptAtMS := Some n,
             obUpdatedAtMS := n\<rparr>)"

lemma recover_Inr:
  assumes "recoverExpiredLeases t s = Inr (c, u)"
  shows "u = s\<lparr>outbox := map (recoverRow (unixMilliOf t)) (outbox s)\<rparr>"
    and "rlNotDispatched c = sqlCount (\<lambda>r. expired (unixMilliOf t) r \<and> \<not> called r) (outbox s)"
    and "rlUncertain c = sqlCount (\<lambda>r. expired (unixMilliOf t) r \<and> called r) (outbox s)"
    and "0 < unixMilliOf t"
    and "\<forall>r \<in> set (outbox s). expired (unixMilliOf t) r \<longrightarrow> outboxRowOK (recoverRow (unixMilliOf t) r)"
proof -
  let ?n = "unixMilliOf t"
  let ?pre = "\<lambda>r. expired ?n r \<and> \<not> called r"
  let ?post = "\<lambda>r. expired ?n r \<and> called r"
  let ?f = "\<lambda>r. (clearLease r)\<lparr>obState := OutboxNotDispatched, obNextAttemptAtMS := Some ?n,
                 obUpdatedAtMS := ?n\<rparr>"
  let ?upd = "sqlUpdate ?pre ?f (outbox s)"
  have f: "\<not> ?post (?f r)" for r by (simp add: expired_def)
  from assms obtain k s1 k' where n: "0 < ?n" and 1: "mutateRows ?pre ?f s = Inr (k, s1)"
    and 2: "mutateRows ?post (finishRow OutboxUncertain ?n) s1 = Inr (k', u)"
    and c: "c = \<lparr>rlNotDispatched = k, rlUncertain = k'\<rparr>"
    by (auto simp: recoverExpiredLeases_def Let_def succeeded split_paired_Ex)
  from 1 have s1: "s1 = s\<lparr>outbox := ?upd\<rparr>" by (simp add: mutateRows_Inr)
  have pass: "sqlUpdate ?post (finishRow OutboxUncertain ?n) ?upd = map (recoverRow ?n) (outbox s)"
    using f by (auto simp: sqlUpdate_def recoverRow_def)
  with 2 show "u = s\<lparr>outbox := map (recoverRow ?n) (outbox s)\<rparr>"
    by (simp add: mutateRows_Inr s1)
  show "rlNotDispatched c = sqlCount ?pre (outbox s)" using 1 by (simp add: c mutateRows_Inr)
  have "filter ?post (sqlUpdate ?pre ?f rows) = filter ?post rows" for rows
    using f by (induction rows) auto
  with 2 show "rlUncertain c = sqlCount ?post (outbox s)"
    by (simp add: c mutateRows_Inr s1 sqlCount_def)
  show "0 < ?n" by (rule n)
  have "?post r \<longrightarrow> outboxRowOK (finishRow OutboxUncertain ?n r)" if "r \<in> set (outbox s)" for r
    using 2 that by (auto simp: mutateRows_Inr s1 set_sqlUpdate)
  moreover have "?pre r \<longrightarrow> outboxRowOK (?f r)" if "r \<in> set (outbox s)" for r
    using 1 that by (simp add: mutateRows_Inr)
  ultimately show "\<forall>r \<in> set (outbox s). expired ?n r \<longrightarrow> outboxRowOK (recoverRow ?n r)"
    by (simp add: recoverRow_def)
qed

lemma recoverRow_moves: "\<exists>e. (e = Stay \<or> e = Unclaim \<or> e = Doubt) \<and> rowMove e r (recoverRow n r)"
proof (cases "expired n r")
  case True
  then have "rowMove (if called r then Doubt else Unclaim) r (recoverRow n r)"
    by (auto simp: recoverRow_def row_defs)
  then show ?thesis by (cases "called r") auto
qed (auto simp: recoverRow_def intro: exI [of _ Stay])

lemma evolves_recover:
  assumes "recoverExpiredLeases t s = Inr (c, u)"
  shows "evolves (allowed (OpRecover t)) s u"
  unfolding evolves_def
  by (intro exI [of _ "recoverRow (unixMilliOf t)"] exI [of _ "[]"])
    (simp add: recover_Inr(1) [OF assms] recoverRow_moves)

lemma runOp_evolves:
  assumes "runOp op s = Inr t" and "outboxOK s"
  shows "evolves (allowed op) s t"
proof (cases op)
  case (OpEnqueue x item m c)
  with assms(1) show ?thesis by (auto simp: thenDo_Inr evolves_enqueue)
next
  case (OpLease req tokens)
  then show ?thesis
    using assms(1) leaseEach_evolves [OF leaseDue_Inr(1)]
    by (auto simp: thenDo_Inr evolves_def)
next
  case (OpCalled x i k)
  with assms(1) have "mutateLeased i (\<lambda>r. holdsLease k r \<and>
       (case obLeaseExpiresAtMS r of None \<Rightarrow> False | Some e \<Rightarrow> unixMilliOf x < e) \<and> \<not> called r)
     (\<lambda>r. r\<lparr>obTransportCalledAtMS := Some (unixMilliOf x), obAttemptCount := obAttemptCount r + 1,
            obUpdatedAtMS := unixMilliOf x\<rparr>) s = Inr t"
    by (auto simp: markTransportCalled_def succeeded nowMS_Inr)
  then show ?thesis
    by (rule evolves_mutateLeased) (use OpCalled leased_moves(1) in \<open>auto intro!: exI [of _ Call]\<close>)
next
  case (OpNotDispatched b x i k c d e at)
  then have "mutateLeased i (\<lambda>r. holdsLease k r \<and> called r = b)
     (\<lambda>r. clearLease (setOutboxError (nullableOutboxText c) (nullableOutboxText d)
            (nullableOutboxText e) r)\<lparr>obState := OutboxNotDispatched,
          obNextAttemptAtMS := Some (unixMilliOf at), obUpdatedAtMS := unixMilliOf x\<rparr>) s = Inr t"
    using assms(1) by (auto simp: markNotDispatchedAs_def succeeded nowMS_Inr)
  then show ?thesis
    by (rule evolves_mutateLeased)
      (use OpNotDispatched leased_moves(2,3) in
        \<open>auto intro!: exI [of _ "if b then Disproved else Unclaim"]\<close>)
next
  case (OpRelease x i k)
  with assms(1) have "mutateLeased i (\<lambda>r. holdsLease k r \<and> \<not> called r)
     (\<lambda>r. (clearLease r)\<lparr>obState := OutboxQueued, obNextAttemptAtMS := None,
            obUpdatedAtMS := unixMilliOf x\<rparr>) s = Inr t"
    by (auto simp: releaseUnavailable_def succeeded nowMS_Inr)
  then show ?thesis
    by (rule evolves_mutateLeased) (use OpRelease leased_moves(4) in \<open>auto intro!: exI [of _ Unclaim]\<close>)
next
  case (OpRetry x i)
  with assms(1) have "mutateState i (\<lambda>r. obState r = OutboxNotDispatched)
     (\<lambda>r. r\<lparr>obNextAttemptAtMS := Some (unixMilliOf x), obUpdatedAtMS := unixMilliOf x\<rparr>) s = Inr t"
    by (auto simp: retryNotDispatched_def succeeded nowMS_Inr)
  then show ?thesis
    by (rule evolves_mutateState) (auto simp: row_defs intro!: exI [of _ Stay])
next
  case (OpCancel x i)
  with assms(1) have "mutateState i (\<lambda>r. waitingState (obState r))
     (\<lambda>r. r\<lparr>obState := OutboxCanceled, obNextAttemptAtMS := None, obUpdatedAtMS := unixMilliOf x\<rparr>) s
     = Inr t"
    by (auto simp: cancelOutbox_def succeeded nowMS_Inr)
  then show ?thesis
    by (rule evolves_mutateState) (use OpCancel in \<open>auto simp: row_defs intro!: exI [of _ Settle]\<close>)
next
  case (OpUncertain x i k c d e)
  with assms(1) have "mutateLeased i (\<lambda>r. holdsLease k r \<and> called r)
     (\<lambda>r. finishRow OutboxUncertain (unixMilliOf x) (setOutboxError (nullableOutboxText c)
            (nullableOutboxText d) (nullableOutboxText e) r)) s = Inr t"
    by (auto simp: markUncertain_def succeeded nowMS_Inr)
  then show ?thesis
    by (rule evolves_mutateLeased) (use OpUncertain leased_moves(5) in \<open>auto intro!: exI [of _ Doubt]\<close>)
next
  case (OpReject x i k c d e)
  with assms(1) have "mutateLeased i (holdsLease k)
     (\<lambda>r. finishRow OutboxRejected (unixMilliOf x) (setOutboxError (nullableOutboxText c)
            (nullableOutboxText d) (nullableOutboxText e) r)) s = Inr t"
    by (auto simp: rejectOutbox_def succeeded nowMS_Inr)
  then show ?thesis
    by (rule evolves_mutateLeased) (use OpReject leased_moves(7) in \<open>auto intro!: exI [of _ Settle]\<close>)
next
  case (OpConfirmNoResult x i k)
  with assms(1) have "mutateLeased i (\<lambda>r. holdsLease k r \<and> called r)
     (\<lambda>r. finishRow OutboxConfirmed (unixMilliOf x) (setOutboxError None None None r)) s = Inr t"
    by (auto simp: confirmWithoutResult_def succeeded nowMS_Inr)
  then show ?thesis
    by (rule evolves_mutateLeased)
      (use OpConfirmNoResult leased_moves(8) in \<open>auto intro!: exI [of _ Settle]\<close>)
next
  case (OpStoreFailed x i k y d)
  with assms(1) have "mutateLeased i (\<lambda>r. holdsLease k r \<and> called r)
     (\<lambda>r. (finishRow OutboxStoreFailed (unixMilliOf x) r)\<lparr>obResultRemoteID := Some y,
            obErrorDetail := nullableOutboxText d\<rparr>) s = Inr t"
    by (auto simp: markStoreFailed_def succeeded nowMS_Inr)
  then show ?thesis
    by (rule evolves_mutateLeased) (use OpStoreFailed leased_moves(6) in \<open>auto intro!: exI [of _ Doubt]\<close>)
qed (use assms evolves_confirm evolves_reconcile evolves_recover in \<open>auto simp: thenDo_Inr\<close>)


section \<open>Every operation keeps the table well formed\<close>

lemma outboxOK_frame: "outbox t = outbox s \<Longrightarrow> outboxOK t = outboxOK s"
  by (simp add: outboxOK_def)

lemma mutateLeased_OK:
  "mutateLeased i P f s = Inr t \<Longrightarrow> outboxOK s \<Longrightarrow> (\<And>r. sameIntent r (f r)) \<Longrightarrow> outboxOK t"
  by (auto simp: mutateLeased_Inr intro: mutateRows_OK)

lemma mutateState_OK:
  "mutateState i P f s = Inr t \<Longrightarrow> outboxOK s \<Longrightarrow> (\<And>r. sameIntent r (f r)) \<Longrightarrow> outboxOK t"
  by (auto simp: mutateState_Inr intro: mutateRows_OK)

lemma insertOutboxRow_OK:
  assumes "insertOutboxRow r s = Inr (1, t)" and "outboxOK s"
  shows "outboxOK t"
  using insertOutboxRow_one [OF assms(1)] assms(2)
  by (auto simp: outboxOK_def hasOutbox_def sqlExists_iff)

lemma enqueue_OK:
  assumes "enqueue t item m c s = Inr (row, d, s')" and "outboxOK s"
  shows "outboxOK s'"
  using assms(1)
proof (cases rule: enqueue_Inr)
  case (inserted n sch s1)
  from insertOutboxRow_OK [OF inserted(5) assms(2)] show ?thesis
    unfolding outboxOK_frame [OF enqueueInserted_outbox [OF inserted(6)]] .
qed (use assms(2) in simp)

lemma leaseEach_OK:
  "leaseEach owner x n ids tokens s = Inr (items, t) \<Longrightarrow> outboxOK s \<Longrightarrow> outboxOK t"
proof (induction owner x n ids tokens s arbitrary: items t rule: leaseEach.induct)
  case (3 owner x n i ids token tokens s)
  from 3(2) obtain s1 item rest where
    mut: "mutateRows (\<lambda>r. obOutboxID r = i \<and> leaseable n r) (leaseRow owner token x n) s = Inr (1, s1)"
    and rest: "leaseEach owner x n ids tokens s1 = Inr (rest, t)"
    and found: "sqlFind (\<lambda>r. obOutboxID r = i) (outbox s1) = Some item"
    unfolding leaseEach_Cons by blast
  have "outboxOK s1" by (rule mutateRows_OK [OF mut 3(3)]) (simp add: row_defs)
  with 3(1) [OF _ found rest] show ?case by auto
qed (auto simp: failWith_def)

lemma confirm_OK:
  assumes "confirm t t' c s = Inr u" and "outboxOK s"
  shows "outboxOK u"
proof -
  let ?result = "if cfResultRemoteID c = [] then cfTransportResultID c else cfResultRemoteID c"
  from assms(1) obtain s1 where
    mut: "mutateLeased (cfOutboxID c) (\<lambda>r. holdsLease (cfLeaseToken c) r \<and> called r)
          (\<lambda>r. (finishRow OutboxConfirmed (unixMilliOf t) (setOutboxError None None None r))
                 \<lparr>obResultRemoteID := Some ?result\<rparr>) s = Inr s1"
    and out: "outbox u = outbox s1"
    by (auto simp: confirm_def Let_def succeeded nowMS_Inr split: option.split_asm
        dest: repoint_outbox)
  from mutateLeased_OK [OF mut assms(2)] show ?thesis
    unfolding outboxOK_frame [OF out] by (simp add: row_defs)
qed

lemma reconcile_OK:
  assumes "reconcileConfirm t t' req s = Inr (d, u)" and "outboxOK s"
  shows "outboxOK u"
  using assms(1)
proof (cases rule: reconcile_Inr)
  case unchanged
  with assms(2) show ?thesis by simp
next
  case (reconciled row s1)
  have "outboxOK s1" by (rule mutateRows_OK [OF reconciled(4) assms(2)]) (simp add: row_defs)
  moreover have out: "outbox u = outbox s1"
    using reconciled(5) by (auto split: if_splits dest: reconcileRepoint_outbox)
  ultimately show ?thesis unfolding outboxOK_frame [OF out] by simp
next
  case (enriched row s1)
  have "outboxOK s1" by (rule mutateRows_OK [OF enriched(4) assms(2)]) (simp add: row_defs)
  then show ?thesis unfolding outboxOK_frame [OF reconcileRepoint_outbox [OF enriched(5)]] .
qed

lemma recoverRow_intent: "sameIntent r (recoverRow n r)"
  using recoverRow_moves [of r n] by (auto simp: rowMove_def)

lemma map_same_key: "(\<And>x. k (g x) = k x) \<Longrightarrow> map k (map g xs) = map k xs"
  by simp

lemma outboxOK_update:
  assumes "outboxOK s" and "outbox t = map g (outbox s)"
    and "\<And>r. sameIntent r (g r)" and "\<And>r. r \<in> set (outbox s) \<Longrightarrow> outboxRowOK (g r)"
  shows "outboxOK t"
proof -
  have keys: "map obOutboxID (outbox t) = map obOutboxID (outbox s)"
    "map intentKey (outbox t) = map intentKey (outbox s)"
    "map requestKey (outbox t) = map requestKey (outbox s)"
    unfolding assms(2) using assms(3) by (auto simp: sameIntent_def intro!: map_same_key simp del: map_map)
  show ?thesis
    using assms(1,4) unfolding outboxOK_def keys by (simp add: assms(2))
qed

lemma recover_OK:
  assumes "recoverExpiredLeases t s = Inr (c, u)" and "outboxOK s"
  shows "outboxOK u"
proof (rule outboxOK_update [OF assms(2)])
  show "outbox u = map (recoverRow (unixMilliOf t)) (outbox s)"
    by (simp add: recover_Inr(1) [OF assms(1)])
  show "outboxRowOK (recoverRow (unixMilliOf t) r)" if "r \<in> set (outbox s)" for r
    using recover_Inr(5) [OF assms(1)] that assms(2)
    by (cases "expired (unixMilliOf t) r") (auto simp: outboxOK_def recoverRow_def)
qed (rule recoverRow_intent)

lemma runOp_OK [preserves]:
  assumes "runOp op s = Inr t" and "outboxOK s"
  shows "outboxOK t"
proof (cases op)
  case (OpLease req tokens)
  with assms show ?thesis
    by (auto simp: thenDo_Inr dest: leaseDue_Inr(1) leaseEach_OK)
next
  case (OpCalled x i k)
  with assms show ?thesis
    by (auto simp: markTransportCalled_def succeeded row_defs intro: mutateLeased_OK [OF _ assms(2)])
next
  case (OpNotDispatched b x i k c d e at)
  with assms show ?thesis
    by (auto simp: markNotDispatchedAs_def succeeded row_defs intro: mutateLeased_OK [OF _ assms(2)])
next
  case (OpRelease x i k)
  with assms show ?thesis
    by (auto simp: releaseUnavailable_def succeeded row_defs intro: mutateLeased_OK [OF _ assms(2)])
next
  case (OpRetry x i)
  with assms show ?thesis
    by (auto simp: retryNotDispatched_def succeeded row_defs intro: mutateState_OK [OF _ assms(2)])
next
  case (OpCancel x i)
  with assms show ?thesis
    by (auto simp: cancelOutbox_def succeeded row_defs intro: mutateState_OK [OF _ assms(2)])
next
  case (OpUncertain x i k c d e)
  with assms show ?thesis
    by (auto simp: markUncertain_def succeeded row_defs intro: mutateLeased_OK [OF _ assms(2)])
next
  case (OpReject x i k c d e)
  with assms show ?thesis
    by (auto simp: rejectOutbox_def succeeded row_defs intro: mutateLeased_OK [OF _ assms(2)])
next
  case (OpConfirmNoResult x i k)
  with assms show ?thesis
    by (auto simp: confirmWithoutResult_def succeeded row_defs intro: mutateLeased_OK [OF _ assms(2)])
next
  case (OpStoreFailed x i k y d)
  with assms show ?thesis
    by (auto simp: markStoreFailed_def succeeded row_defs intro: mutateLeased_OK [OF _ assms(2)])
qed (use assms in \<open>auto simp: thenDo_Inr dest: enqueue_OK confirm_OK reconcile_OK recover_OK\<close>)

end
