(* ===== verification/Outbox_History.thy ===== *)
theory Outbox_History
  imports Outbox_Safety
begin

text \<open>
  Histories of outbox calls and what they do to one intent: the operations as a state machine
  (an interpretation of \<open>machine\<close>), the later life of a row, the count of its transport calls,
  the exact effect of a lease, the refusal of foreign tokens, and the inversion rules of
  enqueue, confirmation and reconciliation that the properties of \<open>Outbox_Correct\<close> rest on.
\<close>

section \<open>Histories\<close>

text \<open>
  A history is a sequence of calls, of any mixture of callers. A call that fails is rolled
  back, so that its effect is the identity.
\<close>

definition applyOp :: "outbox_op \<Rightarrow> store \<Rightarrow> store" where
  "applyOp op s = (case runOp op s of Inl e \<Rightarrow> s | Inr t \<Rightarrow> t)"

fun runAll :: "outbox_op list \<Rightarrow> store \<Rightarrow> store" where
  "runAll [] s = s"
| "runAll (op # ops) s = runAll ops (applyOp op s)"

definition succeeds :: "outbox_op \<Rightarrow> store \<Rightarrow> bool" where
  "succeeds op s = (case runOp op s of Inl e \<Rightarrow> False | Inr t \<Rightarrow> True)"

text \<open>How often an intent was marked as called, and how often a call was disproved.\<close>

fun marksCall :: "string \<Rightarrow> outbox_op \<Rightarrow> bool" where
  "marksCall i (OpCalled t j k) = (j = i)"
| "marksCall i _ = False"

fun disprovesCall :: "string \<Rightarrow> outbox_op \<Rightarrow> bool" where
  "disprovesCall i (OpNotDispatched b t j k c d e at) = (b \<and> j = i)"
| "disprovesCall i _ = False"

fun tally :: "(outbox_op \<Rightarrow> bool) \<Rightarrow> outbox_op list \<Rightarrow> store \<Rightarrow> int" where
  "tally P [] s = 0"
| "tally P (op # ops) s = (if P op \<and> succeeds op s then 1 else 0) + tally P ops (applyOp op s)"

definition outboxStart :: "store \<Rightarrow> bool" where
  "outboxStart s \<longleftrightarrow> outbox s = []"

definition outboxStep :: "store \<Rightarrow> store \<Rightarrow> bool" where
  "outboxStep s t \<longleftrightarrow> (\<exists>op. t = applyOp op s)"

lemma applyOp_OK: "outboxOK s \<Longrightarrow> outboxOK (applyOp op s)"
  by (auto simp: applyOp_def split: sum.split intro: runOp_OK)

interpretation ob: machine outboxStart outboxStep outboxOK
proof unfold_locales
  show "outboxOK s" if "outboxStart s" for s
    using that by (simp add: outboxStart_def outboxOK_def)
  show "outboxOK t" if "outboxOK s" and "outboxStep s t" for s t
    using that by (auto simp: outboxStep_def applyOp_OK)
qed

lemma runAll_steps: "outboxStep\<^sup>*\<^sup>* s (runAll ops s)"
proof (induction ops arbitrary: s)
  case (Cons op ops)
  have "outboxStep s (applyOp op s)" by (auto simp: outboxStep_def)
  with Cons show ?case by (auto intro: converse_rtranclp_into_rtranclp)
qed simp

lemma runAll_OK: "outboxOK s \<Longrightarrow> outboxOK (runAll ops s)"
  by (rule ob.steps_inv [OF runAll_steps])

lemma applyOp_evolves: "outboxOK s \<Longrightarrow> evolves (allowed op) s (applyOp op s)"
  by (auto simp: applyOp_def split: sum.split intro: runOp_evolves)

section \<open>What a history does to one intent\<close>

lemma applyOp_row:
  assumes "outboxOK s" and "r \<in> set (outbox s)"
  obtains r' e where "r' \<in> set (outbox (applyOp op s))" and "e = Stay \<or> allowed op e r"
    and "rowMove e r r'"
proof -
  from applyOp_evolves [OF assms(1), of op] obtain h new where
    t: "outbox (applyOp op s) = map h (outbox s) @ new"
    and m: "\<forall>r \<in> set (outbox s). \<exists>e. (e = Stay \<or> allowed op e r) \<and> rowMove e r (h r)"
    unfolding evolves_def by blast
  from m assms(2) obtain e where "e = Stay \<or> allowed op e r" "rowMove e r (h r)" by blast
  moreover have "h r \<in> set (outbox (applyOp op s))" using t assms(2) by simp
  ultimately show ?thesis using that by blast
qed

lemma applyOp_new:
  assumes "outboxOK s" and "r' \<in> set (outbox (applyOp op s))" and "\<not> hasOutbox (obOutboxID r') s"
  shows "phaseOf r' = Waiting \<and> obAttemptCount r' = 0"
proof -
  from applyOp_evolves [OF assms(1), of op] obtain h new where
    t: "outbox (applyOp op s) = map h (outbox s) @ new"
    and m: "\<forall>r \<in> set (outbox s). \<exists>e. rowMove e r (h r)"
    and n: "\<forall>r \<in> set new. phaseOf r = Waiting \<and> obAttemptCount r = 0"
    unfolding evolves_def by blast
  have "r' \<notin> set (map h (outbox s))"
    using m assms(3) by (auto simp: hasOutbox_def sqlExists_iff rowMove_def sameIntent_def)
  with t n assms(2) show ?thesis by auto
qed

text \<open>The later life of an intent, step by step and over a whole history.\<close>

definition later :: "outbox_item \<Rightarrow> outbox_item \<Rightarrow> bool" where
  "later r r' \<longleftrightarrow> sameIntent r r' \<and> obAttemptCount r \<le> obAttemptCount r' \<and>
     (phaseOf r = Settled \<longrightarrow> phaseOf r' = Settled) \<and>
     (phaseOf r \<in> {Ambiguous, Settled} \<longrightarrow>
        phaseOf r' \<in> {Ambiguous, Settled} \<and> obAttemptCount r' = obAttemptCount r)"

lemma later_refl [simp]: "later r r"
  by (simp add: later_def)

lemma later_trans: "later r r' \<Longrightarrow> later r' r'' \<Longrightarrow> later r r''"
  by (auto simp: later_def intro: sameIntent_trans)

lemma rowMove_later: "rowMove e r r' \<Longrightarrow> later r r'"
  by (auto simp: rowMove_def later_def elim: phaseStep.cases)

lemma applyOp_later:
  assumes "outboxOK s" and "r \<in> set (outbox s)"
  shows "\<exists>r' \<in> set (outbox (applyOp op s)). later r r'"
  by (rule applyOp_row [OF assms, of op]) (blast intro: rowMove_later)

lemma runAll_later:
  "outboxOK s \<Longrightarrow> r \<in> set (outbox s) \<Longrightarrow> \<exists>r' \<in> set (outbox (runAll ops s)). later r r'"
proof (induction ops arbitrary: s r)
  case (Cons op ops)
  from applyOp_later [OF Cons.prems] obtain r1 where
    r1: "r1 \<in> set (outbox (applyOp op s))" "later r r1" by blast
  from Cons.IH [OF applyOp_OK [OF Cons.prems(1)] r1(1)] r1(2) show ?case
    by (auto intro: later_trans)
qed (auto intro: later_refl)

section \<open>The number of transport calls\<close>

text \<open>
  The bound of one intent: its attempts are the calls so far, and of these all but the last
  are disproved, the last too unless the intent is in flight or beyond.
\<close>

definition callsAccounted :: "string \<Rightarrow> int \<Rightarrow> int \<Rightarrow> store \<Rightarrow> bool" where
  "callsAccounted i c d s \<longleftrightarrow> outboxOK s \<and>
     (if hasOutbox i s
      then \<forall>r \<in> set (outbox s). obOutboxID r = i \<longrightarrow> obAttemptCount r = c \<and>
             c \<le> d + (if phaseOf r \<in> {Waiting, Leased} then 0 else 1)
      else c = 0 \<and> 0 \<le> d)"


lemma marksCall_iff: "allowed op Call r \<Longrightarrow> marksCall (obOutboxID r) op"
  by (cases op) (auto split: if_splits)

lemma disprovesCall_iff: "allowed op Disproved r \<Longrightarrow> disprovesCall (obOutboxID r) op"
  by (cases op) (auto split: if_splits)

lemma called_once:
  assumes "marksCall i op" and "runOp op s = Inr t" and "outboxOK s"
  shows "\<exists>r \<in> set (outbox s). obOutboxID r = i \<and>
     (\<exists>r' \<in> set (outbox t). obOutboxID r' = i \<and> obAttemptCount r' = obAttemptCount r + 1)"
proof -
  from assms(1) obtain x k where op: "op = OpCalled x i k" by (cases op) auto
  let ?P = "\<lambda>r. obOutboxID r = i \<and> holdsLease k r \<and>
    (case obLeaseExpiresAtMS r of None \<Rightarrow> False | Some e \<Rightarrow> unixMilliOf x < e) \<and> \<not> called r"
  let ?f = "\<lambda>r. r\<lparr>obTransportCalledAtMS := Some (unixMilliOf x),
    obAttemptCount := obAttemptCount r + 1, obUpdatedAtMS := unixMilliOf x\<rparr>"
  from assms(2) have mut: "mutateRows ?P ?f s = Inr (1, t)"
    by (auto simp: op markTransportCalled_def succeeded nowMS_Inr mutateLeased_Inr)
  then have "sqlCount ?P (outbox s) \<noteq> 0" by (simp add: mutateRows_Inr)
  then obtain r where r: "r \<in> set (outbox s)" "?P r" by (auto simp: sqlCount_0 sqlExists_iff)
  with mut have "?f r \<in> set (outbox t)"
    by (auto simp: mutateRows_Inr set_sqlUpdate image_iff intro!: bexI [of _ r])
  with r show ?thesis by (intro bexI [of _ r] conjI bexI [of _ "?f r"]) auto
qed

lemma applyOp_failed: "\<not> succeeds op s \<Longrightarrow> applyOp op s = s"
  by (simp add: succeeds_def applyOp_def split: sum.splits)

lemma applyOp_runOp: "succeeds op s \<Longrightarrow> runOp op s = Inr (applyOp op s)"
  by (simp add: succeeds_def applyOp_def split: sum.splits)

lemma callsAccounted_row:
  assumes "callsAccounted i c d s" and "succeeds op s"
    and r: "r \<in> set (outbox s)" "obOutboxID r = i"
    and r': "r' \<in> set (outbox (applyOp op s))" "obOutboxID r' = i"
  shows "obAttemptCount r' = c + (if marksCall i op then 1 else 0)"
    and "obAttemptCount r' \<le> d + (if disprovesCall i op then 1 else 0)
          + (if phaseOf r' \<in> {Waiting, Leased} then 0 else 1)"
proof -
  from assms(1) have ok: "outboxOK s" by (simp add: callsAccounted_def)
  note ok' = applyOp_OK [OF ok, of op]
  have c: "obAttemptCount r = c" and bound: "c \<le> d + (if phaseOf r \<in> {Waiting, Leased} then 0 else 1)"
    using assms(1) r by (auto simp: callsAccounted_def hasOutbox_def sqlExists_iff split: if_splits)
  obtain r1 e where r1: "r1 \<in> set (outbox (applyOp op s))" "e = Stay \<or> allowed op e r"
    and move: "rowMove e r r1"
    by (rule applyOp_row [OF ok r(1)])
  have "r1 = r'"
    using distinct_id [OF ok' r1(1) r'(1)] move r(2) r'(2) by (simp add: rowMove_def sameIntent_def)
  with move have cnt: "obAttemptCount r' = c + (if e = Call then 1 else 0)"
    and ph: "phaseStep (phaseOf r) e (phaseOf r')"
    by (simp_all add: rowMove_def c)
  have "e = Call \<longleftrightarrow> marksCall i op"
  proof
    assume "e = Call"
    with r1(2) marksCall_iff [of op r] r(2) show "marksCall i op" by simp
  next
    assume "marksCall i op"
    from called_once [OF this applyOp_runOp [OF assms(2)] ok] have "obAttemptCount r' = c + 1"
      using distinct_id [OF ok _ r(1)] distinct_id [OF ok' _ r'(1)] r(2) r'(2) c by auto
    with cnt show "e = Call" by (simp split: if_splits)
  qed
  with cnt show att: "obAttemptCount r' = c + (if marksCall i op then 1 else 0)" by simp
  have dis: "e = Disproved \<Longrightarrow> disprovesCall i op"
    using r1(2) disprovesCall_iff [of op r] r(2) by auto
  show "obAttemptCount r' \<le> d + (if disprovesCall i op then 1 else 0)
          + (if phaseOf r' \<in> {Waiting, Leased} then 0 else 1)"
    using ph dis bound cnt by (cases rule: phaseStep.cases) (auto split: if_splits)
qed

lemma callsAccounted_step:
  assumes "callsAccounted i c d s"
  shows "callsAccounted i (c + (if marksCall i op \<and> succeeds op s then 1 else 0))
     (d + (if disprovesCall i op \<and> succeeds op s then 1 else 0)) (applyOp op s)"
proof (cases "succeeds op s")
  case False
  with assms show ?thesis by (simp add: applyOp_failed)
next
  case True
  from assms have ok: "outboxOK s" by (simp add: callsAccounted_def)
  note ok' = applyOp_OK [OF ok, of op]
  show ?thesis
  proof (cases "hasOutbox i s")
    case has: True
    then obtain r where r: "r \<in> set (outbox s)" "obOutboxID r = i"
      by (auto simp: hasOutbox_def sqlExists_iff)
    from applyOp_later [OF ok r(1), of op] r(2) have "hasOutbox i (applyOp op s)"
      by (auto simp: hasOutbox_def sqlExists_iff later_def sameIntent_def)
    then show ?thesis
      using callsAccounted_row [OF assms True r] ok' True by (auto simp: callsAccounted_def)
  next
    case fresh: False
    with assms have c: "c = 0" "0 \<le> d" by (simp_all add: callsAccounted_def)
    have "\<not> marksCall i op"
      using called_once [OF _ applyOp_runOp [OF True] ok] fresh
      by (auto simp: hasOutbox_def sqlExists_iff)
    with c ok' True applyOp_new [OF ok, of _ op] fresh show ?thesis
      by (auto simp: callsAccounted_def hasOutbox_def sqlExists_iff)
  qed
qed

lemma runAll_callsAccounted:
  "callsAccounted i c d s \<Longrightarrow>
   callsAccounted i (c + tally (marksCall i) ops s) (d + tally (disprovesCall i) ops s) (runAll ops s)"
proof (induction ops arbitrary: c d s)
  case (Cons op ops)
  from Cons.IH [OF callsAccounted_step [OF Cons.prems, of op]] show ?case
    by (simp add: algebra_simps)
qed simp

section \<open>What leasing does\<close>

definition leasedAs :: "string \<Rightarrow> int \<Rightarrow> int \<Rightarrow> (string \<times> string) list \<Rightarrow> outbox_item \<Rightarrow> outbox_item" where
  "leasedAs owner x n claims r =
     (case map_of claims (obOutboxID r) of None \<Rightarrow> r | Some token \<Rightarrow> leaseRow owner token x n r)"

lemma leasedAs_id [simp]: "obOutboxID (leasedAs owner x n claims r) = obOutboxID r"
  by (simp add: leasedAs_def leaseRow_def setOutboxError_def split: option.split)

lemma leasedAs_other: "obOutboxID r \<notin> fst ` set claims \<Longrightarrow> leasedAs owner x n claims r = r"
  by (simp add: leasedAs_def map_of_eq_None_iff [THEN iffD2])

lemma leaseRow_id [simp]: "obOutboxID (leaseRow owner token x n r) = obOutboxID r"
  by (simp add: leaseRow_def setOutboxError_def)

lemma leasedAs_Cons:
  assumes "i \<notin> fst ` set claims"
  shows "leasedAs owner x n claims (if obOutboxID r = i then leaseRow owner token x n r else r)
    = leasedAs owner x n ((i, token) # claims) r"
  using assms leasedAs_other [of "leaseRow owner token x n r" claims owner x n]
  by (auto simp: leasedAs_def map_of_eq_None_iff)

definition candidates :: "int \<Rightarrow> string list \<Rightarrow> store \<Rightarrow> bool" where
  "candidates n ids s \<longleftrightarrow> outboxOK s \<and> distinct ids \<and>
     (\<forall>i \<in> set ids. \<exists>r \<in> set (outbox s). obOutboxID r = i \<and> leaseable n r)"

lemma candidates_update:
  assumes "candidates n (i # ids) s"
  shows "sqlUpdate (\<lambda>r. obOutboxID r = i \<and> leaseable n r) f (outbox s)
    = map (\<lambda>r. if obOutboxID r = i then f r else r) (outbox s)"
    and "sqlCount (\<lambda>r. obOutboxID r = i \<and> leaseable n r) (outbox s) = 1"
proof -
  from assms obtain r where r: "r \<in> set (outbox s)" "obOutboxID r = i" "leaseable n r"
    by (auto simp: candidates_def)
  have only: "\<And>x. x \<in> set (outbox s) \<Longrightarrow> obOutboxID x = i \<Longrightarrow> leaseable n x"
    using assms r by (auto simp: candidates_def dest: distinct_id)
  then show "sqlUpdate (\<lambda>r. obOutboxID r = i \<and> leaseable n r) f (outbox s)
    = map (\<lambda>r. if obOutboxID r = i then f r else r) (outbox s)"
    by (auto simp: sqlUpdate_def)
  have "sqlCount (\<lambda>r. obOutboxID r = i \<and> leaseable n r) (outbox s) \<noteq> 0"
    using r by (auto simp: sqlCount_0 sqlExists_iff)
  moreover have "sqlCount (\<lambda>r. obOutboxID r = i \<and> leaseable n r) (outbox s) \<le> 1"
    using assms by (intro sqlCount_key) (simp add: candidates_def outboxOK_def)
  ultimately show "sqlCount (\<lambda>r. obOutboxID r = i \<and> leaseable n r) (outbox s) = 1" by simp
qed

lemma candidates_next:
  assumes "candidates n (i # ids) s" and "outboxOK s1"
    and "outbox s1 = map (\<lambda>r. if obOutboxID r = i then f r else r) (outbox s)"
  shows "candidates n ids s1"
  unfolding candidates_def
proof (intro conjI ballI assms(2))
  show "distinct ids" using assms(1) by (simp add: candidates_def)
next
  fix j assume "j \<in> set ids"
  with assms(1) obtain r where "r \<in> set (outbox s)" "obOutboxID r = j" "leaseable n r"
    unfolding candidates_def by (meson list.set_intros(2))
  moreover have "j \<noteq> i" using assms(1) \<open>j \<in> set ids\<close> by (auto simp: candidates_def)
  ultimately show "\<exists>r \<in> set (outbox s1). obOutboxID r = j \<and> leaseable n r"
    unfolding assms(3) by (intro bexI [of _ r]) (auto simp: image_iff)
qed

lemma leaseEach_exact:
  "leaseEach owner x n ids tokens s = Inr (items, t) \<Longrightarrow> candidates n ids s \<Longrightarrow>
   t = s\<lparr>outbox := map (leasedAs owner x n (zip ids tokens)) (outbox s)\<rparr> \<and>
   map obOutboxID items = ids \<and> length ids \<le> length tokens \<and> set items \<subseteq> set (outbox t)"
proof (induction owner x n ids tokens s arbitrary: items t rule: leaseEach.induct)
  case (1 owner x n tokens s)
  then show ?case by (simp add: leasedAs_def)
next
  case (3 owner x n i ids token tokens s)
  let ?f = "leaseRow owner token x n"
  from 3(2) obtain s1 item rest where
    mut: "mutateRows (\<lambda>r. obOutboxID r = i \<and> leaseable n r) ?f s = Inr (1, s1)"
    and rest: "leaseEach owner x n ids tokens s1 = Inr (rest, t)" and items: "items = item # rest"
    and found: "sqlFind (\<lambda>r. obOutboxID r = i) (outbox s1) = Some item"
    unfolding leaseEach_Cons by blast
  have i: "i \<notin> set ids" using 3(3) by (simp add: candidates_def)
  have s1: "s1 = s\<lparr>outbox := map (\<lambda>r. if obOutboxID r = i then ?f r else r) (outbox s)\<rparr>"
    using mut candidates_update(1) [OF 3(3), of ?f] candidates_update(2) [OF 3(3)] by (simp only: mutateRows_Inr)
  have "outboxOK s1"
    using mut 3(3) by (auto simp: candidates_def row_defs intro: mutateRows_OK)
  then have "candidates n ids s1"
    by (rule candidates_next [OF 3(3), where f = ?f]) (simp add: s1)
  from 3(1) [OF _ found rest this] have
    t: "t = s1\<lparr>outbox := map (leasedAs owner x n (zip ids tokens)) (outbox s1)\<rparr>"
    and ih: "map obOutboxID rest = ids" "length ids \<le> length tokens" "set rest \<subseteq> set (outbox t)"
    by blast+
  have fst: "i \<notin> fst ` set (zip ids tokens)" using i by (auto dest: set_zip_leftD)
  then have "t = s\<lparr>outbox := map (leasedAs owner x n (zip (i # ids) (token # tokens))) (outbox s)\<rparr>"
    by (simp add: t s1 leasedAs_Cons o_def)
  moreover have "item \<in> set (outbox t)"
  proof -
    have "item \<in> set (outbox s1)" and "obOutboxID item = i" using found by (auto dest: sqlFind_Some)
    then have "leasedAs owner x n (zip ids tokens) item \<in> set (outbox t)" by (simp add: t)
    with fst \<open>obOutboxID item = i\<close> show ?thesis by (simp add: leasedAs_other)
  qed
  moreover have "obOutboxID item = i" using found by (auto dest: sqlFind_Some)
  ultimately show ?case using ih items by simp
qed (simp_all add: failWith_def)

lemma leaseEach_progress:
  "candidates n ids s \<Longrightarrow> length ids \<le> length tokens \<Longrightarrow>
   \<forall>r \<in> set (outbox s). leaseable n r \<longrightarrow> (\<forall>token \<in> set tokens. outboxRowOK (leaseRow owner token x n r)) \<Longrightarrow>
   \<exists>z. leaseEach owner x n ids tokens s = Inr z"
proof (induction owner x n ids tokens s rule: leaseEach.induct)
  case (3 owner x n i ids token tokens s)
  let ?P = "\<lambda>r. obOutboxID r = i \<and> leaseable n r"
  let ?f = "leaseRow owner token x n"
  let ?s1 = "s\<lparr>outbox := map (\<lambda>r. if obOutboxID r = i then ?f r else r) (outbox s)\<rparr>"
  have mut: "mutateRows ?P ?f s = Inr (1, ?s1)"
    using 3(4) candidates_update(1) [OF 3(2), of ?f] candidates_update(2) [OF 3(2)] by (simp add: mutateRows_Inr)
  have "outboxOK ?s1"
    using mut 3(2) by (auto simp: candidates_def row_defs intro: mutateRows_OK)
  then have more: "candidates n ids ?s1"
    by (rule candidates_next [OF 3(2), where f = ?f]) simp
  from 3(2) obtain r where r: "r \<in> set (outbox s)" "obOutboxID r = i"
    by (auto simp: candidates_def)
  then have "\<exists>r \<in> set (outbox ?s1). obOutboxID r = i"
    by (intro bexI [of _ "?f r"]) auto
  then obtain item where found: "sqlFind (\<lambda>r. obOutboxID r = i) (outbox ?s1) = Some item"
    using sqlFind_None [of "\<lambda>r. obOutboxID r = i" "outbox ?s1"] by (auto simp: sqlExists_iff)
  have "\<not> leaseable n (?f r)" for r by (simp add: row_defs)
  then have "\<forall>r \<in> set (outbox ?s1). leaseable n r \<longrightarrow>
      (\<forall>token \<in> set tokens. outboxRowOK (leaseRow owner token x n r))"
    using 3(4) by auto
  with 3(1) [OF _ found more] 3(3) obtain z where "leaseEach owner x n ids tokens ?s1 = Inr z"
    by auto
  then show ?case using mut found by (cases z) simp
qed simp_all

lemma leaseDue_candidates:
  assumes "outboxOK s"
  shows "candidates n (map obOutboxID (sqlTop key k (filter (leaseable n) (outbox s)))) s"
  unfolding candidates_def
  using assms set_sqlTop [of key k "filter (leaseable n) (outbox s)"]
  by (fastforce simp: outboxOK_def intro: distinct_sqlTop)

lemma leaseDue_exact:
  assumes "leaseDue req tokens s = Inr (items, t)" and "outboxOK s"
  defines "n \<equiv> unixMilliOf (lqNow req)" and "x \<equiv> unixMilliOf (lqNow req + lqDuration req)"
  defines "ids \<equiv> map obOutboxID (sqlTop (\<lambda>r. (coalesceDue r, obCreatedAtMS r, obOutboxID r))
         (nat (lqLimit req)) (filter (leaseable n) (outbox s)))"
  shows "t = s\<lparr>outbox := map (leasedAs (lqOwner req) x n (zip ids tokens)) (outbox s)\<rparr>"
    and "map obOutboxID items = ids" and "length ids \<le> length tokens"
    and "set items \<subseteq> set (outbox t)" and "n < x"
  using leaseEach_exact [OF leaseDue_Inr(1) [OF assms(1)] leaseDue_candidates [OF assms(2)]]
    leaseDue_Inr(3) [OF assms(1)]
  unfolding n_def x_def ids_def by blast+

lemma leasedAs_leased:
  assumes "i \<in> fst ` set claims" and "obOutboxID r = i"
  shows "\<exists>token. (i, token) \<in> set claims \<and> leasedAs owner x n claims r = leaseRow owner token x n r"
proof -
  from assms(1) have "map_of claims i \<noteq> None" by (simp add: map_of_eq_None_iff)
  then obtain token where "map_of claims i = Some token" by blast
  with assms(2) show ?thesis by (auto simp: leasedAs_def dest: map_of_SomeD)
qed

lemma in_fst_zip: "x \<in> set xs \<Longrightarrow> length xs \<le> length ys \<Longrightarrow> x \<in> fst ` set (zip xs ys)"
  by (simp only: set_map [symmetric] map_fst_zip_take) simp

text \<open>An item of the answer is a row that is now leased to the caller.\<close>

lemma leaseDue_item:
  assumes "leaseDue req tokens s = Inr (items, t)" and "outboxOK s" and "item \<in> set items"
  obtains r token where "r \<in> set (outbox s)" and "leaseable (unixMilliOf (lqNow req)) r"
    and "token \<in> set tokens" and "item = leaseRow (lqOwner req) token
      (unixMilliOf (lqNow req + lqDuration req)) (unixMilliOf (lqNow req)) r"
proof -
  note ex = leaseDue_exact [OF assms(1,2)]
  let ?n = "unixMilliOf (lqNow req)"
  let ?x = "unixMilliOf (lqNow req + lqDuration req)"
  let ?ids = "map obOutboxID (sqlTop (\<lambda>r. (coalesceDue r, obCreatedAtMS r, obOutboxID r))
         (nat (lqLimit req)) (filter (leaseable ?n) (outbox s)))"
  from ex(4) assms(3) have "item \<in> set (outbox t)" by blast
  then obtain r where r: "r \<in> set (outbox s)"
    and item: "item = leasedAs (lqOwner req) ?x ?n (zip ?ids tokens) r"
    using ex(1) by auto
  have "obOutboxID item \<in> set (map obOutboxID items)" using assms(3) by simp
  then have id: "obOutboxID r \<in> set ?ids" unfolding ex(2) item leasedAs_id .
  then have "obOutboxID r \<in> fst ` set (zip ?ids tokens)"
    using ex(3) by (rule in_fst_zip)
  from leasedAs_leased [OF this refl] obtain token where
    "(obOutboxID r, token) \<in> set (zip ?ids tokens)" "item = leaseRow (lqOwner req) token ?x ?n r"
    unfolding item by blast
  moreover have "leaseable ?n r"
  proof -
    from id obtain r' where "r' \<in> set (sqlTop (\<lambda>r. (coalesceDue r, obCreatedAtMS r, obOutboxID r))
         (nat (lqLimit req)) (filter (leaseable ?n) (outbox s)))" "obOutboxID r' = obOutboxID r"
      by auto
    then have "r' \<in> set (outbox s)" "leaseable ?n r'"
      using set_sqlTop [of _ _ "filter (leaseable ?n) (outbox s)"] by auto
    moreover from this(1) have "r' = r"
      using distinct_id [OF assms(2) _ r] \<open>obOutboxID r' = obOutboxID r\<close> by blast
    ultimately show ?thesis by simp
  qed
  ultimately show ?thesis using r by (intro that) (auto dest: set_zip_rightD)
qed

lemma leaseable_Waiting: "leaseable n r \<Longrightarrow> phaseOf r = Waiting"
  by (auto simp: leaseable_def waitingState_def phaseOf_def)


lemma leaseDue_runOp: "runOp (OpLease req tokens) s = Inr t \<longleftrightarrow> (\<exists>items. leaseDue req tokens s = Inr (items, t))"
  by (auto simp: thenDo_Inr split_paired_Ex)

lemma leaseDue_OK: "leaseDue req tokens s = Inr (items, t) \<Longrightarrow> outboxOK s \<Longrightarrow> outboxOK t"
  using runOp_OK [of "OpLease req tokens" s t] by (auto simp: leaseDue_runOp)

lemma leaseRow_Leased [simp]: "phaseOf (leaseRow owner token x n r) = Leased"
  by (simp add: row_defs)

text \<open>What keeps a row from being leased: its lease, its call, its outcome.\<close>

lemma leaseDue_items_Leased:
  "leaseDue req tokens s = Inr (items, t) \<Longrightarrow> outboxOK s \<Longrightarrow> item \<in> set items \<Longrightarrow>
   item \<in> set (outbox t) \<and> phaseOf item = Leased"
  using leaseDue_item leaseDue_exact(4) by (metis leaseRow_Leased subsetD)

section \<open>Refused tokens\<close>

fun usesLease :: "outbox_op \<Rightarrow> (string \<times> string) option" where
  "usesLease (OpCalled t i k) = Some (i, k)"
| "usesLease (OpNotDispatched b t i k c d e at) = Some (i, k)"
| "usesLease (OpRelease t i k) = Some (i, k)"
| "usesLease (OpUncertain t i k c d e) = Some (i, k)"
| "usesLease (OpReject t i k c d e) = Some (i, k)"
| "usesLease (OpConfirmNoResult t i k) = Some (i, k)"
| "usesLease (OpConfirm t t' c) = Some (cfOutboxID c, cfLeaseToken c)"
| "usesLease (OpStoreFailed t i k x d) = Some (i, k)"
| "usesLease _ = None"

definition leaseRefusal :: "string \<Rightarrow> store \<Rightarrow> store_error" where
  "leaseRefusal i s = (if hasOutbox i s then [ErrLeaseLost] else notFound)"

lemma mutateLeased_refused:
  assumes "\<And>r. r \<in> set (outbox s) \<Longrightarrow> obOutboxID r = i \<Longrightarrow> \<not> P r"
  shows "mutateLeased i P f s = Inl (leaseRefusal i s)"
proof -
  have no: "\<not> sqlExists (\<lambda>r. obOutboxID r = i \<and> P r) (outbox s)"
    using assms by (auto simp: sqlExists_iff)
  then have "mutateRows (\<lambda>r. obOutboxID r = i \<and> P r) f s = Inr (0, s)"
    by (auto simp: mutateRows_Inr sqlCount_0 sqlUpdate_none sqlExists_iff)
  then show ?thesis by (simp add: mutateLeased_def requireLeaseMutation_def leaseRefusal_def)
qed

text \<open>The result of a call whose token is not the lease's: an argument error or the refusal.\<close>

definition refuses :: "string \<Rightarrow> store \<Rightarrow> store_error + 'a \<Rightarrow> bool" where
  "refuses i s m \<longleftrightarrow> (\<exists>e. m = Inl e \<and> (e = leaseRefusal i s \<or> (\<exists>d. e = [ErrDetail d])))"

lemma refuses_simps [simp]:
  "refuses i s (failWith d)" "refuses i s (Inl (leaseRefusal i s))"
  "refuses i s (thenDo (nowMS t) (\<lambda>n. Inl (leaseRefusal i s)))"
  by (auto simp: refuses_def failWith_def nowMS_def)

lemma stale_refused:
  assumes "usesLease op = Some (i, k)"
    and stale: "\<And>r. r \<in> set (outbox s) \<Longrightarrow> obOutboxID r = i \<Longrightarrow> \<not> holdsLease k r"
  shows "refuses i s (runOp op s)"
proof -
  have "mutateLeased i (\<lambda>r. holdsLease k r \<and> Q r) f s = Inl (leaseRefusal i s)"
    "mutateLeased i (holdsLease k) f s = Inl (leaseRefusal i s)" for Q f
    using stale by (auto intro!: mutateLeased_refused)
  with assms(1) show ?thesis
    by (cases op) (auto simp: markTransportCalled_def markNotDispatchedAs_def releaseUnavailable_def
        markUncertain_def rejectOutbox_def confirmWithoutResult_def confirm_def Let_def
        markStoreFailed_def)
qed


section \<open>Enqueueing twice\<close>

lemma enqueue_row:
  assumes "enqueue t item m c s = Inr (row, d, s')"
  shows "row \<in> set (outbox s') \<and> intentKey row = (niAccountID item, niIdempotencyKey item)"
  using assms
proof (cases rule: enqueue_Inr)
  case (inserted n sch s1)
  with enqueueInserted_outbox [OF inserted(6)] insertOutboxRow_one(1) [OF inserted(5)]
  show ?thesis by simp
qed simp

lemma enqueue_again:
  assumes "outboxOK s" and "row \<in> set (outbox s)"
    and "intentKey row = (niAccountID item, niIdempotencyKey item)"
    and "enqueue t item m c s = Inr (row', d, s')"
  shows "d = EnqueueExisting \<and> s' = s \<and> row' = row \<and> obOperation row = niOperation item \<and>
    obConversationID row = niConversationID item \<and> obPayloadHash row = niPayloadHash item"
  using assms(4)
proof (cases rule: enqueue_Inr)
  case (inserted n sch s1)
  then have "\<not> sqlExists (\<lambda>x. intentKey x = intentKey row') (outbox s)"
    using insertOutboxRow_one(4) by blast
  with inserted(2) assms(2,3) show ?thesis by (auto simp: sqlExists_iff)
next
  case existing
  have "row' = row"
    using assms(1-3) existing(3,4) by (auto simp: outboxOK_def dest: distinct_key_inj)
  with existing show ?thesis by (simp add: enqueueExisting_def succeeded)
qed

lemma enqueue_runOp: "enqueue t item m c s = Inr (row, d, s') \<Longrightarrow> applyOp (OpEnqueue t item m c) s = s'"
  by (simp add: applyOp_def)

section \<open>Confirmation\<close>

lemma repoint_message:
  assumes "repointLocalMessage t a c l q real s = Inr u" and "real \<noteq> q"
    and "m \<in> set (messages s)" and "msMessageID m = l" and "msAccountID m = a" and "msConversationID m = c"
  shows "m\<lparr>msRemoteMessageID := real, msUpdatedAtMS := unixMilliOf t\<rparr> \<in> set (messages u)"
    and "distinct (map messageKey (messages u))"
proof -
  let ?f = "\<lambda>m. m\<lparr>msRemoteMessageID := real, msUpdatedAtMS := unixMilliOf t\<rparr>"
  from assms(1,2) obtain s1 where
    first: "(case findByKey (a, c, real) s of None \<Rightarrow> Inr s
           | Some m \<Rightarrow>
               if msMessageID m = l then Inr s
               else case deleteMessageRow (msMessageID m) s of
                 Inl f \<Rightarrow> Inl (mapConstraintError f) | Inr s1 \<Rightarrow> Inr s1) = Inr s1"
    and u: "messages u = sqlUpdate (\<lambda>m. msMessageID m = l) ?f (messages s1)"
    and d: "distinct (map messageKey (messages u))"
    by (auto simp: repointLocalMessage_def thenDo_Inr nowMS_Inr Let_def
        case_Inl_Inr updateChecked_Inr split: if_split_asm)
  from first have del: "messages s1 = messages s \<or>
      (\<exists>i. i \<noteq> l \<and> messages s1 = filter (\<lambda>r. msMessageID r \<noteq> i) (messages s))"
    by (auto simp: deleteMessageRow_def split: option.splits if_splits)
  from del assms(3,4) have "m \<in> set (messages s1)" by auto
  with assms(4) show "?f m \<in> set (messages u)"
    by (auto simp: u set_sqlUpdate image_iff intro!: bexI [of _ m])
  show "distinct (map messageKey (messages u))" by (rule d)
qed

lemma confirm_Inr:
  assumes "confirm t t' c s = Inr u"
  defines "result \<equiv> (if cfResultRemoteID c = [] then cfTransportResultID c else cfResultRemoteID c)"
  obtains row s1 where "row \<in> set (outbox s1)" and "obOutboxID row = cfOutboxID c"
    and "mutateRows (\<lambda>r. obOutboxID r = cfOutboxID c \<and> holdsLease (cfLeaseToken c) r \<and> called r)
          (\<lambda>r. (finishRow OutboxConfirmed (unixMilliOf t) (setOutboxError None None None r))
                 \<lparr>obResultRemoteID := Some result\<rparr>) s = Inr (1, s1)"
    and "(case obLocalMessageID row of None \<Rightarrow> Inr s1
             | Some localID \<Rightarrow> repointLocalMessage t' (obAccountID row) (obConversationID row)
                 localID (obTransportRequestID row) result s1) = Inr u"
  using assms(1) unfolding confirm_def Let_def succeeded nowMS_Inr mutateLeased_Inr result_def
  by (auto dest: sqlFind_Some)

section \<open>Reconciliation\<close>

lemma reconcile_again:
  assumes "outboxOK u" and "row \<in> set (outbox u)"
    and "requestKey row = (rqAccountID req, rqTransportRequestID req)"
    and "obState row = OutboxConfirmed" and "obResultRemoteID row = Some (rqResultRemoteID req)"
    and "\<not> blank (rqAccountID req)" and "\<not> blank (rqTransportRequestID req)"
    and "\<not> blank (rqResultRemoteID req)"
  shows "reconcileConfirm t t' req u = Inr (ReconcileOutcomeNoop, u)"
proof -
  let ?P = "\<lambda>r. obAccountID r = rqAccountID req \<and> obTransportRequestID r = rqTransportRequestID req"
  have "sqlExists ?P (outbox u)" using assms(2,3) by (auto simp: sqlExists_iff)
  then obtain r where r: "sqlFind ?P (outbox u) = Some r"
    using sqlFind_None [of ?P "outbox u"] by auto
  then have "r = row"
    using assms(1-3) by (auto simp: outboxOK_def dest!: sqlFind_Some dest: distinct_key_inj)
  with r assms(4-8) show ?thesis by (simp add: reconcileConfirm_def)
qed

lemma reconcile_args:
  "reconcileConfirm t t' req s = Inr (d, u) \<Longrightarrow>
   \<not> blank (rqAccountID req) \<and> \<not> blank (rqTransportRequestID req) \<and> \<not> blank (rqResultRemoteID req)"
  by (auto simp: reconcileConfirm_def failWith_def split: if_split_asm)

lemma mutateRows_hit:
  assumes "mutateRows P f s = Inr (1, s1)"
  obtains r where "r \<in> set (outbox s)" and "P r" and "f r \<in> set (outbox s1)"
proof -
  from assms have "sqlCount P (outbox s) \<noteq> 0" by (simp add: mutateRows_Inr)
  then obtain r where "r \<in> set (outbox s)" "P r" by (auto simp: sqlCount_0 sqlExists_iff)
  with assms that show ?thesis
    by (auto simp: mutateRows_Inr set_sqlUpdate image_iff intro!: bexI [of _ r])
qed

lemma reconcile_noop_again:
  assumes "reconcileConfirm t t' req s = Inr (ReconcileOutcomeNoop, s)" and "0 < unixMilliOf x"
  shows "reconcileConfirm x x' req s = Inr (ReconcileOutcomeNoop, s)"
  using assms by (auto simp: reconcileConfirm_def succeeded nowMS_def mutateRows_Inr sqlCount_0
      sqlExists_iff split_paired_Ex split: option.splits if_splits)
end
