(* ===== verification/Dispatch_Safety.thy ===== *)
theory Dispatch_Safety
  imports Dispatch Outbox_History
begin

text \<open>
  What a dispatch does to the outbox: every piece of \<open>Dispatch\<close> is a sequence of outbox
  operations of \<open>Outbox_History\<close> and of transport calls. The lemmas count, per intent, the
  operations that mark a call and those that take a mark back, show that calls and marks agree,
  and derive the invariant of the service from the accounting of \<open>callsAccounted\<close>.
\<close>

section \<open>What a dispatch did\<close>

definition disproves :: "go_error option \<Rightarrow> bool" where
  "disproves err =
     (case err of None \<Rightarrow> False
      | Some e \<Rightarrow> (case asOpError e of None \<Rightarrow> False
          | Some o' \<Rightarrow> retryableFailure (opClass o') \<and> opDispatch o' = DispatchNotCalled))"

definition callsOf :: "string \<Rightarrow> transport_call list \<Rightarrow> int" where
  "callsOf i cs = int (length (filter (\<lambda>c. clOutboxID c = i) cs))"

definition disprovedOf :: "string \<Rightarrow> transport_call list \<Rightarrow> int" where
  "disprovedOf i cs = int (length (filter (\<lambda>c. clOutboxID c = i \<and> disproves (clError c)) cs))"

lemma callsOf_simps [simp]:
  "callsOf i [] = 0" "callsOf i (cs @ ds) = callsOf i cs + callsOf i ds"
  "callsOf i (c # cs) = (if clOutboxID c = i then 1 else 0) + callsOf i cs"
  by (simp_all add: callsOf_def)

lemma disprovedOf_simps [simp]:
  "disprovedOf i [] = 0" "disprovedOf i (cs @ ds) = disprovedOf i cs + disprovedOf i ds"
  "disprovedOf i (c # cs) = (if clOutboxID c = i \<and> disproves (clError c) then 1 else 0)
     + disprovedOf i cs"
  by (simp_all add: disprovedOf_def)

text \<open>
  The effect of a piece of the dispatcher: the outbox operations it ran, of which \<open>M\<close> per
  intent mark a call and at most \<open>D\<close> disprove one, and the calls it made.
\<close>

definition moved ::
  "(string \<Rightarrow> int) \<Rightarrow> (string \<Rightarrow> int) \<Rightarrow> transport_call list \<Rightarrow> service \<Rightarrow> service \<Rightarrow> bool" where
  "moved M D new v v' \<longleftrightarrow> svCalls v' = svCalls v @ new \<and>
     (\<exists>ops. svStore v' = runAll ops (svStore v) \<and>
        (\<forall>i. tally (marksCall i) ops (svStore v) = M i \<and> tally (disprovesCall i) ops (svStore v) \<le> D i))"

abbreviation quiet :: "service \<Rightarrow> service \<Rightarrow> bool" where
  "quiet \<equiv> moved (\<lambda>i. 0) (\<lambda>i. 0) []"

lemma runAll_append: "runAll (xs @ ys) s = runAll ys (runAll xs s)"
  by (induction xs arbitrary: s) auto

lemma tally_append: "tally P (xs @ ys) s = tally P xs s + tally P ys (runAll xs s)"
  by (induction xs arbitrary: s) auto

lemma quiet_refl [simp]: "quiet v v"
  unfolding moved_def by (intro conjI exI [of _ "[]"]) auto

lemma moved_trans:
  assumes "moved M D new v u" and "moved M' D' new' u x"
  shows "moved (\<lambda>i. M i + M' i) (\<lambda>i. D i + D' i) (new @ new') v x"
proof -
  from assms obtain ops ops' where
    "svStore u = runAll ops (svStore v)" "svStore x = runAll ops' (svStore u)"
    "\<forall>i. tally (marksCall i) ops (svStore v) = M i \<and> tally (disprovesCall i) ops (svStore v) \<le> D i"
    "\<forall>i. tally (marksCall i) ops' (svStore u) = M' i \<and> tally (disprovesCall i) ops' (svStore u) \<le> D' i"
    by (auto simp: moved_def)
  with assms show ?thesis
    unfolding moved_def
    by (intro conjI exI [of _ "ops @ ops'"]) (auto simp: runAll_append tally_append add_mono)
qed

lemma quiet_trans: "quiet v u \<Longrightarrow> quiet u x \<Longrightarrow> quiet v x"
  using moved_trans [of "\<lambda>i. 0" "\<lambda>i. 0" "[]" v u "\<lambda>i. 0" "\<lambda>i. 0" "[]" x] by simp

lemma moved_quiet: "moved M D new v u \<Longrightarrow> quiet u x \<Longrightarrow> moved M D new v x"
  using moved_trans [of M D new v u "\<lambda>i. 0" "\<lambda>i. 0" "[]" x] by simp

lemma quiet_moved: "quiet v u \<Longrightarrow> moved M D new u x \<Longrightarrow> moved M D new v x"
  using moved_trans [of "\<lambda>i. 0" "\<lambda>i. 0" "[]" v u M D new x] by simp

lemma quiet_change [simp]: "quiet v (signalChange v)" "quiet v (signalWake v)"
  unfolding moved_def signalChange_def signalWake_def by (intro conjI exI [of _ "[]"]; simp)+

lemma moved_weaken:
  "moved M D new v u \<Longrightarrow> (\<And>i. D i \<le> D' i) \<Longrightarrow> moved M D' new v u"
  unfolding moved_def by (meson order_trans)

text \<open>One store call.\<close>

lemma moved_op:
  assumes "runOp op (svStore v) = Inr s"
  shows "moved (\<lambda>i. if marksCall i op then 1 else 0) (\<lambda>i. if disprovesCall i op then 1 else 0) []
           v (v\<lparr>svStore := s\<rparr>)"
  unfolding moved_def
  using assms by (intro conjI exI [of _ "[op]"]) (auto simp: applyOp_def succeeds_def)

lemma storing_moved:
  assumes "\<And>s. runOp op s = f s" and "\<And>i. \<not> marksCall i op"
  shows "moved (\<lambda>i. 0) (\<lambda>i. if disprovesCall i op then 1 else 0) [] v (snd (storing w at f v))"
proof -
  have "moved (\<lambda>i. 0) (\<lambda>i. if disprovesCall i op then 1 else 0) [] v v"
    by (rule moved_weaken [OF quiet_refl]) simp
  with moved_op [of op v] assms show ?thesis
    by (auto simp: storing_def split: sum.split)
qed

lemma commit_snd:
  "snd (commit w at f v) = (if fst (storing w at f v) = [] then signalChange (snd (storing w at f v))
     else snd (storing w at f v))"
  by (simp add: commit_def split_beta)

lemma commit_moved:
  assumes "\<And>s. runOp op s = f s" and "\<And>i. \<not> marksCall i op"
  shows "moved (\<lambda>i. 0) (\<lambda>i. if disprovesCall i op then 1 else 0) [] v (snd (commit w at f v))"
  using storing_moved [OF assms] moved_quiet [OF storing_moved [OF assms] quiet_change(1)]
  by (simp add: commit_snd)

lemma storing_quiet:
  assumes "\<And>s. runOp op s = f s" and "\<And>i. \<not> marksCall i op" and "\<And>i. \<not> disprovesCall i op"
  shows "quiet v (snd (storing w at f v))"
  using storing_moved [OF assms(1,2)] assms(3) by simp

lemma commit_quiet:
  assumes "\<And>s. runOp op s = f s" and "\<And>i. \<not> marksCall i op" and "\<And>i. \<not> disprovesCall i op"
  shows "quiet v (snd (commit w at f v))"
  using commit_moved [OF assms(1,2)] assms(3) by simp

section \<open>The pieces of a dispatch\<close>

lemma store_calls [simp]:
  "runOp (OpRelease t i k) s = releaseUnavailable t i k s"
  "runOp (OpNotDispatched False t i k c d e at) s = markNotDispatched t i k c d e at s"
  "runOp (OpNotDispatched True t i k c d e at) s = markCalledNotDispatched t i k c d e at s"
  by (simp_all add: markNotDispatched_def markCalledNotDispatched_def)

lemma release_quiet: "quiet v (snd (releaseUnavailableItem w item v))"
  unfolding releaseUnavailableItem_def
  by (cases "obLeaseToken item")
    (simp_all add: commit_quiet [where op = "OpRelease (wClock w SiteRelease) (obOutboxID item) k" for k])

lemma preCall_quiet: "quiet v (snd (markPreCallFailure w item c code cause at v))"
  unfolding markPreCallFailure_def
  by (cases "obLeaseToken item")
    (simp_all add: commit_quiet [where op = "OpNotDispatched False (wClock w SiteNotDispatched)
       (obOutboxID item) k c code cause at" for k] markNotDispatched_def)

lemma reject_quiet: "quiet v (snd (rejectPreCall w item c code cause v))"
  unfolding rejectPreCall_def
  by (cases "obLeaseToken item")
    (simp_all add: commit_quiet [where op = "OpReject (wClock w SiteReject) (obOutboxID item) k c code cause" for k])

lemma releaseEach_quiet: "quiet v (snd (snd (releaseEach w k items v)))"
proof (induction items arbitrary: k v)
  case (Cons item items)
  define first where "first = (case obLeaseToken item of
         None \<Rightarrow> ([MissingLeaseToken (obOutboxID item)], v)
       | Some token \<Rightarrow> storing w (SiteUntouched k)
               (releaseUnavailable (wClock w (SiteUntouched k)) (obOutboxID item) token) v)"
  have "quiet v (snd first)"
    unfolding first_def
    by (cases "obLeaseToken item") (simp_all add: storing_quiet [where
         op = "OpRelease (wClock w (SiteUntouched k)) (obOutboxID item) token" for token])
  moreover have "quiet (snd first) (snd (snd (releaseEach w (Suc k) items (snd first))))"
    by (rule Cons.IH)
  moreover have "snd (snd (releaseEach w k (item # items) v))
      = snd (snd (releaseEach w (Suc k) items (snd first)))"
    by (simp add: first_def [symmetric] Let_def split_beta)
  ultimately show ?case by (auto intro: quiet_trans)
qed simp

lemma releaseUntouched_quiet: "quiet v (snd (releaseUntouched w items v))"
  using releaseEach_quiet [of v w 0 items]
  by (auto simp: releaseUntouched_def Let_def split_beta intro: moved_quiet)

lemma loadFailed_quiet: "quiet v (snd (loadFailed w item code v))"
  by (simp add: loadFailed_def preCall_quiet)

lemma unavailable_quiet: "quiet v (snd (unavailable w item err rejection v))"
  by (simp add: unavailable_def Let_def split_beta reject_quiet release_quiet)

lemma recoverLeases_quiet: "quiet v (snd (recoverLeases w v))"
proof -
  have "recoverExpiredLeases (wClock w SiteRecover) (svStore v) = Inr (r, s) \<Longrightarrow>
      quiet v (v\<lparr>svStore := s\<rparr>)" for r s
    using moved_op [of "OpRecover (wClock w SiteRecover)" v s] by simp
  then show ?thesis
    by (auto simp: recoverLeases_def Let_def split: sum.split intro: moved_quiet)
qed

lemma uncertain_quiet: "quiet v (snd (markSendUncertain w item c code cause v))"
  unfolding markSendUncertain_def
  by (rule commit_quiet [where op = "OpUncertain (wClock w SiteUncertain) (obOutboxID item)
        (tokenOf item) c code cause"]) simp_all

text \<open>Recording a send error disproves the call only where the error says so.\<close>

abbreviation disproving :: "outbox_item \<Rightarrow> go_error option \<Rightarrow> string \<Rightarrow> int" where
  "disproving item err i \<equiv> (if obOutboxID item = i \<and> disproves err then 1 else 0)"

lemma uncertain_moved: "moved (\<lambda>i. 0) (disproving item err) [] v (snd (markSendUncertain w item c code cause v))"
  by (rule moved_weaken [OF uncertain_quiet]) simp

lemma recordSendError_moved:
  "moved (\<lambda>i. 0) (disproving item (Some e)) [] v (snd (recordSendError w item e defaultCode v))"
proof (cases "asOpError e")
  case None
  then show ?thesis by (simp add: recordSendError_def Let_def uncertain_moved)
next
  case (Some x)
  let ?c = "if classString (opClass x) \<noteq> '''' then classString (opClass x) else ''unknown''"
  let ?code = "if opOperation x \<noteq> '''' then opOperation x else defaultCode"
  let ?at = "if \<not> isZero (opRetryAt x) then opRetryAt x else wClock w SiteRetry + svRetryDelay v"
  let ?cause = "wDetail w SiteUncertain"
  have rej: "moved (\<lambda>i. 0) (disproving item (Some e)) [] v (snd (commit w SiteReject
      (rejectOutbox (wClock w SiteReject) (obOutboxID item) (tokenOf item) ?c ?code ?cause) v))"
    by (rule moved_weaken [OF commit_quiet [where op = "OpReject (wClock w SiteReject)
        (obOutboxID item) (tokenOf item) ?c ?code ?cause"]]) simp_all
  have dis: "moved (\<lambda>i. 0) (disproving item (Some e)) [] v (snd (commit w SiteNotDispatched
      (markCalledNotDispatched (wClock w SiteNotDispatched) (obOutboxID item) (tokenOf item)
         ?c ?code ?cause ?at) v))"
    if "retryableFailure (opClass x)" "opDispatch x = DispatchNotCalled"
    by (rule moved_weaken [OF commit_moved [where op = "OpNotDispatched True (wClock w SiteNotDispatched)
        (obOutboxID item) (tokenOf item) ?c ?code ?cause ?at"]])
      (use that Some in \<open>simp_all add: disproves_def markCalledNotDispatched_def\<close>)
  show ?thesis
    using rej dis uncertain_moved Some by (simp add: recordSendError_def Let_def)
qed

lemma confirmResult_quiet: "quiet v (snd (confirmResult w item token result v))"
proof -
  let ?c = "\<lparr>cfOutboxID = obOutboxID item, cfLeaseToken = token,
                cfResultRemoteID = snRemoteMessageID result, cfTransportResultID = ''''\<rparr>"
  let ?first = "storing w SiteConfirm (confirm (wClock w SiteConfirm) (wClock w SiteRepoint) ?c) v"
  have a: "quiet v (snd ?first)"
    by (rule storing_quiet [where op = "OpConfirm (wClock w SiteConfirm) (wClock w SiteRepoint) ?c"]) simp_all
  have b: "quiet u (snd (storing w SiteStoreFailed (markStoreFailed (wClock w SiteStoreFailed)
      (obOutboxID item) token (snRemoteMessageID result) (wDetail w SiteConfirm)) u))" for u
    by (rule storing_quiet [where op = "OpStoreFailed (wClock w SiteStoreFailed)
      (obOutboxID item) token (snRemoteMessageID result) (wDetail w SiteConfirm)"]) simp_all
  show ?thesis
    using quiet_trans [OF a b] quiet_trans [OF a quiet_change(1)]
      quiet_trans [OF quiet_trans [OF a b] quiet_change(1)]
    by (simp add: confirmResult_def Let_def split_beta)
qed

lemma missingRemoteID_quiet: "quiet v (snd (missingRemoteID w item token v))"
  unfolding missingRemoteID_def
  by (rule commit_quiet [where op = "OpUncertain (wClock w SiteUncertain) (obOutboxID item) token
      ''unknown'' ''missing_remote_message_id''
      ''transport returned success without a remote message ID''"]) simp_all

lemma acceptWithoutResult_quiet: "quiet v (snd (acceptWithoutResult w item token v))"
  unfolding acceptWithoutResult_def
  by (rule commit_quiet [where op = "OpConfirmNoResult (wClock w SiteConfirm) (obOutboxID item) token"]) simp_all

lemmas quiet_pieces = release_quiet preCall_quiet reject_quiet loadFailed_quiet unavailable_quiet
  recoverLeases_quiet uncertain_quiet confirmResult_quiet missingRemoteID_quiet
  acceptWithoutResult_quiet

lemma quiet_disproving: "quiet v u \<Longrightarrow> moved (\<lambda>i. 0) (disproving item err) [] v u"
  by (erule moved_weaken) simp

lemma moved_if: "(b \<Longrightarrow> moved M D n v (snd x)) \<Longrightarrow> (\<not> b \<Longrightarrow> moved M D n v (snd y)) \<Longrightarrow>
    moved M D n v (snd (if b then x else y))"
  by simp

lemma outcome_moved:
  "moved (\<lambda>i. 0) (disproving item err) [] v (snd (sendOutcome w item token operation result err v))"
  "moved (\<lambda>i. 0) (disproving item err) [] v (snd (reactionOutcome w item token result err v))"
  "moved (\<lambda>i. 0) (disproving item err) [] v (snd (readOutcome w item token result err v))"
  unfolding sendOutcome_def reactionOutcome_def readOutcome_def
  by (cases err; simp only: option.case; intro recordSendError_moved moved_if
        confirmResult_quiet [THEN quiet_disproving] missingRemoteID_quiet [THEN quiet_disproving]
        acceptWithoutResult_quiet [THEN quiet_disproving])+

section \<open>A whole dispatch\<close>

text \<open>
  A dispatch accounts for its calls: each was marked just before it was made, and as many
  marks are taken back as the transport itself disproved.
\<close>

definition served :: "(transport_call \<Rightarrow> bool) \<Rightarrow> service \<Rightarrow> service \<Rightarrow> bool" where
  "served Q v v' \<longleftrightarrow> (\<exists>new. moved (\<lambda>i. callsOf i new) (\<lambda>i. disprovedOf i new) new v v' \<and>
     (\<forall>c \<in> set new. Q c))"

lemma quiet_served: "quiet v v' \<Longrightarrow> served Q v v'"
  unfolding served_def by (intro exI [of _ "[]"]) simp

lemma served_trans:
  assumes "served Q v u" and "served Q u x"
  shows "served Q v x"
proof -
  from assms obtain new new' where
    "moved (\<lambda>i. callsOf i new) (\<lambda>i. disprovedOf i new) new v u" "\<forall>c \<in> set new. Q c"
    "moved (\<lambda>i. callsOf i new') (\<lambda>i. disprovedOf i new') new' u x" "\<forall>c \<in> set new'. Q c"
    unfolding served_def by blast
  from moved_trans [OF this(1,3)] this(2,4) show ?thesis
    unfolding served_def by (intro exI [of _ "new @ new'"]) auto
qed

lemma served_quiet: "served Q v u \<Longrightarrow> quiet u x \<Longrightarrow> served Q v x"
  by (blast intro: served_trans quiet_served)

lemma served_mono: "served Q v u \<Longrightarrow> (\<And>c. Q c \<Longrightarrow> R c) \<Longrightarrow> served R v u"
  unfolding served_def by blast

fun requestIDOf :: "transport_request \<Rightarrow> string option" where
  "requestIDOf (SendTextRequest r) = Some (txRequestID r)"
| "requestIDOf (SendMediaRequest r) = Some (mdRequestID r)"
| "requestIDOf (SendReactionRequest r) = Some (rxRequestID r)"
| "requestIDOf (MarkReadRequest r) = None"

fun requestAccount :: "transport_request \<Rightarrow> string" where
  "requestAccount (SendTextRequest r) = txAccountID r"
| "requestAccount (SendMediaRequest r) = mdAccountID r"
| "requestAccount (SendReactionRequest r) = rxAccountID r"
| "requestAccount (MarkReadRequest r) = rdAccountID r"

text \<open>A call that carries the identities of the intent it is made for.\<close>

definition carries :: "outbox_item \<Rightarrow> transport_call \<Rightarrow> bool" where
  "carries r c \<longleftrightarrow> clOutboxID c = obOutboxID r \<and> requestAccount (clRequest c) = obAccountID r \<and>
     requestIDOf (clRequest c) \<in> {None, Some (obTransportRequestID r)}"

lemma call_moved:
  "moved (\<lambda>i. 0) (\<lambda>i. 0) [c] v (v\<lparr>svCalls := svCalls v @ [c]\<rparr>)"
  unfolding moved_def by (intro conjI exI [of _ "[]"]) auto

lemma mark_moved:
  assumes "fst (commit w SiteMark (markTransportCalled t i token) v) = []"
  shows "moved (\<lambda>j. if i = j then 1 else 0) (\<lambda>j. 0) []
           v (snd (commit w SiteMark (markTransportCalled t i token) v))"
proof -
  from assms obtain s where s: "markTransportCalled t i token (svStore v) = Inr s"
    and v': "snd (commit w SiteMark (markTransportCalled t i token) v)
               = signalChange (v\<lparr>svStore := s\<rparr>)"
    by (auto simp: commit_def storing_def Let_def split_beta split: if_splits sum.splits)
  have "moved (\<lambda>j. if i = j then 1 else 0) (\<lambda>j. 0) [] v (v\<lparr>svStore := s\<rparr>)"
    using moved_op [of "OpCalled t i token" v s] s by simp
  then show ?thesis unfolding v' by (rule moved_quiet) simp
qed

lemma mark_failed_quiet:
  assumes "fst (commit w SiteMark (markTransportCalled t i token) v) \<noteq> []"
  shows "snd (commit w SiteMark (markTransportCalled t i token) v) = v"
  using assms by (auto simp: commit_def storing_def Let_def split_beta split: if_splits sum.splits)

lemma callTransport_served:
  assumes outcome: "\<And>result err u. moved (\<lambda>i. 0) (disproving item err) [] u (snd (outcome result err u))"
    and request: "requestAccount request = obAccountID item"
      "requestIDOf request \<in> {None, Some (obTransportRequestID item)}"
  shows "served (carries item) v (snd (callTransport w item token sender request outcome v))"
proof -
  define mark where "mark = commit w SiteMark
    (markTransportCalled (wClock w SiteMark) (obOutboxID item) token) v"
  show ?thesis
  proof (cases "fst mark = []")
    case False
    then have "snd mark = v" using mark_failed_quiet unfolding mark_def by blast
    with False show ?thesis
      by (auto simp: callTransport_def mark_def [symmetric] split_beta Let_def
          intro!: quiet_served release_quiet split: option.split)
  next
    case True
    define call where "call = \<lparr>clOutboxID = obOutboxID item, clHandle = sender,
      clRequest = request, clResult = fst (wTransport w sender request),
      clError = snd (wTransport w sender request)\<rparr>"
    let ?u = "(snd mark)\<lparr>svCalls := svCalls (snd mark) @ [call]\<rparr>"
    have end_eq: "snd (callTransport w item token sender request outcome v)
      = snd (outcome (clResult call) (clError call) ?u)"
      using True by (simp add: callTransport_def mark_def [symmetric] split_beta Let_def call_def)
    from True have "moved (\<lambda>j. if obOutboxID item = j then 1 else 0) (\<lambda>j. 0) [] v (snd mark)"
      unfolding mark_def by (rule mark_moved)
    from moved_trans [OF moved_trans [OF this call_moved [of call]]
        outcome [of "clError call" ?u "clResult call"]]
    have "moved (\<lambda>i. callsOf i [call]) (\<lambda>i. disprovedOf i [call]) [call] v
        (snd (outcome (clResult call) (clError call) ?u))"
      by (simp add: call_def)
    then show ?thesis
      unfolding served_def end_eq using request
      by (intro exI [of _ "[call]"]) (simp add: carries_def call_def)
  qed
qed

text \<open>The shape of the dispatch functions: nested early returns around one call.\<close>

lemma served_here: "served Q v (snd (e, v))"
  by (simp add: quiet_served)

lemma served_option:
  "(x = None \<Longrightarrow> served Q v (snd a)) \<Longrightarrow> (\<And>y. x = Some y \<Longrightarrow> served Q v (snd (f y))) \<Longrightarrow>
   served Q v (snd (case x of None \<Rightarrow> a | Some y \<Rightarrow> f y))"
  by (simp split: option.split)

lemma served_sum:
  "(\<And>e. x = Inl e \<Longrightarrow> served Q v (snd (g e))) \<Longrightarrow> (\<And>y. x = Inr y \<Longrightarrow> served Q v (snd (f y))) \<Longrightarrow>
   served Q v (snd (case x of Inl e \<Rightarrow> g e | Inr y \<Rightarrow> f y))"
  by (simp split: sum.split)

lemma served_blob:
  "(\<And>c. x = BlobOpened c \<Longrightarrow> served Q v (snd (f c))) \<Longrightarrow> served Q v (snd a) \<Longrightarrow> served Q v (snd b) \<Longrightarrow>
   served Q v (snd (case x of BlobOpened c \<Rightarrow> f c | BlobMissing \<Rightarrow> a | BlobUnreadable \<Rightarrow> b))"
  by (simp split: blob_open.split)

lemmas served_pieces = quiet_pieces [THEN quiet_served]
lemmas served_shape = served_here served_option served_sum served_blob served_pieces
  callTransport_served [OF outcome_moved(1)] callTransport_served [OF outcome_moved(2)]
  callTransport_served [OF outcome_moved(3)]

lemma text_served: "served (carries item) v (snd (dispatchTextLease w item v))"
  unfolding dispatchTextLease_def by (intro served_shape; simp)

lemma media_served: "served (carries item) v (snd (dispatchMediaLease w item v))"
  unfolding dispatchMediaLease_def by (intro served_shape; simp)

lemma reaction_served: "served (carries item) v (snd (dispatchReactionLease w item v))"
  unfolding dispatchReactionLease_def by (intro served_shape; simp)

lemma read_served: "served (carries item) v (snd (dispatchReadLease w item v))"
  unfolding dispatchReadLease_def by (intro served_shape; simp)

lemma dispatchLeased_served: "served (carries item) v (snd (dispatchLeased w item v))"
  by (cases "obKind item") (simp_all add: dispatchLeased_def text_served media_served
      reaction_served read_served served_pieces)

lemma dispatchEach_served:
  "served (\<lambda>c. \<exists>item \<in> set items. carries item c) v (snd (snd (dispatchEach ws k items v)))"
proof (induction items arbitrary: k v)
  case (Cons item items)
  let ?Q = "\<lambda>c. \<exists>x \<in> set (item # items). carries x c"
  let ?u = "snd (dispatchLeased (ws k) item v)"
  have one: "served ?Q v ?u" by (rule served_mono [OF dispatchLeased_served]) simp
  have more: "served ?Q ?u (snd (snd (dispatchEach ws (Suc k) items ?u)))"
    by (rule served_mono [OF Cons.IH]) auto
  have given_up: "served ?Q ?u (snd (releaseUntouched (ws k) items ?u))"
    by (rule quiet_served [OF releaseUntouched_quiet])
  have ended: "served ?Q v (snd (releaseUntouched (ws k) (item # items) v))"
    by (rule quiet_served [OF releaseUntouched_quiet])
  have lapsed: "served ?Q v (snd (recoverLeases (ws k) v))"
    by (rule quiet_served [OF recoverLeases_quiet])
  show ?case
    using served_trans [OF one more] served_trans [OF one given_up] ended lapsed
    by (simp add: Let_def split_beta split: option.split)
qed (simp add: quiet_served)

lemma dispatchDue_cases [case_names unleased leased]:
  assumes "dispatchDue given w ws tokens limit v = (k, err, v')"
  obtains "v' = v" and "err \<noteq> []" and "k = 0"
  | leases s where "leaseDue \<lparr>lqOwner = workerOwner, lqNow = wClock w SiteLease,
        lqDuration = svLeaseTime v, lqLimit = limit\<rparr> tokens (svStore v) = Inr (leases, s)"
    and "dispatchEach ws 0 leases (v\<lparr>svStore := s\<rparr>) = (k, err, v')"
  using assms by (auto simp: dispatchDue_def Let_def split: if_splits option.splits sum.splits)

section \<open>The invariant of the service\<close>

text \<open>
  The calls made for an intent are exactly the attempts its row counts, of which all but one
  are disproved; and every call carries the identities of a row of the outbox.
\<close>

definition serviceOK :: "service \<Rightarrow> bool" where
  "serviceOK v \<longleftrightarrow>
     (\<forall>i. \<exists>d \<le> disprovedOf i (svCalls v). callsAccounted i (callsOf i (svCalls v)) d (svStore v)) \<and>
     (\<forall>c \<in> set (svCalls v). \<exists>r \<in> set (outbox (svStore v)). carries r c)"

lemma serviceOK_outboxOK: "serviceOK v \<Longrightarrow> outboxOK (svStore v)"
  unfolding serviceOK_def callsAccounted_def by blast

lemma carries_later: "later r r' \<Longrightarrow> carries r c \<Longrightarrow> carries r' c"
  by (auto simp: carries_def later_def sameIntent_def)

lemma served_serviceOK:
  assumes ok: "serviceOK v" and "served Q v v'"
    and Q: "\<And>c. Q c \<Longrightarrow> \<exists>r \<in> set (outbox (svStore v)). carries r c"
  shows "serviceOK v'"
proof -
  from assms(2) obtain new ops where calls: "svCalls v' = svCalls v @ new" and new: "\<forall>c \<in> set new. Q c"
    and s: "svStore v' = runAll ops (svStore v)"
    and t: "\<And>i. tally (marksCall i) ops (svStore v) = callsOf i new"
      "\<And>i. tally (disprovesCall i) ops (svStore v) \<le> disprovedOf i new"
    unfolding served_def moved_def by blast
  note okS = serviceOK_outboxOK [OF ok]
  have "\<exists>d \<le> disprovedOf i (svCalls v'). callsAccounted i (callsOf i (svCalls v')) d (svStore v')" for i
  proof -
    from ok obtain d where "d \<le> disprovedOf i (svCalls v)"
      "callsAccounted i (callsOf i (svCalls v)) d (svStore v)"
      unfolding serviceOK_def by blast
    with runAll_callsAccounted [OF this(2), of ops] t(1) [of i] t(2) [of i] show ?thesis
      unfolding calls s by (intro exI [of _ "d + tally (disprovesCall i) ops (svStore v)"]) simp
  qed
  moreover have "\<exists>r \<in> set (outbox (svStore v')). carries r c" if "c \<in> set (svCalls v')" for c
  proof -
    have "\<exists>r \<in> set (outbox (svStore v)). carries r c"
      using that new ok Q [of c] unfolding calls serviceOK_def by auto
    then obtain r where "r \<in> set (outbox (svStore v))" "carries r c" by blast
    with runAll_later [OF okS, of r ops] carries_later show ?thesis unfolding s by blast
  qed
  ultimately show ?thesis unfolding serviceOK_def by blast
qed

lemma quiet_serviceOK: "serviceOK v \<Longrightarrow> quiet v v' \<Longrightarrow> serviceOK v'"
  by (rule served_serviceOK [where Q = "\<lambda>c. False"]) (auto intro: quiet_served)

lemma dispatchDue_serviceOK:
  assumes "serviceOK v" and "dispatchDue given w ws tokens limit v = (k, err, v')"
  shows "serviceOK v'"
  using assms(2)
proof (cases rule: dispatchDue_cases)
  case (leased leases s)
  let ?u = "v\<lparr>svStore := s\<rparr>"
  have q: "quiet v ?u"
    using moved_op [of "OpLease \<lparr>lqOwner = workerOwner, lqNow = wClock w SiteLease,
        lqDuration = svLeaseTime v, lqLimit = limit\<rparr> tokens" v s] leased(1) by simp
  have rows: "set leases \<subseteq> set (outbox s)"
    using leaseDue_exact(4) [OF leased(1) serviceOK_outboxOK [OF assms(1)]] .
  have "served (\<lambda>c. \<exists>item \<in> set leases. carries item c) ?u v'"
    using dispatchEach_served [of leases ?u ws 0] leased(2) by simp
  from served_serviceOK [OF quiet_serviceOK [OF assms(1) q] this] rows show ?thesis by auto
qed (use assms(1) in simp)

lemma serviceOK_calls:
  assumes "serviceOK v"
  shows "callsOf i (svCalls v) \<le> 1 + disprovedOf i (svCalls v)"
proof -
  from assms obtain d where d: "d \<le> disprovedOf i (svCalls v)"
    "callsAccounted i (callsOf i (svCalls v)) d (svStore v)"
    unfolding serviceOK_def by blast
  show ?thesis
  proof (cases "hasOutbox i (svStore v)")
    case True
    then obtain r where "r \<in> set (outbox (svStore v))" "obOutboxID r = i"
      by (auto simp: hasOutbox_def sqlExists_iff)
    with d True show ?thesis unfolding callsAccounted_def by (fastforce split: if_splits)
  next
    case False
    with d show ?thesis unfolding callsAccounted_def by simp
  qed
qed

end
