(* ===== verification/Service.thy ===== *)
theory Service
  imports Dispatch
begin

text \<open>
  \<open>internal/messaging/service.go\<close> and the \<open>Run\<close> loop of \<open>dispatch.go\<close>: submission of text,
  media, reactions and read marks, the queries of a delivery, its cancellation, retry and
  resend, the observation of transport echoes and the repair of results that could not be
  stored.

  A submission is built from its command in one pure step (\<open>textIntent\<close>, \<open>mediaIntent\<close>,
  \<open>reactionIntent\<close>, \<open>readIntent\<close>, \<open>resendIntent\<close>) and enqueued in a second. What it meets is a
  \<open>submit_world\<close>: the registry, the clock of the service and of the repository, the ID source,
  the blob store and the faults of the driver. The digest of a payload (the SHA-256 of its JSON
  text) is a parameter.
\<close>

section \<open>Commands and results\<close>

record common_command =
  cmAccountID :: string
  cmConversationID :: string
  cmIdempotencyKey :: string
  cmNotBefore :: gotime

record send_text_command =
  stCommon :: common_command
  stBody :: string
  stReplyToMessageID :: string

record send_media_command =
  smCommon :: common_command
  smContent :: "string option"
  smFilename :: string
  smMIME :: string
  smCaption :: string
  smReplyToMessageID :: string

record send_reaction_command =
  scCommon :: common_command
  scTargetMessageID :: string
  scEmoji :: string
  scAction :: string

record mark_read_command =
  mrCommon :: common_command
  mrDeviceID :: string
  mrLastReadMessageID :: string
  mrLastReadAt :: gotime

record submission =
  sbOutboxID :: string
  sbLocalMessageID :: string
  sbState :: outbox_state
  sbScheduledFor :: gotime
  sbDeduplicated :: bool

record delivery =
  dlOutboxID :: string
  dlState :: outbox_state
  dlLocalMessageID :: string
  dlRemoteMessageID :: string
  dlErrorClass :: string
  dlErrorCode :: string
  dlWarning :: string

record pending_delivery =
  pdOutboxID :: string
  pdAccountID :: string
  pdConversationID :: string
  pdKind :: outbox_kind
  pdState :: outbox_state
  pdScheduledFor :: gotime
  pdNextAttemptAt :: gotime
  pdAttemptCount :: int
  pdCreatedAt :: gotime
  pdSummary :: string
  pdErrorClass :: string
  pdErrorCode :: string

record transport_echo =
  ecAccountID :: string
  ecTransportRequestID :: string
  ecRemoteMessageID :: string

datatype service_error =
    ErrInvalidCommand string
  | ErrTooLarge
  | ErrInvalidState
  | ErrUnsupported
  | ErrService string
  | ErrStorage store_error
  | ErrDriver
  | ErrContext go_error

datatype payload =
    TextPayload string string
  | MediaPayload string int string string string string
  | ReactionPayload string string string
  | ReadPayload string string

datatype put_result = PutRef string int | PutTooLarge | PutFailed

datatype submit_site = AtConversation | AtMessage | AtDevice | AtEnqueue | AtFind | AtAttachment
  | AtMutate | AtFindAgain

record submit_world =
  sxBridges :: registry
  sxNow :: gotime
  sxStoreNow :: "nat \<Rightarrow> gotime"
  sxID :: "nat \<Rightarrow> string option"
  sxBlobs :: bool
  sxPut :: "string \<Rightarrow> string \<Rightarrow> int \<Rightarrow> put_result"
  sxDigest :: "payload \<Rightarrow> string"
  sxFault :: "submit_site \<Rightarrow> bool"

definition stringValue :: "string option \<Rightarrow> string" where
  "stringValue v = (case v of None \<Rightarrow> '''' | Some s \<Rightarrow> s)"

definition summaryMaxRunes :: nat where "summaryMaxRunes = 120"
definition maxListPending :: int where "maxListPending = 500"
definition second :: duration where "second = 1000000000"

text \<open>\<open>NewMessageService\<close>: the fields a service starts with.\<close>

definition newMessageService :: "store \<Rightarrow> service" where
  "newMessageService s = \<lparr>svStore = s, svCalls = [], svChanges = 0, svWake = False,
     svLeaseTime = 30 * second, svRetryDelay = 5 * second, svPollDelay = second,
     svMaxPollDelay = 30 * second, svMaxMediaBytes = 128 * 2 ^ 20, svBatchLimit = 32\<rparr>"

definition submissionFromItem :: "outbox_item \<Rightarrow> enqueue_disposition \<Rightarrow> submission" where
  "submissionFromItem item d = \<lparr>sbOutboxID = obOutboxID item,
     sbLocalMessageID = stringValue (obLocalMessageID item), sbState = obState item,
     sbScheduledFor = timeOfUnixMilli (obScheduledForMS item),
     sbDeduplicated = (d = EnqueueExisting)\<rparr>"

definition deliveryFromItem :: "outbox_item \<Rightarrow> delivery" where
  "deliveryFromItem item = \<lparr>dlOutboxID = obOutboxID item, dlState = obState item,
     dlLocalMessageID = stringValue (obLocalMessageID item),
     dlRemoteMessageID = stringValue (obResultRemoteID item),
     dlErrorClass = stringValue (obErrorClass item), dlErrorCode = stringValue (obErrorCode item),
     dlWarning = (if obState item = OutboxUncertain then ''delivery outcome is unknown'' else '''')\<rparr>"

fun deliverySettled :: "outbox_state \<Rightarrow> bool" where
  "deliverySettled OutboxQueued = False"
| "deliverySettled OutboxDispatching = False"
| "deliverySettled _ = True"

section \<open>Validation\<close>

text \<open>The first blank field of a list of checks is the error.\<close>

fun firstBlank :: "(string \<times> string) list \<Rightarrow> service_error + unit" where
  "firstBlank [] = Inr ()"
| "firstBlank ((name, val) # checks) =
     (if blank val then Inl (ErrInvalidCommand (name @ '' is empty'')) else firstBlank checks)"

definition validTime :: "string \<Rightarrow> gotime \<Rightarrow> service_error + unit" where
  "validTime name t =
     (if \<not> isZero t \<and> unixMilliOf t \<le> 0 then Inl (ErrInvalidCommand name) else Inr ())"

abbreviation commonChecks :: "common_command \<Rightarrow> (string \<times> string) list" where
  "commonChecks c \<equiv> [(''account ID'', cmAccountID c), (''conversation ID'', cmConversationID c),
     (''idempotency key'', cmIdempotencyKey c)]"

definition validateSendTextCommand :: "send_text_command \<Rightarrow> service_error + unit" where
  "validateSendTextCommand cmd =
     thenDo (firstBlank (commonChecks (stCommon cmd) @ [(''body'', stBody cmd)])) (\<lambda>_.
       validTime ''scheduled Unix time is not positive'' (cmNotBefore (stCommon cmd)))"

definition validateSendMediaCommand :: "send_media_command \<Rightarrow> service_error + send_media_command"
where
  "validateSendMediaCommand cmd =
     thenDo (firstBlank (commonChecks (smCommon cmd))) (\<lambda>_.
       if smContent cmd = None then Inl (ErrInvalidCommand ''content is nil'')
       else
         let mime = (if trimSpace (smMIME cmd) = '''' then ''application/octet-stream''
                     else trimSpace (smMIME cmd));
             filename = trimSpace (smFilename cmd)
         in if 512 < length filename then Inl (ErrInvalidCommand ''filename exceeds 512 bytes'')
            else if byte 0 \<in> set filename then Inl (ErrInvalidCommand ''filename contains NUL'')
            else thenDo (validTime ''scheduled Unix time is not positive''
                           (cmNotBefore (smCommon cmd))) (\<lambda>_.
              Inr (cmd\<lparr>smMIME := mime, smFilename := filename\<rparr>)))"

definition validateSendReactionCommand ::
  "send_reaction_command \<Rightarrow> service_error + send_reaction_command" where
  "validateSendReactionCommand cmd =
     thenDo (firstBlank (commonChecks (scCommon cmd) @
               [(''target message ID'', scTargetMessageID cmd)])) (\<lambda>_.
       let emoji = trimSpace (scEmoji cmd);
           action = (if scAction cmd = '''' then ''add'' else scAction cmd)
       in if emoji = '''' then Inl (ErrInvalidCommand ''emoji is empty'')
          else if 64 < length emoji then Inl (ErrInvalidCommand ''emoji exceeds 64 bytes'')
          else if action \<notin> {''add'', ''remove'', ''switch''} then
            Inl (ErrInvalidCommand ''reaction action is invalid'')
          else thenDo (validTime ''scheduled Unix time is not positive''
                         (cmNotBefore (scCommon cmd))) (\<lambda>_.
            Inr (cmd\<lparr>scEmoji := emoji, scAction := action\<rparr>)))"

definition validateMarkReadCommand :: "mark_read_command \<Rightarrow> service_error + unit" where
  "validateMarkReadCommand cmd =
     thenDo (firstBlank (commonChecks (mrCommon cmd) @
               [(''device ID'', mrDeviceID cmd), (''last read message ID'', mrLastReadMessageID cmd)]))
       (\<lambda>_. thenDo (validTime ''last-read Unix time is not positive'' (mrLastReadAt cmd)) (\<lambda>_.
          validTime ''scheduled Unix time is not positive'' (cmNotBefore (mrCommon cmd))))"

section \<open>Building an intent\<close>

definition readRow :: "submit_world \<Rightarrow> submit_site \<Rightarrow> store_error + 'a \<Rightarrow> service_error + 'a" where
  "readRow x at m =
     (if sxFault x at then Inl ErrDriver else case m of Inl e \<Rightarrow> Inl (ErrStorage e) | Inr r \<Rightarrow> Inr r)"

text \<open>\<open>newSubmissionIDs\<close>: three readings of the ID source, the first that fails ends it.\<close>

definition newID :: "string option \<Rightarrow> service_error + string" where
  "newID v = (case v of None \<Rightarrow> Inl (ErrService ''generate durable ID'')
     | Some i \<Rightarrow> if blank i then Inl (ErrService ''ID source returned an empty ID'') else Inr i)"

definition newSubmissionIDs ::
  "(nat \<Rightarrow> string option) \<Rightarrow> service_error + (string \<times> string \<times> string)" where
  "newSubmissionIDs src =
     thenDo (newID (src 0)) (\<lambda>a. thenDo (newID (src 1)) (\<lambda>b. thenDo (newID (src 2)) (\<lambda>c.
       Inr (a, b, c))))"

definition checkedConversation ::
  "submit_world \<Rightarrow> common_command \<Rightarrow> store \<Rightarrow> service_error + conversation" where
  "checkedConversation x c s =
     thenDo (readRow x AtConversation (getConversation (cmConversationID c) s)) (\<lambda>conversation.
       if cvAccountID conversation \<noteq> cmAccountID c then
         Inl (ErrInvalidCommand ''conversation belongs to another account'')
       else Inr conversation)"

text \<open>A message that a command names must lie in the command's conversation.\<close>

definition checkedMessage ::
  "submit_world \<Rightarrow> common_command \<Rightarrow> string \<Rightarrow> store \<Rightarrow> service_error + message" where
  "checkedMessage x c i s =
     thenDo (readRow x AtMessage (getMessage i s)) (\<lambda>m.
       if msAccountID m \<noteq> cmAccountID c \<or> msConversationID m \<noteq> cmConversationID c then
         Inl (ErrInvalidCommand ''message is outside the conversation'')
       else Inr m)"

definition replyTarget ::
  "submit_world \<Rightarrow> common_command \<Rightarrow> string \<Rightarrow> store \<Rightarrow> service_error + string option" where
  "replyTarget x c i s =
     (if i = '''' then Inr None
      else thenDo (checkedMessage x c i s) (\<lambda>m. Inr (Some (msRemoteMessageID m))))"

definition newItem ::
  "submit_world \<Rightarrow> common_command \<Rightarrow> outbox_kind \<Rightarrow> string \<Rightarrow> string \<times> string \<times> string
     \<Rightarrow> payload \<Rightarrow> new_outbox_item" where
  "newItem x c kind operation ids p = \<lparr>niOutboxID = fst ids, niAccountID = cmAccountID c,
     niConversationID = cmConversationID c, niKind = kind, niIdempotencyKey = cmIdempotencyKey c,
     niPayloadHash = sxDigest x p, niOperation = operation, niLocalMessageID = fst (snd ids),
     niTransportRequestID = snd (snd ids), niSendAgainOfOutboxID = '''',
     niScheduledFor = (if isZero (cmNotBefore c) then sxNow x else cmNotBefore c),
     niScheduledForMS = 0\<rparr>"

definition newMessage ::
  "submit_world \<Rightarrow> common_command \<Rightarrow> string \<times> string \<times> string \<Rightarrow> string \<Rightarrow> string option \<Rightarrow> message" where
  "newMessage x c ids body reply = \<lparr>msMessageID = fst (snd ids),
     msConversationID = cmConversationID c, msAccountID = cmAccountID c,
     msRemoteMessageID = snd (snd ids), msSenderIdentityID = None,
     msDirection = MessageDirectionOutgoing, msBody = body, msReplyToRemoteID = reply,
     msState = MessageStateActive, msOccurredAtMS = unixMilliOf (sxNow x), msCreatedAtMS = 0,
     msUpdatedAtMS = 0\<rparr>"

definition textIntent ::
  "submit_world \<Rightarrow> send_text_command \<Rightarrow> store \<Rightarrow> service_error + (new_outbox_item \<times> message)" where
  "textIntent x cmd s =
     thenDo (validateSendTextCommand cmd) (\<lambda>_.
     thenDo (checkedConversation x (stCommon cmd) s) (\<lambda>_.
     thenDo (replyTarget x (stCommon cmd) (stReplyToMessageID cmd) s) (\<lambda>reply.
     thenDo (newSubmissionIDs (sxID x)) (\<lambda>ids.
       Inr (newItem x (stCommon cmd) OutboxKindText textOperation ids
              (TextPayload (stBody cmd) (stReplyToMessageID cmd)),
            newMessage x (stCommon cmd) ids (stBody cmd) reply)))))"

definition mediaIntent ::
  "submit_world \<Rightarrow> int \<Rightarrow> send_media_command \<Rightarrow> store
     \<Rightarrow> service_error + (new_outbox_item \<times> message \<times> outbox_attachment)" where
  "mediaIntent x maxBytes cmd0 s =
     thenDo (validateSendMediaCommand cmd0) (\<lambda>cmd.
     if \<not> MediaSend (capabilities (cmAccountID (smCommon cmd)) (sxBridges x)) then Inl ErrUnsupported
     else
     thenDo (checkedConversation x (smCommon cmd) s) (\<lambda>_.
     thenDo (replyTarget x (smCommon cmd) (smReplyToMessageID cmd) s) (\<lambda>reply.
     if \<not> sxBlobs x then Inl (ErrService ''blob store is not configured'')
     else case sxPut x (stringValue (smContent cmd)) (smMIME cmd) maxBytes of
       PutTooLarge \<Rightarrow> Inl ErrTooLarge
     | PutFailed \<Rightarrow> Inl (ErrService ''store blob'')
     | PutRef hash bytes \<Rightarrow>
         if bytes = 0 then Inl (ErrInvalidCommand ''attachment is empty'')
         else thenDo (newSubmissionIDs (sxID x)) (\<lambda>ids.
           Inr (newItem x (smCommon cmd) OutboxKindMedia mediaOperation ids
                  (MediaPayload hash bytes (smMIME cmd) (smFilename cmd) (smCaption cmd)
                     (smReplyToMessageID cmd)),
                newMessage x (smCommon cmd) ids (smCaption cmd) reply,
                \<lparr>oaOutboxID = '''', oaOrdinal = 0, oaBlobHash = hash, oaSizeBytes = bytes,
                 oaMIME = smMIME cmd, oaFilename = smFilename cmd, oaCreatedAtMS = 0\<rparr>)))))"

text \<open>Reactions and read marks have no local message.\<close>

definition withoutMessage :: "new_outbox_item \<Rightarrow> new_outbox_item" where
  "withoutMessage item = item\<lparr>niLocalMessageID := ''''\<rparr>"

definition MessageStateDeleted :: string where
  "MessageStateDeleted = ''deleted''"

definition reactionIntent ::
  "submit_world \<Rightarrow> send_reaction_command \<Rightarrow> store \<Rightarrow> service_error + (new_outbox_item \<times> outbox_reaction)"
where
  "reactionIntent x cmd0 s =
     thenDo (validateSendReactionCommand cmd0) (\<lambda>cmd.
     if \<not> Reactions (capabilities (cmAccountID (scCommon cmd)) (sxBridges x)) then Inl ErrUnsupported
     else
     thenDo (checkedConversation x (scCommon cmd) s) (\<lambda>_.
     thenDo (checkedMessage x (scCommon cmd) (scTargetMessageID cmd) s) (\<lambda>target.
     if msState target = MessageStateDeleted then
       Inl (ErrInvalidCommand ''reaction target is deleted'')
     else thenDo (newSubmissionIDs (sxID x)) (\<lambda>ids.
       Inr (withoutMessage (newItem x (scCommon cmd) OutboxKindReaction reactionOperation ids
              (ReactionPayload (scTargetMessageID cmd) (scEmoji cmd) (scAction cmd))),
            \<lparr>orOutboxID = '''', orTargetMessageID = scTargetMessageID cmd, orEmoji = scEmoji cmd,
             orAction = scAction cmd, orCreatedAtMS = 0\<rparr>)))))"

definition readIntent ::
  "submit_world \<Rightarrow> mark_read_command \<Rightarrow> store
     \<Rightarrow> service_error + (new_outbox_item \<times> outbox_read_receipt \<times> read_cursor)" where
  "readIntent x cmd s =
     thenDo (validateMarkReadCommand cmd) (\<lambda>_.
     if \<not> ReadReceipts (capabilities (cmAccountID (mrCommon cmd)) (sxBridges x)) then Inl ErrUnsupported
     else
     thenDo (checkedConversation x (mrCommon cmd) s) (\<lambda>_.
     thenDo (checkedMessage x (mrCommon cmd) (mrLastReadMessageID cmd) s) (\<lambda>target.
     thenDo (readRow x AtDevice (getDevice (mrDeviceID cmd) s)) (\<lambda>device.
     if dvAccountID device \<noteq> cmAccountID (mrCommon cmd) then
       Inl (ErrInvalidCommand ''device belongs to another account'')
     else thenDo (newSubmissionIDs (sxID x)) (\<lambda>ids.
       let readAt = (if isZero (mrLastReadAt cmd) then sxNow x else mrLastReadAt cmd) in
       Inr (withoutMessage (newItem x (mrCommon cmd) OutboxKindRead readOperation ids
              (ReadPayload (mrDeviceID cmd) (mrLastReadMessageID cmd))),
            \<lparr>rrOutboxID = '''', rrDeviceID = mrDeviceID cmd,
             rrLastReadMessageID = mrLastReadMessageID cmd, rrReadAtMS = unixMilliOf readAt,
             rrCreatedAtMS = 0\<rparr>,
            \<lparr>rcAccountID = cmAccountID (mrCommon cmd), rcDeviceID = mrDeviceID cmd,
             rcConversationID = cmConversationID (mrCommon cmd),
             rcLastReadMessageID = Some (mrLastReadMessageID cmd),
             rcLastReadAtMS = unixMilliOf readAt, rcSourceUpdatedAtMS = None,
             rcUpdatedAtMS = unixMilliOf (sxNow x)\<rparr>))))))"

section \<open>Submitting\<close>

text \<open>The enqueue, the signals of a new intent and the answer.\<close>

definition enqueued ::
  "submit_world \<Rightarrow> (store \<Rightarrow> store_error + (outbox_item \<times> enqueue_disposition \<times> store)) \<Rightarrow> service
     \<Rightarrow> (service_error + submission) \<times> service" where
  "enqueued x f v =
     (if sxFault x AtEnqueue then (Inl ErrDriver, v)
      else case f (svStore v) of
        Inl e \<Rightarrow> (Inl (ErrStorage e), v)
      | Inr (item, d, s) \<Rightarrow>
          let v1 = v\<lparr>svStore := s\<rparr> in
          (Inr (submissionFromItem item d),
           if d = EnqueueInserted then signalWake (signalChange v1) else v1))"

text \<open>\<open>given\<close>: the context is not nil.\<close>

definition submitting ::
  "bool \<Rightarrow> service_error + (service \<Rightarrow> (service_error + submission) \<times> service) \<Rightarrow> service
     \<Rightarrow> (service_error + submission) \<times> service" where
  "submitting given m v =
     (if \<not> given then (Inl (ErrService ''context is nil''), v)
      else case m of Inl e \<Rightarrow> (Inl e, v) | Inr f \<Rightarrow> f v)"

definition sendText ::
  "bool \<Rightarrow> submit_world \<Rightarrow> send_text_command \<Rightarrow> service \<Rightarrow> (service_error + submission) \<times> service"
where
  "sendText given x cmd v =
     submitting given (thenDo (textIntent x cmd (svStore v)) (\<lambda>(item, m).
       Inr (enqueued x (enqueueOutgoingMessage (sxStoreNow x 0) item m)))) v"

definition sendMedia ::
  "bool \<Rightarrow> submit_world \<Rightarrow> send_media_command \<Rightarrow> service \<Rightarrow> (service_error + submission) \<times> service"
where
  "sendMedia given x cmd v =
     submitting given (thenDo (mediaIntent x (svMaxMediaBytes v) cmd (svStore v)) (\<lambda>(item, m, a).
       Inr (enqueued x (enqueueOutgoingMediaMessage (sxStoreNow x 0) item m a)))) v"

definition sendReaction ::
  "bool \<Rightarrow> submit_world \<Rightarrow> send_reaction_command \<Rightarrow> service \<Rightarrow> (service_error + submission) \<times> service"
where
  "sendReaction given x cmd v =
     submitting given (thenDo (reactionIntent x cmd (svStore v)) (\<lambda>(item, r).
       Inr (enqueued x (enqueueReaction (sxStoreNow x 0) item r)))) v"

definition markRead ::
  "bool \<Rightarrow> submit_world \<Rightarrow> mark_read_command \<Rightarrow> service \<Rightarrow> (service_error + submission) \<times> service"
where
  "markRead given x cmd v =
     submitting given (thenDo (readIntent x cmd (svStore v)) (\<lambda>(item, r, cursor).
       Inr (enqueued x (enqueueReadReceipt (sxStoreNow x 0) item r cursor)))) v"

section \<open>Queries\<close>

definition getDelivery ::
  "bool \<Rightarrow> bool \<Rightarrow> string \<Rightarrow> service \<Rightarrow> service_error + delivery" where
  "getDelivery given faulty outboxID v =
     (if \<not> given then Inl (ErrService ''context is nil'')
      else if blank outboxID then Inl (ErrService ''outbox ID is empty'')
      else if faulty then Inl ErrDriver
      else case findByID outboxID (svStore v) of
        Inl e \<Rightarrow> Inl (ErrStorage e) | Inr item \<Rightarrow> Inr (deliveryFromItem item))"

text \<open>
  Go's conversion of a string to runes: a well-formed UTF-8 sequence is one rune, any other
  byte is U+FFFD. Each rune is given by the bytes it is encoded with.
\<close>

definition between :: "nat \<Rightarrow> nat \<Rightarrow> char \<Rightarrow> bool" where
  "between lo hi c = (let n = (of_char c :: nat) in lo \<le> n \<and> n \<le> hi)"

definition secondByte :: "char \<Rightarrow> char \<Rightarrow> bool" where
  "secondByte a b =
     (if between 224 224 a then between 160 191 b
      else if between 237 237 a then between 128 159 b
      else if between 240 240 a then between 144 191 b
      else if between 244 244 a then between 128 143 b
      else between 128 191 b)"

definition replacement :: string where
  "replacement = [byte 239, byte 191, byte 189]"

fun splitRune :: "string \<Rightarrow> string \<times> string" where
  "splitRune [] = ([], [])"
| "splitRune [a] = (if between 0 127 a then [a] else replacement, [])"
| "splitRune (a # b # rest) =
     (if between 0 127 a then ([a], b # rest)
      else if between 194 244 a \<and> secondByte a b then
        (if between 194 223 a then ([a, b], rest)
         else case rest of
           c # rest1 \<Rightarrow>
             if \<not> between 128 191 c then (replacement, b # rest)
             else if between 224 239 a then ([a, b, c], rest1)
             else (case rest1 of
                d # rest2 \<Rightarrow> if between 128 191 d then ([a, b, c, d], rest2)
                             else (replacement, b # rest)
              | [] \<Rightarrow> (replacement, b # rest))
         | [] \<Rightarrow> (replacement, b # rest))
      else (replacement, b # rest))"

lemma splitRune_shorter: "s \<noteq> [] \<Longrightarrow> length (snd (splitRune s)) < length s"
  by (cases s rule: splitRune.cases) (auto split: list.splits)

function runesOf :: "string \<Rightarrow> string list" where
  "runesOf s = (if s = [] then [] else fst (splitRune s) # runesOf (snd (splitRune s)))"
  by auto
termination
  by (relation "measure length") (simp_all add: splitRune_shorter)

declare runesOf.simps [simp del]

definition limitRunes :: "string \<Rightarrow> string" where
  "limitRunes s =
     (let runes = runesOf s in
      if summaryMaxRunes < length runes then concat (take summaryMaxRunes runes) else s)"

definition pendingSummary :: "pending_row \<Rightarrow> string" where
  "pendingSummary row =
     (case obKind (pnItem row) of
        OutboxKindText \<Rightarrow> limitRunes (stringValue (pnBody row))
      | OutboxKindMedia \<Rightarrow>
          let file = (if stringValue (pnMediaFile row) = '''' then ''media''
                      else stringValue (pnMediaFile row));
              caption = stringValue (pnBody row)
          in limitRunes (if caption \<noteq> '''' then file @ '': '' @ caption else file)
      | OutboxKindReaction \<Rightarrow> limitRunes (stringValue (pnEmoji row))
      | OutboxKindRead \<Rightarrow> ''''
      | OutboxKindOther k \<Rightarrow> limitRunes '''')"

definition pendingDelivery :: "pending_row \<Rightarrow> pending_delivery" where
  "pendingDelivery row =
     (let item = pnItem row in \<lparr>pdOutboxID = obOutboxID item, pdAccountID = obAccountID item,
        pdConversationID = obConversationID item, pdKind = obKind item, pdState = obState item,
        pdScheduledFor = timeOfUnixMilli (obScheduledForMS item),
        pdNextAttemptAt = (case obNextAttemptAtMS item of None \<Rightarrow> 0 | Some t \<Rightarrow> timeOfUnixMilli t),
        pdAttemptCount = obAttemptCount item, pdCreatedAt = timeOfUnixMilli (obCreatedAtMS item),
        pdSummary = pendingSummary row, pdErrorClass = stringValue (obErrorClass item),
        pdErrorCode = stringValue (obErrorCode item)\<rparr>)"

definition listPendingDeliveries ::
  "bool \<Rightarrow> bool \<Rightarrow> string \<Rightarrow> string \<Rightarrow> int \<Rightarrow> service \<Rightarrow> service_error + pending_delivery list" where
  "listPendingDeliveries given faulty accountID conversationID limit v =
     (if \<not> given then Inl (ErrService ''context is nil'')
      else if limit \<le> 0 then Inl (ErrService ''limit must be positive'')
      else if faulty then Inl ErrDriver
      else case listPending accountID conversationID
                  (if maxListPending < limit then maxListPending else limit) (svStore v) of
        Inl e \<Rightarrow> Inl (ErrStorage e) | Inr rows \<Rightarrow> Inr (map pendingDelivery rows))"

definition nextPollDelay :: "bool \<Rightarrow> gotime \<Rightarrow> service \<Rightarrow> duration" where
  "nextPollDelay faulty t v =
     (if faulty then svMaxPollDelay v
      else case earliestDue (svStore v) of
        None \<Rightarrow> svMaxPollDelay v
      | Some earliest \<Rightarrow>
          let delay = earliest - t in
          if delay < svPollDelay v then svPollDelay v
          else if svMaxPollDelay v < delay then svMaxPollDelay v
          else delay)"

text \<open>
  \<open>Wait\<close>: the services that its iterations observe, each with the fault of its read and how
  its \<open>select\<close> ends (the error of the context, or a change or the timer). \<open>None\<close> when the
  iterations run out before it returns.
\<close>

fun waitDelivery ::
  "bool \<Rightarrow> string \<Rightarrow> (service \<times> bool \<times> go_error option) list
     \<Rightarrow> (delivery option \<times> service_error option) option" where
  "waitDelivery given outboxID [] = None"
| "waitDelivery given outboxID ((v, faulty, ended) # rest) =
     (if \<not> given then Some (None, Some (ErrService ''context is nil''))
      else case getDelivery given faulty outboxID v of
        Inl e \<Rightarrow> Some (None, Some e)
      | Inr d \<Rightarrow>
          if deliverySettled (dlState d) then Some (Some d, None)
          else (case ended of Some e \<Rightarrow> Some (Some d, Some (ErrContext e))
                | None \<Rightarrow> waitDelivery given outboxID rest))"

section \<open>Cancel, retry and resend\<close>

text \<open>The answer of a transition: a delivery (\<open>None\<close> for Go's zero value), an error, the service.\<close>

type_synonym answer = "delivery option \<times> service_error option \<times> service"

definition answerOf :: "service_error + delivery \<Rightarrow> service \<Rightarrow> answer" where
  "answerOf r v = (case r of Inl e \<Rightarrow> (None, Some e, v) | Inr d \<Rightarrow> (Some d, None, v))"

definition transition ::
  "bool \<Rightarrow> submit_world \<Rightarrow> string \<Rightarrow> outbox_state set \<Rightarrow> (store \<Rightarrow> store_error + store)
     \<Rightarrow> (service \<Rightarrow> service) \<Rightarrow> service \<Rightarrow> answer" where
  "transition given x outboxID from f signals v =
     (case getDelivery given (sxFault x AtFind) outboxID v of
        Inl e \<Rightarrow> (None, Some e, v)
      | Inr current \<Rightarrow>
          if dlState current \<notin> from then (Some current, Some ErrInvalidState, v)
          else if sxFault x AtMutate then (None, Some ErrDriver, v)
          else case f (svStore v) of
            Inl e \<Rightarrow>
              if errorsIs e ErrInvalidOutboxState then (Some current, Some ErrInvalidState, v)
              else (None, Some (ErrStorage e), v)
          | Inr s \<Rightarrow>
              let v1 = signals (v\<lparr>svStore := s\<rparr>) in
              answerOf (getDelivery given (sxFault x AtFindAgain) outboxID v1) v1)"

definition cancelDelivery :: "bool \<Rightarrow> submit_world \<Rightarrow> string \<Rightarrow> service \<Rightarrow> answer" where
  "cancelDelivery given x outboxID =
     transition given x outboxID {OutboxQueued, OutboxNotDispatched}
       (cancelOutbox (sxStoreNow x 0) outboxID) signalChange"

definition retryDelivery :: "bool \<Rightarrow> submit_world \<Rightarrow> string \<Rightarrow> service \<Rightarrow> answer" where
  "retryDelivery given x outboxID =
     transition given x outboxID {OutboxNotDispatched}
       (retryNotDispatched (sxStoreNow x 0) outboxID) (\<lambda>v. signalWake (signalChange v))"

text \<open>The intent a resend builds from its predecessor and the predecessor's message.\<close>

definition resendIntent ::
  "submit_world \<Rightarrow> string \<Rightarrow> string \<Rightarrow> store
     \<Rightarrow> service_error + (new_outbox_item \<times> message \<times> outbox_attachment option)" where
  "resendIntent x outboxID newKey s =
     thenDo (readRow x AtFind (findByID outboxID s)) (\<lambda>item.
     if obState item \<notin> {OutboxUncertain, OutboxRejected} then Inl ErrInvalidState
     else if obKind item \<notin> {OutboxKindText, OutboxKindMedia} then Inl ErrInvalidState
     else if blank newKey then Inl (ErrInvalidCommand ''new idempotency key is empty'')
     else if newKey = obIdempotencyKey item then
       Inl (ErrInvalidCommand ''new idempotency key must differ from the prior key'')
     else if blank (stringValue (obLocalMessageID item)) then
       Inl (ErrService ''prior outbox item has no local message'')
     else
     thenDo (readRow x AtMessage (getMessage (stringValue (obLocalMessageID item)) s)) (\<lambda>m.
     if msState m = MessageStateDeleted then Inl (ErrInvalidCommand ''prior message is deleted'')
     else
     thenDo (newSubmissionIDs (sxID x)) (\<lambda>ids.
       let c = \<lparr>cmAccountID = obAccountID item, cmConversationID = obConversationID item,
                cmIdempotencyKey = newKey, cmNotBefore = sxNow x\<rparr>;
           build = (\<lambda>operation p.
             (newItem x c (obKind item) operation ids p)
               \<lparr>niScheduledFor := sxNow x, niSendAgainOfOutboxID := obOutboxID item\<rparr>);
           copy = newMessage x c ids (msBody m) (msReplyToRemoteID m);
           reply = stringValue (msReplyToRemoteID m)
       in if obKind item = OutboxKindText then
            Inr (build textOperation (TextPayload (msBody m) reply), copy, None)
          else
            thenDo (readRow x AtAttachment (getOutboxAttachment (obOutboxID item) s)) (\<lambda>a.
              Inr (build mediaOperation (MediaPayload (oaBlobHash a) (oaSizeBytes a) (oaMIME a)
                     (oaFilename a) (msBody m) reply), copy,
                   Some (a\<lparr>oaOutboxID := '''', oaOrdinal := 0, oaCreatedAtMS := 0\<rparr>))))))"

definition sendAgain ::
  "bool \<Rightarrow> submit_world \<Rightarrow> string \<Rightarrow> string \<Rightarrow> service \<Rightarrow> (service_error + submission) \<times> service"
where
  "sendAgain given x outboxID newKey v =
     submitting given (thenDo (resendIntent x outboxID newKey (svStore v)) (\<lambda>(item, m, a).
       Inr (enqueued x (case a of
              None \<Rightarrow> enqueueOutgoingMessage (sxStoreNow x 0) item m
            | Some a' \<Rightarrow> enqueueOutgoingMediaMessage (sxStoreNow x 0) item m a')))) v"

section \<open>Echoes and repair\<close>

definition observeTransportEcho ::
  "bool \<Rightarrow> submit_world \<Rightarrow> transport_echo \<Rightarrow> service
     \<Rightarrow> (service_error + reconcile_outcome) \<times> service" where
  "observeTransportEcho given x echo v =
     (if \<not> given then (Inl (ErrService ''context is nil''), v)
      else case firstBlank [(''account ID'', ecAccountID echo),
                  (''transport request ID'', ecTransportRequestID echo),
                  (''remote message ID'', ecRemoteMessageID echo)] of
        Inl e \<Rightarrow> (Inl e, v)
      | Inr _ \<Rightarrow>
          if sxFault x AtMutate then (Inl ErrDriver, v)
          else case reconcileConfirm (sxStoreNow x 0) (sxStoreNow x 1)
                 \<lparr>rqAccountID = ecAccountID echo, rqTransportRequestID = ecTransportRequestID echo,
                  rqResultRemoteID = ecRemoteMessageID echo\<rparr> (svStore v) of
            Inl e \<Rightarrow> (Inl (ErrStorage e), v)
          | Inr (outcome, s) \<Rightarrow>
              let v1 = v\<lparr>svStore := s\<rparr> in
              (Inr outcome,
               if outcome \<in> {ReconcileOutcomeReconciled, ReconcileOutcomeEnriched}
               then signalChange v1 else v1))"

definition repairRequest :: "outbox_item \<Rightarrow> reconcile_request" where
  "repairRequest item = \<lparr>rqAccountID = obAccountID item,
     rqTransportRequestID = obTransportRequestID item,
     rqResultRemoteID = stringValue (obResultRemoteID item)\<rparr>"

definition repairStoreFailed :: "bool \<Rightarrow> submit_world \<Rightarrow> string \<Rightarrow> service \<Rightarrow> answer" where
  "repairStoreFailed given x outboxID v =
     (if \<not> given then (None, Some (ErrService ''context is nil''), v)
      else if blank outboxID then (None, Some (ErrService ''outbox ID is empty''), v)
      else case readRow x AtFind (findByID outboxID (svStore v)) of
        Inl e \<Rightarrow> (None, Some e, v)
      | Inr item \<Rightarrow>
          let current = deliveryFromItem item in
          if obState item \<noteq> OutboxStoreFailed then (Some current, Some ErrInvalidState, v)
          else if blank (stringValue (obResultRemoteID item)) then
            (Some current, Some (ErrService ''persisted remote result ID is missing''), v)
          else if sxFault x AtMutate then (Some current, Some ErrDriver, v)
          else case reconcileConfirm (sxStoreNow x 0) (sxStoreNow x 1) (repairRequest item)
                      (svStore v) of
            Inl e \<Rightarrow> (Some current, Some (ErrStorage e), v)
          | Inr (outcome, s) \<Rightarrow>
              let v1 = signalChange (v\<lparr>svStore := s\<rparr>) in
              answerOf (getDelivery given (sxFault x AtFindAgain) outboxID v1) v1)"

text \<open>
  The loop of \<open>reconcileStoreFailedDue\<close>: the number reconciled, the error of the context, the
  service. A row that cannot be repaired is passed over.
\<close>

fun reconcileEach ::
  "(nat \<Rightarrow> world) \<Rightarrow> nat \<Rightarrow> outbox_item list \<Rightarrow> service \<Rightarrow> nat \<times> go_error option \<times> service" where
  "reconcileEach ws k [] v = (0, None, v)"
| "reconcileEach ws k (item # items) v =
     (case wCtx (ws k) SiteLoop of
        Some e \<Rightarrow> (0, Some e, v)
      | None \<Rightarrow>
          if blank (stringValue (obResultRemoteID item)) then reconcileEach ws (Suc k) items v
          else if wFault (ws k) SiteReconcile then reconcileEach ws (Suc k) items v
          else case reconcileConfirm (wClock (ws k) SiteReconcile) (wClock (ws k) SiteRepoint)
                      (repairRequest item) (svStore v) of
            Inl e \<Rightarrow> reconcileEach ws (Suc k) items v
          | Inr (outcome, s) \<Rightarrow>
              let (n, err, v1) = reconcileEach ws (Suc k) items (v\<lparr>svStore := s\<rparr>) in
              (if outcome \<in> {ReconcileOutcomeReconciled, ReconcileOutcomeEnriched} then Suc n else n,
               err, v1))"

text \<open>The early return on a cancelled context skips the broadcast.\<close>

definition reconcileStoreFailedDue ::
  "bool \<Rightarrow> world \<Rightarrow> (nat \<Rightarrow> world) \<Rightarrow> int \<Rightarrow> service \<Rightarrow> nat \<times> dispatch_error list \<times> service" where
  "reconcileStoreFailedDue given w ws limit v =
     (if \<not> given then (0, [ContextNil], v)
      else if limit \<le> 0 then (0, [LimitNotPositive], v)
      else if wFault w SiteFindStoreFailed then (0, [DriverFailed], v)
      else case findStoreFailedDue limit (svStore v) of
        Inl e \<Rightarrow> (0, [StoreRefused e], v)
      | Inr items \<Rightarrow>
          let (n, err, v1) = reconcileEach ws 0 items v in
          (case err of Some e \<Rightarrow> (n, [ContextDone e], v1)
           | None \<Rightarrow> (n, [], if 0 < n then signalChange v1 else v1)))"

section \<open>The dispatcher loop\<close>

text \<open>
  One iteration of \<open>Run\<close>: what its two passes meet, the context at its checks and the end of
  its \<open>select\<close>.
\<close>

datatype select_end = EndDone go_error | EndWake | EndTimer

record run_pass =
  rpCtx :: "go_error option"
  rpReconcile :: world
  rpReconcileEach :: "nat \<Rightarrow> world"
  rpLease :: world
  rpLeaseEach :: "nat \<Rightarrow> world"
  rpTokens :: "string list"
  rpCtxAfter :: "go_error option"
  rpEnd :: select_end

definition ctxOr :: "go_error option \<Rightarrow> dispatch_error list \<Rightarrow> dispatch_error list" where
  "ctxOr ctx err = (case ctx of None \<Rightarrow> err | Some e \<Rightarrow> [ContextDone e])"

definition runPass :: "run_pass \<Rightarrow> service \<Rightarrow> dispatch_error list \<times> service" where
  "runPass p v =
     (case rpCtx p of Some e \<Rightarrow> ([ContextDone e], v)
      | None \<Rightarrow>
          let (n, err, v1) =
            reconcileStoreFailedDue True (rpReconcile p) (rpReconcileEach p) (svBatchLimit v) v in
          if err \<noteq> [] then (ctxOr (rpCtxAfter p) err, v1)
          else
            let (m, err', v2) =
              dispatchDue True (rpLease p) (rpLeaseEach p) (rpTokens p) (svBatchLimit v1) v1 in
            if err' \<noteq> [] then (ctxOr (rpCtxAfter p) err', v2)
            else (case rpEnd p of EndDone e \<Rightarrow> ([ContextDone e], v2)
                  | EndWake \<Rightarrow> ([], v2\<lparr>svWake := False\<rparr>) | EndTimer \<Rightarrow> ([], v2)))"

fun runPasses :: "run_pass list \<Rightarrow> service \<Rightarrow> dispatch_error list \<times> service" where
  "runPasses [] v = ([], v)"
| "runPasses (p # ps) v =
     (let (err, v1) = runPass p v in if err \<noteq> [] then (err, v1) else runPasses ps v1)"

text \<open>\<open>Run\<close> up to a number of iterations: \<open>([], v)\<close> while it has not returned.\<close>

definition runService ::
  "bool \<Rightarrow> world \<Rightarrow> run_pass list \<Rightarrow> service \<Rightarrow> dispatch_error list \<times> service" where
  "runService given w passes v =
     (if \<not> given then ([ContextNil], v)
      else
        let (err, v1) = recoverLeases w v in
        if err \<noteq> [] then (ctxOr (wCtx w SiteReleased) err, v1) else runPasses passes v1)"

end
