(* ===== verification/Service_Safety.thy ===== *)
theory Service_Safety
  imports Dispatch_Safety Service
begin

text \<open>
  The message service as a state machine: which of its operations run outbox operations
  without a transport call, the step relation over all of them and the store calls of other
  components, and its invariant (an interpretation of \<open>machine\<close>).
\<close>

section \<open>Operations that make no call\<close>

lemma enqueued_quiet: "quiet v (snd (enqueued x (enqueue t item m c) v))"
proof -
  have "quiet v (v\<lparr>svStore := s\<rparr>)" if "enqueue t item m c (svStore v) = Inr (row, d, s)" for row d s
    using moved_op [of "OpEnqueue t item m c" v s] that by simp
  then show ?thesis
    by (auto simp: enqueued_def Let_def split: sum.split
        intro: quiet_trans quiet_trans [OF _ quiet_trans [OF quiet_change(1) quiet_change(2)]])
qed

lemmas enqueue_forms = enqueueOutgoingMessage_def enqueueOutgoingMediaMessage_def
  enqueueReaction_def enqueueReadReceipt_def

lemma submitting_quiet:
  assumes "\<And>f. m = Inr f \<Longrightarrow> quiet v (snd (f v))"
  shows "quiet v (snd (submitting given m v))"
  using assms by (cases m) (simp_all add: submitting_def)

lemma submit_quiet:
  "quiet v (snd (sendText given x cmd1 v))" "quiet v (snd (sendMedia given x cmd2 v))"
  "quiet v (snd (sendReaction given x cmd3 v))" "quiet v (snd (markRead given x cmd4 v))"
  "quiet v (snd (sendAgain given x outboxID newKey v))"
  unfolding sendText_def sendMedia_def sendReaction_def markRead_def sendAgain_def enqueue_forms
  by (rule submitting_quiet; clarsimp simp: thenDo_Inr enqueued_quiet split: option.split)+

lemma answerOf_snd [simp]: "snd (snd (answerOf r v)) = v"
  by (simp add: answerOf_def split: sum.split)

lemma transition_quiet:
  assumes "\<And>s. runOp op s = f s" and "\<And>i. \<not> marksCall i op" and "\<And>i. \<not> disprovesCall i op"
    and "\<And>u. quiet u (signals u)"
  shows "quiet v (snd (snd (transition given x outboxID from f signals v)))"
proof -
  have "quiet v (v\<lparr>svStore := s\<rparr>)" if "f (svStore v) = Inr s" for s
    using moved_op [of op v s] that assms(1-3) by simp
  then show ?thesis
    by (auto simp: transition_def Let_def split: sum.split intro: quiet_trans assms(4))
qed

lemma cancel_retry_quiet:
  "quiet v (snd (snd (cancelDelivery given x outboxID v)))"
  "quiet v (snd (snd (retryDelivery given x outboxID v)))"
  unfolding cancelDelivery_def retryDelivery_def
  by (rule transition_quiet [where op = "OpCancel (sxStoreNow x 0) outboxID"]; simp)
     (rule transition_quiet [where op = "OpRetry (sxStoreNow x 0) outboxID"];
      simp add: quiet_trans [OF quiet_change(1) quiet_change(2)])

lemma reconcileConfirm_quiet:
  "reconcileConfirm t t' req (svStore v) = Inr (outcome, s) \<Longrightarrow> quiet v (v\<lparr>svStore := s\<rparr>)"
  using moved_op [of "OpReconcile t t' req" v s] by simp

lemma echo_quiet: "quiet v (snd (observeTransportEcho given x echo v))"
  by (auto simp: observeTransportEcho_def Let_def split: sum.split
      intro: reconcileConfirm_quiet quiet_trans [OF reconcileConfirm_quiet quiet_change(1)])

lemma repair_quiet: "quiet v (snd (snd (repairStoreFailed given x outboxID v)))"
  by (auto simp: repairStoreFailed_def Let_def split: sum.split
      intro: quiet_trans [OF reconcileConfirm_quiet quiet_change(1)])

lemma reconcileEach_quiet: "quiet v (snd (snd (reconcileEach ws k items v)))"
proof (induction items arbitrary: k v)
  case (Cons item items)
  have "quiet v (snd (snd (reconcileEach ws (Suc k) items (v\<lparr>svStore := s\<rparr>))))"
    if "reconcileConfirm t t' req (svStore v) = Inr (outcome, s)" for t t' req outcome s
    using reconcileConfirm_quiet [OF that] Cons.IH by (rule quiet_trans)
  with Cons.IH show ?case
    by (auto simp: Let_def split_beta split: option.split sum.split)
qed simp

lemma reconcileDue_quiet: "quiet v (snd (snd (reconcileStoreFailedDue given w ws limit v)))"
  using reconcileEach_quiet [of v ws 0]
  by (auto simp: reconcileStoreFailedDue_def Let_def split_beta split: sum.split option.split
      intro: quiet_trans [OF _ quiet_change(1)])

section \<open>The service as a state machine\<close>

text \<open>
  The operations that callers and the dispatcher run, in any order, and between them the store
  calls of other components (\<open>others\<close>), which leave the outbox as it is.
\<close>

datatype service_op =
    ServiceText bool submit_world send_text_command
  | ServiceMedia bool submit_world send_media_command
  | ServiceReaction bool submit_world send_reaction_command
  | ServiceRead bool submit_world mark_read_command
  | ServiceAgain bool submit_world string string
  | ServiceCancel bool submit_world string
  | ServiceRetry bool submit_world string
  | ServiceEcho bool submit_world transport_echo
  | ServiceRepair bool submit_world string
  | ServiceReconcile bool world "nat \<Rightarrow> world" int
  | ServiceDispatch bool world "nat \<Rightarrow> world" "string list" int
  | ServiceRun bool world "run_pass list"

fun applyService :: "service_op \<Rightarrow> service \<Rightarrow> service" where
  "applyService (ServiceText g x c) v = snd (sendText g x c v)"
| "applyService (ServiceMedia g x c) v = snd (sendMedia g x c v)"
| "applyService (ServiceReaction g x c) v = snd (sendReaction g x c v)"
| "applyService (ServiceRead g x c) v = snd (markRead g x c v)"
| "applyService (ServiceAgain g x i k) v = snd (sendAgain g x i k v)"
| "applyService (ServiceCancel g x i) v = snd (snd (cancelDelivery g x i v))"
| "applyService (ServiceRetry g x i) v = snd (snd (retryDelivery g x i v))"
| "applyService (ServiceEcho g x e) v = snd (observeTransportEcho g x e v)"
| "applyService (ServiceRepair g x i) v = snd (snd (repairStoreFailed g x i v))"
| "applyService (ServiceReconcile g w ws n) v = snd (snd (reconcileStoreFailedDue g w ws n v))"
| "applyService (ServiceDispatch g w ws ks n) v = snd (snd (dispatchDue g w ws ks n v))"
| "applyService (ServiceRun g w ps) v = snd (runService g w ps v)"

definition serviceStart :: "service \<Rightarrow> bool" where
  "serviceStart v \<longleftrightarrow> outbox (svStore v) = [] \<and> svCalls v = []"

inductive serviceStep :: "service \<Rightarrow> service \<Rightarrow> bool" where
  operation: "serviceStep v (applyService op v)"
| others: "outbox s = outbox (svStore v) \<Longrightarrow> serviceStep v (v\<lparr>svStore := s\<rparr>)"

lemma serviceOK_frame:
  assumes "outbox s = outbox (svStore v)"
  shows "serviceOK (v\<lparr>svStore := s\<rparr>) = serviceOK v"
proof -
  have "callsAccounted i c d s = callsAccounted i c d (svStore v)" for i c d
    by (simp only: callsAccounted_def hasOutbox_def outboxOK_frame [OF assms] assms)
  with assms show ?thesis by (simp add: serviceOK_def)
qed

lemma dispatchDue_serviceOK': "serviceOK v \<Longrightarrow> serviceOK (snd (snd (dispatchDue given w ws tokens limit v)))"
  using dispatchDue_serviceOK by (metis prod.collapse)

lemma runPass_serviceOK:
  assumes "serviceOK v"
  shows "serviceOK (snd (runPass p v))"
proof -
  let ?r = "reconcileStoreFailedDue True (rpReconcile p) (rpReconcileEach p) (svBatchLimit v) v"
  let ?u = "snd (snd ?r)"
  let ?d = "dispatchDue True (rpLease p) (rpLeaseEach p) (rpTokens p) (svBatchLimit ?u) ?u"
  have r: "serviceOK ?u" by (rule quiet_serviceOK [OF assms reconcileDue_quiet])
  have d: "serviceOK (snd (snd ?d))" by (rule dispatchDue_serviceOK' [OF r])
  have wake: "serviceOK (u\<lparr>svWake := False\<rparr>) = serviceOK u" for u by (simp add: serviceOK_def)
  show ?thesis
    using assms r d wake [of "snd (snd ?d)"]
    by (simp add: runPass_def Let_def split_beta split: option.split select_end.split)
qed

lemma runPasses_serviceOK: "serviceOK v \<Longrightarrow> serviceOK (snd (runPasses ps v))"
proof (induction ps arbitrary: v)
  case (Cons p ps)
  from runPass_serviceOK [OF Cons.prems, of p] Cons.IH show ?case
    by (simp add: Let_def split_beta)
qed simp

lemma runService_serviceOK: "serviceOK v \<Longrightarrow> serviceOK (snd (runService given w ps v))"
  using quiet_serviceOK [OF _ recoverLeases_quiet [of v w]]
  by (simp add: runService_def Let_def split_beta runPasses_serviceOK)

lemma applyService_serviceOK:
  assumes "serviceOK v"
  shows "serviceOK (applyService op v)"
proof -
  note q = quiet_serviceOK [OF assms]
  note calm = q [OF submit_quiet(1)] q [OF submit_quiet(2)] q [OF submit_quiet(3)]
    q [OF submit_quiet(4)] q [OF submit_quiet(5)] q [OF cancel_retry_quiet(1)]
    q [OF cancel_retry_quiet(2)] q [OF echo_quiet] q [OF repair_quiet] q [OF reconcileDue_quiet]
  show ?thesis
    by (cases op) (simp_all only: applyService.simps calm dispatchDue_serviceOK' [OF assms]
        runService_serviceOK [OF assms])
qed

interpretation svc: machine serviceStart serviceStep serviceOK
proof unfold_locales
  fix v
  assume "serviceStart v"
  then show "serviceOK v"
    by (auto simp: serviceStart_def serviceOK_def callsAccounted_def hasOutbox_def outboxOK_def
        sqlExists_iff intro!: exI [of _ 0])
next
  fix v u
  assume "serviceOK v" and "serviceStep v u"
  from this(2,1) show "serviceOK u"
    by cases (simp_all add: applyService_serviceOK serviceOK_frame)
qed

end
