(* ===== verification/Dispatch_Outcome.thy ===== *)
theory Dispatch_Outcome
  imports Dispatch_Safety
begin

text \<open>
  What a dispatch leaves behind: with a driver that does not fail and clocks that do not run
  backwards, every path through the dispatch of a leased intent ends its lease, in a state
  that is decided by the outcome of the transport call, or by its absence.
\<close>

section \<open>Store calls that cannot fail\<close>

lemma mutateLeased_exact:
  assumes ok: "outboxOK s" and r: "r \<in> set (outbox s)" "obOutboxID r = i" "P r" and f: "outboxRowOK (f r)"
  shows "\<exists>s'. mutateLeased i P f s = Inr s' \<and> f r \<in> set (outbox s')"
proof -
  let ?P = "\<lambda>r. obOutboxID r = i \<and> P r"
  have only: "\<And>x. x \<in> set (outbox s) \<Longrightarrow> ?P x \<Longrightarrow> x = r"
    using distinct_id [OF ok _ r(1)] r(2) by simp
  have "sqlCount ?P (outbox s) \<noteq> 0" using r by (auto simp: sqlCount_0 sqlExists_iff)
  moreover have "sqlCount ?P (outbox s) \<le> 1"
    using ok by (intro sqlCount_key) (simp add: outboxOK_def)
  ultimately have "mutateRows ?P f s = Inr (1, s\<lparr>outbox := sqlUpdate ?P f (outbox s)\<rparr>)"
    using only f by (auto simp: mutateRows_Inr)
  moreover have "f r \<in> set (sqlUpdate ?P f (outbox s))"
    using r by (auto simp: set_sqlUpdate image_iff intro!: bexI [of _ r])
  ultimately show ?thesis by (auto simp: mutateLeased_Inr)
qed

text \<open>A row in the hand of a dispatcher: leased under its token, called or not.\<close>

definition inHand :: "bool \<Rightarrow> outbox_item \<Rightarrow> string \<Rightarrow> store \<Rightarrow> outbox_item \<Rightarrow> bool" where
  "inHand c item token s r \<longleftrightarrow> outboxOK s \<and> r \<in> set (outbox s) \<and> sameIntent item r \<and>
     holdsLease token r \<and> called r = c \<and> obLeaseExpiresAtMS r = obLeaseExpiresAtMS item"

definition rowEnds :: "outbox_item \<Rightarrow> outbox_state set \<Rightarrow> store \<Rightarrow> bool" where
  "rowEnds item S s \<longleftrightarrow> (\<exists>r \<in> set (outbox s). sameIntent item r \<and> obState r \<in> S)"

lemma inHand_op:
  assumes "inHand c item token s r" and "P r" and "outboxRowOK (f r)" and "sameIntent r (f r)"
  shows "\<exists>s' r'. mutateLeased (obOutboxID item) P f s = Inr s' \<and> r' = f r \<and>
     r' \<in> set (outbox s') \<and> sameIntent item r'"
  using mutateLeased_exact [of s r "obOutboxID item" P f] assms
  by (auto simp: inHand_def sameIntent_def)

lemma inHand_row:
  "inHand c item token s r \<Longrightarrow> outboxRowOK r \<and> holdsLease token r \<and> called r = c \<and>
     obCreatedAtMS r = obCreatedAtMS item \<and> 0 < obCreatedAtMS item"
  by (auto simp: inHand_def outboxOK_def outboxRowOK_def sameIntent_def)

text \<open>Each of the operations that end a lease, at a clock not before the row's creation.\<close>

lemma release_ends:
  assumes "inHand False item token s r" and "obCreatedAtMS item \<le> unixMilliOf t"
  shows "\<exists>s'. releaseUnavailable t (obOutboxID item) token s = Inr s' \<and> rowEnds item {OutboxQueued} s'"
proof -
  let ?f = "\<lambda>r. (clearLease r)\<lparr>obState := OutboxQueued, obNextAttemptAtMS := None,
                obUpdatedAtMS := unixMilliOf t\<rparr>"
  note row = inHand_row [OF assms(1)]
  have "\<exists>s' r'. mutateLeased (obOutboxID item) (\<lambda>r. holdsLease token r \<and> \<not> called r) ?f s = Inr s' \<and>
      r' = ?f r \<and> r' \<in> set (outbox s') \<and> sameIntent item r'"
    by (rule inHand_op [OF assms(1)]) (use row assms(2) in \<open>auto simp: outboxRowOK_def clearLease_def sameIntent_def\<close>)
  then show ?thesis
    using row assms(2) by (auto simp: releaseUnavailable_def thenDo_Inr nowMS_Inr rowEnds_def intro!: bexI)
qed

lemma notDispatched_ends:
  assumes "inHand c item token s r" and "obCreatedAtMS item \<le> unixMilliOf t" and "0 < unixMilliOf at"
  shows "\<exists>s'. markNotDispatchedAs c t (obOutboxID item) token k d e at s = Inr s' \<and>
     rowEnds item {OutboxNotDispatched} s'"
proof -
  let ?f = "\<lambda>r. clearLease (setOutboxError (nullableOutboxText k) (nullableOutboxText d)
                 (nullableOutboxText e) r)
               \<lparr>obState := OutboxNotDispatched, obNextAttemptAtMS := Some (unixMilliOf at),
                obUpdatedAtMS := unixMilliOf t\<rparr>"
  note row = inHand_row [OF assms(1)]
  have "\<exists>s' r'. mutateLeased (obOutboxID item) (\<lambda>r. holdsLease token r \<and> called r = c) ?f s = Inr s' \<and>
      r' = ?f r \<and> r' \<in> set (outbox s') \<and> sameIntent item r'"
    by (rule inHand_op [OF assms(1)]) (use row assms(2,3) in \<open>auto simp: outboxRowOK_def clearLease_def
        setOutboxError_def sameIntent_def\<close>)
  then show ?thesis
    using row assms(2,3)
    by (auto simp: markNotDispatchedAs_def thenDo_Inr nowMS_Inr rowEnds_def failWith_def intro!: bexI)
qed

lemma finishRow_OK:
  assumes "inHand c item token s r" and "obCreatedAtMS item \<le> n" and "st \<notin> {OutboxDispatching, OutboxNotDispatched}"
    and "nullOr nonblank result"
  shows "outboxRowOK ((finishRow st n r)\<lparr>obErrorClass := a, obErrorCode := b, obErrorDetail := d,
           obResultRemoteID := result\<rparr>)"
  using inHand_row [OF assms(1)] assms(2-4) by (auto simp: outboxRowOK_def finishRow_def clearLease_def)

lemma finish_ends:
  assumes hand: "inHand c item token s r" and "obCreatedAtMS item \<le> n"
    and st: "st \<notin> {OutboxDispatching, OutboxNotDispatched}" and "P r"
    and f: "f r = (finishRow st n r)\<lparr>obErrorClass := a, obErrorCode := b, obErrorDetail := d,
           obResultRemoteID := result\<rparr>" and "nullOr nonblank result"
  shows "\<exists>s'. mutateLeased (obOutboxID item) P f s = Inr s' \<and> rowEnds item {st} s'"
proof -
  have "\<exists>s' r'. mutateLeased (obOutboxID item) P f s = Inr s' \<and> r' = f r \<and>
     r' \<in> set (outbox s') \<and> sameIntent item r'"
    by (rule inHand_op [of c item token s r P f, OF hand assms(4)])
      (use finishRow_OK [OF hand assms(2) st assms(6)] in \<open>auto simp: f sameIntent_def finishRow_def clearLease_def\<close>)
  then show ?thesis by (auto simp: rowEnds_def f finishRow_def clearLease_def intro!: bexI)
qed

lemma inHand_result:
  "inHand c item token s r \<Longrightarrow> nullOr nonblank (obResultRemoteID r)"
  by (drule inHand_row) (auto simp: outboxRowOK_def)

lemma uncertain_ends:
  assumes hand: "inHand True item token s r" and "obCreatedAtMS item \<le> unixMilliOf t"
  shows "\<exists>s'. markUncertain t (obOutboxID item) token k d e s = Inr s' \<and> rowEnds item {OutboxUncertain} s'"
proof -
  have "\<exists>s'. mutateLeased (obOutboxID item) (\<lambda>r. holdsLease token r \<and> called r)
     (\<lambda>r. finishRow OutboxUncertain (unixMilliOf t) (setOutboxError (nullableOutboxText k)
        (nullableOutboxText d) (nullableOutboxText e) r)) s = Inr s' \<and> rowEnds item {OutboxUncertain} s'"
    by (rule finish_ends [OF hand assms(2), where a = "nullableOutboxText k"
          and b = "nullableOutboxText d" and d = "nullableOutboxText e" and result = "obResultRemoteID r"])
      (use inHand_row [OF hand] inHand_result [OF hand] in
        \<open>auto simp: finishRow_def clearLease_def setOutboxError_def\<close>)
  with inHand_row [OF hand] assms(2) show ?thesis
    by (auto simp: markUncertain_def thenDo_Inr nowMS_Inr)
qed

lemma reject_ends:
  assumes hand: "inHand c item token s r" and "obCreatedAtMS item \<le> unixMilliOf t"
  shows "\<exists>s'. rejectOutbox t (obOutboxID item) token k d e s = Inr s' \<and> rowEnds item {OutboxRejected} s'"
proof -
  have "\<exists>s'. mutateLeased (obOutboxID item) (holdsLease token)
     (\<lambda>r. finishRow OutboxRejected (unixMilliOf t) (setOutboxError (nullableOutboxText k)
        (nullableOutboxText d) (nullableOutboxText e) r)) s = Inr s' \<and> rowEnds item {OutboxRejected} s'"
    by (rule finish_ends [OF hand assms(2), where a = "nullableOutboxText k"
          and b = "nullableOutboxText d" and d = "nullableOutboxText e" and result = "obResultRemoteID r"])
      (use inHand_row [OF hand] inHand_result [OF hand] in
        \<open>auto simp: finishRow_def clearLease_def setOutboxError_def\<close>)
  with inHand_row [OF hand] assms(2) show ?thesis
    by (auto simp: rejectOutbox_def thenDo_Inr nowMS_Inr)
qed

lemma confirmWithoutResult_ends:
  assumes hand: "inHand True item token s r" and "obCreatedAtMS item \<le> unixMilliOf t"
  shows "\<exists>s'. confirmWithoutResult t (obOutboxID item) token s = Inr s' \<and> rowEnds item {OutboxConfirmed} s'"
proof -
  have "\<exists>s'. mutateLeased (obOutboxID item) (\<lambda>r. holdsLease token r \<and> called r)
     (\<lambda>r. finishRow OutboxConfirmed (unixMilliOf t) (setOutboxError None None None r)) s = Inr s' \<and>
       rowEnds item {OutboxConfirmed} s'"
    by (rule finish_ends [OF hand assms(2), where a = None and b = None and d = None
          and result = "obResultRemoteID r"])
      (use inHand_row [OF hand] inHand_result [OF hand] in
        \<open>auto simp: finishRow_def clearLease_def setOutboxError_def\<close>)
  with inHand_row [OF hand] assms(2) show ?thesis
    by (auto simp: confirmWithoutResult_def thenDo_Inr nowMS_Inr)
qed

lemma storeFailed_ends:
  assumes hand: "inHand True item token s r" and "obCreatedAtMS item \<le> unixMilliOf t" and "\<not> blank x"
  shows "\<exists>s'. markStoreFailed t (obOutboxID item) token x d s = Inr s' \<and> rowEnds item {OutboxStoreFailed} s'"
proof -
  have "\<exists>s'. mutateLeased (obOutboxID item) (\<lambda>r. holdsLease token r \<and> called r)
     (\<lambda>r. (finishRow OutboxStoreFailed (unixMilliOf t) r)\<lparr>obResultRemoteID := Some x,
                 obErrorDetail := nullableOutboxText d\<rparr>) s = Inr s' \<and>
       rowEnds item {OutboxStoreFailed} s'"
    by (rule finish_ends [OF hand assms(2), where a = "obErrorClass r" and b = "obErrorCode r"
          and d = "nullableOutboxText d" and result = "Some x"])
      (use inHand_row [OF hand] nonblank_sqlTrim [OF assms(3)] in
        \<open>auto simp: finishRow_def clearLease_def\<close>)
  with inHand_row [OF hand] assms(2,3) show ?thesis
    by (auto simp: markStoreFailed_def thenDo_Inr nowMS_Inr failWith_def)
qed

text \<open>The marker of the call keeps the row in hand.\<close>

lemma mark_holds:
  assumes hand: "inHand False item token s r" and t: "obCreatedAtMS item \<le> unixMilliOf t"
    and "\<not> blank (obOutboxID item)" and "\<not> blank token"
    and e: "obLeaseExpiresAtMS item = Some x" "unixMilliOf t < x"
  shows "\<exists>s' r'. markTransportCalled t (obOutboxID item) token s = Inr s' \<and> inHand True item token s' r'"
proof -
  let ?n = "unixMilliOf t"
  let ?P = "\<lambda>r. holdsLease token r \<and> (case obLeaseExpiresAtMS r of None \<Rightarrow> False | Some e \<Rightarrow> ?n < e)
               \<and> \<not> called r"
  let ?f = "\<lambda>r. r\<lparr>obTransportCalledAtMS := Some ?n, obAttemptCount := obAttemptCount r + 1,
                 obUpdatedAtMS := ?n\<rparr>"
  note row = inHand_row [OF hand]
  have "obLeaseExpiresAtMS r = Some x" using hand e by (simp add: inHand_def)
  then have "\<exists>s' r'. mutateLeased (obOutboxID item) ?P ?f s = Inr s' \<and> r' = ?f r \<and>
      r' \<in> set (outbox s') \<and> sameIntent item r'"
    by (intro inHand_op [OF hand])
      (use row t e in \<open>auto simp: outboxRowOK_def sameIntent_def holdsLease_def\<close>)
  then obtain s' where s': "mutateLeased (obOutboxID item) ?P ?f s = Inr s'" "?f r \<in> set (outbox s')"
    "sameIntent item (?f r)" by blast
  then have mark: "markTransportCalled t (obOutboxID item) token s = Inr s'"
    using row t assms(3,4) by (simp add: markTransportCalled_def thenDo_Inr nowMS_Inr failWith_def)
  then have "outboxOK s'"
    using runOp_OK [of "OpCalled t (obOutboxID item) token" s s'] hand by (simp add: inHand_def)
  with s' hand mark show ?thesis
    by (intro exI [of _ s'] exI [of _ "?f r"]) (auto simp: inHand_def holdsLease_def)
qed


lemma repointed_outbox:
  assumes "(case l of None \<Rightarrow> Inr s1 | Some i \<Rightarrow> repointLocalMessage t a c i q x s1) = Inr u"
  shows "outbox u = outbox s1"
proof (cases l)
  case None
  with assms show ?thesis by simp
next
  case (Some i)
  with assms have "repointLocalMessage t a c i q x s1 = Inr u" by simp
  then show ?thesis by (rule repoint_outbox)
qed

lemma confirm_ends:
  assumes hand: "inHand True item token s r" and c: "cfOutboxID c = obOutboxID item"
    and "confirm t t' c s = Inr u"
  shows "rowEnds item {OutboxConfirmed} u"
proof -
  obtain row s1 where "row \<in> set (outbox s1)" and "obOutboxID row = cfOutboxID c" and
    mut: "mutateRows (\<lambda>r. obOutboxID r = cfOutboxID c \<and> holdsLease (cfLeaseToken c) r \<and> called r)
          (\<lambda>r. (finishRow OutboxConfirmed (unixMilliOf t) (setOutboxError None None None r))
                 \<lparr>obResultRemoteID := Some (if cfResultRemoteID c = [] then cfTransportResultID c
                    else cfResultRemoteID c)\<rparr>) s = Inr (1, s1)"
    and rest: "(case obLocalMessageID row of None \<Rightarrow> Inr s1
             | Some localID \<Rightarrow> repointLocalMessage t' (obAccountID row) (obConversationID row)
                 localID (obTransportRequestID row) (if cfResultRemoteID c = [] then cfTransportResultID c
                    else cfResultRemoteID c) s1) = Inr u"
    by (rule confirm_Inr [OF assms(3)])
  have u: "outbox u = outbox s1"
    by (rule repointed_outbox [OF rest])
  obtain x where x: "x \<in> set (outbox s)"
    "obOutboxID x = cfOutboxID c \<and> holdsLease (cfLeaseToken c) x \<and> called x"
    "(finishRow OutboxConfirmed (unixMilliOf t) (setOutboxError None None None x))
       \<lparr>obResultRemoteID := Some (if cfResultRemoteID c = [] then cfTransportResultID c
                    else cfResultRemoteID c)\<rparr> \<in> set (outbox s1)"
    by (rule mutateRows_hit [OF mut])
  have "x = r"
    using distinct_id [OF _ x(1), of r] hand x(2) c by (simp add: inHand_def sameIntent_def)
  show ?thesis
    unfolding rowEnds_def
    by (rule bexI [OF _ x(3) [folded u]])
      (use \<open>x = r\<close> hand in \<open>simp add: inHand_def sameIntent_def finishRow_def clearLease_def
        setOutboxError_def\<close>)
qed

section \<open>Every path of a dispatch\<close>

text \<open>
  A piece of the dispatcher that ends the lease: no error but that of the context, no call,
  and the row in one of the states \<open>S\<close>.
\<close>

definition ends :: "outbox_item \<Rightarrow> outbox_state set \<Rightarrow> service \<Rightarrow> dispatch_error list \<times> service \<Rightarrow> bool" where
  "ends item S v res \<longleftrightarrow> (fst res = [] \<or> (\<exists>e. fst res = [ContextDone e])) \<and>
     rowEnds item S (svStore (snd res)) \<and> svCalls (snd res) = svCalls v"

text \<open>
  What a dispatch needs to finish: a driver that does not fail, a clock not before the row's
  creation, a lease that has not run out before the call, and retry times after the Unix epoch.
\<close>

definition calm :: "world \<Rightarrow> outbox_item \<Rightarrow> duration \<Rightarrow> bool" where
  "calm w item delay \<longleftrightarrow> (\<forall>at. \<not> wFault w at) \<and>
     (\<forall>at. obCreatedAtMS item \<le> unixMilliOf (wClock w at)) \<and>
     (case obLeaseExpiresAtMS item of None \<Rightarrow> False | Some x \<Rightarrow> unixMilliOf (wClock w SiteMark) < x) \<and>
     0 < unixMilliOf (wClock w SiteRetry + delay) \<and>
     (\<forall>h req. case snd (wTransport w h req) of None \<Rightarrow> True
        | Some e \<Rightarrow> (case asOpError e of None \<Rightarrow> True
            | Some x \<Rightarrow> isZero (opRetryAt x) \<or> 0 < unixMilliOf (opRetryAt x)))"

lemma rowEnds_mono: "rowEnds item S s \<Longrightarrow> S \<subseteq> T \<Longrightarrow> rowEnds item T s"
  by (auto simp: rowEnds_def)

lemma ends_mono: "ends item S v res \<Longrightarrow> S \<subseteq> T \<Longrightarrow> ends item T v res"
  by (auto simp: ends_def intro: rowEnds_mono)

lemma commit_ends:
  assumes "\<exists>s'. f (svStore v) = Inr s' \<and> rowEnds item S s'" and "\<not> wFault w at"
  shows "ends item S v (commit w at f v) \<and> fst (commit w at f v) = []"
  using assms by (auto simp: commit_def storing_def ends_def signalChange_def)

lemma calm_clock:
  "calm w item delay \<Longrightarrow> obCreatedAtMS item \<le> unixMilliOf (wClock w at) \<and> \<not> wFault w at"
  by (simp add: calm_def)


lemma released_ends:
  assumes "calm w item delay" and "obLeaseToken item = Some token" and "inHand False item token (svStore v) r"
  shows "ends item {OutboxQueued} v (releaseUnavailableItem w item v) \<and>
     fst (releaseUnavailableItem w item v) = []"
  unfolding releaseUnavailableItem_def assms(2) option.case
  by (rule commit_ends) (use assms release_ends calm_clock in blast)+

lemma loadFailed_ends:
  assumes "calm w item (svRetryDelay v)" and "obLeaseToken item = Some token"
    and "inHand False item token (svStore v) r"
  shows "ends item {OutboxNotDispatched} v (loadFailed w item code v)"
proof -
  have "0 < unixMilliOf (wClock w SiteRetry + svRetryDelay v)" using assms(1) by (simp add: calm_def)
  with assms show ?thesis
    unfolding loadFailed_def markPreCallFailure_def assms(2) option.case markNotDispatched_def
    by (intro commit_ends [THEN conjunct1] notDispatched_ends) (auto simp: calm_clock)
qed

lemma rejected_ends:
  assumes "calm w item delay" and "obLeaseToken item = Some token" and "inHand False item token (svStore v) r"
  shows "ends item {OutboxRejected} v (rejectPreCall w item c code cause v)"
  unfolding rejectPreCall_def assms(2) option.case
  by (rule commit_ends [THEN conjunct1]) (use assms reject_ends calm_clock in blast)+

lemma unavailable_ends:
  assumes "calm w item delay" and "obLeaseToken item = Some token" and "inHand False item token (svStore v) r"
  shows "ends item {OutboxQueued, OutboxRejected} v (unavailable w item err rejection v)"
proof -
  note rel = released_ends [OF assms]
  have "ends item {OutboxQueued, OutboxRejected} v (rejectPreCall w item c code cause v)" for c code cause
    by (rule ends_mono [OF rejected_ends [OF assms]]) simp
  moreover have "ends item {OutboxQueued, OutboxRejected} v
     (case wCtx w SiteReleased of None \<Rightarrow> [] | Some e \<Rightarrow> [ContextDone e],
      snd (releaseUnavailableItem w item v))"
    using rel by (auto simp: ends_def split: option.split intro: rowEnds_mono)
  ultimately show ?thesis using rel by (simp add: unavailable_def Let_def split_beta)
qed

lemma sendUncertain_ends:
  assumes "calm w item delay" and "obLeaseToken item = Some token" and "inHand True item token (svStore v) r"
  shows "ends item {OutboxUncertain} v (markSendUncertain w item c code cause v)"
  unfolding markSendUncertain_def assms(2) orElse_def option.case
  by (rule commit_ends [THEN conjunct1]) (use assms uncertain_ends calm_clock in blast)+

text \<open>The outcome of a send error, by what the error says of itself.\<close>

definition errorOutcome :: "go_error \<Rightarrow> outbox_state" where
  "errorOutcome e =
     (case asOpError e of None \<Rightarrow> OutboxUncertain
      | Some x \<Rightarrow>
          if opDispatch x = DispatchUncertain then OutboxUncertain
          else if terminalFailure (opClass x) then OutboxRejected
          else if disproves (Some e) then OutboxNotDispatched
          else OutboxUncertain)"

lemma sendError_ends:
  assumes "calm w item (svRetryDelay v)" and "obLeaseToken item = Some token"
    and hand: "inHand True item token (svStore v) r"
    and retry: "\<And>x. asOpError e = Some x \<Longrightarrow> isZero (opRetryAt x) \<or> 0 < unixMilliOf (opRetryAt x)"
  shows "ends item {errorOutcome e} v (recordSendError w item e defaultCode v)"
proof (cases "asOpError e")
  case None
  then show ?thesis
    using sendUncertain_ends [OF assms(1-3)] by (simp add: recordSendError_def errorOutcome_def Let_def)
next
  case (Some x)
  have at: "0 < unixMilliOf (if \<not> isZero (opRetryAt x) then opRetryAt x
      else wClock w SiteRetry + svRetryDelay v)"
    using retry [OF Some] assms(1) by (auto simp: calm_def)
  have rej: "ends item {OutboxRejected} v (commit w SiteReject (rejectOutbox (wClock w SiteReject)
      (obOutboxID item) token c code cause) v)" for c code cause
    by (rule commit_ends [THEN conjunct1]) (use assms(1) hand reject_ends calm_clock in blast)+
  have dis: "ends item {OutboxNotDispatched} v (commit w SiteNotDispatched
      (markCalledNotDispatched (wClock w SiteNotDispatched) (obOutboxID item) token c code cause
        (if \<not> isZero (opRetryAt x) then opRetryAt x else wClock w SiteRetry + svRetryDelay v)) v)"
    for c code cause
    unfolding markCalledNotDispatched_def
    by (rule commit_ends [THEN conjunct1])
      (use notDispatched_ends [OF hand _ at] calm_clock [OF assms(1)] in blast)+
  show ?thesis
    using sendUncertain_ends [OF assms(1-3)] rej dis assms(2) Some
    by (simp add: recordSendError_def errorOutcome_def disproves_def Let_def orElse_def)
qed

lemma confirmResult_ends:
  assumes "calm w item delay" and "obLeaseToken item = Some token"
    and hand: "inHand True item token (svStore v) r" and "\<not> blank (snRemoteMessageID result)"
  shows "ends item {OutboxConfirmed, OutboxStoreFailed} v (confirmResult w item token result v)"
proof -
  let ?c = "\<lparr>cfOutboxID = obOutboxID item, cfLeaseToken = token,
                cfResultRemoteID = snRemoteMessageID result, cfTransportResultID = ''''\<rparr>"
  note clock = calm_clock [OF assms(1)]
  obtain s' where s': "markStoreFailed (wClock w SiteStoreFailed) (obOutboxID item) token
      (snRemoteMessageID result) (wDetail w SiteConfirm) (svStore v) = Inr s'"
    "rowEnds item {OutboxStoreFailed} s'"
    using storeFailed_ends [OF hand _ assms(4)] clock by blast
  show ?thesis
  proof (cases "confirm (wClock w SiteConfirm) (wClock w SiteRepoint) ?c (svStore v)")
    case (Inl e)
    with s' clock show ?thesis
      by (auto simp: confirmResult_def storing_def ends_def signalChange_def intro: rowEnds_mono)
  next
    case (Inr u)
    with confirm_ends [OF hand _ Inr] clock show ?thesis
      by (auto simp: confirmResult_def storing_def ends_def signalChange_def intro: rowEnds_mono)
  qed
qed

lemma missingRemoteID_ends:
  assumes "calm w item delay" and "inHand True item token (svStore v) r"
  shows "ends item {OutboxUncertain} v (missingRemoteID w item token v)"
  unfolding missingRemoteID_def
  by (rule commit_ends [THEN conjunct1]) (use assms uncertain_ends calm_clock in blast)+

lemma acceptWithoutResult_ends:
  assumes "calm w item delay" and "inHand True item token (svStore v) r"
  shows "ends item {OutboxConfirmed} v (acceptWithoutResult w item token v)"
  unfolding acceptWithoutResult_def
  by (rule commit_ends [THEN conjunct1]) (use assms confirmWithoutResult_ends calm_clock in blast)+

text \<open>The states in which the outcome of a call leaves its intent.\<close>

definition callOutcome :: "outbox_kind \<Rightarrow> send_result \<Rightarrow> go_error option \<Rightarrow> outbox_state set" where
  "callOutcome kind result err =
     (case err of Some e \<Rightarrow> {errorOutcome e}
      | None \<Rightarrow>
          if kind = OutboxKindRead then {OutboxConfirmed}
          else if blank (snRemoteMessageID result) then
            (if kind = OutboxKindReaction then {OutboxConfirmed} else {OutboxUncertain})
          else {OutboxConfirmed, OutboxStoreFailed})"

definition settles :: "outbox_item \<Rightarrow> service \<Rightarrow> dispatch_error list \<times> service \<Rightarrow> bool" where
  "settles item v res \<longleftrightarrow> (fst res = [] \<or> (\<exists>e. fst res = [ContextDone e])) \<and>
     (svCalls (snd res) = svCalls v \<and>
        rowEnds item {OutboxQueued, OutboxNotDispatched, OutboxRejected} (svStore (snd res)) \<or>
      (\<exists>c. svCalls (snd res) = svCalls v @ [c] \<and>
        rowEnds item (callOutcome (obKind item) (clResult c) (clError c)) (svStore (snd res))))"

lemma ends_settles:
  "ends item S v res \<Longrightarrow> S \<subseteq> {OutboxQueued, OutboxNotDispatched, OutboxRejected} \<Longrightarrow> settles item v res"
  by (auto simp: ends_def settles_def intro: rowEnds_mono)

text \<open>The premises of a dispatch that finishes, and the row it starts from.\<close>

definition ready :: "world \<Rightarrow> outbox_item \<Rightarrow> string \<Rightarrow> service \<Rightarrow> bool" where
  "ready w item token v \<longleftrightarrow> calm w item (svRetryDelay v) \<and> obLeaseToken item = Some token \<and>
     \<not> blank (obOutboxID item) \<and> \<not> blank token \<and> (\<exists>r. inHand False item token (svStore v) r)"

lemma callTransport_settles:
  assumes "ready w item token v"
    and outcome: "\<And>result err u r. inHand True item token (svStore u) r \<Longrightarrow>
      calm w item (svRetryDelay u) \<Longrightarrow>
      (\<And>e x. err = Some e \<Longrightarrow> asOpError e = Some x \<Longrightarrow>
         isZero (opRetryAt x) \<or> 0 < unixMilliOf (opRetryAt x)) \<Longrightarrow>
      ends item (callOutcome (obKind item) result err) u (outcome result err u)"
  shows "settles item v (callTransport w item token sender request outcome v)"
proof -
  from assms(1) obtain r where hand: "inHand False item token (svStore v) r"
    and calm: "calm w item (svRetryDelay v)" and names: "\<not> blank (obOutboxID item)" "\<not> blank token"
    unfolding ready_def by blast
  obtain x where "obLeaseExpiresAtMS item = Some x" "unixMilliOf (wClock w SiteMark) < x"
    using calm by (auto simp: calm_def split: option.splits)
  then obtain s' r' where s': "markTransportCalled (wClock w SiteMark) (obOutboxID item) token
      (svStore v) = Inr s'" "inHand True item token s' r'"
    using mark_holds [OF hand _ names] calm_clock [OF calm] by blast
  define mark where "mark = commit w SiteMark
    (markTransportCalled (wClock w SiteMark) (obOutboxID item) token) v"
  have mark: "fst mark = []" "snd mark = signalChange (v\<lparr>svStore := s'\<rparr>)"
    using s' calm_clock [OF calm] by (simp_all add: mark_def commit_def storing_def)
  define call where "call = \<lparr>clOutboxID = obOutboxID item, clHandle = sender,
      clRequest = request, clResult = fst (wTransport w sender request),
      clError = snd (wTransport w sender request)\<rparr>"
  define u where "u = (snd mark)\<lparr>svCalls := svCalls (snd mark) @ [call]\<rparr>"
  have end_eq: "callTransport w item token sender request outcome v
      = outcome (clResult call) (clError call) u"
    using mark(1) by (simp add: callTransport_def mark_def [symmetric] split_beta Let_def call_def u_def)
  have u: "svStore u = s'" "svRetryDelay u = svRetryDelay v" "svCalls u = svCalls v @ [call]"
    by (simp_all add: u_def mark signalChange_def)
  have "isZero (opRetryAt y) \<or> 0 < unixMilliOf (opRetryAt y)"
    if "clError call = Some e" "asOpError e = Some y" for e y
    using calm that by (auto simp: calm_def call_def split: option.splits)
  with outcome [of u r' "clError call" "clResult call"] s'(2) calm u
  have "ends item (callOutcome (obKind item) (clResult call) (clError call)) u
      (outcome (clResult call) (clError call) u)" by simp
  then show ?thesis
    unfolding end_eq settles_def ends_def u by blast
qed

lemma sendOutcome_ends:
  assumes "calm w item (svRetryDelay u)" and "obLeaseToken item = Some token"
    and "inHand True item token (svStore u) r" and "obKind item \<in> {OutboxKindText, OutboxKindMedia}"
    and "\<And>e x. err = Some e \<Longrightarrow> asOpError e = Some x \<Longrightarrow>
         isZero (opRetryAt x) \<or> 0 < unixMilliOf (opRetryAt x)"
  shows "ends item (callOutcome (obKind item) result err) u
           (sendOutcome w item token operation result err u)"
proof (cases err)
  case None
  with assms(4) missingRemoteID_ends [OF assms(1,3)] confirmResult_ends [OF assms(1-3), of result]
  show ?thesis by (auto simp: callOutcome_def sendOutcome_def)
next
  case (Some e)
  with sendError_ends [OF assms(1-3)] assms(5) [OF Some] show ?thesis
    by (simp add: callOutcome_def sendOutcome_def)
qed

lemma reactionOutcome_ends:
  assumes "calm w item (svRetryDelay u)" and "obLeaseToken item = Some token"
    and "inHand True item token (svStore u) r" and "obKind item = OutboxKindReaction"
    and "\<And>e x. err = Some e \<Longrightarrow> asOpError e = Some x \<Longrightarrow>
         isZero (opRetryAt x) \<or> 0 < unixMilliOf (opRetryAt x)"
  shows "ends item (callOutcome (obKind item) result err) u (reactionOutcome w item token result err u)"
proof (cases err)
  case None
  with assms(4) acceptWithoutResult_ends [OF assms(1,3)] confirmResult_ends [OF assms(1-3), of result]
  show ?thesis by (auto simp: callOutcome_def reactionOutcome_def)
next
  case (Some e)
  with sendError_ends [OF assms(1-3)] assms(5) [OF Some] show ?thesis
    by (simp add: callOutcome_def reactionOutcome_def)
qed

lemma readOutcome_ends:
  assumes "calm w item (svRetryDelay u)" and "obLeaseToken item = Some token"
    and "inHand True item token (svStore u) r" and "obKind item = OutboxKindRead"
    and "\<And>e x. err = Some e \<Longrightarrow> asOpError e = Some x \<Longrightarrow>
         isZero (opRetryAt x) \<or> 0 < unixMilliOf (opRetryAt x)"
  shows "ends item (callOutcome (obKind item) result err) u (readOutcome w item token result err u)"
proof (cases err)
  case None
  with assms(4) acceptWithoutResult_ends [OF assms(1,3)]
  show ?thesis by (simp add: callOutcome_def readOutcome_def)
next
  case (Some e)
  with sendError_ends [OF assms(1-3)] assms(5) [OF Some] show ?thesis
    by (simp add: callOutcome_def readOutcome_def)
qed

text \<open>The early returns of the dispatch functions, and the shape they share.\<close>

lemma ready_pieces:
  assumes "ready w item token v"
  shows "settles item v (releaseUnavailableItem w item v)"
    and "settles item v (loadFailed w item code v)"
    and "settles item v (rejectPreCall w item c d cause v)"
    and "settles item v (unavailable w item err rejection v)"
proof -
  from assms obtain r where hand: "inHand False item token (svStore v) r"
    and calm: "calm w item (svRetryDelay v)" and t: "obLeaseToken item = Some token"
    unfolding ready_def by blast
  show "settles item v (releaseUnavailableItem w item v)"
    by (rule ends_settles [OF released_ends [OF calm t hand, THEN conjunct1]]) simp
  show "settles item v (loadFailed w item code v)"
    by (rule ends_settles [OF loadFailed_ends [OF calm t hand]]) simp
  show "settles item v (rejectPreCall w item c d cause v)"
    by (rule ends_settles [OF rejected_ends [OF calm t hand]]) simp
  show "settles item v (unavailable w item err rejection v)"
    by (rule ends_settles [OF unavailable_ends [OF calm t hand]]) simp
qed

lemma settles_option:
  "(x = None \<Longrightarrow> settles item v a) \<Longrightarrow> (\<And>y. x = Some y \<Longrightarrow> settles item v (f y)) \<Longrightarrow>
   settles item v (case x of None \<Rightarrow> a | Some y \<Rightarrow> f y)"
  by (simp split: option.split)

lemma settles_sum:
  "(\<And>e. x = Inl e \<Longrightarrow> settles item v (g e)) \<Longrightarrow> (\<And>y. x = Inr y \<Longrightarrow> settles item v (f y)) \<Longrightarrow>
   settles item v (case x of Inl e \<Rightarrow> g e | Inr y \<Rightarrow> f y)"
  by (simp split: sum.split)

lemma settles_blob:
  "(\<And>c. x = BlobOpened c \<Longrightarrow> settles item v (f c)) \<Longrightarrow> settles item v a \<Longrightarrow> settles item v b \<Longrightarrow>
   settles item v (case x of BlobOpened c \<Rightarrow> f c | BlobMissing \<Rightarrow> a | BlobUnreadable \<Rightarrow> b)"
  by (simp split: blob_open.split)

lemma ready_token: "ready w item token v \<Longrightarrow> obLeaseToken item = Some token"
  by (simp add: ready_def)

lemma text_settles:
  assumes "ready w item token v" and "obKind item = OutboxKindText"
  shows "settles item v (dispatchTextLease w item v)"
  unfolding dispatchTextLease_def ready_token [OF assms(1)] option.case
  by (intro settles_option settles_sum ready_pieces [OF assms(1)] callTransport_settles [OF assms(1)]
      sendOutcome_ends [OF _ ready_token [OF assms(1)]]) (simp_all add: assms(2))

lemma media_settles:
  assumes "ready w item token v" and "obKind item = OutboxKindMedia"
  shows "settles item v (dispatchMediaLease w item v)"
  unfolding dispatchMediaLease_def ready_token [OF assms(1)] option.case
  by (intro settles_option settles_sum settles_blob ready_pieces [OF assms(1)]
      callTransport_settles [OF assms(1)] sendOutcome_ends [OF _ ready_token [OF assms(1)]])
    (simp_all add: assms(2))

lemma reaction_settles:
  assumes "ready w item token v" and "obKind item = OutboxKindReaction"
  shows "settles item v (dispatchReactionLease w item v)"
  unfolding dispatchReactionLease_def ready_token [OF assms(1)] option.case
  by (intro settles_option settles_sum ready_pieces [OF assms(1)] callTransport_settles [OF assms(1)]
      reactionOutcome_ends [OF _ ready_token [OF assms(1)]]) (simp_all add: assms(2))

lemma read_settles:
  assumes "ready w item token v" and "obKind item = OutboxKindRead"
  shows "settles item v (dispatchReadLease w item v)"
  unfolding dispatchReadLease_def ready_token [OF assms(1)] option.case
  by (intro settles_option settles_sum ready_pieces [OF assms(1)] callTransport_settles [OF assms(1)]
      readOutcome_ends [OF _ ready_token [OF assms(1)]]) (simp_all add: assms(2))

lemma dispatchLeased_settles:
  "ready w item token v \<Longrightarrow> settles item v (dispatchLeased w item v)"
  by (cases "obKind item") (simp_all add: dispatchLeased_def text_settles media_settles
      reaction_settles read_settles ready_pieces)

end
