(* ===== verification/Dispatch_Pass.thy ===== *)
theory Dispatch_Pass
  imports Dispatch_Outcome
begin

text \<open>
  A whole dispatch pass: a dispatch touches no row but its own, so that the intents that a pass
  has claimed are still in hand when their turn comes, and every one of them has ended its
  lease when the pass returns.
\<close>

section \<open>Rows that a dispatch does not touch\<close>

text \<open>Rows of other intents than \<open>I\<close> stay exactly as they are.\<close>

definition touches :: "string set \<Rightarrow> service \<Rightarrow> service \<Rightarrow> bool" where
  "touches I v v' \<longleftrightarrow> (outboxOK (svStore v) \<longrightarrow> outboxOK (svStore v')) \<and>
     svRetryDelay v' = svRetryDelay v \<and>
     (\<forall>r \<in> set (outbox (svStore v)). obOutboxID r \<notin> I \<longrightarrow> r \<in> set (outbox (svStore v')))"

lemma touches_refl [simp]: "touches I v v"
  by (simp add: touches_def)

lemma touches_trans: "touches I v u \<Longrightarrow> touches I u x \<Longrightarrow> touches I v x"
  by (simp add: touches_def)

lemma touches_mono: "touches I v u \<Longrightarrow> I \<subseteq> J \<Longrightarrow> touches J v u"
  by (auto simp: touches_def)

lemma touches_change [simp]: "touches I v (signalChange u) = touches I v u"
  by (simp add: touches_def signalChange_def)

lemma touches_calls [simp]: "touches I v (u\<lparr>svCalls := cs\<rparr>) = touches I v u"
  by (simp add: touches_def)

lemma mutateLeased_others:
  "mutateLeased i P f s = Inr t \<Longrightarrow> r \<in> set (outbox s) \<Longrightarrow> obOutboxID r \<noteq> i \<Longrightarrow> r \<in> set (outbox t)"
  by (force simp: mutateLeased_Inr mutateRows_Inr set_sqlUpdate image_iff)

lemma confirm_others:
  assumes "confirm t t' c s = Inr u" and "r \<in> set (outbox s)" and "obOutboxID r \<noteq> cfOutboxID c"
  shows "r \<in> set (outbox u)"
proof -
  obtain row s1 where "row \<in> set (outbox s1)" and "obOutboxID row = cfOutboxID c" and
    mut: "mutateRows (\<lambda>r. obOutboxID r = cfOutboxID c \<and> holdsLease (cfLeaseToken c) r \<and> called r)
          (\<lambda>r. (finishRow OutboxConfirmed (unixMilliOf t) (setOutboxError None None None r))
                 \<lparr>obResultRemoteID := Some (if cfResultRemoteID c = [] then cfTransportResultID c
                    else cfResultRemoteID c)\<rparr>) s = Inr (1, s1)"
    and rest: "(case obLocalMessageID row of None \<Rightarrow> Inr s1
             | Some localID \<Rightarrow> repointLocalMessage t' (obAccountID row) (obConversationID row)
                 localID (obTransportRequestID row) (if cfResultRemoteID c = [] then cfTransportResultID c
                    else cfResultRemoteID c) s1) = Inr u"
    by (rule confirm_Inr [OF assms(1)])
  from mut assms(2,3) have "r \<in> set (outbox s1)"
    by (force simp: mutateRows_Inr set_sqlUpdate image_iff)
  then show ?thesis by (simp add: repointed_outbox [OF rest])
qed

lemma leased_others:
  assumes "usesLease op = Some (i, k)" and "runOp op s = Inr t"
    and "r \<in> set (outbox s)" and "obOutboxID r \<noteq> i"
  shows "r \<in> set (outbox t)"
  using assms confirm_others
  by (cases op) (auto simp: markTransportCalled_def markNotDispatchedAs_def releaseUnavailable_def
      markUncertain_def rejectOutbox_def confirmWithoutResult_def markStoreFailed_def thenDo_Inr
      if_failWith dest: mutateLeased_others)

lemma storing_touches:
  assumes "\<And>s. runOp op s = f s" and "usesLease op = Some (i, k)" and "i \<in> I"
  shows "touches I v (snd (storing w at f v))"
proof -
  have "touches I v (v\<lparr>svStore := t\<rparr>)" if "f (svStore v) = Inr t" for t
    using that assms leased_others [OF assms(2)] runOp_OK [of op "svStore v" t]
    by (auto simp: touches_def)
  then show ?thesis by (simp add: storing_def split: sum.split)
qed

lemma commit_touches:
  assumes "\<And>s. runOp op s = f s" and "usesLease op = Some (i, k)" and "i \<in> I"
  shows "touches I v (snd (commit w at f v))"
  using storing_touches [OF assms] by (simp add: commit_snd)

abbreviation own :: "outbox_item \<Rightarrow> string set" where
  "own item \<equiv> {obOutboxID item}"

lemma touching_pieces:
  "touches (own item) v (snd (releaseUnavailableItem w item v))"
  "touches (own item) v (snd (markPreCallFailure w item c code cause at v))"
  "touches (own item) v (snd (rejectPreCall w item c code cause v))"
  "touches (own item) v (snd (markSendUncertain w item c code cause v))"
  "touches (own item) v (snd (missingRemoteID w item token v))"
  "touches (own item) v (snd (acceptWithoutResult w item token v))"
  "touches (own item) v (snd (commit w SiteMark (markTransportCalled t (obOutboxID item) token) v))"
  unfolding releaseUnavailableItem_def markPreCallFailure_def rejectPreCall_def
    markSendUncertain_def missingRemoteID_def acceptWithoutResult_def
  by (auto split: option.split intro: commit_touches [OF store_calls(1)]
      commit_touches [OF store_calls(2)] commit_touches [OF runOp.simps(9)]
      commit_touches [OF runOp.simps(8)] commit_touches [OF runOp.simps(10)]
      commit_touches [OF runOp.simps(3)])

lemma confirmResult_touches: "touches (own item) v (snd (confirmResult w item token result v))"
proof -
  let ?c = "\<lparr>cfOutboxID = obOutboxID item, cfLeaseToken = token,
                cfResultRemoteID = snRemoteMessageID result, cfTransportResultID = ''''\<rparr>"
  let ?first = "storing w SiteConfirm (confirm (wClock w SiteConfirm) (wClock w SiteRepoint) ?c) v"
  have a: "touches (own item) v (snd ?first)"
    by (rule storing_touches [OF runOp.simps(11)]) simp_all
  have b: "touches (own item) u (snd (storing w SiteStoreFailed (markStoreFailed (wClock w SiteStoreFailed)
      (obOutboxID item) token (snRemoteMessageID result) (wDetail w SiteConfirm)) u))" for u
    by (rule storing_touches [OF runOp.simps(12)]) simp_all
  show ?thesis
    using a touches_trans [OF a b] by (simp add: confirmResult_def Let_def split_beta)
qed

lemma recordSendError_touches: "touches (own item) v (snd (recordSendError w item e code v))"
  by (auto simp: recordSendError_def Let_def touching_pieces split: option.split
      intro: commit_touches [OF store_calls(3)] commit_touches [OF runOp.simps(9)])

lemma outcome_touches:
  "touches (own item) v (snd (sendOutcome w item token operation result err v))"
  "touches (own item) v (snd (reactionOutcome w item token result err v))"
  "touches (own item) v (snd (readOutcome w item token result err v))"
  by (simp_all add: sendOutcome_def reactionOutcome_def readOutcome_def recordSendError_touches
      touching_pieces confirmResult_touches split: option.split)

lemma loadFailed_touches: "touches (own item) v (snd (loadFailed w item code v))"
  by (simp add: loadFailed_def touching_pieces)

lemma unavailable_touches: "touches (own item) v (snd (unavailable w item err rejection v))"
  by (simp add: unavailable_def Let_def split_beta touching_pieces)

lemma callTransport_touches:
  assumes "\<And>result err u. touches (own item) u (snd (outcome result err u))"
  shows "touches (own item) v (snd (callTransport w item token sender request outcome v))"
proof -
  define mark where "mark = commit w SiteMark
    (markTransportCalled (wClock w SiteMark) (obOutboxID item) token) v"
  have m: "touches (own item) v (snd mark)" unfolding mark_def by (rule touching_pieces)
  have "touches (own item) v (snd (releaseUnavailableItem w item (snd mark)))"
    using m touching_pieces(1) by (rule touches_trans)
  moreover have "touches (own item) v (snd (outcome result err ((snd mark)\<lparr>svCalls := cs\<rparr>)))"
    for result err cs
    by (rule touches_trans [OF _ assms]) (simp add: m)
  ultimately show ?thesis
    using m by (simp add: callTransport_def mark_def [symmetric] split_beta Let_def split: option.split)
qed

lemma touches_option:
  "(x = None \<Longrightarrow> touches I v (snd a)) \<Longrightarrow> (\<And>y. x = Some y \<Longrightarrow> touches I v (snd (f y))) \<Longrightarrow>
   touches I v (snd (case x of None \<Rightarrow> a | Some y \<Rightarrow> f y))"
  by (simp split: option.split)

lemma touches_sum:
  "(\<And>e. x = Inl e \<Longrightarrow> touches I v (snd (g e))) \<Longrightarrow> (\<And>y. x = Inr y \<Longrightarrow> touches I v (snd (f y))) \<Longrightarrow>
   touches I v (snd (case x of Inl e \<Rightarrow> g e | Inr y \<Rightarrow> f y))"
  by (simp split: sum.split)

lemma touches_blob:
  "(\<And>c. x = BlobOpened c \<Longrightarrow> touches I v (snd (f c))) \<Longrightarrow> touches I v (snd a) \<Longrightarrow>
   touches I v (snd b) \<Longrightarrow>
   touches I v (snd (case x of BlobOpened c \<Rightarrow> f c | BlobMissing \<Rightarrow> a | BlobUnreadable \<Rightarrow> b))"
  by (simp split: blob_open.split)

lemma touches_here: "touches I v (snd (e, v))"
  by simp

lemma dispatchLeased_touches: "touches (own item) v (snd (dispatchLeased w item v))"
proof -
  note shape = touches_here touches_option touches_sum touches_blob touching_pieces(1,3)
    loadFailed_touches unavailable_touches callTransport_touches outcome_touches
  show ?thesis
    by (cases "obKind item"; simp only: dispatchLeased_def outbox_kind.case dispatchTextLease_def
        dispatchMediaLease_def dispatchReactionLease_def dispatchReadLease_def; intro shape)
qed

section \<open>A whole pass\<close>

definition heldBy :: "outbox_item \<Rightarrow> service \<Rightarrow> bool" where
  "heldBy item v \<longleftrightarrow> (\<exists>token r. obLeaseToken item = Some token \<and> \<not> blank token \<and>
     \<not> blank (obOutboxID item) \<and> inHand False item token (svStore v) r)"

lemma heldBy_touches:
  assumes "heldBy item v" and "touches I v u" and "obOutboxID item \<notin> I"
  shows "heldBy item u"
  using assms by (fastforce simp: heldBy_def inHand_def touches_def sameIntent_def)

lemma rowEnds_touches:
  assumes "rowEnds item S (svStore v)" and "touches I v u" and "obOutboxID item \<notin> I"
  shows "rowEnds item S (svStore u)"
  using assms by (fastforce simp: rowEnds_def touches_def sameIntent_def)

lemma distinct_heads: "distinct (map k (y # ys)) \<Longrightarrow> x \<in> set ys \<Longrightarrow> k x \<noteq> k y"
  by (metis distinct.simps(2) imageI list.map(2) list.set_map)

lemma releaseEach_touches:
  "touches (obOutboxID ` set items) v (snd (snd (releaseEach w k items v)))"
proof (induction items arbitrary: k v)
  case (Cons item items)
  define first where "first = (case obLeaseToken item of
         None \<Rightarrow> ([MissingLeaseToken (obOutboxID item)], v)
       | Some token \<Rightarrow> storing w (SiteUntouched k)
               (releaseUnavailable (wClock w (SiteUntouched k)) (obOutboxID item) token) v)"
  let ?I = "obOutboxID ` set (item # items)"
  have "touches ?I v (snd first)"
    unfolding first_def by (auto split: option.split intro: storing_touches [OF store_calls(1)])
  moreover have "touches ?I (snd first) (snd (snd (releaseEach w (Suc k) items (snd first))))"
    by (rule touches_mono [OF Cons.IH]) auto
  ultimately show ?case
    by (simp add: first_def [symmetric] Let_def split_beta) (rule touches_trans)
qed simp

lemma releaseEach_ends:
  assumes "\<And>item at. item \<in> set items \<Longrightarrow> \<not> wFault w at \<and> obCreatedAtMS item \<le> unixMilliOf (wClock w at)"
    and "\<And>item. item \<in> set items \<Longrightarrow> heldBy item v" and "distinct (map obOutboxID items)"
  shows "\<forall>item \<in> set items. rowEnds item {OutboxQueued} (svStore (snd (snd (releaseEach w k items v))))"
  using assms
proof (induction items arbitrary: k v)
  case (Cons item items)
  obtain token r where token: "obLeaseToken item = Some token"
    and hand: "inHand False item token (svStore v) r"
    using Cons.prems(2) [of item] unfolding heldBy_def by auto
  obtain s' where s': "releaseUnavailable (wClock w (SiteUntouched k)) (obOutboxID item) token
      (svStore v) = Inr s'" "rowEnds item {OutboxQueued} s'"
    using release_ends [OF hand] Cons.prems(1) by (metis list.set_intros(1))
  let ?u = "v\<lparr>svStore := s'\<rparr>"
  have eq: "snd (snd (releaseEach w k (item # items) v)) = snd (snd (releaseEach w (Suc k) items ?u))"
    using s'(1) Cons.prems(1) [of item "SiteUntouched k"] token
    by (simp add: storing_def Let_def split_beta)
  have "touches (own item) v (snd (storing w (SiteUntouched k)
      (releaseUnavailable (wClock w (SiteUntouched k)) (obOutboxID item) token) v))"
    by (rule storing_touches [OF store_calls(1)]) simp_all
  then have t: "touches (own item) v ?u"
    using s'(1) Cons.prems(1) [of item "SiteUntouched k"] by (simp add: storing_def)
  have "obOutboxID x \<noteq> obOutboxID item" if "x \<in> set items" for x
    using distinct_heads [OF Cons.prems(3) that] .
  then have "heldBy x ?u" if "x \<in> set items" for x
    using heldBy_touches [OF _ t, of x] that Cons.prems(2) by simp
  with Cons.IH [of ?u "Suc k"] Cons.prems
  have "\<forall>x \<in> set items. rowEnds x {OutboxQueued} (svStore (snd (snd (releaseEach w (Suc k) items ?u))))"
    by auto
  moreover have "rowEnds item {OutboxQueued} (svStore (snd (snd (releaseEach w (Suc k) items ?u))))"
    using rowEnds_touches [OF _ releaseEach_touches, of item "{OutboxQueued}" ?u] s'(2) Cons.prems(3)
    by simp
  ultimately show ?case unfolding eq by simp
qed simp

definition terminated :: "outbox_item \<Rightarrow> service \<Rightarrow> bool" where
  "terminated item v \<longleftrightarrow> rowEnds item (- {OutboxDispatching}) (svStore v)"

lemma releaseUntouched_terminates:
  assumes "\<And>item at. item \<in> set items \<Longrightarrow> \<not> wFault w at \<and> obCreatedAtMS item \<le> unixMilliOf (wClock w at)"
    and "\<And>item. item \<in> set items \<Longrightarrow> heldBy item v" and "distinct (map obOutboxID items)"
  shows "\<forall>item \<in> set items. terminated item (snd (releaseUntouched w items v))"
    and "touches (obOutboxID ` set items) v (snd (releaseUntouched w items v))"
proof -
  have "svStore (snd (releaseUntouched w items v)) = svStore (snd (snd (releaseEach w 0 items v)))"
    by (simp add: releaseUntouched_def Let_def split_beta signalChange_def)
  with releaseEach_ends [OF assms, of 0] show "\<forall>item \<in> set items. terminated item (snd (releaseUntouched w items v))"
    by (auto simp: terminated_def intro: rowEnds_mono)
  show "touches (obOutboxID ` set items) v (snd (releaseUntouched w items v))"
    using releaseEach_touches [of items v w 0]
    by (simp add: releaseUntouched_def Let_def split_beta)
qed

lemma settles_terminated: "settles item v res \<Longrightarrow> terminated item (snd res)"
proof -
  have "callOutcome kind result err \<subseteq> - {OutboxDispatching}" for kind result err
    by (auto simp: callOutcome_def errorOutcome_def split: option.splits)
  then show "settles item v res \<Longrightarrow> terminated item (snd res)"
    unfolding settles_def terminated_def by (auto intro: rowEnds_mono)
qed

lemma dispatchEach_terminates:
  assumes "\<And>item j. item \<in> set items \<Longrightarrow> calm (ws j) item (svRetryDelay v) \<and>
      \<not> leaseLapsed (wClock (ws j) SiteLoop) item"
    and "\<And>item. item \<in> set items \<Longrightarrow> heldBy item v" and "distinct (map obOutboxID items)"
  shows "(\<forall>item \<in> set items. terminated item (snd (snd (dispatchEach ws k items v)))) \<and>
     touches (obOutboxID ` set items) v (snd (snd (dispatchEach ws k items v)))"
  using assms
proof (induction items arbitrary: k v)
  case (Cons item items)
  let ?all = "item # items"
  let ?I = "obOutboxID ` set ?all"
  have quietly: "\<not> wFault (ws k) at \<and> obCreatedAtMS x \<le> unixMilliOf (wClock (ws k) at)"
    if "x \<in> set ?all" for x at
    using Cons.prems(1) [OF that, of k] calm_clock by blast
  show ?case
  proof (cases "wCtx (ws k) SiteLoop")
    case (Some e)
    with releaseUntouched_terminates [of ?all "ws k" v] quietly Cons.prems(2,3) show ?thesis
      by (simp add: Let_def split_beta)
  next
    case None
    define res where "res = dispatchLeased (ws k) item v"
    let ?u = "snd res"
    obtain token where "ready (ws k) item token v"
      using Cons.prems(1) [of item k] Cons.prems(2) [of item] by (auto simp: heldBy_def ready_def)
    then have "terminated item ?u"
      unfolding res_def by (rule settles_terminated [OF dispatchLeased_settles])
    have t: "touches (own item) v ?u" unfolding res_def by (rule dispatchLeased_touches)
    then have delay: "svRetryDelay ?u = svRetryDelay v" by (simp add: touches_def)
    have "obOutboxID x \<noteq> obOutboxID item" if "x \<in> set items" for x
      using distinct_heads [OF Cons.prems(3) that] .
    then have others: "heldBy x ?u" if "x \<in> set items" for x
      using heldBy_touches [OF _ t, of x] that Cons.prems(2) by simp
    have again: "(\<forall>x \<in> set items. terminated x (snd (snd (dispatchEach ws (Suc k) items ?u)))) \<and>
        touches (obOutboxID ` set items) ?u (snd (snd (dispatchEach ws (Suc k) items ?u)))"
      using Cons.IH [of ?u "Suc k"] Cons.prems delay others by auto
    have "\<not> wFault (ws k) at \<and> obCreatedAtMS x \<le> unixMilliOf (wClock (ws k) at)"
      if "x \<in> set items" for x at using quietly [of x at] that by simp
    then have given_up: "(\<forall>x \<in> set items. terminated x (snd (releaseUntouched (ws k) items ?u))) \<and>
        touches (obOutboxID ` set items) ?u (snd (releaseUntouched (ws k) items ?u))"
      using releaseUntouched_terminates [of items "ws k", OF _ others] Cons.prems(3) by simp
    have rest: "(\<forall>x \<in> set items. terminated x u') \<and> touches (obOutboxID ` set items) ?u u'"
      if "u' = snd (snd (dispatchEach ws (Suc k) items ?u)) \<or> u' = snd (releaseUntouched (ws k) items ?u)"
      for u'
      using that again given_up by blast
    have "terminated item u' \<and> touches ?I v u'" if "touches (obOutboxID ` set items) ?u u'" for u'
      using that \<open>terminated item ?u\<close> Cons.prems(3) rowEnds_touches [OF _ that]
        touches_trans [OF touches_mono [OF t] touches_mono [OF that], of ?I]
      by (auto simp: terminated_def)
    with rest have step: "(\<forall>x \<in> set ?all. terminated x u') \<and> touches ?I v u'"
      if "u' = snd (snd (dispatchEach ws (Suc k) items ?u)) \<or> u' = snd (releaseUntouched (ws k) items ?u)"
      for u'
      using that by auto
    have "snd (snd (dispatchEach ws k ?all v)) = (if fst res = []
        then snd (snd (dispatchEach ws (Suc k) items ?u)) else snd (releaseUntouched (ws k) items ?u))"
      using None Cons.prems(1) [of item k] by (simp add: res_def Let_def split_beta)
    then show ?thesis using step by presburger
  qed
qed simp

end
