(* ===== verification/Service_Facts.thy ===== *)
theory Service_Facts
  imports Service_Safety Dispatch_Pass
begin

text \<open>
  What the properties of the message service rest on: the life of a row under any operations
  of the service, the inversion rules of submissions and resends, and Go's rune decoding,
  whose encodings are self-delimiting.
\<close>

section \<open>Rows under the service\<close>

definition runs :: "service \<Rightarrow> service \<Rightarrow> bool" where
  "runs v v' \<longleftrightarrow> (\<exists>ops. svStore v' = runAll ops (svStore v))"

lemma runs_refl [simp]: "runs v v"
  unfolding runs_def by (rule exI [of _ "[]"]) simp

lemma runs_trans: "runs v u \<Longrightarrow> runs u x \<Longrightarrow> runs v x"
  unfolding runs_def by (metis runAll_append)

lemma moved_runs: "moved M D new v u \<Longrightarrow> runs v u"
  by (auto simp: moved_def runs_def)

lemma served_runs: "served Q v u \<Longrightarrow> runs v u"
  by (auto simp: served_def intro: moved_runs)

lemma dispatchDue_runs: "runs v (snd (snd (dispatchDue given w ws tokens limit v)))"
proof -
  obtain k err v' where eq: "dispatchDue given w ws tokens limit v = (k, err, v')"
    by (cases "dispatchDue given w ws tokens limit v")
  then show ?thesis
  proof (cases rule: dispatchDue_cases)
    case (leased leases s)
    have "runs v (v\<lparr>svStore := s\<rparr>)"
      using moved_runs [OF moved_op [of "OpLease \<lparr>lqOwner = workerOwner, lqNow = wClock w SiteLease,
        lqDuration = svLeaseTime v, lqLimit = limit\<rparr> tokens" v s]] leased(1) by simp
    with served_runs [OF dispatchEach_served [of leases "v\<lparr>svStore := s\<rparr>" ws 0]] leased(2) eq
    show ?thesis by (auto intro: runs_trans)
  qed (simp add: eq)
qed

lemma runPass_runs: "runs v (snd (runPass p v))"
proof -
  let ?u = "snd (snd (reconcileStoreFailedDue True (rpReconcile p) (rpReconcileEach p) (svBatchLimit v) v))"
  let ?x = "snd (snd (dispatchDue True (rpLease p) (rpLeaseEach p) (rpTokens p) (svBatchLimit ?u) ?u))"
  have u: "runs v ?u" by (rule moved_runs [OF reconcileDue_quiet])
  have x: "runs v ?x" by (rule runs_trans [OF u dispatchDue_runs])
  then have "runs v (?x\<lparr>svWake := False\<rparr>)" by (simp add: runs_def)
  with u x show ?thesis
    by (simp add: runPass_def Let_def split_beta split: option.split select_end.split)
qed

lemma runPasses_runs: "runs v (snd (runPasses ps v))"
proof (induction ps arbitrary: v)
  case (Cons p ps)
  from runPass_runs [of v p] Cons.IH show ?case
    by (auto simp: Let_def split_beta intro: runs_trans)
qed simp

lemma applyService_runs: "runs v (applyService op v)"
proof -
  note calm = submit_quiet cancel_retry_quiet echo_quiet repair_quiet reconcileDue_quiet
  have "runs v (snd (runService g w ps v))" for g w ps
    using moved_runs [OF recoverLeases_quiet [of v w]]
    by (auto simp: runService_def Let_def split_beta intro: runs_trans runPasses_runs)
  then show ?thesis
    by (cases op) (simp_all only: applyService.simps calm [THEN moved_runs] dispatchDue_runs)
qed

lemma serviceStep_later:
  assumes "serviceStep v u" and "serviceOK v" and "r \<in> set (outbox (svStore v))"
  shows "\<exists>r' \<in> set (outbox (svStore u)). later r r'"
  using assms
proof cases
  case (operation op)
  obtain ops where "svStore u = runAll ops (svStore v)"
    using applyService_runs [of v op] unfolding runs_def operation by blast
  with runAll_later [OF serviceOK_outboxOK [OF assms(2)] assms(3)] show ?thesis by simp
next
  case (others s)
  then have "outbox (svStore u) = outbox (svStore v)" by simp
  with assms(3) show ?thesis by (metis later_refl)
qed

lemma serviceSteps_later:
  "serviceStep\<^sup>*\<^sup>* v u \<Longrightarrow> serviceOK v \<Longrightarrow> r \<in> set (outbox (svStore v)) \<Longrightarrow>
   \<exists>r' \<in> set (outbox (svStore u)). later r r'"
proof (induction rule: rtranclp_induct)
  case (step y z)
  from step.IH [OF step.prems] obtain r' where "r' \<in> set (outbox (svStore y))" "later r r'" by blast
  with serviceStep_later [OF step.hyps(2) svc.steps_inv [OF step.hyps(1) step.prems(1)]]
  show ?case by (blast intro: later_trans)
qed (metis later_refl)

section \<open>Submissions\<close>

lemma submitting_Inr:
  assumes "submitting given m v = (Inr sub, v')"
  obtains f where "given" and "m = Inr f" and "f v = (Inr sub, v')"
  using assms by (auto simp: submitting_def split: if_splits sum.splits)

lemma enqueued_Inr:
  assumes "enqueued x f v = (Inr sub, v')"
  obtains item d s where "f (svStore v) = Inr (item, d, s)" and "sub = submissionFromItem item d"
    and "svStore v' = s" and "d = EnqueueExisting \<Longrightarrow> v' = v\<lparr>svStore := s\<rparr>"
  using assms by (auto simp: enqueued_def Let_def signalWake_def signalChange_def
      split: if_splits sum.splits)

lemma enqueued_again:
  assumes ok: "outboxOK (svStore v)" and row: "row \<in> set (outbox (svStore v))"
    and key: "intentKey row = (niAccountID item, niIdempotencyKey item)"
    and res: "enqueued x (enqueue t item m c) v = (res, v')"
  shows "v' = v \<and> (\<forall>sub. res = Inr sub \<longrightarrow> sub = submissionFromItem row EnqueueExisting)"
proof (cases res)
  case (Inl e)
  with res show ?thesis by (auto simp: enqueued_def Let_def split: if_splits sum.splits)
next
  case (Inr sub)
  with res obtain r d s where e: "enqueue t item m c (svStore v) = Inr (r, d, s)"
    "sub = submissionFromItem r d" "d = EnqueueExisting \<Longrightarrow> v' = v\<lparr>svStore := s\<rparr>"
    by (auto elim: enqueued_Inr)
  with enqueue_again [OF ok row key e(1)] Inr show ?thesis by simp
qed

lemma submission_fields:
  "sbOutboxID (submissionFromItem item d) = obOutboxID item"
  "sbLocalMessageID (submissionFromItem item d) = stringValue (obLocalMessageID item)"
  "sbDeduplicated (submissionFromItem item d) = (d = EnqueueExisting)"
  by (simp_all add: submissionFromItem_def)

lemma textIntent_key:
  "textIntent x cmd s = Inr (item, m) \<Longrightarrow>
   niAccountID item = cmAccountID (stCommon cmd) \<and> niIdempotencyKey item = cmIdempotencyKey (stCommon cmd)"
  by (auto simp: textIntent_def thenDo_Inr newItem_def)

lemma sendText_Inr:
  assumes "sendText given x cmd v = (Inr sub, v')"
  obtains item m where "textIntent x cmd (svStore v) = Inr (item, m)"
    and "enqueued x (enqueue (sxStoreNow x 0) item (Some m) noCarriers) v = (Inr sub, v')"
  using assms unfolding sendText_def enqueueOutgoingMessage_def
  by (elim submitting_Inr) (auto simp: thenDo_Inr)

lemma sendText_cases:
  "sendText given x cmd v = (res, v') \<Longrightarrow>
   (\<exists>e. res = Inl e \<and> v' = v) \<or>
   (\<exists>item m. textIntent x cmd (svStore v) = Inr (item, m) \<and>
      enqueued x (enqueue (sxStoreNow x 0) item (Some m) noCarriers) v = (res, v'))"
  by (auto simp: sendText_def submitting_def enqueueOutgoingMessage_def thenDo_def
      split: if_splits sum.splits prod.splits)

section \<open>Resending\<close>

lemma readRow_Inr: "readRow x at m = Inr r \<longleftrightarrow> \<not> sxFault x at \<and> m = Inr r"
  by (auto simp: readRow_def split: sum.split)

lemma findByID_Inr: "findByID i s = Inr r \<Longrightarrow> r \<in> set (outbox s) \<and> obOutboxID r = i"
  by (auto simp: findByID_def dest: sqlFind_Some split: option.splits)

lemma resendIntent_Inr:
  assumes "resendIntent x i key s = Inr (item, m, a)"
  obtains prior where "prior \<in> set (outbox s)" and "obOutboxID prior = i"
    and "obState prior \<in> {OutboxUncertain, OutboxRejected}"
    and "obKind prior \<in> {OutboxKindText, OutboxKindMedia}" and "key \<noteq> obIdempotencyKey prior"
    and "niAccountID item = obAccountID prior" and "niConversationID item = obConversationID prior"
    and "niKind item = obKind prior" and "niIdempotencyKey item = key"
    and "niSendAgainOfOutboxID item = i"
  using assms
  by (auto simp: resendIntent_def thenDo_Inr readRow_Inr Let_def newItem_def dest!: findByID_Inr
      split: if_splits)

section \<open>Runes\<close>

lemma byte_of [simp]: "n < 256 \<Longrightarrow> of_char (byte n) = n"
  by (simp add: byte_def)

lemma splitRune_again:
  assumes "s \<noteq> []"
  shows "splitRune (fst (splitRune s) @ t) = (fst (splitRune s), t)"
proof -
  have r: "splitRune (replacement @ t) = (replacement, t)" for t
    by (simp add: replacement_def between_def secondByte_def)
  have a: "between 0 127 a \<Longrightarrow> splitRune (a # t) = ([a], t)" for a t
    by (cases t) simp_all
  from assms show ?thesis
    by (cases s rule: splitRune.cases) (auto simp: r a between_def split: list.splits)
qed

lemma splitRune_nonempty: "s \<noteq> [] \<Longrightarrow> fst (splitRune s) \<noteq> []"
  by (cases s rule: splitRune.cases) (auto simp: replacement_def split: list.splits)

lemma runesOf_Nil [simp]: "runesOf [] = []"
  by (simp add: runesOf.simps)

lemma runesOf_concat: "runesOf (concat (take n (runesOf s))) = take n (runesOf s)"
proof (induction s arbitrary: n rule: runesOf.induct)
  case (1 s)
  show ?case
  proof (cases "s = [] \<or> n = 0")
    case True
    then show ?thesis by auto
  next
    case False
    then obtain k where n: "n = Suc k" by (cases n) auto
    from False have s: "s \<noteq> []" by simp
    let ?r = "fst (splitRune s)"
    have "take n (runesOf s) = ?r # take k (runesOf (snd (splitRune s)))"
      by (subst runesOf.simps) (simp add: n s)
    moreover have "runesOf (?r @ t) = ?r # runesOf t" for t
      by (subst runesOf.simps) (simp add: splitRune_again s splitRune_nonempty)
    ultimately show ?thesis using 1 [OF s, of k] by simp
  qed
qed

lemma limitRunes_bound: "length (runesOf (limitRunes s)) \<le> summaryMaxRunes"
  by (simp add: limitRunes_def Let_def runesOf_concat)

lemma limitRunes_runes: "runesOf (limitRunes s) = take summaryMaxRunes (runesOf s)"
  by (simp add: limitRunes_def Let_def runesOf_concat)

end
