(* ===== verification/Outbox_Correct.thy ===== *)
theory Outbox_Correct
  imports Outbox_History
begin

text \<open>
  The properties of the outbox over whole histories, with a demonstration history that every
  witness starts from.
\<close>

section \<open>A demonstration history\<close>

text \<open>
  One intent \<open>o1\<close> of account \<open>a\<close> with an optimistic message \<open>m1\<close>, enqueued at 1000 ms and
  leased at 2000 ms (\<open>demoLeased\<close>), called at 2001 ms (\<open>demoCalled\<close>).
\<close>

definition ms :: "int \<Rightarrow> gotime" where
  "ms n = timeOfUnixMilli n"

definition demoItem :: new_outbox_item where
  "demoItem = \<lparr>niOutboxID = ''o1'', niAccountID = ''a'', niConversationID = ''c'',
     niKind = OutboxKindText, niIdempotencyKey = ''k'', niPayloadHash = ''h'',
     niOperation = ''send_text'', niLocalMessageID = ''m1'', niTransportRequestID = ''r1'',
     niSendAgainOfOutboxID = '''', niScheduledFor = ms 1000, niScheduledForMS = 0\<rparr>"

definition demoMessage :: message where
  "demoMessage = \<lparr>msMessageID = ''m1'', msConversationID = ''c'', msAccountID = ''a'',
     msRemoteMessageID = ''r1'', msSenderIdentityID = None, msDirection = MessageDirectionOutgoing,
     msBody = ''hi'', msReplyToRemoteID = None, msState = MessageStateActive,
     msOccurredAtMS = 1000, msCreatedAtMS = 0, msUpdatedAtMS = 0\<rparr>"

definition demoStore :: store where
  "demoStore = emptyStore
     \<lparr>accounts := [\<lparr>acAccountID = ''a'', acBridgeKey = ''b'', acRemoteAccountID = None,
        acDisplayName = '''', acMode = ''real'', acEnabled = True, acConfigJSON = ''{}'',
        acCreatedAtMS = 1, acUpdatedAtMS = 1\<rparr>],
      conversations := [\<lparr>cvConversationID = ''c'', cvAccountID = ''a'',
        cvRemoteConversationID = ''rc'', cvKind = ''direct'', cvTitle = '''', cvRemoteRevision = None,
        cvNotificationMode = ''all'', cvIsFavorite = False, cvArchivedAtMS = None,
        cvLastMessageAtMS = 0, cvMetadataJSON = ''{}'', cvCreatedAtMS = 1, cvUpdatedAtMS = 1\<rparr>]\<rparr>"

definition demoRow :: outbox_item where
  "demoRow = queuedRow demoItem 1000 1000"

definition demoQueued :: store where
  "demoQueued = demoStore\<lparr>outbox := [demoRow],
     messages := [demoMessage\<lparr>msCreatedAtMS := 1000, msUpdatedAtMS := 1000\<rparr>]\<rparr>"

definition demoLease :: "int \<Rightarrow> lease_request" where
  "demoLease n = \<lparr>lqOwner = ''message-service'', lqNow = ms n, lqDuration = 30000000000, lqLimit = 10\<rparr>"

definition demoLeasedRow :: outbox_item where
  "demoLeasedRow = leaseRow ''message-service'' ''t1'' 32000 2000 demoRow"

definition demoLeased :: store where
  "demoLeased = demoQueued\<lparr>outbox := [demoLeasedRow]\<rparr>"

definition demoCalledRow :: outbox_item where
  "demoCalledRow = demoLeasedRow\<lparr>obTransportCalledAtMS := Some 2001, obAttemptCount := 1,
     obUpdatedAtMS := 2001\<rparr>"

definition demoCalled :: store where
  "demoCalled = demoQueued\<lparr>outbox := [demoCalledRow]\<rparr>"

lemmas demo_rows = demoCalledRow_def demoLeasedRow_def demoRow_def queuedRow_def demoItem_def
  nullableOutboxText_def leaseRow_def setOutboxError_def

lemma thenDo_weak_cong: "m = m' \<Longrightarrow> thenDo m f = thenDo m' f"
  by simp

lemma demo_blank [simp]:
  "trimSpace ''a'' = ''a''" "trimSpace ''c'' = ''c''" "trimSpace ''o1'' = ''o1''"
  "trimSpace ''k'' = ''k''" "trimSpace ''h'' = ''h''" "trimSpace ''send_text'' = ''send_text''"
  "trimSpace ''r1'' = ''r1''" "trimSpace ''t1'' = ''t1''"
  "trimSpace ''message-service'' = ''message-service''"
  "trimSpace ''x1'' = ''x1''"
  by (simp_all add: trimSpace_plain plainChar_def)

lemma demo_ms [simp]: "unixMilliOf (ms n) = n" "unixMilliOf (ms n + 30000000000) = n + 30000"
proof -
  show "unixMilliOf (ms n) = n" by (simp add: ms_def)
  have "unixMilliOf (ms n + 30000000000) = (n * 1000000 + 30000 * 1000000) div 1000000"
    unfolding ms_def unixMilliOf_def timeOfUnixMilli_def by (simp add: algebra_simps)
  also have "... = n + 30000" by (simp only: ring_distribs [symmetric] nonzero_mult_div_cancel_right)
  finally show "unixMilliOf (ms n + 30000000000) = n + 30000" .
qed

lemma demo_zero: "ms 1000 \<noteq> 0"
  by (simp add: ms_def timeOfUnixMilli_def unixEpoch_def)

lemma demo_rowOK: "outboxRowOK demoRow" "outboxRowOK demoLeasedRow" "outboxRowOK demoCalledRow"
  by code_simp+

lemma demo_messageOK: "messageRowOK (demoMessage\<lparr>msCreatedAtMS := 1000, msUpdatedAtMS := 1000\<rparr>)"
  by code_simp

lemma demo_item: "validateNewOutboxItem demoItem = None"
  "validateOutboxAttachmentPair demoItem noCarriers = None"
  "scheduledForMilliseconds demoItem n = Inr 1000"
  by (simp_all add: validateNewOutboxItem_def demoItem_def validateOutboxAttachmentPair_def
      noCarriers_def scheduledForMilliseconds_def isZero_def Let_def demo_zero)

lemma demo_enqueue: "enqueue (ms 1000) demoItem (Some demoMessage) noCarriers demoStore
    = Inr (demoRow, EnqueueInserted, demoQueued)"
  using demo_rowOK(1)
  apply (simp add: enqueue_def nowMS_def demo_item insertOutboxRow_def demoRow_def
      cong: thenDo_weak_cong)
  apply (simp add: enqueueInserted_def whenSome_def insertOutgoingMessage_def insertMessageRow_def
      demo_messageOK demoQueued_def demoStore_def emptyStore_def hasAccount_def hasOutbox_def
      sqlExists_def sqlFind_def noCarriers_def messageReferencesOK_def hasConversation_def
      hasMessage_def demoRow_def cong: thenDo_weak_cong)
  apply (simp add: demoItem_def demoMessage_def queuedRow_def nullableOutboxText_def)
  done

lemma demo_lease: "leaseDue (demoLease 2000) [''t1''] demoQueued = Inr ([demoLeasedRow], demoLeased)"
proof -
  have due: "leaseable 2000 demoRow" "obOutboxID demoRow = ''o1''" "obOutboxID demoLeasedRow = ''o1''"
    by (simp_all add: demo_rows leaseable_def waitingState_def)
  have "mutateRows (\<lambda>r. obOutboxID r = ''o1'' \<and> leaseable 2000 r) (leaseRow ''message-service'' ''t1'' 32000 2000)
      demoQueued = Inr (1, demoLeased)"
    using demo_rowOK(2) due
    by (simp add: mutateRows_Inr demoQueued_def demoLeased_def demoLeasedRow_def sqlCount_def)
  with due show ?thesis
    by (simp add: leaseDue_def demoLease_def sqlTop_def demoQueued_def demoLeased_def sqlFind_def
        cong: thenDo_weak_cong)
qed

lemma demo_called: "markTransportCalled (ms 2001) ''o1'' ''t1'' demoLeased = Inr demoCalled"
proof -
  have "demoLeasedRow\<lparr>obTransportCalledAtMS := Some 2001, obAttemptCount := obAttemptCount demoLeasedRow + 1,
      obUpdatedAtMS := 2001\<rparr> = demoCalledRow"
    by (simp add: demo_rows)
  then show ?thesis
    using demo_rowOK(3)
    by (simp add: markTransportCalled_def nowMS_def mutateLeased_Inr mutateRows_Inr demoLeased_def
        demoCalled_def sqlCount_def holdsLease_def cong: thenDo_weak_cong)
      (simp add: demo_rows)
qed

lemma demo_OK: "outboxOK demoStore" "outboxOK demoQueued" "outboxOK demoLeased" "outboxOK demoCalled"
  by (simp_all add: outboxOK_def demoStore_def emptyStore_def demoQueued_def demoLeased_def
      demoCalled_def demo_rowOK)

definition demoOps :: "outbox_op list" where
  "demoOps = [OpEnqueue (ms 1000) demoItem (Some demoMessage) noCarriers,
     OpLease (demoLease 2000) [''t1''], OpCalled (ms 2001) ''o1'' ''t1'']"

lemma demo_run: "runAll demoOps demoStore = demoCalled"
  by (simp add: demoOps_def applyOp_def demo_enqueue demo_lease demo_called)


section \<open>Properties of the outbox\<close>

text \<open>A row whose transport was called, or may have been, was attempted at least once.\<close>

definition attempted :: "outbox_item \<Rightarrow> bool" where
  "attempted r \<longleftrightarrow> (phaseOf r \<in> {InFlight, Ambiguous} \<longrightarrow> 1 \<le> obAttemptCount r) \<and> 0 \<le> obAttemptCount r"

lemma rowMove_attempted: "rowMove e r r' \<Longrightarrow> attempted r \<Longrightarrow> attempted r'"
  by (auto simp: rowMove_def attempted_def elim!: phaseStep.cases split: if_splits)

lemma applyOp_attempted:
  assumes "outboxOK s" and "\<forall>r \<in> set (outbox s). attempted r" and r': "r' \<in> set (outbox (applyOp op s))"
  shows "attempted r'"
proof (cases "hasOutbox (obOutboxID r') s")
  case True
  then obtain r where r: "r \<in> set (outbox s)" "obOutboxID r = obOutboxID r'"
    by (auto simp: hasOutbox_def sqlExists_iff)
  obtain r1 e where r1: "r1 \<in> set (outbox (applyOp op s))" "rowMove e r r1"
    by (rule applyOp_row [OF assms(1) r(1)])
  then have "r1 = r'"
    using distinct_id [OF applyOp_OK [OF assms(1)] r1(1) r'] r(2)
    by (simp add: rowMove_def sameIntent_def)
  with r1(2) r(1) assms(2) show ?thesis by (blast intro: rowMove_attempted)
next
  case False
  with applyOp_new [OF assms(1) r'] show ?thesis by (simp add: attempted_def)
qed

definition outboxSound :: "store \<Rightarrow> bool" where
  "outboxSound s \<longleftrightarrow> outboxOK s \<and> (\<forall>r \<in> set (outbox s). attempted r)"

interpretation sound: machine outboxStart outboxStep outboxSound
proof unfold_locales
  show "outboxSound s" if "outboxStart s" for s
    using that by (simp add: outboxStart_def outboxSound_def outboxOK_def)
  show "outboxSound t" if "outboxSound s" and "outboxStep s t" for s t
    using that applyOp_OK applyOp_attempted by (fastforce simp: outboxSound_def outboxStep_def)
qed

lemma demo_start: "outboxStart demoStore"
  by (simp add: outboxStart_def demoStore_def emptyStore_def)

lemma row_coherent:
  "outboxRowOK r \<Longrightarrow> attempted r \<Longrightarrow>
   (obState r = OutboxDispatching \<longleftrightarrow> obLeaseToken r \<noteq> None) \<and>
   (called r \<longrightarrow> obState r = OutboxDispatching \<and> 1 \<le> obAttemptCount r) \<and>
   (obState r \<in> {OutboxUncertain, OutboxStoreFailed} \<longrightarrow> 1 \<le> obAttemptCount r) \<and>
   (obState r = OutboxNotDispatched \<longrightarrow> obNextAttemptAtMS r \<noteq> None)"
  unfolding outboxRowOK_def attempted_def phaseOf_def by (auto split: if_splits)

text \<open>
  C19: whatever sequence of outbox operations runs, in whatever interleaving of callers and
  with whatever failures, the table stays coherent: IDs, idempotency keys and transport request
  IDs are unique per account, a row carries a lease exactly while it is dispatching, only a
  leased row carries the marker of a transport call, and a row that is in flight or ambiguous
  was attempted.
\<close>

theorem outbox_table_sound:
  assumes "outbox s = []"
  shows "let t = runAll ops s in
     distinct (map obOutboxID (outbox t)) \<and> distinct (map intentKey (outbox t)) \<and>
     distinct (map requestKey (outbox t)) \<and>
     (\<forall>r \<in> set (outbox t). (obState r = OutboxDispatching \<longleftrightarrow> obLeaseToken r \<noteq> None) \<and>
        (called r \<longrightarrow> obState r = OutboxDispatching \<and> 1 \<le> obAttemptCount r) \<and>
        (obState r \<in> {OutboxUncertain, OutboxStoreFailed} \<longrightarrow> 1 \<le> obAttemptCount r) \<and>
        (obState r = OutboxNotDispatched \<longrightarrow> obNextAttemptAtMS r \<noteq> None))"
proof -
  have "outboxSound (runAll ops s)"
    using assms by (intro sound.reachable_inv [OF _ runAll_steps]) (simp add: outboxStart_def)
  then show ?thesis
    using row_coherent by (simp add: outboxSound_def outboxOK_def Let_def)
qed

lemma outbox_table_sound_witness:
  "distinct (map requestKey (outbox demoCalled)) \<and> outbox demoCalled = [demoCalledRow] \<and> called demoCalledRow"
  using outbox_table_sound [of demoStore demoOps] demo_run
  by (simp add: demoStore_def emptyStore_def Let_def demoCalled_def demoCalledRow_def)

text \<open>
  C20: at most one delivery. In any history the transport of an intent is called at most once
  more than calls of it were proved not to have been dispatched: after a call whose outcome is
  unknown, recorded or lost, the intent is never called again, whatever retries, lease
  expiries, recoveries and concurrent dispatchers there are. Its attempt counter is the number
  of these calls.
\<close>

theorem transport_calls_bounded:
  assumes "outboxOK s" and "\<not> hasOutbox i s"
  shows "tally (marksCall i) ops s \<le> 1 + tally (disprovesCall i) ops s \<and>
    (\<forall>r \<in> set (outbox (runAll ops s)). obOutboxID r = i \<longrightarrow>
       obAttemptCount r = tally (marksCall i) ops s)"
proof -
  have "callsAccounted i 0 0 s" using assms by (simp add: callsAccounted_def)
  from runAll_callsAccounted [OF this, of ops]
  have "callsAccounted i (tally (marksCall i) ops s) (tally (disprovesCall i) ops s) (runAll ops s)"
    by simp
  then show ?thesis
    by (fastforce simp: callsAccounted_def hasOutbox_def sqlExists_iff split: if_splits)
qed

lemma transport_calls_bounded_witness:
  "tally (marksCall ''o1'') demoOps demoStore \<le> 1 + tally (disprovesCall ''o1'') demoOps demoStore \<and>
   1 = tally (marksCall ''o1'') demoOps demoStore"
proof -
  have "\<not> hasOutbox ''o1'' demoStore"
    by (simp add: hasOutbox_def demoStore_def emptyStore_def sqlExists_iff)
  moreover have "obOutboxID demoCalledRow = ''o1''" "obAttemptCount demoCalledRow = 1"
    by (simp_all add: demo_rows)
  ultimately show ?thesis
    using transport_calls_bounded [OF demo_OK(1), of "''o1''" demoOps]
    by (simp add: demo_run demoCalled_def)
qed

text \<open>
  C21: an intent is never lost and never changes what it stands for. After any further history
  its row is still there with the same identity, operation, payload and request ID; its attempt
  count never falls; a settled intent stays settled, and one whose delivery is ambiguous or
  settled is never attempted again.
\<close>

theorem intent_never_lost:
  assumes "outboxOK s" and "r \<in> set (outbox s)"
  shows "\<exists>r' \<in> set (outbox (runAll ops s)). sameIntent r r' \<and> obAttemptCount r \<le> obAttemptCount r' \<and>
     (phaseOf r = Settled \<longrightarrow> phaseOf r' = Settled) \<and>
     (phaseOf r \<in> {Ambiguous, Settled} \<longrightarrow>
        phaseOf r' \<in> {Ambiguous, Settled} \<and> obAttemptCount r' = obAttemptCount r)"
  using runAll_later [OF assms] by (simp add: later_def)

lemma intent_never_lost_witness:
  "\<exists>r' \<in> set (outbox (runAll [OpRecover (ms 40000)] demoCalled)). sameIntent demoCalledRow r'"
  using intent_never_lost [OF demo_OK(4), of demoCalledRow "[OpRecover (ms 40000)]"]
  by (auto simp: demoCalled_def)

text \<open>
  C22: every operation refines the delivery machine. A successful call moves rows only along
  the transitions that \<open>phaseStep\<close> has (waiting, leased, in flight, ambiguous, settled) by the
  events the operation is allowed, keeps every row's identity and counts an attempt exactly
  when the transport call is marked; rows it adds are waiting and untried.
\<close>

theorem operation_refines_delivery:
  assumes "runOp op s = Inr t" and "outboxOK s"
  shows "\<exists>h new. outbox t = map h (outbox s) @ new \<and>
     (\<forall>r \<in> set (outbox s). \<exists>e. (e = Stay \<or> allowed op e r) \<and> sameIntent r (h r) \<and>
        phaseStep (phaseOf r) e (phaseOf (h r)) \<and>
        obAttemptCount (h r) = obAttemptCount r + (if e = Call then 1 else 0)) \<and>
     (\<forall>r \<in> set new. phaseOf r = Waiting \<and> obAttemptCount r = 0)"
  using runOp_evolves [OF assms] by (simp add: evolves_def rowMove_def)

lemma operation_refines_delivery_witness:
  "\<exists>h new. outbox demoCalled = map h (outbox demoLeased) @ new"
  using operation_refines_delivery [of "OpCalled (ms 2001) ''o1'' ''t1''" demoLeased demoCalled]
  by (auto simp: demo_called demo_OK)


lemma fst_zip_in: "x \<in> fst ` set (zip xs ys) \<Longrightarrow> x \<in> set xs"
  by (auto dest: set_zip_leftD)

lemma leaseDue_others:
  assumes "leaseDue req tokens s = Inr (items, t)" and "outboxOK s"
    and "r \<in> set (outbox s)" and "obOutboxID r \<notin> set (map obOutboxID items)"
  shows "r \<in> set (outbox t)"
proof -
  note ex = leaseDue_exact [OF assms(1,2)]
  let ?ids = "map obOutboxID (sqlTop (\<lambda>r. (coalesceDue r, obCreatedAtMS r, obOutboxID r))
         (nat (lqLimit req)) (filter (leaseable (unixMilliOf (lqNow req))) (outbox s)))"
  let ?f = "leasedAs (lqOwner req) (unixMilliOf (lqNow req + lqDuration req))
    (unixMilliOf (lqNow req)) (zip ?ids tokens)"
  from assms(4) have "obOutboxID r \<notin> fst ` set (zip ?ids tokens)"
    unfolding ex(2) by (rule contrapos_nn) (rule fst_zip_in)
  then have r: "?f r = r" by (rule leasedAs_other)
  have "?f r \<in> set (map ?f (outbox s))" using assms(3) unfolding set_map by (rule imageI)
  also have "map ?f (outbox s) = outbox t" by (subst ex(1)) simp
  finally show ?thesis unfolding r .
qed

text \<open>
  A successful lease claims exactly the due intents, earliest first and at most the limit:
  the answer lists them in the order of their due time, creation time and ID, every item is the
  stored row, now dispatching under the caller's name, with a token of its own, the requested
  expiry and no call marker; every other row is untouched.
\<close>

theorem lease_claims_due:
  assumes "leaseDue req tokens s = Inr (items, t)" and "outboxOK s"
  shows "map obOutboxID items = map obOutboxID
       (sqlTop (\<lambda>r. (coalesceDue r, obCreatedAtMS r, obOutboxID r)) (nat (lqLimit req))
          (filter (leaseable (unixMilliOf (lqNow req))) (outbox s))) \<and>
     set items \<subseteq> set (outbox t) \<and>
     (\<forall>item \<in> set items. obState item = OutboxDispatching \<and> obLeaseOwner item = Some (lqOwner req) \<and>
        (\<exists>token \<in> set tokens. obLeaseToken item = Some token) \<and>
        obLeaseExpiresAtMS item = Some (unixMilliOf (lqNow req + lqDuration req)) \<and> \<not> called item) \<and>
     (\<forall>r \<in> set (outbox s). obOutboxID r \<notin> set (map obOutboxID items) \<longrightarrow> r \<in> set (outbox t))"
proof (intro conjI ballI impI)
  note ex = leaseDue_exact [OF assms]
  show "map obOutboxID items = map obOutboxID
       (sqlTop (\<lambda>r. (coalesceDue r, obCreatedAtMS r, obOutboxID r)) (nat (lqLimit req))
          (filter (leaseable (unixMilliOf (lqNow req))) (outbox s)))" by (rule ex(2))
  show "set items \<subseteq> set (outbox t)" by (rule ex(4))
  fix item assume "item \<in> set items"
  from leaseDue_item [OF assms this] obtain r token where "token \<in> set tokens"
    "item = leaseRow (lqOwner req) token (unixMilliOf (lqNow req + lqDuration req))
       (unixMilliOf (lqNow req)) r" by blast
  then show "obState item = OutboxDispatching" "obLeaseOwner item = Some (lqOwner req)"
    "\<exists>token \<in> set tokens. obLeaseToken item = Some token"
    "obLeaseExpiresAtMS item = Some (unixMilliOf (lqNow req + lqDuration req))" "\<not> called item"
    by (auto simp: leaseRow_def)
next
  show "r \<in> set (outbox t)" if "r \<in> set (outbox s)" "obOutboxID r \<notin> set (map obOutboxID items)" for r
    using leaseDue_others [OF assms that] .
qed

lemma lease_claims_due_witness: "obLeaseOwner demoLeasedRow = Some ''message-service'' \<and> obState demoLeasedRow = OutboxDispatching"
  using lease_claims_due [OF demo_lease demo_OK(2)] by (simp add: demoLease_def)

text \<open>
  Leasing makes progress. With a named owner, a positive limit and duration, a clock that
  has not fallen behind the rows' creation and a token for each of the rows, the call succeeds,
  and it returns an intent whenever one is due.
\<close>

theorem lease_makes_progress:
  assumes "outboxOK s" and "\<not> blank (lqOwner req)" and "0 < lqLimit req" and "0 < lqDuration req"
    and "0 < unixMilliOf (lqNow req)"
    and "unixMilliOf (lqNow req) < unixMilliOf (lqNow req + lqDuration req)"
    and "nat (lqLimit req) \<le> length tokens" and "\<forall>token \<in> set tokens. nonblank token"
    and "\<forall>r \<in> set (outbox s). obCreatedAtMS r \<le> unixMilliOf (lqNow req)"
  shows "\<exists>items t. leaseDue req tokens s = Inr (items, t) \<and>
     ((\<exists>r \<in> set (outbox s). leaseable (unixMilliOf (lqNow req)) r) \<longrightarrow> items \<noteq> [])"
proof -
  let ?n = "unixMilliOf (lqNow req)" and ?x = "unixMilliOf (lqNow req + lqDuration req)"
  let ?due = "sqlTop (\<lambda>r. (coalesceDue r, obCreatedAtMS r, obOutboxID r)) (nat (lqLimit req))
       (filter (leaseable ?n) (outbox s))"
  have ok: "outboxRowOK (leaseRow (lqOwner req) token ?x ?n r)"
    if "r \<in> set (outbox s)" and "token \<in> set tokens" for r token
  proof -
    have "outboxRowOK r" using assms(1) that(1) by (simp add: outboxOK_def)
    then show ?thesis
      using nonblank_sqlTrim [OF assms(2)] assms(5,6,8,9) that
      by (auto simp: outboxRowOK_def leaseRow_def setOutboxError_def)
  qed
  have "length (map obOutboxID ?due) \<le> length tokens"
    using le_trans [OF length_sqlTop assms(7)] by simp
  then obtain z where z: "leaseEach (lqOwner req) ?x ?n (map obOutboxID ?due) tokens s = Inr z"
    using leaseEach_progress [OF leaseDue_candidates [OF assms(1)]] ok by blast
  then have due: "leaseDue req tokens s = Inr (fst z, snd z)"
    using assms(2-6) by (simp add: leaseDue_def Let_def)
  have "fst z \<noteq> []" if "r \<in> set (outbox s)" and "leaseable ?n r" for r
  proof
    assume "fst z = []"
    then have "?due = []" using leaseDue_exact(2) [OF due assms(1)] by simp
    then show False using that assms(3) by (auto simp: sqlTop_def dest: arg_cong [of _ _ set])
  qed
  with due show ?thesis by blast
qed

lemma lease_makes_progress_witness:
  "\<exists>items t. leaseDue (demoLease 2000) (replicate 10 ''t1'') demoQueued = Inr (items, t) \<and> items \<noteq> []"
proof -
  have "leaseable 2000 demoRow" "obCreatedAtMS demoRow = 1000" "nonblank ''t1''"
    by (simp_all add: demo_rows leaseable_def waitingState_def sqlTrim_def)
  moreover have "outbox demoQueued = [demoRow]" by (simp add: demoQueued_def)
  ultimately show ?thesis
    using lease_makes_progress [OF demo_OK(2), of "demoLease 2000" "replicate 10 ''t1''"]
    by (simp add: demoLease_def)
qed

text \<open>
  A lease excludes every other claimant. An intent that is leased, in flight, ambiguous or
  settled is not handed out by any lease call, with whatever clock and limit, and its row is left
  as it was.
\<close>

theorem lease_excludes_claimed:
  assumes "leaseDue req tokens s = Inr (items, t)" and "outboxOK s"
    and "r \<in> set (outbox s)" and "phaseOf r \<noteq> Waiting"
  shows "obOutboxID r \<notin> set (map obOutboxID items) \<and> r \<in> set (outbox t)"
proof -
  have out: "obOutboxID r \<notin> set (map obOutboxID items)"
  proof
    assume "obOutboxID r \<in> set (map obOutboxID items)"
    then obtain item where item: "item \<in> set items" "obOutboxID item = obOutboxID r" by auto
    from leaseDue_item [OF assms(1,2) item(1)] obtain r' token where r': "r' \<in> set (outbox s)"
      "leaseable (unixMilliOf (lqNow req)) r'" "item = leaseRow (lqOwner req) token
        (unixMilliOf (lqNow req + lqDuration req)) (unixMilliOf (lqNow req)) r'" by blast
    then have "r' = r" using item(2) distinct_id [OF assms(2) r'(1) assms(3)] by simp
    with leaseable_Waiting [OF r'(2)] assms(4) show False by simp
  qed
  with leaseDue_others [OF assms(1-3)] show ?thesis by simp
qed

lemma lease_excludes_claimed_witness:
  "\<exists>items t. leaseDue (demoLease 2500) (replicate 10 ''t1'') demoLeased = Inr (items, t) \<and>
     ''o1'' \<notin> set (map obOutboxID items)"
proof -
  have "leaseDue (demoLease 2500) (replicate 10 ''t1'') demoLeased = Inr ([], demoLeased)"
    by (simp add: leaseDue_def demoLease_def demoLeased_def demo_rows leaseable_def waitingState_def
        sqlTop_def)
  moreover have "obOutboxID demoLeasedRow = ''o1''" "phaseOf demoLeasedRow \<noteq> Waiting"
    "demoLeasedRow \<in> set (outbox demoLeased)"
    by (simp_all add: demo_rows phaseOf_def demoLeased_def)
  ultimately show ?thesis
    using lease_excludes_claimed [OF _ demo_OK(3), of "demoLease 2500"] by metis
qed

text \<open>
  A token that does not hold the lease of its intent moves nothing. Each of the eight
  calls that a dispatcher makes under a lease fails with the lost-lease error (or the not-found
  error for an unknown intent, or an error about its arguments), and the store is unchanged.
\<close>

theorem foreign_token_refused:
  assumes "usesLease op = Some (i, k)"
    and "\<forall>r \<in> set (outbox s). obOutboxID r = i \<longrightarrow> \<not> holdsLease k r"
  shows "applyOp op s = s \<and> (\<exists>e. runOp op s = Inl e \<and>
     (e = (if hasOutbox i s then [ErrLeaseLost] else notFound) \<or> (\<exists>d. e = [ErrDetail d])))"
proof -
  from assms have "refuses i s (runOp op s)" by (intro stale_refused [where k = k]) auto
  then show ?thesis by (auto simp: refuses_def leaseRefusal_def applyOp_def)
qed

lemma foreign_token_refused_witness:
  "applyOp (OpCalled (ms 2001) ''o1'' ''x1'') demoLeased = demoLeased"
  using foreign_token_refused [of "OpCalled (ms 2001) ''o1'' ''x1''" "''o1''" "''x1''" demoLeased]
  by (simp add: demoLeased_def holdsLease_def demo_rows)

text \<open>
  C27: crash recovery classifies by the call marker. A lease that has run out becomes an
  immediate retry when its transport was not called, and uncertain, never to be sent again,
  when it was; every other row is unchanged, no expired lease is left, and the two counts are
  the numbers of rows of each kind.
\<close>

theorem recovery_classifies:
  assumes "recoverExpiredLeases t s = Inr (counts, u)"
  defines "n \<equiv> unixMilliOf t"
  shows "list_all2 (\<lambda>r r'. if \<not> expired n r then r' = r
       else sameIntent r r' \<and> obAttemptCount r' = obAttemptCount r \<and> obLeaseToken r' = None \<and>
         (if called r then obState r' = OutboxUncertain
          else obState r' = OutboxNotDispatched \<and> (obScheduledForMS r \<le> n \<longrightarrow> leaseable n r')))
       (outbox s) (outbox u) \<and>
     (\<forall>r' \<in> set (outbox u). \<not> expired n r') \<and>
     rlNotDispatched counts = sqlCount (\<lambda>r. expired n r \<and> \<not> called r) (outbox s) \<and>
     rlUncertain counts = sqlCount (\<lambda>r. expired n r \<and> called r) (outbox s)"
proof -
  note rec = recover_Inr [OF assms(1), folded n_def]
  have "if \<not> expired n r then recoverRow n r = r
       else sameIntent r (recoverRow n r) \<and> obAttemptCount (recoverRow n r) = obAttemptCount r \<and>
         obLeaseToken (recoverRow n r) = None \<and>
         (if called r then obState (recoverRow n r) = OutboxUncertain
          else obState (recoverRow n r) = OutboxNotDispatched \<and>
            (obScheduledForMS r \<le> n \<longrightarrow> leaseable n (recoverRow n r)))" for r
    by (auto simp: recoverRow_def row_defs)
  moreover have "\<not> expired n (recoverRow n r)" for r
    by (auto simp: recoverRow_def row_defs)
  ultimately show ?thesis
    using rec(2,3) by (auto simp: rec(1) list_all2_map2 list.rel_refl)
qed

lemma recovery_classifies_witness:
  "\<exists>counts u. recoverExpiredLeases (ms 40000) demoCalled = Inr (counts, u) \<and> rlUncertain counts = 1"
proof -
  have row: "expired 40000 demoCalledRow" "called demoCalledRow"
    "outboxRowOK (finishRow OutboxUncertain 40000 demoCalledRow)"
    by code_simp+
  then obtain counts u where recovered: "recoverExpiredLeases (ms 40000) demoCalled = Inr (counts, u)"
    by (auto simp: recoverExpiredLeases_def mutateRows_def updateChecked_def demoCalled_def)
  from recovery_classifies [OF this] row have "rlUncertain counts = 1"
    by (simp add: demoCalled_def sqlCount_def)
  with recovered show ?thesis by blast
qed

text \<open>
  C28: enqueueing is idempotent. However often a client repeats an enqueue with the account and
  the idempotency key of an earlier success, and whatever happened to the intent in between, a
  success returns the existing intent and writes nothing; and it succeeds only for the same
  operation, conversation and payload, so that a reused key never sends something else.
\<close>

theorem enqueue_idempotent:
  assumes "outboxOK s" and "enqueue t item m c s = Inr (row, d, s1)"
    and "enqueue t' item' m' c' (runAll ops s1) = Inr (row', d', s2)"
    and "niAccountID item' = niAccountID item" and "niIdempotencyKey item' = niIdempotencyKey item"
  shows "d' = EnqueueExisting \<and> s2 = runAll ops s1 \<and> sameIntent row row' \<and> row' \<in> set (outbox s2) \<and>
     niOperation item' = obOperation row \<and> niConversationID item' = obConversationID row \<and>
     niPayloadHash item' = obPayloadHash row"
proof -
  have ok: "outboxOK s1" by (rule enqueue_OK [OF assms(2,1)])
  note row = enqueue_row [OF assms(2)]
  from runAll_later [OF ok, of row ops] row obtain r where
    r: "r \<in> set (outbox (runAll ops s1))" "later row r" by blast
  then have "intentKey r = (niAccountID item', niIdempotencyKey item')"
    using row assms(4,5) by (simp add: later_def sameIntent_def)
  from enqueue_again [OF runAll_OK [OF ok] r(1) this assms(3)] r show ?thesis
    by (auto simp: later_def sameIntent_def)
qed

lemma enqueue_idempotent_witness:
  "\<exists>row'. enqueue (ms 1500) demoItem (Some demoMessage) noCarriers demoCalled
     = Inr (row', EnqueueExisting, demoCalled) \<and> sameIntent demoRow row'"
proof -
  let ?ops = "[OpLease (demoLease 2000) [''t1''], OpCalled (ms 2001) ''o1'' ''t1'']"
  have run: "runAll ?ops demoQueued = demoCalled"
    by (simp add: applyOp_def demo_lease demo_called)
  have facts: "intentKey demoCalledRow = (''a'', ''k'')" "intentKey demoRow = (''a'', ''k'')"
    "outboxRowOK (queuedRow demoItem 1000 1500)"
    "intentKey (queuedRow demoItem 1000 1500) = (''a'', ''k'')"
    "niAccountID demoItem = ''a''" "niIdempotencyKey demoItem = ''k''"
    by (simp_all add: demo_rows) code_simp
  have exist: "enqueueExisting demoItem (Some demoMessage) demoCalledRow demoCalled = Inr ()"
    by (simp add: enqueueExisting_def validateExistingOutgoingPair_def validateExistingCarrier_def
        demo_rows demoCalled_def demoQueued_def demoStore_def demoMessage_def sqlFind_def
        sameSendAgainLink_def isRequestBoundOrConfirmedRemoteID_def cong: thenDo_weak_cong)
  have again: "enqueue (ms 1500) demoItem (Some demoMessage) noCarriers demoCalled
     = Inr (demoCalledRow, EnqueueExisting, demoCalled)"
    using facts exist
    by (simp add: enqueue_def demo_item nowMS_def insertOutboxRow_def sqlExists_def sqlFind_def
        demoCalled_def cong: thenDo_weak_cong)
  then have "enqueue (ms 1500) demoItem (Some demoMessage) noCarriers (runAll ?ops demoQueued)
     = Inr (demoCalledRow, EnqueueExisting, demoCalled)" unfolding run .
  from enqueue_idempotent [OF demo_OK(1) demo_enqueue this] again show ?thesis by auto
qed

text \<open>
  C29: a confirmation is recorded and its message follows. After \<open>Confirm\<close> the intent is
  confirmed under the remote result ID without a lease, and the optimistic message carries that
  ID: it is the only message with it in the conversation, its text is unchanged.
\<close>

theorem confirm_repoints_message:
  assumes "confirm t t' c s = Inr u" and "outboxOK s"
    and "row \<in> set (outbox s)" and "obOutboxID row = cfOutboxID c"
    and "obLocalMessageID row = Some (msMessageID m)" and "m \<in> set (messages s)"
    and "msAccountID m = obAccountID row" and "msConversationID m = obConversationID row"
  defines "result \<equiv> (if cfResultRemoteID c = [] then cfTransportResultID c else cfResultRemoteID c)"
  assumes "result \<noteq> obTransportRequestID row"
  shows "(\<exists>r \<in> set (outbox u). sameIntent row r \<and> obState r = OutboxConfirmed \<and>
       obResultRemoteID r = Some result \<and> obLeaseToken r = None) \<and>
     (\<exists>m' \<in> set (messages u). msMessageID m' = msMessageID m \<and> msRemoteMessageID m' = result \<and>
        msBody m' = msBody m \<and>
        (\<forall>x \<in> set (messages u). messageKey x = messageKey m' \<longrightarrow> x = m'))"
proof -
  from confirm_Inr [OF assms(1), folded result_def] obtain r s1 where
    r: "r \<in> set (outbox s1)" "obOutboxID r = cfOutboxID c"
    and mut: "mutateRows (\<lambda>r. obOutboxID r = cfOutboxID c \<and> holdsLease (cfLeaseToken c) r \<and> called r)
          (\<lambda>r. (finishRow OutboxConfirmed (unixMilliOf t) (setOutboxError None None None r))
                 \<lparr>obResultRemoteID := Some result\<rparr>) s = Inr (1, s1)"
    and rest: "(case obLocalMessageID r of None \<Rightarrow> Inr s1
             | Some localID \<Rightarrow> repointLocalMessage t' (obAccountID r) (obConversationID r)
                 localID (obTransportRequestID r) result s1) = Inr u" by blast
  have ok: "outboxOK s1"
    using mut assms(2) by (rule mutateRows_OK) (simp add: row_defs)
  let ?g = "\<lambda>r. (finishRow OutboxConfirmed (unixMilliOf t) (setOutboxError None None None r))
                 \<lparr>obResultRemoteID := Some result\<rparr>"
  from mutateRows_hit [OF mut] obtain r0 where "r0 \<in> set (outbox s)" "obOutboxID r0 = cfOutboxID c"
    and g: "?g r0 \<in> set (outbox s1)" by blast
  then have "r0 = row" using distinct_id [OF assms(2) _ assms(3)] assms(4) by simp
  moreover have "r = ?g r0"
    using distinct_id [OF ok r(1) g] r(2) \<open>obOutboxID r0 = cfOutboxID c\<close> by (simp add: row_defs)
  ultimately have r_eq: "r = ?g row" by simp
  have same: "sameIntent row (?g row)" "obState (?g row) = OutboxConfirmed"
    "obResultRemoteID (?g row) = Some result" "obLeaseToken (?g row) = None"
    by (simp_all add: row_defs)
  have keep: "messages s1 = messages s" using mut by (simp add: mutateRows_Inr)
  have rp: "repointLocalMessage t' (obAccountID row) (obConversationID row) (msMessageID m)
      (obTransportRequestID row) result s1 = Inr u"
    using rest assms(5) same(1) by (simp add: r_eq sameIntent_def)
  note moved = repoint_message [OF rp assms(10), of m, unfolded keep, OF assms(6) refl assms(7,8)]
  let ?m = "m\<lparr>msRemoteMessageID := result, msUpdatedAtMS := unixMilliOf t'\<rparr>"
  have "\<forall>x \<in> set (messages u). messageKey x = messageKey ?m \<longrightarrow> x = ?m"
    using moved by (auto dest: distinct_key_inj)
  moreover have "?g row \<in> set (outbox u)"
    using g \<open>r0 = row\<close> repoint_outbox [OF rp] by simp
  moreover have "msMessageID ?m = msMessageID m" "msRemoteMessageID ?m = result" "msBody ?m = msBody m"
    by simp_all
  ultimately show ?thesis using same moved(1) by blast
qed

lemma confirm_repoints_message_witness:
  "\<exists>u. confirm (ms 2100) (ms 2101) \<lparr>cfOutboxID = ''o1'', cfLeaseToken = ''t1'', cfResultRemoteID = ''x1'',
       cfTransportResultID = ''''\<rparr> demoCalled = Inr u \<and>
     (\<exists>m' \<in> set (messages u). msMessageID m' = ''m1'' \<and> msRemoteMessageID m' = ''x1'')"
proof -
  let ?c = "\<lparr>cfOutboxID = ''o1'', cfLeaseToken = ''t1'', cfResultRemoteID = ''x1'',
       cfTransportResultID = ''''\<rparr>"
  let ?m = "demoMessage\<lparr>msCreatedAtMS := 1000, msUpdatedAtMS := 1000\<rparr>"
  let ?row = "(finishRow OutboxConfirmed 2100 (setOutboxError None None None demoCalledRow))
     \<lparr>obResultRemoteID := Some ''x1''\<rparr>"
  have ok: "outboxRowOK ?row" "messageRowOK (?m\<lparr>msRemoteMessageID := ''x1'', msUpdatedAtMS := 2101\<rparr>)"
    by code_simp+
  have row: "obOutboxID demoCalledRow = ''o1''" "obLocalMessageID demoCalledRow = Some ''m1''"
    "holdsLease ''t1'' demoCalledRow" "called demoCalledRow" "obAccountID demoCalledRow = ''a''"
    "obConversationID demoCalledRow = ''c''" "obTransportRequestID demoCalledRow = ''r1''"
    "obOutboxID ?row = ''o1''" "obLocalMessageID ?row = Some ''m1''" "obAccountID ?row = ''a''"
    "obConversationID ?row = ''c''" "obTransportRequestID ?row = ''r1''"
    by (simp_all add: demo_rows holdsLease_def finishRow_def clearLease_def)
  have msg: "msMessageID ?m = ''m1''" "msAccountID ?m = ''a''" "msConversationID ?m = ''c''"
    "msRemoteMessageID ?m = ''r1''"
    by (simp_all add: demoMessage_def)
  have "\<exists>u. confirm (ms 2100) (ms 2101) ?c demoCalled = Inr u"
    using ok row msg
    by (simp add: confirm_def nowMS_def mutateLeased_def mutateRows_def updateChecked_def
        demoCalled_def demoQueued_def demoStore_def sqlCount_def requireLeaseMutation_def
        sqlFind_def repointLocalMessage_def findByKey_def Let_def cong: thenDo_weak_cong)
  then obtain u where u: "confirm (ms 2100) (ms 2101) ?c demoCalled = Inr u" ..
  have "demoCalledRow \<in> set (outbox demoCalled)" "?m \<in> set (messages demoCalled)"
    by (simp_all add: demoCalled_def demoQueued_def)
  with confirm_repoints_message [OF u demo_OK(4), of demoCalledRow ?m] row msg
  have "\<exists>m' \<in> set (messages u). msMessageID m' = ''m1'' \<and> msRemoteMessageID m' = ''x1''"
    by simp (elim conjE bexE, rule bexI, intro conjI, assumption+)
  with u show ?thesis by blast
qed

text \<open>
  Reconciliation is idempotent. After the history of a remote account has settled an
  ambiguous intent, enriched a confirmed one or found nothing to do, the same evidence again
  changes nothing and reports that nothing was to be done.
\<close>

theorem reconcile_idempotent:
  assumes "reconcileConfirm t t' req s = Inr (d, u)" and "outboxOK s"
    and "d \<noteq> ReconcileOutcomeNotFound" and "0 < unixMilliOf x"
  shows "reconcileConfirm x x' req u = Inr (ReconcileOutcomeNoop, u)"
  using assms(1)
proof (cases rule: reconcile_Inr)
  case unchanged
  then show ?thesis using assms reconcile_noop_again by auto
next
  case (reconciled row s1)
  have out: "outbox u = outbox s1"
    using reconciled(5) by (auto split: if_splits dest: reconcileRepoint_outbox)
  from mutateRows_hit [OF reconciled(4)] obtain r where "r \<in> set (outbox s)" "obOutboxID r = obOutboxID row"
    and hit: "(setOutboxError None None None r)\<lparr>obState := OutboxConfirmed,
       obResultRemoteID := Some (rqResultRemoteID req), obNextAttemptAtMS := None,
       obUpdatedAtMS := unixMilliOf t\<rparr> \<in> set (outbox u)" unfolding out by blast
  then have "r = row" using distinct_id [OF assms(2) _ reconciled(2)] by simp
  with reconcile_again [OF reconcile_OK [OF assms(1,2)] hit] reconcile_args [OF assms(1)] reconciled(3)
  show ?thesis by (simp add: setOutboxError_def)
next
  case (enriched row s1)
  note out = reconcileRepoint_outbox [OF enriched(5)]
  from mutateRows_hit [OF enriched(4)] obtain r where "r \<in> set (outbox s)" "obOutboxID r = obOutboxID row"
    "obState r = OutboxConfirmed"
    and hit: "(setOutboxError None None None r)\<lparr>obResultRemoteID := Some (rqResultRemoteID req),
       obUpdatedAtMS := unixMilliOf t\<rparr> \<in> set (outbox u)" unfolding out by blast
  then have "r = row" using distinct_id [OF assms(2) _ enriched(2)] by simp
  with reconcile_again [OF reconcile_OK [OF assms(1,2)] hit] reconcile_args [OF assms(1)] enriched(3)
    \<open>obState r = OutboxConfirmed\<close>
  show ?thesis by (simp add: setOutboxError_def)
qed

definition demoReconcile :: reconcile_request where
  "demoReconcile = \<lparr>rqAccountID = ''a'', rqTransportRequestID = ''r1'', rqResultRemoteID = ''x1''\<rparr>"

lemma reconcile_idempotent_witness:
  "\<exists>u. reconcileConfirm (ms 2100) (ms 2101) demoReconcile demoQueued = Inr (ReconcileOutcomeNoop, u) \<and>
     reconcileConfirm (ms 2200) (ms 2201) demoReconcile u = Inr (ReconcileOutcomeNoop, u)"
proof -
  have "reconcileConfirm (ms 2100) (ms 2101) demoReconcile demoQueued = Inr (ReconcileOutcomeNoop, demoQueued)"
    by (simp add: reconcileConfirm_def demoReconcile_def demoQueued_def sqlFind_def) (simp add: demo_rows)
  from reconcile_idempotent [OF this demo_OK(2), of "ms 2200" "ms 2201"] this show ?thesis by auto
qed

text \<open>
  At a cutover nothing is left behind and nothing is sent twice. The intents to carry over
  are exactly the waiting ones, the intents to review exactly those that are leased, in flight
  or ambiguous; no list repeats an intent and no intent is in both.
\<close>

theorem carry_lists_partition:
  assumes "outboxOK s"
  shows "set (map (\<lambda>c. obOutboxID (ciItem c)) (listCarryable s)) =
       {obOutboxID r | r. r \<in> set (outbox s) \<and> phaseOf r = Waiting} \<and>
     set (map cwOutboxID (listCarryReview s)) =
       {obOutboxID r | r. r \<in> set (outbox s) \<and> phaseOf r \<in> {Leased, InFlight, Ambiguous}} \<and>
     distinct (map (\<lambda>c. obOutboxID (ciItem c)) (listCarryable s)) \<and>
     distinct (map cwOutboxID (listCarryReview s)) \<and>
     set (map (\<lambda>c. obOutboxID (ciItem c)) (listCarryable s)) \<inter> set (map cwOutboxID (listCarryReview s)) = {}"
proof -
  let ?key = "\<lambda>r. (obCreatedAtMS r, obOutboxID r)"
  let ?review = "\<lambda>r. obState r \<in> {OutboxUncertain, OutboxDispatching, OutboxStoreFailed}"
  have ids: "map (\<lambda>c. obOutboxID (ciItem c)) (listCarryable s) =
      map obOutboxID (sort_key ?key (filter (\<lambda>r. waitingState (obState r)) (outbox s)))"
    "map cwOutboxID (listCarryReview s) = map obOutboxID (sort_key ?key (filter ?review (outbox s)))"
    by (simp_all add: listCarryable_def listCarryReview_def carryableIntent_def Let_def o_def)
  have phases: "waitingState (obState r) \<longleftrightarrow> phaseOf r = Waiting"
    "?review r \<longleftrightarrow> phaseOf r \<in> {Leased, InFlight, Ambiguous}" for r
    by (cases "obState r"; simp add: waitingState_def phaseOf_def)+
  have "distinct (map obOutboxID (sort_key ?key (filter P (outbox s))))" for P
    using distinct_sqlTop [of obOutboxID "outbox s" ?key "length (filter P (outbox s))" P] assms
    by (simp add: sqlTop_def outboxOK_def)
  then show ?thesis
    using assms unfolding ids by (auto simp: phases(1) phases(2) [simplified] dest: distinct_id)
qed

lemma carry_lists_partition_witness:
  "set (map cwOutboxID (listCarryReview demoCalled)) = {obOutboxID demoCalledRow}"
  using carry_lists_partition [OF demo_OK(4)]
  by (auto simp: demoCalled_def) (auto simp: demo_rows phaseOf_def)


end
