(* ===== verification/Service_Correct.thy ===== *)
theory Service_Correct
  imports Service_Facts Outbox_Correct
begin

text \<open>
  The properties of the dispatcher and of the message service, with a demonstration that runs a
  submission through a dispatch pass and a resend.
\<close>

section \<open>A demonstration\<close>

text \<open>
  The text of \<open>Outbox_Correct\<close>'s history, submitted through the service and dispatched once to
  an adapter whose connection breaks during the call.
\<close>

definition demoCommand :: send_text_command where
  "demoCommand = \<lparr>stCommon = \<lparr>cmAccountID = ''a'', cmConversationID = ''c'',
     cmIdempotencyKey = ''k'', cmNotBefore = 0\<rparr>, stBody = ''hi'', stReplyToMessageID = ''''\<rparr>"

definition demoRegistry :: registry where
  "demoRegistry = [''a'' \<mapsto> (discoverRegistryEntry (demoAdapter\<lparr>adAccountID := ''a''\<rparr>))
     \<lparr>enSnapshot := newSnapshot ''a'' ''slack'' StateStopped\<rparr>]"

definition demoSubmit :: submit_world where
  "demoSubmit = \<lparr>sxBridges = demoRegistry, sxNow = ms 1000, sxStoreNow = (\<lambda>i. ms 1000),
     sxID = (\<lambda>i. Some ([''o1'', ''m1'', ''r1''] ! i)), sxBlobs = False,
     sxPut = (\<lambda>c m n. PutFailed), sxDigest = (\<lambda>p. ''h''), sxFault = (\<lambda>at. False)\<rparr>"

definition demoWorld :: world where
  "demoWorld = \<lparr>wBridges = demoRegistry,
     wClock = (\<lambda>at. if at = SiteLease then ms 2000 else if at = SiteMark then ms 2001 else ms 2100),
     wCtx = (\<lambda>at. None), wFault = (\<lambda>at. False), wDetail = (\<lambda>at. ''reset''),
     wBlob = (\<lambda>h. BlobMissing),
     wTransport = (\<lambda>h r. (\<lparr>snRemoteMessageID = '''', snAcceptedAt = 0, snEchoExpected = False\<rparr>,
        Some (PlainError ''reset'')))\<rparr>"

definition demoStart :: service where
  "demoStart = newMessageService demoStore"

definition demoSubmitted :: service where
  "demoSubmitted = signalWake (signalChange (demoStart\<lparr>svStore := demoQueued\<rparr>))"

definition demoHeld :: service where
  "demoHeld = demoSubmitted\<lparr>svStore := demoLeased\<rparr>"

lemma demo_hi [simp]: "trimSpace ''hi'' = ''hi''" "trimSpace ''m1'' = ''m1''"
  by (simp_all add: trimSpace_plain plainChar_def)

lemma demo_submit: "sendText True demoSubmit demoCommand demoStart
    = (Inr (submissionFromItem demoRow EnqueueInserted), demoSubmitted)"
proof -
  have "textIntent demoSubmit demoCommand demoStore = Inr (demoItem, demoMessage)"
    by (simp add: textIntent_def demoCommand_def validateSendTextCommand_def validTime_def isZero_def
        checkedConversation_def readRow_def demoSubmit_def getConversation_def demoStore_def
        emptyStore_def sqlFind_def replyTarget_def newSubmissionIDs_def newID_def newItem_def
        newMessage_def demoItem_def demoMessage_def textOperation_def cong: thenDo_weak_cong)
  then show ?thesis
    using demo_enqueue
    by (simp add: sendText_def submitting_def enqueueOutgoingMessage_def enqueued_def demoSubmitted_def
        demoStart_def newMessageService_def demoSubmit_def cong: thenDo_weak_cong)
qed

lemma demo_dispatch: "dispatchDue True demoWorld (\<lambda>k. demoWorld) [''t1''] 10 demoSubmitted
    = dispatchEach (\<lambda>k. demoWorld) 0 [demoLeasedRow] demoHeld"
  using demo_lease
  by (simp add: dispatchDue_def demoWorld_def demoSubmitted_def demoHeld_def signalWake_def
      signalChange_def demoStart_def newMessageService_def second_def workerOwner_def demoLease_def
      del: dispatchEach.simps)

lemma demo_ready: "ready demoWorld demoLeasedRow ''t1'' demoHeld"
proof -
  have "inHand False demoLeasedRow ''t1'' demoLeased demoLeasedRow"
    using demo_OK(3) by (simp add: inHand_def demoLeased_def) (simp add: demo_rows holdsLease_def)
  moreover have "svStore demoHeld = demoLeased" by (simp add: demoHeld_def)
  moreover have "calm demoWorld demoLeasedRow (svRetryDelay demoHeld)"
  proof -
    have "unixMilliOf (ms 2100 + 5000000000) = 7100"
      by (simp add: ms_def unixMilliOf_def timeOfUnixMilli_def)
    then show ?thesis
      by (simp add: calm_def demoWorld_def demoHeld_def demoSubmitted_def signalWake_def
          signalChange_def demoStart_def newMessageService_def second_def asOpError_def errorsAsOp_def)
        (simp add: demo_rows)
  qed
  moreover have "obLeaseToken demoLeasedRow = Some ''t1''" "obOutboxID demoLeasedRow = ''o1''"
    by (simp_all add: demo_rows)
  ultimately show ?thesis unfolding ready_def by auto
qed

definition demoCall :: transport_call where
  "demoCall = \<lparr>clOutboxID = ''o1'', clHandle = 3,
     clRequest = SendTextRequest \<lparr>txAccountID = ''a'', txConversation = ''rc'', txBody = ''hi'',
        txReplyTo = None, txRequestID = ''r1''\<rparr>,
     clResult = \<lparr>snRemoteMessageID = '''', snAcceptedAt = 0, snEchoExpected = False\<rparr>,
     clError = Some (PlainError ''reset'')\<rparr>"

text \<open>The text call of an intent whose bridge, message and conversation are found.\<close>

lemma dispatchTextLease_call:
  assumes "obLeaseToken item = Some token"
    and "acquire (Some (wCtx w SiteAcquire)) (obAccountID item) CapabilityTextSend (wBridges w) = Inr lease"
    and "leaseText lease = Some sender" and "messageForLease w item (svStore v) = Inr m"
    and "conversationForLease w ''cross_account_conversation'' item (svStore v) = Inr c"
  shows "dispatchTextLease w item v = callTransport w item token sender
             (SendTextRequest \<lparr>txAccountID = obAccountID item,
                txConversation = cvRemoteConversationID c, txBody = msBody m,
                txReplyTo = map_option remoteRef (msReplyToRemoteID m),
                txRequestID = obTransportRequestID item\<rparr>)
             (sendOutcome w item token textOperation) v"
  using assms by (simp add: dispatchTextLease_def)

lemma demo_call: "dispatchLeased demoWorld demoLeasedRow demoHeld
    = recordSendError demoWorld demoLeasedRow (PlainError ''reset'') textOperation
        (signalChange (demoHeld\<lparr>svStore := demoCalled\<rparr>)\<lparr>svCalls := [demoCall]\<rparr>)"
proof -
  let ?m = "demoMessage\<lparr>msCreatedAtMS := 1000, msUpdatedAtMS := 1000\<rparr>"
  have row: "obLeaseToken demoLeasedRow = Some ''t1''" "obKind demoLeasedRow = OutboxKindText"
    "obAccountID demoLeasedRow = ''a''" "obOutboxID demoLeasedRow = ''o1''"
    "obLocalMessageID demoLeasedRow = Some ''m1''" "obConversationID demoLeasedRow = ''c''"
    "obTransportRequestID demoLeasedRow = ''r1''"
    by (simp_all add: demo_rows)
  obtain lease where lease: "acquire (Some None) ''a'' CapabilityTextSend demoRegistry = Inr lease"
    "leaseText lease = Some 3"
    by (simp add: acquire_def demoRegistry_def discoverRegistryEntry_def demoAdapter_def
        implemented_def Let_def)
  have store: "svStore demoHeld = demoLeased" by (simp add: demoHeld_def)
  have m: "messageForLease demoWorld demoLeasedRow demoLeased = Inr ?m"
    by (simp add: messageForLease_def row reading_def demoWorld_def getMessage_def demoLeased_def
        demoQueued_def sqlFind_def demoMessage_def cong: thenDo_weak_cong)
  obtain c where c: "conversationForLease demoWorld ''cross_account_conversation'' demoLeasedRow demoLeased
      = Inr c" "cvRemoteConversationID c = ''rc''"
    by (simp add: conversationForLease_def row reading_def demoWorld_def getConversation_def
        demoLeased_def demoQueued_def demoStore_def sqlFind_def)
  have w: "wCtx demoWorld at = None" "wBridges demoWorld = demoRegistry" "\<not> wFault demoWorld at"
    "wClock demoWorld SiteMark = ms 2001" "wTransport demoWorld h r = (clResult demoCall, clError demoCall)"
    for at h r
    by (simp_all add: demoWorld_def demoCall_def)
  have empty: "svCalls demoHeld = []"
    by (simp add: demoHeld_def demoSubmitted_def signalWake_def signalChange_def demoStart_def
        newMessageService_def)
  show ?thesis
    using dispatchTextLease_call [of demoLeasedRow "''t1''" demoWorld lease 3 demoHeld ?m c] lease m c
      demo_called
    by (simp add: dispatchLeased_def row w store callTransport_def commit_def storing_def
        empty sendOutcome_def)
      (simp add: demoCall_def demoMessage_def signalChange_def empty)
qed

lemma demo_recorded:
  "dispatchLeased demoWorld demoLeasedRow demoHeld = ([], u) \<Longrightarrow> svCalls u = [demoCall]"
  unfolding demo_call recordSendError_def
  by (auto simp: asOpError_def errorsAsOp_def markSendUncertain_def commit_def storing_def Let_def
      signalChange_def split: if_splits sum.splits)

text \<open>The service after the dispatch: one call, and the intent uncertain.\<close>

definition demoSent :: service where
  "demoSent = snd (snd (dispatchDue True demoWorld (\<lambda>k. demoWorld) [''t1''] 10 demoSubmitted))"

lemma demo_sent: "demoSent = snd (dispatchLeased demoWorld demoLeasedRow demoHeld)"
  "svCalls demoSent = [demoCall]"
proof -
  have settled: "settles demoLeasedRow demoHeld (dispatchLeased demoWorld demoLeasedRow demoHeld)"
    by (rule dispatchLeased_settles [OF demo_ready])
  have ok: "fst (dispatchLeased demoWorld demoLeasedRow demoHeld) = []"
    using settled unfolding settles_def demo_call recordSendError_def
    by (auto simp: asOpError_def errorsAsOp_def markSendUncertain_def commit_def storing_def Let_def
        split: if_splits sum.splits)
  have "\<not> leaseLapsed (ms 2100) demoLeasedRow"
    by (simp add: leaseLapsed_def) (simp add: demo_rows)
  moreover have "wCtx demoWorld SiteLoop = None" "wClock demoWorld SiteLoop = ms 2100"
    by (simp_all add: demoWorld_def)
  ultimately show eq: "demoSent = snd (dispatchLeased demoWorld demoLeasedRow demoHeld)"
    using ok by (simp add: demoSent_def demo_dispatch Let_def split_beta)
  show "svCalls demoSent = [demoCall]"
    unfolding eq using demo_recorded ok by (metis prod.collapse)
qed

lemma demo_steps: "serviceStart demoStart" "serviceStep\<^sup>*\<^sup>* demoStart demoSubmitted"
  "serviceStep\<^sup>*\<^sup>* demoStart demoSent"
proof -
  show "serviceStart demoStart"
    by (simp add: serviceStart_def demoStart_def newMessageService_def demoStore_def emptyStore_def)
  have "serviceStep demoStart demoSubmitted"
    using serviceStep.operation [of demoStart "ServiceText True demoSubmit demoCommand"]
    by (simp add: demo_submit)
  then show a: "serviceStep\<^sup>*\<^sup>* demoStart demoSubmitted" by simp
  have "serviceStep demoSubmitted demoSent"
    using serviceStep.operation [of demoSubmitted
        "ServiceDispatch True demoWorld (\<lambda>k. demoWorld) [''t1''] 10"]
    by (simp add: demoSent_def)
  with a show "serviceStep\<^sup>*\<^sup>* demoStart demoSent" by (rule rtranclp.rtrancl_into_rtrancl)
qed

section \<open>Properties of the service\<close>

text \<open>
  C32: no message is sent twice unless the transport itself took the first call back. Over any
  history of the service (submissions, dispatch passes, cancellations, retries, resends,
  echoes, repairs, in any order, under any failures, and store calls of other components in
  between), the transport is called for an intent at most once more often than it has
  answered with a retryable failure that it certifies as not called.
\<close>

theorem calls_bounded_by_refusals:
  assumes "serviceStart v" and "serviceStep\<^sup>*\<^sup>* v u"
  shows "callsOf i (svCalls u) \<le> 1 + disprovedOf i (svCalls u)"
  using serviceOK_calls assms by (rule svc.reachable_safe)

lemma calls_bounded_by_refusals_witness:
  "callsOf ''o1'' (svCalls demoSent) = 1 \<and>
   callsOf ''o1'' (svCalls demoSent) \<le> 1 + disprovedOf ''o1'' (svCalls demoSent)"
  using calls_bounded_by_refusals [OF demo_steps(1,3), of "''o1''"] by (simp add: demo_sent(2) demoCall_def)

text \<open>
  C33: every attempt of an intent is the same request to the remote side. Whatever calls the
  service has made for one intent, they belong to one row of the outbox, carry its account and,
  for the kinds that have one, its transport request ID, so that a remote side that knows the
  ID can recognise a repetition.
\<close>

theorem attempts_share_request_id:
  assumes "serviceStart v" and "serviceStep\<^sup>*\<^sup>* v u"
    and "c \<in> set (svCalls u)" and "d \<in> set (svCalls u)" and "clOutboxID c = clOutboxID d"
  shows "\<exists>r \<in> set (outbox (svStore u)). carries r c \<and> carries r d"
proof -
  have ok: "serviceOK u" by (rule svc.reachable_inv [OF assms(1,2)])
  with assms(3,4) obtain r r' where r: "r \<in> set (outbox (svStore u))" "carries r c"
    and r': "r' \<in> set (outbox (svStore u))" "carries r' d"
    unfolding serviceOK_def by blast
  with distinct_id [OF serviceOK_outboxOK [OF ok] r(1) r'(1)] assms(5) have "r = r'"
    by (simp add: carries_def)
  with r r' show ?thesis by blast
qed

lemma attempts_share_request_id_witness:
  "\<exists>r \<in> set (outbox (svStore demoSent)). carries r demoCall \<and> carries r demoCall"
  by (rule attempts_share_request_id [OF demo_steps(1,3)]) (simp_all add: demo_sent(2))

text \<open>
  C34: the outcome of a transport call decides the durable state of its intent. A dispatch of a
  leased intent, with a driver that does not fail and a clock that does not run backwards,
  ends the lease on every path. Without a call the intent is queued again, waits for a retry or
  is rejected. After a call it is confirmed (or kept as store-failed) when the transport names a
  remote ID, rejected on a terminal failure, retried only on a retryable failure that is
  certified as not called, and uncertain on anything else.
\<close>

theorem dispatch_settles_intent:
  assumes "ready w item token v"
  shows "settles item v (dispatchLeased w item v)"
  using assms by (rule dispatchLeased_settles)

lemma dispatch_settles_intent_witness:
  "\<exists>r \<in> set (outbox (svStore demoSent)). sameIntent demoLeasedRow r \<and> obState r = OutboxUncertain"
proof -
  have "svCalls demoHeld = []"
    by (simp add: demoHeld_def demoSubmitted_def signalWake_def signalChange_def demoStart_def
        newMessageService_def)
  with dispatch_settles_intent [OF demo_ready] show ?thesis
    by (auto simp: settles_def demo_sent(1) [symmetric] demo_sent(2) callOutcome_def errorOutcome_def
        demoCall_def asOpError_def errorsAsOp_def rowEnds_def)
qed



text \<open>
  C36: submissions are idempotent per account and key, over the whole life of the intent. After
  a text was accepted, and after any later history of the service, submitting a text under the
  same account and key changes nothing: the answer is an error, or the original intent's IDs
  marked as a duplicate.
\<close>

theorem resubmission_deduplicated:
  assumes "serviceStart v0" and "serviceStep\<^sup>*\<^sup>* v0 v"
    and "sendText given x cmd v = (Inr sub, v1)" and "serviceStep\<^sup>*\<^sup>* v1 u"
    and "cmAccountID (stCommon cmd') = cmAccountID (stCommon cmd)"
    and "cmIdempotencyKey (stCommon cmd') = cmIdempotencyKey (stCommon cmd)"
    and "sendText given' x' cmd' u = (res, u')"
  shows "u' = u \<and> (\<forall>sub'. res = Inr sub' \<longrightarrow> sbOutboxID sub' = sbOutboxID sub \<and>
     sbLocalMessageID sub' = sbLocalMessageID sub \<and> sbDeduplicated sub')"
proof -
  have ok: "serviceOK v" by (rule svc.reachable_inv [OF assms(1,2)])
  then have ok1: "serviceOK v1"
    using applyService_serviceOK [of v "ServiceText given x cmd"] assms(3) by simp
  then have okU: "outboxOK (svStore u)"
    using serviceOK_outboxOK svc.steps_inv [OF assms(4)] by blast
  obtain item m where first: "textIntent x cmd (svStore v) = Inr (item, m)"
    "enqueued x (enqueue (sxStoreNow x 0) item (Some m) noCarriers) v = (Inr sub, v1)"
    by (rule sendText_Inr [OF assms(3)])
  obtain row d s where e: "enqueue (sxStoreNow x 0) item (Some m) noCarriers (svStore v) = Inr (row, d, s)"
    and sub: "sub = submissionFromItem row d" and "svStore v1 = s"
    by (rule enqueued_Inr [OF first(2)])
  with enqueue_row [OF e] have row: "row \<in> set (outbox (svStore v1))"
    "intentKey row = (niAccountID item, niIdempotencyKey item)" by simp_all
  from serviceSteps_later [OF assms(4) ok1 row(1)] obtain r where
    r: "r \<in> set (outbox (svStore u))" "sameIntent row r"
    by (auto simp: later_def)
  consider "u' = u" "\<exists>e. res = Inl e"
    | item' m' where "textIntent x' cmd' (svStore u) = Inr (item', m')"
      "enqueued x' (enqueue (sxStoreNow x' 0) item' (Some m') noCarriers) u = (res, u')"
    using sendText_cases [OF assms(7)] by blast
  then show ?thesis
  proof cases
    case 2
    have "intentKey r = (niAccountID item', niIdempotencyKey item')"
      using textIntent_key [OF first(1)] textIntent_key [OF 2(1)] row(2) r(2) assms(5,6)
      by (simp add: sameIntent_def)
    note again = enqueued_again [OF okU r(1) this 2(2)]
    have "obOutboxID r = obOutboxID row" "obLocalMessageID r = obLocalMessageID row"
      using r(2) by (simp_all add: sameIntent_def)
    then have "sbOutboxID (submissionFromItem r EnqueueExisting) = sbOutboxID sub \<and>
        sbLocalMessageID (submissionFromItem r EnqueueExisting) = sbLocalMessageID sub \<and>
        sbDeduplicated (submissionFromItem r EnqueueExisting)"
      by (simp only: sub submission_fields simp_thms)
    with again show ?thesis by blast
  qed auto
qed

lemma resubmission_deduplicated_witness:
  "snd (sendText True demoSubmit (demoCommand\<lparr>stBody := ''again''\<rparr>) demoSubmitted) = demoSubmitted"
proof -
  obtain res u' where "sendText True demoSubmit (demoCommand\<lparr>stBody := ''again''\<rparr>) demoSubmitted = (res, u')"
    by (cases "sendText True demoSubmit (demoCommand\<lparr>stBody := ''again''\<rparr>) demoSubmitted")
  with resubmission_deduplicated [OF demo_steps(1) _ demo_submit _ _ _ this] show ?thesis by simp
qed

text \<open>
  C37: a resend is a new intent that names its predecessor. \<open>SendAgain\<close> succeeds only for a text
  or media intent whose outcome is uncertain or rejected; it leaves every row as it was and
  adds one, queued, of the same kind for the same account and conversation, linked to the
  predecessor, under a new outbox ID, a new idempotency key and a new request ID.
\<close>

theorem resend_links_predecessor:
  assumes "sendAgain given x i key v = (Inr sub, v1)" and "\<not> sbDeduplicated sub"
  shows "\<exists>prior row. prior \<in> set (outbox (svStore v)) \<and> obOutboxID prior = i \<and>
     obState prior \<in> {OutboxUncertain, OutboxRejected} \<and>
     obKind prior \<in> {OutboxKindText, OutboxKindMedia} \<and>
     outbox (svStore v1) = outbox (svStore v) @ [row] \<and> obOutboxID row = sbOutboxID sub \<and>
     obState row = OutboxQueued \<and> obSendAgainOfOutboxID row = nullableOutboxText i \<and>
     obKind row = obKind prior \<and> obAccountID row = obAccountID prior \<and>
     obConversationID row = obConversationID prior \<and> obOutboxID row \<noteq> i \<and>
     obIdempotencyKey row \<noteq> obIdempotencyKey prior \<and>
     obTransportRequestID row \<noteq> obTransportRequestID prior"
proof -
  obtain item m a f where intent: "resendIntent x i key (svStore v) = Inr (item, m, a)"
    and "enqueued x (case a of None \<Rightarrow> enqueueOutgoingMessage (sxStoreNow x 0) item m
            | Some a' \<Rightarrow> enqueueOutgoingMediaMessage (sxStoreNow x 0) item m a') v = (Inr sub, v1)"
    using assms(1) unfolding sendAgain_def by (elim submitting_Inr) (auto simp: thenDo_Inr)
  then obtain c where done': "enqueued x (enqueue (sxStoreNow x 0) item (Some m) c) v = (Inr sub, v1)"
    unfolding enqueue_forms by (cases a) auto
  obtain row d s where e: "enqueue (sxStoreNow x 0) item (Some m) c (svStore v) = Inr (row, d, s)"
    and sub: "sub = submissionFromItem row d" and s: "svStore v1 = s"
    by (rule enqueued_Inr [OF done'])
  obtain prior where prior: "prior \<in> set (outbox (svStore v))" "obOutboxID prior = i"
    "obState prior \<in> {OutboxUncertain, OutboxRejected}"
    "obKind prior \<in> {OutboxKindText, OutboxKindMedia}" "key \<noteq> obIdempotencyKey prior"
    "niAccountID item = obAccountID prior" "niConversationID item = obConversationID prior"
    "niKind item = obKind prior" "niIdempotencyKey item = key" "niSendAgainOfOutboxID item = i"
    by (rule resendIntent_Inr [OF intent])
  show ?thesis
    using e
  proof (cases rule: enqueue_Inr)
    case (inserted n sch s1)
    note ins = insertOutboxRow_one [OF inserted(5)]
    have "outbox s = outbox (svStore v) @ [row]"
      using enqueueInserted_outbox [OF inserted(6)] ins(1) by simp
    moreover have "obOutboxID row \<noteq> i" using ins(3) prior(1,2) by (auto simp: hasOutbox_def sqlExists_iff)
    moreover have "requestKey row \<noteq> requestKey prior" using ins(5) prior(1) by (auto simp: sqlExists_iff)
    moreover have "obSendAgainOfOutboxID row = nullableOutboxText i" "obKind row = obKind prior"
      "obAccountID row = obAccountID prior" "obConversationID row = obConversationID prior"
      "obIdempotencyKey row = key" "obState row = OutboxQueued"
      using prior by (simp_all add: inserted(2) queuedRow_def)
    moreover have "obOutboxID row = sbOutboxID sub" by (simp add: sub submission_fields)
    ultimately show ?thesis using prior s by (intro exI [of _ prior] exI [of _ row]) auto
  next
    case existing
    with assms(2) sub show ?thesis by (simp add: submission_fields)
  qed
qed

definition demoUncertain :: service where
  "demoUncertain = demoStart\<lparr>svStore := demoCalled\<lparr>outbox :=
     [finishRow OutboxUncertain 2100 demoCalledRow]\<rparr>\<rparr>"

definition demoResubmit :: submit_world where
  "demoResubmit = demoSubmit\<lparr>sxNow := ms 3000, sxStoreNow := (\<lambda>i. ms 3000),
     sxID := (\<lambda>i. Some ([''o2'', ''m2'', ''r2''] ! i))\<rparr>"

definition demoItem2 :: new_outbox_item where
  "demoItem2 = demoItem\<lparr>niOutboxID := ''o2'', niIdempotencyKey := ''k2'', niLocalMessageID := ''m2'',
     niTransportRequestID := ''r2'', niScheduledFor := ms 3000, niSendAgainOfOutboxID := ''o1''\<rparr>"

definition demoMessage2 :: message where
  "demoMessage2 = demoMessage\<lparr>msMessageID := ''m2'', msRemoteMessageID := ''r2'', msOccurredAtMS := 3000\<rparr>"

lemma demo_names2 [simp]:
  "trimSpace ''o2'' = ''o2''" "trimSpace ''k2'' = ''k2''" "trimSpace ''m2'' = ''m2''"
  "trimSpace ''r2'' = ''r2''"
  by (simp_all add: trimSpace_plain plainChar_def)

lemma demo_rowOK2: "outboxRowOK (queuedRow demoItem2 3000 3000)"
  "messageRowOK (demoMessage2\<lparr>msCreatedAtMS := 3000, msUpdatedAtMS := 3000\<rparr>)"
  by code_simp+

lemma demo_resend: "resendIntent demoResubmit ''o1'' ''k2'' (svStore demoUncertain)
    = Inr (demoItem2, demoMessage2, None)"
proof -
  let ?row = "finishRow OutboxUncertain 2100 demoCalledRow"
  have row: "obOutboxID ?row = ''o1''" "obState ?row = OutboxUncertain" "obKind ?row = OutboxKindText"
    "obIdempotencyKey ?row = ''k''" "obLocalMessageID ?row = Some ''m1''" "obAccountID ?row = ''a''"
    "obConversationID ?row = ''c''"
    by (simp_all add: finishRow_def clearLease_def demo_rows)
  have zero: "ms 3000 \<noteq> 0" by (simp add: ms_def timeOfUnixMilli_def unixEpoch_def)
  show ?thesis
    by (simp add: resendIntent_def readRow_def findByID_def demoUncertain_def row sqlFind_def
        demoResubmit_def demoSubmit_def stringValue_def getMessage_def demoCalled_def demoQueued_def
        newSubmissionIDs_def newID_def Let_def demoMessage_def MessageStateDeleted_def
        MessageStateActive_def cong: thenDo_weak_cong)
      (simp add: newItem_def newMessage_def demoItem2_def demoItem_def demoMessage2_def demoMessage_def
        textOperation_def isZero_def zero MessageStateActive_def)
qed

lemma demo_resent: "\<exists>sub v1. sendAgain True demoResubmit ''o1'' ''k2'' demoUncertain = (Inr sub, v1) \<and>
    \<not> sbDeduplicated sub"
proof -
  let ?row = "finishRow OutboxUncertain 2100 demoCalledRow"
  have row: "obOutboxID ?row = ''o1''" "obIdempotencyKey ?row = ''k''" "obTransportRequestID ?row = ''r1''"
    by (simp_all add: finishRow_def clearLease_def demo_rows)
  have valid: "validateNewOutboxItem demoItem2 = None"
    "validateOutboxAttachmentPair demoItem2 noCarriers = None"
    "scheduledForMilliseconds demoItem2 n = Inr 3000" for n
    by (simp_all add: validateNewOutboxItem_def demoItem2_def demoItem_def validateOutboxAttachmentPair_def
      noCarriers_def scheduledForMilliseconds_def isZero_def Let_def ms_def timeOfUnixMilli_def
      unixEpoch_def) (simp_all add: unixMilliOf_def unixEpoch_def)
  let ?s = "svStore demoUncertain"
  let ?new = "queuedRow demoItem2 3000 3000"
  let ?m = "demoMessage2\<lparr>msCreatedAtMS := 3000, msUpdatedAtMS := 3000\<rparr>"
  let ?s1 = "?s\<lparr>outbox := [?row, ?new]\<rparr>"
  have tables: "outbox ?s = [?row]" "messages ?s = [demoMessage\<lparr>msCreatedAtMS := 1000, msUpdatedAtMS := 1000\<rparr>]"
    "hasAccount ''a'' ?s" "hasConversation ''a'' ''c'' ?s1"
    by (simp_all add: demoUncertain_def demoCalled_def demoQueued_def demoStore_def emptyStore_def
        hasAccount_def hasConversation_def sqlExists_def)
  have names: "niOutboxID demoItem2 = ''o2''" "niAccountID demoItem2 = ''a''"
    "niIdempotencyKey demoItem2 = ''k2''" "niTransportRequestID demoItem2 = ''r2''"
    "niLocalMessageID demoItem2 = ''m2''" "niConversationID demoItem2 = ''c''"
    by (simp_all add: demoItem2_def demoItem_def)
  have ins: "insertOutboxRow ?new ?s = Inr (1, ?s1)"
    using demo_rowOK2(1) row
    by (simp add: insertOutboxRow_def hasOutbox_def sqlExists_def tables names)
      (simp add: queuedRow_def demoItem2_def nullableOutboxText_def)
  have "insertMessageRow ?m ?s1 = Inr (?s1\<lparr>messages := messages ?s1 @ [?m]\<rparr>)"
    using demo_rowOK2(2)
    by (simp add: insertMessageRow_def hasMessage_def sqlExists_def tables messageReferencesOK_def)
      (simp add: demoMessage2_def demoMessage_def tables(4))
  then have "\<exists>s2. insertOutgoingMessage demoItem2 demoMessage2 3000 ?s1 = Inr s2"
    by (simp add: insertOutgoingMessage_def names) (simp add: demoMessage2_def demoMessage_def)
  then have "\<exists>s. enqueue (ms 3000) demoItem2 (Some demoMessage2) noCarriers ?s
      = Inr (?new, EnqueueInserted, s)"
    using ins
    by (simp add: enqueue_def nowMS_def valid sqlFind_def row names cong: thenDo_weak_cong)
      (auto simp: enqueueInserted_def whenSome_def noCarriers_def)
  then show ?thesis
    using demo_resend
    by (auto simp: sendAgain_def submitting_def enqueueOutgoingMessage_def enqueued_def
        submission_fields demoResubmit_def demoSubmit_def)
qed

lemma resend_links_predecessor_witness:
  "\<exists>row (v1 :: service). outbox (svStore v1) = outbox (svStore demoUncertain) @ [row] \<and>
     obSendAgainOfOutboxID row = Some ''o1'' \<and> obState row = OutboxQueued"
proof -
  obtain sub v1 where "sendAgain True demoResubmit ''o1'' ''k2'' demoUncertain = (Inr sub, v1)"
    "\<not> sbDeduplicated sub"
    using demo_resent by blast
  from resend_links_predecessor [OF this] obtain row where
    "outbox (svStore v1) = outbox (svStore demoUncertain) @ [row]" "obState row = OutboxQueued"
    "obSendAgainOfOutboxID row = nullableOutboxText ''o1''"
    by (elim exE conjE) (rule that)
  then have "outbox (svStore v1) = outbox (svStore demoUncertain) @ [row] \<and>
      obSendAgainOfOutboxID row = Some ''o1'' \<and> obState row = OutboxQueued"
    by (simp add: nullableOutboxText_def)
  then show ?thesis by blast
qed

text \<open>
  The preview of a pending intent has at most 120 runes, and shortening never splits one:
  the runes of the shortened text are the first runes of the text.
\<close>

theorem summary_limits_runes:
  "length (runesOf (pendingSummary row)) \<le> summaryMaxRunes \<and>
   runesOf (limitRunes s) = take summaryMaxRunes (runesOf s)"
  by (simp add: pendingSummary_def Let_def limitRunes_bound limitRunes_runes split: outbox_kind.split)

end
