(* ===== verification/Identity_Graph.thy ===== *)
theory Identity_Graph
  imports Repositories Messages
begin

text \<open>
  The writes of the identity graph: accounts, devices, identities, conversations and their
  participants in \<open>internal/storage/sqlite/repositories.go\<close>, \<open>participants_ensure.go\<close> and
  \<open>rebind.go\<close>, and the statements of \<open>ingest_support.go\<close> that concern them.

  \<^item> \<open>json_valid\<close> is a function of SQLite: a parameter \<open>J\<close> of the writes that are checked by it.
  \<^item> An upsert checks the proposed row, then looks for the row with its conflict target. An
    update of that row is checked in its turn; an insert meets the other uniqueness constraints
    and the foreign keys.
\<close>

section \<open>Constraints of migration 0002\<close>

definition accountRowOK :: "(string \<Rightarrow> bool) \<Rightarrow> account \<Rightarrow> bool" where
  "accountRowOK J a \<longleftrightarrow> nonblank (acAccountID a) \<and> nonblank (acBridgeKey a) \<and>
     nullOr nonblank (acRemoteAccountID a) \<and> acMode a \<in> {''live'', ''archive''} \<and>
     J (acConfigJSON a) \<and> 0 < acCreatedAtMS a \<and> acCreatedAtMS a \<le> acUpdatedAtMS a"

definition deviceRowOK :: "device \<Rightarrow> bool" where
  "deviceRowOK d \<longleftrightarrow> nonblank (dvDeviceID d) \<and> nullOr nonblank (dvRemoteDeviceID d) \<and>
     dvKind d \<in> {''local_installation'', ''remote_endpoint''} \<and>
     dvState d \<in> {''active'', ''revoked'', ''unknown''} \<and> nullOr (\<lambda>t. 0 \<le> t) (dvLastSeenAtMS d) \<and>
     0 < dvCreatedAtMS d \<and> dvCreatedAtMS d \<le> dvUpdatedAtMS d"

definition identityRowOK :: "(string \<Rightarrow> bool) \<Rightarrow> identity \<Rightarrow> bool" where
  "identityRowOK J i \<longleftrightarrow> nonblank (idIdentityID i) \<and> nonblank (idKind i) \<and>
     nonblank (idCanonicalValue i) \<and> nonblank (idRawValue i) \<and> J (idMetadataJSON i) \<and>
     0 < idCreatedAtMS i \<and> idCreatedAtMS i \<le> idUpdatedAtMS i"

definition conversationRowOK :: "(string \<Rightarrow> bool) \<Rightarrow> conversation \<Rightarrow> bool" where
  "conversationRowOK J c \<longleftrightarrow> nonblank (cvConversationID c) \<and> nonblank (cvRemoteConversationID c) \<and>
     cvKind c \<in> {''direct'', ''group'', ''broadcast'', ''system''} \<and>
     cvNotificationMode c \<in> {''all'', ''mentions'', ''muted''} \<and>
     nullOr (\<lambda>t. 0 \<le> t) (cvArchivedAtMS c) \<and> 0 \<le> cvLastMessageAtMS c \<and> J (cvMetadataJSON c) \<and>
     0 < cvCreatedAtMS c \<and> cvCreatedAtMS c \<le> cvUpdatedAtMS c"

definition participantRowOK :: "participant \<Rightarrow> bool" where
  "participantRowOK p \<longleftrightarrow> cpRole p \<in> {''member'', ''admin'', ''owner'', ''unknown''} \<and>
     nullOr (\<lambda>t. 0 \<le> t) (cpJoinedAtMS p) \<and> nullOr (\<lambda>t. 0 \<le> t) (cpLeftAtMS p)"

abbreviation identityKeyOf :: "identity \<Rightarrow> string \<times> string \<times> string" where
  "identityKeyOf i \<equiv> (idAccountID i, idKind i, idCanonicalValue i)"

abbreviation conversationKeyOf :: "conversation \<Rightarrow> string \<times> string" where
  "conversationKeyOf c \<equiv> (cvAccountID c, cvRemoteConversationID c)"

abbreviation participantKeyOf :: "participant \<Rightarrow> string \<times> string" where
  "participantKeyOf p \<equiv> (cpConversationID p, cpIdentityID p)"

section \<open>Upserts\<close>

definition accountRemoteClash :: "account \<Rightarrow> store \<Rightarrow> bool" where
  "accountRemoteClash a s = sqlExists (\<lambda>r. acAccountID r \<noteq> acAccountID a \<and>
     acBridgeKey r = acBridgeKey a \<and> acRemoteAccountID r \<noteq> None \<and>
     acRemoteAccountID r = acRemoteAccountID a) (accounts s)"

definition upsertAccount :: "(string \<Rightarrow> bool) \<Rightarrow> account \<Rightarrow> store \<Rightarrow> store_error + store" where
  "upsertAccount J a s =
     (if \<not> accountRowOK J a then Inl (mapConstraintError CheckFault)
      else case sqlFind (\<lambda>r. acAccountID r = acAccountID a) (accounts s) of
        Some old \<Rightarrow>
          let new = a\<lparr>acCreatedAtMS := acCreatedAtMS old\<rparr> in
          if \<not> accountRowOK J new then Inl (mapConstraintError CheckFault)
          else if accountRemoteClash a s then Inl (mapConstraintError UniqueFault)
          else Inr (s\<lparr>accounts :=
            sqlUpdate (\<lambda>r. acAccountID r = acAccountID a) (\<lambda>r. new) (accounts s)\<rparr>)
      | None \<Rightarrow>
          if accountRemoteClash a s then Inl (mapConstraintError UniqueFault)
          else Inr (s\<lparr>accounts := accounts s @ [a]\<rparr>))"

text \<open>
  A device that changes its account leaves the read cursors of the old pair behind, which the
  foreign key of \<open>read_cursors\<close> refuses.
\<close>

definition deviceClash :: "device \<Rightarrow> store \<Rightarrow> bool" where
  "deviceClash d s = sqlExists (\<lambda>r. dvDeviceID r \<noteq> dvDeviceID d \<and> dvAccountID r = dvAccountID d \<and>
     (dvRemoteDeviceID r \<noteq> None \<and> dvRemoteDeviceID r = dvRemoteDeviceID d \<or>
      dvKind r = ''local_installation'' \<and> dvIsCurrent r \<and>
      dvKind d = ''local_installation'' \<and> dvIsCurrent d)) (devices s)"

definition upsertDevice :: "device \<Rightarrow> store \<Rightarrow> store_error + store" where
  "upsertDevice d s =
     (if \<not> deviceRowOK d then Inl (mapConstraintError CheckFault)
      else case sqlFind (\<lambda>r. dvDeviceID r = dvDeviceID d) (devices s) of
        Some old \<Rightarrow>
          let new = d\<lparr>dvCreatedAtMS := dvCreatedAtMS old\<rparr> in
          if \<not> deviceRowOK new then Inl (mapConstraintError CheckFault)
          else if deviceClash d s then Inl (mapConstraintError UniqueFault)
          else if \<not> hasAccount (dvAccountID d) s \<or> dvAccountID d \<noteq> dvAccountID old \<and>
                  sqlExists (\<lambda>c. rcAccountID c = dvAccountID old \<and> rcDeviceID c = dvDeviceID d)
                    (readCursors s)
               then Inl (mapConstraintError ForeignKeyFault)
          else Inr (s\<lparr>devices :=
            sqlUpdate (\<lambda>r. dvDeviceID r = dvDeviceID d) (\<lambda>r. new) (devices s)\<rparr>)
      | None \<Rightarrow>
          if deviceClash d s then Inl (mapConstraintError UniqueFault)
          else if \<not> hasAccount (dvAccountID d) s then Inl (mapConstraintError ForeignKeyFault)
          else Inr (s\<lparr>devices := devices s @ [d]\<rparr>))"

text \<open>A natural-key conflict retains the ID and the creation time.\<close>

definition mergeIdentity :: "identity \<Rightarrow> identity \<Rightarrow> identity" where
  "mergeIdentity i old = old\<lparr>idRawValue := idRawValue i, idDisplayName := idDisplayName i,
     idIsSelf := idIsSelf i, idMetadataJSON := idMetadataJSON i, idUpdatedAtMS := idUpdatedAtMS i\<rparr>"

definition upsertIdentity :: "(string \<Rightarrow> bool) \<Rightarrow> identity \<Rightarrow> store \<Rightarrow> store_error + store" where
  "upsertIdentity J i s =
     (let same = (\<lambda>r. identityKeyOf r = identityKeyOf i) in
      if \<not> identityRowOK J i then Inl (mapConstraintError CheckFault)
      else case sqlFind same (identities s) of
        Some old \<Rightarrow>
          if \<not> identityRowOK J (mergeIdentity i old) then Inl (mapConstraintError CheckFault)
          else Inr (s\<lparr>identities := sqlUpdate same (mergeIdentity i) (identities s)\<rparr>)
      | None \<Rightarrow>
          if sqlExists (\<lambda>r. idIdentityID r = idIdentityID i) (identities s) then
            Inl (mapConstraintError UniqueFault)
          else if \<not> hasAccount (idAccountID i) s then Inl (mapConstraintError ForeignKeyFault)
          else Inr (s\<lparr>identities := identities s @ [i]\<rparr>))"

definition mergeConversation :: "conversation \<Rightarrow> conversation \<Rightarrow> conversation" where
  "mergeConversation c old = c\<lparr>cvConversationID := cvConversationID old,
     cvAccountID := cvAccountID old, cvRemoteConversationID := cvRemoteConversationID old,
     cvCreatedAtMS := cvCreatedAtMS old\<rparr>"

definition upsertConversation ::
  "(string \<Rightarrow> bool) \<Rightarrow> conversation \<Rightarrow> store \<Rightarrow> store_error + store" where
  "upsertConversation J c s =
     (let same = (\<lambda>r. conversationKeyOf r = conversationKeyOf c) in
      if \<not> conversationRowOK J c then Inl (mapConstraintError CheckFault)
      else case sqlFind same (conversations s) of
        Some old \<Rightarrow>
          if \<not> conversationRowOK J (mergeConversation c old) then
            Inl (mapConstraintError CheckFault)
          else Inr (s\<lparr>conversations := sqlUpdate same (mergeConversation c) (conversations s)\<rparr>)
      | None \<Rightarrow>
          if sqlExists (\<lambda>r. cvConversationID r = cvConversationID c) (conversations s) then
            Inl (mapConstraintError UniqueFault)
          else if \<not> hasAccount (cvAccountID c) s then Inl (mapConstraintError ForeignKeyFault)
          else Inr (s\<lparr>conversations := conversations s @ [c]\<rparr>))"

section \<open>Settings of a conversation\<close>

definition conversationTouchMS :: "gotime \<Rightarrow> conversation \<Rightarrow> int" where
  "conversationTouchMS t c =
     (let n = unixMilliOf t;
          n1 = (if cvCreatedAtMS c > n then cvCreatedAtMS c else n)
      in if cvUpdatedAtMS c > n1 then cvUpdatedAtMS c else n1)"

definition updateConversation ::
  "gotime \<Rightarrow> string \<Rightarrow> (conversation \<Rightarrow> conversation) \<Rightarrow> store \<Rightarrow> store_error + store" where
  "updateConversation t i f s =
     thenDo (getConversation i s) (\<lambda>c.
       Inr (s\<lparr>conversations := sqlUpdate (\<lambda>r. cvConversationID r = i)
              (\<lambda>r. (f r)\<lparr>cvUpdatedAtMS := conversationTouchMS t c\<rparr>) (conversations s)\<rparr>))"

definition setConversationFavorite ::
  "gotime \<Rightarrow> string \<Rightarrow> bool \<Rightarrow> store \<Rightarrow> store_error + store" where
  "setConversationFavorite t conversationID favorite s =
     (let i = trimSpace conversationID in
      if i = '''' then Inl notFound
      else updateConversation t i (\<lambda>r. r\<lparr>cvIsFavorite := favorite\<rparr>) s)"

definition setConversationNotificationMode ::
  "gotime \<Rightarrow> string \<Rightarrow> string \<Rightarrow> store \<Rightarrow> store_error + store" where
  "setConversationNotificationMode t conversationID mode s =
     (let i = trimSpace conversationID in
      if i = '''' then Inl notFound
      else if mode \<notin> {''all'', ''mentions'', ''muted''} then failWith ''invalid notification mode''
      else updateConversation t i (\<lambda>r. r\<lparr>cvNotificationMode := mode\<rparr>) s)"

definition bumpConversationRecency :: "string \<Rightarrow> int \<Rightarrow> store \<Rightarrow> store_error + store" where
  "bumpConversationRecency i atMS s =
     (if atMS \<le> 0 then failWith ''time is not positive''
      else Inr (s\<lparr>conversations := sqlUpdate (\<lambda>r. cvConversationID r = i)
             (\<lambda>r. r\<lparr>cvLastMessageAtMS := max (cvLastMessageAtMS r) atMS\<rparr>) (conversations s)\<rparr>))"

section \<open>Participants\<close>

definition invalidParticipantError :: "sentinel list \<Rightarrow> store_error" where
  "invalidParticipantError specific =
     [ErrInvalidConversationParticipant, ErrConstraintViolation] @ specific"

definition invalidParticipantConstraintError :: "sentinel list \<Rightarrow> sql_fault \<Rightarrow> store_error" where
  "invalidParticipantConstraintError specific f =
     [ErrInvalidConversationParticipant, ErrConstraintViolation] @ specific @ [ErrSqlite f]"

definition classifyParticipantForeignKey :: "string \<Rightarrow> string \<Rightarrow> store \<Rightarrow> sentinel list" where
  "classifyParticipantForeignKey account identityID s =
     (case sqlFind (\<lambda>r. idIdentityID r = identityID) (identities s) of
        None \<Rightarrow> [ErrOrphanParticipantIdentity]
      | Some r \<Rightarrow> if idAccountID r \<noteq> account then [ErrCrossAccountParticipant] else [])"

definition participantReferencesOK :: "participant \<Rightarrow> store \<Rightarrow> bool" where
  "participantReferencesOK p s \<longleftrightarrow> hasConversation (cpAccountID p) (cpConversationID p) s \<and>
     hasIdentity (cpAccountID p) (cpIdentityID p) s"

text \<open>\<open>INSERT INTO conversation_participants\<close>, with \<open>skip\<close> on a conflict of the primary key.\<close>

definition insertParticipantRow :: "bool \<Rightarrow> participant \<Rightarrow> store \<Rightarrow> sql_fault + store" where
  "insertParticipantRow skip p s =
     (if \<not> participantRowOK p then Inl CheckFault
      else if sqlExists (\<lambda>r. participantKeyOf r = participantKeyOf p) (participants s) then
        (if skip then Inr s else Inl UniqueFault)
      else if \<not> participantReferencesOK p s then Inl ForeignKeyFault
      else Inr (s\<lparr>participants := participants s @ [p]\<rparr>))"

text \<open>The account of a participant row: empty for that of the conversation.\<close>

definition participantOf :: "string \<Rightarrow> string \<Rightarrow> participant \<Rightarrow> participant" where
  "participantOf account conversationID p =
     p\<lparr>cpAccountID := (if cpAccountID p = '''' then account else cpAccountID p),
       cpConversationID := conversationID\<rparr>"

fun insertParticipants ::
  "string \<Rightarrow> string \<Rightarrow> participant list \<Rightarrow> store \<Rightarrow> store_error + store" where
  "insertParticipants account conversationID [] s = Inr s"
| "insertParticipants account conversationID (p # ps) s =
     (if cpConversationID p \<noteq> '''' \<and> cpConversationID p \<noteq> conversationID then
        Inl (invalidParticipantError [])
      else if cpAccountID p \<noteq> '''' \<and> cpAccountID p \<noteq> account then
        Inl (invalidParticipantError [ErrCrossAccountParticipant])
      else case insertParticipantRow False (participantOf account conversationID p) s of
        Inl f \<Rightarrow> Inl (invalidParticipantConstraintError
          (if f = ForeignKeyFault then classifyParticipantForeignKey account (cpIdentityID p) s
           else []) f)
      | Inr s1 \<Rightarrow> insertParticipants account conversationID ps s1)"

definition replaceConversationParticipants ::
  "string \<Rightarrow> participant list \<Rightarrow> store \<Rightarrow> store_error + store" where
  "replaceConversationParticipants conversationID ps s =
     (case sqlFind (\<lambda>r. cvConversationID r = conversationID) (conversations s) of
        None \<Rightarrow> Inl notFound
      | Some c \<Rightarrow> insertParticipants (cvAccountID c) conversationID ps
          (s\<lparr>participants := filter (\<lambda>r. cpConversationID r \<noteq> conversationID) (participants s)\<rparr>))"

definition listParticipants :: "string \<Rightarrow> store \<Rightarrow> participant list" where
  "listParticipants conversationID s =
     sort_key cpIdentityID (filter (\<lambda>r. cpConversationID r = conversationID) (participants s))"

text \<open>Whether a row was inserted, and the store.\<close>

definition ensureConversationParticipant ::
  "participant \<Rightarrow> store \<Rightarrow> store_error + (bool \<times> store)" where
  "ensureConversationParticipant p s =
     (if cpConversationID p = '''' then Inl (invalidParticipantError [])
      else case sqlFind (\<lambda>r. cvConversationID r = cpConversationID p) (conversations s) of
        None \<Rightarrow> Inl notFound
      | Some c \<Rightarrow>
          let q = participantOf (cvAccountID c) (cpConversationID p) p in
          if cpAccountID q \<noteq> cvAccountID c then
            Inl (invalidParticipantError [ErrCrossAccountParticipant])
          else case insertParticipantRow True q s of
            Inl f \<Rightarrow> Inl (invalidParticipantConstraintError [] f)
          | Inr s1 \<Rightarrow> Inr (length (participants s) < length (participants s1), s1))"

definition listDirectConversationsWithoutParticipants :: "store \<Rightarrow> conversation list" where
  "listDirectConversationsWithoutParticipants s =
     sort_key cvConversationID (filter (\<lambda>c. cvKind c = ''direct'' \<and>
       \<not> sqlExists (\<lambda>p. cpConversationID p = cvConversationID c) (participants s)) (conversations s))"

definition inboundSent :: "string \<Rightarrow> message \<Rightarrow> bool" where
  "inboundSent conversationID m \<longleftrightarrow> msConversationID m = conversationID \<and>
     msDirection m = MessageDirectionIncoming \<and> msSenderIdentityID m \<noteq> None"

definition countDistinctInboundSenders :: "string \<Rightarrow> store \<Rightarrow> nat" where
  "countDistinctInboundSenders conversationID s =
     length (remdups (map msSenderIdentityID (filter (inboundSent conversationID) (messages s))))"

text \<open>\<open>None\<close> when there is no such message or the identity is the empty string.\<close>

definition latestInboundSenderIdentityID :: "string \<Rightarrow> store \<Rightarrow> string option" where
  "latestInboundSenderIdentityID conversationID s =
     (case sqlTop (\<lambda>m. (- msOccurredAtMS m, msMessageID m)) 1
             (filter (inboundSent conversationID) (messages s)) of
        [] \<Rightarrow> None
      | m # ms \<Rightarrow> (case msSenderIdentityID m of Some i \<Rightarrow> if i = '''' then None else Some i
                    | None \<Rightarrow> None))"

text \<open>The device row of this installation: the current one first.\<close>

definition getLocalInstallationDevice :: "string \<Rightarrow> store \<Rightarrow> store_error + device" where
  "getLocalInstallationDevice accountID s =
     (case sqlTop (\<lambda>d. (\<not> dvIsCurrent d, dvDeviceID d)) 1
             (filter (\<lambda>d. dvAccountID d = accountID \<and> dvKind d = ''local_installation'') (devices s)) of
        [] \<Rightarrow> Inl notFound | d # ds \<Rightarrow> Inr d)"

section \<open>Search by name\<close>

text \<open>\<open>escapeLikePattern\<close>, and the pattern that declares the backslash as its escape character.\<close>

fun escapeLikePattern :: "string \<Rightarrow> string" where
  "escapeLikePattern [] = []"
| "escapeLikePattern (c # cs) =
     (if c = byte 92 \<or> c = CHR ''%'' \<or> c = CHR ''_'' then byte 92 # c # escapeLikePattern cs
      else c # escapeLikePattern cs)"

fun sqlLikeEscape :: "string \<Rightarrow> string \<Rightarrow> bool" where
  "sqlLikeEscape [] s = (s = [])"
| "sqlLikeEscape (p # ps) s =
     (if p = byte 92 then
        (case ps of [] \<Rightarrow> False
         | q # qs \<Rightarrow> (case s of [] \<Rightarrow> False
             | c # cs \<Rightarrow> asciiLower q = asciiLower c \<and> sqlLikeEscape qs cs))
      else if p = CHR ''%'' then list_ex (sqlLikeEscape ps) (suffixesOf s)
      else case s of [] \<Rightarrow> False
        | c # cs \<Rightarrow>
            if p = CHR ''_'' then sqlLikeEscape ps (dropWhile continuationByte cs)
            else asciiLower p = asciiLower c \<and> sqlLikeEscape ps cs)"

definition nameMatches :: "string \<Rightarrow> conversation \<Rightarrow> store \<Rightarrow> bool" where
  "nameMatches pat c s \<longleftrightarrow> sqlLikeEscape pat (cvTitle c) \<or>
     sqlExists (\<lambda>p. cpConversationID p = cvConversationID c \<and>
       sqlExists (\<lambda>i. idIdentityID i = cpIdentityID p \<and>
         (sqlLikeEscape pat (cpDisplayName p) \<or> sqlLikeEscape pat (idDisplayName i) \<or>
          sqlLikeEscape pat (idCanonicalValue i))) (identities s)) (participants s)"

definition searchConversationsByName ::
  "string \<Rightarrow> string \<Rightarrow> int \<Rightarrow> store \<Rightarrow> conversation list" where
  "searchConversationsByName query accountID limit s =
     (if limit \<le> 0 \<or> blank query then []
      else
        let pat = ''%'' @ escapeLikePattern query @ ''%''; account = trimSpace accountID
        in sqlTop recencyKey (nat limit) (filter (\<lambda>c. nameMatches pat c s \<and>
             (account \<noteq> '''' \<longrightarrow> cvAccountID c = account)) (conversations s)))"

section \<open>Rebinding a remote conversation ID\<close>

definition displacedRemoteID :: "string \<Rightarrow> string \<Rightarrow> string" where
  "displacedRemoteID remoteID conversationID = ''displaced:'' @ remoteID @ '':'' @ conversationID"

definition listConversationPeerIdentities :: "string \<Rightarrow> string \<Rightarrow> store \<Rightarrow> identity list" where
  "listConversationPeerIdentities accountID conversationID s =
     sort_key idIdentityID (filter (\<lambda>i. \<not> idIsSelf i \<and>
       sqlExists (\<lambda>p. cpAccountID p = accountID \<and> cpConversationID p = conversationID \<and>
         cpIsActive p \<and> idAccountID i = cpAccountID p \<and> idIdentityID i = cpIdentityID p)
         (participants s)) (identities s))"

definition solePeer :: "string \<Rightarrow> conversation \<Rightarrow> store \<Rightarrow> bool" where
  "solePeer identityID c s \<longleftrightarrow>
     sqlExists (\<lambda>p. cpAccountID p = cvAccountID c \<and> cpConversationID p = cvConversationID c \<and>
       cpIdentityID p = identityID \<and> cpIsActive p) (participants s) \<and>
     \<not> sqlExists (\<lambda>p. cpAccountID p = cvAccountID c \<and> cpConversationID p = cvConversationID c \<and>
       cpIsActive p \<and> cpIdentityID p \<noteq> identityID \<and>
       sqlExists (\<lambda>i. idAccountID i = cpAccountID p \<and> idIdentityID i = cpIdentityID p \<and>
         \<not> idIsSelf i) (identities s)) (participants s)"

definition findDirectConversationBySolePeer ::
  "string \<Rightarrow> string \<Rightarrow> store \<Rightarrow> store_error + conversation" where
  "findDirectConversationBySolePeer accountID identityID s =
     (case sqlTop recencyKey 1 (filter (\<lambda>c. cvAccountID c = accountID \<and> cvKind c = ''direct'' \<and>
             solePeer identityID c s) (conversations s)) of
        [] \<Rightarrow> Inl notFound | c # cs \<Rightarrow> Inr c)"

text \<open>The peers of a group have the given identities, and as many.\<close>

definition findGroupConversationByPeerSet ::
  "string \<Rightarrow> string list \<Rightarrow> store \<Rightarrow> store_error + conversation" where
  "findGroupConversationByPeerSet accountID identityIDs s =
     (if identityIDs = [] then Inl notFound
      else
        let match = (\<lambda>c. let peers = listConversationPeerIdentities accountID (cvConversationID c) s in
              length peers = length (remdups identityIDs) \<and>
              list_all (\<lambda>i. idIdentityID i \<in> set identityIDs) peers)
        in case find match (sort_key recencyKey (filter (\<lambda>c. cvAccountID c = accountID \<and>
                  cvKind c = ''group'') (conversations s))) of
             None \<Rightarrow> Inl notFound | Some c \<Rightarrow> Inr c)"

text \<open>
  \<open>UPDATE conversations SET remote_conversation_id = ?\<close> for one row: the number of rows, unless
  another row of the account has the remote ID already.
\<close>

definition setRemoteID ::
  "string \<Rightarrow> string \<Rightarrow> string \<Rightarrow> int \<Rightarrow> store \<Rightarrow> sql_fault + (nat \<times> store)" where
  "setRemoteID accountID conversationID remoteID n s =
     (let target = (\<lambda>c. cvAccountID c = accountID \<and> cvConversationID c = conversationID) in
      if sqlExists target (conversations s) \<and>
         sqlExists (\<lambda>c. conversationKeyOf c = (accountID, remoteID) \<and> \<not> target c) (conversations s)
      then Inl UniqueFault
      else Inr (sqlCount target (conversations s), s\<lparr>conversations := sqlUpdate target
        (\<lambda>c. c\<lparr>cvRemoteConversationID := remoteID, cvUpdatedAtMS := max (cvUpdatedAtMS c) n\<rparr>)
        (conversations s)\<rparr>))"

definition holderOf :: "string \<Rightarrow> string \<Rightarrow> store \<Rightarrow> conversation option" where
  "holderOf accountID remoteID s =
     sqlFind (\<lambda>c. conversationKeyOf c = (accountID, remoteID)) (conversations s)"

definition reassignConversationRemoteID ::
  "string \<Rightarrow> string \<Rightarrow> string \<Rightarrow> int \<Rightarrow> store \<Rightarrow> store_error + store" where
  "reassignConversationRemoteID accountID remoteID0 toID n s =
     (let remoteID = trimSpace remoteID0;
          assign = (\<lambda>s1. case setRemoteID accountID toID remoteID n s1 of
            Inl f \<Rightarrow> Inl [ErrSqlite f]
          | Inr (affected, s2) \<Rightarrow> if affected \<noteq> 1 then Inl notFound else Inr s2)
      in
      if remoteID = '''' then failWith ''remote ID is empty''
      else if blank toID then failWith ''target conversation is empty''
      else case holderOf accountID remoteID s of
        None \<Rightarrow> assign s
      | Some holder \<Rightarrow>
          if cvConversationID holder = toID then Inr s
          else case setRemoteID accountID (cvConversationID holder)
                      (displacedRemoteID remoteID (cvConversationID holder)) n s of
            Inl f \<Rightarrow> Inl [ErrSqlite f]
          | Inr (affected, s1) \<Rightarrow> assign s1)"

definition displaceConversationRemoteID ::
  "string \<Rightarrow> string \<Rightarrow> int \<Rightarrow> store \<Rightarrow> store_error + (bool \<times> store)" where
  "displaceConversationRemoteID accountID remoteID0 n s =
     (let remoteID = trimSpace remoteID0 in
      if remoteID = '''' then failWith ''remote ID is empty''
      else case holderOf accountID remoteID s of
        None \<Rightarrow> Inr (False, s)
      | Some holder \<Rightarrow>
          (case setRemoteID accountID (cvConversationID holder)
                  (displacedRemoteID remoteID (cvConversationID holder)) n s of
             Inl f \<Rightarrow> Inl [ErrSqlite f]
           | Inr (affected, s1) \<Rightarrow> Inr (True, s1)))"

end
