(* ===== verification/Graph_Safety.thy ===== *)
theory Graph_Safety
  imports Identity_Graph
begin

text \<open>
  The invariant of the identity graph: primary and natural keys are unique, rows satisfy the
  constraints of the schema, and every row refers to rows of its own account. Every write of
  \<open>Identity_Graph\<close> keeps it; histories are an interpretation of \<open>machine\<close>.
\<close>

section \<open>The invariant of the identity graph\<close>

definition accountsOK :: "(string \<Rightarrow> bool) \<Rightarrow> account list \<Rightarrow> bool" where
  "accountsOK J rows \<longleftrightarrow> distinct (map acAccountID rows) \<and> (\<forall>r \<in> set rows. accountRowOK J r)"

definition currentLocal :: "device \<Rightarrow> bool" where
  "currentLocal d \<longleftrightarrow> dvKind d = ''local_installation'' \<and> dvIsCurrent d"

text \<open>An account has at most one current device of this installation.\<close>

definition oneCurrent :: "device list \<Rightarrow> bool" where
  "oneCurrent rows \<longleftrightarrow> (\<forall>a \<in> set rows. \<forall>b \<in> set rows.
     currentLocal a \<and> currentLocal b \<and> dvAccountID a = dvAccountID b \<longrightarrow> dvDeviceID a = dvDeviceID b)"

definition devicesOK :: "device list \<Rightarrow> bool" where
  "devicesOK rows \<longleftrightarrow> distinct (map dvDeviceID rows) \<and> (\<forall>r \<in> set rows. deviceRowOK r) \<and>
     oneCurrent rows"

definition identitiesOK :: "(string \<Rightarrow> bool) \<Rightarrow> identity list \<Rightarrow> bool" where
  "identitiesOK J rows \<longleftrightarrow> distinct (map idIdentityID rows) \<and> distinct (map identityKeyOf rows) \<and>
     (\<forall>r \<in> set rows. identityRowOK J r)"

definition conversationsOK :: "(string \<Rightarrow> bool) \<Rightarrow> conversation list \<Rightarrow> bool" where
  "conversationsOK J rows \<longleftrightarrow> distinct (map cvConversationID rows) \<and>
     distinct (map conversationKeyOf rows) \<and> (\<forall>r \<in> set rows. conversationRowOK J r)"

definition participantsOK :: "participant list \<Rightarrow> bool" where
  "participantsOK rows \<longleftrightarrow> distinct (map participantKeyOf rows) \<and> (\<forall>r \<in> set rows. participantRowOK r)"

text \<open>Every row refers to rows of its own account, by the keys of the tables.\<close>

abbreviation accountIDs :: "store \<Rightarrow> string set" where
  "accountIDs s \<equiv> acAccountID ` set (accounts s)"

abbreviation identityRef :: "identity \<Rightarrow> string \<times> string" where
  "identityRef i \<equiv> (idAccountID i, idIdentityID i)"

abbreviation conversationRef :: "conversation \<Rightarrow> string \<times> string" where
  "conversationRef c \<equiv> (cvAccountID c, cvConversationID c)"

definition graphRefs :: "store \<Rightarrow> bool" where
  "graphRefs s \<longleftrightarrow> dvAccountID ` set (devices s) \<subseteq> accountIDs s \<and>
     idAccountID ` set (identities s) \<subseteq> accountIDs s \<and>
     cvAccountID ` set (conversations s) \<subseteq> accountIDs s \<and>
     (\<lambda>p. (cpAccountID p, cpConversationID p)) ` set (participants s) \<subseteq>
       conversationRef ` set (conversations s) \<and>
     (\<lambda>p. (cpAccountID p, cpIdentityID p)) ` set (participants s) \<subseteq> identityRef ` set (identities s)"

definition graphOK :: "(string \<Rightarrow> bool) \<Rightarrow> store \<Rightarrow> bool" where
  "graphOK J s \<longleftrightarrow> accountsOK J (accounts s) \<and> devicesOK (devices s) \<and>
     identitiesOK J (identities s) \<and> conversationsOK J (conversations s) \<and>
     participantsOK (participants s) \<and> graphRefs s"

lemma hasAccount_keys: "hasAccount a s \<longleftrightarrow> a \<in> accountIDs s"
  by (auto simp: hasAccount_def sqlExists_iff)

lemma hasIdentity_keys: "hasIdentity a i s \<longleftrightarrow> (a, i) \<in> identityRef ` set (identities s)"
  by (auto simp: hasIdentity_def sqlExists_iff)

lemma hasConversation_keys:
  "hasConversation a c s \<longleftrightarrow> (a, c) \<in> conversationRef ` set (conversations s)"
  by (auto simp: hasConversation_def sqlExists_iff)

lemmas has_keys = hasAccount_keys hasIdentity_keys hasConversation_keys

lemma map_sqlUpdate_on:
  "(\<And>r. r \<in> set rows \<Longrightarrow> P r \<Longrightarrow> k (f r) = k r) \<Longrightarrow> map k (sqlUpdate P f rows) = map k rows"
  by (simp add: sqlUpdate_def)

lemma image_sqlUpdate:
  assumes "\<And>r. r \<in> set rows \<Longrightarrow> P r \<Longrightarrow> k (f r) = k r"
  shows "k ` set (sqlUpdate P f rows) = k ` set rows"
  using map_sqlUpdate_on [of rows P k f, OF assms] by (metis list.set_map)

section \<open>Every write keeps it\<close>

text \<open>A row appended to a table, and rows of a table updated without a change of their keys.\<close>

lemma accountsOK_snoc:
  "accountsOK J rows \<Longrightarrow> accountRowOK J a \<Longrightarrow> \<not> sqlExists (\<lambda>r. acAccountID r = acAccountID a) rows \<Longrightarrow>
   accountsOK J (rows @ [a])"
  by (auto simp: accountsOK_def sqlExists_iff)

lemma identitiesOK_snoc:
  "identitiesOK J rows \<Longrightarrow> identityRowOK J i \<Longrightarrow> \<not> sqlExists (\<lambda>r. idIdentityID r = idIdentityID i) rows \<Longrightarrow>
   \<not> sqlExists (\<lambda>r. identityKeyOf r = identityKeyOf i) rows \<Longrightarrow> identitiesOK J (rows @ [i])"
  by (auto simp: identitiesOK_def sqlExists_iff)

lemma conversationsOK_snoc:
  "conversationsOK J rows \<Longrightarrow> conversationRowOK J c \<Longrightarrow>
   \<not> sqlExists (\<lambda>r. cvConversationID r = cvConversationID c) rows \<Longrightarrow>
   \<not> sqlExists (\<lambda>r. conversationKeyOf r = conversationKeyOf c) rows \<Longrightarrow> conversationsOK J (rows @ [c])"
  by (auto simp: conversationsOK_def sqlExists_iff)

lemma participantsOK_snoc:
  "participantsOK rows \<Longrightarrow> participantRowOK p \<Longrightarrow>
   \<not> sqlExists (\<lambda>r. participantKeyOf r = participantKeyOf p) rows \<Longrightarrow> participantsOK (rows @ [p])"
  by (auto simp: participantsOK_def sqlExists_iff)

lemma accountsOK_update:
  "accountsOK J rows \<Longrightarrow>
   (\<And>r. r \<in> set rows \<Longrightarrow> P r \<Longrightarrow> acAccountID (f r) = acAccountID r \<and> accountRowOK J (f r)) \<Longrightarrow>
   accountsOK J (sqlUpdate P f rows)"
  by (auto simp: accountsOK_def map_sqlUpdate_on ball_sqlUpdate)

lemma identitiesOK_update:
  "identitiesOK J rows \<Longrightarrow>
   (\<And>r. r \<in> set rows \<Longrightarrow> P r \<Longrightarrow> idIdentityID (f r) = idIdentityID r \<and>
     identityKeyOf (f r) = identityKeyOf r \<and> identityRowOK J (f r)) \<Longrightarrow>
   identitiesOK J (sqlUpdate P f rows)"
  by (simp add: identitiesOK_def map_sqlUpdate_on ball_sqlUpdate)

lemma conversationsOK_update:
  "conversationsOK J rows \<Longrightarrow>
   (\<And>r. r \<in> set rows \<Longrightarrow> P r \<Longrightarrow> cvConversationID (f r) = cvConversationID r \<and>
     conversationKeyOf (f r) = conversationKeyOf r \<and> conversationRowOK J (f r)) \<Longrightarrow>
   conversationsOK J (sqlUpdate P f rows)"
  by (simp add: conversationsOK_def map_sqlUpdate_on ball_sqlUpdate)

lemma upsertAccount_OK:
  assumes "upsertAccount J a s = Inr t" and "graphOK J s"
  shows "graphOK J t"
proof (cases "sqlFind (\<lambda>r. acAccountID r = acAccountID a) (accounts s)")
  case None
  then have "t = s\<lparr>accounts := accounts s @ [a]\<rparr>" and "accountRowOK J a"
    using assms(1) by (auto simp: upsertAccount_def split: if_splits)
  with None assms(2) show ?thesis
    by (auto simp: graphOK_def graphRefs_def sqlFind_None intro: accountsOK_snoc)
next
  case (Some old)
  then obtain new where t: "t = s\<lparr>accounts :=
        sqlUpdate (\<lambda>r. acAccountID r = acAccountID a) (\<lambda>r. new) (accounts s)\<rparr>"
    and row: "accountRowOK J new" and new: "acAccountID new = acAccountID a"
    using assms(1) by (fastforce simp: upsertAccount_def Let_def split: if_splits)
  have "acAccountID ` set (sqlUpdate (\<lambda>r. acAccountID r = acAccountID a) (\<lambda>r. new) (accounts s)) =
      accountIDs s"
    by (rule image_sqlUpdate) (simp add: new)
  moreover have "accountsOK J (accounts t)"
    using assms(2) row new unfolding t by (simp add: graphOK_def accountsOK_update)
  ultimately show ?thesis using assms(2) by (simp add: graphOK_def graphRefs_def t)
qed

lemma upsertIdentity_OK:
  assumes "upsertIdentity J i s = Inr t" and "graphOK J s"
  shows "graphOK J t"
proof (cases "sqlFind (\<lambda>r. identityKeyOf r = identityKeyOf i) (identities s)")
  case None
  then have "t = s\<lparr>identities := identities s @ [i]\<rparr>" and "identityRowOK J i"
    and "\<not> sqlExists (\<lambda>r. idIdentityID r = idIdentityID i) (identities s)" and "hasAccount (idAccountID i) s"
    using assms(1) by (auto simp: upsertIdentity_def Let_def split: if_splits)
  with None assms(2) show ?thesis
    by (auto simp: graphOK_def graphRefs_def sqlFind_None hasAccount_keys intro: identitiesOK_snoc)
next
  case (Some old)
  let ?same = "\<lambda>r. identityKeyOf r = identityKeyOf i"
  from Some have t: "t = s\<lparr>identities := sqlUpdate ?same (mergeIdentity i) (identities s)\<rparr>"
    and row: "identityRowOK J (mergeIdentity i old)"
    using assms(1) by (auto simp: upsertIdentity_def Let_def split: if_splits)
  have "distinct (map identityKeyOf (identities s))"
    using assms(2) by (simp add: graphOK_def identitiesOK_def)
  then have "r = old" if "r \<in> set (identities s)" and "?same r" for r
    using Some that by (rule sqlFind_unique)
  with row have "identitiesOK J (identities t)"
    using assms(2) unfolding t
    by (simp add: graphOK_def) (rule identitiesOK_update, auto simp: mergeIdentity_def)
  moreover have "idAccountID ` set (identities t) = idAccountID ` set (identities s)"
    and "identityRef ` set (identities t) = identityRef ` set (identities s)"
    by (simp_all add: t image_sqlUpdate mergeIdentity_def)
  ultimately show ?thesis using assms(2) by (simp add: graphOK_def graphRefs_def t)
qed

lemma upsertConversation_OK:
  assumes "upsertConversation J c s = Inr t" and "graphOK J s"
  shows "graphOK J t"
proof (cases "sqlFind (\<lambda>r. conversationKeyOf r = conversationKeyOf c) (conversations s)")
  case None
  then have "t = s\<lparr>conversations := conversations s @ [c]\<rparr>" and "conversationRowOK J c"
    and "\<not> sqlExists (\<lambda>r. cvConversationID r = cvConversationID c) (conversations s)"
    and "hasAccount (cvAccountID c) s"
    using assms(1) by (auto simp: upsertConversation_def Let_def split: if_splits)
  with None assms(2) show ?thesis
    by (auto simp: graphOK_def graphRefs_def sqlFind_None hasAccount_keys intro: conversationsOK_snoc)
next
  case (Some old)
  let ?same = "\<lambda>r. conversationKeyOf r = conversationKeyOf c"
  from Some have t: "t = s\<lparr>conversations := sqlUpdate ?same (mergeConversation c) (conversations s)\<rparr>"
    and row: "conversationRowOK J (mergeConversation c old)"
    using assms(1) by (auto simp: upsertConversation_def Let_def split: if_splits)
  have "distinct (map conversationKeyOf (conversations s))"
    using assms(2) by (simp add: graphOK_def conversationsOK_def)
  then have "r = old" if "r \<in> set (conversations s)" and "?same r" for r
    using Some that by (rule sqlFind_unique)
  with row have "conversationsOK J (conversations t)"
    using assms(2) unfolding t
    by (simp add: graphOK_def) (rule conversationsOK_update, auto simp: mergeConversation_def)
  moreover have "cvAccountID ` set (conversations t) = cvAccountID ` set (conversations s)"
    and "conversationRef ` set (conversations t) = conversationRef ` set (conversations s)"
    by (simp_all add: t image_sqlUpdate mergeConversation_def)
  ultimately show ?thesis using assms(2) by (simp add: graphOK_def graphRefs_def t)
qed

text \<open>Updates of a conversation that keep its account and ID.\<close>

lemma conversations_update_OK:
  assumes "graphOK J s" and "conversationsOK J (sqlUpdate P f (conversations s))"
    and "\<And>r. conversationRef (f r) = conversationRef r"
  shows "graphOK J (s\<lparr>conversations := sqlUpdate P f (conversations s)\<rparr>)"
proof -
  have "conversationRef ` set (sqlUpdate P f (conversations s)) = conversationRef ` set (conversations s)"
    and "cvAccountID ` set (sqlUpdate P f (conversations s)) = cvAccountID ` set (conversations s)"
    using assms(3) by (simp_all add: image_sqlUpdate)
  then show ?thesis using assms(1,2) by (simp add: graphOK_def graphRefs_def)
qed

lemma conversationTouchMS_le:
  "cvCreatedAtMS c \<le> conversationTouchMS t c \<and> cvUpdatedAtMS c \<le> conversationTouchMS t c"
  by (simp add: conversationTouchMS_def Let_def)

lemma updateConversation_OK:
  assumes "updateConversation t i f s = Inr u" and "graphOK J s"
    and "\<And>r. conversationRowOK J r \<Longrightarrow> conversationRowOK J (f r) \<and> conversationRef (f r) = conversationRef r
          \<and> conversationKeyOf (f r) = conversationKeyOf r \<and> cvCreatedAtMS (f r) = cvCreatedAtMS r"
    and "\<And>r. conversationRef (f r) = conversationRef r"
  shows "graphOK J u"
proof -
  from assms(1) obtain c where c: "c \<in> set (conversations s)" "cvConversationID c = i"
    and u: "u = s\<lparr>conversations := sqlUpdate (\<lambda>r. cvConversationID r = i)
              (\<lambda>r. (f r)\<lparr>cvUpdatedAtMS := conversationTouchMS t c\<rparr>) (conversations s)\<rparr>"
    by (auto simp: updateConversation_def thenDo_Inr dest: getConversation_Inr)
  have convs: "conversationsOK J (conversations s)" using assms(2) by (simp add: graphOK_def)
  have "r = c" if "r \<in> set (conversations s)" and "cvConversationID r = i" for r
    using convs c that by (auto simp: conversationsOK_def intro: distinct_key_inj)
  moreover have "conversationRowOK J c" using convs c by (simp add: conversationsOK_def)
  ultimately have "conversationsOK J (sqlUpdate (\<lambda>r. cvConversationID r = i)
      (\<lambda>r. (f r)\<lparr>cvUpdatedAtMS := conversationTouchMS t c\<rparr>) (conversations s))"
    using assms(3) [of c] conversationTouchMS_le [of c t]
    by (intro conversationsOK_update [OF convs]) (auto simp: conversationRowOK_def)
  then show ?thesis
    unfolding u using assms(2,4) by (intro conversations_update_OK) auto
qed

lemma setConversationFavorite_OK:
  "setConversationFavorite t i b s = Inr u \<Longrightarrow> graphOK J s \<Longrightarrow> graphOK J u"
  by (auto simp: setConversationFavorite_def Let_def conversationRowOK_def split: if_splits
      elim!: updateConversation_OK)

lemma setConversationNotificationMode_OK:
  "setConversationNotificationMode t i m s = Inr u \<Longrightarrow> graphOK J s \<Longrightarrow> graphOK J u"
  by (auto simp: setConversationNotificationMode_def Let_def conversationRowOK_def failWith_def
      split: if_splits elim!: updateConversation_OK)

lemma bumpConversationRecency_OK:
  assumes "bumpConversationRecency i n s = Inr t" and "graphOK J s"
  shows "graphOK J t"
proof -
  have t: "t = s\<lparr>conversations := sqlUpdate (\<lambda>r. cvConversationID r = i)
             (\<lambda>r. r\<lparr>cvLastMessageAtMS := max (cvLastMessageAtMS r) n\<rparr>) (conversations s)\<rparr>"
    using assms(1) by (simp add: bumpConversationRecency_def failWith_def split: if_splits)
  have convs: "conversationsOK J (conversations s)" using assms(2) by (simp add: graphOK_def)
  then have "\<forall>r \<in> set (conversations s). conversationRowOK J r" by (simp add: conversationsOK_def)
  then show ?thesis
    unfolding t
    by (intro conversations_update_OK [OF assms(2)] conversationsOK_update [OF convs])
      (auto simp: conversationRowOK_def)
qed

lemma deviceClash_current:
  "\<not> deviceClash d s \<Longrightarrow> r \<in> set (devices s) \<Longrightarrow> currentLocal r \<Longrightarrow> currentLocal d \<Longrightarrow>
   dvAccountID r = dvAccountID d \<Longrightarrow> dvDeviceID r = dvDeviceID d"
  by (auto simp: deviceClash_def sqlExists_iff currentLocal_def)

lemma oneCurrent_add:
  "oneCurrent rows \<Longrightarrow> (\<And>r. r \<in> set rows \<Longrightarrow> currentLocal r \<Longrightarrow> currentLocal d \<Longrightarrow>
     dvAccountID r = dvAccountID d \<Longrightarrow> dvDeviceID r = dvDeviceID d) \<Longrightarrow>
   set rows' \<subseteq> insert d (set rows) \<Longrightarrow> oneCurrent rows'"
  unfolding oneCurrent_def by (metis insert_iff subsetD)

lemma upsertDevice_OK:
  assumes "upsertDevice d s = Inr t" and "graphOK J s"
  shows "graphOK J t"
proof -
  let ?same = "\<lambda>r. dvDeviceID r = dvDeviceID d"
  from assms(1) have acc: "hasAccount (dvAccountID d) s" and clash: "\<not> deviceClash d s"
    by (auto simp: upsertDevice_def Let_def split: if_splits option.splits)
  have devs: "distinct (map dvDeviceID (devices s))" "\<forall>r \<in> set (devices s). deviceRowOK r"
    "oneCurrent (devices s)"
    using assms(2) by (simp_all add: graphOK_def devicesOK_def)
  define new where "new = (case sqlFind ?same (devices s) of None \<Rightarrow> d
     | Some old \<Rightarrow> d\<lparr>dvCreatedAtMS := dvCreatedAtMS old\<rparr>)"
  have new: "dvDeviceID new = dvDeviceID d" "dvAccountID new = dvAccountID d"
    "currentLocal new = currentLocal d"
    by (simp_all add: new_def currentLocal_def split: option.split)
  obtain rows where t: "t = s\<lparr>devices := rows\<rparr>" and "deviceRowOK new"
    and keys: "distinct (map dvDeviceID rows)" and rows: "set rows \<subseteq> insert new (set (devices s))"
  proof (cases "sqlFind ?same (devices s)")
    case None
    then have "t = s\<lparr>devices := devices s @ [d]\<rparr>" and "deviceRowOK d" and "new = d"
      using assms(1) by (auto simp: upsertDevice_def new_def split: if_splits)
    moreover have "distinct (map dvDeviceID (devices s @ [d]))"
      using None devs(1) by (simp only: distinct_snoc_key sqlFind_None simp_thms)
    ultimately show ?thesis by (intro that [of "devices s @ [d]"]) auto
  next
    case (Some old)
    then have "t = s\<lparr>devices := sqlUpdate ?same (\<lambda>r. new) (devices s)\<rparr>" and "deviceRowOK new"
      using assms(1) by (auto simp: upsertDevice_def Let_def new_def split: if_splits)
    then show ?thesis
      using devs(1) by (intro that [of "sqlUpdate ?same (\<lambda>r. new) (devices s)"])
        (auto simp: map_sqlUpdate_on new set_sqlUpdate)
  qed
  have "oneCurrent rows"
    by (rule oneCurrent_add [OF devs(3) _ rows]) (use clash new in \<open>auto dest: deviceClash_current\<close>)
  with keys rows devs(2) \<open>deviceRowOK new\<close> have "devicesOK rows" by (auto simp: devicesOK_def)
  moreover have "dvAccountID ` set rows \<subseteq> accountIDs s"
  proof -
    have "dvAccountID ` set rows \<subseteq> insert (dvAccountID new) (dvAccountID ` set (devices s))"
      using rows by blast
    also have "\<dots> \<subseteq> accountIDs s"
      using acc new(2) assms(2) by (simp add: graphOK_def graphRefs_def hasAccount_keys)
    finally show ?thesis .
  qed
  ultimately show ?thesis using assms(2) by (simp add: graphOK_def graphRefs_def t)
qed

lemma insertParticipantRow_OK:
  assumes "insertParticipantRow skip p s = Inr t" and "graphOK J s"
  shows "graphOK J t"
proof (cases "t = s")
  case False
  with assms(1) have "t = s\<lparr>participants := participants s @ [p]\<rparr>" and "participantRowOK p"
    and "\<not> sqlExists (\<lambda>r. participantKeyOf r = participantKeyOf p) (participants s)"
    and "participantReferencesOK p s"
    by (auto simp: insertParticipantRow_def split: if_splits)
  then show ?thesis
    using assms(2)
    by (auto simp: graphOK_def graphRefs_def participantReferencesOK_def has_keys
        intro: participantsOK_snoc)
qed (use assms in simp)

lemma insertParticipants_OK:
  "insertParticipants account i ps s = Inr t \<Longrightarrow> graphOK J s \<Longrightarrow> graphOK J t"
  by (induction ps arbitrary: s) (auto split: if_splits sum.splits dest: insertParticipantRow_OK)

lemma replaceConversationParticipants_OK:
  assumes "replaceConversationParticipants i ps s = Inr t" and "graphOK J s"
  shows "graphOK J t"
proof -
  from assms(1) obtain account where "insertParticipants account i ps
      (s\<lparr>participants := filter (\<lambda>r. cpConversationID r \<noteq> i) (participants s)\<rparr>) = Inr t"
    by (auto simp: replaceConversationParticipants_def split: option.splits)
  moreover have "graphOK J (s\<lparr>participants := filter (\<lambda>r. cpConversationID r \<noteq> i) (participants s)\<rparr>)"
    using assms(2) by (auto simp: graphOK_def graphRefs_def participantsOK_def distinct_map_filter_key)
  ultimately show ?thesis by (rule insertParticipants_OK)
qed

lemma ensureConversationParticipant_OK:
  "ensureConversationParticipant p s = Inr (b, t) \<Longrightarrow> graphOK J s \<Longrightarrow> graphOK J t"
  by (auto simp: ensureConversationParticipant_def Let_def split: if_splits option.splits sum.splits
      dest: insertParticipantRow_OK)

lemma setRemoteID_OK:
  assumes "setRemoteID a c remoteID n s = Inr (k, t)" and "graphOK J s" and "nonblank remoteID"
  shows "graphOK J t"
proof -
  let ?target = "\<lambda>r. cvAccountID r = a \<and> cvConversationID r = c"
  let ?f = "\<lambda>r. r\<lparr>cvRemoteConversationID := remoteID, cvUpdatedAtMS := max (cvUpdatedAtMS r) n\<rparr>"
  from assms(1) have t: "t = s\<lparr>conversations := sqlUpdate ?target ?f (conversations s)\<rparr>"
    and free: "sqlExists ?target (conversations s) \<Longrightarrow>
      \<not> sqlExists (\<lambda>r. conversationKeyOf r = (a, remoteID) \<and> \<not> ?target r) (conversations s)"
    by (auto simp: setRemoteID_def Let_def split: if_splits)
  have convs: "distinct (map cvConversationID (conversations s))"
      "distinct (map conversationKeyOf (conversations s))"
      "\<forall>r \<in> set (conversations s). conversationRowOK J r"
    using assms(2) by (simp_all add: graphOK_def conversationsOK_def)
  have "distinct (map conversationKeyOf (sqlUpdate ?target ?f (conversations s)))"
  proof -
    let ?k = "\<lambda>r. conversationKeyOf (if ?target r then ?f r else r)"
    have "inj_on ?k (set (conversations s))"
    proof (rule inj_onI)
      fix x y assume xy: "x \<in> set (conversations s)" "y \<in> set (conversations s)" "?k x = ?k y"
      consider "?target x" "?target y" | "?target x" "\<not> ?target y" | "\<not> ?target x" "?target y"
        | "\<not> ?target x" "\<not> ?target y" by blast
      then show "x = y"
      proof cases
        case 1 then show ?thesis using xy convs(1) by (auto intro: distinct_key_inj)
      next
        case 2 with xy free show ?thesis by (auto simp: sqlExists_iff)
      next
        case 3 with xy free show ?thesis by (auto simp: sqlExists_iff)
      next
        case 4
        with xy(3) have "conversationKeyOf x = conversationKeyOf y" by auto
        with xy(1,2) convs(2) show ?thesis by (intro distinct_key_inj [of conversationKeyOf])
      qed
    qed
    moreover have "distinct (conversations s)" using convs(1) by (simp add: distinct_map)
    ultimately show ?thesis by (simp add: sqlUpdate_def distinct_map comp_def)
  qed
  then have "conversationsOK J (sqlUpdate ?target ?f (conversations s))"
    using convs assms(3) unfolding conversationsOK_def
    by (simp add: ball_sqlUpdate map_sqlUpdate_on conversationRowOK_def)
      (metis max.coboundedI1)
  then show ?thesis unfolding t using assms(2) by (intro conversations_update_OK) auto
qed

lemma nonblank_trimSpace: "trimSpace r \<noteq> '''' \<Longrightarrow> nonblank (trimSpace r)"
  by (rule nonblank_sqlTrim) simp

lemma nonblank_displaced: "nonblank (displacedRemoteID r c)"
  by (simp add: displacedRemoteID_def sqlTrim_eq_Nil)

lemma reassignConversationRemoteID_OK:
  assumes "reassignConversationRemoteID a r c n s = Inr t" and "graphOK J s"
  shows "graphOK J t"
  using assms
  by (auto simp: reassignConversationRemoteID_def Let_def failWith_def nonblank_displaced
      intro: setRemoteID_OK [OF _ _ nonblank_trimSpace] setRemoteID_OK [OF _ _ nonblank_displaced]
      split: if_splits option.splits sum.splits prod.splits)

lemma displaceConversationRemoteID_OK:
  "displaceConversationRemoteID a r n s = Inr (b, t) \<Longrightarrow> graphOK J s \<Longrightarrow> graphOK J t"
  by (auto simp: displaceConversationRemoteID_def Let_def failWith_def
      intro: setRemoteID_OK [OF _ _ nonblank_displaced]
      split: if_splits option.splits sum.splits prod.splits)

section \<open>Histories\<close>

datatype graph_op =
    UpsertAccount account
  | UpsertDevice device
  | UpsertIdentity identity
  | UpsertConversation conversation
  | SetFavorite gotime string bool
  | SetMode gotime string string
  | BumpRecency string int
  | ReplaceParticipants string "participant list"
  | EnsureParticipant participant
  | Reassign string string string int
  | Displace string string int

fun applyGraph :: "(string \<Rightarrow> bool) \<Rightarrow> graph_op \<Rightarrow> store \<Rightarrow> store_error + store" where
  "applyGraph J (UpsertAccount a) s = upsertAccount J a s"
| "applyGraph J (UpsertDevice d) s = upsertDevice d s"
| "applyGraph J (UpsertIdentity i) s = upsertIdentity J i s"
| "applyGraph J (UpsertConversation c) s = upsertConversation J c s"
| "applyGraph J (SetFavorite t i b) s = setConversationFavorite t i b s"
| "applyGraph J (SetMode t i m) s = setConversationNotificationMode t i m s"
| "applyGraph J (BumpRecency i n) s = bumpConversationRecency i n s"
| "applyGraph J (ReplaceParticipants i ps) s = replaceConversationParticipants i ps s"
| "applyGraph J (EnsureParticipant p) s =
     (case ensureConversationParticipant p s of Inl e \<Rightarrow> Inl e | Inr (b, t) \<Rightarrow> Inr t)"
| "applyGraph J (Reassign a r c n) s = reassignConversationRemoteID a r c n s"
| "applyGraph J (Displace a r n) s =
     (case displaceConversationRemoteID a r n s of Inl e \<Rightarrow> Inl e | Inr (b, t) \<Rightarrow> Inr t)"

lemma applyGraph_OK: "applyGraph J op s = Inr t \<Longrightarrow> graphOK J s \<Longrightarrow> graphOK J t"
  by (cases op) (auto split: sum.splits
      dest: upsertAccount_OK upsertDevice_OK upsertIdentity_OK upsertConversation_OK
        setConversationFavorite_OK setConversationNotificationMode_OK bumpConversationRecency_OK
        replaceConversationParticipants_OK ensureConversationParticipant_OK
        reassignConversationRemoteID_OK displaceConversationRemoteID_OK)

text \<open>A write of another repository leaves the tables of the graph alone.\<close>

definition graphTables ::
  "store \<Rightarrow> account list \<times> device list \<times> identity list \<times> conversation list \<times> participant list" where
  "graphTables s = (accounts s, devices s, identities s, conversations s, participants s)"

inductive graphStep :: "(string \<Rightarrow> bool) \<Rightarrow> store \<Rightarrow> store \<Rightarrow> bool" for J where
  graph_write: "applyGraph J op s = Inr t \<Longrightarrow> graphStep J s t"
| other_write: "graphTables t = graphTables s \<Longrightarrow> graphStep J s t"

lemma graphOK_tables: "graphTables t = graphTables s \<Longrightarrow> graphOK J t = graphOK J s"
  by (simp add: graphTables_def graphOK_def graphRefs_def)

definition graphStart :: "store \<Rightarrow> bool" where
  "graphStart s \<longleftrightarrow> graphTables s = ([], [], [], [], [])"

interpretation graph: machine graphStart "graphStep J" "graphOK J" for J
proof
  fix s assume "graphStart s"
  then show "graphOK J s"
    by (simp add: graphStart_def graphTables_def graphOK_def graphRefs_def accountsOK_def
        devicesOK_def oneCurrent_def identitiesOK_def conversationsOK_def participantsOK_def)
next
  fix s t assume "graphStep J s t" and "graphOK J s"
  then show "graphOK J t"
    by cases (blast intro: applyGraph_OK, metis graphOK_tables)
qed

end
