(* ===== verification/Graph_Correct.thy ===== *)
theory Graph_Correct
  imports Graph_Safety
begin

text \<open>
  What the identity graph promises: well-formed stores, upserts that are found again, remote
  conversation IDs that move as a whole, and a search by name that takes the query literally.
\<close>

section \<open>Well-formed graphs\<close>

text \<open>
  C6: The identity graph is well typed. In every store that the repository operations can build
  from an empty database, keys are unique, every row satisfies its constraints, an account has
  at most one current device of this installation, and a participant joins a conversation and
  an identity of its own account.
\<close>

theorem graph_well_formed:
  assumes "graphStart s" and "(graphStep J)\<^sup>*\<^sup>* s t"
  shows "distinct (map acAccountID (accounts t)) \<and> distinct (map identityKeyOf (identities t)) \<and>
    distinct (map conversationKeyOf (conversations t)) \<and>
    distinct (map participantKeyOf (participants t)) \<and>
    (\<forall>d \<in> set (devices t). \<forall>e \<in> set (devices t).
       currentLocal d \<and> currentLocal e \<and> dvAccountID d = dvAccountID e \<longrightarrow> d = e) \<and>
    (\<forall>c \<in> set (conversations t). conversationRowOK J c \<and> hasAccount (cvAccountID c) t) \<and>
    (\<forall>i \<in> set (identities t). identityRowOK J i \<and> hasAccount (idAccountID i) t) \<and>
    (\<forall>p \<in> set (participants t). participantRowOK p \<and>
       hasConversation (cpAccountID p) (cpConversationID p) t \<and>
       hasIdentity (cpAccountID p) (cpIdentityID p) t)"
proof -
  have ok: "graphOK J t" using assms by (rule graph.reachable_inv)
  then have tables: "accountsOK J (accounts t)" "devicesOK (devices t)" "identitiesOK J (identities t)"
    "conversationsOK J (conversations t)" "participantsOK (participants t)" and refs: "graphRefs t"
    by (simp_all add: graphOK_def)
  have "d = e" if "d \<in> set (devices t)" "e \<in> set (devices t)" "currentLocal d" "currentLocal e"
    "dvAccountID d = dvAccountID e" for d e
    using tables(2) that unfolding devicesOK_def oneCurrent_def by (metis distinct_key_inj)
  moreover have "hasAccount (cvAccountID c) t" if "c \<in> set (conversations t)" for c
    using refs that by (auto simp: graphRefs_def hasAccount_keys)
  moreover have "hasAccount (idAccountID i) t" if "i \<in> set (identities t)" for i
    using refs that by (auto simp: graphRefs_def hasAccount_keys)
  moreover have "hasConversation (cpAccountID p) (cpConversationID p) t"
    if "p \<in> set (participants t)" for p
    using refs that by (auto simp: graphRefs_def hasConversation_keys)
  moreover have "hasIdentity (cpAccountID p) (cpIdentityID p) t" if "p \<in> set (participants t)" for p
    using refs that by (auto simp: graphRefs_def hasIdentity_keys)
  ultimately show ?thesis
    using tables unfolding accountsOK_def identitiesOK_def conversationsOK_def participantsOK_def by blast
qed

definition graphAccount :: account where
  "graphAccount = \<lparr>acAccountID = ''a1'', acBridgeKey = ''signal'', acRemoteAccountID = None,
     acDisplayName = '''', acMode = ''live'', acEnabled = True, acConfigJSON = ''{}'',
     acCreatedAtMS = 1, acUpdatedAtMS = 1\<rparr>"

definition graphIdentity :: "string \<Rightarrow> string \<Rightarrow> identity" where
  "graphIdentity i v = \<lparr>idIdentityID = i, idAccountID = ''a1'', idKind = ''phone'',
     idCanonicalValue = v, idRawValue = v, idDisplayName = '''', idIsSelf = False,
     idMetadataJSON = ''{}'', idCreatedAtMS = 1, idUpdatedAtMS = 1\<rparr>"

definition graphConversation :: "string \<Rightarrow> string \<Rightarrow> conversation" where
  "graphConversation c r = \<lparr>cvConversationID = c, cvAccountID = ''a1'',
     cvRemoteConversationID = r, cvKind = ''direct'', cvTitle = ''Ann'', cvRemoteRevision = None,
     cvNotificationMode = ''all'', cvIsFavorite = False, cvArchivedAtMS = None,
     cvLastMessageAtMS = 0, cvMetadataJSON = ''{}'', cvCreatedAtMS = 1, cvUpdatedAtMS = 1\<rparr>"

definition graphOps :: "graph_op list" where
  "graphOps = [UpsertAccount graphAccount, UpsertIdentity (graphIdentity ''i1'' ''+1555''),
     UpsertConversation (graphConversation ''c1'' ''thread-1''),
     UpsertConversation (graphConversation ''c2'' ''thread-2'')]"

fun graphRun :: "(string \<Rightarrow> bool) \<Rightarrow> graph_op list \<Rightarrow> store \<Rightarrow> store_error + store" where
  "graphRun J [] s = Inr s"
| "graphRun J (op # ops) s = thenDo (applyGraph J op s) (graphRun J ops)"

lemma graphRun_steps: "graphRun J ops s = Inr t \<Longrightarrow> (graphStep J)\<^sup>*\<^sup>* s t"
proof (induction ops arbitrary: s)
  case (Cons op ops)
  then show ?case
    by (auto simp: thenDo_Inr intro: converse_rtranclp_into_rtranclp graphStep.graph_write)
qed simp

abbreviation anyJSON :: "string \<Rightarrow> bool" where
  "anyJSON \<equiv> \<lambda>_. True"

definition demoGraph :: store where
  "demoGraph = emptyStore\<lparr>accounts := [graphAccount], identities := [graphIdentity ''i1'' ''+1555''],
     conversations := [graphConversation ''c1'' ''thread-1'', graphConversation ''c2'' ''thread-2'']\<rparr>"

lemma demoGraph_run: "graphRun anyJSON graphOps emptyStore = Inr demoGraph"
  by code_simp

lemma demoGraph_start: "graphStart emptyStore"
  by (simp add: graphStart_def graphTables_def emptyStore_def)

lemma graph_well_formed_witness:
  "graphRun anyJSON graphOps emptyStore = Inr demoGraph \<and>
   distinct (map conversationKeyOf (conversations demoGraph))"
  using graph_well_formed [OF demoGraph_start graphRun_steps [OF demoGraph_run]] demoGraph_run by blast

lemma demoGraph_OK: "graphOK anyJSON demoGraph"
  using graph.reachable_inv [OF demoGraph_start graphRun_steps [OF demoGraph_run]] .

section \<open>Upserted identities\<close>

lemma getIdentityByCanonical_key:
  "getIdentityByCanonical a k v s =
   (case sqlFind (\<lambda>r. identityKeyOf r = (a, k, v)) (identities s) of None \<Rightarrow> Inl notFound | Some r \<Rightarrow> Inr r)"
  by (simp add: getIdentityByCanonical_def)

text \<open>What an upsert of an identity is expected to leave: the old ID and creation time.\<close>

definition keptIdentity :: "identity \<Rightarrow> store \<Rightarrow> identity" where
  "keptIdentity i s =
     (case getIdentityByCanonical (idAccountID i) (idKind i) (idCanonicalValue i) s of
        Inl e \<Rightarrow> i
      | Inr old \<Rightarrow> i\<lparr>idIdentityID := idIdentityID old, idCreatedAtMS := idCreatedAtMS old\<rparr>)"

lemma upsertIdentity_get:
  assumes "upsertIdentity J i s = Inr t"
  shows "getIdentityByCanonical a k v t =
    (if (a, k, v) = identityKeyOf i then Inr (keptIdentity i s) else getIdentityByCanonical a k v s)"
proof (cases "sqlFind (\<lambda>r. identityKeyOf r = identityKeyOf i) (identities s)")
  case None
  then have "t = s\<lparr>identities := identities s @ [i]\<rparr>"
    using assms by (auto simp: upsertIdentity_def Let_def split: if_splits)
  moreover have "keptIdentity i s = i"
    using None by (simp add: keptIdentity_def getIdentityByCanonical_key del: prod.inject)
  ultimately show ?thesis
    using None by (auto simp: getIdentityByCanonical_key sqlFind_snoc_other sqlFind_None sqlFind_snoc
        simp del: prod.inject)
next
  case (Some old)
  then have t: "t = s\<lparr>identities :=
      sqlUpdate (\<lambda>r. identityKeyOf r = identityKeyOf i) (mergeIdentity i) (identities s)\<rparr>"
    using assms by (auto simp: upsertIdentity_def Let_def split: if_splits)
  have key: "identityKeyOf (mergeIdentity i r) = identityKeyOf r" for r
    by (simp add: mergeIdentity_def)
  show ?thesis
  proof (cases "(a, k, v) = identityKeyOf i")
    case True
    have "identityKeyOf old = identityKeyOf i" using Some by (auto dest: sqlFind_Some)
    then have "mergeIdentity i old = keptIdentity i s"
      using Some by (simp add: keptIdentity_def getIdentityByCanonical_key mergeIdentity_def)
    moreover have "sqlFind (\<lambda>r. identityKeyOf r = identityKeyOf i) (identities t) = Some (mergeIdentity i old)"
      using sqlFind_sqlUpdate [OF Some, of "mergeIdentity i"] \<open>identityKeyOf old = identityKeyOf i\<close> key
      unfolding t by simp
    ultimately show ?thesis using True by (simp add: getIdentityByCanonical_key)
  next
    case False
    then have "sqlFind (\<lambda>r. identityKeyOf r = (a, k, v)) (identities t) =
        sqlFind (\<lambda>r. identityKeyOf r = (a, k, v)) (identities s)"
      unfolding t using key by (simp del: prod.inject) (rule sqlFind_update_other, auto)
    with False show ?thesis by (simp add: getIdentityByCanonical_key del: prod.inject)
  qed
qed


text \<open>
  An identity that was stored is the identity that is found. After an upsert has succeeded,
  looking up the account, kind and canonical value gives the row that was written, under the ID
  and creation time of the row it replaced if there was one; every other key gives what it gave.
\<close>

theorem identity_upsert_roundtrip:
  assumes "upsertIdentity J i s = Inr t"
  shows "getIdentityByCanonical a k v t =
    (if (a, k, v) = identityKeyOf i then Inr (keptIdentity i s) else getIdentityByCanonical a k v s)"
  using assms by (rule upsertIdentity_get)

lemma identity_upsert_roundtrip_witness:
  "\<exists>t. upsertIdentity anyJSON (graphIdentity ''i9'' ''+1555'') demoGraph = Inr t \<and>
     getIdentityByCanonical ''a1'' ''phone'' ''+1555'' t = Inr (graphIdentity ''i1'' ''+1555'')"
proof -
  have "\<not> isl (upsertIdentity anyJSON (graphIdentity ''i9'' ''+1555'') demoGraph)" by code_simp
  then obtain t where t: "upsertIdentity anyJSON (graphIdentity ''i9'' ''+1555'') demoGraph = Inr t"
    by (metis isl_def sum.exhaust)
  have "keptIdentity (graphIdentity ''i9'' ''+1555'') demoGraph = graphIdentity ''i1'' ''+1555''"
    by code_simp
  then show ?thesis
    using t identity_upsert_roundtrip [OF t, of "''a1''" "''phone''" "''+1555''"]
    by (simp add: graphIdentity_def)
qed

section \<open>Rebinding\<close>

lemma setRemoteID_Inr:
  "setRemoteID a c r n s = Inr (k, t) \<Longrightarrow>
   t = s\<lparr>conversations := sqlUpdate (\<lambda>x. cvAccountID x = a \<and> cvConversationID x = c)
     (\<lambda>x. x\<lparr>cvRemoteConversationID := r, cvUpdatedAtMS := max (cvUpdatedAtMS x) n\<rparr>) (conversations s)\<rparr> \<and>
   k = sqlCount (\<lambda>x. cvAccountID x = a \<and> cvConversationID x = c) (conversations s)"
  by (auto simp: setRemoteID_def Let_def split: if_splits)

lemma holderOf_Some:
  "holderOf a r s = Some x \<Longrightarrow> x \<in> set (conversations s) \<and> cvAccountID x = a \<and> cvRemoteConversationID x = r"
  by (auto simp: holderOf_def dest: sqlFind_Some)

lemma holderOf_eq:
  "graphOK J s \<Longrightarrow> x \<in> set (conversations s) \<Longrightarrow> cvAccountID x = a \<Longrightarrow> cvRemoteConversationID x = r \<Longrightarrow>
   holderOf a r s = Some x"
  unfolding holderOf_def by (rule sqlFind_key) (auto simp: graphOK_def conversationsOK_def)

text \<open>What rebinding may change of a conversation: its remote ID and the time of its last update.\<close>

definition unbound :: "conversation \<Rightarrow> conversation" where
  "unbound c = c\<lparr>cvRemoteConversationID := '''', cvUpdatedAtMS := 0\<rparr>"

lemma setRemoteID_unbound:
  "setRemoteID a c r n s = Inr (k, t) \<Longrightarrow> map unbound (conversations t) = map unbound (conversations s)"
  by (auto dest!: setRemoteID_Inr simp: map_sqlUpdate_on unbound_def)

lemma reassign_cases:
  assumes "reassignConversationRemoteID a r c n s = Inr t"
  obtains (kept) h where "holderOf a (trimSpace r) s = Some h" and "cvConversationID h = c" and "t = s"
  | (free) k where "holderOf a (trimSpace r) s = None"
      and "setRemoteID a c (trimSpace r) n s = Inr (k, t)" and "k = 1"
  | (moved) h s1 k j where "holderOf a (trimSpace r) s = Some h" and "cvConversationID h \<noteq> c"
      and "setRemoteID a (cvConversationID h) (displacedRemoteID (trimSpace r) (cvConversationID h)) n s
           = Inr (j, s1)"
      and "setRemoteID a c (trimSpace r) n s1 = Inr (k, t)" and "k = 1"
  using assms
  by (auto simp: reassignConversationRemoteID_def Let_def failWith_def
      split: if_splits option.splits sum.splits prod.splits)

lemma setRemoteID_target:
  assumes "setRemoteID a c r n s = Inr (1, t)"
  shows "\<exists>x \<in> set (conversations t). cvAccountID x = a \<and> cvConversationID x = c \<and> cvRemoteConversationID x = r"
proof -
  have "sqlCount (\<lambda>x. cvAccountID x = a \<and> cvConversationID x = c) (conversations s) \<noteq> 0"
    using assms by (auto dest: setRemoteID_Inr)
  then obtain x where "x \<in> set (conversations s)" "cvAccountID x = a" "cvConversationID x = c"
    by (auto simp: sqlCount_0 sqlExists_iff)
  then have "x\<lparr>cvRemoteConversationID := r, cvUpdatedAtMS := max (cvUpdatedAtMS x) n\<rparr> \<in> set (conversations t)"
    using setRemoteID_Inr [OF assms] by (auto simp: sqlUpdate_def image_iff intro!: bexI [of _ x])
  then show ?thesis
    by (rule bexI [rotated]) (simp add: \<open>cvAccountID x = a\<close> \<open>cvConversationID x = c\<close>)
qed

lemma setRemoteID_others:
  "setRemoteID a c r n s = Inr (k, t) \<Longrightarrow> x \<in> set (conversations s) \<Longrightarrow> cvConversationID x \<noteq> c \<Longrightarrow>
   x \<in> set (conversations t)"
  by (auto dest!: setRemoteID_Inr simp: sqlUpdate_def image_iff intro!: bexI [of _ x])

lemma setRemoteID_moved:
  assumes "setRemoteID a c r n s = Inr (k, t)" and "x \<in> set (conversations s)"
    and "cvAccountID x = a" and "cvConversationID x = c"
  shows "\<exists>y \<in> set (conversations t). cvConversationID y = c \<and> cvRemoteConversationID y = r"
proof (rule bexI)
  show "x\<lparr>cvRemoteConversationID := r, cvUpdatedAtMS := max (cvUpdatedAtMS x) n\<rparr> \<in> set (conversations t)"
    using setRemoteID_Inr [OF assms(1)] assms(2-)
    by (auto simp: sqlUpdate_def image_iff intro!: bexI [of _ x])
qed (use assms(4) in simp)

text \<open>
  C11: A remote conversation ID moves as a whole. After \<open>ReassignConversationRemoteID\<close> has
  succeeded, the ID names the target thread and no other; a former holder keeps all of its row
  under the displaced marker; nothing but remote IDs and update times has changed, and no other
  row at all.
\<close>

theorem reassign_moves_binding:
  assumes "graphOK J s" and "reassignConversationRemoteID a r c n s = Inr t"
  shows "(\<exists>x. holderOf a (trimSpace r) t = Some x \<and> cvConversationID x = c) \<and>
    map unbound (conversations t) = map unbound (conversations s) \<and>
    (\<forall>h. holderOf a (trimSpace r) s = Some h \<longrightarrow> cvConversationID h \<noteq> c \<longrightarrow>
      (\<exists>x \<in> set (conversations t). cvConversationID x = cvConversationID h \<and>
         cvRemoteConversationID x = displacedRemoteID (trimSpace r) (cvConversationID h))) \<and>
    (\<forall>x \<in> set (conversations s). cvConversationID x \<noteq> c \<longrightarrow> holderOf a (trimSpace r) s \<noteq> Some x \<longrightarrow>
      x \<in> set (conversations t))"
proof -
  have t: "graphOK J t" using assms(2,1) by (rule reassignConversationRemoteID_OK)
  have keys: "distinct (map cvConversationID (conversations s))"
    using assms(1) by (simp add: graphOK_def conversationsOK_def)
  show ?thesis
    using assms(2)
  proof (cases rule: reassign_cases)
    case kept
    then show ?thesis by auto
  next
    case (free k)
    with setRemoteID_target [of a c "trimSpace r" n s t] holderOf_eq [OF t] show ?thesis
      by (auto simp: setRemoteID_unbound setRemoteID_others)
  next
    case (moved h s1 k j)
    have h: "h \<in> set (conversations s)" "cvAccountID h = a" using moved(1) by (auto dest: holderOf_Some)
    have "map unbound (conversations t) = map unbound (conversations s)"
      using setRemoteID_unbound moved(3,4) by metis
    moreover have "\<exists>x. holderOf a (trimSpace r) t = Some x \<and> cvConversationID x = c"
      using setRemoteID_target [of a c "trimSpace r" n s1 t] moved(4,5) holderOf_eq [OF t] by auto
    moreover have "\<exists>x \<in> set (conversations t). cvConversationID x = cvConversationID h \<and>
         cvRemoteConversationID x = displacedRemoteID (trimSpace r) (cvConversationID h)"
      using setRemoteID_moved [OF moved(3) h] setRemoteID_others [OF moved(4)] moved(2) by metis
    moreover have "x \<in> set (conversations t)"
      if "x \<in> set (conversations s)" "cvConversationID x \<noteq> c" "h \<noteq> x" for x
      using that h keys setRemoteID_others [OF moved(3), of x] setRemoteID_others [OF moved(4), of x]
      by (metis distinct_key_inj)
    ultimately show ?thesis using moved(1) by auto
  qed
qed

lemma reassign_moves_binding_witness:
  "\<exists>t. reassignConversationRemoteID ''a1'' ''thread-1'' ''c2'' 9 demoGraph = Inr t \<and>
     (\<exists>x. holderOf ''a1'' ''thread-1'' t = Some x \<and> cvConversationID x = ''c2'')"
proof -
  have "\<not> isl (reassignConversationRemoteID ''a1'' ''thread-1'' ''c2'' 9 demoGraph)" by code_simp
  then obtain t where t: "reassignConversationRemoteID ''a1'' ''thread-1'' ''c2'' 9 demoGraph = Inr t"
    by (metis isl_def sum.exhaust)
  have "trimSpace ''thread-1'' = ''thread-1''" by code_simp
  with t reassign_moves_binding [OF demoGraph_OK t] show ?thesis by auto
qed

section \<open>Search by name\<close>

lemma suffixesOf_ex: "list_ex P (suffixesOf s) \<longleftrightarrow> (\<exists>u v. s = u @ v \<and> P v)"
proof (induction s)
  case (Cons x s)
  have "(\<exists>u v. x # s = u @ v \<and> P v) \<longleftrightarrow> P (x # s) \<or> (\<exists>u v. s = u @ v \<and> P v)"
    by (metis append_Cons append_eq_Cons_conv append_Nil)
  with Cons show ?case by simp
qed simp

lemma byte_92: "byte 92 \<noteq> CHR ''%''" "byte 92 \<noteq> CHR ''_''"
  by (simp_all add: byte_def char_of_def)

lemma sqlLikeEscape_percent: "sqlLikeEscape ''%'' s"
  by (simp add: byte_92 [symmetric] suffixesOf_ex)

lemma sqlLikeEscape_escaped:
  "sqlLikeEscape (escapeLikePattern q @ ''%'') s \<longleftrightarrow>
   (\<exists>v w. s = v @ w \<and> map asciiLower v = map asciiLower q)"
proof (induction q arbitrary: s)
  case (Cons c q)
  show ?case
  proof (cases s)
    case (Cons d ds)
    have "sqlLikeEscape (escapeLikePattern (c # q) @ ''%'') (d # ds) \<longleftrightarrow>
        asciiLower c = asciiLower d \<and> sqlLikeEscape (escapeLikePattern q @ ''%'') ds"
      by simp
    also have "\<dots> \<longleftrightarrow> (\<exists>v w. d # ds = v @ w \<and> map asciiLower v = map asciiLower (c # q))"
    proof
      assume *: "asciiLower c = asciiLower d \<and> sqlLikeEscape (escapeLikePattern q @ ''%'') ds"
      then obtain v w where "ds = v @ w" "map asciiLower v = map asciiLower q"
        using Cons.IH by blast
      with * have "d # ds = (d # v) @ w \<and> map asciiLower (d # v) = map asciiLower (c # q)" by simp
      then show "\<exists>v w. d # ds = v @ w \<and> map asciiLower v = map asciiLower (c # q)" by blast
    next
      assume "\<exists>v w. d # ds = v @ w \<and> map asciiLower v = map asciiLower (c # q)"
      then obtain v w where v: "d # ds = v @ w" "map asciiLower v = map asciiLower (c # q)" by blast
      then obtain v' where "v = d # v'" by (cases v) auto
      with v Cons.IH show "asciiLower c = asciiLower d \<and> sqlLikeEscape (escapeLikePattern q @ ''%'') ds"
        by auto
    qed
    finally show ?thesis using Cons by simp
  qed simp
qed (simp add: sqlLikeEscape_percent del: sqlLikeEscape.simps)

text \<open>
  C24: The search for a conversation by name is a literal search. The escaped \<open>LIKE\<close> pattern that
  the query builds accepts a title exactly when it contains the query as it was typed, up to the
  case of ASCII letters: a percent sign, an underscore or a backslash of the query is only itself.
\<close>

theorem like_is_substring:
  "sqlLikeEscape (''%'' @ escapeLikePattern q @ ''%'') s \<longleftrightarrow>
   (\<exists>u v w. s = u @ v @ w \<and> map asciiLower v = map asciiLower q)"
  using sqlLikeEscape_escaped [of q] byte_92
  by (simp add: suffixesOf_ex) (metis append.assoc)

end
