(* ===== verification/Reactions.thy ===== *)
theory Reactions
  imports Identity_Graph
begin

text \<open>
  The inbound reactions of \<open>internal/storage/sqlite/reactions.go\<close>: one row per message and
  reactor, deltas ordered by their occurrence time, embedded snapshots ordered by the sequence
  of their source frame, seeds of a migration, and the read of a batch of messages.
\<close>

section \<open>Rows\<close>

record reaction_apply =
  raAccountID :: string
  raConversationID :: string
  raMessageID :: string
  raReactorKey :: string
  raReactorIdentityID :: "string option"
  raReactorIsSelf :: bool
  raReactorLabel :: string
  raEmoji :: string
  raAction :: string
  raOccurredAtMS :: int
  raSourceSeqMS :: int

record snapshot_entry =
  seReactorKey :: string
  seReactorIdentityID :: "string option"
  seReactorIsSelf :: bool
  seReactorLabel :: string
  seEmoji :: string

record reaction_row =
  rwMessageID :: string
  rwEmoji :: string
  rwReactorIsSelf :: bool
  rwReactorCanonical :: string
  rwReactorLabel :: string
  rwOccurredAtMS :: int

text \<open>Migration 0010.\<close>

definition reactionRowOK :: "reaction \<Rightarrow> bool" where
  "reactionRowOK r \<longleftrightarrow> nonblank (reReactorKey r) \<and> (reActive r \<longrightarrow> nonblank (reEmoji r)) \<and>
     sqlLength (reEmoji r) \<le> 64 \<and> 0 < reOccurredAtMS r \<and> 0 < reCreatedAtMS r \<and>
     reCreatedAtMS r \<le> reUpdatedAtMS r"

definition reactorExists :: "reaction \<Rightarrow> store \<Rightarrow> bool" where
  "reactorExists r s \<longleftrightarrow>
     nullOr (\<lambda>i. sqlExists (\<lambda>x. idIdentityID x = i) (identities s)) (reReactorIdentityID r)"

definition reactionReferencesOK :: "reaction \<Rightarrow> store \<Rightarrow> bool" where
  "reactionReferencesOK r s \<longleftrightarrow> hasMessage (reMessageID r) s \<and>
     hasConversation (reAccountID r) (reConversationID r) s \<and> reactorExists r s"

abbreviation reactionKey :: "reaction \<Rightarrow> string \<times> string" where
  "reactionKey r \<equiv> (reMessageID r, reReactorKey r)"

text \<open>
  The upsert of a reaction: \<open>merge new old\<close> replaces the old row where \<open>replaces new old\<close> holds.
  The result counts the affected rows.
\<close>

definition upsertReactionRow ::
  "(reaction \<Rightarrow> reaction \<Rightarrow> bool) \<Rightarrow> (reaction \<Rightarrow> reaction \<Rightarrow> reaction) \<Rightarrow> reaction \<Rightarrow> store
     \<Rightarrow> sql_fault + (nat \<times> store)" where
  "upsertReactionRow replaces merge new s =
     (let same = (\<lambda>r. reactionKey r = reactionKey new) in
      if \<not> reactionRowOK new then Inl CheckFault
      else case sqlFind same (reactions s) of
        Some old \<Rightarrow>
          if \<not> replaces new old then Inr (0, s)
          else if \<not> reactionRowOK (merge new old) then Inl CheckFault
          else if \<not> reactorExists (merge new old) s then Inl ForeignKeyFault
          else Inr (1, s\<lparr>reactions := sqlUpdate same (merge new) (reactions s)\<rparr>)
      | None \<Rightarrow>
          if \<not> reactionReferencesOK new s then Inl ForeignKeyFault
          else Inr (1, s\<lparr>reactions := reactions s @ [new]\<rparr>))"

section \<open>Deltas\<close>

text \<open>A removal that comes before any add inserts a tombstone with an empty emoji.\<close>

definition deltaRow :: "reaction_apply \<Rightarrow> int \<Rightarrow> reaction" where
  "deltaRow a n = \<lparr>reMessageID = raMessageID a, reReactorKey = raReactorKey a,
     reAccountID = raAccountID a, reConversationID = raConversationID a,
     reReactorIdentityID = raReactorIdentityID a, reReactorIsSelf = raReactorIsSelf a,
     reReactorLabel = raReactorLabel a,
     reEmoji = (if raAction a = ''remove'' then '''' else raEmoji a),
     reActive = (raAction a \<noteq> ''remove''), reOccurredAtMS = raOccurredAtMS a,
     reSourceSeqMS = raSourceSeqMS a, reCreatedAtMS = n, reUpdatedAtMS = n\<rparr>"

definition deltaReplaces :: "reaction \<Rightarrow> reaction \<Rightarrow> bool" where
  "deltaReplaces new old \<longleftrightarrow> reOccurredAtMS old < reOccurredAtMS new \<or>
     reOccurredAtMS new = reOccurredAtMS old \<and>
     (reReactorIdentityID old \<noteq> reReactorIdentityID new \<or>
      reReactorIsSelf old \<noteq> reReactorIsSelf new \<or> reReactorLabel old \<noteq> reReactorLabel new \<or>
      reActive old \<noteq> reActive new \<or> reActive new \<and> reEmoji old \<noteq> reEmoji new \<or>
      reSourceSeqMS old \<noteq> reSourceSeqMS new)"

definition mergeDelta :: "reaction \<Rightarrow> reaction \<Rightarrow> reaction" where
  "mergeDelta new old = old\<lparr>reReactorIdentityID := reReactorIdentityID new,
     reReactorIsSelf := reReactorIsSelf new, reReactorLabel := reReactorLabel new,
     reEmoji := (if reActive new then reEmoji new else reEmoji old), reActive := reActive new,
     reOccurredAtMS := reOccurredAtMS new, reSourceSeqMS := reSourceSeqMS new,
     reUpdatedAtMS := reUpdatedAtMS new\<rparr>"

definition applyReaction ::
  "gotime \<Rightarrow> reaction_apply \<Rightarrow> store \<Rightarrow> store_error + (bool \<times> store)" where
  "applyReaction t a s =
     (if raAction a \<notin> {''add'', ''switch'', ''remove''} then failWith ''unsupported action''
      else thenDo (nowMS t) (\<lambda>n.
        case upsertReactionRow deltaReplaces mergeDelta (deltaRow a n) s of
          Inl f \<Rightarrow> Inl (mapConstraintError f)
        | Inr (affected, s1) \<Rightarrow> Inr (affected = 1, s1)))"

section \<open>Snapshots\<close>

definition snapshotRow ::
  "string \<Rightarrow> string \<Rightarrow> string \<Rightarrow> int \<Rightarrow> int \<Rightarrow> snapshot_entry \<Rightarrow> reaction" where
  "snapshotRow messageID accountID conversationID seq n e = \<lparr>reMessageID = messageID,
     reReactorKey = seReactorKey e, reAccountID = accountID, reConversationID = conversationID,
     reReactorIdentityID = seReactorIdentityID e, reReactorIsSelf = seReactorIsSelf e,
     reReactorLabel = seReactorLabel e, reEmoji = seEmoji e, reActive = True,
     reOccurredAtMS = n, reSourceSeqMS = seq, reCreatedAtMS = n, reUpdatedAtMS = n\<rparr>"

definition snapshotDiffers :: "reaction \<Rightarrow> reaction \<Rightarrow> bool" where
  "snapshotDiffers new old \<longleftrightarrow> reReactorIdentityID old \<noteq> reReactorIdentityID new \<or>
     reReactorIsSelf old \<noteq> reReactorIsSelf new \<or> reReactorLabel old \<noteq> reReactorLabel new \<or>
     reEmoji old \<noteq> reEmoji new \<or> \<not> reActive old"

definition snapshotReplaces :: "reaction \<Rightarrow> reaction \<Rightarrow> bool" where
  "snapshotReplaces new old \<longleftrightarrow> reSourceSeqMS old < reSourceSeqMS new \<or>
     reSourceSeqMS new = reSourceSeqMS old \<and> snapshotDiffers new old"

definition mergeSnapshot :: "reaction \<Rightarrow> reaction \<Rightarrow> reaction" where
  "mergeSnapshot new old = old\<lparr>reReactorIdentityID := reReactorIdentityID new,
     reReactorIsSelf := reReactorIsSelf new, reReactorLabel := reReactorLabel new,
     reEmoji := reEmoji new, reActive := True, reOccurredAtMS := reOccurredAtMS new,
     reSourceSeqMS := reSourceSeqMS new, reUpdatedAtMS := reUpdatedAtMS new\<rparr>"

text \<open>The entries in turn: how many changed what their reactor shows, and the store.\<close>

fun snapshotEach :: "(snapshot_entry \<Rightarrow> reaction) \<Rightarrow> snapshot_entry list \<Rightarrow> store
     \<Rightarrow> store_error + (nat \<times> store)" where
  "snapshotEach row [] s = Inr (0, s)"
| "snapshotEach row (e # es) s =
     (let new = row e;
          differs = (case sqlFind (\<lambda>r. reactionKey r = reactionKey new) (reactions s) of
            None \<Rightarrow> True | Some old \<Rightarrow> snapshotDiffers new old)
      in case upsertReactionRow snapshotReplaces mergeSnapshot new s of
           Inl f \<Rightarrow> Inl (mapConstraintError f)
         | Inr (affected, s1) \<Rightarrow>
             thenDo (snapshotEach row es s1) (\<lambda>(n, s2).
               Inr (if affected = 1 \<and> differs then Suc n else n, s2)))"

definition fenceOf :: "string \<Rightarrow> store \<Rightarrow> snapshot_fence option" where
  "fenceOf messageID s = sqlFind (\<lambda>f. sfMessageID f = messageID) (reactionSnapshotFences s)"

definition writeFence :: "snapshot_fence \<Rightarrow> store \<Rightarrow> sql_fault + store" where
  "writeFence f s =
     (let same = (\<lambda>x. sfMessageID x = sfMessageID f) in
      if \<not> (0 \<le> sfSourceSeqMS f \<and> 0 < sfUpdatedAtMS f) then Inl CheckFault
      else if sqlExists same (reactionSnapshotFences s) then
        Inr (s\<lparr>reactionSnapshotFences := sqlUpdate same (\<lambda>x. f) (reactionSnapshotFences s)\<rparr>)
      else if \<not> hasMessage (sfMessageID f) s then Inl ForeignKeyFault
      else Inr (s\<lparr>reactionSnapshotFences := reactionSnapshotFences s @ [f]\<rparr>))"

text \<open>The active reactors that the snapshot does not name become tombstones.\<close>

definition absent :: "string \<Rightarrow> snapshot_entry list \<Rightarrow> reaction \<Rightarrow> bool" where
  "absent messageID entries r \<longleftrightarrow> reMessageID r = messageID \<and> reActive r \<and>
     reReactorKey r \<notin> set (map seReactorKey entries)"

definition tombstone :: "int \<Rightarrow> int \<Rightarrow> reaction \<Rightarrow> reaction" where
  "tombstone seq n r =
     r\<lparr>reActive := False, reOccurredAtMS := n, reSourceSeqMS := seq, reUpdatedAtMS := n\<rparr>"

definition replaceEmbeddedReactions ::
  "gotime \<Rightarrow> string \<Rightarrow> string \<Rightarrow> string \<Rightarrow> snapshot_entry list \<Rightarrow> int \<Rightarrow> store
     \<Rightarrow> store_error + ((nat \<times> nat) \<times> store)" where
  "replaceEmbeddedReactions t messageID accountID conversationID entries seq s =
     (if (case fenceOf messageID s of None \<Rightarrow> False | Some f \<Rightarrow> seq < sfSourceSeqMS f)
      then Inr ((0, 0), s)
      else thenDo (nowMS t) (\<lambda>n.
        thenDo (snapshotEach (snapshotRow messageID accountID conversationID seq n) entries s)
          (\<lambda>(applied, s1).
        case updateChecked (absent messageID entries) (tombstone seq n) reactionRowOK (reactions s1) of
          Inl f \<Rightarrow> Inl (mapConstraintError f)
        | Inr rows \<Rightarrow>
            let removed = sqlCount (absent messageID entries) (reactions s1) in
            (case writeFence \<lparr>sfMessageID = messageID, sfSourceSeqMS = seq, sfUpdatedAtMS = n\<rparr>
                    (s1\<lparr>reactions := rows\<rparr>) of
               Inl f \<Rightarrow> Inl (mapConstraintError f)
             | Inr s2 \<Rightarrow> Inr ((applied, removed), s2)))))"

section \<open>Seeds and reads\<close>

definition seedRow :: "reaction_apply \<Rightarrow> int \<Rightarrow> reaction" where
  "seedRow a n = (deltaRow a n)\<lparr>reEmoji := raEmoji a, reActive := True, reSourceSeqMS := 0\<rparr>"

definition seedReaction :: "gotime \<Rightarrow> reaction_apply \<Rightarrow> store \<Rightarrow> store_error + store" where
  "seedReaction t a s =
     thenDo (nowMS t) (\<lambda>n.
       case upsertReactionRow (\<lambda>new old. False) (\<lambda>new old. old) (seedRow a n) s of
         Inl f \<Rightarrow> Inl (mapConstraintError f) | Inr (affected, s1) \<Rightarrow> Inr s1)"

fun seedEach :: "(nat \<Rightarrow> gotime) \<Rightarrow> nat \<Rightarrow> reaction_apply list \<Rightarrow> store \<Rightarrow> store_error + store" where
  "seedEach clock k [] s = Inr s"
| "seedEach clock k (a # as) s = thenDo (seedReaction (clock k) a s) (seedEach clock (Suc k) as)"

definition seedReactions ::
  "(nat \<Rightarrow> gotime) \<Rightarrow> reaction_apply list \<Rightarrow> store \<Rightarrow> store_error + (int \<times> store)" where
  "seedReactions clock as s =
     thenDo (seedEach clock 0 as s) (\<lambda>s1.
       Inr (int (length (reactions s1)) - int (length (reactions s)), s1))"

definition reactionRow :: "store \<Rightarrow> reaction \<Rightarrow> reaction_row" where
  "reactionRow s r = \<lparr>rwMessageID = reMessageID r, rwEmoji = reEmoji r,
     rwReactorIsSelf = reReactorIsSelf r,
     rwReactorCanonical =
       (case reReactorIdentityID r of None \<Rightarrow> ''''
        | Some i \<Rightarrow> (case sqlFind (\<lambda>x. idIdentityID x = i) (identities s) of
            None \<Rightarrow> '''' | Some x \<Rightarrow> idCanonicalValue x)),
     rwReactorLabel = reReactorLabel r, rwOccurredAtMS = reOccurredAtMS r\<rparr>"

text \<open>Go's map of slices: the rows of each message that was asked for, in query order.\<close>

definition reactionsForMessages :: "string list \<Rightarrow> store \<Rightarrow> string \<Rightarrow> reaction_row list" where
  "reactionsForMessages messageIDs s m =
     (if m \<in> set messageIDs then
        map (reactionRow s)
          (sort_key (\<lambda>r. (reOccurredAtMS r, reReactorKey r))
             (filter (\<lambda>r. reMessageID r = m \<and> reActive r) (reactions s)))
      else [])"

end
