(* ===== verification/Reactions_Correct.thy ===== *)
theory Reactions_Correct
  imports Reactions "HOL-Library.Multiset" "HOL-Library.List_Lexorder" "HOL-Library.Product_Lexorder"
begin

text \<open>
  What the reaction repository promises: deltas converge whatever the order of delivery, and an
  embedded snapshot decides who reacts until a newer one comes.
\<close>

section \<open>Deltas converge\<close>

text \<open>
  What a reaction row shows to a reader: everything but the emoji of a removed reaction, which
  is kept for audit only, and the bookkeeping times of the row.
\<close>

type_synonym shown = "bool \<times> string \<times> string option \<times> bool \<times> string \<times> int \<times> int"

definition shownBy :: "reaction \<Rightarrow> shown" where
  "shownBy r = (reActive r, if reActive r then reEmoji r else '''', reReactorIdentityID r,
     reReactorIsSelf r, reReactorLabel r, reOccurredAtMS r, reSourceSeqMS r)"

definition shownAt :: "string \<Rightarrow> string \<Rightarrow> store \<Rightarrow> shown option" where
  "shownAt m k s = map_option shownBy (sqlFind (\<lambda>r. reactionKey r = (m, k)) (reactions s))"

definition shownOf :: "reaction_apply \<Rightarrow> shown" where
  "shownOf a = shownBy (deltaRow a 0)"

definition occurred :: "shown \<Rightarrow> int" where
  "occurred v = fst (snd (snd (snd (snd (snd v)))))"

fun applyDeltas ::
  "(nat \<Rightarrow> gotime) \<Rightarrow> nat \<Rightarrow> reaction_apply list \<Rightarrow> store \<Rightarrow> store_error + store" where
  "applyDeltas clock j [] s = Inr s"
| "applyDeltas clock j (a # as) s =
     thenDo (applyReaction (clock j) a s) (\<lambda>(b, s1). applyDeltas clock (Suc j) as s1)"

lemma shownBy_deltaRow: "shownBy (deltaRow a n) = shownOf a"
  by (simp add: shownBy_def shownOf_def deltaRow_def)

lemma occurred_shownOf [simp]: "occurred (shownOf a) = raOccurredAtMS a"
  by (simp add: occurred_def shownOf_def shownBy_def deltaRow_def)

lemma occurred_shownBy: "occurred (shownBy r) = reOccurredAtMS r"
  by (simp add: occurred_def shownBy_def)

lemma shownBy_merge: "shownBy (mergeDelta new old) = shownBy new"
  by (simp add: shownBy_def mergeDelta_def)

lemma not_deltaReplaces:
  "\<not> deltaReplaces new old \<Longrightarrow> reOccurredAtMS new = reOccurredAtMS old \<Longrightarrow> shownBy new = shownBy old"
  by (auto simp: deltaReplaces_def shownBy_def)

text \<open>One delta: the later of what was shown and what the delta shows.\<close>

definition later :: "shown \<Rightarrow> shown option \<Rightarrow> shown option" where
  "later v old = (case old of None \<Rightarrow> Some v | Some w \<Rightarrow> if occurred v < occurred w then Some w else Some v)"

lemma sqlFind_other_key:
  "(m, k) \<noteq> reactionKey new \<Longrightarrow> (\<And>r. reactionKey (f r) = reactionKey r) \<Longrightarrow>
   sqlFind (\<lambda>r. reactionKey r = (m, k)) (sqlUpdate (\<lambda>r. reactionKey r = reactionKey new) f rows) =
   sqlFind (\<lambda>r. reactionKey r = (m, k)) rows"
  by (rule sqlFind_update_other) (auto simp del: prod.inject)

text \<open>The three ways an upsert succeeds.\<close>

lemma upsertReactionRow_cases:
  assumes "upsertReactionRow replaces merge new s = Inr (n, t)"
  obtains (insert) "sqlFind (\<lambda>r. reactionKey r = reactionKey new) (reactions s) = None"
      "t = s\<lparr>reactions := reactions s @ [new]\<rparr>"
  | (update) old where "sqlFind (\<lambda>r. reactionKey r = reactionKey new) (reactions s) = Some old"
      "replaces new old"
      "t = s\<lparr>reactions := sqlUpdate (\<lambda>r. reactionKey r = reactionKey new) (merge new) (reactions s)\<rparr>"
  | (keep) old where "sqlFind (\<lambda>r. reactionKey r = reactionKey new) (reactions s) = Some old"
      "\<not> replaces new old" "t = s"
proof (cases "sqlFind (\<lambda>r. reactionKey r = reactionKey new) (reactions s)")
  case None
  then show thesis
    using assms by (intro insert [OF None])
      (simp_all add: upsertReactionRow_def Let_def None split: if_split_asm)
next
  case (Some old)
  show thesis
  proof (cases "replaces new old")
    case True
    with Some show thesis
      using assms by (intro update [OF Some]) (simp_all add: upsertReactionRow_def Let_def split: if_split_asm)
  next
    case False
    with Some show thesis
      using assms by (intro keep [OF Some]) (simp_all add: upsertReactionRow_def Let_def split: if_split_asm)
  qed
qed

lemma upsertReactionRow_find:
  assumes "upsertReactionRow replaces merge new s = Inr (n, t)"
    and keys: "\<And>old. reactionKey (merge new old) = reactionKey old"
  shows "sqlFind (\<lambda>r. reactionKey r = key) (reactions t) =
    (if key = reactionKey new then
       (case sqlFind (\<lambda>r. reactionKey r = reactionKey new) (reactions s) of
          None \<Rightarrow> Some new
        | Some old \<Rightarrow> Some (if replaces new old then merge new old else old))
     else sqlFind (\<lambda>r. reactionKey r = key) (reactions s))"
  using assms(1)
proof (cases rule: upsertReactionRow_cases)
  case insert
  have "sqlFind (\<lambda>r. reactionKey r = key) (reactions s @ [new]) = Some new"
    if "key = reactionKey new"
    using insert that by (intro sqlFind_snoc) (simp_all add: sqlFind_None del: prod.inject)
  moreover have "sqlFind (\<lambda>r. reactionKey r = key) (reactions s @ [new]) =
      sqlFind (\<lambda>r. reactionKey r = key) (reactions s)" if "key \<noteq> reactionKey new"
    using that by (intro sqlFind_snoc_other) simp
  ultimately show ?thesis
    using insert by (cases "key = reactionKey new") (simp_all del: prod.inject)
next
  case (update old)
  have old: "reactionKey old = reactionKey new" using update(1) by (auto dest: sqlFind_Some)
  show ?thesis
  proof (cases "key = reactionKey new")
    case True
    with update old show ?thesis
      using sqlFind_sqlUpdate [OF update(1), of "merge new" "\<lambda>r. reactionKey r = reactionKey new"] keys
      by (simp del: prod.inject)
  next
    case False
    then show ?thesis
      using sqlFind_other_key [of "fst key" "snd key" new "merge new" "reactions s"] keys update
      by (simp del: prod.inject)
  qed
next
  case (keep old)
  then show ?thesis by (auto simp del: prod.inject)
qed

lemma applyReaction_upsert:
  assumes "applyReaction c a s = Inr (b, t)"
  obtains n j where "upsertReactionRow deltaReplaces mergeDelta (deltaRow a n) s = Inr (j, t)"
proof -
  from assms obtain n where "(case upsertReactionRow deltaReplaces mergeDelta (deltaRow a n) s of
      Inl f \<Rightarrow> Inl (mapConstraintError f) | Inr (affected, s1) \<Rightarrow> Inr (affected = 1, s1)) = Inr (b, t)"
    by (auto simp: applyReaction_def thenDo_Inr failWith_def simp del: One_nat_def split: if_splits)
  with that show thesis
    by (cases "upsertReactionRow deltaReplaces mergeDelta (deltaRow a n) s") auto
qed

lemma applyReaction_shown:
  assumes "applyReaction c a s = Inr (b, t)"
  shows "shownAt m k t = (if (m, k) = (raMessageID a, raReactorKey a)
     then later (shownOf a) (shownAt m k s) else shownAt m k s)"
proof -
  from applyReaction_upsert [OF assms] obtain n j
    where u: "upsertReactionRow deltaReplaces mergeDelta (deltaRow a n) s = Inr (j, t)" .
  have key: "reactionKey (deltaRow a n) = (raMessageID a, raReactorKey a)" by (simp add: deltaRow_def)
  have "shownBy (if deltaReplaces (deltaRow a n) old then mergeDelta (deltaRow a n) old else old) =
      (if raOccurredAtMS a < reOccurredAtMS old then shownBy old else shownOf a)" for old
    using not_deltaReplaces [of "deltaRow a n" old]
    by (auto simp: shownBy_merge shownBy_deltaRow deltaReplaces_def) (auto simp: deltaRow_def)
  moreover have "sqlFind (\<lambda>r. reactionKey r = (m, k)) (reactions t) = (if (m, k) = reactionKey (deltaRow a n)
      then (case sqlFind (\<lambda>r. reactionKey r = reactionKey (deltaRow a n)) (reactions s) of
          None \<Rightarrow> Some (deltaRow a n)
        | Some old \<Rightarrow> Some (if deltaReplaces (deltaRow a n) old then mergeDelta (deltaRow a n) old else old))
      else sqlFind (\<lambda>r. reactionKey r = (m, k)) (reactions s))"
    by (rule upsertReactionRow_find [OF u]) (simp add: mergeDelta_def)
  ultimately show ?thesis
    unfolding key shownAt_def later_def
    by (auto simp: shownBy_deltaRow occurred_shownBy split: option.splits simp del: prod.inject)
qed

text \<open>Applying the list leaves, for each key, the fold of the deltas of that key.\<close>

definition forKey :: "string \<Rightarrow> string \<Rightarrow> reaction_apply list \<Rightarrow> reaction_apply list" where
  "forKey m k as = filter (\<lambda>a. (raMessageID a, raReactorKey a) = (m, k)) as"

lemma applyDeltas_shown:
  "applyDeltas clock j as s = Inr t \<Longrightarrow>
   shownAt m k t = fold (later \<circ> shownOf) (forKey m k as) (shownAt m k s)"
proof (induction as arbitrary: j s)
  case Nil
  then show ?case by (simp add: forKey_def)
next
  case (Cons a as)
  from Cons.prems obtain b s1 where one: "applyReaction (clock j) a s = Inr (b, s1)"
    and rest: "applyDeltas clock (Suc j) as s1 = Inr t"
    by (auto simp: thenDo_Inr)
  from Cons.IH [OF rest] applyReaction_shown [OF one, of m k] show ?case
    by (auto simp: forKey_def)
qed

text \<open>With distinct times the fold is the latest, whatever the order.\<close>

lemma later_commute:
  "occurred v \<noteq> occurred w \<Longrightarrow> later v (later w x) = later w (later v x)"
  by (auto simp: later_def split: option.splits)

lemma fold_later_mset:
  assumes "mset as = mset bs" and "distinct (map raOccurredAtMS as)"
  shows "fold (later \<circ> shownOf) as x = fold (later \<circ> shownOf) bs x"
proof (rule fold_multiset_equiv [THEN fun_cong, OF _ assms(1)])
  fix a b assume "a \<in> set as" "b \<in> set as"
  then show "(later \<circ> shownOf) a \<circ> (later \<circ> shownOf) b = (later \<circ> shownOf) b \<circ> (later \<circ> shownOf) a"
    using assms(2) by (cases "a = b") (auto simp: fun_eq_iff intro!: later_commute dest: distinct_key_inj)
qed

section \<open>What a reader sees\<close>

text \<open>A delta writes only the reactions, and never two rows of one key.\<close>

lemma upsertReactionRow_frame:
  "upsertReactionRow replaces merge new s = Inr (n, t) \<Longrightarrow> identities t = identities s"
  by (erule upsertReactionRow_cases) simp_all

lemma upsertReactionRow_distinct:
  assumes "upsertReactionRow replaces merge new s = Inr (n, t)"
    and keys: "\<And>old. reactionKey (merge new old) = reactionKey old"
    and d: "distinct (map reactionKey (reactions s))"
  shows "distinct (map reactionKey (reactions t))"
  using assms(1)
proof (cases rule: upsertReactionRow_cases)
  case insert
  have "distinct (map reactionKey (reactions s @ [new]))"
    using insert(1) d unfolding sqlFind_None distinct_snoc_key by blast
  with insert(2) show ?thesis by (simp del: map_append)
next
  case (update old)
  have "map reactionKey (sqlUpdate P (merge new) rows) = map reactionKey rows" for P rows
    using keys by (rule map_sqlUpdate)
  with update(3) d show ?thesis by (simp del: map_sqlUpdate)
next
  case (keep old)
  with d show ?thesis by simp
qed

lemma applyDeltas_frame:
  "applyDeltas clock j as s = Inr t \<Longrightarrow> distinct (map reactionKey (reactions s)) \<Longrightarrow>
   identities t = identities s \<and> distinct (map reactionKey (reactions t))"
proof (induction as arbitrary: j s)
  case Nil
  then show ?case by simp
next
  case (Cons a as)
  from Cons.prems(1) obtain b s1 where one: "applyReaction (clock j) a s = Inr (b, s1)"
    and rest: "applyDeltas clock (Suc j) as s1 = Inr t"
    by (auto simp: thenDo_Inr)
  from applyReaction_upsert [OF one] obtain n i
    where u: "upsertReactionRow deltaReplaces mergeDelta (deltaRow a n) s = Inr (i, s1)" .
  have "distinct (map reactionKey (reactions s1))"
    by (rule upsertReactionRow_distinct [OF u _ Cons.prems(2)]) (simp add: mergeDelta_def)
  moreover have "identities s1 = identities s"
    by (rule upsertReactionRow_frame [OF u])
  ultimately show ?case using Cons.IH [OF rest] by simp
qed

text \<open>A row of the answer in terms of what is shown for its reactor.\<close>

definition rowShown :: "store \<Rightarrow> string \<Rightarrow> string \<times> shown \<Rightarrow> reaction_row" where
  "rowShown s m = (\<lambda>(k, act, emoji, identity, own, label, at, sq).
     \<lparr>rwMessageID = m, rwEmoji = emoji, rwReactorIsSelf = own,
      rwReactorCanonical =
        (case identity of None \<Rightarrow> ''''
         | Some i \<Rightarrow> (case sqlFind (\<lambda>x. idIdentityID x = i) (identities s) of
             None \<Rightarrow> '''' | Some x \<Rightarrow> idCanonicalValue x)),
      rwReactorLabel = label, rwOccurredAtMS = at\<rparr>)"

lemma reactionRow_shown:
  "reMessageID r = m \<Longrightarrow> reActive r \<Longrightarrow> reactionRow s r = rowShown s m (reReactorKey r, shownBy r)"
  by (simp add: reactionRow_def rowShown_def shownBy_def)

definition shownRows :: "string \<Rightarrow> store \<Rightarrow> (string \<times> shown) list" where
  "shownRows m s = map (\<lambda>r. (reReactorKey r, shownBy r))
     (filter (\<lambda>r. reMessageID r = m \<and> reActive r) (reactions s))"

lemma sort_key_map: "map g (sort_key (f \<circ> g) xs) = sort_key f (map g xs)"
proof (induction xs)
  case (Cons x xs)
  have "map g (insort_key (\<lambda>a. f (g a)) x ys) = insort_key f (g x) (map g ys)" for ys
    by (induction ys) auto
  with Cons show ?case by (simp add: comp_def)
qed simp

lemma reactionsForMessages_shown:
  "m \<in> set ids \<Longrightarrow> reactionsForMessages ids s m =
   map (rowShown s m) (sort_key (\<lambda>(k, v). (occurred v, k)) (shownRows m s))"
proof -
  assume "m \<in> set ids"
  let ?rows = "filter (\<lambda>r. reMessageID r = m \<and> reActive r) (reactions s)"
  let ?g = "\<lambda>r. (reReactorKey r, shownBy r)"
  have f: "(\<lambda>(k, v). (occurred v, k)) \<circ> ?g = (\<lambda>r. (reOccurredAtMS r, reReactorKey r))"
    by (simp add: fun_eq_iff occurred_shownBy)
  have "map (reactionRow s) (sort_key (\<lambda>r. (reOccurredAtMS r, reReactorKey r)) ?rows) =
      map (rowShown s m) (map ?g (sort_key (\<lambda>r. (reOccurredAtMS r, reReactorKey r)) ?rows))"
    by (auto intro!: reactionRow_shown)
  also have "\<dots> = map (rowShown s m) (sort_key (\<lambda>(k, v). (occurred v, k)) (shownRows m s))"
    unfolding shownRows_def using sort_key_map [of ?g "\<lambda>(k, v). (occurred v, k)" ?rows] by (simp only: f)
  finally show ?thesis
    using \<open>m \<in> set ids\<close> by (simp add: reactionsForMessages_def)
qed

lemma set_shownRows:
  assumes "distinct (map reactionKey (reactions s))"
  shows "set (shownRows m s) = {(k, v). shownAt m k s = Some v \<and> fst v}"
proof (intro set_eqI iffI)
  fix p assume "p \<in> set (shownRows m s)"
  then obtain r where r: "r \<in> set (reactions s)" "reMessageID r = m" "reActive r"
    and p: "p = (reReactorKey r, shownBy r)"
    by (auto simp: shownRows_def)
  have "sqlFind (\<lambda>x. reactionKey x = (m, reReactorKey r)) (reactions s) = Some r"
    by (rule sqlFind_key [OF assms r(1)]) (simp add: r(2))
  with r p show "p \<in> {(k, v). shownAt m k s = Some v \<and> fst v}"
    by (simp add: shownAt_def shownBy_def del: prod.inject)
next
  fix p assume "p \<in> {(k, v). shownAt m k s = Some v \<and> fst v}"
  then have "shownAt m (fst p) s = Some (snd p)" and act: "fst (snd p)" by auto
  then obtain r where "sqlFind (\<lambda>x. reactionKey x = (m, fst p)) (reactions s) = Some r"
    and "snd p = shownBy r"
    by (auto simp: shownAt_def simp del: prod.inject)
  then show "p \<in> set (shownRows m s)"
    using act by (cases p) (auto simp: shownRows_def shownBy_def dest!: sqlFind_Some intro!: rev_image_eqI [of r])
qed

lemma distinct_shownRows:
  assumes "distinct (map reactionKey (reactions s))"
  shows "distinct (map fst (shownRows m s))"
proof -
  let ?rows = "filter (\<lambda>r. reMessageID r = m \<and> reActive r) (reactions s)"
  have "distinct (map reactionKey ?rows)" using assms by (rule distinct_map_filter)
  moreover have "map reactionKey ?rows = map (Pair m) (map reReactorKey ?rows)" by simp
  ultimately have "distinct (map reReactorKey ?rows)" by (metis distinct_map)
  moreover have "map fst (shownRows m s) = map reReactorKey ?rows" by (simp add: shownRows_def)
  ultimately show ?thesis by simp
qed

text \<open>Two stores that show the same for every reactor answer a batch alike.\<close>

lemma reactionsForMessages_cong:
  assumes "distinct (map reactionKey (reactions s))" and "distinct (map reactionKey (reactions t))"
    and "identities s = identities t" and "\<And>k. shownAt m k s = shownAt m k t"
  shows "reactionsForMessages ids s m = reactionsForMessages ids t m"
proof (cases "m \<in> set ids")
  case True
  let ?f = "\<lambda>(k, v). (occurred v, k)"
  have d: "distinct (shownRows m s)" "distinct (shownRows m t)"
    using distinct_shownRows [OF assms(1)] distinct_shownRows [OF assms(2)]
    by (auto simp: distinct_map)
  have sets: "set (shownRows m s) = set (shownRows m t)"
    by (simp add: set_shownRows assms)
  have mset: "mset (shownRows m s) = mset (sort_key ?f (shownRows m t))"
    using d sets by (simp add: set_eq_iff_mset_eq_distinct)
  have "inj_on ?f (set (shownRows m s))"
    using distinct_shownRows [OF assms(1), of m] by (auto simp: inj_on_def dest: distinct_key_inj)
  then have "sort_key ?f (shownRows m s) = sort_key ?f (shownRows m t)"
    by (rule sort_key_inj_key_eq [OF mset]) simp
  moreover have "rowShown s m = rowShown t m"
    unfolding rowShown_def assms(3) ..
  ultimately show ?thesis
    using True by (simp add: reactionsForMessages_shown)
next
  case False
  then show ?thesis by (simp add: reactionsForMessages_def)
qed

text \<open>
  C25: Reactions converge. Two deliveries of the same deltas in different orders, as long as no
  two deltas of one reactor on one message carry the same time, leave every message with the
  same reactions, in the same order: the answer of the batch read that the clients show.
\<close>

theorem reactions_converge:
  assumes "distinct (map reactionKey (reactions s))"
    and "applyDeltas clock j as s = Inr t" and "applyDeltas clock' j' bs s = Inr u"
    and "mset as = mset bs"
    and "\<And>m k. distinct (map raOccurredAtMS (forKey m k as))"
  shows "reactionsForMessages ids t m = reactionsForMessages ids u m"
proof (rule reactionsForMessages_cong)
  show "distinct (map reactionKey (reactions t))" "distinct (map reactionKey (reactions u))"
    and "identities t = identities u"
    using applyDeltas_frame [OF assms(2,1)] applyDeltas_frame [OF assms(3,1)] by simp_all
next
  fix k
  have "mset (forKey m k as) = mset (forKey m k bs)"
    using assms(4) by (simp add: forKey_def)
  from fold_later_mset [OF this assms(5)]
  show "shownAt m k t = shownAt m k u"
    by (simp only: applyDeltas_shown [OF assms(2)] applyDeltas_shown [OF assms(3)])
qed

definition reactedMessage :: message where
  "reactedMessage = \<lparr>msMessageID = ''m1'', msConversationID = ''c1'', msAccountID = ''a1'',
     msRemoteMessageID = ''r1'', msSenderIdentityID = None, msDirection = ''inbound'',
     msBody = ''hello'', msReplyToRemoteID = None, msState = ''received'', msOccurredAtMS = 10,
     msCreatedAtMS = 10, msUpdatedAtMS = 10\<rparr>"

definition reactedConversation :: conversation where
  "reactedConversation = \<lparr>cvConversationID = ''c1'', cvAccountID = ''a1'',
     cvRemoteConversationID = ''thread-1'', cvKind = ''direct'', cvTitle = ''Ann'',
     cvRemoteRevision = None, cvNotificationMode = ''all'', cvIsFavorite = False,
     cvArchivedAtMS = None, cvLastMessageAtMS = 10, cvMetadataJSON = ''{}'',
     cvCreatedAtMS = 5, cvUpdatedAtMS = 10\<rparr>"

definition reactedStore :: store where
  "reactedStore = emptyStore\<lparr>conversations := [reactedConversation], messages := [reactedMessage]\<rparr>"

definition demoReaction :: "string \<Rightarrow> string \<Rightarrow> int \<Rightarrow> reaction_apply" where
  "demoReaction k act ms = \<lparr>raAccountID = ''a1'', raConversationID = ''c1'', raMessageID = ''m1'',
     raReactorKey = k, raReactorIdentityID = None, raReactorIsSelf = False, raReactorLabel = k,
     raEmoji = ''+1'', raAction = act, raOccurredAtMS = ms, raSourceSeqMS = ms\<rparr>"

abbreviation reactionClock :: "nat \<Rightarrow> gotime" where
  "reactionClock j \<equiv> timeOfUnixMilli 100"

text \<open>An add and its removal, in both orders.\<close>

lemma reactions_converge_witness:
  "\<exists>t u. applyDeltas reactionClock 0 [demoReaction ''ann'' ''add'' 20, demoReaction ''ann'' ''remove'' 30]
           reactedStore = Inr t \<and>
         applyDeltas reactionClock 0 [demoReaction ''ann'' ''remove'' 30, demoReaction ''ann'' ''add'' 20]
           reactedStore = Inr u \<and>
         reactionsForMessages [''m1''] t ''m1'' = reactionsForMessages [''m1''] u ''m1''"
proof -
  let ?as = "[demoReaction ''ann'' ''add'' 20, demoReaction ''ann'' ''remove'' 30]"
  let ?bs = "[demoReaction ''ann'' ''remove'' 30, demoReaction ''ann'' ''add'' 20]"
  have "\<not> isl (applyDeltas reactionClock 0 ?as reactedStore)" "\<not> isl (applyDeltas reactionClock 0 ?bs reactedStore)"
    by code_simp+
  then obtain t u where t: "applyDeltas reactionClock 0 ?as reactedStore = Inr t"
    and u: "applyDeltas reactionClock 0 ?bs reactedStore = Inr u"
    by (metis isl_def sum.exhaust)
  have "distinct (map reactionKey (reactions reactedStore))"
    by (simp add: reactedStore_def emptyStore_def)
  moreover have "distinct (map raOccurredAtMS (forKey m k ?as))" for m k
    by (simp add: forKey_def demoReaction_def)
  ultimately have "reactionsForMessages [''m1''] t ''m1'' = reactionsForMessages [''m1''] u ''m1''"
    using reactions_converge [OF _ t u, where ids = "[''m1'']" and m = "''m1''"] by simp
  with t u show ?thesis by blast
qed

section \<open>Embedded snapshots\<close>

text \<open>What a snapshot says of a reactor, and what the rows of a message say of it.\<close>

type_synonym face = "string \<times> string option \<times> bool \<times> string"

definition rowFace :: "reaction \<Rightarrow> face" where
  "rowFace r = (reEmoji r, reReactorIdentityID r, reReactorIsSelf r, reReactorLabel r)"

definition entryFace :: "snapshot_entry \<Rightarrow> face" where
  "entryFace e = (seEmoji e, seReactorIdentityID e, seReactorIsSelf e, seReactorLabel e)"

definition activeFace :: "string \<Rightarrow> string \<Rightarrow> store \<Rightarrow> face option" where
  "activeFace m k s = (case sqlFind (\<lambda>r. reactionKey r = (m, k)) (reactions s) of
     None \<Rightarrow> None | Some r \<Rightarrow> if reActive r then Some (rowFace r) else None)"

abbreviation snapshotFace :: "snapshot_entry list \<Rightarrow> string \<Rightarrow> face option" where
  "snapshotFace es k \<equiv> map_option entryFace (sqlFind (\<lambda>e. seReactorKey e = k) es)"

abbreviation rowsAtMost :: "string \<Rightarrow> int \<Rightarrow> store \<Rightarrow> bool" where
  "rowsAtMost m sq s \<equiv> \<forall>r \<in> set (reactions s). reMessageID r = m \<longrightarrow> reSourceSeqMS r \<le> sq"

lemma snapshotRow_simps [simp]:
  "reactionKey (snapshotRow m a c sq n e) = (m, seReactorKey e)"
  "rowFace (snapshotRow m a c sq n e) = entryFace e"
  "reActive (snapshotRow m a c sq n e)" "reSourceSeqMS (snapshotRow m a c sq n e) = sq"
  by (simp_all add: snapshotRow_def rowFace_def entryFace_def)

lemma mergeSnapshot_face:
  "rowFace (mergeSnapshot new old) = rowFace new \<and> reActive (mergeSnapshot new old) \<and>
   reSourceSeqMS (mergeSnapshot new old) = reSourceSeqMS new \<and>
   reactionKey (mergeSnapshot new old) = reactionKey old"
  by (simp add: mergeSnapshot_def rowFace_def)

lemma not_snapshotReplaces:
  "\<not> snapshotReplaces new old \<Longrightarrow> reSourceSeqMS old \<le> reSourceSeqMS new \<Longrightarrow> reActive new \<Longrightarrow>
   rowFace old = rowFace new \<and> reActive old \<and> reSourceSeqMS old = reSourceSeqMS new"
  by (auto simp: snapshotReplaces_def snapshotDiffers_def rowFace_def)

text \<open>One entry.\<close>

lemma snapshot_entry_written:
  assumes "upsertReactionRow snapshotReplaces mergeSnapshot (snapshotRow m a c sq n e) s = Inr (j, t)"
    and "rowsAtMost m sq s"
  shows "activeFace m (seReactorKey e) t = Some (entryFace e) \<and> rowsAtMost m sq t \<and>
    (\<forall>key. key \<noteq> (m, seReactorKey e) \<longrightarrow>
      sqlFind (\<lambda>r. reactionKey r = key) (reactions t) = sqlFind (\<lambda>r. reactionKey r = key) (reactions s))"
proof -
  let ?new = "snapshotRow m a c sq n e"
  have keys: "reactionKey (mergeSnapshot ?new old) = reactionKey old" for old
    by (simp add: mergeSnapshot_def)
  note found = upsertReactionRow_find [OF assms(1) keys]
  have old: "reSourceSeqMS old \<le> sq" if "sqlFind (\<lambda>r. reactionKey r = reactionKey ?new) (reactions s) = Some old" for old
    using sqlFind_Some [OF that] assms(2) by simp
  have "activeFace m (seReactorKey e) t = Some (entryFace e)"
    using found [of "(m, seReactorKey e)"] old
    by (auto simp: activeFace_def mergeSnapshot_face not_snapshotReplaces
        split: option.splits simp del: prod.inject dest!: not_snapshotReplaces)
  moreover have "rowsAtMost m sq t"
    using assms(1)
  proof (cases rule: upsertReactionRow_cases)
    case insert
    with assms(2) show ?thesis by (simp add: snapshotRow_def)
  next
    case (update old)
    have "reMessageID (mergeSnapshot ?new r) = reMessageID r" for r by (simp add: mergeSnapshot_def)
    with update(3) assms(2) show ?thesis
      by (simp add: ball_sqlUpdate mergeSnapshot_face)
  next
    case (keep old)
    with assms(2) show ?thesis by simp
  qed
  moreover have "sqlFind (\<lambda>r. reactionKey r = key) (reactions t) =
      sqlFind (\<lambda>r. reactionKey r = key) (reactions s)" if "key \<noteq> (m, seReactorKey e)" for key
    using found [of key] that by (simp del: prod.inject)
  ultimately show ?thesis by blast
qed

text \<open>All entries, when no two name one reactor.\<close>

lemma snapshotEach_written:
  "snapshotEach (snapshotRow m a c sq n) es s = Inr (j, t) \<Longrightarrow> rowsAtMost m sq s \<Longrightarrow>
   distinct (map seReactorKey es) \<Longrightarrow>
   (\<forall>e \<in> set es. activeFace m (seReactorKey e) t = Some (entryFace e)) \<and> rowsAtMost m sq t \<and>
   (\<forall>key. key \<notin> (\<lambda>e. (m, seReactorKey e)) ` set es \<longrightarrow>
      sqlFind (\<lambda>r. reactionKey r = key) (reactions t) = sqlFind (\<lambda>r. reactionKey r = key) (reactions s))"
proof (induction es arbitrary: s j)
  case Nil
  then show ?case by simp
next
  case (Cons e es)
  from Cons.prems(1) obtain i s1 k
    where one: "upsertReactionRow snapshotReplaces mergeSnapshot (snapshotRow m a c sq n e) s = Inr (i, s1)"
      and rest: "snapshotEach (snapshotRow m a c sq n) es s1 = Inr (k, t)"
    by (cases "upsertReactionRow snapshotReplaces mergeSnapshot (snapshotRow m a c sq n e) s")
      (auto simp: Let_def thenDo_Inr simp del: prod.inject)
  note w = snapshot_entry_written [OF one Cons.prems(2)]
  note IH = Cons.IH [OF rest]
  have "rowsAtMost m sq s1" and d: "distinct (map seReactorKey es)" using w Cons.prems(3) by simp_all
  note IH = IH [OF this]
  have "(m, seReactorKey e) \<notin> (\<lambda>e. (m, seReactorKey e)) ` set es" using Cons.prems(3) by force
  then have "activeFace m (seReactorKey e) t = activeFace m (seReactorKey e) s1"
    using IH by (simp add: activeFace_def del: prod.inject)
  with w have "activeFace m (seReactorKey e) t = Some (entryFace e)" by simp
  moreover have "sqlFind (\<lambda>r. reactionKey r = key) (reactions t) = sqlFind (\<lambda>r. reactionKey r = key) (reactions s)"
    if "key \<notin> (\<lambda>e. (m, seReactorKey e)) ` set (e # es)" for key
    using IH w that by (cases key) (simp del: prod.inject)
  ultimately show ?case using IH by auto
qed

lemma writeFence_Inr:
  assumes "writeFence f s = Inr t"
  shows "reactions t = reactions s \<and> fenceOf (sfMessageID f) t = Some f"
proof (cases "sqlExists (\<lambda>x. sfMessageID x = sfMessageID f) (reactionSnapshotFences s)")
  case True
  then have t: "t = s\<lparr>reactionSnapshotFences :=
      sqlUpdate (\<lambda>x. sfMessageID x = sfMessageID f) (\<lambda>x. f) (reactionSnapshotFences s)\<rparr>"
    using assms by (simp add: writeFence_def Let_def split: if_split_asm)
  have "sqlFind (\<lambda>x. sfMessageID x = sfMessageID f)
      (sqlUpdate (\<lambda>x. sfMessageID x = sfMessageID f) (\<lambda>x. f) rows) = Some f"
    if "sqlExists (\<lambda>x. sfMessageID x = sfMessageID f) rows" for rows
    using that by (induction rows) (auto simp: sqlFind_def sqlExists_def)
  with True t show ?thesis by (simp add: fenceOf_def)
next
  case False
  then have "t = s\<lparr>reactionSnapshotFences := reactionSnapshotFences s @ [f]\<rparr>"
    using assms by (simp add: writeFence_def Let_def split: if_split_asm)
  with False show ?thesis by (simp add: fenceOf_def sqlFind_snoc)
qed

text \<open>The steps of an accepted snapshot.\<close>

lemma replaceEmbeddedReactions_steps:
  assumes "replaceEmbeddedReactions c m a cv es sq s = Inr (n, t)"
    and "\<not> (case fenceOf m s of None \<Rightarrow> False | Some f \<Rightarrow> sq < sfSourceSeqMS f)"
  obtains k s1 i where "snapshotEach (snapshotRow m a cv sq k) es s = Inr (i, s1)"
    and "reactions t = sqlUpdate (absent m es) (tombstone sq k) (reactions s1)"
    and "fenceOf m t = Some \<lparr>sfMessageID = m, sfSourceSeqMS = sq, sfUpdatedAtMS = k\<rparr>"
proof -
  from assms obtain k i s1 where one: "snapshotEach (snapshotRow m a cv sq k) es s = Inr (i, s1)"
    and rest: "(case updateChecked (absent m es) (tombstone sq k) reactionRowOK (reactions s1) of
          Inl f \<Rightarrow> Inl (mapConstraintError f)
        | Inr rows \<Rightarrow>
            let removed = sqlCount (absent m es) (reactions s1) in
            (case writeFence \<lparr>sfMessageID = m, sfSourceSeqMS = sq, sfUpdatedAtMS = k\<rparr>
                    (s1\<lparr>reactions := rows\<rparr>) of
               Inl f \<Rightarrow> Inl (mapConstraintError f)
             | Inr s2 \<Rightarrow> Inr ((i, removed), s2))) = Inr (n, t)"
    unfolding replaceEmbeddedReactions_def by (auto simp only: thenDo_Inr if_False prod.case)
  from rest obtain rows where rows: "rows = sqlUpdate (absent m es) (tombstone sq k) (reactions s1)"
    and "writeFence \<lparr>sfMessageID = m, sfSourceSeqMS = sq, sfUpdatedAtMS = k\<rparr> (s1\<lparr>reactions := rows\<rparr>) = Inr t"
    by (auto simp: case_Inl_Inr updateChecked_Inr)
  from writeFence_Inr [OF this(2)] show thesis
    by (intro that [OF one]) (simp_all add: rows)
qed

text \<open>
  C18: An embedded snapshot is authoritative. A snapshot that is not older than the rows of its
  message leaves exactly the reactors it names, with what it says of them, and nobody else active;
  it touches no other message; and from then on an older snapshot of that message, whatever
  it holds and whenever it comes, changes nothing.
\<close>

theorem snapshot_is_authoritative:
  assumes "replaceEmbeddedReactions c m a cv es sq s = Inr (n, t)"
    and "\<not> (case fenceOf m s of None \<Rightarrow> False | Some f \<Rightarrow> sq < sfSourceSeqMS f)"
    and "rowsAtMost m sq s" and "distinct (map seReactorKey es)"
  shows "(\<forall>k. activeFace m k t = snapshotFace es k) \<and>
    (\<forall>m' k. m' \<noteq> m \<longrightarrow> shownAt m' k t = shownAt m' k s) \<and>
    (\<forall>c' es' sq'. sq' < sq \<longrightarrow> replaceEmbeddedReactions c' m a cv es' sq' t = Inr ((0, 0), t))"
proof (intro conjI allI impI)
  from replaceEmbeddedReactions_steps [OF assms(1,2)] obtain at s1 i
    where each: "snapshotEach (snapshotRow m a cv sq at) es s = Inr (i, s1)"
      and t: "reactions t = sqlUpdate (absent m es) (tombstone sq at) (reactions s1)"
      and fence: "fenceOf m t = Some \<lparr>sfMessageID = m, sfSourceSeqMS = sq, sfUpdatedAtMS = at\<rparr>" .
  note w = snapshotEach_written [OF each assms(3,4)]
  have rows: "sqlFind (\<lambda>r. reactionKey r = key) (reactions t) =
      map_option (\<lambda>r. if absent m es r then tombstone sq at r else r)
        (sqlFind (\<lambda>r. reactionKey r = key) (reactions s1))" for key
    unfolding t by (rule sqlFind_sqlUpdate_map) (simp add: tombstone_def)
  {
    fix k
    have face: "activeFace m k t = (if k \<in> set (map seReactorKey es) then activeFace m k s1 else None)"
      using rows [of "(m, k)"]
      by (auto simp: activeFace_def absent_def tombstone_def rowFace_def dest: sqlFind_Some
          split: option.splits simp del: prod.inject)
    show "activeFace m k t = snapshotFace es k"
    proof (cases "sqlFind (\<lambda>e. seReactorKey e = k) es")
      case None
      then have "k \<notin> set (map seReactorKey es)" by (auto simp: sqlFind_None sqlExists_iff)
      with None face show ?thesis by simp
    next
      case (Some e)
      then have "e \<in> set es" "seReactorKey e = k" by (auto dest: sqlFind_Some)
      with Some face w show ?thesis by auto
    qed
  next
    fix m' k assume other: "m' \<noteq> m"
    then have same: "sqlFind (\<lambda>r. reactionKey r = (m', k)) (reactions s1) =
        sqlFind (\<lambda>r. reactionKey r = (m', k)) (reactions s)"
      using w by auto
    have "\<not> absent m es r" if "sqlFind (\<lambda>r. reactionKey r = (m', k)) (reactions s) = Some r" for r
      using sqlFind_Some [OF that] other by (simp add: absent_def)
    then show "shownAt m' k t = shownAt m' k s"
      unfolding shownAt_def rows same
      by (cases "sqlFind (\<lambda>r. reactionKey r = (m', k)) (reactions s)") (simp_all del: prod.inject)
  next
    fix c' es' sq' assume "sq' < sq"
    with fence show "replaceEmbeddedReactions c' m a cv es' sq' t = Inr ((0, 0), t)"
      by (simp add: replaceEmbeddedReactions_def)
  }
qed

definition demoEntry :: "string \<Rightarrow> snapshot_entry" where
  "demoEntry k = \<lparr>seReactorKey = k, seReactorIdentityID = None, seReactorIsSelf = False,
     seReactorLabel = k, seEmoji = ''+1''\<rparr>"

lemma snapshot_is_authoritative_witness:
  "\<exists>n t. replaceEmbeddedReactions (timeOfUnixMilli 100) ''m1'' ''a1'' ''c1'' [demoEntry ''ann''] 7
           reactedStore = Inr (n, t) \<and>
         activeFace ''m1'' ''ann'' t = Some (''+1'', None, False, ''ann'') \<and>
         activeFace ''m1'' ''bob'' t = None"
proof -
  have "\<not> isl (replaceEmbeddedReactions (timeOfUnixMilli 100) ''m1'' ''a1'' ''c1'' [demoEntry ''ann''] 7
      reactedStore)"
    by code_simp
  then obtain n t where t: "replaceEmbeddedReactions (timeOfUnixMilli 100) ''m1'' ''a1'' ''c1''
      [demoEntry ''ann''] 7 reactedStore = Inr (n, t)"
    by (metis isl_def sum.exhaust surj_pair)
  have "fenceOf ''m1'' reactedStore = None"
    by (simp add: fenceOf_def reactedStore_def emptyStore_def sqlFind_def)
  moreover have "rowsAtMost ''m1'' 7 reactedStore" by (simp add: reactedStore_def emptyStore_def)
  ultimately have "\<forall>k. activeFace ''m1'' k t = snapshotFace [demoEntry ''ann''] k"
    using snapshot_is_authoritative [OF t] by simp
  then show ?thesis
    using t by (auto simp: sqlFind_def demoEntry_def entryFace_def)
qed

end
