(* ===== verification/Keys.thy ===== *)
theory Keys
  imports Messages
begin

text \<open>
  \<open>internal/v2keys/derive.go\<close>: the deterministic keys that live ingestion and migration share.

  \<^item> \<open>sha256\<close> and \<open>sha1\<close> are the digests of the standard library in hexadecimal: parameters, of
    which only that they are functions is used.
  \<^item> Strings are their UTF-8 bytes. \<open>strings.ToLower\<close> maps the ASCII letters of an ASCII text; what
    it does to any other text is the parameter \<open>unicodeLower\<close>.
\<close>

section \<open>Derived keys\<close>

definition unitSeparator :: string where
  "unitSeparator = [byte 31]"

definition deriveID :: "(string \<Rightarrow> string) \<Rightarrow> string \<Rightarrow> string \<Rightarrow> string \<Rightarrow> string" where
  "deriveID sha256 entity accountID naturalKey =
     take 32 (sha256 (entity @ unitSeparator @ accountID @ unitSeparator @ naturalKey))"

definition messageID :: "(string \<Rightarrow> string) \<Rightarrow> string \<Rightarrow> string \<Rightarrow> string \<Rightarrow> string" where
  "messageID sha256 accountID remoteConversationID remoteMessageID =
     deriveID sha256 ''message'' accountID (remoteConversationID @ unitSeparator @ remoteMessageID)"

section \<open>Identities\<close>

definition asciiText :: "string \<Rightarrow> bool" where
  "asciiText s = list_all (\<lambda>c. (of_char c :: nat) < 128) s"

definition toLower :: "(string \<Rightarrow> string) \<Rightarrow> string \<Rightarrow> string" where
  "toLower unicodeLower s = (if asciiText s then map asciiLower s else unicodeLower s)"

definition hasPrefix :: "string \<Rightarrow> string \<Rightarrow> bool" where
  "hasPrefix s p = (stripPrefix p s \<noteq> None)"

definition trimPrefix :: "string \<Rightarrow> string \<Rightarrow> string" where
  "trimPrefix s p = (case stripPrefix p s of None \<Rightarrow> s | Some r \<Rightarrow> r)"

definition charBetween :: "nat \<Rightarrow> nat \<Rightarrow> char \<Rightarrow> bool" where
  "charBetween a b c = (let n = (of_char c :: nat) in a \<le> n \<and> n \<le> b)"

abbreviation decimalDigit :: "char \<Rightarrow> bool" where
  "decimalDigit \<equiv> charBetween 48 57"

definition anyCaseHex :: "char \<Rightarrow> bool" where
  "anyCaseHex c \<longleftrightarrow> decimalDigit c \<or> charBetween 97 102 c \<or> charBetween 65 70 c"

text \<open>The regular expressions \<open>signalACI\<close> (8-4-4-4-12 hexadecimal digits) and \<open>slackUserID\<close>.\<close>

definition signalACI :: "string \<Rightarrow> bool" where
  "signalACI s \<longleftrightarrow> length s = 36 \<and>
     list_all (\<lambda>i. if i = 8 \<or> i = 13 \<or> i = 18 \<or> i = 23 then s ! i = CHR ''-'' else anyCaseHex (s ! i))
       [0..<36]"

definition slackUserID :: "string \<Rightarrow> bool" where
  "slackUserID s = (case s of [] \<Rightarrow> False
     | c # cs \<Rightarrow> c \<in> {CHR ''U'', CHR ''B'', CHR ''W''} \<and> cs \<noteq> [] \<and>
         list_all (\<lambda>d. charBetween 65 90 d \<or> decimalDigit d) cs)"

record identity_key =
  ikAccountID :: string
  ikKind :: string
  ikCanonical :: string

text \<open>\<open>IdentityKey\<close>: \<open>None\<close> for an empty value and for a plus sign without any digit.\<close>

definition identityKey ::
  "(string \<Rightarrow> string) \<Rightarrow> string \<Rightarrow> string \<Rightarrow> string \<Rightarrow> identity_key option" where
  "identityKey unicodeLower accountID platform raw =
     (let v = trimSpace raw;
          key = (\<lambda>kind canonical. Some \<lparr>ikAccountID = accountID, ikKind = kind, ikCanonical = canonical\<rparr>)
      in
      if v = '''' then None
      else if hasPrefix v ''+'' then
        (let digits = filter decimalDigit (tl v) in
         if digits = '''' then None else key ''e164'' (CHR ''+'' # digits))
      else if platform = ''signal'' \<and> signalACI v then key ''signal_aci'' (toLower unicodeLower v)
      else if CHR ''@'' \<in> set v \<and> platform = ''whatsapp'' then key ''jid'' (toLower unicodeLower v)
      else if platform = ''slack'' \<and> slackUserID v then key ''slack_user'' v
      else if CHR ''@'' \<in> set v then key ''email'' (toLower unicodeLower v)
      else if hasPrefix v ''legacy-participant:'' then key ''legacy_participant'' v
      else key ''username'' v)"

section \<open>Remote conversation IDs\<close>

text \<open>\<open>strings.Split\<close> on one byte.\<close>

fun splitOn :: "char \<Rightarrow> string \<Rightarrow> string list" where
  "splitOn d [] = [[]]"
| "splitOn d (c # cs) =
     (if c = d then [] # splitOn d cs
      else case splitOn d cs of [] \<Rightarrow> [[c]] | p # ps \<Rightarrow> (c # p) # ps)"

definition normalizeRemoteConversationID :: "string \<Rightarrow> string \<Rightarrow> string" where
  "normalizeRemoteConversationID platform legacyID =
     (let v = trimSpace legacyID in
      if platform = ''slack'' then
        (case splitOn (CHR '':'') v of
           [p, q, r] \<Rightarrow> if p = ''slack'' \<and> q \<noteq> '''' \<and> r \<noteq> '''' then r else v
         | _ \<Rightarrow> v)
      else if platform \<noteq> ''signal'' then v
      else if hasPrefix v ''signal-group:'' then
        ''signal-group:'' @ trimSpace (trimPrefix v ''signal-group:'')
      else if hasPrefix v ''signal:'' then ''signal:'' @ trimSpace (trimPrefix v ''signal:'')
      else v)"

section \<open>Local aliases of Signal messages\<close>

text \<open>\<open>strconv.FormatInt(timestamp, 10)\<close>.\<close>

fun natDigits :: "nat \<Rightarrow> string" where
  "natDigits n = (if n < 10 then [byte (48 + n)] else natDigits (n div 10) @ [byte (48 + n mod 10)])"

declare natDigits.simps [simp del]

definition formatInt :: "int \<Rightarrow> string" where
  "formatInt n = (if n < 0 then CHR ''-'' # natDigits (nat (- n)) else natDigits (nat n))"

definition signalIncomingSourceID :: "(string \<Rightarrow> string) \<Rightarrow> string \<Rightarrow> string \<Rightarrow> int \<Rightarrow> string" where
  "signalIncomingSourceID sha1 conversationID source timestamp =
     sha1 (trimSpace conversationID @ unitSeparator @ trimSpace source @ unitSeparator @
           formatInt timestamp)"

definition signalLocalAlias :: "(string \<Rightarrow> string) \<Rightarrow> string \<Rightarrow> int \<Rightarrow> string" where
  "signalLocalAlias sha1 conversationID timestamp =
     ''local:'' @ signalIncomingSourceID sha1 conversationID ''me'' timestamp"

section \<open>Canonical forms\<close>

lemma hasPrefix_plus: "hasPrefix s ''+'' \<longleftrightarrow> (\<exists>r. s = CHR ''+'' # r)"
  by (cases s) (auto simp: hasPrefix_def)

lemma asciiLower_upper:
  "charBetween 65 90 c \<Longrightarrow> asciiLower c = char_of ((of_char c :: nat) + 32)"
  by (simp add: asciiLower_def charBetween_def Let_def)

lemma asciiLower_other: "\<not> charBetween 65 90 c \<Longrightarrow> asciiLower c = c"
  by (auto simp: asciiLower_def charBetween_def Let_def)

lemma of_char_asciiLower:
  "(of_char (asciiLower c) :: nat) = (if charBetween 65 90 c then of_char c + 32 else of_char c)"
proof (cases "charBetween 65 90 c")
  case True
  then have "(of_char c :: nat) + 32 < 256" by (simp add: charBetween_def Let_def)
  with True show ?thesis by (simp add: asciiLower_upper)
next
  case False
  then show ?thesis by (simp add: asciiLower_other)
qed

lemma asciiLower_idem [simp]: "asciiLower (asciiLower c) = asciiLower c"
proof (cases "charBetween 65 90 c")
  case True
  then have "\<not> charBetween 65 90 (asciiLower c)"
    by (simp add: charBetween_def Let_def of_char_asciiLower)
  then show ?thesis by (rule asciiLower_other)
qed (simp add: asciiLower_other)

lemma asciiText_lower [simp]: "asciiText (map asciiLower s) = asciiText s"
proof -
  have "(of_char (asciiLower c) :: nat) < 128 \<longleftrightarrow> (of_char c :: nat) < 128" for c
    by (auto simp: of_char_asciiLower charBetween_def Let_def)
  then show ?thesis by (simp add: asciiText_def list.pred_map comp_def)
qed

lemma anyCaseHex_lower: "anyCaseHex c \<Longrightarrow> anyCaseHex (asciiLower c)"
  by (auto simp: anyCaseHex_def charBetween_def Let_def of_char_asciiLower)

lemma dash_ascii: "(of_char (CHR ''-'') :: nat) < 128"
  by simp

lemma asciiLower_dash: "asciiLower (CHR ''-'') = CHR ''-''"
  by (simp add: asciiLower_def)

lemma signalACI_iff:
  "signalACI s \<longleftrightarrow> length s = 36 \<and> (\<forall>i < length s.
     if i = 8 \<or> i = 13 \<or> i = 18 \<or> i = 23 then s ! i = CHR ''-'' else anyCaseHex (s ! i))"
  unfolding signalACI_def list_all_iff set_upt by (rule conj_cong) (simp_all only: atLeastLessThan_iff Ball_def zero_le simp_thms)

lemma anyCaseHex_ascii: "anyCaseHex c \<Longrightarrow> (of_char c :: nat) < 128"
  by (auto simp: anyCaseHex_def charBetween_def Let_def)

lemma signalACI_ascii: "signalACI s \<Longrightarrow> asciiText s"
  unfolding signalACI_iff asciiText_def list_all_length
  by (metis anyCaseHex_ascii dash_ascii)

lemma signalACI_lower: "signalACI s \<Longrightarrow> signalACI (map asciiLower s)"
  unfolding signalACI_iff by (simp add: anyCaseHex_lower) (metis asciiLower_dash)

lemma stripFirst_low:
  "(\<And>w. w \<in> set ws \<Longrightarrow> w \<noteq> [] \<and> (\<forall>c \<in> set w. 128 \<le> (of_char c :: nat))) \<Longrightarrow>
   (of_char c :: nat) < 128 \<Longrightarrow> stripFirst ws (c # s) = None"
proof (induction ws)
  case (Cons w ws)
  then obtain p ps where "w = p # ps" and "128 \<le> (of_char p :: nat)"
    by (cases w) force+
  then have "p \<noteq> c" using Cons.prems(2) by auto
  moreover have "stripFirst ws (c # s) = None"
    by (rule Cons.IH) (use Cons.prems in auto)
  ultimately show ?case using \<open>w = p # ps\<close> by simp
qed simp

lemma stripBlank_ascii:
  "asciiText s \<Longrightarrow> (stripBlank wideBlanks s = None \<longleftrightarrow> s = [] \<or> \<not> asciiBlank (hd s)) \<and>
   (stripBlank (map rev wideBlanks) s = None \<longleftrightarrow> s = [] \<or> \<not> asciiBlank (hd s))"
proof (cases s)
  case (Cons c cs)
  assume "asciiText s"
  with Cons have "(of_char c :: nat) < 128" by (simp add: asciiText_def)
  then have "stripFirst wideBlanks (c # cs) = None" "stripFirst (map rev wideBlanks) (c # cs) = None"
    using wideBlanks_high by (intro stripFirst_low; auto)+
  with Cons show ?thesis by (simp add: stripBlank_def)
qed (simp add: stripBlank_def)

lemma asciiBlank_lower [simp]: "asciiBlank (asciiLower c) = asciiBlank c"
proof (cases "charBetween 65 90 c")
  case True
  then show ?thesis by (simp add: asciiBlank_def Let_def of_char_asciiLower) (simp add: charBetween_def Let_def)
qed (simp add: asciiLower_other)

lemma trimSpace_lower:
  assumes "trimSpace s = s" and "asciiText s"
  shows "trimSpace (map asciiLower s) = map asciiLower s"
proof -
  have r: "asciiText (rev s)" using assms(2) by (simp add: asciiText_def)
  have "stripBlank wideBlanks s = None" "stripBlank (map rev wideBlanks) (rev s) = None"
    using trimSpace_ends [of s] assms(1) by simp_all
  then have ends: "s = [] \<or> \<not> asciiBlank (hd s)" "s = [] \<or> \<not> asciiBlank (hd (rev s))"
    using stripBlank_ascii [OF assms(2)] stripBlank_ascii [OF r] by auto
  have low: "asciiText (map asciiLower s)" "asciiText (map asciiLower (rev s))" using assms(2) r by simp_all
  show ?thesis
  proof (rule trimSpace_done)
    show "stripBlank wideBlanks (map asciiLower s) = None"
      using stripBlank_ascii [OF low(1)] ends(1) by (auto simp: hd_map)
    show "stripBlank (map rev wideBlanks) (rev (map asciiLower s)) = None"
      using stripBlank_ascii [OF low(2)] ends(2) by (auto simp: rev_map hd_map)
  qed
qed

lemma lower_special:
  assumes "\<not> charBetween 65 90 d" and "\<not> charBetween 97 122 d"
  shows "asciiLower c = d \<longleftrightarrow> c = d"
proof (cases "charBetween 65 90 c")
  case True
  then have "charBetween 97 122 (asciiLower c)"
    by (simp add: charBetween_def Let_def of_char_asciiLower)
  with True assms show ?thesis by auto
qed (simp add: asciiLower_other)

lemma asciiLower_at: "asciiLower c = CHR ''@'' \<longleftrightarrow> c = CHR ''@''"
  by (rule lower_special) (simp_all add: charBetween_def)

lemma asciiLower_plus: "asciiLower c = CHR ''+'' \<longleftrightarrow> c = CHR ''+''"
  by (rule lower_special) (simp_all add: charBetween_def)

lemma at_lower: "CHR ''@'' \<in> set (map asciiLower s) \<longleftrightarrow> CHR ''@'' \<in> set s"
  by (induction s) (simp_all add: asciiLower_at eq_commute [of "CHR ''@''"])

lemma plus_lower: "hasPrefix (map asciiLower s) ''+'' \<longleftrightarrow> hasPrefix s ''+''"
  by (cases s) (simp_all add: hasPrefix_def asciiLower_plus eq_commute [of "CHR ''+''"])

lemma decimal_plain: "decimalDigit c \<Longrightarrow> plainChar c"
  by (simp add: charBetween_def plainChar_def Let_def)

lemma trimSpace_phone: "trimSpace (CHR ''+'' # filter decimalDigit s) = CHR ''+'' # filter decimalDigit s"
  by (rule trimSpace_plain) (auto simp: decimal_plain, simp add: plainChar_def)

lemma signalACI_at: "signalACI s \<Longrightarrow> CHR ''@'' \<notin> set s"
proof
  assume aci: "signalACI s" and "CHR ''@'' \<in> set s"
  then obtain i where "i < length s" "s ! i = CHR ''@''" by (metis in_set_conv_nth)
  with aci have "anyCaseHex (CHR ''@'') \<or> CHR ''@'' = CHR ''-''"
    unfolding signalACI_iff by metis
  then show False by (simp add: anyCaseHex_def charBetween_def)
qed

lemma slackUserID_at: "slackUserID s \<Longrightarrow> CHR ''@'' \<notin> set s"
  by (auto simp: slackUserID_def list_all_iff charBetween_def split: list.splits)

text \<open>
  C17: the key of an identity is canonical. Keying the canonical form of an ASCII address again,
  on the same platform, gives the same kind and the same canonical form, so that an identity
  that is stored is found under whatever spelling it is looked up by.
\<close>

theorem identityKey_canonical:
  assumes "identityKey unicodeLower accountID platform raw = Some k" and "asciiText (trimSpace raw)"
  shows "identityKey unicodeLower accountID platform (ikCanonical k) = Some k"
proof -
  let ?v = "trimSpace raw"
  let ?low = "map asciiLower ?v"
  have low: "toLower unicodeLower ?v = ?low" "toLower unicodeLower ?low = ?low"
    using assms(2) by (simp_all add: toLower_def comp_def)
  have trim: "trimSpace ?low = ?low" using assms(2) by (intro trimSpace_lower) simp_all
  consider "hasPrefix ?v ''+''"
    | "\<not> hasPrefix ?v ''+''" "platform = ''signal'' \<and> signalACI ?v"
    | "\<not> hasPrefix ?v ''+''" "\<not> (platform = ''signal'' \<and> signalACI ?v)" "CHR ''@'' \<in> set ?v"
    | "\<not> hasPrefix ?v ''+''" "\<not> (platform = ''signal'' \<and> signalACI ?v)" "CHR ''@'' \<notin> set ?v"
    by blast
  then show ?thesis
  proof cases
    case 1
    then have k: "ikCanonical k = CHR ''+'' # filter decimalDigit (tl ?v)" "ikKind k = ''e164''"
        "ikAccountID k = accountID" and "filter decimalDigit (tl ?v) \<noteq> []"
      using assms(1) by (auto simp: identityKey_def Let_def split: if_splits)
    then show ?thesis
      by (simp add: identityKey_def Let_def trimSpace_phone hasPrefix_plus)
  next
    case 2
    then have "k = \<lparr>ikAccountID = accountID, ikKind = ''signal_aci'', ikCanonical = ?low\<rparr>"
      using assms(1) low by (simp add: identityKey_def Let_def split: if_splits)
    with 2 low trim show ?thesis
      using assms(1) by (auto simp: identityKey_def Let_def plus_lower signalACI_lower split: if_splits)
  next
    case 3
    then have k: "ikCanonical k = ?low" "ikAccountID k = accountID"
        "ikKind k = (if platform = ''whatsapp'' then ''jid'' else ''email'')"
      using assms(1) low slackUserID_at by (auto simp: identityKey_def Let_def split: if_splits)
    have aci: "\<not> signalACI ?low" if "platform = ''signal''"
      using 3(3) at_lower signalACI_at by blast
    from 3 have "?v \<noteq> ''''" by auto
    with 3 k low trim aci show ?thesis
      by (auto simp: identityKey_def Let_def plus_lower at_lower slackUserID_at simp del: set_map
          dest: slackUserID_at)
  next
    case 4
    then have "ikCanonical k = ?v" using assms(1) by (auto simp: identityKey_def Let_def split: if_splits)
    with 4 assms(1) show ?thesis by (simp add: identityKey_def Let_def)
  qed
qed

lemma identityKey_canonical_witness:
  "\<exists>k. identityKey id ''a1'' ''google'' '' +1 (555) 010-9999 '' = Some k \<and>
     identityKey id ''a1'' ''google'' (ikCanonical k) = Some k"
proof -
  have key: "identityKey id ''a1'' ''google'' '' +1 (555) 010-9999 '' =
      Some \<lparr>ikAccountID = ''a1'', ikKind = ''e164'', ikCanonical = ''+15550109999''\<rparr>"
    by code_simp
  moreover have "asciiText (trimSpace '' +1 (555) 010-9999 '')" by code_simp
  ultimately show ?thesis using identityKey_canonical [OF key] by blast
qed

end
