(* ===== verification/Extras.thy ===== *)
theory Extras
  imports Messages
begin

text \<open>
  What ingestion adds to the message repository: the mutations of \<open>ingest_support.go\<close>, the search
  for a re-delivered message of \<open>content_dedupe.go\<close> and the extras of \<open>extras.go\<close>.

  \<open>encoding/json\<close> is a parameter \<open>json\<close>: what marshalling a payload and reading it back gives,
  \<open>None\<close> when the blocks are no JSON text.
\<close>

section \<open>Mutations\<close>

definition mutated :: "string \<Rightarrow> string \<Rightarrow> int \<Rightarrow> message \<Rightarrow> message" where
  "mutated kind body n m =
     (if kind = ''edit'' then m\<lparr>msBody := body, msState := ''edited'', msUpdatedAtMS := n\<rparr>
      else m\<lparr>msState := ''deleted'', msUpdatedAtMS := n\<rparr>)"

text \<open>The transaction: whether the message existed, and the store.\<close>

definition applyMessageMutation ::
  "gotime \<Rightarrow> string \<Rightarrow> string \<Rightarrow> string \<Rightarrow> string \<Rightarrow> string \<Rightarrow> string \<Rightarrow> store
     \<Rightarrow> store_error + (bool \<times> store)" where
  "applyMessageMutation t accountID conversationID remoteMessageID kind body inboxID s =
     (if kind \<notin> {''edit'', ''delete''} then failWith ''unsupported kind''
      else case sqlFind (\<lambda>r. inInboxID r = inboxID) (inbox s) of
        None \<Rightarrow> Inl (invalidMessageError [ErrOrphanMessage, ErrOrphanMessageInbox])
      | Some frame \<Rightarrow>
          if inAccountID frame \<noteq> accountID then Inl (invalidMessageError [ErrCrossAccountMessage])
          else thenDo (nowMS t) (\<lambda>n.
            let same = (\<lambda>m. messageKey m = (accountID, conversationID, remoteMessageID)) in
            case updateChecked same (mutated kind body n) messageRowOK (messages s) of
              Inl f \<Rightarrow> Inl (invalidMessageConstraintError [] f)
            | Inr rows \<Rightarrow>
                (case markProcessedRows inboxID accountID n (s\<lparr>messages := rows\<rparr>) of
                   Inl f \<Rightarrow> Inl (ErrInvalidInboxRecord # mapConstraintError f)
                 | Inr (affected, s1) \<Rightarrow> Inr (sqlExists same (messages s), s1))))"

section \<open>Re-delivered content\<close>

definition sameContent ::
  "string \<Rightarrow> string \<Rightarrow> string \<Rightarrow> string \<Rightarrow> string option \<Rightarrow> int \<Rightarrow> string \<Rightarrow> message \<Rightarrow> bool" where
  "sameContent accountID conversationID remoteMessageID direction sender occurredAt body m \<longleftrightarrow>
     msAccountID m = accountID \<and> msConversationID m = conversationID \<and>
     msOccurredAtMS m = occurredAt \<and> msDirection m = direction \<and> msBody m = body \<and>
     msSenderIdentityID m = sender \<and> msRemoteMessageID m \<noteq> remoteMessageID"

definition findMessageContentDuplicate ::
  "string \<Rightarrow> string \<Rightarrow> string \<Rightarrow> string \<Rightarrow> string option \<Rightarrow> int \<Rightarrow> string \<Rightarrow> store
     \<Rightarrow> message option" where
  "findMessageContentDuplicate accountID conversationID remoteMessageID direction sender occurredAt body s =
     (case sqlTop (\<lambda>m. (msCreatedAtMS m, msMessageID m)) 1
             (filter (sameContent accountID conversationID remoteMessageID direction sender occurredAt body)
               (messages s)) of
        [] \<Rightarrow> None | m # ms \<Rightarrow> Some m)"

section \<open>Extras\<close>

definition emptyPayload :: message_payload where
  "emptyPayload = \<lparr>mpBlocks = '''', mpTranscript = '''', mpTranscriptModel = '''',
     mpTranscribedAtMS = 0\<rparr>"

definition extraOf :: "string \<Rightarrow> store \<Rightarrow> message_extra option" where
  "extraOf messageID s = sqlFind (\<lambda>x. exMessageID x = messageID) (messageExtras s)"

definition messageExtrasFor :: "string list \<Rightarrow> store \<Rightarrow> string \<Rightarrow> message_extra option" where
  "messageExtrasFor messageIDs s m = (if m \<in> set messageIDs then extraOf m s else None)"

definition mergeMessagePayloadInto :: "message_payload \<Rightarrow> message_payload \<Rightarrow> message_payload" where
  "mergeMessagePayloadInto patch dst =
     (let transcribed = (mpTranscript patch \<noteq> '''' \<or> mpTranscribedAtMS patch \<noteq> 0 \<or>
                         mpTranscriptModel patch \<noteq> '''');
          d1 = (if mpBlocks patch \<noteq> '''' then dst\<lparr>mpBlocks := mpBlocks patch\<rparr> else dst);
          d2 = (if transcribed then
                  d1\<lparr>mpTranscript := mpTranscript patch, mpTranscriptModel := mpTranscriptModel patch,
                     mpTranscribedAtMS := mpTranscribedAtMS patch\<rparr>
                else d1)
      in if \<not> transcribed \<and> mpBlocks patch = '''' then emptyPayload\<lparr>mpBlocks := mpBlocks d2\<rparr> else d2)"

definition extraRowOK :: "message_extra \<Rightarrow> bool" where
  "extraRowOK x \<longleftrightarrow> nonblank (exMessageID x) \<and> 0 < exUpdatedAtMS x"

definition mergeMessagePayload ::
  "(message_payload \<Rightarrow> message_payload option) \<Rightarrow> gotime \<Rightarrow> string \<Rightarrow> message_payload \<Rightarrow> store
     \<Rightarrow> store_error + store" where
  "mergeMessagePayload json t messageID0 patch s =
     (let messageID = trimSpace messageID0;
          same = (\<lambda>x. exMessageID x = messageID)
      in
      if messageID = '''' then failWith ''message_id is empty''
      else thenDo (nowMS t) (\<lambda>n.
        let old = (case extraOf messageID s of None \<Rightarrow> emptyPayload | Some x \<Rightarrow> exPayload x) in
        case json (mergeMessagePayloadInto patch old) of
          None \<Rightarrow> failWith ''encode''
        | Some p \<Rightarrow>
            let new = \<lparr>exMessageID = messageID, exPayload = p, exUpdatedAtMS = n\<rparr> in
            if \<not> extraRowOK new then Inl [ErrSqlite CheckFault]
            else if sqlExists same (messageExtras s) then
              Inr (s\<lparr>messageExtras := sqlUpdate same (\<lambda>x. new) (messageExtras s)\<rparr>)
            else if \<not> hasMessage messageID s then Inl [ErrSqlite ForeignKeyFault]
            else Inr (s\<lparr>messageExtras := messageExtras s @ [new]\<rparr>)))"

text \<open>
  \<open>SetMessageTranscript\<close>: \<open>t\<close> is its own reading of the clock, \<open>u\<close> that of the merge. A transcript
  is never dated before the one it replaces.
\<close>

definition setMessageTranscript ::
  "(message_payload \<Rightarrow> message_payload option) \<Rightarrow> gotime \<Rightarrow> gotime \<Rightarrow> string \<Rightarrow> string \<Rightarrow> string option
     \<Rightarrow> store \<Rightarrow> store_error + store" where
  "setMessageTranscript json t u messageID0 transcript model s =
     (let messageID = trimSpace messageID0 in
      if messageID = '''' then failWith ''message_id is empty''
      else if \<not> hasMessage messageID s then Inl notFound
      else
        let current = (case extraOf messageID s of None \<Rightarrow> emptyPayload | Some x \<Rightarrow> exPayload x);
            modelToSave = (case model of None \<Rightarrow> mpTranscriptModel current | Some m \<Rightarrow> m)
        in if transcript = '''' then
             (if mpTranscript current = '''' \<and> mpTranscribedAtMS current = 0 \<and>
                 mpTranscriptModel current = '''' then Inr s
              else mergeMessagePayload json u messageID emptyPayload s)
           else if mpTranscript current = transcript \<and> mpTranscriptModel current = modelToSave \<and>
                mpTranscribedAtMS current \<noteq> 0 then Inr s
           else
             let n = (if unixMilliOf t \<le> mpTranscribedAtMS current
                      then mpTranscribedAtMS current + 1 else unixMilliOf t)
             in mergeMessagePayload json u messageID
                  (emptyPayload\<lparr>mpTranscript := transcript, mpTranscriptModel := modelToSave,
                     mpTranscribedAtMS := n\<rparr>) s)"

end
