(* ===== verification/Ingest_Base.thy ===== *)
theory Ingest_Base
  imports Service Identity_Graph Reactions Keys Extras "HOL-Library.Word"
begin

text \<open>
  What the ingest worker of \<open>internal/ingest\<close> computes with: the normalized events of
  \<open>internal/bridge/types.go\<close>, the counters, the worker's configuration and state, and actions
  that read and write the store.

  \<^item> An action may fail after it has written: what it wrote stays. Each call of the repositories is
    one transaction, numbered by \<open>igTick\<close>; \<open>ieBusy n\<close> says that SQLite answers the \<open>n\<close>-th with
    \<open>SQLITE_BUSY\<close> or \<open>SQLITE_LOCKED\<close>, and \<open>ieClock n\<close> holds the clock readings made during it.
  \<^item> Decoders, the echo observer, the digests and \<open>encoding/json\<close> are parameters: fields of
    \<open>ingest_env\<close>.
  \<^item> The worker's context only stops it; it is not modelled.
\<close>

section \<open>Events\<close>

record identity_ref =
  irKind :: string
  irCanonical :: string
  irRaw :: string
  irName :: string
  irIsSelf :: bool

record event_participant =
  epIdentity :: identity_ref
  epRole :: string
  epActive :: bool

record event_attachment =
  eaRemoteID :: string
  eaRemoteRef :: string
  eaFilename :: string
  eaMIME :: string
  eaSize :: int

record conversation_event =
  ceRemoteConversationID :: string
  ceKind :: string
  ceTitle :: string
  ceParticipants :: "event_participant list"
  ceRemoteRevision :: string

record message_event =
  meRemoteConversationID :: string
  meRemoteMessageID :: string
  meClientRequestID :: string
  meSender :: identity_ref
  meDirection :: string
  meBody :: string
  meAttachments :: "event_attachment list"
  meReplyToRemoteID :: string
  meOccurredAt :: gotime
  meLayoutJSON :: string

record mutation_event =
  muRemoteConversationID :: string
  muRemoteMessageID :: string
  muKind :: string
  muBody :: string
  muOccurredAt :: gotime

record reaction_event =
  rvRemoteConversationID :: string
  rvTargetRemoteMessageID :: string
  rvActor :: identity_ref
  rvEmoji :: string
  rvAction :: string
  rvOccurredAt :: gotime

record receipt_event =
  rrRemoteConversationID :: string
  rrRemoteMessageIDs :: "string list"
  rrActor :: identity_ref
  rrStatus :: string
  rrOccurredAt :: gotime

record event =
  evAccountID :: string
  evSourceInboxID :: string
  evKind :: string
  evConversation :: "conversation_event option"
  evMessage :: "message_event option"
  evMessageMutation :: "mutation_event option"
  evReaction :: "reaction_event option"
  evReceipt :: "receipt_event option"

record raw_ingress =
  riAccountID :: string
  riGeneration :: nat
  riDedupeKey :: string
  riCodec :: string
  riCodecVersion :: nat
  riReceivedAt :: gotime
  riPayload :: string

abbreviation PlatformGoogle :: string where "PlatformGoogle \<equiv> ''google''"
abbreviation PlatformWhatsApp :: string where "PlatformWhatsApp \<equiv> ''whatsapp''"
abbreviation PlatformSignal :: string where "PlatformSignal \<equiv> ''signal''"
abbreviation PlatformSlack :: string where "PlatformSlack \<equiv> ''slack''"

section \<open>Counters, configuration and state\<close>

datatype ingest_counter =
    CntAppended | CntDeduped | CntDecodedEvents | CntProjected | CntImported | CntMutations
  | CntReactionsApplied | CntReactionsRemoved | CntReactionsOrphaned | CntTapbackMessages
  | CntEmptyStubsSkipped | CntReceiptsSelf | CntReceiptsDropped | CntAppendErrors
  | CntQuarantined | CntStaleReplays | CntEchoReconciled | CntEchoEnriched | CntEchoNoop
  | CntEchoNotFound | CntEchoErrors | CntEphemeral | CntRemoteRebinds | CntContentDupesSkipped

datatype decoded = Decoded "event list" | DecodeFailed | DecodePanicked

datatype echo_answer = EchoFailed | EchoObserved reconcile_outcome | EchoPanicked

record ingest_env =
  ieDecoders :: "string \<Rightarrow> (string \<times> (raw_ingress \<Rightarrow> decoded)) option"
  ieObserver :: "((nat \<Rightarrow> gotime) \<Rightarrow> transport_echo \<Rightarrow> store \<Rightarrow> echo_answer \<times> store) option"
  ieBusy :: "nat \<Rightarrow> bool"
  ieClock :: "nat \<Rightarrow> nat \<Rightarrow> gotime"
  ieSHA256 :: "string \<Rightarrow> string"
  ieSHA1 :: "string \<Rightarrow> string"
  ieUnicodeLower :: "string \<Rightarrow> string"
  ieJSONValid :: "string \<Rightarrow> bool"
  ieJSON :: "message_payload \<Rightarrow> message_payload option"
  ieQueueCapacity :: nat

record work_item =
  wiInboxID :: string
  wiRecord :: raw_ingress
  wiReplay :: bool

record ingest =
  igStore :: store
  igCounts :: "string \<Rightarrow> ingest_counter \<Rightarrow> 64 word"
  igTick :: nat
  igQueue :: "work_item list"
  igChanges :: nat

text \<open>
  Why an action fails: the repository refused, the database was busy, the event was refused, the
  echo observer panicked, or a loop of the code has not come to its end.
\<close>

datatype ingest_error =
    StoreRefusal store_error | DatabaseBusy | Refused string | Panicked | Diverged

section \<open>Actions\<close>

type_synonym 'a act = "ingest \<Rightarrow> (ingest_error + 'a) \<times> ingest"

definition give :: "'a \<Rightarrow> 'a act" where
  "give x w = (Inr x, w)"

definition refuse :: "ingest_error \<Rightarrow> 'a act" where
  "refuse e w = (Inl e, w)"

definition andThen :: "'a act \<Rightarrow> ('a \<Rightarrow> 'b act) \<Rightarrow> 'b act" where
  "andThen m f w = (case m w of (Inl e, w1) \<Rightarrow> (Inl e, w1) | (Inr x, w1) \<Rightarrow> f x w1)"

abbreviation andDo :: "unit act \<Rightarrow> 'b act \<Rightarrow> 'b act" where
  "andDo m k \<equiv> andThen m (\<lambda>_. k)"

definition ticked :: "ingest \<Rightarrow> ingest" where
  "ticked w = w\<lparr>igTick := Suc (igTick w)\<rparr>"

text \<open>A read of the store.\<close>

definition query :: "ingest_env \<Rightarrow> (store \<Rightarrow> store_error + 'a) \<Rightarrow> 'a act" where
  "query env f w =
     (if ieBusy env (igTick w) then (Inl DatabaseBusy, ticked w)
      else case f (igStore w) of Inl e \<Rightarrow> (Inl (StoreRefusal e), ticked w) | Inr x \<Rightarrow> (Inr x, ticked w))"

text \<open>A transaction, given the clock readings made during it.\<close>

definition exec ::
  "ingest_env \<Rightarrow> ((nat \<Rightarrow> gotime) \<Rightarrow> store \<Rightarrow> store_error + ('a \<times> store)) \<Rightarrow> 'a act" where
  "exec env f w =
     (if ieBusy env (igTick w) then (Inl DatabaseBusy, ticked w)
      else case f (ieClock env (igTick w)) (igStore w) of
        Inl e \<Rightarrow> (Inl (StoreRefusal e), ticked w)
      | Inr (x, s) \<Rightarrow> (Inr x, (ticked w)\<lparr>igStore := s\<rparr>))"

definition unitResult :: "store_error + store \<Rightarrow> store_error + (unit \<times> store)" where
  "unitResult r = (case r of Inl e \<Rightarrow> Inl e | Inr s \<Rightarrow> Inr ((), s))"

text \<open>\<open>errors.Is(err, ErrNotFound)\<close> as \<open>None\<close>.\<close>

definition found :: "'a act \<Rightarrow> 'a option act" where
  "found m w =
     (case m w of
        (Inr x, w1) \<Rightarrow> (Inr (Some x), w1)
      | (Inl (StoreRefusal e), w1) \<Rightarrow>
          if errorsIs e ErrNotFound then (Inr None, w1) else (Inl (StoreRefusal e), w1)
      | (Inl e, w1) \<Rightarrow> (Inl e, w1))"

definition readNow :: "ingest_env \<Rightarrow> int act" where
  "readNow env w =
     (let n = unixMilliOf (ieClock env (igTick w) 0) in
      (if n \<le> 0 then Inl (Refused ''ingest worker clock is not positive'') else Inr n, ticked w))"

definition addCount :: "string \<Rightarrow> ingest_counter \<Rightarrow> nat \<Rightarrow> ingest \<Rightarrow> ingest" where
  "addCount a c n w =
     w\<lparr>igCounts := (igCounts w)(a := (igCounts w a)(c := igCounts w a c + of_nat n))\<rparr>"

definition count1 :: "string \<Rightarrow> ingest_counter \<Rightarrow> unit act" where
  "count1 a c w = (Inr (), addCount a c 1 w)"

text \<open>A loop over a list that stops at the first failure.\<close>

fun foldActs :: "('a \<Rightarrow> 'b \<Rightarrow> 'b act) \<Rightarrow> 'a list \<Rightarrow> 'b \<Rightarrow> 'b act" where
  "foldActs f [] b = give b"
| "foldActs f (x # xs) b = andThen (f x b) (foldActs f xs)"

section \<open>Values\<close>

definition conversationKind :: "string \<Rightarrow> string \<Rightarrow> string option" where
  "conversationKind v fallback =
     (let kind = trimSpace v in
      if kind = '''' then Some fallback
      else if kind \<in> {''direct'', ''group'', ''broadcast'', ''system''} then Some kind else None)"

definition participantRole :: "string \<Rightarrow> string option" where
  "participantRole v =
     (let role = trimSpace v in
      if role = '''' \<or> role = ''member'' then Some ''member''
      else if role \<in> {''admin'', ''owner'', ''unknown''} then Some role else None)"

definition messageDirection :: "string \<Rightarrow> string option" where
  "messageDirection v =
     (let direction = trimSpace v in
      if direction \<in> {MessageDirectionIncoming, MessageDirectionOutgoing} then Some direction else None)"

definition optionalTrimmed :: "string \<Rightarrow> string option" where
  "optionalTrimmed v = (let t = trimSpace v in if t = '''' then None else Some t)"

definition identityRaw :: "identity_ref \<Rightarrow> string" where
  "identityRaw r = (let raw = trimSpace (irRaw r) in if raw = '''' then trimSpace (irCanonical r) else raw)"

definition contains :: "string \<Rightarrow> string \<Rightarrow> bool" where
  "contains s p = list_ex (\<lambda>t. hasPrefix t p) (suffixesOf s)"

text \<open>\<open>strconv.ParseInt(s, 10, 64)\<close>.\<close>

definition digitsValue :: "string \<Rightarrow> int" where
  "digitsValue s = foldl (\<lambda>n c. n * 10 + (of_char c - 48)) 0 s"

definition parseInt64 :: "string \<Rightarrow> int option" where
  "parseInt64 s =
     (let digits = (case s of [] \<Rightarrow> [] | c # cs \<Rightarrow> if c = CHR ''-'' \<or> c = CHR ''+'' then cs else s);
          n = (if hasPrefix s ''-'' then - digitsValue digits else digitsValue digits)
      in if digits = '''' \<or> \<not> list_all decimalDigit digits then None
         else if - (2 ^ 63) \<le> n \<and> n < 2 ^ 63 then Some n else None)"

end
