(* ===== verification/Ingest_Threads.thy ===== *)
theory Ingest_Threads
  imports Ingest_Base
begin

text \<open>
  Which identity and which conversation a frame belongs to: \<open>resolveIdentity\<close>,
  \<open>existingConversation\<close>, \<open>ensureMessageConversation\<close> and \<open>refreshConversation\<close> of \<open>worker.go\<close>, the
  guards of \<open>idspace.go\<close> that trust the participants of a Google thread over its device-local
  number, and the direct peers of \<open>participants.go\<close>.
\<close>

section \<open>Identities\<close>

definition newIdentity ::
  "ingest_env \<Rightarrow> string \<Rightarrow> identity_key \<Rightarrow> string \<Rightarrow> identity_ref \<Rightarrow> int \<Rightarrow> identity" where
  "newIdentity env accountID key raw r n = \<lparr>
     idIdentityID = deriveID (ieSHA256 env) ''identity'' accountID
       (ikKind key @ unitSeparator @ ikCanonical key),
     idAccountID = accountID, idKind = ikKind key, idCanonicalValue = ikCanonical key,
     idRawValue = raw, idDisplayName = trimSpace (irName r), idIsSelf = irIsSelf r,
     idMetadataJSON = ''{}'', idCreatedAtMS = n, idUpdatedAtMS = n\<rparr>"

definition refreshedIdentity :: "string \<Rightarrow> identity_ref \<Rightarrow> int \<Rightarrow> identity \<Rightarrow> identity" where
  "refreshedIdentity raw r n i =
     i\<lparr>idRawValue := raw,
       idDisplayName := (if trimSpace (irName r) \<noteq> '''' then trimSpace (irName r) else idDisplayName i),
       idIsSelf := (idIsSelf i \<or> irIsSelf r), idUpdatedAtMS := n\<rparr>"

definition resolveIdentity ::
  "ingest_env \<Rightarrow> string \<Rightarrow> string \<Rightarrow> identity_ref \<Rightarrow> identity act" where
  "resolveIdentity env accountID platform r =
     (let raw = identityRaw r in
      case identityKey (ieUnicodeLower env) accountID platform raw of
        None \<Rightarrow> refuse (Refused ''identity'')
      | Some key \<Rightarrow>
          let get = query env (getIdentityByCanonical accountID (ikKind key) (ikCanonical key)) in
          andThen (readNow env) (\<lambda>n.
          andThen (found get) (\<lambda>stored.
            let identity = (case stored of
                  None \<Rightarrow> newIdentity env accountID key raw r n
                | Some i \<Rightarrow> refreshedIdentity raw r n i)
            in andDo (exec env (\<lambda>c s. unitResult (upsertIdentity (ieJSONValid env) identity s))) get)))"

section \<open>Conversations\<close>

text \<open>The normalized remote ID and the conversation it names, if any.\<close>

definition existingConversation ::
  "ingest_env \<Rightarrow> string \<Rightarrow> string \<Rightarrow> string \<Rightarrow> (conversation option \<times> string) act" where
  "existingConversation env accountID platform remoteConversationID =
     (let remoteID = normalizeRemoteConversationID platform remoteConversationID in
      if blank remoteID then refuse (Refused ''conversation remote ID is empty'')
      else andThen (found (query env (getConversationByRemote accountID remoteID))) (\<lambda>c.
        give (c, remoteID)))"

text \<open>
  \<open>mintConversationID\<close>: the candidates are the derived ID and its salted variants. The loop of the
  code has no bound; here it runs for one candidate more than there are conversations.
\<close>

definition mintCandidate :: "ingest_env \<Rightarrow> string \<Rightarrow> string \<Rightarrow> nat \<Rightarrow> string" where
  "mintCandidate env accountID remoteID salt =
     deriveID (ieSHA256 env) ''conversation'' accountID
       (if salt = 0 then remoteID
        else remoteID @ unitSeparator @ ''rebind'' @ unitSeparator @ formatInt (int salt))"

fun mintLoop :: "ingest_env \<Rightarrow> string \<Rightarrow> string \<Rightarrow> nat \<Rightarrow> nat \<Rightarrow> string act" where
  "mintLoop env accountID remoteID salt 0 = refuse Diverged"
| "mintLoop env accountID remoteID salt (Suc fuel) =
     (let candidate = mintCandidate env accountID remoteID salt in
      andThen (found (query env (getConversation candidate))) (\<lambda>c.
        case c of None \<Rightarrow> give candidate
        | Some _ \<Rightarrow> mintLoop env accountID remoteID (Suc salt) fuel))"

definition mintConversationID :: "ingest_env \<Rightarrow> string \<Rightarrow> string \<Rightarrow> string act" where
  "mintConversationID env accountID remoteID w =
     mintLoop env accountID remoteID 0 (Suc (length (conversations (igStore w)))) w"

definition newConversation :: "string \<Rightarrow> string \<Rightarrow> string \<Rightarrow> string \<Rightarrow> int \<Rightarrow> int \<Rightarrow> conversation" where
  "newConversation conversationID accountID remoteID kind lastMessageAt n = \<lparr>
     cvConversationID = conversationID, cvAccountID = accountID, cvRemoteConversationID = remoteID,
     cvKind = kind, cvTitle = '''', cvRemoteRevision = None, cvNotificationMode = ''all'',
     cvIsFavorite = False, cvArchivedAtMS = None, cvLastMessageAtMS = lastMessageAt,
     cvMetadataJSON = ''{}'', cvCreatedAtMS = n, cvUpdatedAtMS = n\<rparr>"

definition storeConversation :: "ingest_env \<Rightarrow> conversation \<Rightarrow> conversation act" where
  "storeConversation env c =
     andDo (exec env (\<lambda>_ s. unitResult (upsertConversation (ieJSONValid env) c s)))
       (query env (getConversationByRemote (cvAccountID c) (cvRemoteConversationID c)))"

definition conversationKindForRemoteID :: "string \<Rightarrow> string \<Rightarrow> string option" where
  "conversationKindForRemoteID platform remoteConversationID =
     (let v = trimSpace remoteConversationID in
      if v = '''' then None
      else if platform = PlatformSignal then
        (if hasPrefix v ''signal-group:'' then Some ''group''
         else if hasPrefix v ''signal:'' then Some ''direct'' else None)
      else if platform = PlatformWhatsApp then
        (if contains v ''@g.us'' then Some ''group''
         else if contains v ''@broadcast'' then Some ''broadcast''
         else if contains v ''@'' then Some ''direct'' else None)
      else if platform = PlatformSlack then
        (if hasPrefix v ''D'' then Some ''direct''
         else if hasPrefix v ''C'' \<or> hasPrefix v ''G'' then Some ''group'' else None)
      else None)"

definition ensureMessageConversation ::
  "ingest_env \<Rightarrow> string \<Rightarrow> string \<Rightarrow> string \<Rightarrow> int \<Rightarrow> (conversation \<times> string) act" where
  "ensureMessageConversation env accountID platform remoteConversationID occurredAt0 =
     andThen (existingConversation env accountID platform remoteConversationID) (\<lambda>(stored, remoteID).
       case stored of Some c \<Rightarrow> give (c, remoteID)
       | None \<Rightarrow>
           andThen (if occurredAt0 \<le> 0 then readNow env else give occurredAt0) (\<lambda>occurredAt.
           andThen (mintConversationID env accountID remoteID) (\<lambda>conversationID.
             let kind = (case conversationKindForRemoteID platform remoteID of
                   None \<Rightarrow> ''direct'' | Some k \<Rightarrow> k)
             in andThen (storeConversation env
                  (newConversation conversationID accountID remoteID kind occurredAt occurredAt))
                  (\<lambda>c. give (c, remoteID)))))"

section \<open>Rebinding Google threads\<close>

definition identitiesContain :: "identity list \<Rightarrow> string \<Rightarrow> bool" where
  "identitiesContain is i = list_ex (\<lambda>x. idIdentityID x = i) is"

definition rostersConsistent :: "bool \<Rightarrow> identity list \<Rightarrow> identity list \<Rightarrow> bool" where
  "rostersConsistent direct eventPeers storedPeers =
     (if direct then length eventPeers = length storedPeers \<and>
        list_all (\<lambda>p. identitiesContain storedPeers (idIdentityID p)) eventPeers
      else list_ex (\<lambda>p. identitiesContain storedPeers (idIdentityID p)) eventPeers)"

definition findThreadByRoster ::
  "ingest_env \<Rightarrow> string \<Rightarrow> bool \<Rightarrow> identity list \<Rightarrow> conversation act" where
  "findThreadByRoster env accountID direct peers =
     (if direct then
        (case peers of
           [p] \<Rightarrow> query env (findDirectConversationBySolePeer accountID (idIdentityID p))
         | _ \<Rightarrow> refuse (StoreRefusal notFound))
      else query env (findGroupConversationByPeerSet accountID (map idIdentityID peers)))"

definition bindRemoteConversationID ::
  "ingest_env \<Rightarrow> string \<Rightarrow> string \<Rightarrow> conversation \<Rightarrow> conversation act" where
  "bindRemoteConversationID env accountID remoteID target =
     (if cvRemoteConversationID target = remoteID then give target
      else andThen (readNow env) (\<lambda>n.
        andDo (exec env (\<lambda>_ s. unitResult
          (reassignConversationRemoteID accountID remoteID (cvConversationID target) n s)))
        (andDo (count1 accountID CntRemoteRebinds)
          (give (target\<lparr>cvRemoteConversationID := remoteID\<rparr>)))))"

text \<open>The holder gives the ID up and a fresh thread takes it.\<close>

definition displaceAndMint ::
  "ingest_env \<Rightarrow> string \<Rightarrow> string \<Rightarrow> string \<Rightarrow> int \<Rightarrow> int option \<Rightarrow> conversation act" where
  "displaceAndMint env accountID remoteID kind lastMessageAt created =
     andThen (readNow env) (\<lambda>n.
     andThen (exec env (\<lambda>_ s. displaceConversationRemoteID accountID remoteID n s)) (\<lambda>_.
     andThen (mintConversationID env accountID remoteID) (\<lambda>conversationID.
     andThen (storeConversation env (newConversation conversationID accountID remoteID kind
         lastMessageAt (case created of None \<Rightarrow> n | Some t \<Rightarrow> t))) (\<lambda>c.
     andDo (count1 accountID CntRemoteRebinds) (give c)))))"

definition rerouteGoogleDirect ::
  "ingest_env \<Rightarrow> string \<Rightarrow> string \<Rightarrow> identity \<Rightarrow> int \<Rightarrow> conversation act" where
  "rerouteGoogleDirect env accountID remoteID sender occurredAt =
     andThen (found (query env (findDirectConversationBySolePeer accountID (idIdentityID sender)))) (\<lambda>t.
       case t of Some target \<Rightarrow> bindRemoteConversationID env accountID remoteID target
       | None \<Rightarrow> displaceAndMint env accountID remoteID ''direct'' occurredAt (Some occurredAt))"

definition googleIncomingConversation ::
  "ingest_env \<Rightarrow> string \<Rightarrow> string \<Rightarrow> string \<Rightarrow> identity \<Rightarrow> int \<Rightarrow> (conversation \<times> string) act" where
  "googleIncomingConversation env accountID platform remoteConversationID sender occurredAt =
     andThen (existingConversation env accountID platform remoteConversationID) (\<lambda>(stored, remoteID).
       case stored of
         Some c \<Rightarrow>
           if cvKind c \<noteq> ''direct'' then give (c, remoteID)
           else andThen (query env (\<lambda>s. Inr (listConversationPeerIdentities accountID (cvConversationID c) s)))
             (\<lambda>peers.
               if peers = [] \<or> identitiesContain peers (idIdentityID sender) then give (c, remoteID)
               else andThen (rerouteGoogleDirect env accountID remoteID sender occurredAt) (\<lambda>t.
                 give (t, remoteID)))
       | None \<Rightarrow>
           andThen (found (query env (findDirectConversationBySolePeer accountID (idIdentityID sender)))) (\<lambda>t.
             case t of
               Some target \<Rightarrow> andThen (bindRemoteConversationID env accountID remoteID target) (\<lambda>c.
                 give (c, remoteID))
             | None \<Rightarrow> ensureMessageConversation env accountID platform remoteConversationID occurredAt))"

text \<open>The participants of an event that can prove or disprove a binding.\<close>

definition resolvePeer ::
  "ingest_env \<Rightarrow> string \<Rightarrow> string \<Rightarrow> event_participant \<Rightarrow> identity list \<Rightarrow> identity list act" where
  "resolvePeer env accountID platform p peers =
     (if irIsSelf (epIdentity p) \<or> identityRaw (epIdentity p) = '''' then give peers
      else andThen (resolveIdentity env accountID platform (epIdentity p)) (\<lambda>i.
        if idIsSelf i \<or> identitiesContain peers (idIdentityID i) then give peers else give (peers @ [i])))"

definition resolveEventPeers ::
  "ingest_env \<Rightarrow> string \<Rightarrow> string \<Rightarrow> conversation_event \<Rightarrow> identity list act" where
  "resolveEventPeers env accountID platform e =
     foldActs (resolvePeer env accountID platform) (ceParticipants e) []"

text \<open>Not finding a row is the error that lets the caller mint one.\<close>

definition googleConversationEventTarget ::
  "ingest_env \<Rightarrow> string \<Rightarrow> string \<Rightarrow> conversation_event \<Rightarrow> string \<Rightarrow> conversation option
     \<Rightarrow> conversation act" where
  "googleConversationEventTarget env accountID platform e remoteID stored =
     andThen (resolveEventPeers env accountID platform e) (\<lambda>eventPeers.
       let direct = (ceKind e \<noteq> ''group'') in
       case stored of
         None \<Rightarrow>
           if eventPeers = [] then refuse (StoreRefusal notFound)
           else andThen (found (findThreadByRoster env accountID direct eventPeers)) (\<lambda>t.
             case t of None \<Rightarrow> refuse (StoreRefusal notFound)
             | Some target \<Rightarrow> bindRemoteConversationID env accountID remoteID target)
       | Some c \<Rightarrow>
           if eventPeers = [] then give c
           else andThen (query env (\<lambda>s. Inr (listConversationPeerIdentities accountID (cvConversationID c) s)))
             (\<lambda>storedPeers.
               if storedPeers = [] \<or> rostersConsistent direct eventPeers storedPeers then give c
               else andThen (found (findThreadByRoster env accountID direct eventPeers)) (\<lambda>t.
                 case t of
                   Some target \<Rightarrow> bindRemoteConversationID env accountID remoteID target
                 | None \<Rightarrow> displaceAndMint env accountID remoteID
                     (if direct then ''direct'' else ''group'') 0 None)))"

section \<open>Conversation events\<close>

text \<open>
  The prepared participants, each under its natural key: an agreeing duplicate folds into the
  first entry, a disagreeing one refuses the snapshot.
\<close>

fun prepareParticipants ::
  "ingest_env \<Rightarrow> string \<Rightarrow> string \<Rightarrow> event_participant list
     \<Rightarrow> (string \<times> event_participant \<times> string) list
     \<Rightarrow> string + (string \<times> event_participant \<times> string) list" where
  "prepareParticipants env accountID platform [] prepared = Inr prepared"
| "prepareParticipants env accountID platform (p # ps) prepared =
     (case identityKey (ieUnicodeLower env) accountID platform (identityRaw (epIdentity p)) of
        None \<Rightarrow> Inl ''identity''
      | Some key \<Rightarrow>
          let naturalKey = ikKind key @ unitSeparator @ ikCanonical key in
          (case participantRole (epRole p) of
             None \<Rightarrow> Inl ''invalid participant role''
           | Some role \<Rightarrow>
               (case sqlFind (\<lambda>(k, _). k = naturalKey) prepared of
                  None \<Rightarrow> prepareParticipants env accountID platform ps (prepared @ [(naturalKey, p, role)])
                | Some (_, kept, keptRole) \<Rightarrow>
                    if keptRole \<noteq> role \<or> epActive kept \<noteq> epActive p then
                      Inl ''duplicated with conflicting state''
                    else prepareParticipants env accountID platform ps
                      (sqlUpdate (\<lambda>(k, _). k = naturalKey)
                        (\<lambda>(k, q, r). (k, q\<lparr>epIdentity := (epIdentity q)\<lparr>irIsSelf :=
                           irIsSelf (epIdentity q) \<or> irIsSelf (epIdentity p)\<rparr>\<rparr>, r)) prepared))))"

definition eventParticipant ::
  "ingest_env \<Rightarrow> string \<Rightarrow> string \<Rightarrow> string \<Rightarrow> (string \<times> event_participant \<times> string)
     \<Rightarrow> participant list \<Rightarrow> participant list act" where
  "eventParticipant env accountID platform conversationID item ps =
     (case item of (_, p, role) \<Rightarrow>
        andThen (resolveIdentity env accountID platform (epIdentity p)) (\<lambda>i.
          give (ps @ [\<lparr>cpAccountID = accountID, cpConversationID = conversationID,
            cpIdentityID = idIdentityID i, cpRole = role, cpDisplayName = irName (epIdentity p),
            cpIsActive = epActive p, cpJoinedAtMS = None, cpLeftAtMS = None\<rparr>])))"

text \<open>The row the event refreshes or, when there is none, the row it creates.\<close>

definition refreshedConversation ::
  "ingest_env \<Rightarrow> string \<Rightarrow> conversation_event \<Rightarrow> string \<Rightarrow> int \<Rightarrow> conversation option
     \<Rightarrow> conversation act" where
  "refreshedConversation env accountID e remoteID n target =
     (case target of
        None \<Rightarrow>
          (case conversationKind (ceKind e) ''direct'' of
             None \<Rightarrow> refuse (Refused ''invalid conversation kind'')
           | Some kind \<Rightarrow> andThen (mintConversationID env accountID remoteID) (\<lambda>conversationID.
               give ((newConversation conversationID accountID remoteID kind 0 n)
                 \<lparr>cvTitle := ceTitle e, cvRemoteRevision := optionalTrimmed (ceRemoteRevision e)\<rparr>)))
      | Some c \<Rightarrow>
          (case (if blank (ceKind e) then Some (cvKind c) else conversationKind (ceKind e) (cvKind c)) of
             None \<Rightarrow> refuse (Refused ''invalid conversation kind'')
           | Some kind \<Rightarrow> give (c\<lparr>cvKind := kind, cvTitle := ceTitle e,
               cvRemoteRevision := optionalTrimmed (ceRemoteRevision e), cvUpdatedAtMS := n\<rparr>)))"

definition refreshConversation ::
  "ingest_env \<Rightarrow> string \<Rightarrow> string \<Rightarrow> conversation_event \<Rightarrow> conversation act" where
  "refreshConversation env accountID platform e =
     (let remoteID = normalizeRemoteConversationID platform (ceRemoteConversationID e) in
      if blank remoteID then refuse (Refused ''conversation remote ID is empty'')
      else case prepareParticipants env accountID platform (ceParticipants e) [] of
        Inl d \<Rightarrow> refuse (Refused d)
      | Inr prepared \<Rightarrow>
          andThen (readNow env) (\<lambda>n.
          andThen (found (query env (getConversationByRemote accountID remoteID))) (\<lambda>stored.
          andThen (if platform = PlatformGoogle
                   then found (googleConversationEventTarget env accountID platform e remoteID stored)
                   else give stored) (\<lambda>target.
          andThen (refreshedConversation env accountID e remoteID n target) (\<lambda>c.
          andDo (exec env (\<lambda>_ s. unitResult (upsertConversation (ieJSONValid env) c s)))
          (andThen (query env (getConversationByRemote accountID remoteID)) (\<lambda>c1.
          andThen (foldActs (eventParticipant env accountID platform (cvConversationID c1)) prepared [])
            (\<lambda>ps.
          andDo (exec env (\<lambda>_ s. unitResult (replaceConversationParticipants (cvConversationID c1) ps s)))
            (give c1)))))))))"

section \<open>Direct peers\<close>

definition ensureDirectPeerParticipant :: "ingest_env \<Rightarrow> conversation \<Rightarrow> identity \<Rightarrow> unit act" where
  "ensureDirectPeerParticipant env c i =
     (if cvKind c \<noteq> ''direct'' then give ()
      else if idIsSelf i \<or> blank (idIdentityID i) then give ()
      else andThen (exec env (\<lambda>_ s. ensureConversationParticipant
        \<lparr>cpAccountID = cvAccountID c, cpConversationID = cvConversationID c,
         cpIdentityID = idIdentityID i, cpRole = ''member'', cpDisplayName = idDisplayName i,
         cpIsActive = True, cpJoinedAtMS = None, cpLeftAtMS = None\<rparr> s)) (\<lambda>_. give ()))"

definition directPeerAddress :: "string \<Rightarrow> string \<Rightarrow> string" where
  "directPeerAddress platform remoteConversationID =
     (let v = trimSpace remoteConversationID in
      if v = '''' then ''''
      else if platform = PlatformSignal then
        (if hasPrefix v ''signal-group:'' then '''' else trimSpace (trimPrefix v ''signal:''))
      else if platform = PlatformWhatsApp then
        (let jid = trimSpace (trimPrefix v ''whatsapp:'') in
         if jid = '''' \<or> contains jid ''@g.us'' \<or> contains jid ''@broadcast'' then '''' else jid)
      else '''')"

text \<open>An identity that cannot be resolved does not fail the message.\<close>

definition ensureDirectPeerFromRemoteID ::
  "ingest_env \<Rightarrow> string \<Rightarrow> string \<Rightarrow> conversation \<Rightarrow> string \<Rightarrow> unit act" where
  "ensureDirectPeerFromRemoteID env accountID platform c remoteConversationID w =
     (let address = directPeerAddress platform remoteConversationID in
      if cvKind c \<noteq> ''direct'' \<or> address = '''' then give () w
      else case resolveIdentity env accountID platform
                  \<lparr>irKind = '''', irCanonical = '''', irRaw = address, irName = '''', irIsSelf = False\<rparr> w of
        (Inl e, w1) \<Rightarrow> (Inr (), w1)
      | (Inr i, w1) \<Rightarrow> ensureDirectPeerParticipant env c i w1)"

end
