(* ===== verification/Ingest.thy ===== *)
theory Ingest
  imports Ingest_Threads
begin

text \<open>
  The ingest worker of \<open>internal/ingest/worker.go\<close> and the sink of \<open>sink.go\<close>: the projection of a
  message event, the phases in which the events of one frame are applied, the handling of a frame
  with the retries and the quarantine of \<open>quarantine.go\<close>, the drain of the inbox and the loop.
\<close>

section \<open>Message events\<close>

definition observeEcho ::
  "ingest_env \<Rightarrow> string \<Rightarrow> message_event \<Rightarrow> string \<Rightarrow> unit act" where
  "observeEcho env accountID e remoteMessageID w =
     (case ieObserver env of
        None \<Rightarrow> refuse (Refused ''echo observer is unavailable'') w
      | Some observe \<Rightarrow>
          let (answer, s) = observe (ieClock env (igTick w))
                \<lparr>ecAccountID = accountID, ecTransportRequestID = meClientRequestID e,
                 ecRemoteMessageID = remoteMessageID\<rparr> (igStore w);
              w1 = (ticked w)\<lparr>igStore := s\<rparr>
          in case answer of
               EchoPanicked \<Rightarrow> (Inl Panicked, w1)
             | EchoFailed \<Rightarrow> count1 accountID CntEchoErrors w1
             | EchoObserved outcome \<Rightarrow> count1 accountID
                 (case outcome of
                    ReconcileOutcomeEnriched \<Rightarrow> CntEchoEnriched
                  | ReconcileOutcomeNotFound \<Rightarrow> CntEchoNotFound
                  | ReconcileOutcomeNoop \<Rightarrow> CntEchoNoop
                  | ReconcileOutcomeReconciled \<Rightarrow> CntEchoReconciled) w1)"

definition signalOutgoingRemoteID ::
  "ingest_env \<Rightarrow> string \<Rightarrow> string \<Rightarrow> string \<Rightarrow> string \<Rightarrow> string act" where
  "signalOutgoingRemoteID env accountID conversationID remoteConversationID remoteMessageID =
     andThen (found (query env (getMessageByRemote accountID conversationID remoteMessageID))) (\<lambda>m.
       if m \<noteq> None then give remoteMessageID
       else case parseInt64 remoteMessageID of
         None \<Rightarrow> give remoteMessageID
       | Some timestamp \<Rightarrow>
           let alias = signalLocalAlias (ieSHA1 env) remoteConversationID timestamp in
           andThen (found (query env (getMessageByRemote accountID conversationID alias))) (\<lambda>a.
             give (if a = None then remoteMessageID else alias)))"

fun messageAttachments_of :: "nat \<Rightarrow> event_attachment list \<Rightarrow> message_attachment list" where
  "messageAttachments_of i [] = []"
| "messageAttachments_of i (a # as) =
     \<lparr>maMessageID = '''', maOrdinal = int i, maRemoteID = eaRemoteID a, maRemoteRef = eaRemoteRef a,
      maFilename = eaFilename a, maMIME = eaMIME a, maSizeBytes = Some (eaSize a),
      maDownloaded = False, maBlobHash = None, maLastError = None, maCreatedAtMS = 0,
      maUpdatedAtMS = 0\<rparr> # messageAttachments_of (Suc i) as"

definition eventSender ::
  "ingest_env \<Rightarrow> string \<Rightarrow> string \<Rightarrow> string \<Rightarrow> message_event \<Rightarrow> identity option act" where
  "eventSender env accountID platform direction e =
     (if direction \<noteq> MessageDirectionOutgoing \<and> \<not> irIsSelf (meSender e) \<and> identityRaw (meSender e) \<noteq> ''''
      then andThen (resolveIdentity env accountID platform (meSender e)) (\<lambda>i. give (Some i))
      else give None)"

definition messageConversation ::
  "ingest_env \<Rightarrow> string \<Rightarrow> string \<Rightarrow> message_event \<Rightarrow> identity option \<Rightarrow> int
     \<Rightarrow> (conversation \<times> string) act" where
  "messageConversation env accountID platform e sender occurredAt =
     (case sender of
        Some i \<Rightarrow>
          if platform = PlatformGoogle then
            googleIncomingConversation env accountID platform (meRemoteConversationID e) i occurredAt
          else ensureMessageConversation env accountID platform (meRemoteConversationID e) occurredAt
      | None \<Rightarrow> ensureMessageConversation env accountID platform (meRemoteConversationID e) occurredAt)"

definition projectedMessage ::
  "ingest_env \<Rightarrow> string \<Rightarrow> message_event \<Rightarrow> conversation \<Rightarrow> string \<Rightarrow> string \<Rightarrow> string
     \<Rightarrow> identity option \<Rightarrow> int \<Rightarrow> message" where
  "projectedMessage env accountID e c remoteConversationID remoteMessageID direction sender occurredAt = \<lparr>
     msMessageID = messageID (ieSHA256 env) accountID remoteConversationID remoteMessageID,
     msConversationID = cvConversationID c, msAccountID = accountID,
     msRemoteMessageID = remoteMessageID, msSenderIdentityID = map_option idIdentityID sender,
     msDirection = direction, msBody = meBody e,
     msReplyToRemoteID = optionalTrimmed (meReplyToRemoteID e), msState = MessageStateActive,
     msOccurredAtMS = occurredAt, msCreatedAtMS = 0, msUpdatedAtMS = 0\<rparr>"

text \<open>The projection of an event, or the message that already holds its content.\<close>

definition messageProjection ::
  "ingest_env \<Rightarrow> string \<Rightarrow> string \<Rightarrow> string \<Rightarrow> message_event \<Rightarrow> bool
     \<Rightarrow> (message_projection + message) act" where
  "messageProjection env accountID platform inboxID e routeEcho =
     (let remoteMessageID = trimSpace (meRemoteMessageID e);
          occurredAt = unixMilliOf (meOccurredAt e)
      in
      case messageDirection (meDirection e) of
        None \<Rightarrow> refuse (Refused ''invalid message direction'')
      | Some direction \<Rightarrow>
      if remoteMessageID = '''' then refuse (Refused ''message remote ID is empty'')
      else
      andDo (if routeEcho \<and> \<not> blank (meClientRequestID e) \<and> direction = MessageDirectionOutgoing
             then observeEcho env accountID e remoteMessageID else give ())
      (if occurredAt \<le> 0 then refuse (Refused ''message occurrence time is not positive'')
       else
       andThen (eventSender env accountID platform direction e) (\<lambda>sender.
       andThen (messageConversation env accountID platform e sender occurredAt) (\<lambda>(c, remoteConversationID).
       andThen (if platform = PlatformSignal \<and> direction = MessageDirectionOutgoing
                then signalOutgoingRemoteID env accountID (cvConversationID c) remoteConversationID
                       remoteMessageID
                else give remoteMessageID) (\<lambda>effectiveID.
       andDo (case sender of
                Some i \<Rightarrow> ensureDirectPeerParticipant env c i
              | None \<Rightarrow> ensureDirectPeerFromRemoteID env accountID platform c remoteConversationID)
       (andThen (if platform = PlatformGoogle \<and> \<not> blank (meBody e)
                 then query env (\<lambda>s. Inr (findMessageContentDuplicate accountID (cvConversationID c)
                        effectiveID direction (map_option idIdentityID sender) occurredAt (meBody e) s))
                 else give None) (\<lambda>duplicate.
        case duplicate of
          Some m \<Rightarrow> andDo (count1 accountID CntContentDupesSkipped) (give (Inr m))
        | None \<Rightarrow> give (Inl \<lparr>pjInboxID = inboxID,
            pjMessage = projectedMessage env accountID e c remoteConversationID effectiveID direction
              sender occurredAt,
            pjAttachments = messageAttachments_of 0 (meAttachments e)\<rparr>))))))))"

section \<open>The phases of a frame\<close>

definition usesEmbeddedReactionSnapshot :: "string \<Rightarrow> bool" where
  "usesEmbeddedReactionSnapshot platform \<longleftrightarrow> platform = PlatformGoogle \<or> platform = PlatformSlack"

definition reactionRemoteTargetKey :: "string \<Rightarrow> string \<Rightarrow> string \<Rightarrow> string" where
  "reactionRemoteTargetKey platform remoteConversationID remoteMessageID =
     normalizeRemoteConversationID platform remoteConversationID @ unitSeparator @
     trimSpace remoteMessageID"

record reaction_snapshot =
  snAccountID :: string
  snConversationID :: string
  snMessageID :: string
  snEntries :: "snapshot_entry list"

text \<open>The map of snapshots with the order in which its keys came.\<close>

type_synonym snapshots = "(string \<times> reaction_snapshot) list"

definition putSnapshot :: "string \<Rightarrow> reaction_snapshot \<Rightarrow> snapshots \<Rightarrow> snapshots" where
  "putSnapshot key v snaps =
     (if sqlExists (\<lambda>(k, _). k = key) snaps
      then sqlUpdate (\<lambda>(k, _). k = key) (\<lambda>_. (key, v)) snaps else snaps @ [(key, v)])"

definition snapshotFor :: "string \<Rightarrow> message_event \<Rightarrow> message \<Rightarrow> snapshots \<Rightarrow> snapshots" where
  "snapshotFor platform e m snaps =
     (if usesEmbeddedReactionSnapshot platform then
        putSnapshot (reactionRemoteTargetKey platform (meRemoteConversationID e) (meRemoteMessageID e))
          \<lparr>snAccountID = msAccountID m, snConversationID = msConversationID m,
           snMessageID = msMessageID m, snEntries = []\<rparr> snaps
      else snaps)"

record message_phase =
  mpChanged :: bool
  mpSnapshots :: snapshots
  mpCount :: nat
  mpProjected :: bool

definition conversationEvents ::
  "ingest_env \<Rightarrow> string \<Rightarrow> string \<Rightarrow> event \<Rightarrow> bool \<Rightarrow> bool act" where
  "conversationEvents env accountID platform e changed =
     (case evConversation e of
        Some v \<Rightarrow> if evKind e = ''conversation''
          then andThen (refreshConversation env accountID platform v) (\<lambda>_. give True) else give changed
      | None \<Rightarrow> give changed)"

definition storeProjection ::
  "ingest_env \<Rightarrow> string \<Rightarrow> string \<Rightarrow> message_event \<Rightarrow> message_projection \<Rightarrow> message_phase
     \<Rightarrow> message_phase act" where
  "storeProjection env accountID platform e p st =
     (let m = pjMessage p in
      andDo (if mpCount st = 0
             then andDo (exec env (\<lambda>c s. unitResult (projectMessage c p s))) (count1 accountID CntProjected)
             else andDo (exec env (\<lambda>c s. unitResult (importMessage c p s))) (count1 accountID CntImported))
      (andThen (if usesEmbeddedReactionSnapshot platform
                then andThen (query env (getMessageByRemote (msAccountID m) (msConversationID m)
                       (msRemoteMessageID m))) (\<lambda>x. give (m\<lparr>msMessageID := msMessageID x\<rparr>))
                else give m) (\<lambda>m1.
       andDo (exec env (\<lambda>_ s. unitResult (bumpConversationRecency (msConversationID m1)
                (msOccurredAtMS m1) s)))
       (andDo (if blank (meLayoutJSON e) then give ()
               else exec env (\<lambda>c s. unitResult (mergeMessagePayload (ieJSON env) (c 0) (msMessageID m1)
                 (emptyPayload\<lparr>mpBlocks := trimSpace (meLayoutJSON e)\<rparr>) s)))
        (give (st\<lparr>mpChanged := True, mpSnapshots := snapshotFor platform e m1 (mpSnapshots st),
                  mpCount := Suc (mpCount st),
                  mpProjected := (mpProjected st \<or> mpCount st = 0)\<rparr>))))))"

definition messageEvents ::
  "ingest_env \<Rightarrow> string \<Rightarrow> string \<Rightarrow> string \<Rightarrow> event \<Rightarrow> message_phase \<Rightarrow> message_phase act" where
  "messageEvents env accountID platform inboxID e st =
     (case evMessage e of
        Some v \<Rightarrow> if evKind e = ''message'' then
          andThen (messageProjection env accountID platform inboxID v (mpCount st = 0)) (\<lambda>r.
            case r of
              Inr duplicate \<Rightarrow> give (st\<lparr>mpSnapshots := snapshotFor platform v duplicate (mpSnapshots st)\<rparr>)
            | Inl p \<Rightarrow> storeProjection env accountID platform v p st)
          else give st
      | None \<Rightarrow> give st)"

definition mutationEvents ::
  "ingest_env \<Rightarrow> string \<Rightarrow> string \<Rightarrow> string \<Rightarrow> event \<Rightarrow> bool \<Rightarrow> bool act" where
  "mutationEvents env accountID platform inboxID e changed =
     (case evMessageMutation e of
        Some v \<Rightarrow> if evKind e \<noteq> ''message_mutation'' then give changed
          else if blank (muRemoteMessageID v) then refuse (Refused ''message mutation remote ID is empty'')
          else andThen (existingConversation env accountID platform (muRemoteConversationID v))
            (\<lambda>(c, remoteConversationID).
              let conversationID = (case c of
                    None \<Rightarrow> deriveID (ieSHA256 env) ''conversation'' accountID remoteConversationID
                  | Some x \<Rightarrow> cvConversationID x)
              in andThen (exec env (\<lambda>t s. applyMessageMutation (t 0) accountID conversationID
                   (trimSpace (muRemoteMessageID v)) (muKind v) (muBody v) inboxID s)) (\<lambda>updated.
                 if updated then andDo (count1 accountID CntMutations) (give True) else give changed))
      | None \<Rightarrow> give changed)"

section \<open>Reactions\<close>

record reaction_actor =
  rkKey :: string
  rkIdentityID :: "string option"
  rkIsSelf :: bool
  rkLabel :: string

definition prepareReactionActor ::
  "ingest_env \<Rightarrow> string \<Rightarrow> string \<Rightarrow> identity_ref \<Rightarrow> string \<Rightarrow> reaction_actor act" where
  "prepareReactionActor env accountID platform r emoji =
     (if irIsSelf r then
        give \<lparr>rkKey = ''self'', rkIdentityID = None, rkIsSelf = True, rkLabel = ''me''\<rparr>
      else if identityRaw r = '''' then
        give \<lparr>rkKey = ''anon:'' @ emoji, rkIdentityID = None, rkIsSelf = False, rkLabel = ''''\<rparr>
      else andThen (resolveIdentity env accountID platform r) (\<lambda>i.
        give \<lparr>rkKey = idIdentityID i, rkIdentityID = Some (idIdentityID i), rkIsSelf = False,
              rkLabel = ''''\<rparr>))"

definition prepareReactionSnapshotEntry ::
  "ingest_env \<Rightarrow> string \<Rightarrow> string \<Rightarrow> reaction_event \<Rightarrow> snapshot_entry option act" where
  "prepareReactionSnapshotEntry env accountID platform e =
     (let emoji = trimSpace (rvEmoji e) in
      if emoji = '''' then give None
      else andThen (prepareReactionActor env accountID platform (rvActor e) emoji) (\<lambda>a.
        give (Some \<lparr>seReactorKey = rkKey a, seReactorIdentityID = rkIdentityID a,
          seReactorIsSelf = rkIsSelf a, seReactorLabel = rkLabel a, seEmoji = emoji\<rparr>)))"

definition prepareReactionApply ::
  "ingest_env \<Rightarrow> string \<Rightarrow> string \<Rightarrow> message \<Rightarrow> reaction_event \<Rightarrow> int \<Rightarrow> reaction_apply act" where
  "prepareReactionApply env accountID platform target e sq =
     andThen (prepareReactionActor env accountID platform (rvActor e) (rvEmoji e)) (\<lambda>a.
       let occurredAt = unixMilliOf (rvOccurredAt e) in
       if occurredAt \<le> 0 then refuse (Refused ''reaction occurrence time is not positive'')
       else if sq \<le> 0 then refuse (Refused ''reaction source sequence is not positive'')
       else give \<lparr>raAccountID = accountID, raConversationID = msConversationID target,
         raMessageID = msMessageID target, raReactorKey = rkKey a,
         raReactorIdentityID = rkIdentityID a, raReactorIsSelf = rkIsSelf a,
         raReactorLabel = rkLabel a, raEmoji = rvEmoji e, raAction = rvAction e,
         raOccurredAtMS = occurredAt, raSourceSeqMS = sq\<rparr>)"

definition resolveReactionTarget ::
  "ingest_env \<Rightarrow> string \<Rightarrow> string \<Rightarrow> reaction_event \<Rightarrow> message option act" where
  "resolveReactionTarget env accountID platform e =
     andThen (existingConversation env accountID platform (rvRemoteConversationID e)) (\<lambda>(c, remoteID).
       case c of None \<Rightarrow> give None
       | Some x \<Rightarrow>
           let targetID = trimSpace (rvTargetRemoteMessageID e) in
           andThen (found (query env (getMessageByRemote accountID (cvConversationID x) targetID))) (\<lambda>m.
             if m \<noteq> None then give m
             else if platform \<noteq> PlatformSignal then give None
             else case parseInt64 targetID of
               None \<Rightarrow> give None
             | Some timestamp \<Rightarrow> found (query env (getMessageByRemote accountID (cvConversationID x)
                 (signalLocalAlias (ieSHA1 env) remoteID timestamp)))))"

text \<open>The entries that a reaction adds to the snapshot of its target.\<close>

definition gatherReaction ::
  "ingest_env \<Rightarrow> string \<Rightarrow> string \<Rightarrow> event \<Rightarrow> snapshots \<Rightarrow> snapshots act" where
  "gatherReaction env accountID platform e snaps =
     (case evReaction e of
        Some v \<Rightarrow> if evKind e \<noteq> ''reaction'' then give snaps
          else
            let key = reactionRemoteTargetKey platform (rvRemoteConversationID v) (rvTargetRemoteMessageID v) in
            if blank (rvTargetRemoteMessageID v) \<or> \<not> sqlExists (\<lambda>(k, _). k = key) snaps then
              andDo (count1 accountID CntReactionsOrphaned) (give snaps)
            else andThen (prepareReactionSnapshotEntry env accountID platform v) (\<lambda>entry.
              case entry of None \<Rightarrow> give snaps
              | Some x \<Rightarrow> give (sqlUpdate (\<lambda>(k, _). k = key)
                  (\<lambda>(k, sn). (k, sn\<lparr>snEntries := snEntries sn @ [x]\<rparr>)) snaps))
      | None \<Rightarrow> give snaps)"

definition addCountIf :: "string \<Rightarrow> ingest_counter \<Rightarrow> nat \<Rightarrow> ingest \<Rightarrow> ingest" where
  "addCountIf a c n w = (if 0 < n then addCount a c n w else w)"

text \<open>
  The reactions are applied one by one: after a failure what was changed before it still counts,
  so these loops return the flag beside the failure.
\<close>

type_synonym outcome = "(ingest_error option \<times> bool) \<times> ingest"

fun replaceSnapshots ::
  "ingest_env \<Rightarrow> string \<Rightarrow> int \<Rightarrow> snapshots \<Rightarrow> bool \<Rightarrow> ingest \<Rightarrow> outcome" where
  "replaceSnapshots env accountID sq [] changed w = ((None, changed), w)"
| "replaceSnapshots env accountID sq ((key, sn) # snaps) changed w =
     (case exec env (\<lambda>t s. replaceEmbeddedReactions (t 0) (snMessageID sn) (snAccountID sn)
              (snConversationID sn) (snEntries sn) sq s) w of
        (Inl e, w1) \<Rightarrow> ((Some e, changed), w1)
      | (Inr (applied, removed), w1) \<Rightarrow>
          replaceSnapshots env accountID sq snaps (changed \<or> 0 < applied \<or> 0 < removed)
            (addCountIf accountID CntReactionsRemoved removed
              (addCountIf accountID CntReactionsApplied applied w1)))"

definition deltaReaction ::
  "ingest_env \<Rightarrow> string \<Rightarrow> string \<Rightarrow> int \<Rightarrow> reaction_event \<Rightarrow> bool act" where
  "deltaReaction env accountID platform sq v =
     andThen (resolveReactionTarget env accountID platform v) (\<lambda>target.
       case target of
         None \<Rightarrow> andDo (count1 accountID CntReactionsOrphaned) (give False)
       | Some m \<Rightarrow>
           andThen (prepareReactionApply env accountID platform m v sq) (\<lambda>a.
           andThen (exec env (\<lambda>t s. applyReaction (t 0) a s)) (\<lambda>applied.
             if \<not> applied then give False
             else andDo (count1 accountID (if rvAction v = ''remove'' then CntReactionsRemoved
                                           else CntReactionsApplied)) (give True))))"

fun deltaReactions ::
  "ingest_env \<Rightarrow> string \<Rightarrow> string \<Rightarrow> int \<Rightarrow> event list \<Rightarrow> bool \<Rightarrow> ingest \<Rightarrow> outcome" where
  "deltaReactions env accountID platform sq [] changed w = ((None, changed), w)"
| "deltaReactions env accountID platform sq (e # es) changed w =
     (case (if evKind e = ''reaction'' then evReaction e else None) of
        None \<Rightarrow> deltaReactions env accountID platform sq es changed w
      | Some v \<Rightarrow>
          (case deltaReaction env accountID platform sq v w of
             (Inl err, w1) \<Rightarrow> ((Some err, changed), w1)
           | (Inr applied, w1) \<Rightarrow>
               deltaReactions env accountID platform sq es (changed \<or> applied) w1))"

definition reactionEvents ::
  "ingest_env \<Rightarrow> string \<Rightarrow> string \<Rightarrow> int \<Rightarrow> event list \<Rightarrow> snapshots \<Rightarrow> bool \<Rightarrow> ingest \<Rightarrow> outcome"
where
  "reactionEvents env accountID platform sq events snaps changed w =
     (if usesEmbeddedReactionSnapshot platform then
        (case foldActs (gatherReaction env accountID platform) events snaps w of
           (Inl e, w1) \<Rightarrow> ((Some e, changed), w1)
         | (Inr gathered, w1) \<Rightarrow>
             if sq \<le> 0 then ((Some (Refused ''reaction snapshot source sequence''), changed), w1)
             else replaceSnapshots env accountID sq gathered changed w1)
      else deltaReactions env accountID platform sq events changed w)"

section \<open>Receipts\<close>

text \<open>The last message of the receipt that has an ID; an unknown one ends the search.\<close>

fun lastReadMessage :: "ingest_env \<Rightarrow> string \<Rightarrow> string \<Rightarrow> string list \<Rightarrow> string option act" where
  "lastReadMessage env accountID conversationID [] = give None"
| "lastReadMessage env accountID conversationID (r # rs) =
     (if blank r then lastReadMessage env accountID conversationID rs
      else andThen (found (query env (getMessageByRemote accountID conversationID (trimSpace r)))) (\<lambda>m.
        give (map_option msMessageID m)))"

definition advanceReadCursor ::
  "ingest_env \<Rightarrow> string \<Rightarrow> string \<Rightarrow> receipt_event \<Rightarrow> bool act" where
  "advanceReadCursor env accountID platform e =
     andThen (existingConversation env accountID platform (rrRemoteConversationID e)) (\<lambda>(c, remoteID).
       case c of None \<Rightarrow> give False
       | Some x \<Rightarrow>
           andThen (found (query env (getLocalInstallationDevice accountID))) (\<lambda>d.
             case d of None \<Rightarrow> give False
             | Some device \<Rightarrow>
                 andThen (lastReadMessage env accountID (cvConversationID x) (rev (rrRemoteMessageIDs e)))
                   (\<lambda>lastRead.
                   let readAt = unixMilliOf (rrOccurredAt e) in
                   if readAt \<le> 0 then refuse (Refused ''receipt occurrence time is not positive'')
                   else andThen (readNow env) (\<lambda>n.
                     andDo (exec env (\<lambda>_ s. unitResult (upsertReadCursor
                         \<lparr>rcAccountID = accountID, rcDeviceID = dvDeviceID device,
                          rcConversationID = cvConversationID x, rcLastReadMessageID = lastRead,
                          rcLastReadAtMS = readAt, rcSourceUpdatedAtMS = None, rcUpdatedAtMS = n\<rparr> s)))
                       (give True)))))"

definition receiptEvents ::
  "ingest_env \<Rightarrow> string \<Rightarrow> string \<Rightarrow> event \<Rightarrow> bool \<Rightarrow> bool act" where
  "receiptEvents env accountID platform e changed =
     (case evReceipt e of
        Some v \<Rightarrow> if evKind e \<noteq> ''receipt'' then give changed
          else if \<not> irIsSelf (rrActor v) \<or> rrStatus v \<noteq> ''read'' then
            andDo (count1 accountID CntReceiptsDropped) (give changed)
          else andThen (advanceReadCursor env accountID platform v) (\<lambda>applied.
            if applied then andDo (count1 accountID CntReceiptsSelf) (give True)
            else andDo (count1 accountID CntReceiptsDropped) (give changed))
      | None \<Rightarrow> give changed)"

section \<open>Frames\<close>

definition messagePhase ::
  "ingest_env \<Rightarrow> string \<Rightarrow> string \<Rightarrow> string \<Rightarrow> event list \<Rightarrow> (bool \<times> bool \<times> snapshots) act" where
  "messagePhase env accountID platform inboxID events =
     andThen (foldActs (conversationEvents env accountID platform) events False) (\<lambda>changed.
     andThen (foldActs (messageEvents env accountID platform inboxID) events
         \<lparr>mpChanged = changed, mpSnapshots = [], mpCount = 0, mpProjected = False\<rparr>) (\<lambda>st.
     andThen (foldActs (mutationEvents env accountID platform inboxID) events (mpChanged st)) (\<lambda>changed1.
       give (changed1, mpProjected st, mpSnapshots st))))"

definition finishEvents ::
  "ingest_env \<Rightarrow> string \<Rightarrow> string \<Rightarrow> string \<Rightarrow> event list \<Rightarrow> bool \<Rightarrow> bool \<Rightarrow> bool act" where
  "finishEvents env accountID platform inboxID events projected changed =
     andThen (foldActs (receiptEvents env accountID platform) events changed) (\<lambda>changed1.
       if projected then give changed1
       else andDo (exec env (\<lambda>t s. unitResult (markInboxProcessed (t 0) inboxID accountID s)))
         (give changed1))"

text \<open>A failure and whether anything visible had changed before it.\<close>

definition applyEvents ::
  "ingest_env \<Rightarrow> string \<Rightarrow> raw_ingress \<Rightarrow> string \<Rightarrow> event list \<Rightarrow> ingest \<Rightarrow> outcome" where
  "applyEvents env platform record inboxID events w =
     (let accountID = riAccountID record in
      case messagePhase env accountID platform inboxID events w of
        (Inl e, w1) \<Rightarrow> ((Some e, False), w1)
      | (Inr (changed, projected, snaps), w1) \<Rightarrow>
          (case reactionEvents env accountID platform (unixMilliOf (riReceivedAt record)) events snaps
                  changed w1 of
             ((Some e, changed1), w2) \<Rightarrow> ((Some e, changed1), w2)
           | ((None, changed1), w2) \<Rightarrow>
               (case finishEvents env accountID platform inboxID events projected changed1 w2 of
                  (Inl e, w3) \<Rightarrow> ((Some e, False), w3)
                | (Inr changed2, w3) \<Rightarrow> ((None, changed2), w3))))"

text \<open>Exactly one payload, and that of the kind.\<close>

definition validateDecodedEvent :: "event \<Rightarrow> bool" where
  "validateDecodedEvent e \<longleftrightarrow>
     length (filter id [evConversation e \<noteq> None, evMessage e \<noteq> None, evMessageMutation e \<noteq> None,
       evReaction e \<noteq> None, evReceipt e \<noteq> None]) = 1 \<and>
     (if evKind e = ''conversation'' then evConversation e \<noteq> None
      else if evKind e = ''message'' then evMessage e \<noteq> None
      else if evKind e = ''message_mutation'' then evMessageMutation e \<noteq> None
      else if evKind e = ''reaction'' then evReaction e \<noteq> None
      else if evKind e = ''receipt'' then evReceipt e \<noteq> None
      else False)"

text \<open>What \<open>errors.As\<close> distinguishes of the failure of a frame.\<close>

datatype record_error = StaleReplay | Quarantine | TransientFailure | PanicFailure | NoReturn

definition classifyApplyError :: "ingest_error \<Rightarrow> record_error" where
  "classifyApplyError e =
     (case e of
        StoreRefusal s \<Rightarrow> if errorsIs s ErrInboxProjectionConflict then StaleReplay else Quarantine
      | DatabaseBusy \<Rightarrow> TransientFailure
      | Refused d \<Rightarrow> Quarantine
      | Panicked \<Rightarrow> PanicFailure
      | Diverged \<Rightarrow> NoReturn)"

definition processRecordResult ::
  "ingest_env \<Rightarrow> string \<Rightarrow> raw_ingress \<Rightarrow> ingest \<Rightarrow> (record_error option \<times> bool) \<times> ingest" where
  "processRecordResult env inboxID record w =
     (case ieDecoders env (riCodec record) of
        None \<Rightarrow> ((Some Quarantine, False), w)
      | Some (platform, decode) \<Rightarrow>
          (case decode record of
             Decoded events0 \<Rightarrow>
               let events = map (\<lambda>e. e\<lparr>evAccountID := riAccountID record, evSourceInboxID := inboxID\<rparr>) events0
               in if \<not> list_all validateDecodedEvent events then ((Some Quarantine, False), w)
                  else let ((e, changed), w1) = applyEvents env platform record inboxID events
                             (addCount (riAccountID record) CntDecodedEvents (length events) w)
                       in ((map_option classifyApplyError e, changed), w1)
           | _ \<Rightarrow> ((Some Quarantine, False), w)))"

text \<open>\<open>retryTransient\<close>: at most three repetitions, of transient failures only.\<close>

definition maxTransientRetries :: nat where
  "maxTransientRetries = 3"

fun retryRecord ::
  "nat \<Rightarrow> (ingest \<Rightarrow> (record_error option \<times> bool) \<times> ingest) \<Rightarrow> ingest
     \<Rightarrow> (record_error option \<times> bool) \<times> ingest" where
  "retryRecord 0 f w = f w"
| "retryRecord (Suc n) f w =
     (case f w of
        ((Some TransientFailure, changed), w1) \<Rightarrow> retryRecord n f w1
      | r \<Rightarrow> r)"

fun retryAct :: "nat \<Rightarrow> 'a act \<Rightarrow> 'a act" where
  "retryAct 0 m w = m w"
| "retryAct (Suc n) m w =
     (case m w of (Inl DatabaseBusy, w1) \<Rightarrow> retryAct n m w1 | r \<Rightarrow> r)"

definition markQuarantined :: "ingest_env \<Rightarrow> string \<Rightarrow> raw_ingress \<Rightarrow> ingest \<Rightarrow> ingest" where
  "markQuarantined env inboxID record w =
     (case retryAct maxTransientRetries
             (exec env (\<lambda>t s. unitResult (markInboxProcessed (t 0) inboxID (riAccountID record) s))) w of
        (Inl e, w1) \<Rightarrow> w1
      | (Inr _, w1) \<Rightarrow> addCount (riAccountID record) CntQuarantined 1 w1)"

definition handleRecord ::
  "ingest_env \<Rightarrow> string \<Rightarrow> raw_ingress \<Rightarrow> ingest \<Rightarrow> bool \<times> ingest" where
  "handleRecord env inboxID record w =
     (let ((err, changed), w1) =
        retryRecord maxTransientRetries (processRecordResult env inboxID record) w in
      case err of
        None \<Rightarrow> (changed, w1)
      | Some StaleReplay \<Rightarrow> (False, addCount (riAccountID record) CntStaleReplays 1 w1)
      | Some Quarantine \<Rightarrow> (changed, markQuarantined env inboxID record w1)
      | Some TransientFailure \<Rightarrow> (changed, w1)
      | Some PanicFailure \<Rightarrow> (False, markQuarantined env inboxID record w1)
      | Some NoReturn \<Rightarrow> (False, w1))"

section \<open>The drain and the loop\<close>

definition rawIngressRecord :: "inbox_record \<Rightarrow> raw_ingress" where
  "rawIngressRecord r = \<lparr>riAccountID = inAccountID r,
     riGeneration = nat (inGeneration r mod 2 ^ 64), riDedupeKey = inDedupeKey r,
     riCodec = inCodec r, riCodecVersion = nat (inCodecVersion r mod 2 ^ 32),
     riReceivedAt = timeOfUnixMilli (inReceivedAtMS r), riPayload = inPayload r\<rparr>"

fun handleRecords :: "ingest_env \<Rightarrow> inbox_record list \<Rightarrow> bool \<Rightarrow> ingest \<Rightarrow> bool \<times> ingest" where
  "handleRecords env [] changed w = (changed, w)"
| "handleRecords env (r # rs) changed w =
     (let (c, w1) = handleRecord env (inInboxID r) (rawIngressRecord r) w
      in handleRecords env rs (changed \<or> c) w1)"

definition drain :: "ingest_env \<Rightarrow> ingest \<Rightarrow> ingest" where
  "drain env w =
     (case retryAct maxTransientRetries (query env (\<lambda>s. Inr (unprocessed s))) w of
        (Inl e, w1) \<Rightarrow> w1
      | (Inr records, w1) \<Rightarrow>
          let (changed, w2) = handleRecords env records False w1
          in if changed then w2\<lparr>igChanges := Suc (igChanges w2)\<rparr> else w2)"

text \<open>One notification of the queue; nothing when it is empty.\<close>

definition serveItem :: "ingest_env \<Rightarrow> ingest \<Rightarrow> ingest" where
  "serveItem env w =
     (case igQueue w of [] \<Rightarrow> w
      | item # rest \<Rightarrow>
          let w1 = w\<lparr>igQueue := rest\<rparr>;
              w2 = (if wiReplay item then snd (handleRecord env (wiInboxID item) (wiRecord item) w1) else w1)
          in drain env w2)"

section \<open>The sink\<close>

definition enqueueItem :: "ingest_env \<Rightarrow> work_item \<Rightarrow> ingest \<Rightarrow> ingest" where
  "enqueueItem env item w =
     (if length (igQueue w) < ieQueueCapacity env then w\<lparr>igQueue := igQueue w @ [item]\<rparr> else w)"

definition validIngress :: "raw_ingress \<Rightarrow> bool" where
  "validIngress r \<longleftrightarrow> \<not> blank (riAccountID r) \<and> \<not> blank (riCodec r) \<and>
     \<not> (riDedupeKey r \<noteq> '''' \<and> blank (riDedupeKey r)) \<and> riGeneration r < 2 ^ 63 \<and>
     \<not> isZero (riReceivedAt r) \<and> 0 < unixMilliOf (riReceivedAt r)"

text \<open>\<open>freshID\<close> is what the ID source answers.\<close>

definition appendIngress ::
  "ingest_env \<Rightarrow> string option \<Rightarrow> raw_ingress \<Rightarrow> unit act" where
  "appendIngress env freshID record w =
     (if \<not> validIngress record then (Inl (Refused ''append ingress''), w)
      else case freshID of
        None \<Rightarrow> (Inl (Refused ''generate inbox ID''), w)
      | Some inboxID \<Rightarrow>
          if blank inboxID then (Inl (Refused ''generated inbox ID is empty''), w)
          else (case exec env (\<lambda>t s. appendInbox (t 0)
                  \<lparr>inInboxID = inboxID, inAccountID = riAccountID record,
                   inGeneration = int (riGeneration record), inDedupeKey = riDedupeKey record,
                   inCodec = riCodec record, inCodecVersion = int (riCodecVersion record),
                   inReceivedAtMS = 0, inPayload = riPayload record, inProcessedAtMS = None\<rparr> s) w of
             (Inl e, w1) \<Rightarrow> (Inl e, w1)
           | (Inr effectiveID, w1) \<Rightarrow>
               let replay = (effectiveID \<noteq> inboxID);
                   w2 = addCount (riAccountID record) (if replay then CntDeduped else CntAppended) 1 w1
               in (Inr (), enqueueItem env
                     \<lparr>wiInboxID = effectiveID, wiRecord = record, wiReplay = replay\<rparr> w2)))"

definition recordIngressError :: "string \<Rightarrow> ingest \<Rightarrow> ingest" where
  "recordIngressError accountID = addCount accountID CntAppendErrors 1"

definition emitEphemeral :: "string \<Rightarrow> ingest \<Rightarrow> ingest" where
  "emitEphemeral accountID = addCount accountID CntEphemeral 1"

end
