(* ===== verification/Ingest_Effects.thy ===== *)
theory Ingest_Effects
  imports Ingest Graph_Safety
begin

text \<open>
  How the actions of the ingest worker move the store: the rules of the combinators for any preorder
  of stores (locale \<open>store_moves\<close>), and the operations that never report a projection conflict.
\<close>

section \<open>What an action does to the store\<close>

text \<open>
  From a store that follows \<open>s0\<close> by \<open>R\<close>, the action moves the store along \<open>R\<close> and ends in a failure
  that \<open>E\<close> allows or in a result with \<open>Q\<close>.
\<close>

definition acts ::
  "(store \<Rightarrow> store \<Rightarrow> bool) \<Rightarrow> (ingest_error \<Rightarrow> store \<Rightarrow> bool) \<Rightarrow> store \<Rightarrow> 'a act
     \<Rightarrow> ('a \<Rightarrow> store \<Rightarrow> bool) \<Rightarrow> bool" where
  "acts R E s0 m Q \<longleftrightarrow> (\<forall>w. R s0 (igStore w) \<longrightarrow>
     R (igStore w) (igStore (snd (m w))) \<and>
     (case fst (m w) of Inl e \<Rightarrow> E e (igStore (snd (m w))) | Inr x \<Rightarrow> Q x (igStore (snd (m w)))))"

abbreviation anyResult :: "'a \<Rightarrow> store \<Rightarrow> bool" where
  "anyResult \<equiv> \<lambda>_ _. True"

lemma ticked_store [simp]: "igStore (ticked w) = igStore w"
  by (simp add: ticked_def)

lemma addCount_store [simp]: "igStore (addCount a c n w) = igStore w"
  by (simp add: addCount_def)

lemma addCountIf_store [simp]: "igStore (addCountIf a c n w) = igStore w"
  by (simp add: addCountIf_def)

lemma unitResult_Inr: "unitResult r = Inr (x, t) \<longleftrightarrow> r = Inr t"
  by (auto simp: unitResult_def split: sum.splits)

lemma unitResult_Inl: "unitResult r = Inl e \<longleftrightarrow> r = Inl e"
  by (auto simp: unitResult_def split: sum.splits)

text \<open>
  The rules for the combinators, for a preorder \<open>R\<close>. Its failures include those that no store
  operation causes.
\<close>

locale store_moves =
  fixes env :: ingest_env and R :: "store \<Rightarrow> store \<Rightarrow> bool" and E :: "ingest_error \<Rightarrow> store \<Rightarrow> bool"
  assumes moves_refl: "R s s"
    and moves_trans: "R s t \<Longrightarrow> R t u \<Longrightarrow> R s u"
    and busy_allowed: "ieBusy env n \<Longrightarrow> E DatabaseBusy s"
    and refused_allowed: "E (Refused d) s"
    and not_found_allowed: "E (StoreRefusal notFound) s"
begin

lemma actsI:
  "(\<And>w. R s0 (igStore w) \<Longrightarrow> R (igStore w) (igStore (snd (m w)))) \<Longrightarrow>
   (\<And>w e. R s0 (igStore w) \<Longrightarrow> fst (m w) = Inl e \<Longrightarrow> E e (igStore (snd (m w)))) \<Longrightarrow>
   (\<And>w x. R s0 (igStore w) \<Longrightarrow> fst (m w) = Inr x \<Longrightarrow> Q x (igStore (snd (m w)))) \<Longrightarrow> acts R E s0 m Q"
  by (auto simp: acts_def split: sum.splits)

lemma acts_moves: "acts R E s0 m Q \<Longrightarrow> R s0 (igStore w) \<Longrightarrow> R (igStore w) (igStore (snd (m w)))"
  by (simp add: acts_def)

lemma acts_result:
  "acts R E s0 m Q \<Longrightarrow> R s0 (igStore w) \<Longrightarrow> m w = (Inr x, w1) \<Longrightarrow> R (igStore w) (igStore w1) \<and> Q x (igStore w1)"
  unfolding acts_def by (drule spec [of _ w]) simp

lemma acts_failure:
  "acts R E s0 m Q \<Longrightarrow> R s0 (igStore w) \<Longrightarrow> m w = (Inl e, w1) \<Longrightarrow> R (igStore w) (igStore w1) \<and> E e (igStore w1)"
  unfolding acts_def by (drule spec [of _ w]) simp

lemma acts_weaken: "acts R E s0 m Q \<Longrightarrow> (\<And>x s. R s0 s \<Longrightarrow> Q x s \<Longrightarrow> Q' x s) \<Longrightarrow> acts R E s0 m Q'"
  unfolding acts_def by (auto split: sum.splits) (metis moves_trans)

lemma acts_any: "acts R E s0 m Q \<Longrightarrow> acts R E s0 m anyResult"
  by (erule acts_weaken) simp

lemma acts_later: "acts R E s0 m Q \<Longrightarrow> R s0 s1 \<Longrightarrow> acts R E s1 m Q"
  unfolding acts_def by (meson moves_trans)

lemma acts_give: "(\<And>s. R s0 s \<Longrightarrow> Q x s) \<Longrightarrow> acts R E s0 (give x) Q"
  by (simp add: acts_def give_def moves_refl)

lemma acts_refuse: "(\<And>s. E e s) \<Longrightarrow> acts R E s0 (refuse e) Q"
  by (simp add: acts_def refuse_def moves_refl)

lemma acts_andThen:
  assumes "acts R E s0 m Q" and "\<And>x s1. R s0 s1 \<Longrightarrow> Q x s1 \<Longrightarrow> acts R E s1 (f x) Q'"
  shows "acts R E s0 (andThen m f) Q'"
  unfolding acts_def
proof (intro allI impI)
  fix w :: ingest assume from_s0: "R s0 (igStore w)"
  show "R (igStore w) (igStore (snd (andThen m f w))) \<and>
    (case fst (andThen m f w) of Inl e \<Rightarrow> E e (igStore (snd (andThen m f w)))
     | Inr x \<Rightarrow> Q' x (igStore (snd (andThen m f w))))"
  proof (cases "m w")
    case (Pair r w1)
    show ?thesis
    proof (cases r)
      case (Inl e)
      with Pair acts_failure [OF assms(1) from_s0, of e w1] show ?thesis by (simp add: andThen_def)
    next
      case (Inr x)
      with Pair acts_result [OF assms(1) from_s0, of x w1]
      have one: "R (igStore w) (igStore w1)" "Q x (igStore w1)" by simp_all
      have "R s0 (igStore w1)" using from_s0 one(1) by (rule moves_trans)
      from assms(2) [OF this one(2)] have "R (igStore w1) (igStore (snd (f x w1))) \<and>
          (case fst (f x w1) of Inl e \<Rightarrow> E e (igStore (snd (f x w1))) | Inr y \<Rightarrow> Q' y (igStore (snd (f x w1))))"
        unfolding acts_def using moves_refl by blast
      moreover have "andThen m f w = f x w1" using Pair Inr by (simp add: andThen_def)
      ultimately show ?thesis using moves_trans [OF one(1)] by (simp only:)
    qed
  qed
qed

lemma acts_andDo:
  "acts R E s0 m anyResult \<Longrightarrow> (\<And>s1. R s0 s1 \<Longrightarrow> acts R E s1 k Q) \<Longrightarrow> acts R E s0 (andDo m k) Q"
  by (rule acts_andThen)

lemma acts_query:
  "(\<And>s e. R s0 s \<Longrightarrow> f s = Inl e \<Longrightarrow> E (StoreRefusal e) s) \<Longrightarrow> (\<And>s x. R s0 s \<Longrightarrow> f s = Inr x \<Longrightarrow> Q x s) \<Longrightarrow>
   acts R E s0 (query env f) Q"
  by (auto simp: acts_def query_def moves_refl busy_allowed split: sum.splits)

lemma acts_exec:
  "(\<And>c s e. R s0 s \<Longrightarrow> f c s = Inl e \<Longrightarrow> E (StoreRefusal e) s) \<Longrightarrow>
   (\<And>c s x t. R s0 s \<Longrightarrow> f c s = Inr (x, t) \<Longrightarrow> R s t \<and> Q x t) \<Longrightarrow> acts R E s0 (exec env f) Q"
  by (auto simp: acts_def exec_def moves_refl busy_allowed split: sum.splits prod.splits)

lemma acts_execU:
  "(\<And>c s e. R s0 s \<Longrightarrow> f c s = Inl e \<Longrightarrow> E (StoreRefusal e) s) \<Longrightarrow>
   (\<And>c s t. R s0 s \<Longrightarrow> f c s = Inr t \<Longrightarrow> R s t) \<Longrightarrow> acts R E s0 (exec env (\<lambda>c s. unitResult (f c s))) anyResult"
  by (rule acts_exec) (simp_all add: unitResult_Inr unitResult_Inl)

lemma acts_found:
  "acts R E s0 m Q \<Longrightarrow> acts R E s0 (found m) (\<lambda>x s. case x of None \<Rightarrow> True | Some y \<Rightarrow> Q y s)"
proof (rule actsI)
  fix w :: ingest assume m: "acts R E s0 m Q" "R s0 (igStore w)"
  obtain r w1 where w: "m w = (r, w1)" by fastforce
  show "R (igStore w) (igStore (snd (found m w)))"
    using acts_moves [OF m] w by (auto simp: found_def split: sum.splits ingest_error.splits)
next
  fix w :: ingest and e assume m: "acts R E s0 m Q" "R s0 (igStore w)" and "fst (found m w) = Inl e"
  then show "E e (igStore (snd (found m w)))"
    using acts_failure [OF m] by (cases "m w") (auto simp: found_def split: sum.splits ingest_error.splits if_splits)
next
  fix w :: ingest and x assume m: "acts R E s0 m Q" "R s0 (igStore w)" and "fst (found m w) = Inr x"
  then show "case x of None \<Rightarrow> True | Some y \<Rightarrow> Q y (igStore (snd (found m w)))"
    using acts_result [OF m] by (cases "m w") (auto simp: found_def split: sum.splits ingest_error.splits if_splits)
qed

lemma acts_readNow: "acts R E s0 (readNow env) anyResult"
  by (auto simp: acts_def readNow_def Let_def moves_refl refused_allowed)

lemma acts_count1: "acts R E s0 (count1 a c) anyResult"
  by (simp add: acts_def count1_def moves_refl)

lemma acts_if:
  "(b \<Longrightarrow> acts R E s0 m Q) \<Longrightarrow> (\<not> b \<Longrightarrow> acts R E s0 k Q) \<Longrightarrow> acts R E s0 (if b then m else k) Q"
  by simp

lemma acts_option:
  "(x = None \<Longrightarrow> acts R E s0 m Q) \<Longrightarrow> (\<And>y. x = Some y \<Longrightarrow> acts R E s0 (f y) Q) \<Longrightarrow>
   acts R E s0 (case x of None \<Rightarrow> m | Some y \<Rightarrow> f y) Q"
  by (simp split: option.split)

lemma acts_sum:
  "(\<And>y. x = Inl y \<Longrightarrow> acts R E s0 (f y) Q) \<Longrightarrow> (\<And>y. x = Inr y \<Longrightarrow> acts R E s0 (g y) Q) \<Longrightarrow>
   acts R E s0 (case x of Inl y \<Rightarrow> f y | Inr y \<Rightarrow> g y) Q"
  by (simp split: sum.split)

lemma acts_prod:
  "(\<And>a b. x = (a, b) \<Longrightarrow> acts R E s0 (f a b) Q) \<Longrightarrow> acts R E s0 (case x of (a, b) \<Rightarrow> f a b) Q"
  by (simp split: prod.split)

lemma acts_foldActs:
  assumes "\<And>x b s1. x \<in> set xs \<Longrightarrow> R s0 s1 \<Longrightarrow> Q b s1 \<Longrightarrow> acts R E s1 (f x b) Q"
    and "\<And>b s t. Q b s \<Longrightarrow> R s t \<Longrightarrow> Q b t" and "Q b s0"
  shows "acts R E s0 (foldActs f xs b) Q"
  using assms(1,3)
proof (induction xs arbitrary: b s0)
  case Nil
  then show ?case using assms(2) by (auto intro: acts_give)
next
  case (Cons x xs)
  have "acts R E s0 (f x b) Q" using Cons.prems moves_refl by simp
  then show ?case
    unfolding foldActs.simps
  proof (rule acts_andThen)
    fix y s1 assume "R s0 s1" "Q y s1"
    then show "acts R E s1 (foldActs f xs y) Q"
      using Cons.prems(1) by (intro Cons.IH) (auto intro: moves_trans)
  qed
qed

lemma acts_retry:
  assumes "\<And>s1. R s0 s1 \<Longrightarrow> acts R E s1 m Q"
  shows "acts R E s0 (retryAct n m) Q"
  using assms
proof (induction n arbitrary: s0)
  case 0
  then show ?case using moves_refl by (simp add: acts_def)
next
  case (Suc n)
  show ?case
    unfolding acts_def
  proof (intro allI impI)
    fix w :: ingest assume from_s0: "R s0 (igStore w)"
    have m: "acts R E s0 m Q" using Suc.prems moves_refl by blast
    obtain r w1 where w: "m w = (r, w1)" by fastforce
    have here: "R (igStore w) (igStore w1) \<and> (case r of Inl e \<Rightarrow> E e (igStore w1) | Inr x \<Rightarrow> Q x (igStore w1))"
      using m from_s0 w unfolding acts_def by (metis fst_conv snd_conv)
    show "R (igStore w) (igStore (snd (retryAct (Suc n) m w))) \<and>
      (case fst (retryAct (Suc n) m w) of Inl e \<Rightarrow> E e (igStore (snd (retryAct (Suc n) m w)))
       | Inr x \<Rightarrow> Q x (igStore (snd (retryAct (Suc n) m w))))"
    proof (cases "r = Inl DatabaseBusy")
      case True
      have "R s0 (igStore w1)" using from_s0 here by (blast intro: moves_trans)
      moreover have "acts R E s0 (retryAct n m) Q" using Suc by blast
      ultimately have "R (igStore w1) (igStore (snd (retryAct n m w1))) \<and>
        (case fst (retryAct n m w1) of Inl e \<Rightarrow> E e (igStore (snd (retryAct n m w1)))
         | Inr x \<Rightarrow> Q x (igStore (snd (retryAct n m w1))))"
        unfolding acts_def by blast
      moreover have "retryAct (Suc n) m w = retryAct n m w1" using True w by simp
      ultimately show ?thesis using moves_trans here by (simp only:) blast
    next
      case False
      then have "retryAct (Suc n) m w = (r, w1)"
        using w by (auto split: sum.splits ingest_error.splits)
      then have "snd (retryAct (Suc n) m w) = w1" "fst (retryAct (Suc n) m w) = r"
        by (simp_all only: fst_conv snd_conv)
      with here show ?thesis by (simp only:)
    qed
  qed
qed

lemmas acts_rules = acts_prod acts_option acts_sum acts_if

end

section \<open>No operation but the projection reports a projection conflict\<close>

definition conflictFree :: "store_error + 'a \<Rightarrow> bool" where
  "conflictFree r = (case r of Inl e \<Rightarrow> \<not> errorsIs e ErrInboxProjectionConflict | Inr x \<Rightarrow> True)"

lemma conflictFree_Inl: "conflictFree (f s) \<Longrightarrow> f s = Inl e \<Longrightarrow> \<not> errorsIs e ErrInboxProjectionConflict"
  by (simp add: conflictFree_def)

lemma conflictFree_simps [simp]:
  "conflictFree (Inr x)" "conflictFree (Inl e) \<longleftrightarrow> \<not> errorsIs e ErrInboxProjectionConflict"
  "conflictFree (failWith d)"
  "\<not> errorsIs notFound ErrInboxProjectionConflict"
  "\<not> errorsIs (mapConstraintError f) ErrInboxProjectionConflict"
  "\<not> errorsIs [ErrSqlite f] ErrInboxProjectionConflict"
  "\<not> errorsIs (ErrInvalidInboxRecord # mapConstraintError f) ErrInboxProjectionConflict"
  by (simp_all add: conflictFree_def failWith_def errorsIs_def notFound_def mapConstraintError_def)

lemma conflictFree_thenDo:
  "conflictFree m \<Longrightarrow> (\<And>x. m = Inr x \<Longrightarrow> conflictFree (f x)) \<Longrightarrow> conflictFree (thenDo m f)"
  by (cases m) simp_all

lemma conflictFree_nowMS [simp]: "conflictFree (nowMS t)"
  by (simp add: nowMS_def)

lemma conflictFree_unitResult [simp]: "conflictFree (unitResult r) = conflictFree r"
  by (simp add: unitResult_def split: sum.split)

lemma conflictFree_reads [simp]:
  "conflictFree (getIdentityByCanonical a k v s)" "conflictFree (getConversationByRemote a r s)"
  "conflictFree (getConversation c s)" "conflictFree (getMessageByRemote a c r s)"
  "conflictFree (findDirectConversationBySolePeer a i s)"
  "conflictFree (findGroupConversationByPeerSet a is s)" "conflictFree (getLocalInstallationDevice a s)"
  by (simp_all add: getIdentityByCanonical_def getConversationByRemote_def getConversation_def
      getMessageByRemote_def findDirectConversationBySolePeer_def findGroupConversationByPeerSet_def
      getLocalInstallationDevice_def Let_def split: option.split list.split)

lemma conflictFree_graph [simp]:
  "conflictFree (upsertIdentity J i s)" "conflictFree (upsertConversation J c s)"
  "conflictFree (bumpConversationRecency cid n s)"
  by (simp_all add: upsertIdentity_def upsertConversation_def bumpConversationRecency_def Let_def
      split: option.split)

lemma conflictFree_rebind [simp]:
  "conflictFree (reassignConversationRemoteID a r c n s)" "conflictFree (displaceConversationRemoteID a r n s)"
  by (simp_all add: reassignConversationRemoteID_def displaceConversationRemoteID_def Let_def
      split: option.split sum.split)

lemma participant_errors [simp]:
  "\<not> errorsIs (invalidParticipantError []) ErrInboxProjectionConflict"
  "\<not> errorsIs (invalidParticipantError [ErrCrossAccountParticipant]) ErrInboxProjectionConflict"
  "\<not> errorsIs (invalidParticipantConstraintError [] f) ErrInboxProjectionConflict"
  "\<not> errorsIs (invalidParticipantConstraintError (classifyParticipantForeignKey a i s) f) ErrInboxProjectionConflict"
  by (auto simp: invalidParticipantError_def invalidParticipantConstraintError_def errorsIs_def
      classifyParticipantForeignKey_def split: option.split)

lemma conflictFree_insertParticipants [simp]: "conflictFree (insertParticipants a c ps s)"
  by (induction a c ps s rule: insertParticipants.induct) (auto split: sum.split)

lemma conflictFree_participants [simp]:
  "conflictFree (replaceConversationParticipants c ps s)" "conflictFree (ensureConversationParticipant p s)"
  by (auto simp: replaceConversationParticipants_def ensureConversationParticipant_def Let_def
      split: option.split sum.split)

lemma message_errors [simp]:
  "\<not> errorsIs (mapMessageWriteError m s f) ErrInboxProjectionConflict"
  "\<not> errorsIs (invalidMessageConstraintError [] f) ErrInboxProjectionConflict"
  "\<not> errorsIs (invalidMessageError [ErrOrphanMessage, ErrOrphanMessageInbox]) ErrInboxProjectionConflict"
  "\<not> errorsIs (invalidMessageError [ErrCrossAccountMessage]) ErrInboxProjectionConflict"
  by (auto simp: mapMessageWriteError_def invalidMessageConstraintError_def invalidMessageError_def
      errorsIs_def classifyMessageForeignKey_def split: option.split)

lemma conflictFree_upsertMessage [simp]: "conflictFree (upsertMessage m n s)"
  by (simp add: upsertMessage_def split: sum.split)

lemma conflictFree_recordAttachments [simp]: "conflictFree (recordAttachments clock i parent as s)"
proof -
  have "conflictFree (recordInboundAttachment t a s)" for t a s
    by (auto simp: recordInboundAttachment_def Let_def intro!: conflictFree_thenDo split: option.split sum.split)
  then show ?thesis
    by (induction clock i parent as s rule: recordAttachments.induct) (auto intro!: conflictFree_thenDo)
qed

lemma conflictFree_attachmentParent [simp]: "conflictFree (attachmentParent p s)"
  by (auto simp: attachmentParent_def errorsIs_def split: option.split)

lemma conflictFree_messages [simp]:
  "conflictFree (importMessage clock p s)" "conflictFree (markInboxProcessed t i a s)"
  "conflictFree (applyMessageMutation t a c r kind body i s)"
  by (auto simp: importMessage_def markInboxProcessed_def applyMessageMutation_def Let_def
      intro!: conflictFree_thenDo split: option.split sum.split)

lemma conflictFree_extras [simp]: "conflictFree (mergeMessagePayload json t m p s)"
  by (auto simp: mergeMessagePayload_def Let_def intro!: conflictFree_thenDo split: option.split)

lemma conflictFree_reactions [simp]:
  "conflictFree (applyReaction t a s)" "conflictFree (replaceEmbeddedReactions t m acc c es sq s)"
proof -
  show "conflictFree (applyReaction t a s)"
    by (auto simp: applyReaction_def intro!: conflictFree_thenDo split: sum.split)
  have "conflictFree (snapshotEach row es s)" for row
    by (induction row es s rule: snapshotEach.induct)
      (auto simp: Let_def intro!: conflictFree_thenDo split: sum.split)
  then show "conflictFree (replaceEmbeddedReactions t m acc c es sq s)"
    by (auto simp: replaceEmbeddedReactions_def Let_def intro!: conflictFree_thenDo split: sum.split option.split)
qed

lemma conflictFree_cursor [simp]: "conflictFree (upsertReadCursor c s)"
  by (simp add: upsertReadCursor_def Let_def split: option.split)

end
