(* ===== verification/Ingest_Worker.thy ===== *)
theory Ingest_Worker
  imports Ingest_Effects
begin

text \<open>
  The interface between the ingest worker and the repositories it calls (locale
  \<open>worker_effect\<close>): how each operation moves the store, and what follows for the functions that
  choose the identity and the conversation of a frame.
\<close>


section \<open>The worker\<close>

text \<open>A conversation that was read or written is the account's.\<close>

definition ownConversation :: "string \<Rightarrow> conversation \<Rightarrow> store \<Rightarrow> bool" where
  "ownConversation a c s \<longleftrightarrow> cvAccountID c = a \<and> hasConversation a (cvConversationID c) s"

lemma own_member: "c \<in> set (conversations s) \<Longrightarrow> cvAccountID c = a \<Longrightarrow> ownConversation a c s"
  by (auto simp: ownConversation_def hasConversation_def sqlExists_iff)

lemma getByRemote_own: "getConversationByRemote a r s = Inr c \<Longrightarrow> ownConversation a c s"
  by (auto simp: getConversationByRemote_def split: option.splits dest!: sqlFind_Some intro: own_member)

text \<open>The remote IDs of the conversations that a frame names, as \<open>existingConversation\<close> normalizes them.\<close>

definition eventThreads :: "string \<Rightarrow> event \<Rightarrow> string list" where
  "eventThreads platform e =
     (case evConversation e of None \<Rightarrow> []
      | Some v \<Rightarrow> [normalizeRemoteConversationID platform (ceRemoteConversationID v)]) @
     (case evMessage e of None \<Rightarrow> []
      | Some v \<Rightarrow> [normalizeRemoteConversationID platform (meRemoteConversationID v)])"

definition frameThreads :: "ingest_env \<Rightarrow> raw_ingress \<Rightarrow> string list" where
  "frameThreads env frame =
     (case ieDecoders env (riCodec frame) of None \<Rightarrow> []
      | Some (platform, decode) \<Rightarrow>
          (case decode frame of Decoded events \<Rightarrow> concat (map (eventThreads platform) events) | _ \<Rightarrow> []))"

text \<open>
  What the operations of the repositories do to the store when they serve account \<open>A\<close> and frame
  \<open>inboxID\<close>: each moves it along \<open>R\<close>, a projection and a mark reach \<open>D\<close>, and only a projection
  fails with a conflict; \<open>named\<close> holds the remote IDs of the
  conversations that the frame names. The lemmas of this locale carry that to every function of the worker.
\<close>

locale worker_effect = store_moves +
  fixes A :: string and inboxID :: string and named :: "string set" and D :: "store \<Rightarrow> bool"
  assumes done_stays: "D s \<Longrightarrow> R s t \<Longrightarrow> D t"
    and conversation_stays: "hasConversation A cid s \<Longrightarrow> R s t \<Longrightarrow> hasConversation A cid t"
    and no_conflict_allowed: "\<not> errorsIs e ErrInboxProjectionConflict \<Longrightarrow> E (StoreRefusal e) s"
    and panic_allowed: "E Panicked s"
    and diverging: "r \<in> named \<Longrightarrow> \<not> inj_on (mintCandidate env A r) {..length (conversations s)} \<Longrightarrow> E Diverged s"
    and moves_identity: "idAccountID i = A \<Longrightarrow> upsertIdentity (ieJSONValid env) i s = Inr t \<Longrightarrow> R s t"
    and moves_conversation:
      "cvAccountID cv = A \<Longrightarrow> upsertConversation (ieJSONValid env) cv s = Inr t \<Longrightarrow> R s t"
    and moves_reassign: "reassignConversationRemoteID A r cid n s = Inr t \<Longrightarrow> R s t"
    and moves_displace: "displaceConversationRemoteID A r n s = Inr (b, t) \<Longrightarrow> R s t"
    and moves_replace: "hasConversation A cid s \<Longrightarrow> \<forall>q \<in> set qs. cpAccountID q = A \<Longrightarrow>
      replaceConversationParticipants cid qs s = Inr t \<Longrightarrow> R s t"
    and moves_ensure: "cpAccountID q = A \<Longrightarrow> hasConversation A (cpConversationID q) s \<Longrightarrow>
      ensureConversationParticipant q s = Inr (b, t) \<Longrightarrow> R s t"
    and moves_bump: "hasConversation A cid s \<Longrightarrow> bumpConversationRecency cid n s = Inr t \<Longrightarrow> R s t"
    and moves_import: "msAccountID (pjMessage p) = A \<Longrightarrow> importMessage clock p s = Inr t \<Longrightarrow> R s t"
    and moves_project: "msAccountID (pjMessage p) = A \<Longrightarrow> pjInboxID p = inboxID \<Longrightarrow>
      projectMessage clock p s = Inr t \<Longrightarrow> R s t \<and> D t"
    and project_conflict: "msAccountID (pjMessage p) = A \<Longrightarrow> pjInboxID p = inboxID \<Longrightarrow>
      projectMessage clock p s = Inl e \<Longrightarrow> E (StoreRefusal e) s"
    and moves_extras: "mergeMessagePayload json tm mid pl s = Inr t \<Longrightarrow> R s t"
    and moves_mutation: "applyMessageMutation tm A cid r kind body inboxID s = Inr (b, t) \<Longrightarrow> R s t"
    and moves_snapshot: "replaceEmbeddedReactions tm mid acc cid es sq s = Inr (res, t) \<Longrightarrow> R s t"
    and moves_delta: "applyReaction tm a s = Inr (b, t) \<Longrightarrow> R s t"
    and moves_cursor: "upsertReadCursor rc s = Inr t \<Longrightarrow> R s t"
    and moves_mark: "markInboxProcessed tm inboxID A s = Inr t \<Longrightarrow> R s t \<and> D t"
    and moves_echo: "ieObserver env = Some observe \<Longrightarrow> ecAccountID echo = A \<Longrightarrow>
      R s (snd (observe clock echo s))"
begin

lemma acts_read:
  "(\<And>s. conflictFree (f s)) \<Longrightarrow> (\<And>s x. R s0 s \<Longrightarrow> f s = Inr x \<Longrightarrow> Q x s) \<Longrightarrow> acts R E s0 (query env f) Q"
  by (rule acts_query) (auto intro: no_conflict_allowed dest: conflictFree_Inl)

lemma acts_write:
  "(\<And>c s. conflictFree (f c s)) \<Longrightarrow>
   (\<And>c s x t. R s0 s \<Longrightarrow> f c s = Inr (x, t) \<Longrightarrow> R s t \<and> Q x t) \<Longrightarrow> acts R E s0 (exec env f) Q"
proof (rule acts_exec)
  fix c s e assume "\<And>c s. conflictFree (f c s)" and "f c s = Inl e"
  then show "E (StoreRefusal e) s"
    using conflictFree_Inl [of "f c" s e] by (intro no_conflict_allowed) blast
qed

lemma acts_writeU:
  "(\<And>c s. conflictFree (f c s)) \<Longrightarrow> (\<And>c s t. R s0 s \<Longrightarrow> f c s = Inr t \<Longrightarrow> R s t) \<Longrightarrow>
   acts R E s0 (exec env (\<lambda>c s. unitResult (f c s))) anyResult"
  by (rule acts_write) (simp_all add: unitResult_Inr)

lemma acts_refused: "acts R E s0 (refuse (Refused d)) Q"
  by (rule acts_refuse) (rule refused_allowed)

lemma acts_notFound: "acts R E s0 (refuse (StoreRefusal notFound)) Q"
  by (rule acts_refuse) (rule not_found_allowed)

text \<open>Identities are of the account.\<close>

lemma getIdentityByCanonical_account:
  "getIdentityByCanonical acc k v s = Inr i \<Longrightarrow> idAccountID i = acc"
  by (auto simp: getIdentityByCanonical_def split: option.splits dest: sqlFind_Some)

lemma resolveIdentity_acts: "acts R E s0 (resolveIdentity env A platform r) anyResult"
  unfolding resolveIdentity_def Let_def
proof (rule acts_option, rule acts_refused)
  fix key
  define ident where "ident stored n = (case stored of None \<Rightarrow> newIdentity env A key (identityRaw r) r n
      | Some i \<Rightarrow> refreshedIdentity (identityRaw r) r n i)" for stored n
  have get: "acts R E s (query env (getIdentityByCanonical A k v)) (\<lambda>i _. idAccountID i = A)" for s k v
    by (rule acts_read) (auto dest: getIdentityByCanonical_account)
  have own: "idAccountID (ident stored n) = A" if "case stored of None \<Rightarrow> True | Some i \<Rightarrow> idAccountID i = A"
    for stored n
    using that by (simp add: ident_def newIdentity_def refreshedIdentity_def split: option.splits)
  have "acts R E s0 (andThen (readNow env) (\<lambda>n.
      andThen (found (query env (getIdentityByCanonical A (ikKind key) (ikCanonical key)))) (\<lambda>stored.
        andDo (exec env (\<lambda>c s. unitResult (upsertIdentity (ieJSONValid env) (ident stored n) s)))
          (query env (getIdentityByCanonical A (ikKind key) (ikCanonical key)))))) anyResult"
    by (intro acts_andThen [OF acts_readNow] acts_andThen [OF acts_found [OF get]] acts_andDo acts_writeU
        acts_any [OF get] moves_identity [OF own] conflictFree_graph)
  then show "acts R E s0 (andThen (readNow env) (\<lambda>n.
      andThen (found (query env (getIdentityByCanonical A (ikKind key) (ikCanonical key)))) (\<lambda>stored.
        andDo (exec env (\<lambda>c s. unitResult (upsertIdentity (ieJSONValid env)
            (case stored of None \<Rightarrow> newIdentity env A key (identityRaw r) r n
             | Some i \<Rightarrow> refreshedIdentity (identityRaw r) r n i) s)))
          (query env (getIdentityByCanonical A (ikKind key) (ikCanonical key)))))) anyResult"
    by (simp only: ident_def)
qed

lemma own_stays: "ownConversation A cv s \<Longrightarrow> R s t \<Longrightarrow> ownConversation A cv t"
  unfolding ownConversation_def using conversation_stays by blast

lemma getByRemote_acts: "acts R E s0 (query env (getConversationByRemote A r)) (ownConversation A)"
  by (rule acts_read) (simp_all add: getByRemote_own)

lemma existing_acts:
  "acts R E s0 (existingConversation env A platform r)
     (\<lambda>(c, r') s. r' = normalizeRemoteConversationID platform r \<and> (\<forall>x. c = Some x \<longrightarrow> ownConversation A x s))"
  unfolding existingConversation_def Let_def
  by (intro acts_if acts_refused acts_andThen [OF acts_found [OF getByRemote_acts]] acts_give)
    (auto split: option.splits intro: own_stays)

lemma storeConversation_acts:
  "cvAccountID cv = A \<Longrightarrow> acts R E s0 (storeConversation env cv) (ownConversation A)"
  unfolding storeConversation_def
  by (intro acts_andDo acts_writeU) (simp_all add: moves_conversation getByRemote_acts)

end

section \<open>Minting conversation IDs\<close>

lemma mintLoop_run:
  "mintLoop env a r salt fuel w = (res, w1) \<Longrightarrow> igStore w1 = igStore w \<and>
   (case res of
      Inr x \<Rightarrow> x \<notin> cvConversationID ` set (conversations (igStore w))
    | Inl e \<Rightarrow> e = DatabaseBusy \<and> (\<exists>n. ieBusy env n) \<or>
        e = Diverged \<and> mintCandidate env a r ` {salt..<salt + fuel} \<subseteq> cvConversationID ` set (conversations (igStore w)))"
proof (induction fuel arbitrary: salt w)
  case 0
  then show ?case by (auto simp: refuse_def)
next
  case (Suc fuel)
  let ?c = "mintCandidate env a r salt"
  show ?case
  proof (cases "ieBusy env (igTick w)")
    case True
    with Suc.prems show ?thesis
      by (auto simp: andThen_def found_def query_def Let_def)
  next
    case False
    show ?thesis
    proof (cases "sqlFind (\<lambda>c. cvConversationID c = ?c) (conversations (igStore w))")
      case None
      then have "getConversation ?c (igStore w) = Inl notFound" by (simp add: getConversation_def)
      with False Suc.prems have "res = Inr ?c" "w1 = ticked w"
        by (simp_all add: andThen_def found_def query_def Let_def errorsIs_def notFound_def give_def)
      moreover have "?c \<notin> cvConversationID ` set (conversations (igStore w))"
        using None by (auto simp: sqlFind_None sqlExists_iff)
      ultimately show ?thesis by simp
    next
      case (Some c)
      then have "getConversation ?c (igStore w) = Inr c" by (simp add: getConversation_def)
      with False Suc.prems have "mintLoop env a r (Suc salt) fuel (ticked w) = (res, w1)"
        by (simp add: andThen_def found_def query_def Let_def)
      note rest = Suc.IH [OF this]
      have "?c \<in> cvConversationID ` set (conversations (igStore w))"
        using sqlFind_Some [OF Some] by force
      moreover have "{salt..<salt + Suc fuel} = insert salt {Suc salt..<Suc salt + fuel}" by auto
      ultimately show ?thesis using rest by (simp split: sum.splits)
    qed
  qed
qed

lemma mintConversationID_run:
  assumes "mintConversationID env a r w = (res, w1)"
  shows "igStore w1 = igStore w \<and>
   (case res of
      Inr x \<Rightarrow> x \<notin> cvConversationID ` set (conversations (igStore w))
    | Inl e \<Rightarrow> e = DatabaseBusy \<and> (\<exists>n. ieBusy env n) \<or>
        e = Diverged \<and> \<not> inj_on (mintCandidate env a r) {..length (conversations (igStore w))})"
proof -
  let ?n = "length (conversations (igStore w))"
  have "\<not> inj_on (mintCandidate env a r) {..?n}"
    if "mintCandidate env a r ` {0..<0 + Suc ?n} \<subseteq> cvConversationID ` set (conversations (igStore w))"
  proof
    assume inj: "inj_on (mintCandidate env a r) {..?n}"
    have "card (mintCandidate env a r ` {..?n}) \<le> card (cvConversationID ` set (conversations (igStore w)))"
      using that by (intro card_mono) (auto simp: atLeast0LessThan lessThan_Suc_atMost)
    also have "\<dots> \<le> ?n"
      by (metis card_image_le card_length finite_set le_trans)
    finally show False by (simp add: card_image [OF inj])
  qed
  with mintLoop_run [of env a r 0 "Suc ?n" w res w1] assms show ?thesis
    by (auto simp: mintConversationID_def split: sum.splits)
qed

lemma find_member: "find P xs = Some x \<Longrightarrow> x \<in> set xs"
  by (auto simp: find_Some_iff)

context worker_effect
begin

lemma mint_acts: "r \<in> named \<Longrightarrow> acts R E s0 (mintConversationID env A r) anyResult"
proof (rule actsI)
  fix w :: ingest
  show "R (igStore w) (igStore (snd (mintConversationID env A r w)))"
    using mintConversationID_run [of env A r w] moves_refl by (metis prod.collapse)
next
  fix w :: ingest and e assume "r \<in> named" and "fst (mintConversationID env A r w) = Inl e"
  then show "E e (igStore (snd (mintConversationID env A r w)))"
    using mintConversationID_run [of env A r w "Inl e"] busy_allowed diverging
    by (cases "mintConversationID env A r w") auto
qed simp

lemma readOccurred_acts: "acts R E s0 (if n \<le> 0 then readNow env else give n) anyResult"
  by (intro acts_if acts_readNow acts_give) simp

lemma newConversation_account [simp]: "cvAccountID (newConversation i a r k l n) = a"
  by (simp add: newConversation_def)

lemma existing_own:
  assumes "\<And>s1. R s0 s1 \<Longrightarrow> acts R E s1 (k (normalizeRemoteConversationID platform rc)) Q"
    and "\<And>c r s1. R s0 s1 \<Longrightarrow> ownConversation A c s1 \<Longrightarrow> acts R E s1 (f c r) Q"
  shows "acts R E s0 (andThen (existingConversation env A platform rc)
     (\<lambda>(stored, r). case stored of None \<Rightarrow> k r | Some c \<Rightarrow> f c r)) Q"
  using assms by (intro acts_andThen [OF existing_acts]) (auto split: option.splits)

lemma ensureMessageConversation_acts:
  "normalizeRemoteConversationID platform r \<in> named \<Longrightarrow>
   acts R E s0 (ensureMessageConversation env A platform r n) (\<lambda>(cv, _). ownConversation A cv)"
  unfolding ensureMessageConversation_def Let_def
  by (intro existing_own acts_andThen [OF readOccurred_acts] acts_andThen [OF mint_acts]
      acts_andThen [OF storeConversation_acts [OF newConversation_account]] acts_give)
    (auto intro: own_stays)

lemma bind_acts:
  assumes "ownConversation A target s0"
  shows "acts R E s0 (bindRemoteConversationID env A remoteID target) (ownConversation A)"
proof -
  have "ownConversation A (target\<lparr>cvRemoteConversationID := remoteID\<rparr>) s" if "R s0 s" for s
    using own_stays [OF assms that] by (simp add: ownConversation_def)
  then show ?thesis
    unfolding bindRemoteConversationID_def
    by (intro acts_if acts_give acts_andThen [OF acts_readNow] acts_andDo acts_writeU acts_count1)
      (auto intro: own_stays [OF assms] moves_reassign moves_trans)
qed

lemma displaceAndMint_acts:
  "remoteID \<in> named \<Longrightarrow> acts R E s0 (displaceAndMint env A remoteID kind l created) (ownConversation A)"
  unfolding displaceAndMint_def
  by (intro acts_andThen [OF acts_readNow] acts_andThen [OF acts_write [where Q = anyResult]]
      acts_andThen [OF mint_acts] acts_andThen [OF storeConversation_acts [OF newConversation_account]]
      acts_andDo acts_count1 acts_give)
    (auto intro: moves_displace own_stays)

lemma findDirect_member:
  assumes "findDirectConversationBySolePeer a i s = Inr c"
  shows "c \<in> set (conversations s) \<and> cvAccountID c = a"
proof -
  define xs where "xs = filter (\<lambda>c. cvAccountID c = a \<and> cvKind c = ''direct'' \<and> solePeer i c s) (conversations s)"
  obtain cs where "sqlTop recencyKey 1 xs = c # cs"
    using assms unfolding findDirectConversationBySolePeer_def xs_def [symmetric]
    by (simp split: list.split_asm)
  then have "c \<in> set (sqlTop recencyKey 1 xs)" by simp
  then have "c \<in> set xs" by (rule subsetD [OF set_sqlTop])
  then show ?thesis by (simp add: xs_def)
qed

lemma findDirect_acts:
  "acts R E s0 (query env (findDirectConversationBySolePeer A i)) (ownConversation A)"
proof (rule acts_read)
  fix s cv assume "findDirectConversationBySolePeer A i s = Inr cv"
  then show "ownConversation A cv s" using findDirect_member own_member by blast
qed simp

lemma findGroup_member:
  assumes "findGroupConversationByPeerSet a is s = Inr c"
  shows "c \<in> set (conversations s) \<and> cvAccountID c = a"
proof -
  have "\<exists>P. find P (sort_key recencyKey (filter (\<lambda>c. cvAccountID c = a \<and> cvKind c = ''group'')
      (conversations s))) = Some c"
    using assms unfolding findGroupConversationByPeerSet_def Let_def
    by (simp split: if_split_asm option.split_asm) blast
  then have "c \<in> set (sort_key recencyKey (filter (\<lambda>c. cvAccountID c = a \<and> cvKind c = ''group'')
      (conversations s)))"
    by (blast dest: find_member)
  then show ?thesis by simp
qed

lemma findGroup_acts:
  "acts R E s0 (query env (findGroupConversationByPeerSet A is)) (ownConversation A)"
proof (rule acts_read)
  fix s cv assume "findGroupConversationByPeerSet A is s = Inr cv"
  then show "ownConversation A cv s" using findGroup_member own_member by blast
qed simp

lemma findThread_acts: "acts R E s0 (findThreadByRoster env A direct peers) (ownConversation A)"
  unfolding findThreadByRoster_def
  by (auto intro: findDirect_acts findGroup_acts acts_notFound split: list.split)

end

context worker_effect
begin

text \<open>Reads that cannot fail.\<close>

lemma acts_list: "acts R E s0 (query env (\<lambda>s. Inr (f s))) anyResult"
  by (rule acts_query) simp_all

lemma own_later: "acts R E s0 m (ownConversation A) \<Longrightarrow> acts R E s0 (andThen m (\<lambda>c. give (c, r)))
   (\<lambda>(c, _). ownConversation A c)"
  by (erule acts_andThen, rule acts_give) (auto intro: own_stays)

lemma found_own:
  assumes "acts R E s0 m (ownConversation A)"
    and "\<And>s1. R s0 s1 \<Longrightarrow> acts R E s1 k Q"
    and "\<And>c s1. R s0 s1 \<Longrightarrow> ownConversation A c s1 \<Longrightarrow> acts R E s1 (f c) Q"
  shows "acts R E s0 (andThen (found m) (\<lambda>x. case x of None \<Rightarrow> k | Some c \<Rightarrow> f c)) Q"
  using assms by (intro acts_andThen [OF acts_found [OF assms(1)]] acts_option) auto

lemma reroute_acts:
  "remoteID \<in> named \<Longrightarrow> acts R E s0 (rerouteGoogleDirect env A remoteID sender n) (ownConversation A)"
  unfolding rerouteGoogleDirect_def
  by (intro found_own findDirect_acts displaceAndMint_acts bind_acts)

lemma existing_known:
  assumes "normalizeRemoteConversationID platform rc \<in> named"
    and "\<And>r s1. r \<in> named \<Longrightarrow> R s0 s1 \<Longrightarrow> acts R E s1 (k r) Q"
    and "\<And>c r s1. r \<in> named \<Longrightarrow> R s0 s1 \<Longrightarrow> ownConversation A c s1 \<Longrightarrow> acts R E s1 (f c r) Q"
  shows "acts R E s0 (andThen (existingConversation env A platform rc)
     (\<lambda>(stored, r). case stored of None \<Rightarrow> k r | Some c \<Rightarrow> f c r)) Q"
  using assms by (intro acts_andThen [OF existing_acts]) (auto split: option.splits)

lemma googleIncoming_acts:
  "normalizeRemoteConversationID platform rc \<in> named \<Longrightarrow>
   acts R E s0 (googleIncomingConversation env A platform rc sender n) (\<lambda>(c, _). ownConversation A c)"
  unfolding googleIncomingConversation_def
  by (intro existing_known found_own acts_if acts_give acts_andThen [OF acts_list] findDirect_acts
      ensureMessageConversation_acts own_later bind_acts reroute_acts)
    (auto intro: own_stays moves_trans)

lemma resolvePeer_acts: "acts R E s0 (resolvePeer env A platform p peers) anyResult"
  unfolding resolvePeer_def
  by (intro acts_if acts_give acts_andThen [OF resolveIdentity_acts]) simp_all

lemma resolveEventPeers_acts: "acts R E s0 (resolveEventPeers env A platform e) anyResult"
  unfolding resolveEventPeers_def by (intro acts_foldActs resolvePeer_acts) simp_all

lemma eventTarget_acts:
  assumes "\<And>c. stored = Some c \<Longrightarrow> ownConversation A c s0" and "rc \<in> named"
  shows "acts R E s0 (googleConversationEventTarget env A platform e rc stored) (ownConversation A)"
  unfolding googleConversationEventTarget_def Let_def
  by (intro acts_andThen [OF resolveEventPeers_acts] acts_option acts_if acts_notFound acts_give found_own
      findThread_acts bind_acts acts_andThen [OF acts_list] displaceAndMint_acts)
    (auto intro: own_stays [OF assms(1)] own_stays [OF own_stays [OF assms(1)]]
      own_stays [OF own_stays [OF own_stays [OF assms(1)]]] moves_trans assms(2))

lemma eventParticipant_acts:
  "\<forall>q \<in> set ps. cpAccountID q = A \<Longrightarrow>
   acts R E s0 (eventParticipant env A platform cid item ps) (\<lambda>qs _. \<forall>q \<in> set qs. cpAccountID q = A)"
  unfolding eventParticipant_def
  by (intro acts_prod acts_andThen [OF resolveIdentity_acts] acts_give) auto

lemma refreshedConversation_acts:
  assumes "\<And>c. target = Some c \<Longrightarrow> ownConversation A c s0" and "rc \<in> named"
  shows "acts R E s0 (refreshedConversation env A e rc n target) (\<lambda>c _. cvAccountID c = A)"
  unfolding refreshedConversation_def
  by (intro acts_option acts_refused acts_andThen [OF mint_acts] acts_give)
    (use assms in \<open>auto simp: ownConversation_def\<close>)

lemma refreshConversation_acts:
  assumes "normalizeRemoteConversationID platform (ceRemoteConversationID e) \<in> named"
  shows "acts R E s0 (refreshConversation env A platform e) anyResult"
  unfolding refreshConversation_def Let_def
proof (intro acts_if acts_refused acts_sum acts_andThen [OF acts_readNow]
    acts_andThen [OF acts_found [OF getByRemote_acts]])
  fix prepared n stored s1 s2
  assume stored: "case stored of None \<Rightarrow> True | Some y \<Rightarrow> ownConversation A y s2"
  let ?rid = "normalizeRemoteConversationID platform (ceRemoteConversationID e)"
  have target: "acts R E s2 (if platform = PlatformGoogle
      then found (googleConversationEventTarget env A platform e ?rid stored) else give stored)
      (\<lambda>c s. \<forall>y. c = Some y \<longrightarrow> ownConversation A y s)"
    using stored assms by (intro acts_if acts_give acts_weaken [OF acts_found [OF eventTarget_acts]])
      (auto split: option.splits intro: own_stays)
  show "acts R E s2 (andThen (if platform = PlatformGoogle
      then found (googleConversationEventTarget env A platform e ?rid stored) else give stored) (\<lambda>target.
      andThen (refreshedConversation env A e ?rid n target) (\<lambda>c.
      andDo (exec env (\<lambda>_ s. unitResult (upsertConversation (ieJSONValid env) c s)))
      (andThen (query env (getConversationByRemote A ?rid)) (\<lambda>c1.
      andThen (foldActs (eventParticipant env A platform (cvConversationID c1)) prepared []) (\<lambda>ps.
      andDo (exec env (\<lambda>_ s. unitResult (replaceConversationParticipants (cvConversationID c1) ps s)))
        (give c1))))))) anyResult"
    apply (intro acts_andThen [OF target] acts_andThen [OF refreshedConversation_acts] acts_andDo
        acts_writeU acts_andThen [OF getByRemote_acts] acts_give
        acts_andThen [OF acts_foldActs [where Q = "\<lambda>qs _. \<forall>q \<in> set qs. cpAccountID q = A"]]
        eventParticipant_acts)
    apply (auto intro: moves_conversation moves_replace assms)
    apply (metis moves_replace own_stays ownConversation_def)
    done
qed

end

end
