(* ===== verification/Ingest_Frames.thy ===== *)
theory Ingest_Frames
  imports Ingest_Worker
begin

text \<open>
  What a frame does to the store, for any provider of the interface \<open>worker_effect\<close>: the messages,
  the mutations, the reactions and the receipts of a frame, and its handling with the retries and
  the quarantine. A frame that is handled moves the store along \<open>R\<close>, and reaches \<open>D\<close> unless the
  database stays busy or a minting diverges.
\<close>

context worker_effect
begin

section \<open>Messages\<close>

lemma ensureDirectPeer_acts:
  "ownConversation A c s0 \<Longrightarrow> acts R E s0 (ensureDirectPeerParticipant env c i) anyResult"
  unfolding ensureDirectPeerParticipant_def
  by (intro acts_if acts_give acts_andThen [OF acts_write [where Q = anyResult]])
    (use conversation_stays in \<open>auto simp: ownConversation_def elim!: moves_ensure [rotated 2]\<close>)

lemma ensureDirectPeerFromRemoteID_acts:
  assumes "ownConversation A c s0"
  shows "acts R E s0 (ensureDirectPeerFromRemoteID env A platform c r) anyResult"
proof -
  let ?address = "directPeerAddress platform r"
  let ?m = "resolveIdentity env A platform
    \<lparr>irKind = '''', irCanonical = '''', irRaw = ?address, irName = '''', irIsSelf = False\<rparr>"
  let ?f = "ensureDirectPeerFromRemoteID env A platform c r"
  have step: "R (igStore w) (igStore (snd (?f w))) \<and>
      (case fst (?f w) of Inl e \<Rightarrow> E e (igStore (snd (?f w))) | Inr x \<Rightarrow> True)" if w: "R s0 (igStore w)" for w :: ingest
  proof (cases "cvKind c \<noteq> ''direct'' \<or> ?address = ''''")
    case True
    then show ?thesis by (simp add: ensureDirectPeerFromRemoteID_def Let_def give_def moves_refl)
  next
    case False
    obtain res w1 where m: "?m w = (res, w1)" by fastforce
    show ?thesis
    proof (cases res)
      case (Inl e)
      with m False acts_failure [OF resolveIdentity_acts w, of platform _ e w1]
      show ?thesis by (simp add: ensureDirectPeerFromRemoteID_def Let_def)
    next
      case (Inr i)
      with m have m1: "?m w = (Inr i, w1)" by simp
      from acts_result [OF resolveIdentity_acts w m1] have one: "R (igStore w) (igStore w1)" by simp
      have f: "?f w = ensureDirectPeerParticipant env c i w1"
        using False m1 by (simp add: ensureDirectPeerFromRemoteID_def Let_def)
      have "acts R E (igStore w1) (ensureDirectPeerParticipant env c i) anyResult"
        using own_stays [OF assms moves_trans [OF w one]] by (rule ensureDirectPeer_acts)
      then have "R (igStore w1) (igStore (snd (?f w))) \<and>
          (case fst (?f w) of Inl e \<Rightarrow> E e (igStore (snd (?f w))) | Inr x \<Rightarrow> True)"
        unfolding acts_def f using moves_refl by blast
      with moves_trans [OF one] show ?thesis by blast
    qed
  qed
  then show ?thesis by (simp add: acts_def)
qed

lemma observeEcho_acts: "acts R E s0 (observeEcho env A e r) anyResult"
proof (rule actsI)
  fix w :: ingest
  show "R (igStore w) (igStore (snd (observeEcho env A e r w)))"
  proof (cases "ieObserver env")
    case None
    then show ?thesis by (simp add: observeEcho_def refuse_def moves_refl)
  next
    case (Some observe)
    let ?echo = "\<lparr>ecAccountID = A, ecTransportRequestID = meClientRequestID e, ecRemoteMessageID = r\<rparr>"
    obtain answer t where run: "observe (ieClock env (igTick w)) ?echo (igStore w) = (answer, t)"
      by fastforce
    have "R (igStore w) t" using moves_echo [OF Some, of ?echo] run by (metis snd_conv transport_echo.select_convs(1))
    then show ?thesis using Some run
      by (simp add: observeEcho_def count1_def Let_def split: echo_answer.split)
  qed
next
  fix w :: ingest and d assume "fst (observeEcho env A e r w) = Inl d"
  then show "E d (igStore (snd (observeEcho env A e r w)))"
    by (auto simp: observeEcho_def refuse_def Let_def count1_def refused_allowed panic_allowed
        split: option.splits prod.splits echo_answer.splits)
qed simp

lemma getMessage_acts: "acts R E s0 (query env (getMessageByRemote a c r)) anyResult"
  by (rule acts_read) simp_all

lemma foundMessage_acts: "acts R E s0 (found (query env (getMessageByRemote a c r))) anyResult"
  by (rule acts_any [OF acts_found [OF getMessage_acts]])

lemma signalOutgoing_acts: "acts R E s0 (signalOutgoingRemoteID env A c rc r) anyResult"
  unfolding signalOutgoingRemoteID_def Let_def
  by (intro acts_andThen [OF foundMessage_acts] acts_if acts_option acts_give) simp_all

lemma eventSender_acts: "acts R E s0 (eventSender env A platform direction e) anyResult"
  unfolding eventSender_def
  by (intro acts_if acts_give acts_andThen [OF resolveIdentity_acts]) simp_all

lemma messageConversation_acts:
  "normalizeRemoteConversationID platform (meRemoteConversationID e) \<in> named \<Longrightarrow>
   acts R E s0 (messageConversation env A platform e sender n) (\<lambda>(c, _). ownConversation A c)"
  unfolding messageConversation_def
  by (intro acts_option acts_if googleIncoming_acts ensureMessageConversation_acts)

text \<open>What a projection carries: the account, the frame and a conversation of the account.\<close>

definition projectionOf :: "message_projection + message \<Rightarrow> store \<Rightarrow> bool" where
  "projectionOf r s = (case r of Inr m \<Rightarrow> True
     | Inl p \<Rightarrow> msAccountID (pjMessage p) = A \<and> pjInboxID p = inboxID \<and>
         hasConversation A (msConversationID (pjMessage p)) s)"

lemma projectionOf_duplicate: "projectionOf (Inr m) s"
  by (simp add: projectionOf_def)

lemma projectionOf_new:
  "ownConversation A c s \<Longrightarrow> projectionOf (Inl \<lparr>pjInboxID = inboxID,
     pjMessage = projectedMessage env A e c rc r direction sender n, pjAttachments = as\<rparr>) s"
  by (simp add: projectionOf_def projectedMessage_def ownConversation_def)

lemma messageProjection_acts:
  "normalizeRemoteConversationID platform (meRemoteConversationID e) \<in> named \<Longrightarrow>
   acts R E s0 (messageProjection env A platform inboxID e routeEcho) projectionOf"
  unfolding messageProjection_def Let_def
  apply (intro acts_option acts_refused acts_if acts_andDo acts_andThen [OF eventSender_acts]
    acts_andThen [OF messageConversation_acts] acts_prod observeEcho_acts acts_give TrueI
    acts_andThen [OF acts_if [OF signalOutgoing_acts acts_give]] ensureDirectPeer_acts
    ensureDirectPeerFromRemoteID_acts acts_andThen [OF acts_if [OF acts_list acts_give]] acts_count1)
     apply (simp_all add: projectionOf_duplicate)
    apply (auto intro: own_stays projectionOf_new)
  apply (meson own_stays projectionOf_new)
  done

text \<open>The state between message events: once a message was projected the frame is done.\<close>

definition phaseOK :: "message_phase \<Rightarrow> store \<Rightarrow> bool" where
  "phaseOK st s \<longleftrightarrow> (mpProjected st \<longrightarrow> D s)"

lemma phaseOK_stays: "phaseOK st s \<Longrightarrow> R s t \<Longrightarrow> phaseOK st t"
  unfolding phaseOK_def using done_stays by blast

lemma projectMessage_acts:
  assumes "msAccountID (pjMessage p) = A" "pjInboxID p = inboxID"
  shows "acts R E s0 (exec env (\<lambda>c s. unitResult (projectMessage c p s))) (\<lambda>_. D)"
proof (rule acts_exec)
  show "E (StoreRefusal e) s" if "unitResult (projectMessage c p s) = Inl e" for c s e
    using project_conflict [OF assms] that by (simp add: unitResult_Inl)
  show "R s t \<and> D t" if "unitResult (projectMessage c p s) = Inr (x, t)" for c s x t
    using moves_project [OF assms, of c s t] that by (simp add: unitResult_Inr)
qed

lemma storeProjection_acts:
  assumes st: "phaseOK st s0" and p: "projectionOf (Inl p) s0"
  shows "acts R E s0 (storeProjection env A platform e p st) phaseOK"
proof -
  define m where "m = pjMessage p"
  have own: "msAccountID m = A" "pjInboxID p = inboxID" and here: "hasConversation A (msConversationID m) s0"
    using p by (simp_all add: projectionOf_def m_def)
  have store: "acts R E s0 (if mpCount st = 0
      then andDo (exec env (\<lambda>c s. unitResult (projectMessage c p s))) (count1 A CntProjected)
      else andDo (exec env (\<lambda>c s. unitResult (importMessage c p s))) (count1 A CntImported))
      (\<lambda>_ s. mpCount st = 0 \<longrightarrow> D s)"
  proof (rule acts_if)
    assume "mpCount st = 0"
    have "acts R E s1 (count1 A CntProjected) (\<lambda>_ s. mpCount st = 0 \<longrightarrow> D s)" if "D s1" for s1
      using that by (auto simp: acts_def count1_def moves_refl intro: done_stays)
    then show "acts R E s0 (andDo (exec env (\<lambda>c s. unitResult (projectMessage c p s))) (count1 A CntProjected))
        (\<lambda>_ s. mpCount st = 0 \<longrightarrow> D s)"
      using own by (intro acts_andThen [OF projectMessage_acts]) (simp_all add: m_def)
  next
    assume "mpCount st \<noteq> 0"
    then show "acts R E s0 (andDo (exec env (\<lambda>c s. unitResult (importMessage c p s))) (count1 A CntImported))
        (\<lambda>_ s. mpCount st = 0 \<longrightarrow> D s)"
      by (intro acts_weaken [OF acts_andDo [OF acts_writeU acts_count1]])
        (use own(1) in \<open>auto simp: m_def elim!: moves_import [rotated]\<close>)
  qed
  define named where "named = (if usesEmbeddedReactionSnapshot platform
      then andThen (query env (getMessageByRemote (msAccountID m) (msConversationID m)
             (msRemoteMessageID m))) (\<lambda>x. give (m\<lparr>msMessageID := msMessageID x\<rparr>))
      else give m)"
  have named: "acts R E s1 named (\<lambda>m1 _. msConversationID m1 = msConversationID m)" for s1
    unfolding named_def by (intro acts_if acts_andThen [OF getMessage_acts] acts_give) simp_all
  have bump: "acts R E s1 (exec env (\<lambda>_ s. unitResult (bumpConversationRecency (msConversationID m1) n s))) anyResult"
    if "R s0 s1" "msConversationID m1 = msConversationID m" for s1 n m1
    using that by (intro acts_writeU) (auto intro: moves_bump conversation_stays [OF here] moves_trans)
  have extras: "acts R E s1 (if blank (meLayoutJSON e) then give ()
      else exec env (\<lambda>c s. unitResult (mergeMessagePayload (ieJSON env) (c 0) mid pl s))) anyResult" for s1 mid pl
    by (intro acts_if acts_give acts_writeU) (auto intro: moves_extras)
  show ?thesis
    unfolding storeProjection_def Let_def m_def [symmetric] own(1)
    by (intro acts_andThen [OF store] acts_andThen [OF named [unfolded named_def own(1)]] acts_andDo bump
        extras acts_give)
      (use st in \<open>auto simp: phaseOK_def intro: moves_trans done_stays\<close>)
qed

lemma messageEvents_acts:
  assumes "phaseOK st s0" and "set (eventThreads platform e) \<subseteq> named"
  shows "acts R E s0 (messageEvents env A platform inboxID e st) phaseOK"
  unfolding messageEvents_def
proof (rule acts_option)
  show "acts R E s0 (give st) phaseOK" by (rule acts_give) (rule phaseOK_stays [OF assms(1)])
next
  fix v assume "evMessage e = Some v"
  then have "normalizeRemoteConversationID platform (meRemoteConversationID v) \<in> named"
    using assms(2) by (simp add: eventThreads_def)
  then show "acts R E s0 (if evKind e = ''message'' then
      andThen (messageProjection env A platform inboxID v (mpCount st = 0)) (\<lambda>r. case r of
        Inl p \<Rightarrow> storeProjection env A platform v p st
      | Inr duplicate \<Rightarrow> give (st\<lparr>mpSnapshots := snapshotFor platform v duplicate (mpSnapshots st)\<rparr>))
      else give st) phaseOK"
    by (intro acts_if acts_give acts_andThen [OF messageProjection_acts] acts_sum storeProjection_acts)
      (use phaseOK_stays [OF assms(1)] in \<open>auto simp: phaseOK_def intro: moves_trans\<close>)
qed

lemma conversationEvents_acts:
  assumes "set (eventThreads platform e) \<subseteq> named"
  shows "acts R E s0 (conversationEvents env A platform e changed) anyResult"
  unfolding conversationEvents_def
  by (intro acts_option acts_if acts_give acts_andThen [OF refreshConversation_acts])
    (use assms in \<open>simp_all add: eventThreads_def\<close>)

lemma mutationEvents_acts: "acts R E s0 (mutationEvents env A platform inboxID e changed) anyResult"
  unfolding mutationEvents_def Let_def
  by (intro acts_option acts_if acts_give acts_refused acts_andThen [OF existing_acts] acts_prod
      acts_andThen [OF acts_write [where Q = anyResult]] acts_andDo acts_count1)
    (auto intro: moves_mutation)

section \<open>Reactions and receipts\<close>

lemma reactionActor_acts: "acts R E s0 (prepareReactionActor env A platform r emoji) anyResult"
  unfolding prepareReactionActor_def
  by (intro acts_if acts_give acts_andThen [OF resolveIdentity_acts]) simp_all

lemma snapshotEntry_acts: "acts R E s0 (prepareReactionSnapshotEntry env A platform e) anyResult"
  unfolding prepareReactionSnapshotEntry_def Let_def
  by (intro acts_if acts_give acts_andThen [OF reactionActor_acts]) simp_all

lemma reactionApply_acts: "acts R E s0 (prepareReactionApply env A platform m e sq) anyResult"
  unfolding prepareReactionApply_def Let_def
  by (intro acts_if acts_give acts_refused acts_andThen [OF reactionActor_acts]) simp_all

lemma reactionTarget_acts: "acts R E s0 (resolveReactionTarget env A platform e) anyResult"
  unfolding resolveReactionTarget_def Let_def
  by (intro existing_own acts_give acts_andThen [OF foundMessage_acts] acts_if acts_option foundMessage_acts)
    simp_all

lemma gatherReaction_acts: "acts R E s0 (gatherReaction env A platform e snaps) anyResult"
  unfolding gatherReaction_def Let_def
  by (intro acts_option acts_if acts_give acts_andDo acts_count1 acts_andThen [OF snapshotEntry_acts]) simp_all

lemma deltaReaction_acts: "acts R E s0 (deltaReaction env A platform sq v) anyResult"
  unfolding deltaReaction_def
  by (intro acts_andThen [OF reactionTarget_acts] acts_option acts_andDo acts_count1 acts_give acts_if
      acts_andThen [OF reactionApply_acts] acts_andThen [OF acts_write [where Q = anyResult]])
    (auto intro: moves_delta)

text \<open>The same for the loops that return a flag beside the failure.\<close>

definition ends :: "store \<Rightarrow> (store \<Rightarrow> bool) \<Rightarrow> outcome \<Rightarrow> bool" where
  "ends s Q r \<longleftrightarrow> R s (igStore (snd r)) \<and>
     (case fst (fst r) of None \<Rightarrow> Q (igStore (snd r)) | Some e \<Rightarrow> E e (igStore (snd r)))"

lemma ends_from: "R s t \<Longrightarrow> ends t Q r \<Longrightarrow> ends s Q r"
  unfolding ends_def using moves_trans by blast

lemma replaceSnapshots_ends: "ends (igStore w) (\<lambda>_. True) (replaceSnapshots env A sq snaps changed w)"
proof (induction snaps arbitrary: changed w)
  case Nil
  then show ?case by (simp add: ends_def moves_refl)
next
  case (Cons item snaps)
  obtain key sn where item: "item = (key, sn)" by fastforce
  let ?m = "exec env (\<lambda>t s. replaceEmbeddedReactions (t 0) (snMessageID sn) (snAccountID sn)
    (snConversationID sn) (snEntries sn) sq s)"
  have m: "acts R E (igStore w) ?m anyResult"
    by (rule acts_write) (auto intro: moves_snapshot)
  obtain r w1 where run: "?m w = (r, w1)" by fastforce
  show ?case
  proof (cases r)
    case (Inl e)
    with run acts_failure [OF m moves_refl, of e w1] item show ?thesis by (simp add: ends_def)
  next
    case (Inr x)
    obtain p q where x: "x = (p, q)" by fastforce
    have one: "R (igStore w) (igStore w1)" using run Inr acts_result [OF m moves_refl, of x w1] by simp
    have "ends (igStore w1) (\<lambda>_. True) (replaceSnapshots env A sq snaps c
        (addCountIf A CntReactionsRemoved q (addCountIf A CntReactionsApplied p w1)))" for c
      using Cons.IH [where w = "addCountIf A CntReactionsRemoved q (addCountIf A CntReactionsApplied p w1)"]
      by simp
    from ends_from [OF one this] show ?thesis using run item Inr x by simp
  qed
qed

lemma deltaReactions_ends: "ends (igStore w) (\<lambda>_. True) (deltaReactions env A platform sq es changed w)"
proof (induction es arbitrary: changed w)
  case Nil
  then show ?case by (simp add: ends_def moves_refl)
next
  case (Cons e es)
  show ?case
  proof (cases "if evKind e = ''reaction'' then evReaction e else None")
    case None
    then show ?thesis using Cons.IH by (simp only: deltaReactions.simps option.case)
  next
    case (Some v)
    obtain r w1 where run: "deltaReaction env A platform sq v w = (r, w1)" by fastforce
    show ?thesis
    proof (cases r)
      case (Inl d)
      with run acts_failure [OF deltaReaction_acts moves_refl, of platform sq v w d w1] Some
      show ?thesis by (simp add: ends_def del: if_split_eq1)
    next
      case (Inr x)
      have one: "R (igStore w) (igStore w1)"
        using run Inr acts_result [OF deltaReaction_acts moves_refl, of platform sq v w x w1] by simp
      show ?thesis
        using run Inr Some Cons.IH ends_from [OF one]
        by (simp only: deltaReactions.simps option.case prod.case sum.case)
    qed
  qed
qed

lemma reactionEvents_ends:
  "ends (igStore w) (\<lambda>_. True) (reactionEvents env A platform sq events snaps changed w)"
proof (cases "usesEmbeddedReactionSnapshot platform")
  case False
  then show ?thesis using deltaReactions_ends by (simp add: reactionEvents_def)
next
  case True
  let ?m = "foldActs (gatherReaction env A platform) events snaps"
  have m: "acts R E (igStore w) ?m anyResult"
    by (intro acts_foldActs gatherReaction_acts) simp_all
  obtain r w1 where run: "?m w = (r, w1)" by fastforce
  show ?thesis
  proof (cases r)
    case (Inl e)
    with run acts_failure [OF m moves_refl, of e w1] True
    show ?thesis by (simp add: ends_def reactionEvents_def)
  next
    case (Inr x)
    have one: "R (igStore w) (igStore w1)" using run Inr acts_result [OF m moves_refl, of x w1] by simp
    show ?thesis
      using run Inr True one ends_from [OF one] replaceSnapshots_ends refused_allowed
      by (auto simp: reactionEvents_def ends_def [of _ _ "((Some d, c), v)" for d c v])
  qed
qed

lemma lastRead_acts: "acts R E s0 (lastReadMessage env A cid rs) anyResult"
  by (induction rs) (auto intro!: acts_give acts_andThen [OF foundMessage_acts])

lemma getDevice_acts: "acts R E s0 (found (query env (getLocalInstallationDevice A))) anyResult"
  by (rule acts_any [OF acts_found [OF acts_read [where Q = anyResult]]]) simp_all

lemma advanceReadCursor_acts: "acts R E s0 (advanceReadCursor env A platform e) anyResult"
  unfolding advanceReadCursor_def Let_def
  by (intro existing_own acts_give acts_andThen [OF getDevice_acts] acts_option acts_if acts_refused
      acts_andThen [OF lastRead_acts] acts_andThen [OF acts_readNow] acts_andDo acts_writeU)
    (auto intro: moves_cursor)

lemma receiptEvents_acts: "acts R E s0 (receiptEvents env A platform e changed) anyResult"
  unfolding receiptEvents_def
  by (intro acts_option acts_if acts_give acts_andDo acts_count1 acts_andThen [OF advanceReadCursor_acts])
    simp_all

section \<open>Frames\<close>

lemma messagePhase_acts:
  assumes "\<And>e. e \<in> set events \<Longrightarrow> set (eventThreads platform e) \<subseteq> named"
  shows "acts R E s0 (messagePhase env A platform inboxID events) (\<lambda>(_, projected, _) s. projected \<longrightarrow> D s)"
proof -
  have conversations: "acts R E s1 (foldActs (conversationEvents env A platform) events False) anyResult" for s1
    by (intro acts_foldActs conversationEvents_acts assms) simp_all
  have messages: "acts R E s1 (foldActs (messageEvents env A platform inboxID) events
      \<lparr>mpChanged = c, mpSnapshots = [], mpCount = 0, mpProjected = False\<rparr>) phaseOK" for s1 c
    by (intro acts_foldActs messageEvents_acts assms) (auto simp: phaseOK_def intro: done_stays)
  have mutations: "acts R E s1 (foldActs (mutationEvents env A platform inboxID) events c) anyResult" for s1 c
    by (intro acts_foldActs mutationEvents_acts) simp_all
  show ?thesis
    unfolding messagePhase_def
    by (intro acts_andThen [OF conversations] acts_andThen [OF messages] acts_andThen [OF mutations] acts_give)
      (auto simp: phaseOK_def intro: done_stays)
qed

lemma finishEvents_acts:
  assumes "projected \<Longrightarrow> D s0"
  shows "acts R E s0 (finishEvents env A platform inboxID events projected changed) (\<lambda>_. D)"
proof -
  have mark: "acts R E s1 (exec env (\<lambda>t s. unitResult (markInboxProcessed (t 0) inboxID A s))) (\<lambda>_. D)" for s1
  proof (rule acts_write)
    fix c s x t assume "unitResult (markInboxProcessed (c 0) inboxID A s) = Inr (x, t)"
    then show "R s t \<and> D t" using moves_mark by (simp add: unitResult_Inr)
  qed simp
  show ?thesis
    unfolding finishEvents_def
    by (intro acts_andThen [OF acts_foldActs [where Q = anyResult]] receiptEvents_acts acts_if acts_give
        acts_andThen [OF mark])
      (use assms in \<open>auto intro: done_stays moves_trans\<close>)
qed

lemma applyEvents_ends:
  assumes "riAccountID record = A" and "\<And>e. e \<in> set events \<Longrightarrow> set (eventThreads platform e) \<subseteq> named"
  shows "ends (igStore w) D (applyEvents env platform record inboxID events w)"
proof -
  let ?sq = "unixMilliOf (riReceivedAt record)"
  note phase = messagePhase_acts [where platform = platform and events = events, OF assms(2)]
  obtain r w1 where run1: "messagePhase env A platform inboxID events w = (r, w1)" by fastforce
  show ?thesis
  proof (cases r)
    case (Inl e)
    with run1 acts_failure [OF phase moves_refl, of w e w1]
    show ?thesis by (simp add: applyEvents_def assms(1) ends_def)
  next
    case (Inr x)
    obtain changed projected snaps where x: "x = (changed, projected, snaps)" by (cases x) auto
    have one: "R (igStore w) (igStore w1)" and done1: "projected \<Longrightarrow> D (igStore w1)"
      using run1 Inr x acts_result [OF phase moves_refl, of w x w1] by simp_all
    obtain err changed1 w2 where run2:
      "reactionEvents env A platform ?sq events snaps changed w1 = ((err, changed1), w2)"
      by (metis surj_pair)
    note react = reactionEvents_ends [of w1 platform ?sq events snaps changed, unfolded run2]
    have two: "R (igStore w1) (igStore w2)" using react by (simp add: ends_def)
    show ?thesis
    proof (cases err)
      case (Some e)
      with run1 run2 Inr x react moves_trans [OF one] show ?thesis
        by (simp add: applyEvents_def assms(1) ends_def)
    next
      case None
      have done2: "projected \<Longrightarrow> D (igStore w2)" using done_stays [OF done1 two] .
      obtain r3 w3 where run3:
        "finishEvents env A platform inboxID events projected changed1 w2 = (r3, w3)" by fastforce
      have applied: "applyEvents env platform record inboxID events w =
        (case r3 of Inl e \<Rightarrow> ((Some e, False), w3) | Inr changed2 \<Rightarrow> ((None, changed2), w3))"
        using run1 run2 run3 Inr x None by (simp add: applyEvents_def assms(1))
      have "R (igStore w2) (igStore w3) \<and> (case r3 of Inl e \<Rightarrow> E e (igStore w3) | Inr y \<Rightarrow> D (igStore w3))"
        using finishEvents_acts [where platform = platform and events = events and changed = changed1, OF done2]
          run3 moves_refl
        unfolding acts_def by (metis fst_conv snd_conv)
      then show ?thesis
        using moves_trans [OF moves_trans [OF one two]] unfolding applied by (auto simp: ends_def split: sum.splits)
    qed
  qed
qed

definition recordEnds :: "store \<Rightarrow> (record_error option \<times> bool) \<times> ingest \<Rightarrow> bool" where
  "recordEnds s r \<longleftrightarrow> R s (igStore (snd r)) \<and>
     (case fst (fst r) of None \<Rightarrow> D (igStore (snd r))
      | Some x \<Rightarrow> x = Quarantine \<or> (\<exists>e. E e (igStore (snd r)) \<and> x = classifyApplyError e))"

lemma recordEnds_from: "R s t \<Longrightarrow> recordEnds t r \<Longrightarrow> recordEnds s r"
  unfolding recordEnds_def using moves_trans by blast

lemma recordEnds_quarantine: "recordEnds (igStore w) ((Some Quarantine, c), w)"
  by (simp add: recordEnds_def moves_refl)

lemma processRecordResult_ends:
  assumes "riAccountID record = A" and "set (frameThreads env record) \<subseteq> named"
  shows "recordEnds (igStore w) (processRecordResult env inboxID record w)"
proof (cases "ieDecoders env (riCodec record)")
  case None
  then show ?thesis by (simp add: processRecordResult_def recordEnds_quarantine)
next
  case (Some decoder)
  obtain platform decode where decoder: "decoder = (platform, decode)" by fastforce
  show ?thesis
  proof (cases "decode record")
    case (Decoded events0)
    define events where
      "events = map (\<lambda>e. e\<lparr>evAccountID := riAccountID record, evSourceInboxID := inboxID\<rparr>) events0"
    let ?w = "addCount (riAccountID record) CntDecodedEvents (length events) w"
    obtain e changed w1 where run: "applyEvents env platform record inboxID events ?w = ((e, changed), w1)"
      by (metis surj_pair)
    have "set (eventThreads platform x) \<subseteq> named" if x: "x \<in> set events" for x
    proof -
      obtain y where "y \<in> set events0" "x = y\<lparr>evAccountID := riAccountID record, evSourceInboxID := inboxID\<rparr>"
        using x by (auto simp: events_def)
      moreover from this(2) have "eventThreads platform x = eventThreads platform y" by (simp add: eventThreads_def)
      ultimately show ?thesis using assms(2) Some decoder Decoded by (auto simp: frameThreads_def)
    qed
    then have "ends (igStore w) D ((e, changed), w1)"
      using applyEvents_ends [OF assms(1), where w = ?w and platform = platform and events = events] run by simp
    then have "recordEnds (igStore w) ((map_option classifyApplyError e, changed), w1)"
      by (auto simp: ends_def recordEnds_def split: option.splits)
    then show ?thesis
      using Some decoder Decoded run recordEnds_quarantine
      by (simp add: processRecordResult_def Let_def events_def)
  qed (simp_all add: Some decoder processRecordResult_def recordEnds_quarantine)
qed

lemma retryRecord_ends:
  assumes "\<And>w. recordEnds (igStore w) (f w)"
  shows "recordEnds (igStore w) (retryRecord n f w)"
proof (induction n arbitrary: w)
  case 0
  then show ?case using assms by simp
next
  case (Suc n)
  obtain err c w1 where run: "f w = ((err, c), w1)" by (metis surj_pair)
  show ?case
  proof (cases "err = Some TransientFailure")
    case True
    have "R (igStore w) (igStore w1)" using assms [of w] run by (simp add: recordEnds_def)
    with Suc.IH [of w1] have "recordEnds (igStore w) (retryRecord n f w1)" by (blast intro: recordEnds_from)
    then show ?thesis using run True by simp
  next
    case False
    then have "retryRecord (Suc n) f w = f w"
      using run by (auto split: option.splits record_error.splits)
    then show ?thesis using assms by simp
  qed
qed

lemma mark_acts:
  "acts R E s0 (exec env (\<lambda>t s. unitResult (markInboxProcessed (t 0) inboxID A s))) (\<lambda>_. D)"
proof (rule acts_write)
  fix c s x t assume "unitResult (markInboxProcessed (c 0) inboxID A s) = Inr (x, t)"
  then show "R s t \<and> D t" using moves_mark by (simp add: unitResult_Inr)
qed simp

text \<open>A frame that is given up is marked, when the database lets it be.\<close>

lemma markQuarantined_moves:
  assumes "riAccountID record = A"
  shows "R (igStore w) (igStore (markQuarantined env inboxID record w))"
proof -
  let ?m = "retryAct maxTransientRetries
    (exec env (\<lambda>t s. unitResult (markInboxProcessed (t 0) inboxID A s)))"
  have "acts R E (igStore w) ?m (\<lambda>_. D)" by (intro acts_retry mark_acts)
  from acts_moves [OF this moves_refl] show ?thesis
    by (auto simp: markQuarantined_def assms split: prod.split sum.split)
qed

lemma markQuarantined_done:
  assumes "riAccountID record = A" and "\<not> ieBusy env (igTick w)"
    and "\<exists>t. markInboxProcessed (ieClock env (igTick w) 0) inboxID A (igStore w) = Inr t"
  shows "D (igStore (markQuarantined env inboxID record w))"
proof -
  obtain t where mark: "markInboxProcessed (ieClock env (igTick w) 0) inboxID A (igStore w) = Inr t"
    using assms(3) by blast
  then have "exec env (\<lambda>t s. unitResult (markInboxProcessed (t 0) inboxID A s)) w =
      (Inr (), (ticked w)\<lparr>igStore := t\<rparr>)"
    using assms(2) by (simp add: exec_def unitResult_def)
  then have "igStore (markQuarantined env inboxID record w) = t"
    by (simp add: markQuarantined_def assms(1) maxTransientRetries_def numeral_3_eq_3)
  then show ?thesis using moves_mark [OF mark] by simp
qed

lemma handleRecord_moves:
  assumes account: "riAccountID record = A" and threads: "set (frameThreads env record) \<subseteq> named"
  shows "R (igStore w) (igStore (snd (handleRecord env inboxID record w)))"
proof -
  obtain err c w1 where run:
    "retryRecord maxTransientRetries (processRecordResult env inboxID record) w = ((err, c), w1)"
    by (metis surj_pair)
  have "R (igStore w) (igStore w1)"
    using retryRecord_ends [OF processRecordResult_ends [OF account threads], where w = w and n = maxTransientRetries] run
    by (simp add: recordEnds_def)
  then show ?thesis
    using moves_trans markQuarantined_moves [OF account, of w1] run
    by (auto simp: handleRecord_def split: option.split record_error.split)
qed

text \<open>
  What a frame can end in when nothing is busy and no minting diverges:
  the frame is done.
\<close>

lemma handleRecord_done:
  assumes account: "riAccountID record = A" and threads: "set (frameThreads env record) \<subseteq> named"
    and calm: "\<And>n. \<not> ieBusy env n"
    and faults: "\<And>s. R (igStore w) s \<Longrightarrow>
      R s (igStore (snd (handleRecord env inboxID record w))) \<Longrightarrow> \<not> E DatabaseBusy s \<and> \<not> E Diverged s"
    and conflict: "\<And>e s. R (igStore w) s \<Longrightarrow> E (StoreRefusal e) s \<Longrightarrow>
      errorsIs e ErrInboxProjectionConflict \<Longrightarrow> D s"
    and mark: "\<And>n s. R (igStore w) s \<Longrightarrow> \<exists>t. markInboxProcessed (ieClock env n 0) inboxID A s = Inr t"
  shows "D (igStore (snd (handleRecord env inboxID record w)))"
proof -
  obtain err c w1 where run:
    "retryRecord maxTransientRetries (processRecordResult env inboxID record) w = ((err, c), w1)"
    by (metis surj_pair)
  have ended: "recordEnds (igStore w) ((err, c), w1)"
    using retryRecord_ends [OF processRecordResult_ends [OF account threads], where w = w and n = maxTransientRetries] run
    by simp
  then have moved: "R (igStore w) (igStore w1)" by (simp add: recordEnds_def)
  have onward: "R (igStore w1) (igStore (snd (handleRecord env inboxID record w)))"
    using markQuarantined_moves [OF account, of w1] moves_refl run
    by (auto simp: handleRecord_def split: option.split record_error.split)
  have quarantined: "D (igStore (markQuarantined env inboxID record w1))"
    using markQuarantined_done [OF account calm mark [OF moved]] .
  show ?thesis
  proof (cases err)
    case None
    then show ?thesis using ended run by (simp add: handleRecord_def recordEnds_def)
  next
    case (Some x)
    then have x: "x = Quarantine \<or> (\<exists>e. E e (igStore w1) \<and> x = classifyApplyError e)"
      using ended by (simp add: recordEnds_def)
    have "x = Quarantine \<or> x = PanicFailure \<or> x = StaleReplay \<and> D (igStore w1)"
    proof (cases "x = Quarantine")
      case False
      then obtain e where e: "E e (igStore w1)" "x = classifyApplyError e" using x by blast
      then show ?thesis
        using faults [OF moved onward] conflict [OF moved]
        by (cases e) (auto simp: classifyApplyError_def split: if_split_asm)
    qed simp
    then show ?thesis
      using quarantined Some run by (auto simp: handleRecord_def)
  qed
qed

end

end
