(* ===== verification/Ingest_Moves.thy ===== *)
theory Ingest_Moves
  imports Ingest_Frames Messages_Correct Reactions_Correct
begin

text \<open>
  The interface \<open>worker_effect\<close> is met by the repositories: a frame of an account marks no row of the
  inbox but its own, and once; removes no conversation; keeps the invariant of the identity graph
  and the rows of other accounts in it; and every projection and every mark leaves it done. The
  echo observer is the message service.
\<close>

section \<open>What a frame may change\<close>

text \<open>A row of the inbox stays as it is, unless it is the frame itself, which may be marked once.\<close>

definition frameStep :: "string \<Rightarrow> string \<Rightarrow> inbox_record \<Rightarrow> inbox_record \<Rightarrow> bool" where
  "frameStep inboxID A r r' \<longleftrightarrow> r' = r \<or>
     inInboxID r = inboxID \<and> inAccountID r = A \<and> inProcessedAtMS r = None \<and>
     (\<exists>n. r' = r\<lparr>inProcessedAtMS := Some n\<rparr>)"

text \<open>The rows of the identity graph that belong to other accounts.\<close>

definition othersGraph ::
  "string \<Rightarrow> store \<Rightarrow> account list \<times> device list \<times> identity list \<times> conversation list \<times> participant list"
where
  "othersGraph A s = (accounts s, devices s, filter (\<lambda>r. idAccountID r \<noteq> A) (identities s),
     filter (\<lambda>r. cvAccountID r \<noteq> A) (conversations s), filter (\<lambda>r. cpAccountID r \<noteq> A) (participants s))"

definition frameMoves :: "(string \<Rightarrow> bool) \<Rightarrow> string \<Rightarrow> string \<Rightarrow> store \<Rightarrow> store \<Rightarrow> bool" where
  "frameMoves J inboxID A s t \<longleftrightarrow> list_all2 (frameStep inboxID A) (inbox s) (inbox t) \<and>
     length (conversations s) \<le> length (conversations t) \<and>
     conversationRef ` set (conversations s) \<subseteq> conversationRef ` set (conversations t) \<and>
     (graphOK J s \<longrightarrow> graphOK J t \<and> othersGraph A t = othersGraph A s)"

text \<open>The row of the frame, when there is one of the account, is marked.\<close>

definition frameDone :: "string \<Rightarrow> string \<Rightarrow> store \<Rightarrow> bool" where
  "frameDone inboxID A s = (case sqlFind (\<lambda>r. inInboxID r = inboxID) (inbox s) of
     None \<Rightarrow> True | Some r \<Rightarrow> inAccountID r = A \<longrightarrow> inProcessedAtMS r \<noteq> None)"

text \<open>Only the remote IDs in \<open>T\<close> are minted for.\<close>

definition frameFails :: "ingest_env \<Rightarrow> string set \<Rightarrow> string \<Rightarrow> string \<Rightarrow> ingest_error \<Rightarrow> store \<Rightarrow> bool" where
  "frameFails env T inboxID A e s = (case e of
     StoreRefusal x \<Rightarrow> errorsIs x ErrInboxProjectionConflict \<longrightarrow> frameDone inboxID A s
   | DatabaseBusy \<Rightarrow> \<exists>n. ieBusy env n
   | Diverged \<Rightarrow> \<exists>r \<in> T. \<not> inj_on (mintCandidate env A r) {..length (conversations s)}
   | _ \<Rightarrow> True)"

lemma frameStep_refl: "frameStep i A r r"
  by (simp add: frameStep_def)

lemma frameStep_trans: "frameStep i A r r1 \<Longrightarrow> frameStep i A r1 r2 \<Longrightarrow> frameStep i A r r2"
proof (cases "r1 = r")
  case False
  assume "frameStep i A r r1" and "frameStep i A r1 r2"
  with False have "inProcessedAtMS r1 \<noteq> None" by (auto simp: frameStep_def)
  with \<open>frameStep i A r1 r2\<close> have "r2 = r1" by (simp add: frameStep_def)
  with \<open>frameStep i A r r1\<close> show ?thesis by simp
qed simp

lemma frames_refl: "list_all2 (frameStep i A) xs xs"
  by (simp add: list_all2_refl frameStep_refl)

lemma frames_trans:
  "list_all2 (frameStep i A) xs ys \<Longrightarrow> list_all2 (frameStep i A) ys zs \<Longrightarrow> list_all2 (frameStep i A) xs zs"
  by (rule list_all2_trans [OF frameStep_trans])

lemma frameMoves_refl: "frameMoves J i A s s"
  by (simp add: frameMoves_def frames_refl)

lemma frameMoves_trans: "frameMoves J i A s t \<Longrightarrow> frameMoves J i A t u \<Longrightarrow> frameMoves J i A s u"
  unfolding frameMoves_def by (elim conjE, intro conjI) (erule (1) frames_trans, linarith, blast, simp)

text \<open>The writes by what they touch: a table of the graph, the conversations, or neither.\<close>

lemma frameMoves_graph:
  "inbox t = inbox s \<Longrightarrow> conversations t = conversations s \<Longrightarrow>
   (graphOK J s \<Longrightarrow> graphOK J t) \<Longrightarrow> (graphOK J s \<Longrightarrow> othersGraph A t = othersGraph A s) \<Longrightarrow> frameMoves J i A s t"
  by (simp add: frameMoves_def frames_refl)

lemma frameMoves_conversations:
  "inbox t = inbox s \<Longrightarrow> length (conversations s) \<le> length (conversations t) \<Longrightarrow>
   conversationRef ` set (conversations s) \<subseteq> conversationRef ` set (conversations t) \<Longrightarrow>
   (graphOK J s \<Longrightarrow> graphOK J t) \<Longrightarrow> (graphOK J s \<Longrightarrow> othersGraph A t = othersGraph A s) \<Longrightarrow> frameMoves J i A s t"
  by (simp add: frameMoves_def frames_refl)

lemma frameMoves_rest:
  "list_all2 (frameStep i A) (inbox s) (inbox t) \<Longrightarrow> graphTables t = graphTables s \<Longrightarrow> frameMoves J i A s t"
  using graphOK_tables [of t s J]
  by (simp add: frameMoves_def othersGraph_def graphTables_def)

lemma frameMoves_same: "inbox t = inbox s \<Longrightarrow> graphTables t = graphTables s \<Longrightarrow> frameMoves J i A s t"
  by (rule frameMoves_rest) (simp_all add: frames_refl)

lemma filter_sqlUpdate:
  "(\<And>r. r \<in> set rows \<Longrightarrow> P r \<Longrightarrow> \<not> Q r \<and> \<not> Q (f r)) \<Longrightarrow> filter Q (sqlUpdate P f rows) = filter Q rows"
  by (induction rows) auto

section \<open>The writes of the worker\<close>

lemma upsertIdentity_moves:
  assumes "idAccountID i = A" and "upsertIdentity J i s = Inr t"
  shows "frameMoves J inboxID A s t"
proof (rule frameMoves_graph)
  show "inbox t = inbox s" "conversations t = conversations s"
    using assms(2) by (auto simp: upsertIdentity_def Let_def split: if_splits option.splits)
  show "graphOK J t" if "graphOK J s" using assms(2) that by (rule upsertIdentity_OK)
  show "othersGraph A t = othersGraph A s"
    using assms by (auto simp: upsertIdentity_def Let_def othersGraph_def mergeIdentity_def
        intro!: filter_sqlUpdate split: if_splits option.splits)
qed

lemma upsertConversation_moves:
  assumes "cvAccountID c = A" and "upsertConversation J c s = Inr t"
  shows "frameMoves J inboxID A s t"
proof (rule frameMoves_conversations)
  show "inbox t = inbox s" "length (conversations s) \<le> length (conversations t)"
    using assms(2) by (auto simp: upsertConversation_def Let_def split: if_splits option.splits)
  show "conversationRef ` set (conversations s) \<subseteq> conversationRef ` set (conversations t)"
  proof (cases "sqlFind (\<lambda>r. conversationKeyOf r = conversationKeyOf c) (conversations s)")
    case None
    then show ?thesis using assms(2) by (auto simp: upsertConversation_def Let_def split: if_splits)
  next
    case (Some old)
    then have "t = s\<lparr>conversations := sqlUpdate (\<lambda>r. conversationKeyOf r = conversationKeyOf c)
        (mergeConversation c) (conversations s)\<rparr>"
      using assms(2) by (auto simp: upsertConversation_def Let_def split: if_splits)
    then show ?thesis by (simp add: image_sqlUpdate mergeConversation_def)
  qed
  show "graphOK J t" if "graphOK J s" using assms(2) that by (rule upsertConversation_OK)
  show "othersGraph A t = othersGraph A s"
    using assms by (auto simp: upsertConversation_def Let_def othersGraph_def mergeConversation_def
        intro!: filter_sqlUpdate split: if_splits option.splits)
qed

lemma setRemoteID_moves:
  assumes "setRemoteID A c remoteID n s = Inr (k, t)" and "nonblank remoteID"
  shows "frameMoves J inboxID A s t"
proof -
  let ?target = "\<lambda>r. cvAccountID r = A \<and> cvConversationID r = c"
  let ?f = "\<lambda>r. r\<lparr>cvRemoteConversationID := remoteID, cvUpdatedAtMS := max (cvUpdatedAtMS r) n\<rparr>"
  have t: "t = s\<lparr>conversations := sqlUpdate ?target ?f (conversations s)\<rparr>"
    using assms(1) by (auto simp: setRemoteID_def Let_def split: if_splits)
  show ?thesis
  proof (rule frameMoves_conversations)
    show "graphOK J t" if "graphOK J s" using assms(1) that assms(2) by (rule setRemoteID_OK)
    show "conversationRef ` set (conversations s) \<subseteq> conversationRef ` set (conversations t)"
      by (simp add: t image_sqlUpdate)
    show "othersGraph A t = othersGraph A s" by (auto simp: t othersGraph_def intro!: filter_sqlUpdate)
  qed (simp_all add: t)
qed

lemma reassign_moves:
  assumes "reassignConversationRemoteID A r cid n s = Inr t"
  shows "frameMoves J i A s t"
proof -
  have "trimSpace r \<noteq> []"
    using assms by (auto simp: reassignConversationRemoteID_def Let_def failWith_def)
  then have id: "nonblank (trimSpace r)" by (simp add: nonblank_trimSpace)
  consider "t = s" | k where "setRemoteID A cid (trimSpace r) n s = Inr (k, t)"
    | k l h s1 where "setRemoteID A h (displacedRemoteID (trimSpace r) h) n s = Inr (k, s1)"
        "setRemoteID A cid (trimSpace r) n s1 = Inr (l, t)"
    using assms by (auto simp: reassignConversationRemoteID_def Let_def failWith_def
        split: if_split_asm option.split_asm sum.split_asm)
  then show ?thesis
  proof cases
    case 1
    then show ?thesis by (simp add: frameMoves_refl)
  next
    case 2
    then show ?thesis using id by (rule setRemoteID_moves)
  next
    case 3
    from setRemoteID_moves [OF 3(1) nonblank_displaced] setRemoteID_moves [OF 3(2) id]
    show ?thesis by (rule frameMoves_trans)
  qed
qed

lemma displace_moves:
  "displaceConversationRemoteID A r n s = Inr (b, t) \<Longrightarrow> frameMoves J i A s t"
  by (auto simp: displaceConversationRemoteID_def Let_def failWith_def frameMoves_refl
      intro: setRemoteID_moves [OF _ nonblank_displaced] split: if_split_asm option.split_asm sum.split_asm)


text \<open>A conversation of the account: with unique IDs its ID names no other.\<close>

lemma only_conversation:
  assumes "hasConversation A cid s" and "graphOK J s" and "r \<in> set (conversations s)" and "cvConversationID r = cid"
  shows "cvAccountID r = A"
proof -
  obtain c where c: "c \<in> set (conversations s)" "cvAccountID c = A" "cvConversationID c = cid"
    using assms(1) by (auto simp: hasConversation_def sqlExists_iff)
  have "distinct (map cvConversationID (conversations s))"
    using assms(2) by (simp add: graphOK_def conversationsOK_def)
  then have "r = c" by (rule distinct_key_inj) (simp_all add: assms c)
  then show ?thesis using c by simp
qed

lemma bump_moves:
  assumes "hasConversation A cid s" and "bumpConversationRecency cid n s = Inr t"
  shows "frameMoves J i A s t"
proof -
  let ?f = "\<lambda>r. r\<lparr>cvLastMessageAtMS := max (cvLastMessageAtMS r) n\<rparr>"
  have t: "t = s\<lparr>conversations := sqlUpdate (\<lambda>r. cvConversationID r = cid) ?f (conversations s)\<rparr>"
    using assms(2) by (simp add: bumpConversationRecency_def failWith_def split: if_splits)
  show ?thesis
  proof (rule frameMoves_conversations)
    show "conversationRef ` set (conversations s) \<subseteq> conversationRef ` set (conversations t)"
      by (simp add: t image_sqlUpdate)
    show "graphOK J t" if "graphOK J s" using assms(2) that by (rule bumpConversationRecency_OK)
    show "othersGraph A t = othersGraph A s" if "graphOK J s"
      using only_conversation [OF assms(1) that] by (auto simp: t othersGraph_def intro!: filter_sqlUpdate)
  qed (simp_all add: t)
qed

text \<open>Participants.\<close>

lemma insertParticipantRow_frame:
  "insertParticipantRow skip p s = Inr t \<Longrightarrow>
   inbox t = inbox s \<and> accounts t = accounts s \<and> devices t = devices s \<and> identities t = identities s \<and>
   conversations t = conversations s \<and>
   (cpAccountID p = A \<longrightarrow> filter (\<lambda>r. cpAccountID r \<noteq> A) (participants t) =
      filter (\<lambda>r. cpAccountID r \<noteq> A) (participants s))"
  by (auto simp: insertParticipantRow_def split: if_splits)

lemma insertParticipants_frame:
  "insertParticipants A cid ps s = Inr t \<Longrightarrow>
   inbox t = inbox s \<and> accounts t = accounts s \<and> devices t = devices s \<and> identities t = identities s \<and>
   conversations t = conversations s \<and>
   filter (\<lambda>r. cpAccountID r \<noteq> A) (participants t) = filter (\<lambda>r. cpAccountID r \<noteq> A) (participants s)"
proof (induction A cid ps s rule: insertParticipants.induct)
  case (2 account cid p ps s)
  then obtain s1 where one: "insertParticipantRow False (participantOf account cid p) s = Inr s1"
    and rest: "insertParticipants account cid ps s1 = Inr t"
    and account: "cpAccountID (participantOf account cid p) = account"
    by (auto simp: participantOf_def split: if_splits sum.splits)
  have "\<not> (cpConversationID p \<noteq> '''' \<and> cpConversationID p \<noteq> cid)"
    "\<not> (cpAccountID p \<noteq> '''' \<and> cpAccountID p \<noteq> account)"
    using 2(2) by (auto split: if_splits)
  from 2(1) [OF this one rest] insertParticipantRow_frame [OF one, of account] account
  show ?case by simp
qed simp

lemma replaceParticipants_moves:
  assumes "hasConversation A cid s" and "replaceConversationParticipants cid ps s = Inr t"
  shows "frameMoves J i A s t"
proof -
  obtain c where c: "sqlFind (\<lambda>r. cvConversationID r = cid) (conversations s) = Some c"
    and ins: "insertParticipants (cvAccountID c) cid ps
      (s\<lparr>participants := filter (\<lambda>r. cpConversationID r \<noteq> cid) (participants s)\<rparr>) = Inr t"
    using assms(2) by (auto simp: replaceConversationParticipants_def split: option.splits)
  note frame = insertParticipants_frame [OF ins]
  show ?thesis
  proof (rule frameMoves_graph)
    show "inbox t = inbox s" "conversations t = conversations s" using frame by simp_all
    show "graphOK J t" if "graphOK J s" using assms(2) that by (rule replaceConversationParticipants_OK)
    show "othersGraph A t = othersGraph A s" if ok: "graphOK J s"
    proof -
      have "cvAccountID c = A"
        using only_conversation [OF assms(1) ok] sqlFind_Some [OF c] by blast
      moreover have "cpConversationID r \<noteq> cid" if "r \<in> set (participants s)" "cpAccountID r \<noteq> A" for r
      proof
        assume cid: "cpConversationID r = cid"
        have "(cpAccountID r, cpConversationID r) \<in> conversationRef ` set (conversations s)"
          using ok that(1) unfolding graphOK_def graphRefs_def by blast
        then obtain d where d: "(cpAccountID r, cpConversationID r) = conversationRef d"
          "d \<in> set (conversations s)" by (rule imageE)
        then have "cvConversationID d = cid" "cvAccountID d = cpAccountID r" using cid by simp_all
        with only_conversation [OF assms(1) ok d(2)] that(2) show False by simp
      qed
      then have "cpConversationID r \<noteq> cid \<and> cpAccountID r \<noteq> A \<longleftrightarrow> cpAccountID r \<noteq> A"
        if "r \<in> set (participants s)" for r
        using that by blast
      then have "filter (\<lambda>r. cpAccountID r \<noteq> A)
          (filter (\<lambda>r. cpConversationID r \<noteq> cid) (participants s)) =
          filter (\<lambda>r. cpAccountID r \<noteq> A) (participants s)"
        unfolding filter_filter by (intro filter_cong refl)
      ultimately show ?thesis using frame by (simp add: othersGraph_def)
    qed
  qed
qed

lemma ensureParticipant_moves:
  assumes "cpAccountID q = A" and "hasConversation A (cpConversationID q) s"
    and "ensureConversationParticipant q s = Inr (b, t)"
  shows "frameMoves J i A s t"
proof -
  from assms(3) obtain c where c: "sqlFind (\<lambda>r. cvConversationID r = cpConversationID q) (conversations s) = Some c"
    and ins: "insertParticipantRow True (participantOf (cvAccountID c) (cpConversationID q) q) s = Inr t"
    unfolding ensureConversationParticipant_def Let_def
    by (simp split: if_split_asm option.split_asm sum.split_asm)
  note frame = insertParticipantRow_frame [OF ins, of A]
  show ?thesis
  proof (rule frameMoves_graph)
    show "graphOK J t" if "graphOK J s" using assms(3) that by (rule ensureConversationParticipant_OK)
    show "othersGraph A t = othersGraph A s" if "graphOK J s"
    proof -
      have "cvAccountID c = A"
        using only_conversation [OF assms(2) that] sqlFind_Some [OF c] by blast
      then have "cpAccountID (participantOf (cvAccountID c) (cpConversationID q) q) = A"
        using assms(1) by (simp add: participantOf_def)
      then show ?thesis using frame by (simp add: othersGraph_def)
    qed
  qed (simp_all add: frame)
qed


section \<open>Writes outside the graph\<close>

text \<open>The inbox and the tables of the graph, which most writes leave alone.\<close>

definition baseTables where
  "baseTables s = (inbox s, graphTables s)"

lemma frameMoves_base: "baseTables t = baseTables s \<Longrightarrow> frameMoves J i A s t"
  by (rule frameMoves_same) (simp_all add: baseTables_def)

lemma baseTables_updates [simp]:
  "baseTables (s\<lparr>messages := a\<rparr>) = baseTables s" "baseTables (s\<lparr>messageAttachments := b\<rparr>) = baseTables s"
  "baseTables (s\<lparr>outbox := c\<rparr>) = baseTables s" "baseTables (s\<lparr>readCursors := d\<rparr>) = baseTables s"
  "baseTables (s\<lparr>reactions := e\<rparr>) = baseTables s" "baseTables (s\<lparr>reactionSnapshotFences := f\<rparr>) = baseTables s"
  "baseTables (s\<lparr>messageExtras := g\<rparr>) = baseTables s"
  by (simp_all add: baseTables_def graphTables_def)

lemma upsertMessage_base: "upsertMessage m n s = Inr t \<Longrightarrow> baseTables t = baseTables s"
  by (auto simp: upsertMessage_def upsertMessageRow_def Let_def insertMessageRow_Inr
      split: sum.split_asm if_split_asm option.split_asm)

lemma recordInboundAttachment_base: "recordInboundAttachment t a s = Inr u \<Longrightarrow> baseTables u = baseTables s"
  by (auto simp: recordInboundAttachment_def thenDo_Inr Let_def failWith_def
      split: if_split_asm option.split_asm sum.split_asm)

lemma recordAttachments_base: "recordAttachments clock i parent as s = Inr u \<Longrightarrow> baseTables u = baseTables s"
proof (induction as arbitrary: i s)
  case (Cons a as)
  then obtain x where "recordInboundAttachment (clock i) (a\<lparr>maMessageID := parent\<rparr>) s = Inr x"
    "recordAttachments clock (Suc i) parent as x = Inr u" by (auto simp: thenDo_Inr)
  with Cons.IH [OF this(2)] recordInboundAttachment_base [OF this(1)] show ?case by simp
qed simp

lemma importMessage_base: "importMessage clock p s = Inr t \<Longrightarrow> baseTables t = baseTables s"
  by (auto simp: importMessage_def thenDo_Inr dest!: upsertMessage_base recordAttachments_base)

lemma mergeMessagePayload_base:
  assumes "mergeMessagePayload json c m p s = Inr t"
  shows "baseTables t = baseTables s"
proof -
  let ?m = "trimSpace m"
  let ?old = "case extraOf ?m s of None \<Rightarrow> emptyPayload | Some x \<Rightarrow> exPayload x"
  have "?m \<noteq> []" using assms by (auto simp: mergeMessagePayload_def Let_def failWith_def)
  with assms obtain n where "(case json (mergeMessagePayloadInto p ?old) of None \<Rightarrow> failWith ''encode''
      | Some p \<Rightarrow> let new = \<lparr>exMessageID = ?m, exPayload = p, exUpdatedAtMS = n\<rparr> in
          if \<not> extraRowOK new then Inl [ErrSqlite CheckFault]
          else if sqlExists (\<lambda>x. exMessageID x = ?m) (messageExtras s) then
            Inr (s\<lparr>messageExtras := sqlUpdate (\<lambda>x. exMessageID x = ?m) (\<lambda>x. new) (messageExtras s)\<rparr>)
          else if \<not> hasMessage ?m s then Inl [ErrSqlite ForeignKeyFault]
          else Inr (s\<lparr>messageExtras := messageExtras s @ [new]\<rparr>)) = Inr t"
    unfolding mergeMessagePayload_def Let_def by (simp only: if_False thenDo_Inr) blast
  then show ?thesis
    by (cases "json (mergeMessagePayloadInto p ?old)") (auto simp: Let_def failWith_def split: if_split_asm)
qed

lemma upsertReadCursor_base: "upsertReadCursor c s = Inr t \<Longrightarrow> baseTables t = baseTables s"
  by (auto simp: upsertReadCursor_def Let_def split: if_split_asm option.split_asm)

lemma upsertReactionRow_base: "upsertReactionRow replaces merge new s = Inr (n, t) \<Longrightarrow> baseTables t = baseTables s"
  by (erule upsertReactionRow_cases) simp_all

lemma applyReaction_base: "applyReaction c a s = Inr (b, t) \<Longrightarrow> baseTables t = baseTables s"
  by (erule applyReaction_upsert) (rule upsertReactionRow_base)

lemma snapshotEach_base: "snapshotEach row es s = Inr (n, t) \<Longrightarrow> baseTables t = baseTables s"
proof (induction row es s arbitrary: n rule: snapshotEach.induct)
  case (2 row e es s)
  then obtain k s1 n1 where one: "upsertReactionRow snapshotReplaces mergeSnapshot (row e) s = Inr (k, s1)"
    and rest: "snapshotEach row es s1 = Inr (n1, t)"
    by (auto simp: Let_def thenDo_Inr split: sum.split_asm)
  from upsertReactionRow_base [OF one] 2(1) rest one show ?case by (auto simp: Let_def)
qed simp

lemma writeFence_base: "writeFence f s = Inr t \<Longrightarrow> baseTables t = baseTables s"
  by (auto simp: writeFence_def Let_def split: if_split_asm)

lemma replaceEmbeddedReactions_base:
  assumes "replaceEmbeddedReactions c m a cid es sq s = Inr (r, t)"
  shows "baseTables t = baseTables s"
proof (cases "case fenceOf m s of None \<Rightarrow> False | Some f \<Rightarrow> sq < sfSourceSeqMS f")
  case True
  with assms show ?thesis by (simp add: replaceEmbeddedReactions_def)
next
  case False
  with assms obtain k i s1 where one: "snapshotEach (snapshotRow m a cid sq k) es s = Inr (i, s1)"
    and rest: "(case updateChecked (absent m es) (tombstone sq k) reactionRowOK (reactions s1) of
        Inl f \<Rightarrow> Inl (mapConstraintError f)
      | Inr rows \<Rightarrow>
          let removed = sqlCount (absent m es) (reactions s1) in
          (case writeFence \<lparr>sfMessageID = m, sfSourceSeqMS = sq, sfUpdatedAtMS = k\<rparr> (s1\<lparr>reactions := rows\<rparr>) of
             Inl f \<Rightarrow> Inl (mapConstraintError f) | Inr s2 \<Rightarrow> Inr ((i, removed), s2))) = Inr (r, t)"
    by (auto simp: replaceEmbeddedReactions_def thenDo_Inr)
  then obtain rows where "writeFence \<lparr>sfMessageID = m, sfSourceSeqMS = sq, sfUpdatedAtMS = k\<rparr>
      (s1\<lparr>reactions := rows\<rparr>) = Inr t"
    unfolding Let_def by (cases "updateChecked (absent m es) (tombstone sq k) reactionRowOK (reactions s1)")
      (auto split: sum.split_asm)
  from writeFence_base [OF this] snapshotEach_base [OF one] show ?thesis by simp
qed

lemma deleteMessageRow_base: "deleteMessageRow i s = Inr t \<Longrightarrow> baseTables t = baseTables s"
  by (auto simp: deleteMessageRow_def split: if_split_asm)

lemma repointLocalMessage_base:
  assumes "repointLocalMessage t a c l q real s = Inr u"
  shows "baseTables u = baseTables s"
proof (cases "real = q")
  case True
  with assms show ?thesis by (simp add: repointLocalMessage_def)
next
  case False
  with assms obtain n s1 where freed: "(case findByKey (a, c, real) s of None \<Rightarrow> Inr s
      | Some m \<Rightarrow> if msMessageID m = l then Inr s
          else case deleteMessageRow (msMessageID m) s of
            Inl f \<Rightarrow> Inl (mapConstraintError f) | Inr s1 \<Rightarrow> Inr s1) = Inr s1"
    and rest: "(case updateChecked (\<lambda>m. msMessageID m = l)
        (\<lambda>m. m\<lparr>msRemoteMessageID := real, msUpdatedAtMS := n\<rparr>) messageRowOK (messages s1) of
        Inl f \<Rightarrow> Inl (mapConstraintError f)
      | Inr rows \<Rightarrow> if distinct (map messageKey rows) then Inr (s1\<lparr>messages := rows\<rparr>)
          else Inl (mapConstraintError UniqueFault)) = Inr u"
    by (auto simp: repointLocalMessage_def thenDo_Inr Let_def)
  have "baseTables s1 = baseTables s"
    using freed by (auto dest: deleteMessageRow_base split: option.splits if_splits sum.splits)
  moreover have "baseTables u = baseTables s1"
    using rest by (cases "updateChecked (\<lambda>m. msMessageID m = l)
        (\<lambda>m. m\<lparr>msRemoteMessageID := real, msUpdatedAtMS := n\<rparr>) messageRowOK (messages s1)")
      (auto split: if_splits)
  ultimately show ?thesis by simp
qed

lemma mutateRows_base: "mutateRows P f s = Inr (n, t) \<Longrightarrow> baseTables t = baseTables s"
  by (auto simp: mutateRows_def split: sum.split_asm)

lemma reconcileConfirm_base: "reconcileConfirm t t' req s = Inr (d, u) \<Longrightarrow> baseTables u = baseTables s"
  by (auto simp: reconcileConfirm_def reconcileRepoint_def thenDo_Inr failWith_def
      dest!: mutateRows_base repointLocalMessage_base split: if_split_asm option.split_asm prod.split_asm)

section \<open>Marking a frame\<close>

lemma frames_mark:
  "list_all2 (frameStep i A) rows (sqlUpdate (\<lambda>r. inInboxID r = i \<and> inAccountID r = A \<and> inProcessedAtMS r = None)
     (\<lambda>r. r\<lparr>inProcessedAtMS := Some n\<rparr>) rows)"
  by (induction rows) (auto simp: frameStep_def)

lemma markProcessedRows_moves:
  "markProcessedRows i A n s = Inr (k, t) \<Longrightarrow> frameMoves J i A s t"
  by (drule markProcessedRows_Inr) (auto simp: frames_mark graphTables_def intro!: frameMoves_rest)

lemma markProcessedRows_done:
  assumes "markProcessedRows i A n s = Inr (k, t)"
  shows "frameDone i A t"
proof -
  have t: "inbox t = sqlUpdate (\<lambda>r. inInboxID r = i \<and> inAccountID r = A \<and> inProcessedAtMS r = None)
      (\<lambda>r. r\<lparr>inProcessedAtMS := Some n\<rparr>) (inbox s)"
    using markProcessedRows_Inr [OF assms] by simp
  show ?thesis
    unfolding frameDone_def t by (auto simp: sqlFind_sqlUpdate_map split: option.split dest!: sqlFind_Some)
qed

lemma frames_find:
  "list_all2 (frameStep i A) xs ys \<Longrightarrow>
   rel_option (frameStep i A) (sqlFind (\<lambda>r. inInboxID r = j) xs) (sqlFind (\<lambda>r. inInboxID r = j) ys)"
proof (induction rule: list_all2_induct)
  case (Cons x xs y ys)
  then have "inInboxID y = inInboxID x" by (auto simp: frameStep_def)
  with Cons show ?case by (simp add: sqlFind_def)
qed (simp add: sqlFind_def)

lemma frameDone_stays:
  assumes fin: "frameDone i A s" and "frameMoves J i A s t"
  shows "frameDone i A t"
proof -
  have step: "list_all2 (frameStep i A) (inbox s) (inbox t)"
    using assms(2) unfolding frameMoves_def by (rule conjunct1)
  note rel = frames_find [OF step, of i]
  show ?thesis
  proof (cases "sqlFind (\<lambda>r. inInboxID r = i) (inbox t)")
    case None
    then show ?thesis by (simp add: frameDone_def)
  next
    case (Some r')
    with rel obtain r where r: "sqlFind (\<lambda>r. inInboxID r = i) (inbox s) = Some r" and "frameStep i A r r'"
      by (cases "sqlFind (\<lambda>r. inInboxID r = i) (inbox s)") simp_all
    then have "r' = r \<or> inProcessedAtMS r' \<noteq> None" by (auto simp: frameStep_def)
    moreover have "inAccountID r = A \<longrightarrow> inProcessedAtMS r \<noteq> None" using fin r by (simp add: frameDone_def)
    ultimately have "inAccountID r' = A \<longrightarrow> inProcessedAtMS r' \<noteq> None" by blast
    with Some show ?thesis by (simp add: frameDone_def)
  qed
qed

lemma projectMessage_moves:
  assumes "msAccountID (pjMessage p) = A" and "pjInboxID p = i" and "projectMessage clock p s = Inr t"
  shows "frameMoves J i A s t \<and> frameDone i A t"
proof -
  obtain frame where frame: "sqlFind (\<lambda>r. inInboxID r = i) (inbox s) = Some frame"
    and account: "inAccountID frame = A"
    using assms by (auto simp: projectMessage_def Let_def split: option.split_asm if_split_asm)
  show ?thesis
  proof (cases "inProcessedAtMS frame")
    case (Some n)
    with assms frame account have "t = s"
      by (auto simp: projectMessage_def Let_def thenDo_Inr split: option.split_asm if_split_asm)
    with frame Some show ?thesis by (simp add: frameMoves_refl frameDone_def)
  next
    case None
    with assms frame account obtain n s1 parent s2 k where
      up: "upsertMessage (pjMessage p) n s = Inr s1"
      and att: "recordAttachments clock 1 parent (pjAttachments p) s1 = Inr s2"
      and mark: "markProcessedRows i A n s2 = Inr (k, t)"
      by (auto simp: projectMessage_def Let_def succeeded split_paired_Ex nowMS_Inr)
    have "frameMoves J i A s s2"
      using upsertMessage_base [OF up] recordAttachments_base [OF att] by (intro frameMoves_base) simp
    then show ?thesis
      using markProcessedRows_moves [OF mark] markProcessedRows_done [OF mark] by (blast intro: frameMoves_trans)
  qed
qed

text \<open>A projection that is in conflict found its frame marked.\<close>

lemma projectMessage_conflict:
  assumes "msAccountID (pjMessage p) = A" and "pjInboxID p = i" and "projectMessage clock p s = Inl e"
    and "errorsIs e ErrInboxProjectionConflict"
  shows "frameDone i A s"
proof (rule ccontr)
  assume "\<not> frameDone i A s"
  then obtain frame where frame: "sqlFind (\<lambda>r. inInboxID r = i) (inbox s) = Some frame"
      "inAccountID frame = A" "inProcessedAtMS frame = None"
    by (auto simp: frameDone_def split: option.splits)
  have "conflictFree (projectMessage clock p s)"
    unfolding projectMessage_def Let_def assms(2) frame(1) option.case frame(2,3) assms(1)
    by (auto intro!: conflictFree_thenDo split: sum.split)
  with assms(3,4) show False by (simp add: conflictFree_def)
qed

lemma applyMessageMutation_moves:
  assumes "applyMessageMutation tm A cid r kind body i s = Inr (b, t)"
  shows "frameMoves J i A s t"
proof -
  obtain n rows k where mark: "markProcessedRows i A n (s\<lparr>messages := rows\<rparr>) = Inr (k, t)"
    using assms by (auto simp: applyMessageMutation_def Let_def thenDo_Inr failWith_def case_Inl_Inr
        split: if_split_asm option.split_asm)
  have "frameMoves J i A s (s\<lparr>messages := rows\<rparr>)" by (rule frameMoves_base) simp
  then show ?thesis using markProcessedRows_moves [OF mark] by (rule frameMoves_trans)
qed

lemma markInboxProcessed_moves:
  "markInboxProcessed tm i A s = Inr t \<Longrightarrow> frameMoves J i A s t \<and> frameDone i A t"
  by (auto simp: markInboxProcessed_def thenDo_Inr case_Inl_Inr
      dest: markProcessedRows_moves markProcessedRows_done)


section \<open>The worker as it is wired\<close>

text \<open>
  \<open>configureV2Stack\<close> of \<open>cmd/v2stack.go\<close> gives the worker the message service as its echo observer:
  \<open>x\<close> and \<open>v\<close> are what the service reads beside the store.
\<close>

definition serviceObserver ::
  "submit_world \<Rightarrow> service \<Rightarrow> (nat \<Rightarrow> gotime) \<Rightarrow> transport_echo \<Rightarrow> store \<Rightarrow> echo_answer \<times> store" where
  "serviceObserver x v clock echo s =
     (let (r, v1) = observeTransportEcho True (x\<lparr>sxStoreNow := clock\<rparr>) echo (v\<lparr>svStore := s\<rparr>)
      in (case r of Inl e \<Rightarrow> EchoFailed | Inr outcome \<Rightarrow> EchoObserved outcome, svStore v1))"

definition wired :: "submit_world \<Rightarrow> service \<Rightarrow> ingest_env \<Rightarrow> ingest_env" where
  "wired x v env = env\<lparr>ieObserver := Some (serviceObserver x v)\<rparr>"

lemma signalChange_store [simp]: "svStore (signalChange v) = svStore v"
  by (simp add: signalChange_def)

lemma serviceObserver_base: "baseTables (snd (serviceObserver x v clock echo s)) = baseTables s"
  by (auto simp: serviceObserver_def observeTransportEcho_def Let_def split: sum.split prod.split
      dest: reconcileConfirm_base)

lemma wired_simps [simp]:
  "ieObserver (wired x v env) = Some (serviceObserver x v)" "ieBusy (wired x v env) = ieBusy env"
  "ieClock (wired x v env) = ieClock env" "ieJSONValid (wired x v env) = ieJSONValid env"
  "mintCandidate (wired x v env) = mintCandidate env" "frameThreads (wired x v env) = frameThreads env"
  by (auto simp: wired_def mintCandidate_def frameThreads_def fun_eq_iff)

lemmas moves_bases = importMessage_base mergeMessagePayload_base replaceEmbeddedReactions_base
  applyReaction_base upsertReadCursor_base

lemmas moves_writes = upsertIdentity_moves upsertConversation_moves reassign_moves displace_moves
  replaceParticipants_moves ensureParticipant_moves bump_moves applyMessageMutation_moves
  moves_bases [THEN frameMoves_base]

lemma hasConversation_stays: "hasConversation A cid s \<Longrightarrow> frameMoves J i A s t \<Longrightarrow> hasConversation A cid t"
  unfolding hasConversation_keys frameMoves_def by blast

interpretation frame: worker_effect "wired x v env" "frameMoves (ieJSONValid env) inboxID A"
  "frameFails env T inboxID A" A inboxID T "frameDone inboxID A" for x v env inboxID A T
proof (unfold_locales, unfold wired_simps)
  show "frameMoves (ieJSONValid env) inboxID A s (snd (observe clock echo s))"
    if "Some (serviceObserver x v) = Some observe" for s observe clock echo
    using that by (auto simp: serviceObserver_base intro: frameMoves_base)
  show "frameFails env T inboxID A (StoreRefusal e) s"
    if "msAccountID (pjMessage p) = A" "pjInboxID p = inboxID" "projectMessage clock p s = Inl e" for p clock e s
    using projectMessage_conflict [OF that] by (simp add: frameFails_def)
qed (auto simp: frameFails_def errorsIs_def notFound_def frameMoves_refl intro: moves_writes
    markInboxProcessed_moves [THEN conjunct1] markInboxProcessed_moves [THEN conjunct2]
    projectMessage_moves [THEN conjunct1] projectMessage_moves [THEN conjunct2] frameMoves_trans frameDone_stays hasConversation_stays)

end
