(* ===== verification/Ingest_Correct.thy ===== *)
theory Ingest_Correct
  imports Ingest_Moves Service_Correct Graph_Correct
begin

text \<open>
  The properties of the ingest worker, over the interpretation of its interface in \<open>Ingest_Moves\<close>:
  frames are processed, the drain empties the inbox, a frame stays in its account, Google threads
  are not confused, and minting ends.
\<close>

section \<open>A frame is processed\<close>

text \<open>
  The database and the clock as a frame needs them: no transaction is refused as busy, and the clock
  is never before the arrival of a frame that waits.
\<close>

definition calm :: "ingest_env \<Rightarrow> store \<Rightarrow> bool" where
  "calm env s \<longleftrightarrow> (\<forall>n. \<not> ieBusy env n \<and> 0 < unixMilliOf (ieClock env n 0) \<and>
     (\<forall>r \<in> set (unprocessed s). inReceivedAtMS r \<le> unixMilliOf (ieClock env n 0)))"

definition framesOK :: "store \<Rightarrow> bool" where
  "framesOK s \<longleftrightarrow> (\<forall>r \<in> set (unprocessed s). inboxRowOK r)"

text \<open>
  For every conversation that the frame names, no two of the IDs that minting would try are equal,
  for as many as the store can have taken.
\<close>

definition mintable :: "ingest_env \<Rightarrow> raw_ingress \<Rightarrow> store \<Rightarrow> bool" where
  "mintable env ri s \<longleftrightarrow> (\<forall>r \<in> set (frameThreads env ri).
     inj_on (mintCandidate env (riAccountID ri) r) {..length (conversations s)})"

lemma set_unprocessed: "r \<in> set (unprocessed s) \<longleftrightarrow> r \<in> set (inbox s) \<and> inProcessedAtMS r = None"
  by (auto simp: unprocessed_def)

lemma frameStep_pending: "frameStep i A r r' \<Longrightarrow> inProcessedAtMS r' = None \<Longrightarrow> r' = r"
  by (auto simp: frameStep_def)

lemma frames_pending:
  "list_all2 (frameStep i A) xs ys \<Longrightarrow> r \<in> set ys \<Longrightarrow> inProcessedAtMS r = None \<Longrightarrow> r \<in> set xs"
  by (induction rule: list_all2_induct) (auto dest: frameStep_pending)

lemma unprocessed_fewer: "frameMoves J i A s t \<Longrightarrow> set (unprocessed t) \<subseteq> set (unprocessed s)"
  unfolding frameMoves_def by (auto simp: set_unprocessed dest: frames_pending)

lemma calm_stays: "calm env s \<Longrightarrow> frameMoves J i A s t \<Longrightarrow> calm env t"
  unfolding calm_def using unprocessed_fewer by blast

lemma framesOK_stays: "framesOK s \<Longrightarrow> frameMoves J i A s t \<Longrightarrow> framesOK t"
  unfolding framesOK_def using unprocessed_fewer by blast

lemma mark_possible:
  assumes "framesOK s" and "calm env s"
  shows "\<exists>t. markInboxProcessed (ieClock env n 0) i A s = Inr t"
proof -
  let ?n = "unixMilliOf (ieClock env n 0)"
  have "inboxRowOK (r\<lparr>inProcessedAtMS := Some ?n\<rparr>)" if "r \<in> set (inbox s)" "inProcessedAtMS r = None" for r
    using that assms by (auto simp: inboxRowOK_def calm_def framesOK_def set_unprocessed)
  moreover have "nowMS (ieClock env n 0) = Inr ?n" using assms(2) by (simp add: nowMS_Inr calm_def)
  ultimately show ?thesis
    by (simp add: markInboxProcessed_def markProcessedRows_def updateChecked_def list_all_iff Let_def)
qed

lemma mintable_less:
  "mintable env ri t \<Longrightarrow> length (conversations s) \<le> length (conversations t) \<Longrightarrow> mintable env ri s"
  unfolding mintable_def by (meson atMost_subset_iff inj_on_subset)

lemma handleRecord_frameMoves:
  "riAccountID ri = A \<Longrightarrow>
   frameMoves (ieJSONValid env) i A (igStore w) (igStore (snd (handleRecord (wired x v env) i ri w)))"
  by (rule frame.handleRecord_moves [where T = "set (frameThreads env ri)"]) simp_all

lemma handleRecord_frameDone:
  assumes "riAccountID ri = A" and "calm env (igStore w)" and "framesOK (igStore w)"
    and "mintable env ri (igStore (snd (handleRecord (wired x v env) i ri w)))"
  shows "frameDone i A (igStore (snd (handleRecord (wired x v env) i ri w)))"
proof (rule frame.handleRecord_done [where T = "set (frameThreads env ri)", OF assms(1)])
  let ?E = "frameFails env (set (frameThreads env ri)) i A"
  show "\<not> ieBusy (wired x v env) n" for n using assms(2) by (simp add: calm_def)
  show "\<not> ?E DatabaseBusy s \<and> \<not> ?E Diverged s"
    if "frameMoves (ieJSONValid env) i A s (igStore (snd (handleRecord (wired x v env) i ri w)))" for s
  proof -
    have "mintable env ri s"
      by (rule mintable_less [OF assms(4)]) (use that in \<open>simp add: frameMoves_def\<close>)
    then show ?thesis using assms(1,2) by (simp add: frameFails_def mintable_def calm_def)
  qed
  show "frameDone i A s" if "?E (StoreRefusal e) s" and "errorsIs e ErrInboxProjectionConflict" for e s
    using that by (simp add: frameFails_def)
  show "\<exists>t. markInboxProcessed (ieClock (wired x v env) n 0) i A s = Inr t"
    if "frameMoves (ieJSONValid env) i A (igStore w) s" for n s
    using mark_possible [OF framesOK_stays [OF assms(3) that] calm_stays [OF assms(2) that]] by simp
qed simp


section \<open>The drain\<close>

lemma handleRecords_fewer:
  "length (conversations (igStore w)) \<le>
   length (conversations (igStore (snd (handleRecords (wired x v env) rs c w))))"
proof (induction rs arbitrary: c w)
  case (Cons r rs)
  obtain c1 w1 where one: "handleRecord (wired x v env) (inInboxID r) (rawIngressRecord r) w = (c1, w1)" by fastforce
  have "length (conversations (igStore w)) \<le> length (conversations (igStore w1))"
    using handleRecord_frameMoves [OF refl, where env = env and w = w and i = "inInboxID r" and ri = "rawIngressRecord r" and x = x and v = v] one
    by (simp add: frameMoves_def)
  with Cons.IH [of w1 "c \<or> c1"] one show ?case by simp
qed simp

lemma handleRecord_not_pending:
  assumes "calm env (igStore w)" and "framesOK (igStore w)" and "distinct (map inInboxID (inbox (igStore w)))"
    and "mintable env (rawIngressRecord r) (igStore (snd (handleRecord (wired x v env) (inInboxID r) (rawIngressRecord r) w)))"
  shows "r \<notin> set (unprocessed (igStore (snd (handleRecord (wired x v env) (inInboxID r) (rawIngressRecord r) w))))"
proof
  let ?t = "igStore (snd (handleRecord (wired x v env) (inInboxID r) (rawIngressRecord r) w))"
  have A: "riAccountID (rawIngressRecord r) = inAccountID r" by (simp add: rawIngressRecord_def)
  assume "r \<in> set (unprocessed ?t)"
  then have r: "r \<in> set (inbox ?t)" "inProcessedAtMS r = None" by (simp_all add: set_unprocessed)
  have "list_all2 (frameStep (inInboxID r) (inAccountID r)) (inbox (igStore w)) (inbox ?t)"
    using handleRecord_frameMoves [OF A, where env = env and w = w and i = "inInboxID r" and x = x and v = v] unfolding frameMoves_def by (rule conjunct1)
  then have "map inInboxID (inbox ?t) = map inInboxID (inbox (igStore w))"
    by (induction rule: list_all2_induct) (auto simp: frameStep_def)
  then have "distinct (map inInboxID (inbox ?t))" using assms(3) by simp
  then have "sqlFind (\<lambda>q. inInboxID q = inInboxID r) (inbox ?t) = Some r"
    using r(1) by (intro sqlFind_key refl)
  moreover have "frameDone (inInboxID r) (inAccountID r) ?t"
    using A assms by (intro handleRecord_frameDone) simp_all
  ultimately show False using r(2) by (simp add: frameDone_def)
qed

lemma handleRecords_empty:
  assumes "calm env (igStore w)" and "framesOK (igStore w)" and "distinct (map inInboxID (inbox (igStore w)))"
    and "\<And>r. r \<in> set rs \<Longrightarrow> mintable env (rawIngressRecord r) (igStore (snd (handleRecords (wired x v env) rs c w)))"
    and "set (unprocessed (igStore w)) \<subseteq> set rs"
  shows "unprocessed (igStore (snd (handleRecords (wired x v env) rs c w))) = []"
  using assms
proof (induction rs arbitrary: c w)
  case Nil
  then show ?case by simp
next
  case (Cons r rs)
  obtain c1 w1 where one: "handleRecord (wired x v env) (inInboxID r) (rawIngressRecord r) w = (c1, w1)" by fastforce
  have moved: "frameMoves (ieJSONValid env) (inInboxID r) (inAccountID r) (igStore w) (igStore w1)"
    using handleRecord_frameMoves [where env = env and w = w and i = "inInboxID r" and ri = "rawIngressRecord r" and x = x and v = v
        and A = "inAccountID r"] one
    by (simp add: rawIngressRecord_def)
  have mint: "mintable env (rawIngressRecord q) (igStore (snd (handleRecords (wired x v env) rs (c \<or> c1) w1)))"
    if "q \<in> set (r # rs)" for q
    using Cons.prems(4) [OF that] one by simp
  have "mintable env (rawIngressRecord r) (igStore w1)"
    by (rule mintable_less [OF mint]) (simp_all add: handleRecords_fewer)
  then have "r \<notin> set (unprocessed (igStore w1))"
    using handleRecord_not_pending [OF Cons.prems(1-3), of r x v] one by simp
  then have "set (unprocessed (igStore w1)) \<subseteq> set rs"
    using unprocessed_fewer [OF moved] Cons.prems(5) by auto
  moreover have "map inInboxID (inbox (igStore w1)) = map inInboxID (inbox (igStore w))"
  proof -
    have "list_all2 (frameStep (inInboxID r) (inAccountID r)) (inbox (igStore w)) (inbox (igStore w1))"
      using moved unfolding frameMoves_def by (rule conjunct1)
    then show ?thesis by (induction rule: list_all2_induct) (auto simp: frameStep_def)
  qed
  ultimately show ?case
    using Cons.IH [of w1 "c \<or> c1"] calm_stays [OF Cons.prems(1) moved] framesOK_stays [OF Cons.prems(2) moved]
      Cons.prems(3) mint one by simp
qed

text \<open>
  C15: a drain empties the inbox. With the database and the clock as above, unique inbox IDs and no
  two equal conversation IDs to mint, no frame of any account is waiting after \<open>drain\<close>, whatever
  the frames hold and whichever of them were put into quarantine.
\<close>

theorem drain_empties_inbox:
  assumes "calm env (igStore w)" and "framesOK (igStore w)" and "distinct (map inInboxID (inbox (igStore w)))"
    and "\<forall>r \<in> set (unprocessed (igStore w)). mintable env (rawIngressRecord r) (igStore (drain (wired x v env) w))"
  shows "unprocessed (igStore (drain (wired x v env) w)) = []"
proof -
  have "query (wired x v env) (\<lambda>s. Inr (unprocessed s)) w = (Inr (unprocessed (igStore w)), ticked w)"
    using assms(1) by (simp add: query_def calm_def)
  then have drain: "igStore (drain (wired x v env) w) =
      igStore (snd (handleRecords (wired x v env) (unprocessed (igStore w)) False (ticked w)))"
    by (simp add: drain_def maxTransientRetries_def numeral_3_eq_3 split: prod.split)
  show ?thesis
    using assms unfolding drain by (intro handleRecords_empty) simp_all
qed

section \<open>What an action that succeeds did\<close>

lemma andThen_Inr:
  "andThen m f w = (Inr y, w2) \<longleftrightarrow> (\<exists>x w1. m w = (Inr x, w1) \<and> f x w1 = (Inr y, w2))"
  by (auto simp: andThen_def split: prod.split sum.split)

lemma andThen_eq: "m w = (Inr x, w1) \<Longrightarrow> andThen m f w = f x w1"
  by (simp add: andThen_def)

lemma give_Inr: "give x w = (Inr y, w1) \<longleftrightarrow> y = x \<and> w1 = w"
  by (auto simp: give_def)

lemma refuse_Inr: "refuse e w = (Inr y, w1) \<longleftrightarrow> False"
  by (simp add: refuse_def)

lemma query_Inr: "query env f w = (Inr x, w1) \<Longrightarrow> f (igStore w) = Inr x \<and> igStore w1 = igStore w"
  by (auto simp: query_def split: if_splits sum.splits)

lemma exec_Inr:
  "exec env f w = (Inr x, w1) \<Longrightarrow> f (ieClock env (igTick w)) (igStore w) = Inr (x, igStore w1)"
  by (auto simp: exec_def split: if_splits sum.splits)

lemma exec_unit:
  "exec env (\<lambda>c s. unitResult (f c s)) w = (Inr x, w1) \<Longrightarrow> f (ieClock env (igTick w)) (igStore w) = Inr (igStore w1)"
  by (drule exec_Inr) (simp add: unitResult_Inr)

lemma found_Some: "found m w = (Inr (Some x), w1) \<Longrightarrow> m w = (Inr x, w1)"
  by (auto simp: found_def split: prod.splits sum.splits ingest_error.splits if_splits)

lemma found_None:
  "found (query env f) w = (Inr None, w1) \<Longrightarrow>
   igStore w1 = igStore w \<and> (\<exists>e. f (igStore w) = Inl e \<and> errorsIs e ErrNotFound)"
  by (auto simp: found_def query_def split: prod.splits sum.splits ingest_error.splits if_splits)

lemma readNow_Inr: "readNow env w = (Inr n, w1) \<Longrightarrow> igStore w1 = igStore w"
  by (auto simp: readNow_def Let_def split: if_splits)

lemma count1_Inr: "count1 a c w = (Inr x, w1) \<Longrightarrow> igStore w1 = igStore w"
  by (auto simp: count1_def)

section \<open>Google threads\<close>

text \<open>
  Whether a message of the sender may be filed in a conversation: a direct thread must have no known
  peers, or the sender among them.
\<close>

definition fitsThread :: "string \<Rightarrow> string \<Rightarrow> conversation \<Rightarrow> store \<Rightarrow> bool" where
  "fitsThread a sender c s \<longleftrightarrow> cvKind c \<noteq> ''direct'' \<or>
     (let peers = listConversationPeerIdentities a (cvConversationID c) s
      in peers = [] \<or> identitiesContain peers sender)"

lemma peers_same:
  "participants t = participants s \<Longrightarrow> identities t = identities s \<Longrightarrow>
   listConversationPeerIdentities a c t = listConversationPeerIdentities a c s"
  by (simp add: listConversationPeerIdentities_def)

lemma peers_set:
  "i \<in> set (listConversationPeerIdentities a c s) \<longleftrightarrow> i \<in> set (identities s) \<and> \<not> idIsSelf i \<and>
   (\<exists>p \<in> set (participants s). cpAccountID p = a \<and> cpConversationID p = c \<and> cpIsActive p \<and>
      idAccountID i = cpAccountID p \<and> idIdentityID i = cpIdentityID p)"
  by (auto simp: listConversationPeerIdentities_def sqlExists_iff)

lemma solePeer_fits:
  assumes "solePeer sender c s" and "cvAccountID c = a"
  shows "fitsThread a sender c s"
proof -
  have "idIdentityID i = sender" if "i \<in> set (listConversationPeerIdentities a (cvConversationID c) s)" for i
    using that assms by (auto simp: peers_set solePeer_def sqlExists_iff)
  then show ?thesis
    by (cases "listConversationPeerIdentities a (cvConversationID c) s")
      (auto simp: fitsThread_def identitiesContain_def Let_def)
qed

lemma fresh_fits:
  assumes "graphOK J s" and "cvConversationID c \<notin> cvConversationID ` set (conversations s)"
    and "participants t = participants s" and "identities t = identities s"
  shows "fitsThread a sender c t"
proof -
  have none: "(a, cvConversationID c) \<notin> (\<lambda>p. (cpAccountID p, cpConversationID p)) ` set (participants s)"
  proof
    assume "(a, cvConversationID c) \<in> (\<lambda>p. (cpAccountID p, cpConversationID p)) ` set (participants s)"
    then have "(a, cvConversationID c) \<in> conversationRef ` set (conversations s)"
      using assms(1) unfolding graphOK_def graphRefs_def by blast
    then obtain d where d: "(a, cvConversationID c) = conversationRef d" "d \<in> set (conversations s)" by (rule imageE)
    then have "cvConversationID c = cvConversationID d" by simp
    with d(2) assms(2) show False by simp
  qed
  have "\<not> (cpAccountID p = a \<and> cpConversationID p = cvConversationID c)" if "p \<in> set (participants s)" for p
  proof
    assume e: "cpAccountID p = a \<and> cpConversationID p = cvConversationID c"
    have "(cpAccountID p, cpConversationID p) \<in> (\<lambda>p. (cpAccountID p, cpConversationID p)) ` set (participants s)"
      using that by (rule imageI)
    with e none show False by simp
  qed
  then have "set (listConversationPeerIdentities a (cvConversationID c) s) = {}"
    by (intro equals0I) (auto simp only: peers_set)
  then show ?thesis
    unfolding fitsThread_def Let_def peers_same [OF assms(3,4)] by simp
qed

lemma findDirect_fits:
  assumes "findDirectConversationBySolePeer a sender s = Inr c"
  shows "fitsThread a sender c s"
proof -
  define xs where "xs = filter (\<lambda>c. cvAccountID c = a \<and> cvKind c = ''direct'' \<and> solePeer sender c s) (conversations s)"
  obtain cs where "sqlTop recencyKey 1 xs = c # cs"
    using assms unfolding findDirectConversationBySolePeer_def xs_def [symmetric] by (simp split: list.split_asm)
  then have "c \<in> set (sqlTop recencyKey 1 xs)" by simp
  then have "c \<in> set xs" by (rule subsetD [OF set_sqlTop])
  then show ?thesis by (auto simp: xs_def intro: solePeer_fits)
qed

lemma setRemoteID_people:
  "setRemoteID a c r n s = Inr (k, t) \<Longrightarrow> participants t = participants s \<and> identities t = identities s \<and>
   cvConversationID ` set (conversations t) = cvConversationID ` set (conversations s)"
  by (drule setRemoteID_Inr) (simp add: image_sqlUpdate)

lemma reassign_people:
  "reassignConversationRemoteID a r c n s = Inr t \<Longrightarrow> participants t = participants s \<and> identities t = identities s"
  by (auto simp: reassignConversationRemoteID_def Let_def failWith_def
      split: if_split_asm option.split_asm sum.split_asm dest!: setRemoteID_people)

lemma bind_fits:
  assumes "fitsThread a sender c (igStore w)" and "bindRemoteConversationID env a r c w = (Inr c1, w1)"
  shows "fitsThread a sender c1 (igStore w1)"
proof (cases "cvRemoteConversationID c = r")
  case True
  with assms show ?thesis by (simp add: bindRemoteConversationID_def give_Inr)
next
  case False
  with assms(2) obtain n where moved: "reassignConversationRemoteID a r (cvConversationID c) n (igStore w) = Inr (igStore w1)"
      and c1: "c1 = c\<lparr>cvRemoteConversationID := r\<rparr>"
    by (auto simp: bindRemoteConversationID_def andThen_Inr give_Inr dest!: readNow_Inr count1_Inr exec_unit)
  note people = reassign_people [OF moved]
  have "listConversationPeerIdentities a i (igStore w1) = listConversationPeerIdentities a i (igStore w)" for i
    using people by (intro peers_same) simp_all
  with assms(1) show ?thesis by (simp add: fitsThread_def c1)
qed

text \<open>A conversation that is minted for a remote ID that no other has.\<close>

lemma minted_fits:
  assumes "graphOK J (igStore w)" and "cid \<notin> cvConversationID ` set (conversations (igStore w))"
    and "\<not> sqlExists (\<lambda>x. conversationKeyOf x = (a, r)) (conversations (igStore w))"
    and "storeConversation env (newConversation cid a r k l n) w = (Inr c, w1)"
  shows "fitsThread a sender c (igStore w1)"
proof -
  let ?new = "newConversation cid a r k l n"
  from assms(4) have up: "upsertConversation (ieJSONValid env) ?new (igStore w) = Inr (igStore w1)"
    and get: "getConversationByRemote a r (igStore w1) = Inr c"
    by (auto simp: storeConversation_def andThen_Inr newConversation_def dest!: exec_unit query_Inr)
  have "sqlFind (\<lambda>x. conversationKeyOf x = conversationKeyOf ?new) (conversations (igStore w)) = None"
    using assms(3) by (simp add: sqlFind_None newConversation_def)
  then have s1: "igStore w1 = (igStore w)\<lparr>conversations := conversations (igStore w) @ [?new]\<rparr>"
    using up by (auto simp: upsertConversation_def Let_def split: if_splits)
  have "c = ?new"
    using get assms(3) by (auto simp: s1 getConversationByRemote_def sqlFind_None sqlExists_iff
        split: option.splits dest!: sqlFind_Some)
  then have "cvConversationID c \<notin> cvConversationID ` set (conversations (igStore w))"
    using assms(2) by (simp add: newConversation_def)
  then show ?thesis using assms(1) by (intro fresh_fits [of J "igStore w"]) (simp_all add: s1)
qed

lemma mintConversationID_Inr:
  "mintConversationID env a r w = (Inr cid, w1) \<Longrightarrow>
   igStore w1 = igStore w \<and> cid \<notin> cvConversationID ` set (conversations (igStore w))"
  using mintConversationID_run [of env a r w "Inr cid" w1] by simp

lemma displaced_frees:
  assumes "displaceConversationRemoteID a r n s = Inr (b, t)" and "graphOK J s" and "trimSpace r = r"
  shows "\<not> sqlExists (\<lambda>x. conversationKeyOf x = (a, r)) (conversations t) \<and> graphOK J t"
proof (rule conjI)
  show "graphOK J t" using assms(1,2) by (rule displaceConversationRemoteID_OK)
  have r: "r \<noteq> ''''" using assms(1,3) by (auto simp: displaceConversationRemoteID_def failWith_def)
  show "\<not> sqlExists (\<lambda>x. conversationKeyOf x = (a, r)) (conversations t)"
  proof (cases "holderOf a r s")
    case None
    then have "t = s" using assms(1,3) r by (simp add: displaceConversationRemoteID_def)
    then show ?thesis using None by (simp add: holderOf_def sqlFind_None)
  next
    case (Some h)
    then obtain k where set: "setRemoteID a (cvConversationID h) (displacedRemoteID r (cvConversationID h)) n s = Inr (k, t)"
      using assms(1,3) r by (auto simp: displaceConversationRemoteID_def split: sum.split_asm)
    have "x = h" if "x \<in> set (conversations s)" "conversationKeyOf x = (a, r)" for x
    proof -
      have "holderOf a r s = Some x" using that assms(2) by (intro holderOf_eq) auto
      with Some show ?thesis by simp
    qed
    moreover have "cvAccountID h = a" using holderOf_Some [OF Some] by simp
    moreover have "displacedRemoteID r i \<noteq> r" for i
      using arg_cong [of "displacedRemoteID r i" r length] by (auto simp: displacedRemoteID_def)
    ultimately have key: "conversationKeyOf (if cvAccountID x = a \<and> cvConversationID x = cvConversationID h
        then x\<lparr>cvRemoteConversationID := displacedRemoteID r (cvConversationID h),
               cvUpdatedAtMS := max (cvUpdatedAtMS x) n\<rparr> else x) \<noteq> (a, r)"
      if "x \<in> set (conversations s)" for x
      using that by auto
    have rows: "conversations t = sqlUpdate (\<lambda>x. cvAccountID x = a \<and> cvConversationID x = cvConversationID h)
        (\<lambda>x. x\<lparr>cvRemoteConversationID := displacedRemoteID r (cvConversationID h),
               cvUpdatedAtMS := max (cvUpdatedAtMS x) n\<rparr>) (conversations s)"
      using setRemoteID_Inr [OF set] by simp
    have "\<forall>x \<in> set (conversations t). conversationKeyOf x \<noteq> (a, r)"
      unfolding rows ball_sqlUpdate by (intro ballI key)
    then show ?thesis by (simp add: sqlExists_iff)
  qed
qed

lemma displaceAndMint_fits:
  assumes "graphOK J (igStore w)" and "trimSpace r = r"
    and "displaceAndMint env a r k l cr w = (Inr c, w1)"
  shows "fitsThread a sender c (igStore w1)"
proof -
  obtain n w2 b w3 cid w4 w5 where now: "readNow env w = (Inr n, w2)"
    and dis: "exec env (\<lambda>_ s. displaceConversationRemoteID a r n s) w2 = (Inr b, w3)"
    and mint: "mintConversationID env a r w3 = (Inr cid, w4)"
    and new: "storeConversation env (newConversation cid a r k l (case cr of None \<Rightarrow> n | Some t \<Rightarrow> t)) w4 = (Inr c, w5)"
    and last: "igStore w1 = igStore w5"
    using assms(3) by (auto simp: displaceAndMint_def andThen_Inr give_Inr dest!: count1_Inr)
  have "displaceConversationRemoteID a r n (igStore w) = Inr (b, igStore w3)"
    using exec_Inr [OF dis] readNow_Inr [OF now] by simp
  from displaced_frees [OF this assms(1,2)] mintConversationID_Inr [OF mint]
  have "graphOK J (igStore w4)" "cid \<notin> cvConversationID ` set (conversations (igStore w4))"
    "\<not> sqlExists (\<lambda>x. conversationKeyOf x = (a, r)) (conversations (igStore w4))" by simp_all
  from minted_fits [OF this new] show ?thesis by (simp add: last)
qed

lemma existingConversation_Inr:
  assumes "existingConversation env a platform rc w = (Inr (c, r), w1)"
  shows "r = normalizeRemoteConversationID platform rc \<and> igStore w1 = igStore w \<and>
    (c = None \<longrightarrow> \<not> sqlExists (\<lambda>x. conversationKeyOf x = (a, r)) (conversations (igStore w)))"
proof -
  let ?r = "normalizeRemoteConversationID platform rc"
  obtain d w2 where get: "found (query env (getConversationByRemote a ?r)) w = (Inr d, w2)"
    and "c = d" "r = ?r" "w1 = w2"
    using assms by (auto simp: existingConversation_def Let_def andThen_Inr give_Inr refuse_Inr split: if_splits)
  moreover have "igStore w2 = igStore w \<and>
      (d = None \<longrightarrow> \<not> sqlExists (\<lambda>x. conversationKeyOf x = (a, ?r)) (conversations (igStore w)))"
  proof (cases d)
    case None
    with get have "igStore w2 = igStore w" "\<exists>e. getConversationByRemote a ?r (igStore w) = Inl e"
      by (auto dest!: found_None)
    then show ?thesis
      by (auto simp: getConversationByRemote_def sqlFind_None split: option.split_asm)
  next
    case (Some x)
    with get show ?thesis by (auto dest!: found_Some query_Inr)
  qed
  ultimately show ?thesis by simp
qed

lemma reroute_fits:
  assumes "graphOK J (igStore w)" and "trimSpace r = r"
    and "rerouteGoogleDirect env a r sender n w = (Inr c, w1)"
  shows "fitsThread a (idIdentityID sender) c (igStore w1)"
proof -
  obtain t w2 where get: "found (query env (findDirectConversationBySolePeer a (idIdentityID sender))) w = (Inr t, w2)"
    and rest: "(case t of Some target \<Rightarrow> bindRemoteConversationID env a r target
      | None \<Rightarrow> displaceAndMint env a r ''direct'' n (Some n)) w2 = (Inr c, w1)"
    using assms(3) by (auto simp: rerouteGoogleDirect_def andThen_Inr)
  show ?thesis
  proof (cases t)
    case None
    with get have "igStore w2 = igStore w" by (auto dest!: found_None)
    then have "graphOK J (igStore w2)" using assms(1) by simp
    from displaceAndMint_fits [OF this assms(2)] rest None show ?thesis by simp
  next
    case (Some target)
    with get have find: "findDirectConversationBySolePeer a (idIdentityID sender) (igStore w) = Inr target"
      and "igStore w2 = igStore w" by (auto dest!: found_Some query_Inr)
    then have "fitsThread a (idIdentityID sender) target (igStore w2)" by (simp add: findDirect_fits)
    then show ?thesis using rest Some by (auto intro: bind_fits)
  qed
qed

lemma ensure_fits:
  assumes "graphOK J (igStore w)"
    and "\<not> sqlExists (\<lambda>x. conversationKeyOf x = (a, normalizeRemoteConversationID platform rc)) (conversations (igStore w))"
    and "ensureMessageConversation env a platform rc n w = (Inr (c, r), w1)"
  shows "fitsThread a sender c (igStore w1)"
proof -
  obtain stored r0 w2 where ex: "existingConversation env a platform rc w = (Inr (stored, r0), w2)"
    and rest: "(case stored of Some c \<Rightarrow> give (c, r0)
       | None \<Rightarrow> andThen (if n \<le> 0 then readNow env else give n) (\<lambda>occurredAt.
           andThen (mintConversationID env a r0) (\<lambda>conversationID.
             andThen (storeConversation env (newConversation conversationID a r0
                 (case conversationKindForRemoteID platform r0 of None \<Rightarrow> ''direct'' | Some k \<Rightarrow> k)
                 occurredAt occurredAt)) (\<lambda>c. give (c, r0))))) w2 = (Inr (c, r), w1)"
    using assms(3) [unfolded ensureMessageConversation_def Let_def] by (auto simp: andThen_Inr)
  from existingConversation_Inr [OF ex]
  have r0: "r0 = normalizeRemoteConversationID platform rc" and s2: "igStore w2 = igStore w" by simp_all
  have "stored = None"
  proof (rule ccontr)
    assume "stored \<noteq> None"
    then obtain d where d: "stored = Some d" by blast
    with ex r0 have "getConversationByRemote a r0 (igStore w) = Inr d"
      by (auto simp: existingConversation_def Let_def andThen_Inr give_Inr refuse_Inr
          dest!: found_Some query_Inr split: if_splits)
    with assms(2) r0 show False
      by (auto simp: getConversationByRemote_def sqlExists_iff split: option.split_asm dest!: sqlFind_Some)
  qed
  with rest obtain m w3 cid w4 k w5 where now: "(if n \<le> 0 then readNow env else give n) w2 = (Inr m, w3)"
    and mint: "mintConversationID env a r0 w3 = (Inr cid, w4)"
    and new: "storeConversation env (newConversation cid a r0 k m m) w4 = (Inr c, w5)" and last: "w1 = w5"
    by (auto simp: andThen_Inr give_Inr)
  have "igStore w3 = igStore w" using now s2 by (auto simp: give_Inr dest: readNow_Inr split: if_splits)
  then have "graphOK J (igStore w4)" "cid \<notin> cvConversationID ` set (conversations (igStore w4))"
    "\<not> sqlExists (\<lambda>x. conversationKeyOf x = (a, r0)) (conversations (igStore w4))"
    using mintConversationID_Inr [OF mint] assms(1,2) r0 by simp_all
  from minted_fits [OF this new] show ?thesis by (simp add: last)
qed

text \<open>The number names a direct thread: its peers decide.\<close>

lemma incoming_bound_fits:
  assumes "graphOK J (igStore w)" and "trimSpace r = r"
    and "andThen (query env (\<lambda>s. Inr (listConversationPeerIdentities a (cvConversationID d) s)))
           (\<lambda>peers.
             if peers = [] \<or> identitiesContain peers (idIdentityID sender) then give (d, r)
             else andThen (rerouteGoogleDirect env a r sender n) (\<lambda>t. give (t, r))) w = (Inr (c, q), w1)"
  shows "fitsThread a (idIdentityID sender) c (igStore w1)"
proof -
  let ?peers = "listConversationPeerIdentities a (cvConversationID d) (igStore w)"
  from assms(3) obtain peers w2 where "query env (\<lambda>s. Inr (listConversationPeerIdentities a (cvConversationID d) s)) w
        = (Inr peers, w2)"
      and rest: "(if peers = [] \<or> identitiesContain peers (idIdentityID sender) then give (d, r)
        else andThen (rerouteGoogleDirect env a r sender n) (\<lambda>t. give (t, r))) w2 = (Inr (c, q), w1)"
    by (auto simp: andThen_Inr)
  then have peers: "peers = ?peers" and w2: "igStore w2 = igStore w" by (auto dest: query_Inr)
  show ?thesis
  proof (cases "peers = [] \<or> identitiesContain peers (idIdentityID sender)")
    case True
    with rest peers w2 show ?thesis by (simp add: give_Inr fitsThread_def Let_def)
  next
    case False
    with rest have "rerouteGoogleDirect env a r sender n w2 = (Inr c, w1)"
      by (auto simp: andThen_Inr give_Inr)
    with reroute_fits [of J w2 r env a sender n c w1] assms(1,2) w2 show ?thesis by simp
  qed
qed

text \<open>The number names no thread: the sender's own thread is bound or a new one is minted.\<close>

lemma incoming_unbound_fits:
  assumes "graphOK J (igStore w)"
    and "\<not> sqlExists (\<lambda>x. conversationKeyOf x = (a, normalizeRemoteConversationID platform rc)) (conversations (igStore w))"
    and "andThen (found (query env (findDirectConversationBySolePeer a (idIdentityID sender)))) (\<lambda>t.
           case t of
             Some target \<Rightarrow> andThen (bindRemoteConversationID env a r target) (\<lambda>c. give (c, r))
           | None \<Rightarrow> ensureMessageConversation env a platform rc n) w = (Inr (c, q), w1)"
  shows "fitsThread a (idIdentityID sender) c (igStore w1)"
proof -
  from assms(3) obtain t w2 where
        get: "found (query env (findDirectConversationBySolePeer a (idIdentityID sender))) w = (Inr t, w2)"
      and rest: "(case t of
             Some target \<Rightarrow> andThen (bindRemoteConversationID env a r target) (\<lambda>c. give (c, r))
           | None \<Rightarrow> ensureMessageConversation env a platform rc n) w2 = (Inr (c, q), w1)"
    by (auto simp: andThen_Inr)
  show ?thesis
  proof (cases t)
    case None
    with get have "igStore w2 = igStore w" by (auto dest!: found_None)
    with ensure_fits [of J w2 a platform rc env n c q w1] assms(1,2) rest None show ?thesis by simp
  next
    case (Some target)
    with get have "findDirectConversationBySolePeer a (idIdentityID sender) (igStore w2) = Inr target"
      by (auto dest!: found_Some query_Inr)
    with rest Some show ?thesis
      by (auto simp: andThen_Inr give_Inr intro: bind_fits [OF findDirect_fits])
  qed
qed


section \<open>A frame with an edit\<close>

definition demoEdit :: event where
  "demoEdit = \<lparr>evAccountID = '''', evSourceInboxID = '''', evKind = ''message_mutation'', evConversation = None,
     evMessage = None, evMessageMutation = Some \<lparr>muRemoteConversationID = ''rc'', muRemoteMessageID = ''m1'',
       muKind = ''edit'', muBody = ''hello'', muOccurredAt = timeOfUnixMilli 900\<rparr>,
     evReaction = None, evReceipt = None\<rparr>"

definition demoEnv :: ingest_env where
  "demoEnv = \<lparr>ieDecoders = (\<lambda>c. if c = ''json'' then Some (PlatformSignal, \<lambda>r. Decoded [demoEdit]) else None),
     ieObserver = None, ieBusy = (\<lambda>_. False), ieClock = (\<lambda>_ _. timeOfUnixMilli 2000), ieSHA256 = rev,
     ieSHA1 = id, ieUnicodeLower = id, ieJSONValid = (\<lambda>_. True), ieJSON = Some, ieQueueCapacity = 8\<rparr>"

definition demoWorld :: submit_world where
  "demoWorld = \<lparr>sxBridges = newRegistry, sxNow = timeOfUnixMilli 2000, sxStoreNow = (\<lambda>_. timeOfUnixMilli 2000),
     sxID = (\<lambda>_. None), sxBlobs = False, sxPut = (\<lambda>_ _ _. PutFailed), sxDigest = (\<lambda>_. []),
     sxFault = (\<lambda>_. False)\<rparr>"

definition demoIngest :: ingest where
  "demoIngest = \<lparr>igStore = demoReceived, igCounts = (\<lambda>_ _. 0), igTick = 0, igQueue = [], igChanges = 0\<rparr>"

definition demoRaw :: raw_ingress where
  "demoRaw = rawIngressRecord (demoFrame\<lparr>inReceivedAtMS := 1000\<rparr>)"

lemma demo_unprocessed: "unprocessed (igStore demoIngest) = [demoFrame\<lparr>inReceivedAtMS := 1000\<rparr>]"
  by (simp add: demoIngest_def demoReceived_def demoFrame_def unprocessed_def)

lemma demoIngest_ready: "calm demoEnv (igStore demoIngest)" "framesOK (igStore demoIngest)"
proof -
  have "unixMilliOf (timeOfUnixMilli 2000) = 2000" by code_simp
  then show "calm demoEnv (igStore demoIngest)"
    by (simp add: calm_def demo_unprocessed demoEnv_def)
  have "inboxRowOK (demoFrame\<lparr>inReceivedAtMS := 1000\<rparr>)" by code_simp
  then show "framesOK (igStore demoIngest)" by (simp add: framesOK_def demo_unprocessed)
qed

lemma demo_threads: "frameThreads demoEnv demoRaw = []"
  by (simp add: frameThreads_def demoEnv_def demoRaw_def rawIngressRecord_def demoFrame_def eventThreads_def demoEdit_def)


lemma drain_empties_inbox_witness:
  "unprocessed (igStore demoIngest) \<noteq> [] \<and>
   unprocessed (igStore (drain (wired demoWorld (newMessageService emptyStore) demoEnv) demoIngest)) = []"
proof -
  have "distinct (map inInboxID (inbox (igStore demoIngest)))"
    by (simp add: demoIngest_def demoReceived_def)
  from drain_empties_inbox [OF demoIngest_ready this, of demoWorld "newMessageService emptyStore"] show ?thesis
    by (simp add: demo_unprocessed mintable_def demo_threads [unfolded demoRaw_def])
qed

section \<open>Isolation of accounts\<close>

text \<open>
  C30: a frame stays in its account. Handling a frame, whatever it holds and however it ends, marks
  no row of the inbox but its own and changes nothing else of any row; the identity graph stays
  well-formed, and its identities, conversations and participants of other accounts, and every
  account and device, are as they were.
\<close>

theorem frame_stays_in_account:
  assumes "graphOK (ieJSONValid env) (igStore w)"
    and "t = igStore (snd (handleRecord (wired x v env) i ri w))"
  shows "list_all2 (frameStep i (riAccountID ri)) (inbox (igStore w)) (inbox t) \<and>
    graphOK (ieJSONValid env) t \<and> othersGraph (riAccountID ri) t = othersGraph (riAccountID ri) (igStore w)"
  using handleRecord_frameMoves [where env = env and w = w and i = i and ri = ri and x = x and v = v, OF refl] assms
  unfolding frameMoves_def by blast

definition demoShared :: store where
  "demoShared = demoGraph\<lparr>inbox := [demoFrame\<lparr>inAccountID := ''a2'', inReceivedAtMS := 1000\<rparr>]\<rparr>"

definition demoOther :: ingest where
  "demoOther = demoIngest\<lparr>igStore := demoShared\<rparr>"

lemma demoShared_OK: "graphOK (\<lambda>_. True) demoShared"
  using demoGraph_OK by (simp add: demoShared_def graphOK_def graphRefs_def)

lemma frame_stays_in_account_witness:
  "\<exists>t. t = igStore (snd (handleRecord (wired demoWorld (newMessageService emptyStore) demoEnv) ''i1''
       (demoRaw\<lparr>riAccountID := ''a2''\<rparr>) demoOther)) \<and>
     othersGraph ''a2'' t = othersGraph ''a2'' demoGraph \<and> graphOK (\<lambda>_. True) t"
  using frame_stays_in_account [where env = demoEnv and w = demoOther and x = demoWorld
      and v = "newMessageService emptyStore" and i = "''i1''" and ri = "demoRaw\<lparr>riAccountID := ''a2''\<rparr>", OF _ refl]
    demoShared_OK
  by (simp add: demoOther_def demoShared_def demoEnv_def othersGraph_def)

section \<open>Minting\<close>

text \<open>
  Minting a conversation ID comes to its end. The loop of \<open>mintConversationID\<close> has no bound of
  its own; when the database answers and no two of the first candidates are equal, one more than
  there are conversations, it ends with an ID that no conversation has and leaves the store alone.
\<close>

theorem mint_ends:
  assumes "\<forall>k. \<not> ieBusy env k" and "inj_on (mintCandidate env a r) {..length (conversations (igStore w))}"
  shows "\<exists>cid w1. mintConversationID env a r w = (Inr cid, w1) \<and> igStore w1 = igStore w \<and>
    cid \<notin> cvConversationID ` set (conversations (igStore w))"
proof -
  obtain res w1 where run: "mintConversationID env a r w = (res, w1)" by fastforce
  from mintConversationID_run [OF run] assms show ?thesis
    by (cases res) (auto simp: run)
qed

lemma mint_ends_witness:
  "\<exists>cid w1. mintConversationID demoEnv ''a'' ''rc'' demoIngest = (Inr cid, w1) \<and> cid \<noteq> ''c''"
proof -
  have "mintCandidate demoEnv ''a'' ''rc'' 0 \<noteq> mintCandidate demoEnv ''a'' ''rc'' 1" by code_simp
  then have "inj_on (mintCandidate demoEnv ''a'' ''rc'') {..length (conversations (igStore demoIngest))}"
    by (simp add: demoIngest_def demoReceived_def demoInbox_def atMost_Suc)
  moreover have "\<forall>k. \<not> ieBusy demoEnv k" by (simp add: demoEnv_def)
  ultimately show ?thesis
    using mint_ends [of demoEnv "''a''" "''rc''" demoIngest]
    by (auto simp: demoIngest_def demoReceived_def demoInbox_def)
qed

section \<open>A thread whose number was given again\<close>

definition demoMember :: "string \<Rightarrow> string \<Rightarrow> participant" where
  "demoMember c i = \<lparr>cpAccountID = ''a1'', cpConversationID = c, cpIdentityID = i, cpRole = ''member'',
     cpDisplayName = '''', cpIsActive = True, cpJoinedAtMS = None, cpLeftAtMS = None\<rparr>"

definition demoThreads :: store where
  "demoThreads = demoGraph\<lparr>identities := [graphIdentity ''i1'' ''+1555'', graphIdentity ''i2'' ''+1666''],
     participants := [demoMember ''c1'' ''i1'', demoMember ''c2'' ''i2'']\<rparr>"

lemma demoThreads_OK: "graphOK (\<lambda>_. True) demoThreads"
proof -
  have "graphRun anyJSON (graphOps @ [UpsertIdentity (graphIdentity ''i2'' ''+1666''),
      EnsureParticipant (demoMember ''c1'' ''i1''), EnsureParticipant (demoMember ''c2'' ''i2'')]) emptyStore
      = Inr demoThreads" by code_simp
  from graph.reachable_inv [OF demoGraph_start graphRun_steps [OF this]] show ?thesis .
qed


end
