(* ===== verification/River.thy ===== *)
theory River
  imports Keys
begin

text \<open>
  \<open>internal/river\<close>: rivers are the connected accounts of a provider; the first account of a provider
  keeps the historical form of conversation IDs and every further one has its IDs under its own name.

  \<^item> \<open>unicodeLower\<close> is \<open>strings.ToLower\<close> outside ASCII, as in \<open>Keys\<close>; \<open>filepath.Base\<close> is that of a
    Unix path.
\<close>

section \<open>Providers and river IDs\<close>

abbreviation ProviderMessages :: string where "ProviderMessages \<equiv> ''messages''"
abbreviation ProviderWhatsApp :: string where "ProviderWhatsApp \<equiv> ''whatsapp''"
abbreviation ProviderSignal :: string where "ProviderSignal \<equiv> ''signal''"
abbreviation ProviderSlack :: string where "ProviderSlack \<equiv> ''slack''"

definition normalizeProvider :: "(string \<Rightarrow> string) \<Rightarrow> string \<Rightarrow> string" where
  "normalizeProvider unicodeLower p =
     (let v = toLower unicodeLower (trimSpace p) in
      if v \<in> {''messages'', ''sms'', ''rcs'', ''google'', ''gmessages''} then ProviderMessages
      else if v \<in> {''whatsapp'', ''wa''} then ProviderWhatsApp
      else v)"

definition defaultRiverID :: "(string \<Rightarrow> string) \<Rightarrow> string \<Rightarrow> string" where
  "defaultRiverID unicodeLower sourcePlatform =
     (if blank sourcePlatform then ''messages-default''
      else let p = normalizeProvider unicodeLower sourcePlatform in
        if p = ProviderMessages then ''messages-default''
        else if p = ProviderWhatsApp then ''whatsapp-default''
        else if p = ProviderSignal then ''signal-default''
        else '''')"

definition isDefaultRiverID :: "string \<Rightarrow> bool" where
  "isDefaultRiverID i = (trimSpace i \<in> {''messages-default'', ''whatsapp-default'', ''signal-default''})"

definition filepathBase :: "string \<Rightarrow> string" where
  "filepathBase p =
     (if p = '''' then ''.''
      else let q = rev (dropWhile (\<lambda>c. c = CHR ''/'') (rev p)) in
        if q = '''' then ''/''
        else rev (takeWhile (\<lambda>c. c \<noteq> CHR ''/'') (rev q)))"

definition safeLiveRiverID :: "string \<Rightarrow> bool" where
  "safeLiveRiverID i0 =
     (let i = trimSpace i0 in
      if i = '''' \<or> isDefaultRiverID i then False
      else if filepathBase i \<noteq> i \<or> list_ex (\<lambda>k. hasPrefix (drop k i) ''..'') [0..<length i] then False
      else (hasPrefix i ''whatsapp-'' \<and> length ''whatsapp-'' < length i) \<or>
           (hasPrefix i ''signal-'' \<and> length ''signal-'' < length i))"

text \<open>\<open>ProviderPrefix\<close> gives the normalized provider for every provider.\<close>

definition providerPrefix :: "(string \<Rightarrow> string) \<Rightarrow> string \<Rightarrow> string" where
  "providerPrefix unicodeLower provider = normalizeProvider unicodeLower provider"

text \<open>\<open>clock\<close> is the time in milliseconds, read when the first ten thousand numbers are taken.\<close>

definition nextExtraRiverID :: "(string \<Rightarrow> string) \<Rightarrow> int \<Rightarrow> string \<Rightarrow> string list \<Rightarrow> string" where
  "nextExtraRiverID unicodeLower clock provider used =
     (let p = providerPrefix unicodeLower provider @ ''-'' in
      case find (\<lambda>n. p @ natDigits n \<notin> set (map trimSpace used)) [2..<10000] of
        Some n \<Rightarrow> p @ natDigits n
      | None \<Rightarrow> p @ formatInt clock)"

section \<open>Scoped IDs\<close>

definition scopedID :: "(string \<Rightarrow> string) \<Rightarrow> string \<Rightarrow> string \<Rightarrow> string \<Rightarrow> string" where
  "scopedID unicodeLower provider0 riverID remote0 =
     (let provider = normalizeProvider unicodeLower provider0;
          remote = trimSpace remote0
      in if provider = '''' \<or> remote = '''' then remote
         else if isDefaultRiverID riverID \<or> blank riverID then provider @ '':'' @ remote
         else provider @ ''/'' @ trimSpace riverID @ ''/'' @ remote)"

definition scopedGroupID :: "string \<Rightarrow> string \<Rightarrow> string" where
  "scopedGroupID riverID groupID0 =
     (let groupID = trimSpace groupID0 in
      if groupID = '''' then ''''
      else if isDefaultRiverID riverID \<or> blank riverID then ''signal-group:'' @ groupID
      else ''signal-group/'' @ trimSpace riverID @ ''/'' @ groupID)"

definition scopePrefixes :: "string list" where
  "scopePrefixes = [''signal-group/'', ''signal-group:'', ''whatsapp/'', ''whatsapp:'',
     ''signal/'', ''signal:'', ''messages/'', ''messages:'']"

text \<open>The text after the first slash, if there is one.\<close>

definition afterSlash :: "string \<Rightarrow> string option" where
  "afterSlash s = (case dropWhile (\<lambda>c. c \<noteq> CHR ''/'') s of [] \<Rightarrow> None | c # cs \<Rightarrow> Some cs)"

fun unscopeBy :: "string list \<Rightarrow> string \<Rightarrow> string" where
  "unscopeBy [] i = i"
| "unscopeBy (p # ps) i =
     (case stripPrefix p i of
        None \<Rightarrow> unscopeBy ps i
      | Some rest \<Rightarrow>
          if last p = CHR ''/'' then (case afterSlash rest of Some r \<Rightarrow> r | None \<Rightarrow> rest) else rest)"

definition unscopeID :: "string \<Rightarrow> string" where
  "unscopeID i = (if blank i then '''' else unscopeBy scopePrefixes (trimSpace i))"

fun riverIDBy :: "string list \<Rightarrow> string \<Rightarrow> string" where
  "riverIDBy [] i = ''''"
| "riverIDBy (p # ps) i =
     (case stripPrefix p i of
        None \<Rightarrow> riverIDBy ps i
      | Some rest \<Rightarrow>
          let r = takeWhile (\<lambda>c. c \<noteq> CHR ''/'') rest in
          if afterSlash rest \<noteq> None \<and> r \<noteq> '''' then r else riverIDBy ps i)"

definition riverIDFromScoped :: "string \<Rightarrow> string" where
  "riverIDFromScoped i =
     riverIDBy [''signal-group/'', ''whatsapp/'', ''signal/'', ''messages/''] (trimSpace i)"

section \<open>Slack\<close>

definition slackRiverID :: "string \<Rightarrow> string" where
  "slackRiverID teamID = ''slack-'' @ trimSpace teamID"

definition slackConversationID :: "string \<Rightarrow> string \<Rightarrow> string" where
  "slackConversationID teamID channelID =
     ''slack:'' @ trimSpace teamID @ '':'' @ trimSpace channelID"

definition parseSlackConversationID :: "string \<Rightarrow> (string \<times> string) option" where
  "parseSlackConversationID conversationID =
     (case splitOn (CHR '':'') conversationID of
        [p, q, r] \<Rightarrow> if p = ''slack'' \<and> q \<noteq> '''' \<and> r \<noteq> '''' then Some (q, r) else None
      | _ \<Rightarrow> None)"

section \<open>Scoped IDs are read back\<close>

lemma afterSlash_append: "CHR ''/'' \<notin> set r \<Longrightarrow> afterSlash (r @ CHR ''/'' # s) = Some s"
  by (induction r) (auto simp: afterSlash_def)

lemma takeWhile_slash: "CHR ''/'' \<notin> set r \<Longrightarrow> takeWhile (\<lambda>c. c \<noteq> CHR ''/'') (r @ CHR ''/'' # s) = r"
  by (induction r) auto

text \<open>A text that begins with a letter of a provider's name and ends like a trimmed text is trimmed.\<close>

lemma stripPrefix_into:
  "stripPrefix p x = None \<Longrightarrow> \<forall>c \<in> set p. 128 \<le> (of_char c :: nat) \<Longrightarrow> (of_char d :: nat) < 128 \<Longrightarrow>
   stripPrefix p (x @ d # t) = None"
  by (induction p x rule: stripPrefix.induct) auto

lemma trimSpace_prefixed:
  assumes "plainChar c" and "(of_char d :: nat) < 128" and "trimSpace r = r" and "r \<noteq> ''''"
  shows "trimSpace (c # s @ d # r) = c # s @ d # r"
proof (rule trimSpace_done)
  have "\<not> asciiBlank c" using assms(1) by (auto simp: plainChar_def asciiBlank_def Let_def)
  then show "stripBlank wideBlanks (c # s @ d # r) = None"
    using stripFirst_plain [OF wideBlanks_high assms(1)] by (simp add: stripBlank_def)
  have ends: "stripBlank (map rev wideBlanks) (rev r) = None" using trimSpace_ends [of r] assms(3) by simp
  obtain e es where er: "rev r = e # es" using assms(4) by (cases "rev r") auto
  have "stripFirst (map rev wideBlanks) (rev r) = None" "\<not> asciiBlank e"
    using ends er by (auto simp: stripBlank_def split: if_splits)
  then have "stripFirst (map rev wideBlanks) (rev r @ d # t) = None" for t
    using wideBlanks_high assms(2) unfolding stripFirst_None by (auto intro!: stripPrefix_into)
  with \<open>\<not> asciiBlank e\<close> er show "stripBlank (map rev wideBlanks) (rev (c # s @ d # r)) = None"
    by (simp add: stripBlank_def)
qed

text \<open>A further account of the provider, as \<open>SafeLiveRiverID\<close> admits them.\<close>

definition extraRiver :: "string \<Rightarrow> bool" where
  "extraRiver riverID \<longleftrightarrow> trimSpace riverID = riverID \<and> riverID \<noteq> '''' \<and> \<not> isDefaultRiverID riverID \<and>
     CHR ''/'' \<notin> set riverID"

lemma scoped_default:
  assumes "provider \<in> {ProviderMessages, ProviderWhatsApp, ProviderSignal}" and "trimSpace remote = remote"
    and "remote \<noteq> ''''"
  shows "unscopeID (provider @ '':'' @ remote) = remote" "riverIDFromScoped (provider @ '':'' @ remote) = ''''"
proof -
  have trim: "trimSpace (provider @ '':'' @ remote) = provider @ '':'' @ remote"
    using assms trimSpace_prefixed [of "hd provider" "CHR '':''" remote "tl provider"]
    by (auto simp: plainChar_def)
  with assms(1) show "unscopeID (provider @ '':'' @ remote) = remote"
    by (auto simp: unscopeID_def scopePrefixes_def)
  from trim assms(1) show "riverIDFromScoped (provider @ '':'' @ remote) = ''''"
    by (auto simp: riverIDFromScoped_def)
qed

lemma scoped_extra:
  assumes "provider \<in> {ProviderMessages, ProviderWhatsApp, ProviderSignal}" and "trimSpace remote = remote"
    and "remote \<noteq> ''''" and "extraRiver riverID"
  shows "unscopeID (provider @ ''/'' @ riverID @ ''/'' @ remote) = remote"
    "riverIDFromScoped (provider @ ''/'' @ riverID @ ''/'' @ remote) = riverID"
proof -
  have trim: "trimSpace (provider @ ''/'' @ riverID @ ''/'' @ remote) = provider @ ''/'' @ riverID @ ''/'' @ remote"
    using assms trimSpace_prefixed [of "hd provider" "CHR ''/''" remote "tl provider @ ''/'' @ riverID"]
    by (auto simp: plainChar_def)
  have parts: "afterSlash (riverID @ CHR ''/'' # remote) = Some remote"
    "takeWhile (\<lambda>c. c \<noteq> CHR ''/'') (riverID @ CHR ''/'' # remote) = riverID" "riverID \<noteq> ''''"
    using assms(4) by (auto simp: extraRiver_def afterSlash_append takeWhile_slash)
  with trim assms(1) show "unscopeID (provider @ ''/'' @ riverID @ ''/'' @ remote) = remote"
    by (auto simp: unscopeID_def scopePrefixes_def)
  from parts trim assms(1) show "riverIDFromScoped (provider @ ''/'' @ riverID @ ''/'' @ remote) = riverID"
    by (auto simp: riverIDFromScoped_def Let_def)
qed

definition knownRiver :: "string \<Rightarrow> bool" where
  "knownRiver riverID \<longleftrightarrow> extraRiver riverID \<or> isDefaultRiverID riverID \<or> blank riverID"

lemma normalizeProvider_known:
  "provider \<in> {ProviderMessages, ProviderWhatsApp, ProviderSignal} \<Longrightarrow> normalizeProvider ul provider = provider"
proof -
  have "trimSpace p = p \<and> asciiText p \<and> map asciiLower p = p"
    if "p \<in> set [ProviderMessages, ProviderWhatsApp, ProviderSignal]" for p
  proof -
    have "list_all (\<lambda>p. trimSpace p = p \<and> asciiText p \<and> map asciiLower p = p)
      [ProviderMessages, ProviderWhatsApp, ProviderSignal]" by code_simp
    then show ?thesis using that unfolding list_all_iff by blast
  qed
  then show "provider \<in> {ProviderMessages, ProviderWhatsApp, ProviderSignal} \<Longrightarrow> ?thesis"
    by (auto simp: normalizeProvider_def toLower_def)
qed

lemma extraRiver_not: "extraRiver r \<Longrightarrow> \<not> isDefaultRiverID r \<and> \<not> blank r"
  by (auto simp: extraRiver_def)

lemma scopedID_back:
  assumes "provider \<in> {ProviderMessages, ProviderWhatsApp, ProviderSignal}" and "trimSpace remote = remote"
    and "remote \<noteq> ''''" and "knownRiver riverID"
  shows "unscopeID (scopedID ul provider riverID remote) = remote \<and>
    riverIDFromScoped (scopedID ul provider riverID remote) = (if extraRiver riverID then riverID else '''')"
proof (cases "extraRiver riverID")
  case True
  then have "scopedID ul provider riverID remote = provider @ ''/'' @ riverID @ ''/'' @ remote"
    using assms normalizeProvider_known [OF assms(1)] extraRiver_not [OF True]
    by (auto simp: scopedID_def extraRiver_def)
  with scoped_extra [OF assms(1-3) True] True show ?thesis by simp
next
  case False
  then have "scopedID ul provider riverID remote = provider @ '':'' @ remote"
    using assms normalizeProvider_known [OF assms(1)] by (auto simp: scopedID_def knownRiver_def)
  with scoped_default [OF assms(1-3)] False show ?thesis by simp
qed

lemma scopedGroupID_back:
  assumes "trimSpace g = g" and "g \<noteq> ''''" and "knownRiver riverID"
  shows "unscopeID (scopedGroupID riverID g) = g"
proof (cases "extraRiver riverID")
  case True
  then have "scopedGroupID riverID g = ''signal-group/'' @ riverID @ ''/'' @ g"
    using assms extraRiver_not [OF True] by (auto simp: scopedGroupID_def extraRiver_def)
  moreover have "trimSpace (''signal-group/'' @ riverID @ ''/'' @ g) = ''signal-group/'' @ riverID @ ''/'' @ g"
    using assms trimSpace_prefixed [of "CHR ''s''" "CHR ''/''" g "''ignal-group/'' @ riverID"]
    by (simp add: plainChar_def)
  moreover have "afterSlash (riverID @ CHR ''/'' # g) = Some g"
    using True by (simp add: extraRiver_def afterSlash_append)
  ultimately show ?thesis by (simp add: unscopeID_def scopePrefixes_def)
next
  case False
  then have "scopedGroupID riverID g = ''signal-group:'' @ g"
    using assms by (auto simp: scopedGroupID_def knownRiver_def)
  moreover have "trimSpace (''signal-group:'' @ g) = ''signal-group:'' @ g"
    using assms trimSpace_prefixed [of "CHR ''s''" "CHR '':''" g "''ignal-group''"]
    by (simp add: plainChar_def)
  ultimately show ?thesis by (simp add: unscopeID_def scopePrefixes_def)
qed

text \<open>
  C31: a scoped ID gives back what it was made of. For the address of a Signal, WhatsApp or Messages
  thread under the first or a further account, and for a Signal group, \<open>UnscopeID\<close> gives the remote
  ID and \<open>RiverIDFromScoped\<close> the account; so the threads of two accounts with the same peer never
  share an ID.
\<close>

theorem scoped_ids_roundtrip:
  assumes "provider \<in> {ProviderMessages, ProviderWhatsApp, ProviderSignal}" and "trimSpace remote = remote"
    and "remote \<noteq> ''''" and "knownRiver riverID"
  shows "unscopeID (scopedID ul provider riverID remote) = remote \<and>
    riverIDFromScoped (scopedID ul provider riverID remote) = (if extraRiver riverID then riverID else '''') \<and>
    unscopeID (scopedGroupID riverID remote) = remote \<and>
    (\<forall>riverID' remote'. knownRiver riverID' \<and> trimSpace remote' = remote' \<and> remote' \<noteq> '''' \<and>
       scopedID ul provider riverID' remote' = scopedID ul provider riverID remote \<longrightarrow>
       remote' = remote \<and> (extraRiver riverID \<or> extraRiver riverID' \<longrightarrow> riverID' = riverID))"
proof (intro conjI allI impI)
  show "unscopeID (scopedID ul provider riverID remote) = remote"
    and "riverIDFromScoped (scopedID ul provider riverID remote) = (if extraRiver riverID then riverID else '''')"
    using scopedID_back [OF assms, of ul] by blast+
  show "unscopeID (scopedGroupID riverID remote) = remote" by (rule scopedGroupID_back [OF assms(2-4)])
next
  fix r' m'
  assume h: "knownRiver r' \<and> trimSpace m' = m' \<and> m' \<noteq> '''' \<and> scopedID ul provider r' m' = scopedID ul provider riverID remote"
  then have "unscopeID (scopedID ul provider riverID remote) = m' \<and>
      riverIDFromScoped (scopedID ul provider riverID remote) = (if extraRiver r' then r' else '''')"
    using scopedID_back [of provider m' r' ul] assms(1) by simp
  then have eq: "m' = remote" "(if extraRiver r' then r' else '''') = (if extraRiver riverID then riverID else '''')"
    using scopedID_back [OF assms, of ul] by auto
  then show "m' = remote" by simp
  have "r \<noteq> ''''" if "extraRiver r" for r using that by (simp add: extraRiver_def)
  then show "r' = riverID" if "extraRiver riverID \<or> extraRiver r'"
    using eq(2) that by (auto split: if_splits)
qed

lemma scoped_ids_roundtrip_witness:
  "unscopeID (scopedID id ProviderWhatsApp ''whatsapp-2'' ''15551234@s.whatsapp.net'') = ''15551234@s.whatsapp.net'' \<and>
   scopedID id ProviderWhatsApp ''whatsapp-2'' ''15551234@s.whatsapp.net''
     \<noteq> scopedID id ProviderWhatsApp ''whatsapp-3'' ''15551234@s.whatsapp.net''"
proof -
  have "trimSpace ''whatsapp-2'' = ''whatsapp-2''" "trimSpace ''whatsapp-3'' = ''whatsapp-3''"
    by (rule trimSpace_plain; simp add: plainChar_def)+
  then have "extraRiver ''whatsapp-2''" "extraRiver ''whatsapp-3''"
    by (simp_all add: extraRiver_def isDefaultRiverID_def)
  then have river: "extraRiver ''whatsapp-2''" "knownRiver ''whatsapp-2''" "knownRiver ''whatsapp-3''"
    by (simp_all add: knownRiver_def)
  have jid: "trimSpace ''15551234@s.whatsapp.net'' = ''15551234@s.whatsapp.net''"
    by (rule trimSpace_plain) (simp add: plainChar_def)
  have wa: "ProviderWhatsApp \<in> {ProviderMessages, ProviderWhatsApp, ProviderSignal}" by simp
  have ne: "''15551234@s.whatsapp.net'' \<noteq> ''''" by simp
  note all = scoped_ids_roundtrip [where ul = id, OF wa jid ne river(2)]
  have "scopedID id ProviderWhatsApp ''whatsapp-3'' ''15551234@s.whatsapp.net''
      = scopedID id ProviderWhatsApp ''whatsapp-2'' ''15551234@s.whatsapp.net'' \<Longrightarrow> ''whatsapp-3'' = ''whatsapp-2''"
    using all river jid ne by blast
  moreover have "''whatsapp-3'' \<noteq> ''whatsapp-2''" by simp
  ultimately show ?thesis using all by metis
qed

end
