(* ===== verification/Decode_Base.thy ===== *)
theory Decode_Base
  imports Ingest River
begin

text \<open>
  What the decoders of \<open>internal/ingest\<close> share: events before the worker adds account and frame, JSON
  texts, and the functions of the standard library they are handed as \<open>codec_env\<close>.
\<close>

text \<open>
  \<open>xcString\<close> is \<open>json.Marshal\<close> of a string, \<open>xcValid\<close> is \<open>json.Valid\<close>, the digests are in hexadecimal;
  \<open>xcLower\<close> and \<open>xcFold\<close> are \<open>strings.ToLower\<close> and \<open>strings.EqualFold\<close> outside ASCII.
\<close>

record codec_env =
  xcString :: "string \<Rightarrow> string"
  xcValid :: "string \<Rightarrow> bool"
  xcSHA1 :: "string \<Rightarrow> string"
  xcSHA256 :: "string \<Rightarrow> string"
  xcLower :: "string \<Rightarrow> string"
  xcFold :: "string \<Rightarrow> string \<Rightarrow> bool"

fun joinWith :: "string \<Rightarrow> string list \<Rightarrow> string" where
  "joinWith d [] = ''''"
| "joinWith d [x] = x"
| "joinWith d (x # y # ys) = x @ d @ joinWith d (y # ys)"

text \<open>\<open>json.Marshal\<close> of a struct: its fields in their order.\<close>

definition jsonObject :: "codec_env \<Rightarrow> (string \<times> string) list \<Rightarrow> string" where
  "jsonObject x kvs =
     ''{'' @ joinWith '','' (map (\<lambda>(k, v). xcString x k @ '':'' @ v) kvs) @ ''}''"

definition equalFold :: "codec_env \<Rightarrow> string \<Rightarrow> string \<Rightarrow> bool" where
  "equalFold x a b =
     (if asciiText a \<and> asciiText b then map asciiLower a = map asciiLower b else xcFold x a b)"

definition firstNonEmpty :: "string list \<Rightarrow> string" where
  "firstNonEmpty vs = (case filter (\<lambda>v. v \<noteq> []) (map trimSpace vs) of [] \<Rightarrow> [] | v # _ \<Rightarrow> v)"

section \<open>Events\<close>

text \<open>An event before the worker adds the account and the frame.\<close>

definition bareEvent :: "string \<Rightarrow> event" where
  "bareEvent kind = \<lparr>evAccountID = '''', evSourceInboxID = '''', evKind = kind, evConversation = None,
     evMessage = None, evMessageMutation = None, evReaction = None, evReceipt = None\<rparr>"

definition conversationEventOf :: "conversation_event \<Rightarrow> event" where
  "conversationEventOf v = (bareEvent ''conversation'')\<lparr>evConversation := Some v\<rparr>"
definition messageOf :: "message_event \<Rightarrow> event" where
  "messageOf v = (bareEvent ''message'')\<lparr>evMessage := Some v\<rparr>"
definition mutationOf :: "mutation_event \<Rightarrow> event" where
  "mutationOf v = (bareEvent ''message_mutation'')\<lparr>evMessageMutation := Some v\<rparr>"
definition reactionOf :: "reaction_event \<Rightarrow> event" where
  "reactionOf v = (bareEvent ''reaction'')\<lparr>evReaction := Some v\<rparr>"
definition receiptOf :: "receipt_event \<Rightarrow> event" where
  "receiptOf v = (bareEvent ''receipt'')\<lparr>evReceipt := Some v\<rparr>"

lemma bareEvent_simps [simp]:
  "evKind (bareEvent k) = k" "evConversation (bareEvent k) = None" "evMessage (bareEvent k) = None"
  "evMessageMutation (bareEvent k) = None" "evReaction (bareEvent k) = None" "evReceipt (bareEvent k) = None"
  by (simp_all add: bareEvent_def)

lemma valid_events [simp]:
  "validateDecodedEvent (conversationEventOf c)" "validateDecodedEvent (messageOf m)"
  "validateDecodedEvent (mutationOf u)" "validateDecodedEvent (reactionOf r)"
  "validateDecodedEvent (receiptOf t)"
  by (simp_all add: validateDecodedEvent_def conversationEventOf_def messageOf_def mutationOf_def
      reactionOf_def receiptOf_def)

end
