(* ===== verification/Decode_Slack.thy ===== *)
theory Decode_Slack
  imports Decode_Base "HOL-Library.List_Lexorder" "HOL-Library.Char_ord"
begin

text \<open>
  The Slack decoder, \<open>internal/ingest/slackdecoder.go\<close>, with what it uses of \<open>internal/slacklive\<close>.

  \<^item> \<open>unmarshal\<close> and \<open>marshal\<close> are \<open>encoding/json\<close> on a frame.
  \<^item> The payload of the download reference is written out as \<open>json.Marshal\<close> orders its fields.
\<close>

section \<open>Frames\<close>

record slack_reaction =
  srName :: string
  srUserID :: string
  srUserName :: string
  srIsSelf :: bool

record slack_file =
  sfID :: string
  sfName :: string
  sfMIME :: string
  sfSize :: int

record slack_frame =
  skKind :: string
  skChannelID :: string
  skChannelName :: string
  skChannelKind :: string
  skTS :: string
  skThreadTS :: string
  skUserID :: string
  skUserName :: string
  skBody :: string
  skIsFromMe :: bool
  skTimestampMS :: int
  skReactions :: "slack_reaction list"
  skFiles :: "slack_file list"
  skBlocksJSON :: string

abbreviation SlackCodec :: string where "SlackCodec \<equiv> ''slack.event''"

definition slackCodecVersion :: nat where
  "slackCodecVersion = 1"

section \<open>Building ingress\<close>

definition slackReactionDedupe :: "slack_reaction list \<Rightarrow> string" where
  "slackReactionDedupe rs =
     joinWith '';'' (sort (map (\<lambda>r. trimSpace (srName r) @ ''='' @ trimSpace (srUserID r))
       (filter (\<lambda>r. \<not> blank (srName r) \<and> \<not> blank (srUserID r)) rs)))"

definition slackFileDedupe :: "slack_file list \<Rightarrow> string" where
  "slackFileDedupe fs =
     (let parts = filter (\<lambda>i. i \<noteq> '''') (map (\<lambda>f. trimSpace (sfID f)) fs)
      in if parts = [] then '''' else ''files='' @ joinWith '','' (sort parts))"

definition slackIngressDedupeKey :: "slack_frame \<Rightarrow> string" where
  "slackIngressDedupeKey f =
     (let key = skChannelID f @ '':'' @ skTS f;
          extra = filter (\<lambda>d. d \<noteq> '''') [slackReactionDedupe (skReactions f), slackFileDedupe (skFiles f)]
      in if extra = [] then key else key @ '':'' @ joinWith '':'' extra)"

text \<open>\<open>now\<close> is the clock, read when no time of receipt is given.\<close>

definition buildSlackIngress ::
  "(slack_frame \<Rightarrow> string) \<Rightarrow> gotime \<Rightarrow> string \<Rightarrow> nat \<Rightarrow> slack_frame \<Rightarrow> gotime \<Rightarrow> raw_ingress option" where
  "buildSlackIngress marshal now accountID generation f0 receivedAt =
     (let f = f0\<lparr>skKind := (if blank (skKind f0) then ''message'' else trimSpace (skKind f0)),
                 skChannelID := trimSpace (skChannelID f0), skTS := trimSpace (skTS f0)\<rparr>
      in if skChannelID f = '''' \<or> skTS f = '''' then None
         else Some \<lparr>riAccountID = accountID, riGeneration = generation,
                riDedupeKey = slackIngressDedupeKey f, riCodec = SlackCodec,
                riCodecVersion = slackCodecVersion,
                riReceivedAt = (if isZero receivedAt then now else receivedAt),
                riPayload = marshal f\<rparr>)"

section \<open>Decoding\<close>

definition slackNameToUnicode :: "(string \<times> string) list" where
  "slackNameToUnicode = [
     (''+1'', map byte [240, 159, 145, 141]), (''thumbsup'', map byte [240, 159, 145, 141]),
     (''-1'', map byte [240, 159, 145, 142]), (''thumbsdown'', map byte [240, 159, 145, 142]),
     (''heart'', map byte [226, 157, 164, 239, 184, 143]), (''joy'', map byte [240, 159, 152, 130]),
     (''open_mouth'', map byte [240, 159, 152, 174]),
     (''disappointed_relieved'', map byte [240, 159, 152, 165]),
     (''angry'', map byte [240, 159, 152, 160]), (''thinking_face'', map byte [240, 159, 164, 148]),
     (''cry'', map byte [240, 159, 152, 162])]"

definition reactionEmoji :: "string \<Rightarrow> string" where
  "reactionEmoji name0 =
     (let colons = dropWhile (\<lambda>c. c = CHR '':'');
          name = rev (colons (rev (colons (trimSpace name0))))
      in if name = '''' then ''''
         else case map_of slackNameToUnicode name of
           Some glyph \<Rightarrow> glyph
         | None \<Rightarrow> '':'' @ name @ '':'')"

definition slackChannelKind :: "string \<Rightarrow> string" where
  "slackChannelKind channelID = (if hasPrefix channelID ''D'' then ''direct'' else ''group'')"

definition slackIdentity :: "string \<Rightarrow> string \<Rightarrow> bool \<Rightarrow> identity_ref" where
  "slackIdentity userID name self = \<lparr>irKind = '''', irCanonical = '''', irRaw = trimSpace userID,
     irName = trimSpace name, irIsSelf = self\<rparr>"

definition marshalDownloadOpaque :: "codec_env \<Rightarrow> string \<Rightarrow> string" where
  "marshalDownloadOpaque x fileID =
     jsonObject x [(''v'', ''1''), (''file_id'', xcString x (trimSpace fileID))]"

definition slackAttachments :: "codec_env \<Rightarrow> slack_file list \<Rightarrow> event_attachment list" where
  "slackAttachments x fs =
     map (\<lambda>f. let i = trimSpace (sfID f) in
          \<lparr>eaRemoteID = i, eaRemoteRef = marshalDownloadOpaque x i,
           eaFilename = trimSpace (sfName f), eaMIME = trimSpace (sfMIME f), eaSize = sfSize f\<rparr>)
       (filter (\<lambda>f. \<not> blank (sfID f)) fs)"

definition slackConversation :: "slack_frame \<Rightarrow> string \<Rightarrow> conversation_event" where
  "slackConversation f channelID = \<lparr>ceRemoteConversationID = channelID,
     ceKind = (if blank (skChannelKind f) then slackChannelKind channelID else trimSpace (skChannelKind f)),
     ceTitle = trimSpace (skChannelName f),
     ceParticipants = [\<lparr>epIdentity = slackIdentity (skUserID f) (skUserName f) (skIsFromMe f),
                        epRole = ''member'', epActive = True\<rparr>],
     ceRemoteRevision = ''''\<rparr>"

definition slackMessage ::
  "codec_env \<Rightarrow> slack_frame \<Rightarrow> string \<Rightarrow> string \<Rightarrow> gotime \<Rightarrow> message_event" where
  "slackMessage x f channelID ts occurredAt = \<lparr>meRemoteConversationID = channelID,
     meRemoteMessageID = ts, meClientRequestID = '''',
     meSender = slackIdentity (skUserID f) (skUserName f) (skIsFromMe f),
     meDirection = (if skIsFromMe f then ''outgoing'' else ''incoming''), meBody = skBody f,
     meAttachments = slackAttachments x (skFiles f),
     meReplyToRemoteID = (let thread = trimSpace (skThreadTS f) in
        if thread \<noteq> '''' \<and> thread \<noteq> ts then thread else ''''),
     meOccurredAt = occurredAt, meLayoutJSON = skBlocksJSON f\<rparr>"

definition slackReactions :: "string \<Rightarrow> string \<Rightarrow> gotime \<Rightarrow> slack_reaction list \<Rightarrow> event list" where
  "slackReactions channelID ts occurredAt rs =
     map (\<lambda>r. reactionOf \<lparr>rvRemoteConversationID = channelID, rvTargetRemoteMessageID = ts,
            rvActor = slackIdentity (trimSpace (srUserID r)) (srUserName r) (srIsSelf r),
            rvEmoji = reactionEmoji (trimSpace (srName r)), rvAction = ''add'', rvOccurredAt = occurredAt\<rparr>)
       (filter (\<lambda>r. \<not> blank (srName r) \<and> \<not> blank (srUserID r)) rs)"

definition decodeSlack ::
  "codec_env \<Rightarrow> (string \<Rightarrow> slack_frame option) \<Rightarrow> raw_ingress \<Rightarrow> decoded" where
  "decodeSlack x unmarshal r =
     (if riCodec r \<noteq> SlackCodec \<or> riCodecVersion r \<noteq> slackCodecVersion then DecodeFailed
      else case unmarshal (riPayload r) of
        None \<Rightarrow> DecodeFailed
      | Some f \<Rightarrow>
          let channelID = trimSpace (skChannelID f);
              ts = trimSpace (skTS f);
              occurredAt = (if skTimestampMS f \<le> 0 then riReceivedAt r
                            else timeOfUnixMilli (skTimestampMS f))
          in if trimSpace (skKind f) \<noteq> ''message'' \<or> channelID = '''' \<or> ts = '''' then DecodeFailed
             else if blank (skUserID f) then Decoded []
             else if blank (skBody f) \<and> skReactions f = [] \<and> skFiles f = [] \<and> skBlocksJSON f = ''''
             then Decoded []
             else Decoded ([conversationEventOf (slackConversation f channelID),
                            messageOf (slackMessage x f channelID ts occurredAt)] @
                           slackReactions channelID ts occurredAt (skReactions f)))"

end
