(* ===== verification/Decode_Signal.thy ===== *)
theory Decode_Signal
  imports Decode_Base
begin

text \<open>
  The Signal decoder, \<open>internal/ingest/signaldecoder.go\<close>, with the pure functions it uses of
  \<open>internal/signallive/client.go\<close>.

  \<^item> The records hold the fields of the JSON payloads that the decoder reads; an absent object is
    \<open>None\<close>, raw JSON is its text. \<open>signalDataMessage\<close> and \<open>signalSentMessage\<close> share the fields of
    \<open>signal_content\<close>.
  \<^item> Parsing the JSON of a line, of a stored frame and of the probe for the dedupe key are parameters.
\<close>

section \<open>Payloads\<close>

record signal_group =
  sgGroupID :: string
  sgType :: string

record signal_attachment =
  saContentType :: string
  saID :: string
  saFilename :: string

record signal_target =
  stTimestamp :: int
  stAuthor :: string
  stAuthorNumber :: string
  stAuthorUUID :: string
  stAuthorACI :: string
  stAuthorServiceID :: string

record signal_reaction =
  siEmoji :: string
  siTargetAuthor :: string
  siTargetAuthorNumber :: string
  siTargetAuthorUUID :: string
  siTargetAuthorACI :: string
  siTargetAuthorServiceID :: string
  siTargetSentTimestamp :: int
  siIsRemove :: bool
  siTarget :: signal_target

record signal_content =
  scTimestamp :: int
  scMessage :: string
  scGroupInfo :: "signal_group option"
  scAttachments :: "signal_attachment list"
  scReaction :: "signal_reaction option"
  scIsExpirationUpdate :: bool
  scViewOnce :: bool
  scPayment :: string
  scPreviews :: "string list"
  scSticker :: string
  scRemoteDelete :: string
  scContacts :: "string list"
  scPollCreate :: string
  scPollVote :: string
  scPollTerminate :: string
  scStoryContext :: string
  scPinMessage :: string
  scUnpinMessage :: string
  scAdminDelete :: string

record signal_edit =
  sdTargetSentTimestamp :: int
  sdDataMessage :: "signal_content option"

record signal_sent = signal_content +
  ssDestination :: string
  ssDestinationNumber :: string
  ssDestinationE164 :: string
  ssDestinationUUID :: string
  ssDestinationServiceID :: string
  ssEditMessage :: "signal_edit option"

record signal_typing =
  syAction :: string
  syGroupInfo :: "signal_group option"

text \<open>\<open>enSync\<close> is the sync message, with its sent message if it has one.\<close>

record signal_envelope =
  enSource :: string
  enSourceName :: string
  enSourceNumber :: string
  enSourceUUID :: string
  enSourceServiceID :: string
  enTimestamp :: int
  enDataMessage :: "signal_content option"
  enEditMessage :: "signal_edit option"
  enSync :: "signal_sent option option"
  enTyping :: "signal_typing option"

record signal_payload =
  spAccount :: string
  spEnvelope :: signal_envelope
  spResult :: "(string \<times> signal_envelope) option"

section \<open>Addresses\<close>

text \<open>The conversation of an address or a group under the first account.\<close>

definition signalConversationID :: "codec_env \<Rightarrow> string \<Rightarrow> string \<Rightarrow> string" where
  "signalConversationID x address groupID =
     (if \<not> blank groupID then scopedGroupID ''signal-default'' (trimSpace groupID)
      else scopedID (xcLower x) ProviderSignal ''signal-default'' (trimSpace address))"

definition addressesMatch :: "codec_env \<Rightarrow> string \<Rightarrow> string \<Rightarrow> bool" where
  "addressesMatch x a b \<longleftrightarrow> \<not> blank a \<and> \<not> blank b \<and> equalFold x (trimSpace a) (trimSpace b)"

definition envelopeSource :: "signal_envelope \<Rightarrow> string" where
  "envelopeSource env = firstNonEmpty [enSourceNumber env, enSourceServiceID env, enSourceUUID env, enSource env]"

definition sentTarget :: "signal_sent option \<Rightarrow> string" where
  "sentTarget s = (case s of None \<Rightarrow> ''''
     | Some m \<Rightarrow> firstNonEmpty [ssDestinationNumber m, ssDestinationE164 m, ssDestinationUUID m,
         ssDestinationServiceID m, ssDestination m])"

definition reactionTargetAuthor :: "signal_reaction \<Rightarrow> string \<Rightarrow> string" where
  "reactionTargetAuthor r account =
     (let t = siTarget r in firstNonEmpty
        [stAuthorNumber t, stAuthorACI t, stAuthorServiceID t, stAuthorUUID t, stAuthor t,
         siTargetAuthorNumber r, siTargetAuthorACI r, siTargetAuthorServiceID r, siTargetAuthorUUID r,
         siTargetAuthor r, account])"

definition reactionTargetTimestamp :: "signal_reaction \<Rightarrow> int" where
  "reactionTargetTimestamp r =
     (if siTargetSentTimestamp r \<noteq> 0 then siTargetSentTimestamp r else stTimestamp (siTarget r))"

text \<open>\<open>ParseReceiveEnvelope\<close>: the account and the envelope, that of the result when the own is empty.\<close>

definition parseReceiveEnvelope ::
  "(string \<Rightarrow> signal_payload option) \<Rightarrow> string \<Rightarrow> string \<Rightarrow> (string \<times> signal_envelope) option" where
  "parseReceiveEnvelope unmarshal fallback line =
     (case unmarshal line of None \<Rightarrow> None
      | Some p \<Rightarrow>
          let own = trimSpace (spAccount p);
              env = spEnvelope p;
              empty = (enTimestamp env = 0 \<and> enSource env = '''' \<and> enSourceNumber env = '''' \<and>
                enSourceUUID env = '''' \<and> enSourceServiceID env = '''' \<and> enDataMessage env = None \<and>
                enEditMessage env = None \<and> enSync env = None \<and> enTyping env = None);
              (account, chosen) = (case spResult p of
                 None \<Rightarrow> (own, env)
               | Some (a, e) \<Rightarrow> (if own = '''' then trimSpace a else own, if empty then e else env))
          in Some (if account = '''' then fallback else account, chosen))"

section \<open>Bodies\<close>

definition rawMessagePresent :: "string \<Rightarrow> bool" where
  "rawMessagePresent raw = (trimSpace raw \<noteq> '''' \<and> trimSpace raw \<noteq> ''null'')"

definition isGroupUpdate :: "codec_env \<Rightarrow> signal_group option \<Rightarrow> bool" where
  "isGroupUpdate x g = (case g of None \<Rightarrow> False | Some i \<Rightarrow> equalFold x (trimSpace (sgType i)) ''UPDATE'')"

definition attachmentPlaceholder :: "codec_env \<Rightarrow> signal_attachment list \<Rightarrow> string" where
  "attachmentPlaceholder x as =
     (case as of [] \<Rightarrow> ''''
      | a # _ \<Rightarrow>
          let mime = toLower (xcLower x) (trimSpace (saContentType a)) in
          if hasPrefix mime ''image/'' then ''[Photo]''
          else if hasPrefix mime ''video/'' then ''[Video]''
          else if hasPrefix mime ''audio/'' then ''[Audio]''
          else ''[Attachment]'')"

definition unsupportedPlaceholder :: "codec_env \<Rightarrow> 'a signal_content_scheme \<Rightarrow> string" where
  "unsupportedPlaceholder x m =
     (if attachmentPlaceholder x (scAttachments m) \<noteq> '''' then attachmentPlaceholder x (scAttachments m)
      else if rawMessagePresent (scSticker m) then ''[Sticker]''
      else if scContacts m \<noteq> [] then ''[Contact]''
      else if rawMessagePresent (scPayment m) then ''[Payment]''
      else if rawMessagePresent (scPollCreate m) then ''[Poll]''
      else if rawMessagePresent (scPollVote m) then ''[Poll vote]''
      else if rawMessagePresent (scPollTerminate m) then ''[Poll closed]''
      else if rawMessagePresent (scRemoteDelete m) then ''[Deleted message]''
      else if rawMessagePresent (scPinMessage m) then ''[Pinned message]''
      else if rawMessagePresent (scUnpinMessage m) then ''[Unpinned message]''
      else if rawMessagePresent (scAdminDelete m) then ''[Deleted by admin]''
      else if isGroupUpdate x (scGroupInfo m) then ''[Group updated]''
      else if rawMessagePresent (scStoryContext m) then ''[Story reply]''
      else if scIsExpirationUpdate m then ''[Disappearing messages updated]''
      else if scViewOnce m then ''[View-once message]''
      else if scPreviews m \<noteq> [] then ''[Link preview]''
      else ''[Unsupported Signal message]'')"

definition displayBody :: "codec_env \<Rightarrow> 'a signal_content_scheme \<Rightarrow> string" where
  "displayBody x m =
     (if \<not> blank (scMessage m) then trimSpace (scMessage m) else unsupportedPlaceholder x m)"

definition signalAttachments :: "codec_env \<Rightarrow> string \<Rightarrow> signal_attachment list \<Rightarrow> event_attachment list" where
  "signalAttachments x conversationID as =
     map (\<lambda>a. let i = trimSpace (saID a) in
          \<lparr>eaRemoteID = i,
           eaRemoteRef = jsonObject x [(''v'', ''1''), (''kind'', xcString x ''remote''),
             (''att_id'', xcString x i), (''conversation_id'', xcString x conversationID)],
           eaFilename = trimSpace (saFilename a), eaMIME = trimSpace (saContentType a), eaSize = 0\<rparr>)
       (filter (\<lambda>a. \<not> blank (saID a)) as)"

section \<open>Events\<close>

definition groupOf :: "'a signal_content_scheme \<Rightarrow> string" where
  "groupOf m = (case scGroupInfo m of None \<Rightarrow> '''' | Some g \<Rightarrow> trimSpace (sgGroupID g))"

definition decodeSignalReaction ::
  "codec_env \<Rightarrow> string \<Rightarrow> string \<Rightarrow> string \<Rightarrow> string \<Rightarrow> signal_reaction \<Rightarrow> int \<Rightarrow> bool \<Rightarrow> event option" where
  "decodeSignalReaction x account conversationID actor actorName r timestamp self =
     (let targetTimestamp = reactionTargetTimestamp r;
          author = trimSpace (reactionTargetAuthor r account);
          target = (if addressesMatch x author account then formatInt targetTimestamp
                    else signalIncomingSourceID (xcSHA1 x) conversationID author targetTimestamp);
          emoji = trimSpace (siEmoji r)
      in if targetTimestamp \<le> 0 then None
         else if \<not> siIsRemove r \<and> emoji = '''' then None
         else Some (reactionOf \<lparr>rvRemoteConversationID = conversationID, rvTargetRemoteMessageID = target,
           rvActor = \<lparr>irKind = '''', irCanonical = '''', irRaw = trimSpace actor, irName = trimSpace actorName,
             irIsSelf = self\<rparr>,
           rvEmoji = emoji, rvAction = (if siIsRemove r then ''remove'' else ''add''),
           rvOccurredAt = timeOfUnixMilli timestamp\<rparr>))"

text \<open>\<open>Inl\<close> is a failure of the decoder, \<open>Inr None\<close> no event.\<close>

definition decodeSignalData ::
  "codec_env \<Rightarrow> string \<Rightarrow> signal_envelope \<Rightarrow> signal_content \<Rightarrow> string \<Rightarrow> string + event option" where
  "decodeSignalData x account env m source0 =
     (let source = trimSpace source0;
          conversationID = signalConversationID x source (groupOf m);
          timestamp = (if scTimestamp m = 0 then enTimestamp env else scTimestamp m)
      in if source = '''' then Inr None
         else case scReaction m of
           Some r \<Rightarrow> Inr (decodeSignalReaction x account conversationID source (trimSpace (enSourceName env)) r
             (if enTimestamp env = 0 then scTimestamp m else enTimestamp env) False)
         | None \<Rightarrow>
             if addressesMatch x source account then Inr None
             else if timestamp \<le> 0 then Inl ''timestamp is not positive''
             else Inr (Some (messageOf \<lparr>meRemoteConversationID = conversationID,
               meRemoteMessageID = signalIncomingSourceID (xcSHA1 x) conversationID source timestamp,
               meClientRequestID = '''',
               meSender = \<lparr>irKind = '''', irCanonical = '''', irRaw = source,
                 irName = trimSpace (enSourceName env), irIsSelf = False\<rparr>,
               meDirection = ''incoming'', meBody = displayBody x m,
               meAttachments = signalAttachments x conversationID (scAttachments m),
               meReplyToRemoteID = '''', meOccurredAt = timeOfUnixMilli timestamp, meLayoutJSON = ''''\<rparr>)))"

definition decodeSignalEdit ::
  "codec_env \<Rightarrow> string \<Rightarrow> signal_envelope \<Rightarrow> signal_edit \<Rightarrow> string \<Rightarrow> string + event option" where
  "decodeSignalEdit x account env edit source0 =
     (case sdDataMessage edit of None \<Rightarrow> Inr None
      | Some m \<Rightarrow>
          let source = trimSpace source0;
              conversationID = signalConversationID x source (groupOf m);
              occurredAt = (if scTimestamp m = 0 then enTimestamp env else scTimestamp m)
          in if source = '''' \<or> addressesMatch x source account then Inr None
             else if sdTargetSentTimestamp edit \<le> 0 then Inl ''target timestamp is not positive''
             else Inr (Some (mutationOf \<lparr>muRemoteConversationID = conversationID,
               muRemoteMessageID = signalIncomingSourceID (xcSHA1 x) conversationID source (sdTargetSentTimestamp edit),
               muKind = ''edit'', muBody = displayBody x m, muOccurredAt = timeOfUnixMilli occurredAt\<rparr>)))"

definition decodeSignalSent ::
  "codec_env \<Rightarrow> string \<Rightarrow> signal_envelope \<Rightarrow> signal_sent \<Rightarrow> string \<Rightarrow> string + event option" where
  "decodeSignalSent x account env sent target0 =
     (let groupID = groupOf sent;
          target = trimSpace target0;
          conversationID = signalConversationID x target groupID;
          timestamp = (if scTimestamp sent = 0 then enTimestamp env else scTimestamp sent)
      in if ssEditMessage sent \<noteq> None then Inr None
         else if target = '''' \<and> groupID = '''' then Inr None
         else case scReaction sent of
           Some r \<Rightarrow> Inr (decodeSignalReaction x account conversationID account '''' r
             (if enTimestamp env = 0 then scTimestamp sent else enTimestamp env) True)
         | None \<Rightarrow>
             if timestamp \<le> 0 then Inl ''timestamp is not positive''
             else Inr (Some (messageOf \<lparr>meRemoteConversationID = conversationID,
               meRemoteMessageID = formatInt timestamp, meClientRequestID = '''',
               meSender = \<lparr>irKind = '''', irCanonical = '''', irRaw = account, irName = '''', irIsSelf = True\<rparr>,
               meDirection = ''outgoing'', meBody = displayBody x sent,
               meAttachments = signalAttachments x conversationID (scAttachments sent),
               meReplyToRemoteID = '''', meOccurredAt = timeOfUnixMilli timestamp, meLayoutJSON = ''''\<rparr>)))"

section \<open>Frames\<close>

abbreviation SignalCodec :: string where "SignalCodec \<equiv> ''signal.jsonrpc''"

definition signalCodecVersion :: nat where
  "signalCodecVersion = 1"

record signal_frame =
  fmAccount :: string
  fmLine :: string
  fmResolvedSource :: string
  fmResolvedDestination :: string

definition resolvedSignalAddress :: "string \<Rightarrow> string \<Rightarrow> string" where
  "resolvedSignalAddress resolved raw = (if blank resolved then trimSpace raw else trimSpace resolved)"

text \<open>The events of the parts of an envelope, or the first failure.\<close>

fun decodeParts :: "(string + event option) list \<Rightarrow> decoded" where
  "decodeParts [] = Decoded []"
| "decodeParts (p # ps) =
     (case p of Inl e \<Rightarrow> DecodeFailed
      | Inr v \<Rightarrow> (case decodeParts ps of
                   Decoded es \<Rightarrow> Decoded ((case v of None \<Rightarrow> [] | Some e \<Rightarrow> [e]) @ es)
                 | failed \<Rightarrow> failed))"

definition decodeSignal ::
  "codec_env \<Rightarrow> (string \<Rightarrow> signal_frame option) \<Rightarrow> (string \<Rightarrow> signal_payload option) \<Rightarrow> raw_ingress \<Rightarrow> decoded" where
  "decodeSignal x unmarshal parse r =
     (if riCodec r \<noteq> SignalCodec \<or> riCodecVersion r \<noteq> signalCodecVersion then DecodeFailed
      else case unmarshal (riPayload r) of
        None \<Rightarrow> DecodeFailed
      | Some f \<Rightarrow>
          let own = trimSpace (fmAccount f) in
          if own = '''' \<or> fmLine f = '''' then DecodeFailed
          else case parseReceiveEnvelope parse own (fmLine f) of
            None \<Rightarrow> DecodeFailed
          | Some (account0, env) \<Rightarrow>
              let account = (if blank account0 then own else trimSpace account0);
                  source = resolvedSignalAddress (fmResolvedSource f) (envelopeSource env);
                  destination = (case enSync env of None \<Rightarrow> ''''
                    | Some sent \<Rightarrow> resolvedSignalAddress (fmResolvedDestination f) (sentTarget sent))
              in decodeParts
                   [(case enEditMessage env of None \<Rightarrow> Inr None | Some e \<Rightarrow> decodeSignalEdit x account env e source),
                    (case enDataMessage env of None \<Rightarrow> Inr None | Some m \<Rightarrow> decodeSignalData x account env m source),
                    (case enSync env of Some (Some sent) \<Rightarrow> decodeSignalSent x account env sent destination
                     | _ \<Rightarrow> Inr None)])"

section \<open>Building ingress\<close>

record typing_event =
  tyRemoteConversationID :: string
  tyActor :: identity_ref
  tyTyping :: bool
  tyExpiresAt :: gotime

text \<open>A line becomes a frame of the inbox or, when it only says who is typing, an ephemeral event.\<close>

datatype signal_ingress = DurableFrame raw_ingress | EphemeralTyping typing_event

definition signalTypingOnly :: "signal_envelope \<Rightarrow> bool" where
  "signalTypingOnly env \<longleftrightarrow> enTyping env \<noteq> None \<and> enDataMessage env = None \<and> enEditMessage env = None \<and>
     (case enSync env of None \<Rightarrow> True | Some sent \<Rightarrow> sent = None)"

definition marshalSignalFrame :: "codec_env \<Rightarrow> string \<Rightarrow> string \<Rightarrow> string \<Rightarrow> string \<Rightarrow> string option" where
  "marshalSignalFrame x account line resolvedSource resolvedDestination =
     (let a = xcString x account;
          s = xcString x (trimSpace resolvedSource);
          d = xcString x (trimSpace resolvedDestination)
      in if \<not> xcValid x line then None
         else if 8 * 2 ^ 20 < length a + length line + length s + length d + 64 then None
         else Some ([CHR ''{'', byte 34] @ ''account'' @ [byte 34, CHR '':''] @ a @
           [CHR '','', byte 34] @ ''line'' @ [byte 34, CHR '':''] @ line @
           [CHR '','', byte 34] @ ''resolved_source'' @ [byte 34, CHR '':''] @ s @
           [CHR '','', byte 34] @ ''resolved_destination'' @ [byte 34, CHR '':''] @ d @ ''}''))"

text \<open>\<open>probe\<close> parses the envelope of a line and that of its result.\<close>

definition signalDedupeKey ::
  "codec_env \<Rightarrow> (string \<Rightarrow> (signal_envelope \<times> signal_envelope option) option) \<Rightarrow> string \<Rightarrow> string" where
  "signalDedupeKey x probe line =
     (let byLine = ''line:'' @ take 16 (xcSHA256 x line) in
      case probe line of
        None \<Rightarrow> byLine
      | Some (env0, result) \<Rightarrow>
          let env = (if enTimestamp env0 = 0 \<and> envelopeSource env0 = '''' then
                       (case result of None \<Rightarrow> env0 | Some e \<Rightarrow> e) else env0);
              source = trimSpace (envelopeSource env)
          in if source \<noteq> '''' \<and> enTimestamp env \<noteq> 0
             then ''env:'' @ source @ '':'' @ formatInt (enTimestamp env) else byLine)"

definition buildSignalIngress ::
  "codec_env \<Rightarrow> (string \<Rightarrow> signal_payload option) \<Rightarrow> (string \<Rightarrow> (signal_envelope \<times> signal_envelope option) option)
     \<Rightarrow> string \<Rightarrow> nat \<Rightarrow> string \<Rightarrow> string \<Rightarrow> string \<Rightarrow> string \<Rightarrow> gotime \<Rightarrow> signal_ingress option" where
  "buildSignalIngress x parse probe accountID generation signalAccount line resolvedSource
       resolvedDestination receivedAt =
     (case parseReceiveEnvelope parse signalAccount line of
        None \<Rightarrow> None
      | Some (account, env) \<Rightarrow>
          if blank account then None
          else case (if signalTypingOnly env then enTyping env else None) of
            Some t \<Rightarrow>
              let source = resolvedSignalAddress resolvedSource (envelopeSource env);
                  groupID = (case syGroupInfo t of None \<Rightarrow> '''' | Some g \<Rightarrow> trimSpace (sgGroupID g))
              in Some (EphemeralTyping
                   \<lparr>tyRemoteConversationID = signalConversationID x source groupID,
                    tyActor = \<lparr>irKind = '''', irCanonical = '''', irRaw = source,
                      irName = trimSpace (enSourceName env), irIsSelf = False\<rparr>,
                    tyTyping = equalFold x (trimSpace (syAction t)) ''started'',
                    tyExpiresAt = receivedAt + 10 * 1000000000\<rparr>)
          | None \<Rightarrow>
              map_option (\<lambda>payload. DurableFrame
                  \<lparr>riAccountID = accountID, riGeneration = generation,
                   riDedupeKey = signalDedupeKey x probe line, riCodec = SignalCodec,
                   riCodecVersion = signalCodecVersion, riReceivedAt = receivedAt, riPayload = payload\<rparr>)
                (marshalSignalFrame x (trimSpace account) line resolvedSource resolvedDestination))"

end
