(* ===== verification/Tapback.thy ===== *)
theory Tapback
  imports Ingest_Base
begin

text \<open>
  Tapbacks, \<open>internal/db/tapback.go\<close>: reactions of iPhones that arrive as text, such as
  \<open>Loved "see you then"\<close>, and empty stubs, \<open>internal/db/stub.go\<close>.

  \<^item> The regular expressions are anchored at both ends; since a byte of ASCII is never part of a
    longer rune and a quotation mark starts with a lead byte, matching bytes is matching runes.
  \<^item> The legacy store keeps the reactions of a message as JSON text: reading and writing it are the
    parameters \<open>unjson\<close> and \<open>json\<close>. Its \<open>messages\<close> table is a list of rows; rows of one
    time come in their stored order.
\<close>

section \<open>Texts\<close>

definition emojiHeart :: string where "emojiHeart = map byte [226, 157, 164, 239, 184, 143]"
definition emojiThumbsUp :: string where "emojiThumbsUp = map byte [240, 159, 145, 141]"
definition emojiThumbsDown :: string where "emojiThumbsDown = map byte [240, 159, 145, 142]"
definition emojiJoy :: string where "emojiJoy = map byte [240, 159, 152, 130]"
definition emojiExclaim :: string where "emojiExclaim = map byte [226, 128, 188, 239, 184, 143]"
definition emojiQuestion :: string where "emojiQuestion = map byte [226, 157, 147]"

definition straightQuote :: string where "straightQuote = [byte 34]"
definition curlyOpen :: string where "curlyOpen = map byte [226, 128, 156]"
definition curlyClose :: string where "curlyClose = map byte [226, 128, 157]"
definition ellipsis :: string where "ellipsis = map byte [226, 128, 166]"

definition stripSuffix :: "string \<Rightarrow> string \<Rightarrow> string option" where
  "stripSuffix p s = map_option rev (stripPrefix (rev p) (rev s))"

definition hasSuffix :: "string \<Rightarrow> string \<Rightarrow> bool" where
  "hasSuffix s p = (stripSuffix p s \<noteq> None)"

text \<open>What the group \<open>(.+)\<close> between an opening and a closing quotation mark captures.\<close>

definition firstOf :: "('a \<Rightarrow> 'b option) \<Rightarrow> 'a list \<Rightarrow> 'b option" where
  "firstOf f xs = (case List.map_filter f xs of [] \<Rightarrow> None | y # ys \<Rightarrow> Some y)"

definition quotedText :: "string \<Rightarrow> string option" where
  "quotedText s =
     (case firstOf (\<lambda>p. stripPrefix p s) [straightQuote, curlyOpen] of
        None \<Rightarrow> None
      | Some r \<Rightarrow>
          (case firstOf (\<lambda>p. stripSuffix p r) [straightQuote, curlyClose] of
             None \<Rightarrow> None
           | Some q \<Rightarrow> if q = '''' then None else Some q))"

section \<open>Parsing\<close>

record tapback =
  tbEmoji :: string
  tbQuoted :: string
  tbRemove :: bool
  tbTruncated :: bool

definition tapbackPatterns :: "(string \<times> string \<times> bool) list" where
  "tapbackPatterns = [
     (''Loved'', emojiHeart, False), (''Liked'', emojiThumbsUp, False),
     (''Disliked'', emojiThumbsDown, False), (''Laughed at'', emojiJoy, False),
     (''Emphasized'', emojiExclaim, False), (''Questioned'', emojiQuestion, False),
     (''Removed a heart from'', emojiHeart, True), (''Removed a like from'', emojiThumbsUp, True),
     (''Removed a dislike from'', emojiThumbsDown, True), (''Removed a laugh from'', emojiJoy, True),
     (''Removed an exclamation from'', emojiExclaim, True),
     (''Removed a question mark from'', emojiQuestion, True)]"

definition isTruncatedQuote :: "string \<Rightarrow> bool" where
  "isTruncatedQuote quoted =
     (let q = rev (dropWhile (\<lambda>c. c = CHR '' '') (rev quoted))
      in hasSuffix q ellipsis \<or> hasSuffix q ''...'')"

definition verbTapback :: "string \<Rightarrow> string \<times> string \<times> bool \<Rightarrow> tapback option" where
  "verbTapback body = (\<lambda>(verb, emoji, remove).
     (case stripPrefix (verb @ '' '') body of
        None \<Rightarrow> None
      | Some r \<Rightarrow>
          (case quotedText r of
             None \<Rightarrow> None
           | Some m \<Rightarrow> let q = trimSpace m in
               Some \<lparr>tbEmoji = emoji, tbQuoted = q, tbRemove = remove, tbTruncated = isTruncatedQuote q\<rparr>)))"

text \<open>\<open>(.+?) to\<close> of the pattern for any emoji: the shortest text that is not empty.\<close>

fun reactedSplit :: "string \<Rightarrow> string \<Rightarrow> (string \<times> string) option" where
  "reactedSplit e s =
     (case (if e = '''' then None
            else case stripPrefix '' to '' s of None \<Rightarrow> None | Some r \<Rightarrow> quotedText r) of
        Some q \<Rightarrow> Some (e, q)
      | None \<Rightarrow> (case s of [] \<Rightarrow> None | c # cs \<Rightarrow> reactedSplit (e @ [c]) cs))"

declare reactedSplit.simps [simp del]

definition parseTapback :: "string \<Rightarrow> tapback option" where
  "parseTapback body0 =
     (let body = trimSpace body0 in
      if body = '''' then None
      else case firstOf (verbTapback body) tapbackPatterns of
        Some t \<Rightarrow> Some t
      | None \<Rightarrow>
          (case stripPrefix ''Reacted '' body of
             None \<Rightarrow> None
           | Some r \<Rightarrow>
               (case reactedSplit '''' r of
                  None \<Rightarrow> None
                | Some (e, m) \<Rightarrow> let q = trimSpace m in
                    Some \<lparr>tbEmoji = trimSpace e, tbQuoted = q, tbRemove = False,
                          tbTruncated = isTruncatedQuote q\<rparr>)))"

section \<open>Applying a tapback to the legacy store\<close>

record tapback_reaction =
  trEmoji :: string
  trCount :: int
  trActors :: "string list"

fun addActor :: "string \<Rightarrow> string \<Rightarrow> tapback_reaction list \<Rightarrow> tapback_reaction list \<times> bool" where
  "addActor emoji actor [] = ([\<lparr>trEmoji = emoji, trCount = 1, trActors = [actor]\<rparr>], True)"
| "addActor emoji actor (r # rs) =
     (if trEmoji r = emoji then
        if actor \<in> set (trActors r) then (r # rs, False)
        else (r\<lparr>trActors := trActors r @ [actor], trCount := trCount r + 1\<rparr> # rs, True)
      else let (rs1, changed) = addActor emoji actor rs in (r # rs1, changed))"

definition dropActor :: "string \<Rightarrow> string \<Rightarrow> tapback_reaction \<Rightarrow> tapback_reaction" where
  "dropActor emoji actor r =
     (if trEmoji r = emoji \<and> actor \<in> set (trActors r) then
        r\<lparr>trActors := remove1 actor (trActors r),
          trCount := (if 0 < trCount r then trCount r - 1 else trCount r)\<rparr>
      else r)"

definition mergeReactions :: "string \<Rightarrow> string \<Rightarrow> bool \<Rightarrow> tapback_reaction list \<Rightarrow> tapback_reaction list \<times> bool" where
  "mergeReactions emoji actor remove rs =
     (if remove then
        (map (dropActor emoji actor) rs,
         list_ex (\<lambda>r. trEmoji r = emoji \<and> actor \<in> set (trActors r)) rs)
      else addActor emoji actor rs)"

definition mergeReaction ::
  "(string \<Rightarrow> tapback_reaction list) \<Rightarrow> (tapback_reaction list \<Rightarrow> string) \<Rightarrow> string \<Rightarrow> string \<Rightarrow> string \<Rightarrow> bool
     \<Rightarrow> string \<times> bool" where
  "mergeReaction unjson json existing0 emoji actor remove =
     (let existing = trimSpace existing0;
          (rs, changed) = mergeReactions emoji actor remove
            (if existing \<noteq> '''' \<and> existing \<noteq> ''null'' then unjson existing else []);
          compacted = filter (\<lambda>r. 0 < trCount r \<and> \<not> blank (trEmoji r)) rs
      in if \<not> changed then (existing, False)
         else if compacted = [] then ('''', True) else (json compacted, True))"

record legacy_message =
  lmMessageID :: string
  lmConversationID :: string
  lmSenderName :: string
  lmSenderNumber :: string
  lmBody :: string
  lmTimestampMS :: int
  lmIsFromMe :: bool
  lmReactions :: string
  lmMediaID :: string
  lmStatus :: string

text \<open>\<open>strings.TrimRight(quoted, ". ...")\<close>, where the last character is the ellipsis.\<close>

function trimDots :: "string \<Rightarrow> string" where
  "trimDots s =
     (case firstOf (\<lambda>p. stripSuffix p s) [''.'', '' '', ellipsis] of
        None \<Rightarrow> s
      | Some r \<Rightarrow> if length r < length s then trimDots r else s)"
  by pat_completeness auto

termination by (relation "measure length") auto

definition findTapbackTarget ::
  "string \<Rightarrow> string \<Rightarrow> int \<Rightarrow> bool \<Rightarrow> legacy_message list \<Rightarrow> legacy_message option" where
  "findTapbackTarget conversationID quoted0 beforeTS truncated rows =
     (let quoted1 = trimSpace quoted0;
          quoted = (if truncated then trimDots quoted1 else quoted1)
      in if quoted = '''' then None
         else sqlFind (\<lambda>m. let b = trimSpace (lmBody m) in b = quoted \<or> (truncated \<and> hasPrefix b quoted))
           (sqlTop (\<lambda>m. - lmTimestampMS m) 200
             (filter (\<lambda>m. lmConversationID m = conversationID \<and> lmTimestampMS m \<le> beforeTS \<and>
                sqlTrim (lmBody m) \<noteq> '''') rows)))"

definition applyTapback ::
  "(string \<Rightarrow> tapback_reaction list) \<Rightarrow> (tapback_reaction list \<Rightarrow> string) \<Rightarrow> legacy_message
     \<Rightarrow> legacy_message list \<Rightarrow> bool \<times> legacy_message list" where
  "applyTapback unjson json m rows =
     (case parseTapback (lmBody m) of
        None \<Rightarrow> (False, rows)
      | Some t \<Rightarrow>
          (case findTapbackTarget (lmConversationID m) (tbQuoted t) (lmTimestampMS m) (tbTruncated t) rows of
             None \<Rightarrow> (False, rows)
           | Some target \<Rightarrow>
               let number = trimSpace (lmSenderNumber m);
                   actor = (if lmIsFromMe m then ''me''
                            else if number = '''' then trimSpace (lmSenderName m) else number);
                   (newText, changed) =
                     mergeReaction unjson json (lmReactions target) (tbEmoji t) actor (tbRemove t)
               in (True, if changed then sqlUpdate (\<lambda>r. lmMessageID r = lmMessageID target)
                                           (\<lambda>r. r\<lparr>lmReactions := newText\<rparr>) rows
                         else rows)))"

section \<open>Empty stubs\<close>

definition pendingStatusMarkers :: "string list" where
  "pendingStatusMarkers = [''DOWNLOADING'', ''UPLOADING'', ''SENDING'', ''YET_TO_SEND'',
     ''PROCESSING'', ''VALIDATING'', ''RESENDING'', ''QUEUED'']"

definition asciiUpper :: "char \<Rightarrow> char" where
  "asciiUpper c = (let n = (of_char c :: nat) in if 97 \<le> n \<and> n \<le> 122 then char_of (n - 32) else c)"

text \<open>The status is the name of an enum value, hence ASCII.\<close>

definition isEmptyStubMessage :: "legacy_message \<Rightarrow> bool" where
  "isEmptyStubMessage m =
     (if \<not> blank (lmBody m) \<or> \<not> blank (lmMediaID m) \<or> \<not> blank (lmReactions m) then False
      else
        let status = map asciiUpper (trimSpace (lmStatus m)) in
        if status = '''' \<or> hasPrefix status ''TOMBSTONE'' then False
        else \<not> list_ex (contains status) pendingStatusMarkers)"

section \<open>Round trip\<close>

lemma stripPrefix_self [simp]: "stripPrefix p (p @ s) = Some s"
  by (simp add: stripPrefix_Some)

lemma stripSuffix_self [simp]: "stripSuffix p (s @ p) = Some s"
  by (simp add: stripSuffix_def stripPrefix_Some)

lemma firstOf_simps [simp]:
  "firstOf f [] = None" "firstOf f (x # xs) = (case f x of None \<Rightarrow> firstOf f xs | Some y \<Rightarrow> Some y)"
  by (simp_all add: firstOf_def List.map_filter_def split: option.split)

lemma byte_eq: "a < 256 \<Longrightarrow> b < 256 \<Longrightarrow> byte a = byte b \<longleftrightarrow> a = b"
  unfolding byte_def by (metis of_char_of mod_less)

definition quotePairs :: "(string \<times> string) list" where
  "quotePairs = [(straightQuote, straightQuote), (curlyOpen, curlyClose)]"

lemma quotedText_quoted:
  assumes "(opening, closing) \<in> set quotePairs" and "q \<noteq> ''''"
  shows "quotedText (opening @ q @ closing) = Some q"
proof -
  have plain: "stripPrefix straightQuote (curlyOpen @ s) = None" "stripSuffix straightQuote (s @ curlyClose) = None" for s
    by (simp_all add: straightQuote_def curlyOpen_def curlyClose_def stripSuffix_def byte_eq)
  have "opening = straightQuote \<and> closing = straightQuote \<or> opening = curlyOpen \<and> closing = curlyClose"
    using assms(1) by (auto simp: quotePairs_def)
  then show ?thesis
    using assms(2) by (auto simp: quotedText_def plain)
qed

lemma trimSpace_tapback:
  assumes "plainChar c" and "(opening, closing) \<in> set quotePairs"
  shows "trimSpace (c # s @ closing) = c # s @ closing"
proof (rule trimSpace_done)
  have space: "\<not> asciiBlank c" using assms(1) by (auto simp: plainChar_def asciiBlank_def Let_def)
  show "stripBlank wideBlanks (c # s @ closing) = None"
    using space stripFirst_plain [OF wideBlanks_high assms(1)] by (simp add: stripBlank_def)
  have "closing = straightQuote \<or> closing = curlyClose" using assms(2) by (auto simp: quotePairs_def)
  moreover have "stripBlank (map rev wideBlanks) (rev straightQuote @ t) = None" for t
    by (simp add: stripBlank_def straightQuote_def asciiBlank_def wideBlanks_def byte_eq byte_def upt_rec)
  moreover have "stripBlank (map rev wideBlanks) (rev curlyClose @ t) = None" for t
    by (simp add: stripBlank_def curlyClose_def asciiBlank_def wideBlanks_def byte_eq byte_def upt_rec)
  ultimately show "stripBlank (map rev wideBlanks) (rev (c # s @ closing)) = None" by fastforce
qed

lemma reactedSplit_found:
  assumes "CHR '' '' \<notin> set e" and "acc @ e \<noteq> ''''" and "quotedText r = Some q"
  shows "reactedSplit acc (e @ '' to '' @ r) = Some (acc @ e, q)"
  using assms(1,2)
proof (induction e arbitrary: acc)
  case Nil
  with assms(3) show ?case by (subst reactedSplit.simps) simp
next
  case (Cons c e)
  then have "stripPrefix '' to '' ((c # e) @ '' to '' @ r) = None" by auto
  with Cons show ?case by (subst reactedSplit.simps) (auto simp del: append.simps(1))
qed

lemma verbTapback_verb:
  assumes "(opening, closing) \<in> set quotePairs" and "q \<noteq> ''''" and "trimSpace q = q"
  shows "verbTapback (verb @ '' '' @ opening @ q @ closing) (verb, emoji, remove)
    = Some \<lparr>tbEmoji = emoji, tbQuoted = q, tbRemove = remove, tbTruncated = isTruncatedQuote q\<rparr>"
  using assms quotedText_quoted [OF assms(1,2)] stripPrefix_self [of "verb @ '' ''" "opening @ q @ closing"]
  by (simp add: verbTapback_def)

lemma verbTapback_other:
  "stripPrefix (verb' @ '' '') body = None \<Longrightarrow> verbTapback body (verb', emoji, remove) = None"
  by (simp add: verbTapback_def)

lemma firstOf_unique:
  "p \<in> set xs \<Longrightarrow> f p = Some y \<Longrightarrow> (\<And>r. r \<in> set xs \<Longrightarrow> r \<noteq> p \<Longrightarrow> f r = None) \<Longrightarrow> firstOf f xs = Some y"
proof (induction xs)
  case (Cons a xs)
  then show ?case by (cases "a = p") auto
qed simp

lemma firstOf_none: "(\<And>r. r \<in> set xs \<Longrightarrow> f r = None) \<Longrightarrow> firstOf f xs = None"
  by (induction xs) auto

lemma stripPrefix_apart:
  "stripPrefix a b = None \<Longrightarrow> stripPrefix b a = None \<Longrightarrow> stripPrefix a (b @ s) = None"
  by (induction a b rule: stripPrefix.induct) auto

text \<open>No verb begins another, and each begins with a letter.\<close>

definition verbsApart :: bool where
  "verbsApart = list_all (\<lambda>p. list_all (\<lambda>r. p = r \<or> stripPrefix (fst p @ '' '') (fst r @ '' '') = None) tapbackPatterns
     \<and> stripPrefix (fst p @ '' '') ''Reacted '' = None \<and> stripPrefix ''Reacted '' (fst p @ '' '') = None
     \<and> (case fst p of [] \<Rightarrow> False | c # cs \<Rightarrow> plainChar c)) tapbackPatterns"

lemma verbs_apart:
  assumes "p \<in> set tapbackPatterns"
  shows "r \<in> set tapbackPatterns \<Longrightarrow> r \<noteq> p \<Longrightarrow> stripPrefix (fst r @ '' '') ((fst p @ '' '') @ s) = None"
    and "stripPrefix (fst p @ '' '') (''Reacted '' @ s) = None"
    and "\<exists>c v. fst p = c # v \<and> plainChar c"
proof -
  have "verbsApart" by code_simp
  then have all: "\<And>p r. p \<in> set tapbackPatterns \<Longrightarrow> r \<in> set tapbackPatterns \<Longrightarrow> p \<noteq> r \<Longrightarrow>
        stripPrefix (fst p @ '' '') (fst r @ '' '') = None"
    and reacted: "stripPrefix (fst p @ '' '') ''Reacted '' = None" "stripPrefix ''Reacted '' (fst p @ '' '') = None"
    and letter: "case fst p of [] \<Rightarrow> False | c # cs \<Rightarrow> plainChar c"
    using assms unfolding verbsApart_def list_all_iff by blast+
  show "stripPrefix (fst r @ '' '') ((fst p @ '' '') @ s) = None" if "r \<in> set tapbackPatterns" "r \<noteq> p"
    by (rule stripPrefix_apart) (use all [of r p] all [of p r] that assms in metis)+
  show "stripPrefix (fst p @ '' '') (''Reacted '' @ s) = None"
    by (rule stripPrefix_apart [OF reacted])
  show "\<exists>c v. fst p = c # v \<and> plainChar c" using letter by (simp split: list.splits)
qed

text \<open>
  C14: a tapback is read back as it was written. Each of the twelve verbs followed by a quoted text
  gives the reaction of the verb with the text, and so does any emoji without a space; straight and
  curly quotation marks are read alike.
\<close>

theorem tapback_roundtrip:
  assumes "(opening, closing) \<in> set quotePairs" and "q \<noteq> ''''" and "trimSpace q = q"
  shows "(\<forall>(verb, emoji, remove) \<in> set tapbackPatterns.
      parseTapback (verb @ '' '' @ opening @ q @ closing)
        = Some \<lparr>tbEmoji = emoji, tbQuoted = q, tbRemove = remove, tbTruncated = isTruncatedQuote q\<rparr>) \<and>
    (\<forall>e. e \<noteq> '''' \<and> trimSpace e = e \<and> CHR '' '' \<notin> set e \<longrightarrow>
      parseTapback (''Reacted '' @ e @ '' to '' @ opening @ q @ closing)
        = Some \<lparr>tbEmoji = e, tbQuoted = q, tbRemove = False, tbTruncated = isTruncatedQuote q\<rparr>)"
proof (intro conjI ballI allI impI)
  fix p assume p: "p \<in> set tapbackPatterns"
  obtain verb emoji remove where pe: "p = (verb, emoji, remove)" by (cases p)
  let ?body = "verb @ '' '' @ opening @ q @ closing"
  obtain c v where "verb = c # v" "plainChar c" using verbs_apart(3) [OF p] pe by auto
  then have "trimSpace ?body = ?body"
    using trimSpace_tapback [OF _ assms(1), of c "v @ '' '' @ opening @ q"] by simp
  moreover have "?body \<noteq> ''''" using \<open>verb = c # v\<close> by simp
  moreover have "firstOf (verbTapback ?body) tapbackPatterns
      = Some \<lparr>tbEmoji = emoji, tbQuoted = q, tbRemove = remove, tbTruncated = isTruncatedQuote q\<rparr>"
  proof (rule firstOf_unique [OF p])
    show "verbTapback ?body p = Some \<lparr>tbEmoji = emoji, tbQuoted = q, tbRemove = remove, tbTruncated = isTruncatedQuote q\<rparr>"
      using verbTapback_verb [OF assms] pe by blast
    show "verbTapback ?body r = None" if "r \<in> set tapbackPatterns" "r \<noteq> p" for r
      using verbs_apart(1) [OF p that, of "opening @ q @ closing"] pe
      by (cases r) (simp add: verbTapback_def)
  qed
  ultimately show "case p of (verb, emoji, remove) \<Rightarrow> parseTapback (verb @ '' '' @ opening @ q @ closing)
        = Some \<lparr>tbEmoji = emoji, tbQuoted = q, tbRemove = remove, tbTruncated = isTruncatedQuote q\<rparr>"
    using pe by (simp add: parseTapback_def)
next
  fix e assume e: "e \<noteq> '''' \<and> trimSpace e = e \<and> CHR '' '' \<notin> set e"
  let ?body = "''Reacted '' @ e @ '' to '' @ opening @ q @ closing"
  have "plainChar (CHR ''R'')" by code_simp
  then have trim: "trimSpace ?body = ?body"
    using trimSpace_tapback [OF _ assms(1), of "CHR ''R''" "''eacted '' @ e @ '' to '' @ opening @ q"] by simp
  have none: "firstOf (verbTapback ?body) tapbackPatterns = None"
    using verbs_apart(2) by (intro firstOf_none) (auto simp: verbTapback_def)
  have "reactedSplit '''' (e @ '' to '' @ opening @ q @ closing) = Some (e, q)"
    using reactedSplit_found [of e "''''" "opening @ q @ closing" q] e quotedText_quoted [OF assms(1,2)] by simp
  then show "parseTapback ?body
        = Some \<lparr>tbEmoji = e, tbQuoted = q, tbRemove = False, tbTruncated = isTruncatedQuote q\<rparr>"
    using trim none assms e stripPrefix_self [of "''Reacted ''" "e @ '' to '' @ opening @ q @ closing"]
    by (simp add: parseTapback_def del: trimSpace_trimSpace)
qed

lemma tapback_roundtrip_witness:
  "parseTapback (''Loved '' @ curlyOpen @ ''see you then.'' @ curlyClose)
     = Some \<lparr>tbEmoji = emojiHeart, tbQuoted = ''see you then.'', tbRemove = False, tbTruncated = False\<rparr>"
proof -
  have q: "trimSpace ''see you then.'' = ''see you then.''" "\<not> isTruncatedQuote ''see you then.''" by code_simp+
  show ?thesis
    using tapback_roundtrip [of curlyOpen curlyClose "''see you then.''"] q
    by (simp add: quotePairs_def tapbackPatterns_def)
qed

end
