(* ===== verification/Decode_Google.thy ===== *)
theory Decode_Google
  imports Decode_Base Tapback
begin

text \<open>
  The Google Messages decoder, \<open>internal/ingest/googledecoder.go\<close>, with the extraction functions of
  \<open>internal/client/client.go\<close>.

  \<^item> The protobuf types are generated by a third-party library: the records hold what the getters
    answer that the code calls, an absent submessage is \<open>None\<close> and an enum is its name. Parsing the
    envelope and the two protobuf messages are parameters.
  \<^item> The second result of the decoder lists the counters it advances.
\<close>

section \<open>Messages\<close>

record gm_participant =
  gpNumber :: "string option"
  gpFullName :: string
  gpFirstName :: string
  gpFormattedNumber :: string
  gpIsMe :: bool

record gm_media =
  gdMimeType :: string
  gdFormat :: int
  gdMediaID :: string
  gdMediaName :: string
  gdDecryptionKey :: string
  gdSize :: int
  gdThumbnailMediaID :: string
  gdThumbnailDecryptionKey :: string

record gm_info =
  giMessageContent :: "string option"
  giMediaContent :: "gm_media option"

record gm_reaction =
  grUnicode :: "string option"
  grParticipantIDs :: "string list"

record gm_message =
  gmMessageID :: string
  gmConversationID :: string
  gmTmpID :: string
  gmTimestamp :: int
  gmMessageInfo :: "gm_info list"
  gmReactions :: "gm_reaction list"
  gmReplyMessageID :: "string option"
  gmSenderParticipant :: "gm_participant option"
  gmStatus :: "string option"

record gm_conversation =
  gcConversationID :: string
  gcName :: string
  gcIsGroupChat :: bool
  gcParticipants :: "gm_participant option list"

section \<open>Extraction\<close>

definition extractMessageBody :: "gm_message \<Rightarrow> string" where
  "extractMessageBody m =
     (case firstOf giMessageContent (gmMessageInfo m) of None \<Rightarrow> '''' | Some c \<Rightarrow> c)"

record media_info =
  mdMediaID :: string
  mdMimeType :: string
  mdMediaName :: string
  mdDecryptionKey :: string
  mdSize :: int

definition mediaInfo :: "gm_media \<Rightarrow> media_info" where
  "mediaInfo d =
     (let thumbnail = (gdMediaID d = '''' \<and> gdThumbnailMediaID d \<noteq> '''') in
      \<lparr>mdMediaID = (if thumbnail then gdThumbnailMediaID d else gdMediaID d),
       mdMimeType = (if gdMimeType d \<noteq> '''' then gdMimeType d
                     else if 1 \<le> gdFormat d \<and> gdFormat d \<le> 7 then ''image/jpeg''
                     else ''application/octet-stream''),
       mdMediaName = gdMediaName d,
       mdDecryptionKey = (if thumbnail then gdThumbnailDecryptionKey d else gdDecryptionKey d),
       mdSize = gdSize d\<rparr>)"

definition extractMediaInfo :: "gm_message \<Rightarrow> media_info option" where
  "extractMediaInfo m = map_option mediaInfo (firstOf giMediaContent (gmMessageInfo m))"

definition extractReactions :: "gm_message \<Rightarrow> (string \<times> string list) list" where
  "extractReactions m =
     List.map_filter (\<lambda>e. case grUnicode e of None \<Rightarrow> None
       | Some emoji \<Rightarrow> if emoji = '''' then None else Some (emoji, grParticipantIDs e)) (gmReactions m)"

definition extractReplyToID :: "gm_message \<Rightarrow> string" where
  "extractReplyToID m = (case gmReplyMessageID m of None \<Rightarrow> '''' | Some i \<Rightarrow> i)"

definition participantNumber :: "gm_participant \<Rightarrow> string" where
  "participantNumber p =
     (let number = (case gpNumber p of None \<Rightarrow> '''' | Some n \<Rightarrow> n)
      in if number = '''' then gpFormattedNumber p else number)"

definition extractSenderInfo :: "gm_message \<Rightarrow> string \<times> string" where
  "extractSenderInfo m =
     (case gmSenderParticipant m of None \<Rightarrow> ('''', '''')
      | Some p \<Rightarrow> (if gpFullName p = '''' then gpFirstName p else gpFullName p, participantNumber p))"

definition messageIsFromMe :: "gm_message \<Rightarrow> bool" where
  "messageIsFromMe m \<longleftrightarrow>
     (case gmSenderParticipant m of None \<Rightarrow> False | Some p \<Rightarrow> gpIsMe p) \<or>
     (case gmStatus m of None \<Rightarrow> False | Some s \<Rightarrow> hasPrefix s ''OUTGOING'')"

section \<open>Events\<close>

text \<open>The division of Go truncates.\<close>

definition microToMilli :: "int \<Rightarrow> int" where
  "microToMilli t = (if t < 0 then - (- t div 1000) else t div 1000)"

definition hexDigit :: "nat \<Rightarrow> char" where
  "hexDigit n = (if n < 10 then byte (48 + n) else byte (87 + n))"

definition hexEncode :: "string \<Rightarrow> string" where
  "hexEncode s = concat (map (\<lambda>c. let n = (of_char c :: nat) in [hexDigit (n div 16), hexDigit (n mod 16)]) s)"

definition googleAttachments :: "codec_env \<Rightarrow> media_info option \<Rightarrow> event_attachment list" where
  "googleAttachments x media =
     (case media of None \<Rightarrow> []
      | Some d \<Rightarrow> [\<lparr>eaRemoteID = mdMediaID d,
          eaRemoteRef = jsonObject x [(''v'', ''1''), (''media_id'', xcString x (mdMediaID d)),
            (''decryption_key'', xcString x (hexEncode (mdDecryptionKey d)))],
          eaFilename = mdMediaName d, eaMIME = mdMimeType d, eaSize = mdSize d\<rparr>])"

definition googleReactionEvent :: "gm_message \<Rightarrow> string \<Rightarrow> identity_ref \<Rightarrow> string \<Rightarrow> reaction_event" where
  "googleReactionEvent m emoji actor action = \<lparr>rvRemoteConversationID = gmConversationID m,
     rvTargetRemoteMessageID = gmMessageID m, rvActor = actor, rvEmoji = emoji, rvAction = action,
     rvOccurredAt = timeOfUnixMilli (microToMilli (gmTimestamp m))\<rparr>"

definition googleMessageIsEmptyStub ::
  "gm_message \<Rightarrow> string \<Rightarrow> media_info option \<Rightarrow> (string \<times> string list) list \<Rightarrow> bool" where
  "googleMessageIsEmptyStub m body media given = isEmptyStubMessage
     \<lparr>lmMessageID = '''', lmConversationID = '''', lmSenderName = '''', lmSenderNumber = '''',
      lmBody = body, lmTimestampMS = 0, lmIsFromMe = False,
      lmReactions = (if given = [] then '''' else ''present''),
      lmMediaID = (case media of None \<Rightarrow> '''' | Some d \<Rightarrow> mdMediaID d),
      lmStatus = (case gmStatus m of None \<Rightarrow> '''' | Some s \<Rightarrow> s)\<rparr>"

definition bareIdentity :: "string \<Rightarrow> identity_ref" where
  "bareIdentity raw = \<lparr>irKind = '''', irCanonical = '''', irRaw = raw, irName = '''', irIsSelf = False\<rparr>"

definition googleReactions :: "gm_message \<Rightarrow> (string \<times> string list) list \<Rightarrow> event list" where
  "googleReactions m rs = concat (map (\<lambda>(emoji, actors).
     if actors = [] then [reactionOf (googleReactionEvent m emoji (bareIdentity '''') ''add'')]
     else map (\<lambda>a. reactionOf (googleReactionEvent m emoji (bareIdentity a) ''add'')) actors) rs)"

definition decodeGoogleMessage :: "codec_env \<Rightarrow> gm_message \<Rightarrow> event list \<times> ingest_counter list" where
  "decodeGoogleMessage x m =
     (let body = extractMessageBody m;
          media = extractMediaInfo m;
          given = extractReactions m;
          (senderName, senderNumber) = extractSenderInfo m;
          fromMe = messageIsFromMe m;
          sender = (bareIdentity senderNumber)\<lparr>irName := senderName, irIsSelf := fromMe\<rparr>;
          requestID = (if fromMe \<and> gmTmpID m \<noteq> '''' \<and> gmTmpID m \<noteq> gmMessageID m then gmTmpID m else '''')
      in if googleMessageIsEmptyStub m body media given then ([], [CntEmptyStubsSkipped])
         else
           let events =
             messageOf \<lparr>meRemoteConversationID = gmConversationID m, meRemoteMessageID = gmMessageID m,
               meClientRequestID = requestID, meSender = sender,
               meDirection = (if fromMe then ''outgoing'' else ''incoming''), meBody = body,
               meAttachments = googleAttachments x media, meReplyToRemoteID = extractReplyToID m,
               meOccurredAt = timeOfUnixMilli (microToMilli (gmTimestamp m)), meLayoutJSON = ''''\<rparr>
             # googleReactions m given
           in case parseTapback body of
                None \<Rightarrow> (events, [])
              | Some t \<Rightarrow>
                  (events @ [reactionOf ((googleReactionEvent m (tbEmoji t) sender
                     (if tbRemove t then ''remove'' else ''add''))\<lparr>rvTargetRemoteMessageID := ''''\<rparr>)],
                   [CntTapbackMessages]))"

definition googleConversationEvent :: "gm_conversation \<Rightarrow> event" where
  "googleConversationEvent c = conversationEventOf
     \<lparr>ceRemoteConversationID = gcConversationID c,
      ceKind = (if gcIsGroupChat c then ''group'' else ''direct''), ceTitle = gcName c,
      ceParticipants = List.map_filter (map_option (\<lambda>p.
        \<lparr>epIdentity = (bareIdentity (participantNumber p))\<lparr>irName := gpFullName p, irIsSelf := gpIsMe p\<rparr>,
         epRole = ''member'', epActive = True\<rparr>)) (gcParticipants c),
      ceRemoteRevision = ''''\<rparr>"

section \<open>Frames\<close>

abbreviation GoogleCodec :: string where "GoogleCodec \<equiv> ''google.protobuf''"

definition googleCodecVersion :: nat where
  "googleCodecVersion = 1"

record google_frame =
  gfKind :: string
  gfProto :: string
  gfIsOld :: "bool option"

text \<open>The frames that the adapter builds; \<open>marshal\<close> is \<open>json.Marshal\<close> of the envelope.\<close>

definition marshalGoogleMessageFrame ::
  "(google_frame \<Rightarrow> string) \<Rightarrow> (gm_message \<Rightarrow> string) \<Rightarrow> (gm_message option \<times> bool) option \<Rightarrow> (string \<times> string) option" where
  "marshalGoogleMessageFrame marshal proto event =
     (case event of Some (Some m, isOld) \<Rightarrow>
          Some (marshal \<lparr>gfKind = ''message'', gfProto = proto m, gfIsOld = Some isOld\<rparr>, proto m)
      | _ \<Rightarrow> None)"

definition marshalGoogleConversationFrame ::
  "(google_frame \<Rightarrow> string) \<Rightarrow> (gm_conversation \<Rightarrow> string) \<Rightarrow> gm_conversation option \<Rightarrow> (string \<times> string) option" where
  "marshalGoogleConversationFrame marshal proto conversation =
     map_option (\<lambda>c. (marshal \<lparr>gfKind = ''conversation'', gfProto = proto c, gfIsOld = None\<rparr>, proto c)) conversation"

definition decodeGoogle ::
  "codec_env \<Rightarrow> (string \<Rightarrow> google_frame option) \<Rightarrow> (string \<Rightarrow> gm_message option) \<Rightarrow> (string \<Rightarrow> gm_conversation option)
     \<Rightarrow> raw_ingress \<Rightarrow> decoded \<times> ingest_counter list" where
  "decodeGoogle x unmarshal parseMessage parseConversation r =
     (if riCodec r \<noteq> GoogleCodec \<or> riCodecVersion r \<noteq> googleCodecVersion then (DecodeFailed, [])
      else case unmarshal (riPayload r) of
        None \<Rightarrow> (DecodeFailed, [])
      | Some f \<Rightarrow>
          if gfProto f = '''' then (DecodeFailed, [])
          else if gfKind f = ''message'' then
            (case (if gfIsOld f = None then None else parseMessage (gfProto f)) of
               None \<Rightarrow> (DecodeFailed, [])
             | Some m \<Rightarrow> let (events, counters) = decodeGoogleMessage x m in (Decoded events, counters))
          else if gfKind f = ''conversation'' then
            (case parseConversation (gfProto f) of
               None \<Rightarrow> (DecodeFailed, [])
             | Some c \<Rightarrow> (Decoded [googleConversationEvent c], []))
          else (DecodeFailed, []))"

end
