(* ===== verification/Decode_WhatsApp.thy ===== *)
theory Decode_WhatsApp
  imports Decode_Base "HOL-Library.List_Lexorder" "HOL-Library.Char_ord" "HOL-Library.Product_Lexorder" "HOL-Library.Multiset"
begin

text \<open>
  The WhatsApp decoder, \<open>internal/ingest/whatsappdecoder.go\<close>.

  \<^item> The protobuf types belong to a third-party library. The record \<open>wa_message\<close> holds what the
    accessors of \<open>internal/whatsapplive\<close> answer for a message (\<open>ExtractReactionMessage\<close>,
    \<open>ExtractProtocolMessage\<close>, \<open>HasEncryptedReactionMessage\<close>, \<open>ExtractMessageBody\<close>,
    \<open>ExtractStoredMediaRef\<close>, \<open>ExtractReplyToID\<close>, \<open>ExtractMentionedJIDs\<close>), and the records of the
    history what the getters answer.
  \<^item> \<open>types.ParseJID\<close> is a parameter: \<open>wlParse\<close> is a JID parsed and stripped of its device,
    \<open>wlText\<close> its text.
  \<^item> A Go map is visited in no fixed order: \<open>wlOrder\<close> is the order in which the pairs of a map come.
  \<^item> The second result of a function lists the counters of skipped items it advances.
\<close>

section \<open>Frames\<close>

record wa_jid =
  wjUser :: string
  wjServer :: string

record wa_lib =
  wlParse :: "string \<Rightarrow> wa_jid option"
  wlText :: "wa_jid \<Rightarrow> string"
  wlOrder :: "(string \<times> string) list \<Rightarrow> (string \<times> string) list"

datatype wa_protocol_type = WaMessageEdit | WaRevoke | WaOtherProtocol

record wa_protocol =
  wpKeyID :: string
  wpType :: wa_protocol_type
  wpEditedBody :: "string option"

record wa_media =
  wdDirectPath :: string
  wdFileSHA256 :: string
  wdFileEncSHA256 :: string
  wdMediaKeyHex :: string
  wdFileLength :: nat
  wdMIME :: string

record wa_message =
  wmReaction :: "(string \<times> string) option"
  wmProtocol :: "wa_protocol option"
  wmEncryptedReaction :: bool
  wmBody :: string
  wmMedia :: "wa_media option"
  wmReplyToID :: string
  wmMentionedJIDs :: "string list"

record wa_envelope =
  weKind :: string
  weChatJID :: string
  weSenderJID :: string
  weMessageID :: string
  weTimestampMS :: int
  weIsFromMe :: bool
  weIsGroup :: bool
  wePushName :: string
  weMentions :: "(string \<times> string) list"
  weProto :: string
  weReceiptType :: string
  weMessageIDs :: "string list"

datatype wa_skip = EmptyMessage | UnsupportedMessage | EncryptedReaction | UnsupportedReceipt | InvalidHistoryItem

section \<open>Identities and mentions\<close>

definition whatsAppRemoteConversationID :: "string \<Rightarrow> string" where
  "whatsAppRemoteConversationID chatJID = ''whatsapp:'' @ trimSpace chatJID"

definition allASCIIDigits :: "string \<Rightarrow> bool" where
  "allASCIIDigits v \<longleftrightarrow> v \<noteq> '''' \<and> list_all decimalDigit v"

definition whatsAppIdentity :: "wa_lib \<Rightarrow> string \<Rightarrow> string \<Rightarrow> bool \<Rightarrow> identity_ref" where
  "whatsAppIdentity l jid0 name self =
     (let jid = trimSpace jid0;
          raw = (case wlParse l jid of None \<Rightarrow> jid
            | Some p \<Rightarrow> if wjServer p = ''s.whatsapp.net'' \<and> allASCIIDigits (wjUser p)
                        then CHR ''+'' # wjUser p else wlText l p)
      in \<lparr>irKind = '''', irCanonical = '''', irRaw = raw, irName = trimSpace name, irIsSelf = self\<rparr>)"

definition whatsAppReceiptStatus :: "(string \<Rightarrow> string) \<Rightarrow> string \<Rightarrow> (string \<times> bool) option" where
  "whatsAppReceiptStatus unicodeLower receiptType =
     (let t = toLower unicodeLower (trimSpace receiptType) in
      if t = ''delivered'' then Some (''delivered'', False)
      else if t = ''sender'' then Some (''delivered'', True)
      else if t = ''read'' then Some (''read'', False)
      else if t = ''read_self'' then Some (''read'', True)
      else if t = ''played'' then Some (''read'', False)
      else if t = ''played_self'' then Some (''read'', True)
      else if t = ''server_error'' then Some (''failed'', False)
      else None)"

text \<open>\<open>strings.ReplaceAll\<close> of a text that is not empty.\<close>

function replaceAll :: "string \<Rightarrow> string \<Rightarrow> string \<Rightarrow> string" where
  "replaceAll old new s =
     (case s of [] \<Rightarrow> []
      | c # cs \<Rightarrow>
          (case stripPrefix old s of
             Some r \<Rightarrow> if length r < length s then new @ replaceAll old new r else c # replaceAll old new cs
           | None \<Rightarrow> c # replaceAll old new cs))"
  by pat_completeness auto

termination by (relation "measure (\<lambda>(old, new, s). length s)") auto

text \<open>The token of a mention in the body and the label that takes its place.\<close>

definition mentionReplacement :: "wa_lib \<Rightarrow> string \<times> string \<Rightarrow> (string \<times> string) option" where
  "mentionReplacement l = (\<lambda>(rawJID, display0).
     (let display = trimSpace (trimPrefix (trimSpace display0) ''@~'');
          jid0 = trimSpace rawJID;
          jid1 = (case wlParse l jid0 of
              Some p \<Rightarrow> trimSpace (wjUser p)
            | None \<Rightarrow> if CHR ''@'' \<in> set jid0 then trimSpace (takeWhile (\<lambda>c. c \<noteq> CHR ''@'') jid0) else jid0);
          jid = trimPrefix jid1 ''@'';
          token = CHR ''@'' # jid;
          label = ''@~'' @ display
      in if display = '''' \<or> jid = '''' \<or> token = label then None else Some (token, label)))"

text \<open>The first replacement of each token.\<close>

fun firstOfToken :: "(string \<times> string) list \<Rightarrow> (string \<times> string) list" where
  "firstOfToken [] = []"
| "firstOfToken (p # ps) = p # filter (\<lambda>q. fst q \<noteq> fst p) (firstOfToken ps)"

definition longestFirst :: "string \<times> string \<Rightarrow> int \<times> string" where
  "longestFirst p = (- int (length (fst p)), fst p)"

definition formatMentionedBody :: "wa_lib \<Rightarrow> string \<Rightarrow> (string \<times> string) list \<Rightarrow> string" where
  "formatMentionedBody l body0 mentions =
     (let body = trimSpace body0 in
      if body = '''' \<or> mentions = [] then body
      else fold (\<lambda>(token, label). replaceAll token label)
             (sort_key longestFirst
               (firstOfToken (List.map_filter (mentionReplacement l) (wlOrder l mentions)))) body)"

section \<open>Messages\<close>

definition whatsAppAttachments :: "codec_env \<Rightarrow> wa_message \<Rightarrow> event_attachment list" where
  "whatsAppAttachments x m =
     (case wmMedia m of None \<Rightarrow> []
      | Some d \<Rightarrow> [\<lparr>eaRemoteID = wdDirectPath d,
          eaRemoteRef = jsonObject x [(''v'', ''1''), (''kind'', xcString x ''remote''),
            (''direct_path'', xcString x (wdDirectPath d)), (''file_sha256'', xcString x (wdFileSHA256 d)),
            (''file_enc_sha256'', xcString x (wdFileEncSHA256 d)), (''media_key'', xcString x (wdMediaKeyHex d)),
            (''file_length'', natDigits (wdFileLength d))],
          eaFilename = '''', eaMIME = trimSpace (wdMIME d),
          eaSize = sint (word_of_nat (wdFileLength d) :: 64 word)\<rparr>])"

definition unsupported :: "event list \<times> wa_skip list" where
  "unsupported = ([], [UnsupportedMessage])"

definition decodeProtocol ::
  "wa_lib \<Rightarrow> wa_envelope \<Rightarrow> string \<Rightarrow> gotime \<Rightarrow> wa_protocol \<Rightarrow> event list \<times> wa_skip list" where
  "decodeProtocol l env conversationID occurredAt p =
     (let targetID = trimSpace (wpKeyID p);
          mutation = (\<lambda>kind body. ([mutationOf \<lparr>muRemoteConversationID = conversationID,
            muRemoteMessageID = targetID, muKind = kind, muBody = body, muOccurredAt = occurredAt\<rparr>], []))
      in case wpType p of
        WaMessageEdit \<Rightarrow>
          (case (if targetID = '''' then None else wpEditedBody p) of
             None \<Rightarrow> unsupported
           | Some edited \<Rightarrow>
               let body = formatMentionedBody l edited (weMentions env)
               in if body = '''' \<or> body = ''[Unsupported message]'' then unsupported
                  else mutation ''edit'' body)
      | WaRevoke \<Rightarrow> if targetID = '''' then unsupported else mutation ''delete'' ''''
      | WaOtherProtocol \<Rightarrow> unsupported)"

definition decodeMessageProto ::
  "codec_env \<Rightarrow> wa_lib \<Rightarrow> wa_envelope \<Rightarrow> wa_message \<Rightarrow> bool \<Rightarrow> event list \<times> wa_skip list" where
  "decodeMessageProto x l env m history =
     (let conversationID = whatsAppRemoteConversationID (weChatJID env);
          occurredAt = timeOfUnixMilli (weTimestampMS env);
          sender = whatsAppIdentity l (weSenderJID env) (wePushName env) (weIsFromMe env)
      in case wmReaction m of
        Some (key, emoji0) \<Rightarrow>
          let targetID = trimSpace key; emoji = trimSpace emoji0 in
          if targetID = '''' then unsupported
          else ([reactionOf \<lparr>rvRemoteConversationID = conversationID, rvTargetRemoteMessageID = targetID,
            rvActor = sender, rvEmoji = emoji, rvAction = (if emoji = '''' then ''remove'' else ''add''),
            rvOccurredAt = occurredAt\<rparr>], [])
      | None \<Rightarrow>
      case wmProtocol m of
        Some p \<Rightarrow> decodeProtocol l env conversationID occurredAt p
      | None \<Rightarrow>
          if wmEncryptedReaction m then ([], [EncryptedReaction])
          else if wmBody m = '''' then ([], [EmptyMessage])
          else if wmBody m = ''[Unsupported message]'' then unsupported
          else if history \<and> blank (weMessageID env) then ([], [InvalidHistoryItem])
          else ([messageOf \<lparr>meRemoteConversationID = conversationID,
            meRemoteMessageID = trimSpace (weMessageID env), meClientRequestID = '''', meSender = sender,
            meDirection = (if weIsFromMe env then ''outgoing'' else ''incoming''),
            meBody = formatMentionedBody l (wmBody m) (weMentions env),
            meAttachments = whatsAppAttachments x m,
            meReplyToRemoteID = trimPrefix (wmReplyToID m) ''whatsapp:'', meOccurredAt = occurredAt,
            meLayoutJSON = ''''\<rparr>], []))"

definition decodeReceipt :: "codec_env \<Rightarrow> wa_lib \<Rightarrow> wa_envelope \<Rightarrow> decoded \<times> wa_skip list" where
  "decodeReceipt x l env =
     (let messageIDs = filter (\<lambda>i. i \<noteq> '''') (map trimSpace (weMessageIDs env)) in
      if blank (weChatJID env) \<or> weTimestampMS env \<le> 0 then (DecodeFailed, [])
      else case whatsAppReceiptStatus (xcLower x) (weReceiptType env) of
        None \<Rightarrow> (Decoded [], [UnsupportedReceipt])
      | Some (status, self) \<Rightarrow>
          if messageIDs = [] then (Decoded [], [UnsupportedReceipt])
          else (Decoded [receiptOf \<lparr>rrRemoteConversationID = whatsAppRemoteConversationID (weChatJID env),
                  rrRemoteMessageIDs = messageIDs, rrActor = whatsAppIdentity l (weSenderJID env) '''' self,
                  rrStatus = status, rrOccurredAt = timeOfUnixMilli (weTimestampMS env)\<rparr>], []))"

section \<open>History\<close>

record wa_web_message =
  wwMessage :: "wa_message option"
  wwKeyID :: string
  wwKeyFromMe :: bool
  wwKeyParticipant :: string
  wwParticipant :: string
  wwPushName :: string
  wwTimestamp :: "64 word"

record wa_history_conversation =
  whID :: string
  whPnJID :: string
  whMessages :: "wa_web_message option list"

record wa_history =
  whConversations :: "wa_history_conversation option list"
  whPushnames :: "(string \<times> string) option list"
  whMappings :: "(string \<times> string) option list"

definition jidServer :: "wa_lib \<Rightarrow> string \<Rightarrow> string" where
  "jidServer l raw = (case wlParse l (trimSpace raw) of None \<Rightarrow> '''' | Some p \<Rightarrow> wjServer p)"

definition canonicalHistoryJID :: "wa_lib \<Rightarrow> (string \<rightharpoonup> string) \<Rightarrow> string \<Rightarrow> string \<Rightarrow> string" where
  "canonicalHistoryJID l aliases raw0 pn0 =
     (let pn = trimSpace pn0;
          raw1 = trimSpace raw0;
          raw2 = (if pn \<noteq> '''' \<and> (raw1 = '''' \<or> jidServer l raw1 = ''lid'') then pn else raw1);
          alias = (case aliases raw2 of None \<Rightarrow> '''' | Some a \<Rightarrow> trimSpace a);
          raw = (if alias \<noteq> '''' then alias else raw2)
      in case wlParse l raw of None \<Rightarrow> raw | Some p \<Rightarrow> wlText l p)"

definition historyAliases :: "wa_history \<Rightarrow> string \<rightharpoonup> string" where
  "historyAliases h =
     fold (\<lambda>m aliases. case m of None \<Rightarrow> aliases
       | Some (lid, pn) \<Rightarrow> if blank lid \<or> blank pn then aliases else aliases(trimSpace lid \<mapsto> trimSpace pn))
       (whMappings h) Map.empty"

definition historyPushNames :: "wa_lib \<Rightarrow> wa_history \<Rightarrow> string \<rightharpoonup> string" where
  "historyPushNames l h =
     fold (\<lambda>p names. case p of None \<Rightarrow> names
       | Some (i, name) \<Rightarrow>
           let key = canonicalHistoryJID l (historyAliases h) i '''' in
           if key = '''' \<or> blank name then names else names(key \<mapsto> trimSpace name))
       (whPushnames h) Map.empty"

text \<open>A map as the list of its pairs: writing to a key replaces its pair.\<close>

definition putPair :: "string \<Rightarrow> string \<Rightarrow> (string \<times> string) list \<Rightarrow> (string \<times> string) list" where
  "putPair k v ps = filter (\<lambda>p. fst p \<noteq> k) ps @ [(k, v)]"

definition historyMentions ::
  "wa_lib \<Rightarrow> (string \<rightharpoonup> string) \<Rightarrow> (string \<rightharpoonup> string) \<Rightarrow> wa_message \<Rightarrow> (string \<times> string) list" where
  "historyMentions l aliases names m =
     fold (\<lambda>raw ps.
         let key = canonicalHistoryJID l aliases raw '''';
             name = (case names key of None \<Rightarrow> '''' | Some n \<Rightarrow> trimSpace n)
         in if name = '''' then ps else putPair key name (putPair (trimSpace raw) name ps))
       (wmMentionedJIDs m) []"

text \<open>One message of a conversation of the history.\<close>

definition decodeHistoryItem ::
  "codec_env \<Rightarrow> wa_lib \<Rightarrow> wa_history \<Rightarrow> string \<Rightarrow> wa_web_message option \<Rightarrow> event list \<times> wa_skip list" where
  "decodeHistoryItem x l h chatJID item =
     (let aliases = historyAliases h; names = historyPushNames l h in
      case item of None \<Rightarrow> ([], [InvalidHistoryItem])
      | Some w \<Rightarrow>
      case wwMessage w of None \<Rightarrow> ([], [InvalidHistoryItem])
      | Some m \<Rightarrow>
          let timestamp = sint (wwTimestamp w) in
          if blank (wwKeyID w) \<or> timestamp \<le> 0 then ([], [InvalidHistoryItem])
          else
            let own = (if blank (wwParticipant w) then trimSpace (wwKeyParticipant w) else trimSpace (wwParticipant w));
                sender = canonicalHistoryJID l aliases
                  (if own = '''' \<and> \<not> wwKeyFromMe w then chatJID else own) '''';
                pushName = (if blank (wwPushName w)
                  then (case names sender of None \<Rightarrow> '''' | Some n \<Rightarrow> n) else trimSpace (wwPushName w));
                env = \<lparr>weKind = ''message'', weChatJID = chatJID, weSenderJID = sender,
                  weMessageID = trimSpace (wwKeyID w),
                  weTimestampMS = sint (word_of_int timestamp * 1000 :: 64 word),
                  weIsFromMe = wwKeyFromMe w, weIsGroup = (jidServer l chatJID = ''g.us''),
                  wePushName = pushName, weMentions = historyMentions l aliases names m, weProto = '''',
                  weReceiptType = '''', weMessageIDs = []\<rparr>;
                (events, skips) = decodeMessageProto x l env m True
            in (filter (\<lambda>e. evKind e = ''message'') events, skips))"

definition decodeHistoryConversation ::
  "codec_env \<Rightarrow> wa_lib \<Rightarrow> wa_history \<Rightarrow> wa_history_conversation option \<Rightarrow> event list \<times> wa_skip list" where
  "decodeHistoryConversation x l h conversation =
     (case conversation of None \<Rightarrow> ([], [InvalidHistoryItem])
      | Some c \<Rightarrow>
          let chatJID = canonicalHistoryJID l (historyAliases h) (whID c) (whPnJID c) in
          if chatJID = '''' then ([], [InvalidHistoryItem])
          else let items = map (decodeHistoryItem x l h chatJID) (whMessages c)
               in (concat (map fst items), concat (map snd items)))"

definition decodeHistorySync :: "codec_env \<Rightarrow> wa_lib \<Rightarrow> wa_history \<Rightarrow> event list \<times> wa_skip list" where
  "decodeHistorySync x l h =
     (let parts = map (decodeHistoryConversation x l h) (whConversations h)
      in (concat (map fst parts), concat (map snd parts)))"

section \<open>Frames\<close>

abbreviation WhatsAppCodec :: string where "WhatsAppCodec \<equiv> ''whatsapp.event''"

definition whatsAppCodecVersion :: nat where
  "whatsAppCodecVersion = 1"

definition decodeWhatsApp ::
  "codec_env \<Rightarrow> wa_lib \<Rightarrow> (string \<Rightarrow> wa_envelope option) \<Rightarrow> (string \<Rightarrow> wa_message option) \<Rightarrow> (string \<Rightarrow> wa_history option)
     \<Rightarrow> raw_ingress \<Rightarrow> decoded \<times> wa_skip list" where
  "decodeWhatsApp x l unmarshal parseMessage parseHistory r =
     (if riCodec r \<noteq> WhatsAppCodec \<or> riCodecVersion r \<noteq> whatsAppCodecVersion then (DecodeFailed, [])
      else case unmarshal (riPayload r) of
        None \<Rightarrow> (DecodeFailed, [])
      | Some env \<Rightarrow>
          if weKind env = ''message'' then
            (if blank (weChatJID env) \<or> blank (weMessageID env) \<or> weTimestampMS env \<le> 0 then (DecodeFailed, [])
             else case parseMessage (weProto env) of
               None \<Rightarrow> (DecodeFailed, [])
             | Some m \<Rightarrow> let (events, skips) = decodeMessageProto x l env m False in (Decoded events, skips))
          else if weKind env = ''receipt'' then decodeReceipt x l env
          else if weKind env = ''history_sync'' then
            (case parseHistory (weProto env) of
               None \<Rightarrow> (DecodeFailed, [])
             | Some h \<Rightarrow> let (events, skips) = decodeHistorySync x l h in (Decoded events, skips))
          else (DecodeFailed, []))"

end
