(* ===== verification/Decode_Correct.thy ===== *)
theory Decode_Correct
  imports Decode_Slack Decode_Signal Decode_Google Decode_WhatsApp Ingest_Correct
begin

text \<open>
  The decoders the stack registers, and what they promise to the worker. The table of codecs is
  that of \<open>src/cmd/v2stack.go\<close>. The lemmas show that the events of each decoder have the
  payload of their kind, that Signal's edits and reactions name the message the way its own
  frame was named, that the reactions of a frame name its messages, and what the
  worker's roster of a conversation becomes when a Slack frame is applied.
\<close>

section \<open>The decoders of the stack\<close>

text \<open>The parameters of the four decoders.\<close>

record decoder_lib =
  dlCodec :: codec_env
  dlSlackFrame :: "string \<Rightarrow> slack_frame option"
  dlSignalFrame :: "string \<Rightarrow> signal_frame option"
  dlSignalLine :: "string \<Rightarrow> signal_payload option"
  dlGoogleFrame :: "string \<Rightarrow> google_frame option"
  dlGoogleMessage :: "string \<Rightarrow> gm_message option"
  dlGoogleConversation :: "string \<Rightarrow> gm_conversation option"
  dlWhatsApp :: wa_lib
  dlWhatsAppFrame :: "string \<Rightarrow> wa_envelope option"
  dlWhatsAppMessage :: "string \<Rightarrow> wa_message option"
  dlWhatsAppHistory :: "string \<Rightarrow> wa_history option"

text \<open>The registrations of \<open>cmd/v2stack.go\<close>.\<close>

definition stackDecoders :: "decoder_lib \<Rightarrow> string \<Rightarrow> (string \<times> (raw_ingress \<Rightarrow> decoded)) option" where
  "stackDecoders d codec =
     (if codec = GoogleCodec then Some (PlatformGoogle, \<lambda>r. fst (decodeGoogle (dlCodec d) (dlGoogleFrame d)
          (dlGoogleMessage d) (dlGoogleConversation d) r))
      else if codec = WhatsAppCodec then Some (PlatformWhatsApp, \<lambda>r. fst (decodeWhatsApp (dlCodec d)
          (dlWhatsApp d) (dlWhatsAppFrame d) (dlWhatsAppMessage d) (dlWhatsAppHistory d) r))
      else if codec = SlackCodec then Some (PlatformSlack, decodeSlack (dlCodec d) (dlSlackFrame d))
      else if codec = SignalCodec then
        Some (PlatformSignal, decodeSignal (dlCodec d) (dlSignalFrame d) (dlSignalLine d))
      else None)"

section \<open>Well-formed events\<close>

text \<open>The events of a decoder: made of one payload and its kind.\<close>

definition madeEvent :: "event \<Rightarrow> bool" where
  "madeEvent e \<longleftrightarrow> (\<exists>c. e = conversationEventOf c) \<or> (\<exists>m. e = messageOf m) \<or> (\<exists>u. e = mutationOf u) \<or>
     (\<exists>r. e = reactionOf r) \<or> (\<exists>t. e = receiptOf t)"

lemma made_events [simp, intro]:
  "madeEvent (conversationEventOf c)" "madeEvent (messageOf m)" "madeEvent (mutationOf u)"
  "madeEvent (reactionOf r)" "madeEvent (receiptOf t)"
  unfolding madeEvent_def by blast+

lemma made_valid: "madeEvent e \<Longrightarrow> validateDecodedEvent e"
  by (auto simp: madeEvent_def)

definition goodEvents :: "decoded \<Rightarrow> bool" where
  "goodEvents d \<longleftrightarrow> (case d of Decoded es \<Rightarrow> \<forall>e \<in> set es. madeEvent e | DecodeFailed \<Rightarrow> True | DecodePanicked \<Rightarrow> False)"

lemma goodEvents_simps [simp]:
  "goodEvents (Decoded es) \<longleftrightarrow> (\<forall>e \<in> set es. madeEvent e)" "goodEvents DecodeFailed" "\<not> goodEvents DecodePanicked"
  by (simp_all add: goodEvents_def)

lemma decodeSlack_good: "goodEvents (decodeSlack x u r)"
  by (auto simp: decodeSlack_def Let_def slackReactions_def split: option.split)

lemma signalReaction_made:
  "decodeSignalReaction x a c ac an r t s = Some e \<Longrightarrow> madeEvent e"
  by (auto simp: decodeSignalReaction_def Let_def split: if_splits)

lemma signalData_made: "decodeSignalData x a env m s = Inr (Some e) \<Longrightarrow> madeEvent e"
  by (auto simp: decodeSignalData_def Let_def split: if_splits option.splits dest: signalReaction_made)

lemma signalEdit_made: "decodeSignalEdit x a env m s = Inr (Some e) \<Longrightarrow> madeEvent e"
  by (auto simp: decodeSignalEdit_def Let_def split: if_splits option.splits)

lemma signalSent_made: "decodeSignalSent x a env m s = Inr (Some e) \<Longrightarrow> madeEvent e"
  by (auto simp: decodeSignalSent_def Let_def split: if_splits option.splits dest: signalReaction_made)

lemma decodeParts_good:
  "(\<And>e. Inr (Some e) \<in> set ps \<Longrightarrow> madeEvent e) \<Longrightarrow> goodEvents (decodeParts ps)"
proof (induction ps)
  case (Cons p ps)
  then have "goodEvents (decodeParts ps)" by simp
  with Cons.prems show ?case
    by (cases p; cases "decodeParts ps") (auto split: option.split)
qed simp

lemma decodeSignal_good: "goodEvents (decodeSignal x u p r)"
proof -
  have "goodEvents (decodeParts
       [(case ed of None \<Rightarrow> Inr None | Some e \<Rightarrow> decodeSignalEdit x a env e s),
        (case da of None \<Rightarrow> Inr None | Some m \<Rightarrow> decodeSignalData x a env m s),
        (case sy of Some (Some sent) \<Rightarrow> decodeSignalSent x a env sent t | _ \<Rightarrow> Inr None)])" for ed da sy a env s t
    by (rule decodeParts_good)
      (auto split: option.splits dest: sym [THEN signalEdit_made] sym [THEN signalData_made] sym [THEN signalSent_made])
  then show ?thesis
    unfolding decodeSignal_def Let_def by (auto split: option.split prod.split)
qed

lemma decodeGoogle_good: "goodEvents (fst (decodeGoogle x u pm pc r))"
  by (auto simp: decodeGoogle_def decodeGoogleMessage_def googleReactions_def googleConversationEvent_def Let_def
      split: option.split prod.split)

lemma messageProto_made: "e \<in> set (fst (decodeMessageProto x l env m h)) \<Longrightarrow> madeEvent e"
  by (auto simp: decodeMessageProto_def decodeProtocol_def unsupported_def Let_def
      split: option.splits if_splits wa_protocol_type.splits)

lemma historyItem_made: "e \<in> set (fst (decodeHistoryItem x l h c i)) \<Longrightarrow> madeEvent e"
  by (auto simp: decodeHistoryItem_def Let_def case_prod_unfold split: option.splits if_splits
      dest: messageProto_made)

lemma historyConversation_made: "e \<in> set (fst (decodeHistoryConversation x l h c)) \<Longrightarrow> madeEvent e"
  by (auto simp: decodeHistoryConversation_def Let_def split: option.splits if_splits dest: historyItem_made)

lemma decodeWhatsApp_good: "goodEvents (fst (decodeWhatsApp x l u pm ph r))"
proof -
  have "\<forall>e \<in> set (fst (decodeHistorySync x l h)). madeEvent e" for h
    by (auto simp: decodeHistorySync_def Let_def dest: historyConversation_made)
  moreover have "\<forall>e \<in> set (fst (decodeMessageProto x l env m False)). madeEvent e" for env m
    using messageProto_made by blast
  moreover have "goodEvents (fst (decodeReceipt x l env))" for env
    by (auto simp: decodeReceipt_def Let_def split: option.splits prod.splits)
  ultimately show ?thesis
    unfolding decodeWhatsApp_def by (auto simp: case_prod_unfold Let_def split: option.split)
qed
section \<open>What Signal edits and reactions name\<close>

text \<open>An event that comes of a reaction, in a message of another or in one of our own.\<close>

definition reactionEvent :: "codec_env \<Rightarrow> string \<Rightarrow> signal_reaction \<Rightarrow> event \<Rightarrow> bool" where
  "reactionEvent x account r e \<longleftrightarrow>
     (\<exists>env m source. scReaction m = Some r \<and> decodeSignalData x account env m source = Inr (Some e)) \<or>
     (\<exists>env sent target. scReaction sent = Some r \<and> decodeSignalSent x account env sent target = Inr (Some e))"

lemma reactionOf_simps [simp]: "evReaction (reactionOf u) = Some u" "evMessage (messageOf v) = Some v"
  "evMessage (reactionOf u) = None" "evReaction (messageOf v) = None" "evMessageMutation (mutationOf k) = Some k"
  by (simp_all add: reactionOf_def messageOf_def mutationOf_def)

lemma decodeSignalReaction_target:
  assumes "decodeSignalReaction x account c actor name r t self = Some e" and "evReaction e = Some u"
  shows "rvTargetRemoteMessageID u =
    (if addressesMatch x (trimSpace (reactionTargetAuthor r account)) account then formatInt (reactionTargetTimestamp r)
     else signalIncomingSourceID (xcSHA1 x) (rvRemoteConversationID u) (trimSpace (reactionTargetAuthor r account))
       (reactionTargetTimestamp r))"
  using assms by (auto simp: decodeSignalReaction_def Let_def split: if_splits)

lemma reactionEvent_target:
  assumes "reactionEvent x account r e" and "evReaction e = Some u"
  shows "rvTargetRemoteMessageID u =
    (if addressesMatch x (trimSpace (reactionTargetAuthor r account)) account then formatInt (reactionTargetTimestamp r)
     else signalIncomingSourceID (xcSHA1 x) (rvRemoteConversationID u) (trimSpace (reactionTargetAuthor r account))
       (reactionTargetTimestamp r))"
  using assms(1) unfolding reactionEvent_def
proof (elim disjE exE conjE)
  fix env m source
  assume "scReaction m = Some r" and "decodeSignalData x account env m source = Inr (Some e)"
  then obtain c name t where "decodeSignalReaction x account c (trimSpace source) name r t False = Some e"
    by (auto simp: decodeSignalData_def Let_def split: if_splits)
  then show ?thesis using assms(2) by (rule decodeSignalReaction_target)
next
  fix env sent target
  assume "scReaction sent = Some r" and "decodeSignalSent x account env sent target = Inr (Some e)"
  then obtain c t where "decodeSignalReaction x account c account '''' r t True = Some e"
    by (auto simp: decodeSignalSent_def Let_def split: if_splits)
  then show ?thesis using assms(2) by (rule decodeSignalReaction_target)
qed

text \<open>The message of an envelope, received or our own, with the time that names it.\<close>

lemma decodeSignalData_message:
  assumes "decodeSignalData x account env m source = Inr (Some e)" and "evMessage e = Some v"
  shows "meRemoteConversationID v = signalConversationID x (trimSpace source) (groupOf m) \<and>
    meRemoteMessageID v = signalIncomingSourceID (xcSHA1 x) (meRemoteConversationID v) (trimSpace source)
      (if scTimestamp m = 0 then enTimestamp env else scTimestamp m) \<and>
    0 < (if scTimestamp m = 0 then enTimestamp env else scTimestamp m) \<and>
    \<not> blank source \<and> \<not> addressesMatch x (trimSpace source) account"
  using assms by (auto simp: decodeSignalData_def decodeSignalReaction_def Let_def split: if_splits option.splits)

lemma decodeSignalSent_message:
  assumes "decodeSignalSent x account env sent target = Inr (Some e)" and "evMessage e = Some v"
  shows "meRemoteMessageID v = formatInt (if scTimestamp sent = 0 then enTimestamp env else scTimestamp sent)"
  using assms by (auto simp: decodeSignalSent_def decodeSignalReaction_def Let_def split: if_splits option.splits)

text \<open>
  C26: edits and reactions of Signal find their message. An edit by the sender of a message, and a
  reaction by anyone in its conversation that names its sender and time, decode to the very remote
  ID under which the message itself is stored; a reaction that names our own account decodes to the
  ID of the message that we sent at that time, as our own sync transcript stores it.
\<close>

theorem signal_targets_message:
  assumes "decodeSignalData x account env m source = Inr (Some e)" and "evMessage e = Some v"
    and "ts = (if scTimestamp m = 0 then enTimestamp env else scTimestamp m)"
    and "decodeSignalSent x account env' sent target = Inr (Some e')" and "evMessage e' = Some v'"
    and "ts' = (if scTimestamp sent = 0 then enTimestamp env' else scTimestamp sent)"
  shows "(\<forall>env2 (edit :: signal_edit) d. sdDataMessage edit = Some d \<and> groupOf d = groupOf m \<and> sdTargetSentTimestamp edit = ts \<longrightarrow>
      (\<exists>u. decodeSignalEdit x account env2 edit source = Inr (Some (mutationOf u)) \<and>
         muRemoteConversationID u = meRemoteConversationID v \<and> muRemoteMessageID u = meRemoteMessageID v)) \<and>
    (\<forall>r e2 u. reactionEvent x account r e2 \<and> evReaction e2 = Some u \<and>
       rvRemoteConversationID u = meRemoteConversationID v \<and> reactionTargetTimestamp r = ts \<and>
       reactionTargetAuthor r account = trimSpace source \<longrightarrow> rvTargetRemoteMessageID u = meRemoteMessageID v) \<and>
    (\<forall>r e2 u. reactionEvent x account r e2 \<and> evReaction e2 = Some u \<and> reactionTargetTimestamp r = ts' \<and>
       addressesMatch x (reactionTargetAuthor r account) account \<longrightarrow> rvTargetRemoteMessageID u = meRemoteMessageID v')"
proof (intro conjI allI impI)
  note got = decodeSignalData_message [OF assms(1,2), folded assms(3)]
  fix env2 and edit :: signal_edit and d
  assume "sdDataMessage edit = Some d \<and> groupOf d = groupOf m \<and> sdTargetSentTimestamp edit = ts"
  with got show "\<exists>u. decodeSignalEdit x account env2 edit source = Inr (Some (mutationOf u)) \<and>
         muRemoteConversationID u = meRemoteConversationID v \<and> muRemoteMessageID u = meRemoteMessageID v"
    by (auto simp: decodeSignalEdit_def Let_def)
next
  note got = decodeSignalData_message [OF assms(1,2), folded assms(3)]
  fix r e2 u
  assume h: "reactionEvent x account r e2 \<and> evReaction e2 = Some u \<and>
       rvRemoteConversationID u = meRemoteConversationID v \<and> reactionTargetTimestamp r = ts \<and>
       reactionTargetAuthor r account = trimSpace source"
  then show "rvTargetRemoteMessageID u = meRemoteMessageID v"
    using reactionEvent_target [of x account r e2 u] got by simp
next
  fix r e2 u
  assume h: "reactionEvent x account r e2 \<and> evReaction e2 = Some u \<and> reactionTargetTimestamp r = ts' \<and>
       addressesMatch x (reactionTargetAuthor r account) account"
  then have "addressesMatch x (trimSpace (reactionTargetAuthor r account)) account"
    by (simp add: addressesMatch_def)
  with h show "rvTargetRemoteMessageID u = meRemoteMessageID v'"
    using reactionEvent_target [of x account r e2 u] decodeSignalSent_message [OF assms(4,5), folded assms(6)] by simp
qed

definition demoCodec :: codec_env where
  "demoCodec = \<lparr>xcString = id, xcValid = (\<lambda>_. True), xcSHA1 = id, xcSHA256 = rev, xcLower = id, xcFold = (=)\<rparr>"

definition demoContent :: signal_content where
  "demoContent = \<lparr>scTimestamp = 900, scMessage = ''hello'', scGroupInfo = None, scAttachments = [],
     scReaction = None, scIsExpirationUpdate = False, scViewOnce = False, scPayment = '''', scPreviews = [],
     scSticker = '''', scRemoteDelete = '''', scContacts = [], scPollCreate = '''', scPollVote = '''',
     scPollTerminate = '''', scStoryContext = '''', scPinMessage = '''', scUnpinMessage = '''', scAdminDelete = ''''\<rparr>"

definition demoEnvelope :: signal_envelope where
  "demoEnvelope = \<lparr>enSource = '''', enSourceName = '''', enSourceNumber = ''+15551234'', enSourceUUID = '''',
     enSourceServiceID = '''', enTimestamp = 900, enDataMessage = None, enEditMessage = None, enSync = None, enTyping = None\<rparr>"

definition demoTranscript :: signal_sent where
  "demoTranscript = signal_content.extend demoContent
     (signal_sent.fields '''' ''+15551234'' '''' '''' '''' None)"

lemma demo_decoded:
  "\<exists>e v. decodeSignalData demoCodec ''+19990000'' demoEnvelope demoContent ''+15551234'' = Inr (Some e) \<and> evMessage e = Some v \<and>
     meRemoteMessageID v = signalIncomingSourceID id ''signal:+15551234'' ''+15551234'' 900"
  "\<exists>e v. decodeSignalSent demoCodec ''+19990000'' demoEnvelope demoTranscript ''+15551234'' = Inr (Some e) \<and> evMessage e = Some v"
proof -
  have t: "trimSpace ''+15551234'' = ''+15551234''" "trimSpace ''+19990000'' = ''+19990000''"
    by (rule trimSpace_plain; simp add: plainChar_def)+
  have c: "signalConversationID demoCodec ''+15551234'' '''' = ''signal:+15551234''"
    using normalizeProvider_known [of ProviderSignal id] t
    by (simp add: signalConversationID_def scopedID_def demoCodec_def isDefaultRiverID_def trimSpace_plain plainChar_def)
  have sha: "xcSHA1 demoCodec = id" by (simp add: demoCodec_def)
  have m: "\<not> addressesMatch demoCodec ''+15551234'' ''+19990000''"
    by (simp add: addressesMatch_def equalFold_def t asciiText_def asciiLower_def)
  show "\<exists>e v. decodeSignalData demoCodec ''+19990000'' demoEnvelope demoContent ''+15551234'' = Inr (Some e) \<and> evMessage e = Some v \<and>
     meRemoteMessageID v = signalIncomingSourceID id ''signal:+15551234'' ''+15551234'' 900"
    using c m sha by (simp add: decodeSignalData_def demoContent_def demoEnvelope_def t groupOf_def Let_def)
  show "\<exists>e v. decodeSignalSent demoCodec ''+19990000'' demoEnvelope demoTranscript ''+15551234'' = Inr (Some e) \<and> evMessage e = Some v"
    using c by (simp add: decodeSignalSent_def demoTranscript_def demoContent_def demoEnvelope_def t groupOf_def
        Let_def signal_content.defs signal_sent.defs)
qed

lemma signal_targets_message_witness:
  "\<exists>e v. decodeSignalData demoCodec ''+19990000'' demoEnvelope demoContent ''+15551234'' = Inr (Some e) \<and> evMessage e = Some v \<and>
     (\<exists>u. decodeSignalEdit demoCodec ''+19990000'' demoEnvelope \<lparr>sdTargetSentTimestamp = 900, sdDataMessage = Some demoContent\<rparr>
        ''+15551234'' = Inr (Some (mutationOf u)) \<and> muRemoteMessageID u = meRemoteMessageID v)"
proof -
  from demo_decoded obtain e v e' v' where
    "decodeSignalData demoCodec ''+19990000'' demoEnvelope demoContent ''+15551234'' = Inr (Some e)" "evMessage e = Some v"
    "decodeSignalSent demoCodec ''+19990000'' demoEnvelope demoTranscript ''+15551234'' = Inr (Some e')" "evMessage e' = Some v'"
    by blast
  note all = signal_targets_message [OF this(1,2) _ this(3,4) refl, of 900]
  have "900 = (if scTimestamp demoContent = 0 then enTimestamp demoEnvelope else scTimestamp demoContent)"
    by (simp add: demoContent_def)
  from all [OF this, THEN conjunct1, rule_format, of "\<lparr>sdTargetSentTimestamp = 900, sdDataMessage = Some demoContent\<rparr>"
      demoContent demoEnvelope]
  have "\<exists>u. decodeSignalEdit demoCodec ''+19990000'' demoEnvelope
      \<lparr>sdTargetSentTimestamp = 900, sdDataMessage = Some demoContent\<rparr> ''+15551234'' = Inr (Some (mutationOf u)) \<and>
      muRemoteConversationID u = meRemoteConversationID v \<and> muRemoteMessageID u = meRemoteMessageID v"
    by simp
  with \<open>evMessage e = Some v\<close> \<open>decodeSignalData _ _ _ _ _ = _\<close> show ?thesis by blast
qed

lemma evReaction_simps [simp]: "evReaction (conversationEventOf c) = None" "evReaction (mutationOf k) = None"
  "evReaction (receiptOf t) = None"
  by (simp_all add: conversationEventOf_def mutationOf_def receiptOf_def)

text \<open>A reaction of the list that has a target has it in the list.\<close>

definition targetsOwnMessage :: "event list \<Rightarrow> event \<Rightarrow> bool" where
  "targetsOwnMessage es e \<longleftrightarrow> (\<forall>u. evReaction e = Some u \<and> rvTargetRemoteMessageID u \<noteq> '''' \<longrightarrow>
     (\<exists>m \<in> set es. \<exists>v. evMessage m = Some v \<and> meRemoteConversationID v = rvRemoteConversationID u \<and>
        meRemoteMessageID v = rvTargetRemoteMessageID u))"

lemma decodeSlack_Decoded:
  assumes "decodeSlack x u r = Decoded es" and "es \<noteq> []"
  shows "\<exists>f c ts t. u (riPayload r) = Some f \<and> c = trimSpace (skChannelID f) \<and> ts = trimSpace (skTS f) \<and>
    es = [conversationEventOf (slackConversation f c), messageOf (slackMessage x f c ts t)] @
         slackReactions c ts t (skReactions f)"
  using assms unfolding decodeSlack_def Let_def by (simp split: option.splits if_splits; blast)

lemma slackMessage_simps [simp]: "meRemoteConversationID (slackMessage x f c ts t) = c"
  "meRemoteMessageID (slackMessage x f c ts t) = ts"
  by (simp_all add: slackMessage_def)

lemma slackReactions_target:
  "e \<in> set (slackReactions c ts t rs) \<Longrightarrow> evReaction e = Some u \<Longrightarrow>
   rvRemoteConversationID u = c \<and> rvTargetRemoteMessageID u = ts"
  by (auto simp: slackReactions_def)

lemma slack_targets:
  assumes "decodeSlack x u r = Decoded es" and "e \<in> set es"
  shows "targetsOwnMessage es e"
proof -
  have "es \<noteq> []" using assms(2) by auto
  with assms(1) obtain f c ts t where es: "es = [conversationEventOf (slackConversation f c), messageOf (slackMessage x f c ts t)]
      @ slackReactions c ts t (skReactions f)"
    using decodeSlack_Decoded by blast
  then have "messageOf (slackMessage x f c ts t) \<in> set es" by simp
  moreover have "rvRemoteConversationID v = c \<and> rvTargetRemoteMessageID v = ts" if "evReaction e = Some v" for v
    using assms(2) that es slackReactions_target [of e c ts t "skReactions f" v] by auto
  ultimately show ?thesis unfolding targetsOwnMessage_def
    by (intro allI impI bexI [where x = "messageOf (slackMessage x f c ts t)"]
        exI [where x = "slackMessage x f c ts t"]) auto
qed

lemma google_message_targets: "e \<in> set (fst (decodeGoogleMessage x m)) \<Longrightarrow>
    targetsOwnMessage (fst (decodeGoogleMessage x m)) e"
  by (auto simp: decodeGoogleMessage_def googleReactions_def googleReactionEvent_def targetsOwnMessage_def Let_def
      split: option.splits prod.splits if_splits)

lemma google_targets: "fst (decodeGoogle x u pm pc r) = Decoded es \<Longrightarrow> e \<in> set es \<Longrightarrow> targetsOwnMessage es e"
  using google_message_targets
  by (auto simp: decodeGoogle_def case_prod_unfold Let_def googleConversationEvent_def targetsOwnMessage_def
      split: option.splits if_splits)


definition demoSlackFrame :: slack_frame where
  "demoSlackFrame = \<lparr>skKind = ''message'', skChannelID = ''D1'', skChannelName = '''', skChannelKind = '''',
     skTS = ''17.1'', skThreadTS = '''', skUserID = ''U2'', skUserName = ''Bob'', skBody = ''hello'',
     skIsFromMe = False, skTimestampMS = 900, skReactions = [], skFiles = [], skBlocksJSON = ''''\<rparr>"

definition demoSlackIngress :: raw_ingress where
  "demoSlackIngress = \<lparr>riAccountID = ''a1'', riGeneration = 1, riDedupeKey = ''D1:17.1'', riCodec = SlackCodec,
     riCodecVersion = 1, riReceivedAt = timeOfUnixMilli 1000, riPayload = ''frame''\<rparr>"

definition demoDecoders :: decoder_lib where
  "demoDecoders = \<lparr>dlCodec = demoCodec, dlSlackFrame = (\<lambda>p. Some demoSlackFrame), dlSignalFrame = (\<lambda>_. None),
     dlSignalLine = (\<lambda>_. None), dlGoogleFrame = (\<lambda>_. None), dlGoogleMessage = (\<lambda>_. None),
     dlGoogleConversation = (\<lambda>_. None),
     dlWhatsApp = \<lparr>wlParse = (\<lambda>_. None), wlText = wjUser, wlOrder = id\<rparr>, dlWhatsAppFrame = (\<lambda>_. None),
     dlWhatsAppMessage = (\<lambda>_. None), dlWhatsAppHistory = (\<lambda>_. None)\<rparr>"

lemma demoSlack_trim: "trimSpace ''D1'' = ''D1''" "trimSpace ''17.1'' = ''17.1''" "trimSpace ''U2'' = ''U2''"
  "trimSpace ''message'' = ''message''" "trimSpace ''Bob'' = ''Bob''" "trimSpace ''hello'' = ''hello''"
  by (rule trimSpace_plain; simp add: plainChar_def)+

lemma demoSlack_decoded: "decodeSlack demoCodec (\<lambda>p. Some demoSlackFrame) demoSlackIngress =
    Decoded [conversationEventOf (slackConversation demoSlackFrame ''D1''),
      messageOf (slackMessage demoCodec demoSlackFrame ''D1'' ''17.1'' (timeOfUnixMilli 900))]"
  by (simp add: decodeSlack_def demoSlackIngress_def demoSlackFrame_def slackCodecVersion_def slackReactions_def demoSlack_trim Let_def)

section \<open>The roster of a refreshed conversation\<close>

lemma insertParticipants_rows:
  "insertParticipants a c ps s = Inr t \<Longrightarrow>
   participants t = participants s @ map (participantOf a c) ps \<and> identities t = identities s"
proof (induction ps arbitrary: s)
  case (Cons p ps)
  then obtain s1 where one: "insertParticipantRow False (participantOf a c p) s = Inr s1"
    and rest: "insertParticipants a c ps s1 = Inr t"
    by (auto split: if_splits sum.splits)
  from one have "participants s1 = participants s @ [participantOf a c p]" "identities s1 = identities s"
    by (auto simp: insertParticipantRow_def split: if_splits)
  with Cons.IH [OF rest] show ?case by simp
qed simp

lemma replaceParticipants_rows:
  assumes "replaceConversationParticipants c ps s = Inr t"
  shows "map cpIdentityID (filter (\<lambda>r. cpConversationID r = c) (participants t)) = map cpIdentityID ps \<and>
    identities t = identities s"
proof -
  from assms obtain a where "insertParticipants a c ps
      (s\<lparr>participants := filter (\<lambda>r. cpConversationID r \<noteq> c) (participants s)\<rparr>) = Inr t"
    by (auto simp: replaceConversationParticipants_def split: option.splits)
  from insertParticipants_rows [OF this]
  have rows: "participants t = filter (\<lambda>r. cpConversationID r \<noteq> c) (participants s) @ map (participantOf a c) ps"
    and same: "identities t = identities s" by simp_all
  have "filter (\<lambda>r. cpConversationID r = c) (map (participantOf a c) ps) = map (participantOf a c) ps"
    by (simp add: participantOf_def)
  with rows have "filter (\<lambda>r. cpConversationID r = c) (participants t) = map (participantOf a c) ps" by simp
  moreover have "map cpIdentityID (map (participantOf a c) ps) = map cpIdentityID ps"
    by (simp add: participantOf_def)
  ultimately show ?thesis using same by simp
qed

lemma resolveIdentity_Inr:
  assumes "resolveIdentity env a platform r w = (Inr i, w1)"
  shows "\<exists>k. identityKey (ieUnicodeLower env) a platform (identityRaw r) = Some k \<and>
    getIdentityByCanonical a (ikKind k) (ikCanonical k) (igStore w1) = Inr i"
proof (cases "identityKey (ieUnicodeLower env) a platform (identityRaw r)")
  case (Some k)
  with assms obtain w2 where "query env (getIdentityByCanonical a (ikKind k) (ikCanonical k)) w2 = (Inr i, w1)"
    by (auto simp: resolveIdentity_def Let_def andThen_Inr)
  with Some show ?thesis by (auto dest: query_Inr)
qed (use assms in \<open>simp add: resolveIdentity_def refuse_def\<close>)

text \<open>An event with one participant leaves one.\<close>

lemma prepare_single:
  "prepareParticipants env a platform [p] [] = Inr prepared \<Longrightarrow> \<exists>k role. prepared = [(k, p, role)]"
  by (auto simp: Let_def sqlFind_def split: option.splits)

lemma if_split_act: "(if b then m else n) w = (Inr y, w1) \<longleftrightarrow> b \<and> m w = (Inr y, w1) \<or> \<not> b \<and> n w = (Inr y, w1)"
  by simp

lemma refresh_roster:
  assumes "refreshConversation env a platform e w = (Inr c, w1)"
  shows "\<exists>prepared ps w2 w3. prepareParticipants env a platform (ceParticipants e) [] = Inr prepared \<and>
    foldActs (eventParticipant env a platform (cvConversationID c)) prepared [] w2 = (Inr ps, w3) \<and>
    exec env (\<lambda>_ s. unitResult (replaceConversationParticipants (cvConversationID c) ps s)) w3 = (Inr (), w1)"
proof (cases "prepareParticipants env a platform (ceParticipants e) []")
  case (Inl d)
  with assms show ?thesis
    unfolding refreshConversation_def Let_def by (simp add: refuse_Inr split: if_splits)
next
  case (Inr prepared)
  show ?thesis
    using assms unfolding refreshConversation_def Let_def Inr sum.case
    apply (simp only: if_split_act refuse_Inr simp_thms)
    apply (simp only: andThen_Inr give_Inr)
    apply (elim exE conjE)
    apply (hypsubst)
    apply (intro exI conjI)
      apply (rule refl)
     apply assumption
    apply simp
    done
qed

lemma refresh_single:
  assumes "refreshConversation env a platform e w = (Inr c, w1)" and "ceParticipants e = [p]"
  shows "\<exists>k i. identityKey (ieUnicodeLower env) a platform (identityRaw (epIdentity p)) = Some k \<and>
    getIdentityByCanonical a (ikKind k) (ikCanonical k) (igStore w1) = Inr i \<and>
    map cpIdentityID (filter (\<lambda>r. cpConversationID r = cvConversationID c) (participants (igStore w1))) = [idIdentityID i]"
proof -
  from refresh_roster [OF assms(1)] obtain prepared ps w2 w3 where
      prep: "prepareParticipants env a platform [p] [] = Inr prepared"
      and roster: "foldActs (eventParticipant env a platform (cvConversationID c)) prepared [] w2 = (Inr ps, w3)"
      and put: "exec env (\<lambda>_ s. unitResult (replaceConversationParticipants (cvConversationID c) ps s)) w3 = (Inr (), w1)"
    unfolding assms(2) by blast
  from prepare_single [OF prep] obtain nk role where "prepared = [(nk, p, role)]" by blast
  with roster obtain i where one: "resolveIdentity env a platform (epIdentity p) w2 = (Inr i, w3)"
      "map cpIdentityID ps = [idIdentityID i]"
    by (auto simp: eventParticipant_def andThen_Inr give_Inr)
  from exec_unit [OF put] have "replaceConversationParticipants (cvConversationID c) ps (igStore w3) = Inr (igStore w1)" .
  from replaceParticipants_rows [OF this] resolveIdentity_Inr [OF one(1)] one(2) show ?thesis
    by (auto simp: getIdentityByCanonical_def)
qed

lemma identityRaw_slack: "identityRaw (slackIdentity u n b) = trimSpace u"
  by (cases "blank u") (simp_all add: identityRaw_def slackIdentity_def Let_def trimSpace_plain)

text \<open>
  C38: a Slack frame makes its sender the only participant of the conversation. The decoder emits a
  conversation event with the sender alone, and the worker takes the participants of an event for
  the whole roster: after the event is applied the rows of the conversation are exactly one, the
  identity of the sender, whoever took part before.
\<close>

theorem slack_frame_replaces_roster:
  assumes "decodeSlack x unmarshal r = Decoded (e # es)" and "evConversation e = Some v"
    and "refreshConversation env a PlatformSlack v w = (Inr c, w1)"
  shows "\<exists>f k i. unmarshal (riPayload r) = Some f \<and>
    identityKey (ieUnicodeLower env) a PlatformSlack (trimSpace (skUserID f)) = Some k \<and>
    getIdentityByCanonical a (ikKind k) (ikCanonical k) (igStore w1) = Inr i \<and>
    map cpIdentityID (filter (\<lambda>p. cpConversationID p = cvConversationID c) (participants (igStore w1)))
      = [idIdentityID i]"
proof -
  from decodeSlack_Decoded [OF assms(1)] assms(2) obtain f ch where f: "unmarshal (riPayload r) = Some f"
    and v: "v = slackConversation f ch"
    by (auto simp: conversationEventOf_def)
  have "ceParticipants v = [\<lparr>epIdentity = slackIdentity (skUserID f) (skUserName f) (skIsFromMe f),
      epRole = ''member'', epActive = True\<rparr>]"
    by (simp add: v slackConversation_def)
  from refresh_single [OF assms(3) this] f show ?thesis
    by (simp add: identityRaw_slack)
qed

definition demoSender :: identity where
  "demoSender = (graphIdentity ''i3'' ''U2'')\<lparr>idKind := ''slack_user''\<rparr>"

definition demoSenderNow :: identity where
  "demoSenderNow = demoSender\<lparr>idDisplayName := ''Bob'', idUpdatedAtMS := 2000\<rparr>"

definition demoPeers :: store where
  "demoPeers = demoThreads\<lparr>identities := identities demoThreads @ [demoSender]\<rparr>"

definition demoRefreshed :: conversation where
  "demoRefreshed = (graphConversation ''c1'' ''thread-1'')\<lparr>cvKind := ''group'', cvTitle := '''', cvUpdatedAtMS := 2000\<rparr>"

definition demoMoved :: store where
  "demoMoved = demoPeers\<lparr>conversations := [demoRefreshed, graphConversation ''c2'' ''thread-2'']\<rparr>"

definition demoKnown :: store where
  "demoKnown = demoMoved\<lparr>identities := identities demoThreads @ [demoSenderNow]\<rparr>"

lemma demo_refresh_parts:
  "getConversationByRemote ''a1'' ''thread-1'' demoPeers = Inr (graphConversation ''c1'' ''thread-1'')"
  "getConversationByRemote ''a1'' ''thread-1'' demoMoved = Inr demoRefreshed"
  "getIdentityByCanonical ''a1'' ''slack_user'' ''U2'' demoMoved = Inr demoSender"
  "upsertConversation anyJSON demoRefreshed demoPeers = Inr demoMoved"
  "upsertIdentity anyJSON demoSenderNow demoMoved = Inr demoKnown"
  "getIdentityByCanonical ''a1'' ''slack_user'' ''U2'' demoKnown = Inr demoSenderNow"
  "identityKey id ''a1'' PlatformSlack ''U2'' = Some \<lparr>ikAccountID = ''a1'', ikKind = ''slack_user'', ikCanonical = ''U2''\<rparr>"
  "unixMilliOf (timeOfUnixMilli 2000) = 2000"
  "normalizeRemoteConversationID PlatformSlack ''thread-1'' = ''thread-1''"
  by code_simp+

lemma demo_refresh_kinds: "conversationKind ''group'' ''direct'' = Some ''group''" 
  "participantRole ''member'' = Some ''member''"
  by code_simp+

definition demoRosterRow :: participant where
  "demoRosterRow = (demoMember ''c1'' ''i3'')\<lparr>cpDisplayName := ''Bob''\<rparr>"

lemma demo_roster_put: "replaceConversationParticipants ''c1'' [demoRosterRow] demoKnown =
  Inr (demoKnown\<lparr>participants := [demoMember ''c2'' ''i2'', demoRosterRow]\<rparr>)"
  by code_simp

definition demoRosterFrame :: slack_frame where
  "demoRosterFrame = demoSlackFrame\<lparr>skChannelID := ''thread-1'', skChannelKind := ''group''\<rparr>"

lemma demoRoster_trim: "trimSpace ''thread-1'' = ''thread-1''" "trimSpace ''group'' = ''group''" "trimSpace '''' = ''''"
  by (rule trimSpace_plain; simp add: plainChar_def)+

lemma demoRoster_decoded: "decodeSlack demoCodec (\<lambda>p. Some demoRosterFrame) demoSlackIngress =
    Decoded [conversationEventOf (slackConversation demoRosterFrame ''thread-1''),
      messageOf (slackMessage demoCodec demoRosterFrame ''thread-1'' ''17.1'' (timeOfUnixMilli 900))]"
  by (simp add: decodeSlack_def demoSlackIngress_def demoRosterFrame_def demoSlackFrame_def slackCodecVersion_def
      slackReactions_def demoSlack_trim demoRoster_trim Let_def)

lemma demo_resolve:
  assumes "igStore w = demoMoved"
  shows "\<exists>w1. resolveIdentity demoEnv ''a1'' PlatformSlack (slackIdentity ''U2'' ''Bob'' False) w
    = (Inr demoSenderNow, w1) \<and> igStore w1 = demoKnown"
proof -
  have calm: "ieBusy demoEnv n = False" "ieClock demoEnv n k = timeOfUnixMilli 2000" "ieJSONValid demoEnv = anyJSON"
    "ieUnicodeLower demoEnv = id" for n k
    by (simp_all add: demoEnv_def fun_eq_iff)
  have "refreshedIdentity ''U2'' (slackIdentity ''U2'' ''Bob'' False) 2000 demoSender = demoSenderNow"
    by (simp add: refreshedIdentity_def slackIdentity_def demoSlack_trim demoSenderNow_def demoSender_def graphIdentity_def)
  then show ?thesis
    using assms by (simp add: resolveIdentity_def identityRaw_slack demoSlack_trim demo_refresh_parts calm andThen_def
        readNow_def found_def query_def exec_def unitResult_def Let_def)
qed

lemma slack_frame_replaces_roster_witness:
  "\<exists>v c w. evConversation (conversationEventOf (slackConversation demoRosterFrame ''thread-1'')) = Some v \<and>
     refreshConversation demoEnv ''a1'' PlatformSlack v (demoIngest\<lparr>igStore := demoPeers\<rparr>) = (Inr c, w) \<and>
     map cpIdentityID (filter (\<lambda>p. cpConversationID p = cvConversationID c) (participants demoPeers)) = [''i1''] \<and>
     (\<exists>i. getIdentityByCanonical ''a1'' ''slack_user'' ''U2'' (igStore w) = Inr i \<and>
       map cpIdentityID (filter (\<lambda>p. cpConversationID p = cvConversationID c) (participants (igStore w)))
         = [idIdentityID i])"
proof -
  let ?v = "slackConversation demoRosterFrame ''thread-1''"
  let ?p = "\<lparr>epIdentity = slackIdentity ''U2'' ''Bob'' False, epRole = ''member'', epActive = True\<rparr>"
  let ?r = "\<lparr>ceRemoteConversationID = ''thread-1'', ceKind = ''group'', ceTitle = '''', ceParticipants = [?p],
      ceRemoteRevision = ''''\<rparr>"
  let ?w = "demoIngest\<lparr>igStore := demoPeers\<rparr>"
  have calm: "ieBusy demoEnv n = False" "ieClock demoEnv n k = timeOfUnixMilli 2000" "ieJSONValid demoEnv = anyJSON"
    "ieUnicodeLower demoEnv = id" for n k
    by (simp_all add: demoEnv_def fun_eq_iff)
  have v: "?v = ?r"
    by (simp add: slackConversation_def demoRosterFrame_def demoSlackFrame_def demoRoster_trim)
  have prep: "prepareParticipants demoEnv ''a1'' PlatformSlack [?p] [] =
      Inr [(''slack_user'' @ unitSeparator @ ''U2'', ?p, ''member'')]"
    by (simp add: identityRaw_slack demoSlack_trim demo_refresh_parts demo_refresh_kinds calm sqlFind_def Let_def)
  have fresh: "refreshedConversation demoEnv ''a1'' ?r ''thread-1'' 2000
      (Some (graphConversation ''c1'' ''thread-1'')) u = (Inr demoRefreshed, u)" for u
    by (simp add: refreshedConversation_def demoRoster_trim conversationKind_def give_def demoRefreshed_def
        graphConversation_def optionalTrimmed_def Let_def)
  let ?u = "ticked ((ticked (ticked (ticked ?w)))\<lparr>igStore := demoMoved\<rparr>)"
  obtain w1 where one: "resolveIdentity demoEnv ''a1'' PlatformSlack (slackIdentity ''U2'' ''Bob'' False) ?u
      = (Inr demoSenderNow, w1)" and known: "igStore w1 = demoKnown"
    using demo_resolve [of ?u] by auto
  have name: "irName (slackIdentity ''U2'' ''Bob'' False) = ''Bob''" "idIdentityID demoSenderNow = ''i3''"
    by (simp_all add: slackIdentity_def demoSlack_trim demoSenderNow_def demoSender_def graphIdentity_def)
  have row: "eventParticipant demoEnv ''a1'' PlatformSlack ''c1'' (n, ?p, ''member'') [] ?u = (Inr [demoRosterRow], w1)" for n
    by (simp add: eventParticipant_def andThen_def one name give_def demoRosterRow_def demoMember_def)
  have c1: "cvConversationID demoRefreshed = ''c1''" by (simp add: demoRefreshed_def graphConversation_def)
  have "\<exists>w. refreshConversation demoEnv ''a1'' PlatformSlack ?r ?w = (Inr demoRefreshed, w)"
    by (simp add: refreshConversation_def prep Let_def demo_refresh_parts demoRoster_trim andThen_def readNow_def
        found_def query_def exec_def unitResult_def calm give_def fresh c1 row known demo_roster_put del: prepareParticipants.simps)
  then obtain w where run: "refreshConversation demoEnv ''a1'' PlatformSlack ?v ?w = (Inr demoRefreshed, w)"
    unfolding v by blast
  have before: "map cpIdentityID (filter (\<lambda>p. cpConversationID p = ''c1'') (participants demoPeers)) = [''i1'']"
    by (simp add: demoPeers_def demoThreads_def demoMember_def)
  have ev: "evConversation (conversationEventOf ?v) = Some ?v" by (simp add: conversationEventOf_def)
  have "skUserID demoRosterFrame = ''U2''" by (simp add: demoRosterFrame_def demoSlackFrame_def)
  with slack_frame_replaces_roster [OF demoRoster_decoded ev run] run ev before c1 show ?thesis
    by (auto simp: demoSlack_trim demo_refresh_parts calm)
qed

end
