(* ===== verification/Spec2Isabelle.thy ===== *)
theory Spec2Isabelle
  imports Registry Supervisor_Correct Messages_Correct Service_Correct Graph_Correct Reactions_Correct
    Ingest_Correct Decode_Correct
begin

text \<open>
  om-tui is a local messaging hub: bridges to messaging platforms feed a durable SQLite store,
  and intents to send are kept in a durable outbox from which a dispatcher calls the bridges.

  \<^bold>\<open>Parts and how they interact.\<close> One account supervisor per account
  (\<open>internal/bridge/supervisor.go\<close>) owns the connection's life cycle; the account registry
  (\<open>internal/bridge/registry.go\<close>) hands out dispatch leases on the registered adapters. The
  message repository (\<open>internal/storage/sqlite/messages.go\<close>, \<open>message_attachments.go\<close>) keeps raw
  ingress frames and projects them to messages; the outbox repository
  (\<open>internal/storage/sqlite/outbox.go\<close>) keeps the intents to send, each with the lease of the
  worker that holds it. The message service (\<open>internal/messaging/service.go\<close>) turns commands into
  intents; its dispatcher (\<open>internal/messaging/dispatch.go\<close>) leases due intents, acquires the
  account's adapter from the registry, marks the intent as called, calls the transport once and
  records the outcome. The ingest worker (\<open>internal/ingest/worker.go\<close>, \<open>idspace.go\<close>,
  \<open>participants.go\<close>, \<open>quarantine.go\<close>, \<open>sink.go\<close>) takes the frames that the bridges deliver: its
  sink appends them to the inbox, its loop decodes each into events, by the decoder that is
  registered for the codec of the frame (\<open>googledecoder.go\<close>, \<open>slackdecoder.go\<close>,
  \<open>signaldecoder.go\<close>, \<open>whatsappdecoder.go\<close>), and applies these to the
  identity graph (\<open>internal/storage/sqlite/repositories.go\<close>, \<open>rebind.go\<close>), to messages, reactions
  (\<open>reactions.go\<close>) and read cursors, asks the message service about echoes of its own sends, and
  marks the frame as processed.

  \<^bold>\<open>Theories.\<close>
  \<^item> \<open>Prelude\<close>: time, white space, SQL statements over lists of rows, the locale \<open>machine\<close> of
    state machines with an invariant and a promise.
  \<^item> \<open>Bridge_Types\<close>: \<open>state.go\<close>, \<open>types.go\<close>, \<open>contracts.go\<close> of \<open>internal/bridge\<close>.
  \<^item> \<open>Supervisor\<close>: every handler of the run loop as a function of the record \<open>loop\<close> (the struct
    \<open>supervisorLoop\<close> with the fields of \<open>Supervisor\<close> it shares), and one iteration with its
    concurrent callers as the relation \<open>loopStep\<close>. \<open>Supervisor_Frame\<close> holds what the handlers
    leave alone, \<open>Supervisor_Safety\<close> their invariants, \<open>Supervisor_Reach\<close> the interpretation of
    \<open>machine\<close>, \<open>Supervisor_Correct\<close> the properties of the supervisor.
  \<^item> \<open>Registry\<close>: the registry as a map, the locale \<open>lease_source\<close> and its interpretation.
  \<^item> \<open>Store\<close>: the tables as lists of rows, their constraints, errors as sentinel lists.
    \<open>Repositories\<close>: the reads of accounts, devices, identities and conversations.
  \<^item> \<open>Messages\<close>: the message repository; \<open>Messages_Correct\<close> its properties: the inbox stores an event
    once, projections replay, pages concatenate.
  \<^item> \<open>Outbox\<close>: the outbox repository. \<open>Outbox_Safety\<close> holds the table's invariant and the
    refinement of the delivery machine, \<open>Outbox_History\<close> sequences of operations,
    \<open>Outbox_Correct\<close> the properties of the repository.
  \<^item> \<open>Dispatch\<close>: the dispatcher. \<open>Dispatch_Safety\<close> relates its calls to the outbox rows,
    \<open>Dispatch_Outcome\<close> says how each path ends the lease, \<open>Dispatch_Pass\<close> follows a pass over many
    leases.
  \<^item> \<open>Service\<close>: the message service and the \<open>Run\<close> loop. \<open>Service_Safety\<close> interprets \<open>machine\<close> on the
    service's operations, \<open>Service_Facts\<close> has the lemmas of a submission, \<open>Service_Correct\<close> the
    properties of service and dispatcher.
  \<^item> \<open>Identity_Graph\<close>: the upserts, participants, name search and rebinding of remote IDs.
    \<open>Graph_Safety\<close> holds the invariant \<open>graphOK\<close> and interprets \<open>machine\<close> on its operations,
    \<open>Graph_Correct\<close> the properties.
  \<^item> \<open>Reactions\<close>: deltas, embedded snapshots and their fences, seeds, the batch read;
    \<open>Reactions_Correct\<close> their convergence and the authority of snapshots.
  \<^item> \<open>Keys\<close>: \<open>internal/v2keys/derive.go\<close>. \<open>Extras\<close>: edits and deletions, the search for re-delivered
    content, payloads of messages.
  \<^item> \<open>Ingest_Base\<close>: events, counters, the worker's state, actions that may fail after they have
    written. \<open>Ingest_Threads\<close>: from an event to its identities and conversation. \<open>Ingest\<close>: the
    phases of a frame, retries and quarantine, the drain, the loop, the sink.
  \<^item> \<open>Ingest_Effects\<close>: the locale \<open>store_moves\<close> (a transitive relation that every write of the worker
    keeps) with rules for actions. \<open>Ingest_Worker\<close> extends it to \<open>worker_effect\<close>, what a frame does
    by way of identities and conversations; \<open>Ingest_Frames\<close> proves inside it what whole frames do.
    \<open>Ingest_Moves\<close> interprets it on the modelled repositories and with the message service as
    observer (\<open>wired\<close>). \<open>Ingest_Correct\<close>: frames are processed, the inbox is emptied, accounts stay
    apart, Google threads are not confused, minting ends.
  \<^item> \<open>Decode_Base\<close>: the events a decoder makes and the \<open>encoding/json\<close> it uses. \<open>Decode_Slack\<close>,
    \<open>Decode_Signal\<close>, \<open>Decode_Google\<close>, \<open>Decode_WhatsApp\<close>: one theory per platform, from the parsed frame to
    the events, with the helpers of \<open>internal/slacklive\<close>, \<open>internal/signallive/client.go\<close> and
    \<open>internal/client/client.go\<close> they call. \<open>Decode_Correct\<close>: every decoder's events are well formed,
    Signal's edits and reactions name the message the way its own frame was named, and a Slack frame
    reduces the roster of its conversation to the sender.
  \<^item> \<open>Tapback\<close>: \<open>internal/db/tapback.go\<close> and \<open>stub.go\<close>, the text forms of reactions; what is written as
    a tapback parses back. \<open>River\<close>: \<open>internal/river\<close>, the scoped IDs of several accounts of one provider.

  \<^bold>\<open>How concurrency and failure appear.\<close> The supervisor's goroutines are the enabled events of
  \<open>loopStep\<close>. Store operations are transactions, so a history is a sequence of them in any order;
  \<open>serviceStep\<close> also admits any other outbox operation between two steps of the service. What a
  dispatch meets is the record \<open>world\<close>: clock, context, driver faults and transports, read anew at
  every \<open>site\<close>; a submission meets a \<open>submit_world\<close>; the ingest worker meets an \<open>ingest_env\<close>, which
  says of every transaction by its number whether SQLite answers that it is busy and what the clock
  shows meanwhile. No theorem assumes anything of them but what it
  states. Transports, the blob store, the ID source, the digests, the parsers of protobuf and JSON
  (which hand the decoders the fields they read), \<open>encoding/json\<close>'s writer, the JID functions of
  the WhatsApp library and what \<open>strings.ToLower\<close> does outside ASCII are parameters. The worker's
  theorems hold for any decoder; \<open>stackDecoders\<close> is the table the program registers.

  \<^bold>\<open>Bounds and fuel.\<close> \<open>drainReadyWork\<close> takes fuel; \<open>drainFuel\<close> of the ready events suffices, which
  is part of property C13. \<open>mintConversationID\<close> searches a free ID without a bound; the model gives
  it one candidate more than there are conversations and answers \<open>Diverged\<close> beyond, which \<open>mint_ends\<close>
  excludes when the candidates differ. A transient failure is retried three times, as the code
  does. \<open>Run\<close> and \<open>Wait\<close> loop for as long as their context lives: they are functions of the finite
  list of iterations observed so far. Counters are 64-bit words. Times are integers of nanoseconds
  and columns integers of milliseconds; the code's \<open>int64\<close> does not overflow before the year 2262.

  \<^bold>\<open>Not modelled.\<close> The parsing of protobuf and JSON frames, the accessors of the WhatsApp library
  in \<open>internal/whatsapplive\<close>, the one-shot repairs of old databases (\<open>backfill_participants.go\<close>,
  \<open>repair_idspace.go\<close>, \<open>RepairTapbacks\<close>), people and address book, drafts and contact metadata (\<open>leftover.go\<close>). Network adapters, the web and terminal front
  ends, the command line, the migration tools and the opening of the database file are I/O over
  external libraries. The \<open>defaultFinalizeTime\<close> of a storage mutation is a failure of the driver;
  other failures of the SQLite driver appear as faults of a site in the service, as busy
  transactions in the ingest worker and not at all in the repositories.
\<close>

end
